(* ===== verification/Prelude.thy ===== *)
theory Prelude
  imports Main "HOL-Library.Word"
begin

text \<open>
  Shared vocabulary of the development: JavaScript strings as lists of UTF-16 code units
  with the string methods the frontend calls, JavaScript's \<open>||\<close> and \<open>??\<close> on optional
  values, and the collections of hints the component theories extend.
  \<^item> \<open>jstr\<close>: a string value of the program. A literal of the source is written
    \<open>js ''...''\<close>; text outside ASCII is written as its code units.
  \<^item> \<open>js_trim\<close>, \<open>js_includes\<close>, \<open>js_slice\<close>, \<open>js_replace\<close>, \<open>js_split\<close>,
    \<open>js_lower\<close>, \<open>js_upper\<close>, \<open>js_less\<close>, \<open>js_num\<close>, \<open>pad_start\<close>: the methods of
    \<open>String\<close> under their specification names. The case mappings are exact on ASCII and
    leave every other unit unchanged (Thai has no letter case).
\<close>

section \<open>Collections of hints\<close>

named_theorems js_eval \<open>equations that evaluate string operations on literals\<close>
named_theorems handler_defs \<open>definitions of event handlers\<close>
named_theorems view_defs \<open>definitions of rendered views\<close>

section \<open>Strings as UTF-16 code units\<close>

type_synonym u16 = "16 word"
type_synonym jstr = "u16 list"

definition js :: "string \<Rightarrow> jstr" where
  "js s = map of_char s"

lemma nat_of_char_lt: "(of_char c :: nat) < 256"
proof -
  have "(of_char c :: nat) mod 256 < 256" by simp
  then show ?thesis by (simp only: of_char_mod_256)
qed

lemma u16_of_char: "(of_char c :: u16) = word_of_nat (of_char c)"
  by (simp add: of_nat_of_char)

lemma unat_of_char [simp]: "unat (of_char c :: u16) = of_char c"
proof -
  have "(of_char c :: nat) < 2 ^ LENGTH(16)"
    using nat_of_char_lt[of c] by (rule order_less_le_trans) simp
  then show ?thesis
    by (simp add: u16_of_char unat_of_nat take_bit_eq_mod)
qed

lemma of_char_u16_lt: "(of_char c :: u16) < 256"
proof -
  have "unat (of_char c :: u16) < unat (256 :: u16)"
    using nat_of_char_lt[of c] by (simp only: unat_of_char) simp
  then show ?thesis by (simp only: word_less_nat_alt)
qed

lemma of_char_u16_eq [simp]: "(of_char c :: u16) = of_char d \<longleftrightarrow> c = d"
  by (metis unat_of_char of_char_eq_iff)

lemma js_inj [simp]: "js s = js t \<longleftrightarrow> s = t"
  unfolding js_def by (rule inj_map_eq_map) (simp add: inj_def)

lemma js_Nil [simp]: "js [] = []"
  by (simp add: js_def)

lemma js_eq_Nil [simp]: "js s = [] \<longleftrightarrow> s = []" "[] = js s \<longleftrightarrow> s = []"
  by (auto simp: js_def)

lemma length_js [simp]: "length (js s) = length s"
  by (simp add: js_def)

lemma js_append: "js (s @ t) = js s @ js t"
  by (simp add: js_def)

lemma js_Cons [js_eval]: "js (c # s) = of_char c # js s"
  by (simp add: js_def)

declare js_Nil [js_eval]

subsection \<open>Methods of strings\<close>

text \<open>WhiteSpace and LineTerminator of the language, the units that \<open>trim\<close> removes.\<close>

definition ws_units :: "u16 list" where
  "ws_units = [9, 10, 11, 12, 13, 32, 0xA0, 0x1680, 0x2000, 0x2001, 0x2002, 0x2003, 0x2004,
     0x2005, 0x2006, 0x2007, 0x2008, 0x2009, 0x200A, 0x2028, 0x2029, 0x202F, 0x205F, 0x3000,
     0xFEFF]"

definition is_ws :: "u16 \<Rightarrow> bool" where
  "is_ws c \<longleftrightarrow> c \<in> set ws_units"

definition js_trim :: "jstr \<Rightarrow> jstr" where
  "js_trim s = rev (dropWhile is_ws (rev (dropWhile is_ws s)))"

fun js_starts :: "jstr \<Rightarrow> jstr \<Rightarrow> bool" where
  "js_starts s [] = True"
| "js_starts [] (p # ps) = False"
| "js_starts (c # s) (p # ps) = (c = p \<and> js_starts s ps)"

fun js_index_of :: "jstr \<Rightarrow> jstr \<Rightarrow> nat option" where
  "js_index_of [] p = (if p = [] then Some 0 else None)"
| "js_index_of (c # s) p =
     (if js_starts (c # s) p then Some 0 else map_option Suc (js_index_of s p))"

definition js_includes :: "jstr \<Rightarrow> jstr \<Rightarrow> bool" where
  "js_includes s p \<longleftrightarrow> js_index_of s p \<noteq> None"

definition js_slice :: "nat \<Rightarrow> nat \<Rightarrow> jstr \<Rightarrow> jstr" where
  "js_slice a b s = take (b - a) (drop a s)"

text \<open>Replacement of the first occurrence by a string without dollar patterns.\<close>

definition js_replace :: "jstr \<Rightarrow> jstr \<Rightarrow> jstr \<Rightarrow> jstr" where
  "js_replace s p r =
     (case js_index_of s p of None \<Rightarrow> s
      | Some i \<Rightarrow> take i s @ r @ drop (i + length p) s)"

text \<open>\<open>split\<close> by a separator of one unit.\<close>

fun js_split :: "u16 \<Rightarrow> jstr \<Rightarrow> jstr list" where
  "js_split d [] = [[]]"
| "js_split d (c # s) =
     (if c = d then [] # js_split d s
      else (case js_split d s of [] \<Rightarrow> [[c]] | l # ls \<Rightarrow> (c # l) # ls))"

fun js_join :: "jstr \<Rightarrow> jstr list \<Rightarrow> jstr" where
  "js_join d [] = []"
| "js_join d [x] = x"
| "js_join d (x # y # ys) = x @ d @ js_join d (y # ys)"

definition js_lower :: "jstr \<Rightarrow> jstr" where
  "js_lower = map (\<lambda>c. if 65 \<le> c \<and> c \<le> 90 then c + 32 else c)"

definition js_upper :: "jstr \<Rightarrow> jstr" where
  "js_upper = map (\<lambda>c. if 97 \<le> c \<and> c \<le> 122 then c - 32 else c)"

text \<open>The relation \<open><\<close> on strings compares code units.\<close>

fun js_less :: "jstr \<Rightarrow> jstr \<Rightarrow> bool" where
  "js_less s [] = False"
| "js_less [] (d # t) = True"
| "js_less (c # s) (d # t) = (c < d \<or> (c = d \<and> js_less s t))"

fun nat_digits :: "nat \<Rightarrow> string" where
  "nat_digits n =
     (if n < 10 then [char_of (48 + n)]
      else nat_digits (n div 10) @ [char_of (48 + n mod 10)])"

definition js_num :: "int \<Rightarrow> jstr" where
  "js_num n = (if n < 0 then js (CHR ''-'' # nat_digits (nat (- n))) else js (nat_digits (nat n)))"

definition pad_start :: "nat \<Rightarrow> u16 \<Rightarrow> jstr \<Rightarrow> jstr" where
  "pad_start n c s = replicate (n - length s) c @ s"

declare nat_digits.simps [simp del]

section \<open>Optional values\<close>

text \<open>
  \<open>null\<close> and \<open>undefined\<close> are both \<open>None\<close>; \<open>nn x y\<close> is \<open>x ?? y\<close>, and
  \<open>or_str x y\<close> is \<open>x || y\<close> on an optional string, whose empty value is falsy.
\<close>

definition nn :: "'a option \<Rightarrow> 'a \<Rightarrow> 'a" where
  "nn x y = (case x of None \<Rightarrow> y | Some v \<Rightarrow> v)"

definition truthy :: "jstr option \<Rightarrow> bool" where
  "truthy x \<longleftrightarrow> (case x of None \<Rightarrow> False | Some s \<Rightarrow> s \<noteq> [])"

definition or_str :: "jstr option \<Rightarrow> jstr \<Rightarrow> jstr" where
  "or_str x y = (if truthy x then the x else y)"

text \<open>\<open>s || undefined\<close> and \<open>s || null\<close>.\<close>

definition opt_str :: "jstr \<Rightarrow> jstr option" where
  "opt_str s = (if s = [] then None else Some s)"

lemma nn_simps [simp]: "nn None y = y" "nn (Some v) y = v"
  by (simp_all add: nn_def)

lemma truthy_simps [simp]: "\<not> truthy None" "truthy (Some s) \<longleftrightarrow> s \<noteq> []"
  by (simp_all add: truthy_def)

lemma or_str_simps [simp]: "or_str None y = y" "or_str (Some s) y = (if s = [] then y else s)"
  by (simp_all add: or_str_def)

lemma opt_str_simps [simp]: "opt_str s = None \<longleftrightarrow> s = []" "opt_str s = Some t \<longleftrightarrow> s \<noteq> [] \<and> t = s"
  by (auto simp: opt_str_def)

section \<open>Sets\<close>

text \<open>A JavaScript \<open>Set\<close> of strings: its elements once each, in the order of insertion.\<close>

definition set_add :: "'a \<Rightarrow> 'a list \<Rightarrow> 'a list" where
  "set_add x s = (if x \<in> set s then s else s @ [x])"

definition set_delete :: "'a \<Rightarrow> 'a list \<Rightarrow> 'a list" where
  "set_delete x s = filter (\<lambda>y. y \<noteq> x) s"

definition set_toggle :: "'a \<Rightarrow> 'a list \<Rightarrow> 'a list" where
  "set_toggle x s = (if x \<in> set s then set_delete x s else set_add x s)"

lemma set_add_simps [simp]: "set (set_add x s) = insert x (set s)" "distinct (set_add x s) = distinct s"
  by (auto simp: set_add_def)

lemma set_delete_simps [simp]: "set (set_delete x s) = set s - {x}"
  "distinct s \<Longrightarrow> distinct (set_delete x s)"
  by (auto simp: set_delete_def)

lemma set_toggle_simps [simp]:
  "y \<in> set (set_toggle x s) \<longleftrightarrow> (if y = x then x \<notin> set s else y \<in> set s)"
  "distinct s \<Longrightarrow> distinct (set_toggle x s)"
  by (auto simp: set_toggle_def)

section \<open>Facts on the string methods\<close>

text \<open>Stripping a predicate from the end keeps the front, and leaves a last unit outside it.\<close>

definition strip_end :: "('a \<Rightarrow> bool) \<Rightarrow> 'a list \<Rightarrow> 'a list" where
  "strip_end P s = rev (dropWhile P (rev s))"

lemma strip_end_Nil [simp]: "strip_end P [] = []"
  by (simp add: strip_end_def)

lemma strip_end_snoc: "strip_end P (s @ [c]) = (if P c then strip_end P s else s @ [c])"
  by (simp add: strip_end_def)

lemma strip_end_Cons: "\<not> P c \<Longrightarrow> strip_end P (c # s) = c # strip_end P s"
  using strip_end_snoc[of P "[]" c]
  by (induction s rule: rev_induct) (auto simp: strip_end_snoc simp flip: append_Cons)

lemma strip_end_last: "strip_end P s \<noteq> [] \<Longrightarrow> \<not> P (last (strip_end P s))"
proof (induction s rule: rev_induct)
  case (snoc c s)
  then show ?case by (cases "P c") (auto simp: strip_end_snoc)
qed simp

lemma js_trim_strip: "js_trim s = strip_end is_ws (dropWhile is_ws s)"
  by (simp add: js_trim_def strip_end_def)

lemma js_trim_Nil [simp]: "js_trim [] = []"
  by (simp add: js_trim_def)

lemma js_trim_cases:
  obtains "js_trim s = []" | c t where "js_trim s = c # strip_end is_ws t" "\<not> is_ws c"
proof (cases "dropWhile is_ws s")
  case Nil
  then have "js_trim s = []" by (simp only: js_trim_strip strip_end_Nil)
  then show ?thesis by (rule that(1))
next
  case (Cons c t)
  then have "\<not> is_ws c" by (metis hd_dropWhile list.distinct(1) list.sel(1))
  with Cons show ?thesis using that(2) by (simp add: js_trim_strip strip_end_Cons)
qed

lemma js_trim_hd: "js_trim s \<noteq> [] \<Longrightarrow> \<not> is_ws (hd (js_trim s))"
  by (cases rule: js_trim_cases[of s]) auto

lemma js_trim_last: "js_trim s \<noteq> [] \<Longrightarrow> \<not> is_ws (last (js_trim s))"
  unfolding js_trim_strip by (rule strip_end_last)

lemma js_trim_id: "s \<noteq> [] \<Longrightarrow> \<not> is_ws (hd s) \<Longrightarrow> \<not> is_ws (last s) \<Longrightarrow> js_trim s = s"
proof -
  assume ne: "s \<noteq> []" and h: "\<not> is_ws (hd s)" and l: "\<not> is_ws (last s)"
  have "dropWhile is_ws s = s" using ne h by (cases s) auto
  moreover have "strip_end is_ws s = s"
    using ne l by (cases s rule: rev_cases) (auto simp: strip_end_snoc)
  ultimately show ?thesis by (simp add: js_trim_strip)
qed

lemma js_trim_trim [simp]: "js_trim (js_trim s) = js_trim s"
  by (cases "js_trim s = []") (auto intro!: js_trim_id dest: js_trim_hd js_trim_last)

lemma length_js_trim: "length (js_trim s) \<le> length s"
  unfolding js_trim_def
  by (metis length_dropWhile_le length_rev order_trans)

lemma js_starts_refl [simp]: "js_starts (s @ t) s"
  by (induction s) auto

lemma js_starts_iff: "js_starts s p \<longleftrightarrow> (\<exists>t. s = p @ t)"
  by (induction s p rule: js_starts.induct) auto

lemma js_index_of_Some:
  "js_index_of s p = Some i \<Longrightarrow> \<exists>t. s = take i s @ p @ t \<and> i \<le> length s"
proof (induction s arbitrary: i)
  case Nil
  then show ?case by (auto split: if_splits)
next
  case (Cons c s)
  show ?case
  proof (cases "js_starts (c # s) p")
    case True
    with Cons.prems show ?thesis by (auto simp: js_starts_iff)
  next
    case False
    with Cons.prems obtain j where "js_index_of s p = Some j" "i = Suc j"
      by (auto split: if_splits)
    with Cons.IH show ?thesis by auto
  qed
qed

lemma js_includes_iff: "js_includes s p \<longleftrightarrow> (\<exists>a b. s = a @ p @ b)"
proof
  assume "js_includes s p"
  then show "\<exists>a b. s = a @ p @ b"
    by (auto simp: js_includes_def dest!: js_index_of_Some)
next
  assume "\<exists>a b. s = a @ p @ b"
  then obtain a b where "s = a @ p @ b" by blast
  moreover have "js_index_of (a @ p @ b) p \<noteq> None"
  proof (induction a)
    case Nil
    have "js_starts (p @ b) p" by simp
    then show ?case by (cases "p @ b") auto
  next
    case (Cons c a)
    then show ?case by auto
  qed
  ultimately show "js_includes s p" by (simp add: js_includes_def)
qed

lemma js_includes_Nil [simp]: "js_includes s []"
  by (auto simp: js_includes_iff)

lemma js_less_irrefl [simp]: "\<not> js_less s s"
  by (induction s) auto

lemma js_less_trans: "js_less a b \<Longrightarrow> js_less b c \<Longrightarrow> js_less a c"
proof (induction a b arbitrary: c rule: js_less.induct)
  case (1 s)
  then show ?case by simp
next
  case (2 d t)
  then show ?case by (cases c) auto
next
  case (3 x s d t)
  then show ?case by (cases c) auto
qed

lemma js_less_linear: "js_less a b \<or> a = b \<or> js_less b a"
proof (induction a b rule: js_less.induct)
  case (1 s)
  then show ?case by (cases s) auto
qed auto

section \<open>Numbers in texts\<close>

text \<open>\<open>Number(s)\<close> on the decimal texts that option values and dates hold; \<open>None\<close> is NaN.\<close>

definition is_digit :: "u16 \<Rightarrow> bool" where
  "is_digit c \<longleftrightarrow> 48 \<le> c \<and> c \<le> 57"

definition digits_value :: "jstr \<Rightarrow> nat" where
  "digits_value s = foldl (\<lambda>n c. 10 * n + (unat c - 48)) 0 s"

definition js_Number :: "jstr \<Rightarrow> int option" where
  "js_Number s =
     (if s \<noteq> [] \<and> list_all is_digit s then Some (int (digits_value s))
      else if length s \<ge> 2 \<and> hd s = 45 \<and> list_all is_digit (tl s)
      then Some (- int (digits_value (tl s)))
      else None)"

lemma unat_u16_of_nat: "n < 256 \<Longrightarrow> unat (of_nat n :: u16) = n"
  by (simp add: unat_of_nat take_bit_eq_mod)

lemma digit_unit:
  assumes "n < 10"
  shows "of_char (char_of (48 + n) :: char) = (of_nat (48 + n) :: u16)" "is_digit (of_nat (48 + n))"
    "unat (of_nat (48 + n) :: u16) = 48 + n"
proof -
  show u: "unat (of_nat (48 + n) :: u16) = 48 + n"
    using assms by (intro unat_u16_of_nat) simp
  show "is_digit (of_nat (48 + n))"
    using assms u by (simp add: is_digit_def word_le_nat_alt)
  show "of_char (char_of (48 + n) :: char) = (of_nat (48 + n) :: u16)"
    using assms by (simp add: u16_of_char)
qed

lemma js_nat_digits:
  "js (nat_digits n) \<noteq> [] \<and> list_all is_digit (js (nat_digits n)) \<and> digits_value (js (nat_digits n)) = n"
proof (induction n rule: nat_digits.induct)
  case (1 n)
  show ?case
  proof (cases "n < 10")
    case True
    then have "js (nat_digits n) = [of_nat (48 + n)]"
      using digit_unit(1)[of n] by (simp add: nat_digits.simps[of n] js_Cons)
    with digit_unit(2,3)[OF True] show ?thesis by (simp add: digits_value_def)
  next
    case False
    have m: "n mod 10 < 10" by simp
    from False have "js (nat_digits n) = js (nat_digits (n div 10)) @ [of_nat (48 + n mod 10)]"
      using digit_unit(1)[OF m] by (simp add: nat_digits.simps[of n] js_append js_Cons)
    with 1[OF False] digit_unit(2,3)[OF m] show ?thesis by (simp add: digits_value_def)
  qed
qed

lemma js_Number_num [simp]: "js_Number (js_num n) = Some n"
proof (cases "n < 0")
  case True
  let ?d = "js (nat_digits (nat (- n)))"
  have s: "js_num n = 45 # ?d" using True by (simp add: js_num_def js_Cons of_char_def)
  have "\<not> is_digit 45" by (simp add: is_digit_def)
  moreover have "?d \<noteq> []" using js_nat_digits by blast
  ultimately show ?thesis using js_nat_digits[of "nat (- n)"] True
    by (cases ?d) (simp_all add: js_Number_def s)
next
  case False
  then show ?thesis using js_nat_digits[of "nat n"] by (simp add: js_Number_def js_num_def)
qed

end
