(* ===== verification/Async_UI.thy ===== *)
theory Async_UI
  imports Prelude
begin

text \<open>
  How an asynchronous React component runs. A handler is a program that updates the state,
  emits effects on its surroundings (reload a query, call a callback, navigate) and, at each
  \<open>await\<close>, sends a request and continues with the outcome and with the state at that later
  time. The values its closure captured stay those of the moment it started.
  \<^item> \<open>prog\<close>: such programs; \<open>exec\<close> runs one up to its next \<open>await\<close>.
  \<^item> locale \<open>async_ui\<close>: a component with the events its rendered view offers, their
    handlers and the changes its surroundings may make; its configurations, steps and
    reachable configurations, and the rules that lift an invariant, and one that looks back at
    the requests sent before, to all of them.
  \<^item> locale \<open>single_flight\<close>: the contract of a component with one busy flag, and the
    theorem that it never has two requests in flight and always ends up idle.
\<close>

section \<open>Programs with awaits\<close>

datatype (dead 's, 'q, dead 'r, 'f) prog =
    Ret 's
  | Eff 'f "('s, 'q, 'r, 'f) prog"
  | Call 's 'q "'r \<Rightarrow> 's \<Rightarrow> ('s, 'q, 'r, 'f) prog"

text \<open>Runs effects one after the other, then the rest.\<close>

definition effs :: "'f list \<Rightarrow> ('s, 'q, 'r, 'f) prog \<Rightarrow> ('s, 'q, 'r, 'f) prog" where
  "effs fs p = foldr Eff fs p"

lemma effs_simps [simp]: "effs [] p = p" "effs (f # fs) p = Eff f (effs fs p)"
  by (simp_all add: effs_def)

text \<open>Runs a program and continues with the state it ends in (awaiting another handler).\<close>

primrec and_then :: "('s, 'q, 'r, 'f) prog \<Rightarrow> ('s \<Rightarrow> ('s, 'q, 'r, 'f) prog) \<Rightarrow> ('s, 'q, 'r, 'f) prog" where
  "and_then (Ret s) g = g s"
| "and_then (Eff f p) g = Eff f (and_then p g)"
| "and_then (Call s q k) g = Call s q (\<lambda>r s'. and_then (k r s') g)"

text \<open>Feeds outcomes to a program until it ends or they run out (\<open>None\<close>).\<close>

fun answer :: "('s, 'q, 'r, 'f) prog \<Rightarrow> 'r list \<Rightarrow> 's option" where
  "answer (Ret s) rs = Some s"
| "answer (Eff f p) rs = answer p rs"
| "answer (Call s q k) [] = None"
| "answer (Call s q k) (r # rs) = answer (k r s) rs"

text \<open>The requests and effects of a program run alone with the given outcomes, in order.\<close>

fun trace_of :: "('s, 'q, 'r, 'f) prog \<Rightarrow> 'r list \<Rightarrow> ('q + 'f) list" where
  "trace_of (Ret s) rs = []"
| "trace_of (Eff f p) rs = Inr f # trace_of p rs"
| "trace_of (Call s q k) [] = [Inl q]"
| "trace_of (Call s q k) (r # rs) = Inl q # trace_of (k r s) rs"

text \<open>The state a program leaves when it first yields (at its end or at an \<open>await\<close>).\<close>

fun state_of :: "('s, 'q, 'r, 'f) prog \<Rightarrow> 's" where
  "state_of (Ret s) = s"
| "state_of (Eff f p) = state_of p"
| "state_of (Call s q k) = s"

text \<open>Every state a program sets satisfies \<open>I\<close> and every request it sends satisfies \<open>Q\<close>,
  whatever outcome arrives in whatever state that satisfies \<open>I\<close>.\<close>

primrec safe :: "('s \<Rightarrow> bool) \<Rightarrow> ('s \<Rightarrow> 'q \<Rightarrow> bool) \<Rightarrow> ('s, 'q, 'r, 'f) prog \<Rightarrow> bool" where
  "safe I Q (Ret s) \<longleftrightarrow> I s"
| "safe I Q (Eff f p) \<longleftrightarrow> safe I Q p"
| "safe I Q (Call s q k) \<longleftrightarrow> I s \<and> Q s q \<and> (\<forall>r s'. I s' \<longrightarrow> safe I Q (k r s'))"

text \<open>A program that ends at once, in a state that satisfies \<open>b\<close>.\<close>

primrec quiet :: "('s \<Rightarrow> bool) \<Rightarrow> ('s, 'q, 'r, 'f) prog \<Rightarrow> bool" where
  "quiet b (Ret s) \<longleftrightarrow> b s"
| "quiet b (Eff f p) \<longleftrightarrow> quiet b p"
| "quiet b (Call s q k) \<longleftrightarrow> False"

text \<open>A program that keeps the flag \<open>b\<close> set at every \<open>await\<close> and clears it at its end.\<close>

primrec settles :: "('s \<Rightarrow> bool) \<Rightarrow> ('s, 'q, 'r, 'f) prog \<Rightarrow> bool" where
  "settles b (Ret s) \<longleftrightarrow> \<not> b s"
| "settles b (Eff f p) \<longleftrightarrow> settles b p"
| "settles b (Call s q k) \<longleftrightarrow> b s \<and> (\<forall>r s'. b s' \<longrightarrow> settles b (k r s'))"

lemma safe_effs [simp]: "safe I Q (effs fs p) = safe I Q p"
  by (induction fs) auto

lemma quiet_effs [simp]: "quiet b (effs fs p) = quiet b p"
  by (induction fs) auto

lemma settles_effs [simp]: "settles b (effs fs p) = settles b p"
  by (induction fs) auto

lemma and_then_effs [simp]: "and_then (effs fs p) g = effs fs (and_then p g)"
  by (induction fs) auto

lemma safe_and_then: "safe I Q p \<Longrightarrow> (\<And>s. I s \<Longrightarrow> safe I Q (g s)) \<Longrightarrow> safe I Q (and_then p g)"
proof (induction p)
  case (Call s q k)
  then have "safe I Q (and_then (k r s') g)" if "I s'" for r s'
    using that by (metis rangeI safe.simps(3))
  with Call.prems show ?case by simp
qed auto

lemma settles_answer: "settles b p \<Longrightarrow> answer p rs = Some s \<Longrightarrow> \<not> b s"
  by (induction p rs rule: answer.induct) auto

text \<open>
  The same with the requests sent so far: \<open>H\<close> holds each with the state that sent it, and
  both the invariant and the policy may ask for an earlier one. While a program waits, others
  may send.
\<close>

primrec hsafe :: "(('s \<times> 'q) set \<Rightarrow> 's \<Rightarrow> bool) \<Rightarrow> (('s \<times> 'q) set \<Rightarrow> 's \<Rightarrow> 'q \<Rightarrow> bool) \<Rightarrow>
    ('s, 'q, 'r, 'f) prog \<Rightarrow> ('s \<times> 'q) set \<Rightarrow> bool" where
  "hsafe I Q (Ret s) H \<longleftrightarrow> I H s"
| "hsafe I Q (Eff f p) H \<longleftrightarrow> hsafe I Q p H"
| "hsafe I Q (Call s q k) H \<longleftrightarrow> I (insert (s, q) H) s \<and> Q H s q \<and>
     (\<forall>H' r s'. insert (s, q) H \<subseteq> H' \<longrightarrow> I H' s' \<longrightarrow> hsafe I Q (k r s') H')"

lemma hsafe_effs [simp]: "hsafe I Q (effs fs p) H = hsafe I Q p H"
  by (induction fs) auto

lemma hsafe_and_then:
  "hsafe I Q p H \<Longrightarrow> (\<And>H' s. H \<subseteq> H' \<Longrightarrow> I H' s \<Longrightarrow> hsafe I Q (g s) H') \<Longrightarrow> hsafe I Q (and_then p g) H"
proof (induction p arbitrary: H)
  case (Call s q k)
  have "hsafe I Q (and_then (k r s') g) H'" if "insert (s, q) H \<subseteq> H'" "I H' s'" for H' r s'
    using that Call.prems by (intro Call.IH[OF rangeI]) auto
  with Call.prems show ?case by simp
qed auto

text \<open>The requests of a trace.\<close>

definition requests_of :: "('q + 'f) list \<Rightarrow> 'q list" where
  "requests_of tr = concat (map (\<lambda>x. case x of Inl q \<Rightarrow> [q] | Inr f \<Rightarrow> []) tr)"

lemma requests_of_simps [simp]:
  "requests_of [] = []" "requests_of (Inl q # tr) = q # requests_of tr"
  "requests_of (Inr f # tr) = requests_of tr" "requests_of (a @ b) = requests_of a @ requests_of b"
  by (simp_all add: requests_of_def)

lemma trace_effs [simp]: "trace_of (effs fs p) rs = map Inr fs @ trace_of p rs"
  by (induction fs) auto

lemma answer_effs [simp]: "answer (effs fs p) rs = answer p rs"
  by (induction fs) auto

lemma requests_of_effs [simp]: "requests_of (map Inr fs) = []"
  by (induction fs) auto

section \<open>Configurations\<close>

text \<open>
  The state, the suspended handlers (each the request it waits for and its continuation)
  and the log of requests (each with the state that sent it) and effects, in order.
\<close>

record ('s, 'q, 'r, 'f) conf =
  st :: 's
  pend :: "('q \<times> ('r \<Rightarrow> 's \<Rightarrow> ('s, 'q, 'r, 'f) prog)) list"
  log :: "('s \<times> 'q + 'f) list"

fun exec :: "('s, 'q, 'r, 'f) prog \<Rightarrow> ('s, 'q, 'r, 'f) conf \<Rightarrow> ('s, 'q, 'r, 'f) conf" where
  "exec (Ret s) c = c\<lparr>st := s\<rparr>"
| "exec (Eff f p) c = exec p (c\<lparr>log := log c @ [Inr f]\<rparr>)"
| "exec (Call s q k) c = c\<lparr>st := s, pend := pend c @ [(q, k)], log := log c @ [Inl (s, q)]\<rparr>"

definition start :: "'s \<Rightarrow> ('s, 'q, 'r, 'f) conf" where
  "start s = \<lparr>st = s, pend = [], log = []\<rparr>"

lemma start_simps [simp]: "st (start s) = s" "pend (start s) = []" "log (start s) = []"
  by (simp_all add: start_def)

lemma exec_log: "\<exists>l. log (exec p c) = log c @ l"
  by (induction p c rule: exec.induct) auto

lemma exec_effs: "exec (effs fs p) c = exec p (c\<lparr>log := log c @ map Inr fs\<rparr>)"
  by (induction fs arbitrary: c) auto

text \<open>The \<open>i\<close>-th suspended handler resumes with an outcome.\<close>

definition resume :: "nat \<Rightarrow> 'r \<Rightarrow> ('s, 'q, 'r, 'f) conf \<Rightarrow> ('s, 'q, 'r, 'f) conf" where
  "resume i r c = exec (snd (pend c ! i) r (st c))
     (c\<lparr>pend := take i (pend c) @ drop (Suc i) (pend c)\<rparr>)"

lemma exec_pend_quiet: "quiet b p \<Longrightarrow> pend (exec p c) = pend c \<and> b (st (exec p c))"
  by (induction p c rule: exec.induct) auto

text \<open>A configuration all of whose parts satisfy the invariant and the request policy.\<close>

definition conf_ok :: "('s \<Rightarrow> bool) \<Rightarrow> ('s \<Rightarrow> 'q \<Rightarrow> bool) \<Rightarrow> ('s, 'q, 'r, 'f) conf \<Rightarrow> bool" where
  "conf_ok I Q c \<longleftrightarrow> I (st c) \<and>
     (\<forall>q k r s. (q, k) \<in> set (pend c) \<longrightarrow> I s \<longrightarrow> safe I Q (k r s)) \<and>
     (\<forall>s q. Inl (s, q) \<in> set (log c) \<longrightarrow> Q s q)"

lemma conf_ok_log: "conf_ok I Q c \<Longrightarrow> conf_ok I Q (c\<lparr>log := log c @ [Inr f]\<rparr>)"
  by (simp add: conf_ok_def)

lemma conf_ok_call:
  assumes "safe I Q (Call s q k)" and "conf_ok I Q c"
  shows "conf_ok I Q (c\<lparr>st := s, pend := pend c @ [(q, k)], log := log c @ [Inl (s, q)]\<rparr>)"
proof -
  have "safe I Q (k' r s')" if "(q', k') \<in> set (pend c @ [(q, k)])" "I s'" for q' k' r s'
    using that assms by (fastforce simp: conf_ok_def)
  moreover have "Q s' q'" if "Inl (s', q') \<in> set (log c @ [Inl (s, q)])" for s' q'
    using that assms by (auto simp: conf_ok_def)
  moreover have "I s" using assms(1) by simp
  ultimately show ?thesis unfolding conf_ok_def by simp
qed

lemma exec_safe: "safe I Q p \<Longrightarrow> conf_ok I Q c \<Longrightarrow> conf_ok I Q (exec p c)"
proof (induction p c rule: exec.induct)
  case (1 s c)
  then show ?case by (simp add: conf_ok_def)
next
  case (2 f p c)
  then show ?case by (simp add: conf_ok_log)
next
  case (3 s q k c)
  then show ?case using conf_ok_call[of I Q s q k c] by simp
qed

lemma resume_safe:
  assumes ok: "conf_ok I Q c" and i: "i < length (pend c)"
  shows "conf_ok I Q (resume i r c)"
proof -
  obtain q k where k: "pend c ! i = (q, k)" by force
  with i have "(q, k) \<in> set (pend c)" by (metis nth_mem)
  with ok k have "safe I Q (snd (pend c ! i) r (st c))" by (auto simp: conf_ok_def)
  moreover have "conf_ok I Q (c\<lparr>pend := take i (pend c) @ drop (Suc i) (pend c)\<rparr>)"
    using ok by (auto simp: conf_ok_def dest: in_set_takeD in_set_dropD)
  ultimately show ?thesis unfolding resume_def by (rule exec_safe)
qed

text \<open>A log in which each request satisfies its policy given the requests sent before it.\<close>

definition sent :: "('s \<times> 'q + 'f) list \<Rightarrow> ('s \<times> 'q) set" where
  "sent l = {x. Inl x \<in> set l}"

definition log_ok :: "(('s \<times> 'q) set \<Rightarrow> 's \<Rightarrow> 'q \<Rightarrow> bool) \<Rightarrow> ('s \<times> 'q + 'f) list \<Rightarrow> bool" where
  "log_ok Q l \<longleftrightarrow> (\<forall>before s q after. l = before @ Inl (s, q) # after \<longrightarrow> Q (sent before) s q)"

definition hist_ok ::
  "(('s \<times> 'q) set \<Rightarrow> 's \<Rightarrow> bool) \<Rightarrow> (('s \<times> 'q) set \<Rightarrow> 's \<Rightarrow> 'q \<Rightarrow> bool) \<Rightarrow> ('s, 'q, 'r, 'f) conf \<Rightarrow> bool" where
  "hist_ok I Q c \<longleftrightarrow> I (sent (log c)) (st c) \<and> log_ok Q (log c) \<and>
     (\<forall>q k H r s. (q, k) \<in> set (pend c) \<longrightarrow> sent (log c) \<subseteq> H \<longrightarrow> I H s \<longrightarrow> hsafe I Q (k r s) H)"

lemma sent_simps [simp]:
  "sent [] = {}" "sent (l @ [Inr f]) = sent l" "sent (l @ [Inl x]) = insert x (sent l)"
  by (auto simp: sent_def)

lemma log_ok_Nil [simp]: "log_ok Q []"
  by (simp add: log_ok_def)

lemma snoc_split:
  "l @ [x] = before @ y # after \<longleftrightarrow>
     (after = [] \<and> l = before \<and> x = y) \<or> (\<exists>after'. after = after' @ [x] \<and> l = before @ y # after')"
  by (cases after rule: rev_cases) auto

lemma log_ok_snoc [simp]:
  "log_ok Q (l @ [Inr f]) = log_ok Q l" "log_ok Q (l @ [Inl (s, q)]) \<longleftrightarrow> log_ok Q l \<and> Q (sent l) s q"
  unfolding log_ok_def snoc_split by blast+

lemma log_ok_request: "log_ok Q l \<Longrightarrow> Inl (s, q) \<in> set l \<Longrightarrow> \<exists>H \<subseteq> sent l. Q H s q"
  unfolding log_ok_def sent_def by (metis (no_types, lifting) Collect_mono UnI1 set_append split_list)

lemma exec_hist:
  assumes "hsafe I Q p (sent (log c))" and "log_ok Q (log c)"
    and "\<forall>q k H r s. (q, k) \<in> set (pend c) \<longrightarrow> sent (log c) \<subseteq> H \<longrightarrow> I H s \<longrightarrow> hsafe I Q (k r s) H"
  shows "hist_ok I Q (exec p c)"
  using assms
proof (induction p c rule: exec.induct)
  case (3 s q k c)
  have "hsafe I Q (k' r s') H" if "(q', k') \<in> set (pend c @ [(q, k)])" "insert (s, q) (sent (log c)) \<subseteq> H" "I H s'"
    for q' k' H r s'
    using that 3 by auto
  with 3 show ?case by (simp add: hist_ok_def)
qed (simp_all add: hist_ok_def)

lemma exec_user: "hsafe I Q p (sent (log c)) \<Longrightarrow> hist_ok I Q c \<Longrightarrow> hist_ok I Q (exec p c)"
  by (rule exec_hist) (simp_all add: hist_ok_def)

lemma resume_hist:
  assumes ok: "hist_ok I Q c" and i: "i < length (pend c)"
  shows "hist_ok I Q (resume i r c)"
proof -
  obtain q k where k: "pend c ! i = (q, k)" by force
  with i have "(q, k) \<in> set (pend c)" by (metis nth_mem)
  with ok k have "hsafe I Q (snd (pend c ! i) r (st c)) (sent (log c))" by (auto simp: hist_ok_def)
  with ok show ?thesis unfolding resume_def
    by (intro exec_hist) (auto simp: hist_ok_def dest: in_set_takeD in_set_dropD)
qed

text \<open>
  What the components with one busy flag promise: every request was sent under its policy,
  one is in flight exactly while the flag is set, and whatever the outcomes are the
  handler that waits for it ends with the flag clear.
\<close>

definition orderly :: "('s \<Rightarrow> bool) \<Rightarrow> ('s \<Rightarrow> 'q \<Rightarrow> bool) \<Rightarrow> ('s, 'q, 'r, 'f) conf \<Rightarrow> bool" where
  "orderly b Q c \<longleftrightarrow>
     (\<forall>s q. Inl (s, q) \<in> set (log c) \<longrightarrow> Q s q) \<and>
     length (pend c) = (if b (st c) then 1 else 0) \<and>
     (\<forall>q k r rs s. (q, k) \<in> set (pend c) \<longrightarrow> answer (k r (st c)) rs = Some s \<longrightarrow> \<not> b s)"

section \<open>Components\<close>

locale async_ui =
  fixes init :: "'s \<Rightarrow> bool"
    and enabled :: "'s \<Rightarrow> 'e \<Rightarrow> bool"
    and handle :: "'e \<Rightarrow> 's \<Rightarrow> ('s, 'q, 'r, 'f) prog"
    and env :: "'s \<Rightarrow> 's \<Rightarrow> bool"
begin

text \<open>
  A step is an event the view offers now, the outcome of one of the requests in flight
  (in any order), or a change made by the surroundings (new props, new query data).
\<close>

inductive ui_step :: "('s, 'q, 'r, 'f) conf \<Rightarrow> ('s, 'q, 'r, 'f) conf \<Rightarrow> bool" where
  user: "enabled (st c) e \<Longrightarrow> ui_step c (exec (handle e (st c)) c)"
| outcome: "i < length (pend c) \<Longrightarrow> ui_step c (resume i r c)"
| outside: "env (st c) s \<Longrightarrow> ui_step c (c\<lparr>st := s\<rparr>)"

inductive ui_reach :: "('s, 'q, 'r, 'f) conf \<Rightarrow> bool" where
  initial: "init s \<Longrightarrow> ui_reach (start s)"
| step: "ui_reach c \<Longrightarrow> ui_step c d \<Longrightarrow> ui_reach d"

lemma reach_user: "ui_reach c \<Longrightarrow> enabled (st c) e \<Longrightarrow> ui_reach (exec (handle e (st c)) c)"
  by (blast intro: step user)

lemma reach_outcome: "ui_reach c \<Longrightarrow> i < length (pend c) \<Longrightarrow> ui_reach (resume i r c)"
  by (blast intro: step outcome)

lemma reach_outside: "ui_reach c \<Longrightarrow> env (st c) s \<Longrightarrow> ui_reach (c\<lparr>st := s\<rparr>)"
  by (blast intro: step outside)

text \<open>Steps by their result, for exhibiting reachable configurations.\<close>

lemma reach_ret:
  "ui_reach c \<Longrightarrow> st c = s \<Longrightarrow> enabled s e \<Longrightarrow> handle e s = Ret s' \<Longrightarrow>
   \<exists>d. ui_reach d \<and> st d = s' \<and> pend d = pend c \<and> log d = log c"
  using reach_user[of c e] by (intro exI[of _ "exec (handle e (st c)) c"]) simp

lemma reach_call:
  "ui_reach c \<Longrightarrow> st c = s \<Longrightarrow> enabled s e \<Longrightarrow> handle e s = Call s' q k \<Longrightarrow>
   \<exists>d. ui_reach d \<and> st d = s' \<and> pend d = pend c @ [(q, k)] \<and> log d = log c @ [Inl (s', q)]"
  using reach_user[of c e] by (intro exI[of _ "exec (handle e (st c)) c"]) simp

lemma reach_env:
  "ui_reach c \<Longrightarrow> env (st c) s' \<Longrightarrow> \<exists>d. ui_reach d \<and> st d = s' \<and> pend d = pend c \<and> log d = log c"
  by (intro exI[of _ "c\<lparr>st := s'\<rparr>"]) (simp add: reach_outside)

text \<open>The rule for invariants: handlers are safe from every state of the invariant.\<close>

lemma ui_invariant:
  assumes init: "\<And>s. init s \<Longrightarrow> I s"
    and user: "\<And>s e. I s \<Longrightarrow> enabled s e \<Longrightarrow> safe I Q (handle e s)"
    and env: "\<And>s s'. I s \<Longrightarrow> env s s' \<Longrightarrow> I s'"
    and reach: "ui_reach c"
  shows "conf_ok I Q c"
  using reach
proof (induction rule: ui_reach.induct)
  case (initial s)
  with init show ?case by (simp add: conf_ok_def)
next
  case (step c d)
  from step.hyps(2) show ?case
  proof cases
    case (user e)
    with assms(2) step.IH have "safe I Q (handle e (st c))" by (auto simp: conf_ok_def)
    with user(1) step.IH show ?thesis by (simp add: exec_safe)
  next
    case (outcome i r)
    with step.IH show ?thesis by (simp add: resume_safe)
  next
    case (outside s)
    with env step.IH show ?thesis by (auto simp: conf_ok_def)
  qed
qed

text \<open>The rule for what may depend on the requests sent before.\<close>

lemma ui_history:
  assumes init: "\<And>s. init s \<Longrightarrow> I {} s"
    and user: "\<And>H s e. I H s \<Longrightarrow> enabled s e \<Longrightarrow> hsafe I Q (handle e s) H"
    and env: "\<And>H s s'. I H s \<Longrightarrow> env s s' \<Longrightarrow> I H s'"
    and reach: "ui_reach c"
  shows "hist_ok I Q c"
  using reach
proof (induction rule: ui_reach.induct)
  case (initial s)
  with init show ?case by (simp add: hist_ok_def)
next
  case (step c d)
  from step.hyps(2) show ?case
  proof cases
    case (user e)
    with assms(2) step.IH have "hsafe I Q (handle e (st c)) (sent (log c))" by (auto simp: hist_ok_def)
    from this step.IH show ?thesis unfolding user(1) by (rule exec_user)
  next
    case (outcome i r)
    with step.IH show ?thesis by (simp add: resume_hist)
  next
    case (outside s)
    with env step.IH show ?thesis by (auto simp: hist_ok_def)
  qed
qed

end

section \<open>One request at a time\<close>

text \<open>
  The contract of a component with one busy flag: an event offered while idle either stays
  idle or starts a request with the flag set, an event offered while busy only edits fields,
  and nothing outside touches the flag.
\<close>

locale single_flight = async_ui init enabled handle env
  for init :: "'s \<Rightarrow> bool"
    and enabled :: "'s \<Rightarrow> 'e \<Rightarrow> bool"
    and handle :: "'e \<Rightarrow> 's \<Rightarrow> ('s, 'q, 'r, 'f) prog"
    and env :: "'s \<Rightarrow> 's \<Rightarrow> bool" +
  fixes busy_flag :: "'s \<Rightarrow> bool"
  assumes init_idle: "init s \<Longrightarrow> \<not> busy_flag s"
    and idle_event: "enabled s e \<Longrightarrow> \<not> busy_flag s \<Longrightarrow> settles busy_flag (handle e s)"
    and busy_event: "enabled s e \<Longrightarrow> busy_flag s \<Longrightarrow> quiet busy_flag (handle e s)"
    and env_busy: "env s s' \<Longrightarrow> busy_flag s' = busy_flag s"
begin

definition flight_inv :: "('s, 'q, 'r, 'f) conf \<Rightarrow> bool" where
  "flight_inv c \<longleftrightarrow>
     (pend c = [] \<and> \<not> busy_flag (st c)) \<or>
     (\<exists>q k. pend c = [(q, k)] \<and> busy_flag (st c) \<and>
        (\<forall>r s. busy_flag s \<longrightarrow> settles busy_flag (k r s)))"

lemma exec_settles: "settles busy_flag p \<Longrightarrow> pend c = [] \<Longrightarrow> flight_inv (exec p c)"
  by (induction p c rule: exec.induct) (auto simp: flight_inv_def)

lemma reach_flight_inv: "ui_reach c \<Longrightarrow> flight_inv c"
proof (induction rule: ui_reach.induct)
  case (initial s)
  then show ?case by (simp add: flight_inv_def init_idle)
next
  case (step c d)
  from step.hyps(2) show ?case
  proof cases
    case (user e)
    show ?thesis
    proof (cases "busy_flag (st c)")
      case True
      with user have "quiet busy_flag (handle e (st c))" by (blast intro: busy_event)
      from exec_pend_quiet[OF this, of c] step.IH True user show ?thesis
        by (auto simp: flight_inv_def)
    next
      case False
      with user have "settles busy_flag (handle e (st c))" by (blast intro: idle_event)
      moreover have "pend c = []" using False step.IH by (auto simp: flight_inv_def)
      ultimately show ?thesis using user by (simp add: exec_settles)
    qed
  next
    case (outcome i r)
    then obtain q k where "pend c = [(q, k)]" "i = 0" "settles busy_flag (k r (st c))"
      using step.IH by (auto simp: flight_inv_def)
    then show ?thesis unfolding outcome(1) resume_def by (auto intro: exec_settles)
  next
    case (outside s)
    with step.IH env_busy show ?thesis by (auto simp: flight_inv_def)
  qed
qed

text \<open>At most one request is in flight, and exactly while the flag is set.\<close>

lemma one_in_flight:
  "ui_reach c \<Longrightarrow> length (pend c) = (if busy_flag (st c) then 1 else 0)"
  using reach_flight_inv[of c] by (auto simp: flight_inv_def)

text \<open>Whatever the outcomes are, a handler that runs to its end leaves the flag clear.\<close>

lemma ends_idle:
  "ui_reach c \<Longrightarrow> (q, k) \<in> set (pend c) \<Longrightarrow> answer (k r (st c)) rs = Some s \<Longrightarrow> \<not> busy_flag s"
  using reach_flight_inv[of c] settles_answer[of busy_flag "k r (st c)" rs s]
  by (auto simp: flight_inv_def)

text \<open>The rule for components: handlers keep the invariant and send under the policy.\<close>

lemma orderly_inv:
  assumes reach: "ui_reach c"
    and init: "\<And>s. init s \<Longrightarrow> I s"
    and user: "\<And>s e. I s \<Longrightarrow> enabled s e \<Longrightarrow> safe I Q (handle e s)"
    and env: "\<And>s s'. I s \<Longrightarrow> env s s' \<Longrightarrow> I s'"
  shows "orderly busy_flag Q c" "I (st c)"
proof -
  have "conf_ok I Q c" by (rule ui_invariant[OF init user env reach])
  then show "I (st c)" "orderly busy_flag Q c"
    using one_in_flight[OF reach] ends_idle[OF reach] by (simp_all add: conf_ok_def orderly_def)
qed

lemma orderly:
  "ui_reach c \<Longrightarrow> (\<And>s e. enabled s e \<Longrightarrow> safe (\<lambda>s. True) Q (handle e s)) \<Longrightarrow> orderly busy_flag Q c"
  by (rule orderly_inv(1)[where I = "\<lambda>s. True"]) auto

end

end
