(* ===== verification/Json.thy ===== *)
theory Json
  imports Prelude
begin

text \<open>
  JavaScript data as it crosses the wire: JSON values with property access, the texts
  \<open>String\<close> makes of them, \<open>JSON.stringify\<close>'s treatment of \<open>undefined\<close>, UTF-8, the
  form encoding of \<open>URLSearchParams\<close> and \<open>encodeURIComponent\<close>. The language's own
  functions only; the program's use of them is in theory Client.
\<close>

section \<open>JSON values\<close>

datatype json =
    JUndef
  | JNull
  | JBool bool
  | JNum int
  | JStr jstr
  | JArr "json list"
  | JObj "(string \<times> json) list"

text \<open>Property access \<open>x?.k\<close>: \<open>undefined\<close> where there is no such property.\<close>

fun jprop :: "json \<Rightarrow> string \<Rightarrow> json" where
  "jprop (JObj fs) k = (case map_of fs k of None \<Rightarrow> JUndef | Some v \<Rightarrow> v)"
| "jprop _ k = JUndef"

fun jtruthy :: "json \<Rightarrow> bool" where
  "jtruthy JUndef = False"
| "jtruthy JNull = False"
| "jtruthy (JBool b) = b"
| "jtruthy (JNum n) = (n \<noteq> 0)"
| "jtruthy (JStr s) = (s \<noteq> [])"
| "jtruthy (JArr _) = True"
| "jtruthy (JObj _) = True"

definition jnullish :: "json \<Rightarrow> bool" where
  "jnullish v \<longleftrightarrow> v = JUndef \<or> v = JNull"

text \<open>\<open>String(v)\<close>; an array joins its parts with commas, \<open>null\<close> and \<open>undefined\<close> parts empty.\<close>

fun js_string :: "json \<Rightarrow> jstr" where
  "js_string JUndef = js ''undefined''"
| "js_string JNull = js ''null''"
| "js_string (JBool b) = (if b then js ''true'' else js ''false'')"
| "js_string (JNum n) = js_num n"
| "js_string (JStr s) = s"
| "js_string (JArr vs) =
     js_join (js '','') (map (\<lambda>v. if jnullish v then [] else js_string v) vs)"
| "js_string (JObj _) = js ''[object Object]''"

text \<open>A value of an optional string, number or flag; \<open>undefined\<close> for an omitted field.\<close>

definition j_opt :: "('a \<Rightarrow> json) \<Rightarrow> 'a option \<Rightarrow> json" where
  "j_opt f x = (case x of None \<Rightarrow> JUndef | Some v \<Rightarrow> f v)"

definition j_null :: "('a \<Rightarrow> json) \<Rightarrow> 'a option \<Rightarrow> json" where
  "j_null f x = (case x of None \<Rightarrow> JNull | Some v \<Rightarrow> f v)"

text \<open>\<open>JSON.stringify\<close> followed by the server's parse: fields that are \<open>undefined\<close>
  disappear, in arrays they become \<open>null\<close>.\<close>

fun stringify :: "json \<Rightarrow> json" where
  "stringify (JObj fs) = JObj (map (\<lambda>(k, v). (k, stringify v)) (filter (\<lambda>(k, v). v \<noteq> JUndef) fs))"
| "stringify (JArr vs) = JArr (map (\<lambda>v. if v = JUndef then JNull else stringify v) vs)"
| "stringify v = v"

text \<open>Reading a property at a type, the erased casts of the source.\<close>

fun jstring :: "json \<Rightarrow> jstr option" where
  "jstring (JStr s) = Some s"
| "jstring _ = None"

fun jint :: "json \<Rightarrow> int" where
  "jint (JNum n) = n"
| "jint _ = 0"

fun jlist :: "json \<Rightarrow> json list" where
  "jlist (JArr vs) = vs"
| "jlist _ = []"

section \<open>UTF-16 to code points, UTF-8\<close>

definition is_high :: "u16 \<Rightarrow> bool" where
  "is_high c \<longleftrightarrow> 0xD800 \<le> c \<and> c \<le> 0xDBFF"

definition is_low :: "u16 \<Rightarrow> bool" where
  "is_low c \<longleftrightarrow> 0xDC00 \<le> c \<and> c \<le> 0xDFFF"

text \<open>Unpaired surrogates are \<open>None\<close>: \<open>URLSearchParams\<close> replaces them by U+FFFD,
  \<open>encodeURIComponent\<close> throws.\<close>

fun code_points :: "jstr \<Rightarrow> nat option list" where
  "code_points [] = []"
| "code_points [c] = [if is_high c \<or> is_low c then None else Some (unat c)]"
| "code_points (c # d # s) =
     (if is_high c \<and> is_low d
      then Some (0x10000 + (unat c - 0xD800) * 0x400 + (unat d - 0xDC00)) # code_points s
      else (if is_high c \<or> is_low c then None else Some (unat c)) # code_points (d # s))"

definition utf8 :: "nat \<Rightarrow> nat list" where
  "utf8 n =
     (if n < 0x80 then [n]
      else if n < 0x800 then [0xC0 + n div 0x40, 0x80 + n mod 0x40]
      else if n < 0x10000 then [0xE0 + n div 0x1000, 0x80 + n div 0x40 mod 0x40, 0x80 + n mod 0x40]
      else [0xF0 + n div 0x40000 mod 8, 0x80 + n div 0x1000 mod 0x40,
            0x80 + n div 0x40 mod 0x40, 0x80 + n mod 0x40])"

definition utf8_bytes :: "jstr \<Rightarrow> nat list" where
  "utf8_bytes s = concat (map (\<lambda>p. utf8 (nn p 0xFFFD)) (code_points s))"

lemma utf8_lt: "b \<in> set (utf8 n) \<Longrightarrow> b < 256"
  by (auto simp: utf8_def split: if_splits)

lemma utf8_bytes_lt: "b \<in> set (utf8_bytes s) \<Longrightarrow> b < 256"
  by (auto simp: utf8_bytes_def dest: utf8_lt)

section \<open>Percent encodings\<close>

definition hexd :: "nat \<Rightarrow> u16" where
  "hexd n = (if n < 10 then of_nat (48 + n) else of_nat (55 + n))"

definition unhexd :: "u16 \<Rightarrow> nat" where
  "unhexd c = (if c \<le> 57 then unat c - 48 else unat c - 55)"

definition pct :: "nat \<Rightarrow> jstr" where
  "pct b = [37, hexd (b div 16), hexd (b mod 16)]"

definition alnum :: "nat \<Rightarrow> bool" where
  "alnum b \<longleftrightarrow> (48 \<le> b \<and> b \<le> 57) \<or> (65 \<le> b \<and> b \<le> 90) \<or> (97 \<le> b \<and> b \<le> 122)"

text \<open>\<open>application/x-www-form-urlencoded\<close>: letters, digits and \<open>* - . _\<close> stay, a space
  becomes a plus sign.\<close>

definition form_byte :: "nat \<Rightarrow> jstr" where
  "form_byte b =
     (if b = 32 then [43]
      else if alnum b \<or> b \<in> {42, 45, 46, 95} then [of_nat b] else pct b)"

definition form_encode :: "jstr \<Rightarrow> jstr" where
  "form_encode s = concat (map form_byte (utf8_bytes s))"

text \<open>What the receiver's parser makes of it: the bytes of the value.\<close>

fun form_decode :: "jstr \<Rightarrow> nat list" where
  "form_decode [] = []"
| "form_decode [c] = [if c = 43 then 32 else unat c]"
| "form_decode [c, d] = (if c = 43 then 32 else unat c) # form_decode [d]"
| "form_decode (c # h # l # s) =
     (if c = 37 then (16 * unhexd h + unhexd l) # form_decode s
      else (if c = 43 then 32 else unat c) # form_decode (h # l # s))"

text \<open>\<open>encodeURIComponent\<close>; \<open>None\<close> is the URIError of an unpaired surrogate.\<close>

definition uri_byte :: "nat \<Rightarrow> jstr" where
  "uri_byte b = (if alnum b \<or> b \<in> {33, 39, 40, 41, 42, 45, 46, 95, 126} then [of_nat b] else pct b)"

definition encodeURIComponent :: "jstr \<Rightarrow> jstr option" where
  "encodeURIComponent s =
     (if None \<in> set (code_points s) then None
      else Some (concat (map uri_byte (utf8_bytes s))))"

text \<open>Every unit an encoded value contains.\<close>

definition form_unit :: "u16 \<Rightarrow> bool" where
  "form_unit c \<longleftrightarrow> c = 37 \<or> c = 43 \<or> alnum (unat c) \<or> unat c \<in> {42, 45, 46, 95}"

lemma hexd_cases:
  assumes "n < 16"
  obtains "hexd n = of_nat (48 + n)" "n < 10" | "hexd n = of_nat (55 + n)" "10 \<le> n"
  using assms by (cases "n < 10") (auto simp: hexd_def)

lemma unat_hexd: "n < 16 \<Longrightarrow> unat (hexd n) = (if n < 10 then 48 + n else 55 + n)"
  using unat_u16_of_nat[of "48 + n"] unat_u16_of_nat[of "55 + n"] by (simp add: hexd_def)

lemma unhexd_hexd: "n < 16 \<Longrightarrow> unhexd (hexd n) = n"
  by (simp add: unhexd_def word_le_nat_alt unat_hexd)

lemma form_byte_units: "b < 256 \<Longrightarrow> c \<in> set (form_byte b) \<Longrightarrow> form_unit c"
proof -
  assume b: "b < 256" and c: "c \<in> set (form_byte b)"
  have "alnum (unat (hexd n))" if "n < 16" for n
    using that by (auto simp: unat_hexd alnum_def)
  moreover have "b div 16 < 16" "b mod 16 < 16" using b by auto
  ultimately show ?thesis
    using b c by (auto simp: form_byte_def pct_def form_unit_def unat_u16_of_nat split: if_splits)
qed

lemma form_encode_units: "c \<in> set (form_encode s) \<Longrightarrow> form_unit c"
  by (auto simp: form_encode_def dest: utf8_bytes_lt intro: form_byte_units)

lemma form_unit_not_sep: "form_unit c \<Longrightarrow> c \<noteq> 38 \<and> c \<noteq> 61 \<and> c \<noteq> 35 \<and> c \<noteq> 63"
  by (auto simp: form_unit_def alnum_def)

lemma form_decode_plain: "c \<noteq> 37 \<Longrightarrow> form_decode (c # s) = (if c = 43 then 32 else unat c) # form_decode s"
  by (cases "c # s" rule: form_decode.cases) auto

lemma form_decode_byte: "b < 256 \<Longrightarrow> form_decode (form_byte b @ s) = b # form_decode s"
proof -
  assume b: "b < 256"
  then have d: "b div 16 < 16" "b mod 16 < 16" by auto
  consider "b = 32" | "b \<noteq> 32" "alnum b \<or> b \<in> {42, 45, 46, 95}"
    | "b \<noteq> 32" "\<not> (alnum b \<or> b \<in> {42, 45, 46, 95})" by blast
  then show ?thesis
  proof cases
    case 1
    then show ?thesis by (simp add: form_byte_def form_decode_plain)
  next
    case 2
    have u: "unat (of_nat b :: u16) = b" using b by (rule unat_u16_of_nat)
    with 2 have "(of_nat b :: u16) \<noteq> 37" "(of_nat b :: u16) \<noteq> 43"
      by (auto simp: alnum_def word_unat_eq_iff)
    with 2 u show ?thesis by (simp add: form_byte_def form_decode_plain)
  next
    case 3
    with d show ?thesis by (simp add: form_byte_def pct_def unhexd_hexd)
  qed
qed

lemma form_decode_bytes:
  "(\<And>b. b \<in> set bs \<Longrightarrow> b < 256) \<Longrightarrow> form_decode (concat (map form_byte bs)) = bs"
  by (induction bs) (auto simp: form_decode_byte)

lemma form_decode_encode: "form_decode (form_encode s) = utf8_bytes s"
  unfolding form_encode_def by (rule form_decode_bytes) (rule utf8_bytes_lt)

end
