(* ===== verification/View.thy ===== *)
theory View
  imports Prelude
begin

text \<open>
  What a component renders, without its styling: a tree of texts and controls. A control
  carries whether it is disabled and the event it raises, so a rendered tree determines the
  events the user can cause (\<open>offers\<close>) and the texts on the screen (\<open>texts\<close>). The
  component theories translate each JSX tree to a value of this type.
\<close>

datatype tone = Green | Red | Amber | Blue | Indigo | Purple | Neutral

datatype 'e view =
    Txt jstr
  | Box "'e view list"
  | Toned tone "'e view list"
  | Btn bool jstr 'e
  | Field bool jstr "jstr \<Rightarrow> 'e"
  | Select bool jstr "(jstr \<times> jstr) list" "jstr \<Rightarrow> 'e"
  | Check bool bool "bool \<Rightarrow> 'e"
  | Lnk jstr "'e view list"

text \<open>
  A disabled control raises nothing. A text field can be set to any text, a choice to one of
  its options, a check box to its other value. A submit button stands for its form: the
  browser does not submit a form whose submit button is disabled.
\<close>

fun offers :: "'e view \<Rightarrow> 'e set" where
  "offers (Txt s) = {}"
| "offers (Box vs) = (\<Union>v \<in> set vs. offers v)"
| "offers (Toned c vs) = (\<Union>v \<in> set vs. offers v)"
| "offers (Btn disabled label e) = (if disabled then {} else {e})"
| "offers (Field disabled value f) = (if disabled then {} else range f)"
| "offers (Select disabled value opts f) = (if disabled then {} else f ` fst ` set opts)"
| "offers (Check disabled checked f) = (if disabled then {} else {f (\<not> checked)})"
| "offers (Lnk href vs) = (\<Union>v \<in> set vs. offers v)"

fun texts :: "'e view \<Rightarrow> jstr list" where
  "texts (Txt s) = [s]"
| "texts (Box vs) = concat (map texts vs)"
| "texts (Toned c vs) = concat (map texts vs)"
| "texts (Btn disabled label e) = [label]"
| "texts (Field disabled value f) = []"
| "texts (Select disabled value opts f) = map snd opts"
| "texts (Check disabled checked f) = []"
| "texts (Lnk href vs) = concat (map texts vs)"

fun links :: "'e view \<Rightarrow> jstr list" where
  "links (Box vs) = concat (map links vs)"
| "links (Toned c vs) = concat (map links vs)"
| "links (Lnk href vs) = href # concat (map links vs)"
| "links _ = []"

text \<open>\<open>{b && <...>}\<close> and \<open>{b ? <...> : <...>}\<close>.\<close>

definition when_v :: "bool \<Rightarrow> 'e view list \<Rightarrow> 'e view" where
  "when_v b vs = Box (if b then vs else [])"

lemma offers_when [simp]: "offers (when_v b vs) = (if b then (\<Union>v \<in> set vs. offers v) else {})"
  by (simp add: when_v_def)

lemma texts_when [simp]: "texts (when_v b vs) = (if b then concat (map texts vs) else [])"
  by (simp add: when_v_def)

lemma links_when [simp]: "links (when_v b vs) = (if b then concat (map links vs) else [])"
  by (simp add: when_v_def)

text \<open>Translating the events of a part into those of the whole.\<close>

lemma offers_map: "offers (map_view g v) = g ` offers v"
  by (induction v rule: offers.induct) (auto simp: image_image image_UN)

lemma texts_map [simp]: "texts (map_view g v) = texts v"
proof (induction v rule: texts.induct)
  case (2 vs)
  then show ?case by (simp add: comp_def cong: map_cong)
next
  case (3 c vs)
  then show ?case by (simp add: comp_def cong: map_cong)
next
  case (8 href vs)
  then show ?case by (simp add: comp_def cong: map_cong)
qed simp_all

end
