(* ===== verification/Schema.thy ===== *)
theory Schema
  imports Json
begin

text \<open>
  The records of the API contract the modelled components read, with the fields of the
  schemas in \<open>frontend/src/api/generated.ts\<close> (aliased in \<open>types.ts\<close>) in their order.
  Field names carry a prefix for their record. A field that may be absent or null is an
  option; timestamps are the ISO texts the server sends.
\<close>

record 'a page =
  pg_items :: "'a list"
  pg_total :: int
  pg_limit :: int
  pg_offset :: int

record write_session_status =
  ws_active :: bool
  ws_closed_at :: "jstr option"
  ws_expires_at :: "jstr option"
  ws_opened_at :: "jstr option"
  ws_opened_by :: "int option"
  ws_opened_by_name :: "jstr option"
  ws_reason :: "jstr option"
  ws_session_id :: "int option"

record me_response =
  me_display_name :: jstr
  me_operator_id :: int
  me_role :: jstr
  me_username :: jstr
  me_work_session_required :: bool
  me_write_enabled :: bool
  me_write_session :: "write_session_status option"

record rank_metadata =
  rm_acting :: "jstr option"
  rm_rank_category :: "jstr option"
  rm_rank_en :: "jstr option"
  rm_rank_en_abbreviation :: "jstr option"
  rm_rank_th_abbreviation :: "jstr option"
  rm_rank_th_full :: "jstr option"
  rm_rank_th_original :: jstr

record rank_reference =
  rr_rank_category :: jstr
  rr_rank_en :: jstr
  rr_rank_en_abbreviation :: jstr
  rr_rank_th_abbreviation :: jstr
  rr_rank_th_full :: jstr
  rr_source :: jstr

record human =
  h_active :: bool
  h_branch :: "jstr option"
  h_category :: "jstr option"
  h_created_at :: jstr
  h_display_name :: jstr
  h_employee_id :: jstr
  h_english_name :: "jstr option"
  h_has_active_terminal_account :: "bool option"
  h_notes :: "jstr option"
  h_personnel_id :: "jstr option"
  h_position :: "jstr option"
  h_production_scope :: bool
  h_rank :: "jstr option"
  h_rank_metadata :: "rank_metadata option"
  h_scan_exempt :: bool
  h_scan_exempt_reason :: "jstr option"
  h_source :: jstr
  h_updated_at :: jstr

record device =
  d_active :: bool
  d_created_at :: jstr
  d_device_id :: int
  d_device_ip :: jstr
  d_device_name :: jstr
  d_firmware_version :: "jstr option"
  d_first_seen_at :: jstr
  d_last_seen_at :: jstr
  d_platform :: jstr
  d_serial_number :: jstr
  d_updated_at :: jstr

record enrollment =
  e_confirmed_at :: "jstr option"
  e_confirmed_by :: "jstr option"
  e_controlled_scan_time :: "jstr option"
  e_controlled_scan_window_until :: "jstr option"
  e_created_at :: jstr
  e_device_id :: int
  e_device_name :: "jstr option"
  e_device_uid :: "int option"
  e_employee_id :: jstr
  e_employee_name :: "jstr option"
  e_english_name :: "jstr option"
  e_enrollment_id :: int
  e_fingerprint_confirmed_at :: "jstr option"
  e_lifecycle_state :: jstr
  e_notes :: "jstr option"
  e_rank :: "jstr option"
  e_rank_metadata :: "rank_metadata option"
  e_reserved_at :: jstr
  e_reserved_by :: jstr
  e_reserved_device_user_id :: jstr
  e_status :: jstr
  e_terminal_created_at :: "jstr option"
  e_updated_at :: jstr

record mapping =
  m_created_at :: jstr
  m_device_user_id :: "jstr option"
  m_device_user_pk :: int
  m_employee_id :: jstr
  m_employee_name :: "jstr option"
  m_is_current :: bool
  m_mapping_id :: int
  m_mapping_lifecycle_state :: jstr
  m_mapping_source :: jstr
  m_mapping_status :: jstr
  m_updated_at :: jstr
  m_valid_from :: jstr
  m_valid_to :: "jstr option"
  m_verification_method :: "jstr option"
  m_verification_note :: "jstr option"
  m_verified_at :: "jstr option"
  m_verified_by :: "jstr option"

record mapping_eligibility_item =
  mi_confirmed_at :: "jstr option"
  mi_confirmed_by :: "jstr option"
  mi_controlled_attendance_id :: "int option"
  mi_controlled_scan_time :: "jstr option"
  mi_device_id :: int
  mi_device_name :: "jstr option"
  mi_device_user_active :: "bool option"
  mi_device_user_id :: "jstr option"
  mi_device_user_pk :: "int option"
  mi_employee_id :: jstr
  mi_employee_name :: "jstr option"
  mi_enrollment_id :: int
  mi_notes :: "jstr option"
  mi_reserved_device_user_id :: jstr

record terminal_inventory_item =
  ti_device_user_id :: jstr
  ti_fingerprint_count :: "int option"
  ti_human_active :: "bool option"
  ti_human_name :: "jstr option"
  ti_mapping_state :: jstr
  ti_name :: "jstr option"
  ti_privilege :: "int option"
  ti_uid :: "int option"

record terminal_inventory =
  inv_device_reachable :: bool
  inv_items :: "terminal_inventory_item list"

record human_terminal_account =
  ta_active :: bool
  ta_device_display_name :: "jstr option"
  ta_device_id :: int
  ta_device_user_id :: jstr
  ta_expected_name :: "jstr option"

record csv_missing_person =
  cm_branch :: "jstr option"
  cm_display_name :: jstr
  cm_employee_id :: jstr
  cm_rank :: "jstr option"

record csv_row_result =
  cr_changed_fields :: "jstr list option"
  cr_classification :: jstr
  cr_data :: "json option"
  cr_employee_id :: "jstr option"
  cr_reason_key :: "jstr option"
  cr_reason_th :: "jstr option"
  cr_row_number :: int
  cr_warning_th :: "jstr option"

record csv_summary =
  cs_error :: int
  cs_new :: int
  cs_unchanged :: int
  cs_update :: int

record csv_preview =
  cp_missing :: "csv_missing_person list option"
  cp_rows :: "csv_row_result list"
  cp_summary :: csv_summary

end
