(* ===== verification/Client.thy ===== *)
theory Client
  imports Json
begin

text \<open>
  The API client, \<open>frontend/src/api/client.ts\<close>: the session token, the two request
  functions with their error classification, the raw downloads and uploads, the query string
  builder, and one definition per method of the \<open>api\<close> object giving the request it sends.
  \<open>fetch\<close> and the server are outside: a request is a value, and its outcome (a network
  failure or a response) is an argument of the receiving half.
\<close>

section \<open>Token storage\<close>

text \<open>\<open>sessionStorage\<close>, as far as the program uses it: a map from keys to texts.\<close>

type_synonym storage = "string \<rightharpoonup> jstr"

definition TOKEN_KEY :: string where
  "TOKEN_KEY = ''adms_token''"

definition BASE_URL :: "jstr option \<Rightarrow> jstr" where
  "BASE_URL vite_api_base_url = nn vite_api_base_url (js ''http://192.168.1.248:8081'')"

definition getToken :: "storage \<Rightarrow> jstr option" where
  "getToken ss = ss TOKEN_KEY"

definition setToken :: "jstr \<Rightarrow> storage \<Rightarrow> storage" where
  "setToken token ss = ss(TOKEN_KEY \<mapsto> token)"

definition clearToken :: "storage \<Rightarrow> storage" where
  "clearToken ss = ss(TOKEN_KEY := None)"

lemma token_simps [simp]:
  "getToken (setToken x ss) = Some x" "getToken (clearToken ss) = None"
  "k \<noteq> TOKEN_KEY \<Longrightarrow> clearToken ss k = ss k" "k \<noteq> TOKEN_KEY \<Longrightarrow> setToken x ss k = ss k"
  by (simp_all add: getToken_def setToken_def clearToken_def)

section \<open>Errors\<close>

text \<open>
  What a rejected call throws: the two error classes of the client, or another Error (the
  network's TypeError, a SyntaxError of a body that is not JSON) with its message.
\<close>

datatype js_error =
    ApiClientError (err_status: int) (err_code: jstr) (err_message: jstr)
  | UnauthorizedError
  | OtherError jstr

type_synonym reply = "js_error + json"

text \<open>\<open>err instanceof ApiClientError && err.code === c\<close>.\<close>

fun is_api_code :: "js_error \<Rightarrow> string \<Rightarrow> bool" where
  "is_api_code (ApiClientError st c m) k \<longleftrightarrow> c = js k"
| "is_api_code _ k \<longleftrightarrow> False"

definition api_code_in :: "js_error \<Rightarrow> string list \<Rightarrow> bool" where
  "api_code_in e ks \<longleftrightarrow> list_ex (is_api_code e) ks"

fun error_message :: "js_error \<Rightarrow> jstr" where
  "error_message (ApiClientError st c m) = m"
| "error_message UnauthorizedError = js ''unauthorized''"
| "error_message (OtherError m) = m"

section \<open>Requests and responses\<close>

record js_file =
  file_name :: jstr
  file_text :: jstr

datatype payload = NoBody | JsonBody json | FormBody string js_file

record http_request =
  req_url :: jstr
  req_method :: string
  req_headers :: "(string \<times> jstr) list"
  req_payload :: payload

text \<open>A response; \<open>res_body\<close> is \<open>None\<close> where the text is not JSON.\<close>

record http_response =
  res_status :: int
  res_text :: jstr
  res_body :: "json option"

type_synonym fetch_outcome = "jstr + http_response"

definition res_ok :: "http_response \<Rightarrow> bool" where
  "res_ok res \<longleftrightarrow> 200 \<le> res_status res \<and> res_status res \<le> 299"

text \<open>What a method of \<open>api\<close> passes on: the path and the \<open>RequestInit\<close>.\<close>

record call =
  call_path :: jstr
  call_method :: string
  call_body :: "json option"

definition api_get :: "jstr \<Rightarrow> call" where
  "api_get p = \<lparr>call_path = p, call_method = ''GET'', call_body = None\<rparr>"

definition send_empty :: "string \<Rightarrow> jstr \<Rightarrow> call" where
  "send_empty m p = \<lparr>call_path = p, call_method = m, call_body = None\<rparr>"

definition send_json :: "string \<Rightarrow> jstr \<Rightarrow> json \<Rightarrow> call" where
  "send_json m p v = \<lparr>call_path = p, call_method = m, call_body = Some (stringify v)\<rparr>"

definition init_headers :: "call \<Rightarrow> (string \<times> jstr) list" where
  "init_headers c = (''Accept'', js ''application/json'') #
     (case call_body c of None \<Rightarrow> [] | Some _ \<Rightarrow> [(''Content-Type'', js ''application/json'')])"

definition auth_header :: "storage \<Rightarrow> (string \<times> jstr) list" where
  "auth_header ss =
     (if truthy (getToken ss) then [(''Authorization'', js ''Bearer '' @ the (getToken ss))] else [])"

definition call_payload :: "call \<Rightarrow> payload" where
  "call_payload c = (case call_body c of None \<Rightarrow> NoBody | Some v \<Rightarrow> JsonBody v)"

text \<open>The sending half of \<open>request\<close> and of \<open>requestAuth\<close>.\<close>

definition request_send :: "jstr \<Rightarrow> storage \<Rightarrow> call \<Rightarrow> http_request" where
  "request_send base ss c =
     \<lparr>req_url = base @ call_path c, req_method = call_method c, req_headers = init_headers c @ auth_header ss,
      req_payload = call_payload c\<rparr>"

definition requestAuth_send :: "jstr \<Rightarrow> call \<Rightarrow> http_request" where
  "requestAuth_send base c =
     \<lparr>req_url = base @ call_path c, req_method = call_method c, req_headers = init_headers c,
      req_payload = call_payload c\<rparr>"

text \<open>The error of a response that is not ok: the envelope's code and message when it has a
  code, otherwise the status.\<close>

definition http_code :: "http_response \<Rightarrow> jstr" where
  "http_code res = js ''HTTP_'' @ js_num (res_status res)"

definition error_of :: "http_response \<Rightarrow> js_error" where
  "error_of res =
     (case res_body res of
        None \<Rightarrow> ApiClientError (res_status res) (http_code res) (res_text res)
      | Some b \<Rightarrow>
          (let e = jprop b ''error''; m = jprop e ''message'' in
           if jtruthy (jprop e ''code'')
           then ApiClientError (res_status res) (js_string (jprop e ''code''))
                  (if m = JUndef then [] else js_string m)
           else ApiClientError (res_status res) (http_code res) (res_text res)))"

definition parse_body :: "http_response \<Rightarrow> reply" where
  "parse_body res = (case res_body res of None \<Rightarrow> Inl (OtherError (js ''SyntaxError'')) | Some b \<Rightarrow> Inr b)"

text \<open>The receiving halves: the storage afterwards and what the promise settles to.\<close>

definition request_recv :: "storage \<Rightarrow> fetch_outcome \<Rightarrow> storage \<times> reply" where
  "request_recv ss out =
     (case out of
        Inl m \<Rightarrow> (ss, Inl (OtherError m))
      | Inr res \<Rightarrow>
          if res_status res = 401 then (clearToken ss, Inl UnauthorizedError)
          else if \<not> res_ok res then (ss, Inl (error_of res))
          else if res_status res = 204 then (ss, Inr JUndef)
          else (ss, parse_body res))"

definition requestAuth_recv :: "fetch_outcome \<Rightarrow> reply" where
  "requestAuth_recv out =
     (case out of
        Inl m \<Rightarrow> Inl (OtherError m)
      | Inr res \<Rightarrow> if \<not> res_ok res then Inl (error_of res) else parse_body res)"

section \<open>Downloads and uploads\<close>

text \<open>The methods that call \<open>fetch\<close> themselves: a blob is the response as it is.\<close>

definition download_send :: "jstr \<Rightarrow> storage \<Rightarrow> jstr \<Rightarrow> http_request" where
  "download_send base ss p =
     \<lparr>req_url = base @ p, req_method = ''GET'', req_headers = auth_header ss, req_payload = NoBody\<rparr>"

definition download_recv :: "fetch_outcome \<Rightarrow> js_error + http_response" where
  "download_recv out =
     (case out of
        Inl m \<Rightarrow> Inl (OtherError m)
      | Inr res \<Rightarrow>
          if \<not> res_ok res then Inl (ApiClientError (res_status res) (http_code res) (res_text res))
          else Inr res)"

definition upload_send :: "jstr \<Rightarrow> storage \<Rightarrow> jstr \<Rightarrow> js_file \<Rightarrow> http_request" where
  "upload_send base ss p f =
     \<lparr>req_url = base @ p, req_method = ''POST'',
      req_headers = (''Accept'', js ''application/json'') # auth_header ss,
      req_payload = FormBody ''file'' f\<rparr>"

definition upload_recv :: "fetch_outcome \<Rightarrow> reply" where
  "upload_recv out =
     (case out of
        Inl m \<Rightarrow> Inl (OtherError m)
      | Inr res \<Rightarrow>
          if \<not> res_ok res then
            (let e = jprop (nn (res_body res) JNull) ''error'';
                 c = jprop e ''code''; m = jprop e ''message'' in
             Inl (ApiClientError (res_status res)
                    (if jnullish c then http_code res else js_string c)
                    (if jnullish m then res_text res else js_string m)))
          else parse_body res)"

definition exportHumansCsv_path :: "bool option \<Rightarrow> jstr" where
  "exportHumansCsv_path active =
     js ''/api/v1/humans/export.csv'' @
     (case active of None \<Rightarrow> [] | Some b \<Rightarrow> js ''?active='' @ js_string (JBool b))"

definition importTemplateCsv_path :: jstr where
  "importTemplateCsv_path = js ''/api/v1/humans/import/template.csv''"

definition previewHumansImport_path :: jstr where
  "previewHumansImport_path = js ''/api/v1/humans/import/preview''"

definition commitHumansImport_path :: jstr where
  "commitHumansImport_path = js ''/api/v1/humans/import/commit''"

definition absenceTemplate_path :: jstr where
  "absenceTemplate_path = js ''/api/v1/absences/import-template''"

definition absenceImport_path :: "bool \<Rightarrow> jstr" where
  "absenceImport_path commit =
     js ''/api/v1/absences/import/'' @ (if commit then js ''commit'' else js ''preview'')"

definition monthlyReportCsv_path :: "jstr \<Rightarrow> jstr" where
  "monthlyReportCsv_path month = js ''/api/v1/attendance/monthly.csv?month='' @ month"

section \<open>Query strings\<close>

text \<open>\<open>URLSearchParams\<close>: \<open>set\<close> replaces the value of a key or appends it.\<close>

fun q_set :: "string \<Rightarrow> jstr \<Rightarrow> (string \<times> jstr) list \<Rightarrow> (string \<times> jstr) list" where
  "q_set k v [] = [(k, v)]"
| "q_set k v ((k', v') # q) = (if k = k' then (k, v) # q else (k', v') # q_set k v q)"

fun qs_entries :: "(string \<times> json) list \<Rightarrow> (string \<times> jstr) list \<Rightarrow> (string \<times> jstr) list" where
  "qs_entries [] q = q"
| "qs_entries ((k, v) # ps) q =
     (if jnullish v then qs_entries ps q else qs_entries ps (q_set k (js_string v) q))"

definition q_string :: "(string \<times> jstr) list \<Rightarrow> jstr" where
  "q_string q = js_join [38] (map (\<lambda>(k, v). form_encode (js k) @ [61] @ form_encode v) q)"

definition qs :: "(string \<times> json) list \<Rightarrow> jstr" where
  "qs params =
     (let s = q_string (qs_entries params []) in if s \<noteq> [] then js ''?'' @ s else [])"

section \<open>The methods of the api object\<close>

subsection \<open>Sessions and health\<close>

definition api_login :: "jstr \<Rightarrow> jstr \<Rightarrow> call" where
  "api_login username password = send_json ''POST'' (js ''/api/v1/auth/login'')
     (JObj [(''username'', JStr username), (''password'', JStr password)])"

definition api_logout :: call where
  "api_logout = send_empty ''POST'' (js ''/api/v1/auth/logout'')"

definition api_me :: call where
  "api_me = api_get (js ''/api/v1/auth/me'')"

definition api_changePassword :: "jstr \<Rightarrow> jstr \<Rightarrow> call" where
  "api_changePassword current next = send_json ''POST'' (js ''/api/v1/auth/change-password'')
     (JObj [(''current_password'', JStr current), (''new_password'', JStr next)])"

definition api_healthz :: call where
  "api_healthz = api_get (js ''/healthz'')"

definition api_health :: call where
  "api_health = api_get (js ''/api/v1/health'')"

definition api_dashboard :: call where
  "api_dashboard = api_get (js ''/api/v1/dashboard/summary'')"

subsection \<open>Humans\<close>

definition api_humans :: "(string \<times> json) list \<Rightarrow> call" where
  "api_humans params = api_get (js ''/api/v1/humans'' @ qs params)"

definition api_human :: "jstr \<Rightarrow> call" where
  "api_human employeeId = api_get (js ''/api/v1/humans/'' @ employeeId)"

definition api_createHuman :: "json \<Rightarrow> call" where
  "api_createHuman body = send_json ''POST'' (js ''/api/v1/humans'') body"

definition api_updateHuman :: "jstr \<Rightarrow> json \<Rightarrow> call" where
  "api_updateHuman employeeId body =
     send_json ''PATCH'' (js ''/api/v1/humans/'' @ employeeId) body"

definition api_updateHumanEnglishName :: "jstr \<Rightarrow> jstr option \<Rightarrow> call" where
  "api_updateHumanEnglishName employeeId englishName =
     send_json ''PATCH'' (js ''/api/v1/humans/'' @ employeeId)
       (JObj [(''english_name'', j_null JStr englishName)])"

definition api_humanBranches :: call where
  "api_humanBranches = api_get (js ''/api/v1/humans/branches'')"

definition api_setDepartments :: "jstr list \<Rightarrow> call" where
  "api_setDepartments names = send_json ''PUT'' (js ''/api/v1/humans/branches'')
     (JObj [(''names'', JArr (map JStr names))])"

definition api_bulkScanExempt :: "jstr list \<Rightarrow> bool \<Rightarrow> jstr option \<Rightarrow> call" where
  "api_bulkScanExempt employeeIds scanExempt reason =
     send_json ''POST'' (js ''/api/v1/humans/scan-exempt'')
       (JObj [(''employee_ids'', JArr (map JStr employeeIds)),
              (''scan_exempt'', JBool scanExempt),
              (''scan_exempt_reason'', j_null JStr reason)])"

definition api_humansSummary :: call where
  "api_humansSummary = api_get (js ''/api/v1/humans/summary'')"

definition api_humanTerminalAccounts :: "jstr \<Rightarrow> call" where
  "api_humanTerminalAccounts employeeId =
     api_get (js ''/api/v1/humans/'' @ employeeId @ js ''/terminal-accounts'')"

definition api_setScanExempt :: "jstr \<Rightarrow> bool \<Rightarrow> jstr option \<Rightarrow> call" where
  "api_setScanExempt employeeId scanExempt reason =
     send_json ''PATCH'' (js ''/api/v1/humans/'' @ employeeId)
       (JObj [(''scan_exempt'', JBool scanExempt), (''scan_exempt_reason'', j_null JStr reason)])"

definition api_removeFromScanner :: "jstr \<Rightarrow> call" where
  "api_removeFromScanner employeeId =
     send_empty ''POST'' (js ''/api/v1/humans/'' @ employeeId @ js ''/remove-from-scanner'')"

definition api_deactivateHuman :: "jstr \<Rightarrow> jstr \<Rightarrow> call" where
  "api_deactivateHuman employeeId reason =
     send_json ''POST'' (js ''/api/v1/humans/'' @ employeeId @ js ''/deactivate'')
       (JObj [(''reason'', JStr reason)])"

definition api_reactivateHuman :: "jstr \<Rightarrow> jstr option \<Rightarrow> call" where
  "api_reactivateHuman employeeId reason =
     send_json ''POST'' (js ''/api/v1/humans/'' @ employeeId @ js ''/reactivate'')
       (JObj [(''reason'', j_null JStr reason)])"

definition api_syncTerminalName :: "jstr \<Rightarrow> call" where
  "api_syncTerminalName employeeId =
     send_empty ''POST'' (js ''/api/v1/humans/'' @ employeeId @ js ''/sync-terminal-name'')"

definition api_terminalNameMismatches :: call where
  "api_terminalNameMismatches = api_get (js ''/api/v1/humans/terminal-name-mismatches'')"

definition api_syncAllTerminalNames :: call where
  "api_syncAllTerminalNames = send_empty ''POST'' (js ''/api/v1/humans/sync-terminal-names'')"

subsection \<open>Devices, attendance, mappings\<close>

definition api_devices :: call where
  "api_devices = api_get (js ''/api/v1/devices'')"

definition api_device :: "int \<Rightarrow> call" where
  "api_device deviceId = api_get (js ''/api/v1/devices/'' @ js_num deviceId)"

definition api_deviceUsers :: "(string \<times> json) list \<Rightarrow> call" where
  "api_deviceUsers params = api_get (js ''/api/v1/device-users'' @ qs params)"

definition api_deviceUser :: "int \<Rightarrow> call" where
  "api_deviceUser pk = api_get (js ''/api/v1/device-users/'' @ js_num pk)"

definition api_attendance :: "(string \<times> json) list \<Rightarrow> call" where
  "api_attendance params = api_get (js ''/api/v1/attendance'' @ qs params)"

definition api_attendanceDetail :: "int \<Rightarrow> call" where
  "api_attendanceDetail i = api_get (js ''/api/v1/attendance/'' @ js_num i)"

definition api_mappings :: "(string \<times> json) list \<Rightarrow> call" where
  "api_mappings params = api_get (js ''/api/v1/mappings'' @ qs params)"

definition api_mapping :: "int \<Rightarrow> call" where
  "api_mapping i = api_get (js ''/api/v1/mappings/'' @ js_num i)"

definition api_mappingEligibility :: call where
  "api_mappingEligibility = api_get (js ''/api/v1/mappings/eligibility'')"

definition api_createMapping :: "json \<Rightarrow> call" where
  "api_createMapping body = send_json ''POST'' (js ''/api/v1/mappings'') body"

definition api_unattributedAttendance :: "(string \<times> json) list \<Rightarrow> call" where
  "api_unattributedAttendance params = api_get (js ''/api/v1/attendance/unattributed'' @ qs params)"

definition api_dailyRoster :: "jstr option \<Rightarrow> call" where
  "api_dailyRoster day = api_get (js ''/api/v1/attendance/daily'' @
     (if truthy day then js ''?date='' @ the day else []))"

definition api_monthlyReport :: "jstr \<Rightarrow> call" where
  "api_monthlyReport month = api_get (js ''/api/v1/attendance/monthly?month='' @ month)"

definition api_readiness :: call where
  "api_readiness = api_get (js ''/api/v1/attendance/readiness'')"

definition api_tracking :: call where
  "api_tracking = api_get (js ''/api/v1/attendance/tracking'')"

definition api_setTracking :: "jstr \<Rightarrow> jstr option \<Rightarrow> call" where
  "api_setTracking mode countingFrom = send_json ''POST'' (js ''/api/v1/attendance/tracking'')
     (JObj [(''mode'', JStr mode), (''counting_from'', j_null JStr countingFrom)])"

subsection \<open>Enrollments\<close>

definition enrollmentTransition :: "int \<Rightarrow> string \<Rightarrow> jstr \<Rightarrow> jstr option \<Rightarrow> call" where
  "enrollmentTransition i action operator notes =
     send_json ''POST'' (js ''/api/v1/enrollments/'' @ js_num i @ js ''/'' @ js action)
       (JObj [(''operator'', JStr operator), (''notes'', j_opt JStr notes)])"

definition api_enrollments :: "(string \<times> json) list \<Rightarrow> call" where
  "api_enrollments params = api_get (js ''/api/v1/enrollments'' @ qs params)"

definition api_enrollment :: "int \<Rightarrow> call" where
  "api_enrollment i = api_get (js ''/api/v1/enrollments/'' @ js_num i)"

definition api_enrollmentNextActions :: "int \<Rightarrow> call" where
  "api_enrollmentNextActions i =
     api_get (js ''/api/v1/enrollments/'' @ js_num i @ js ''/next-actions'')"

definition api_reserveEnrollment :: "json \<Rightarrow> call" where
  "api_reserveEnrollment body = send_json ''POST'' (js ''/api/v1/enrollments/reserve'') body"

definition api_createTerminalAccount :: "int \<Rightarrow> jstr \<Rightarrow> jstr \<Rightarrow> call" where
  "api_createTerminalAccount i displayName operator =
     send_json ''POST'' (js ''/api/v1/enrollments/'' @ js_num i @ js ''/create-terminal-account'')
       (JObj [(''display_name'', JStr displayName), (''operator'', JStr operator)])"

definition api_startFingerprintEnrollment :: "int \<Rightarrow> jstr \<Rightarrow> jstr option \<Rightarrow> call" where
  "api_startFingerprintEnrollment i operator notes =
     enrollmentTransition i ''start-fingerprint-enrollment'' operator notes"

definition api_confirmFingerprintEnrolled :: "int \<Rightarrow> jstr \<Rightarrow> jstr option \<Rightarrow> call" where
  "api_confirmFingerprintEnrolled i operator notes =
     enrollmentTransition i ''confirm-fingerprint'' operator notes"

definition api_startControlledScan :: "int \<Rightarrow> jstr \<Rightarrow> jstr option \<Rightarrow> call" where
  "api_startControlledScan i operator notes =
     enrollmentTransition i ''start-controlled-scan'' operator notes"

definition api_confirmControlledScan :: "int \<Rightarrow> jstr \<Rightarrow> call" where
  "api_confirmControlledScan i operator =
     send_json ''POST'' (js ''/api/v1/enrollments/'' @ js_num i @ js ''/confirm-controlled-scan'')
       (JObj [(''operator'', JStr operator)])"

definition api_markReadyForMapping :: "int \<Rightarrow> jstr \<Rightarrow> jstr option \<Rightarrow> call" where
  "api_markReadyForMapping i operator notes =
     enrollmentTransition i ''mark-ready-for-mapping'' operator notes"

definition api_cancelEnrollment :: "int \<Rightarrow> jstr \<Rightarrow> jstr \<Rightarrow> call" where
  "api_cancelEnrollment i operator notes =
     send_json ''POST'' (js ''/api/v1/enrollments/'' @ js_num i @ js ''/cancel'')
       (JObj [(''operator'', JStr operator), (''notes'', JStr notes)])"

definition api_ranks :: call where
  "api_ranks = api_get (js ''/api/v1/reference/ranks'')"

subsection \<open>Absences, holidays, reports\<close>

definition api_absenceTypes :: call where
  "api_absenceTypes = api_get (js ''/api/v1/absence-types'')"

definition api_absences :: "(string \<times> json) list \<Rightarrow> call" where
  "api_absences params = api_get (js ''/api/v1/absences'' @ qs params)"

definition api_createAbsence :: "json \<Rightarrow> call" where
  "api_createAbsence body = send_json ''POST'' (js ''/api/v1/absences'') body"

definition api_cancelAbsence :: "int \<Rightarrow> jstr \<Rightarrow> call" where
  "api_cancelAbsence absenceId reason =
     send_json ''POST'' (js ''/api/v1/absences/'' @ js_num absenceId @ js ''/cancel'')
       (JObj [(''reason'', JStr reason)])"

definition api_holidays :: "int option \<Rightarrow> call" where
  "api_holidays year = api_get (js ''/api/v1/holidays'' @
     (case year of None \<Rightarrow> [] | Some y \<Rightarrow> if y \<noteq> 0 then js ''?year='' @ js_num y else []))"

definition api_setHoliday :: "jstr \<Rightarrow> jstr \<Rightarrow> call" where
  "api_setHoliday holidayDate nameTh = send_json ''POST'' (js ''/api/v1/holidays'')
     (JObj [(''holiday_date'', JStr holidayDate), (''name_th'', JStr nameTh)])"

definition api_deleteHoliday :: "jstr \<Rightarrow> call" where
  "api_deleteHoliday holidayDate = send_empty ''DELETE'' (js ''/api/v1/holidays/'' @ holidayDate)"

definition api_telegramPreview :: call where
  "api_telegramPreview = api_get (js ''/api/v1/reports/telegram/preview'')"

definition api_telegramSend :: call where
  "api_telegramSend = send_empty ''POST'' (js ''/api/v1/reports/telegram/send'')"

subsection \<open>Terminal management\<close>

definition api_terminalInventory :: call where
  "api_terminalInventory = api_get (js ''/api/v1/terminal-management/inventory'')"

definition api_removeTerminalFingerprint :: "int \<Rightarrow> jstr \<Rightarrow> jstr \<Rightarrow> int option \<Rightarrow> call" where
  "api_removeTerminalFingerprint deviceId deviceUserId operator fingerId =
     send_json ''POST'' (js ''/api/v1/terminal-management/fingerprint/remove'')
       (JObj [(''device_id'', JNum deviceId), (''device_user_id'', JStr deviceUserId),
              (''operator'', JStr operator), (''finger_id'', j_null JNum fingerId)])"

definition api_removeTerminalAccount :: "int \<Rightarrow> jstr \<Rightarrow> jstr \<Rightarrow> bool \<Rightarrow> call" where
  "api_removeTerminalAccount deviceId deviceUserId operator acknowledgeActiveHuman =
     send_json ''POST'' (js ''/api/v1/terminal-management/account/remove'')
       (JObj [(''device_id'', JNum deviceId), (''device_user_id'', JStr deviceUserId),
              (''operator'', JStr operator),
              (''acknowledge_active_human'', JBool acknowledgeActiveHuman)])"

definition api_startFingerprintReenroll :: "jstr \<Rightarrow> jstr \<Rightarrow> call" where
  "api_startFingerprintReenroll deviceUserId operator =
     send_json ''POST'' (js ''/api/v1/terminal-management/fingerprint/reenroll'')
       (JObj [(''device_user_id'', JStr deviceUserId), (''operator'', JStr operator)])"

text \<open>\<open>None\<close> where \<open>encodeURIComponent\<close> throws before any request is made.\<close>

definition api_fingerprintReenrollStatus :: "jstr \<Rightarrow> call option" where
  "api_fingerprintReenrollStatus deviceUserId =
     map_option (\<lambda>s. api_get (js ''/api/v1/terminal-management/fingerprint/reenroll-status?device_user_id='' @ s))
       (encodeURIComponent deviceUserId)"

subsection \<open>Operators, audit, write session, schedule\<close>

definition api_listOperators :: call where
  "api_listOperators = api_get (js ''/api/v1/operators'')"

definition api_createOperator :: "json \<Rightarrow> call" where
  "api_createOperator body = send_json ''POST'' (js ''/api/v1/operators'') body"

definition api_toggleOperatorActive :: "int \<Rightarrow> bool \<Rightarrow> call" where
  "api_toggleOperatorActive operatorId active =
     send_json ''POST'' (js ''/api/v1/operators/'' @ js_num operatorId @ js ''/toggle-active'')
       (JObj [(''active'', JBool active)])"

definition api_auditEvents :: "(string \<times> json) list \<Rightarrow> call" where
  "api_auditEvents params = api_get (js ''/api/v1/audit/events'' @ qs params)"

definition api_auditEventTypes :: call where
  "api_auditEventTypes = api_get (js ''/api/v1/audit/event-types'')"

definition api_writeSessionStatus :: call where
  "api_writeSessionStatus = api_get (js ''/api/v1/write-session'')"

definition api_openWriteSession :: "jstr \<Rightarrow> call" where
  "api_openWriteSession reason = send_json ''POST'' (js ''/api/v1/write-session/open'')
     (JObj [(''reason'', JStr reason)])"

definition api_closeWriteSession :: call where
  "api_closeWriteSession = send_empty ''POST'' (js ''/api/v1/write-session/close'')"

definition api_getScheduleSettings :: call where
  "api_getScheduleSettings = api_get (js ''/api/v1/admin/schedule-settings'')"

definition api_updateScheduleSettings :: "bool \<Rightarrow> call" where
  "api_updateScheduleSettings enabled =
     send_json ''POST'' (js ''/api/v1/admin/schedule-settings'') (JObj [(''enabled'', JBool enabled)])"

section \<open>Facts and properties\<close>

subsection \<open>Query strings read back\<close>

text \<open>The receiver's reading of a query: split at \<open>&\<close>, each part at its first \<open>=\<close>.\<close>

definition parse_pair :: "jstr \<Rightarrow> nat list \<times> nat list" where
  "parse_pair p = (form_decode (takeWhile (\<lambda>c. c \<noteq> 61) p), form_decode (drop 1 (dropWhile (\<lambda>c. c \<noteq> 61) p)))"

definition parse_query :: "jstr \<Rightarrow> (nat list \<times> nat list) list" where
  "parse_query s = (if s = [] then [] else map parse_pair (js_split 38 s))"

lemma js_split_plain: "d \<notin> set x \<Longrightarrow> js_split d (x @ d # s) = x # js_split d s"
  by (induction x) auto

lemma js_split_one: "d \<notin> set x \<Longrightarrow> js_split d x = [x]"
  by (induction x) auto

lemma js_split_join:
  "xs \<noteq> [] \<Longrightarrow> (\<And>x. x \<in> set xs \<Longrightarrow> d \<notin> set x) \<Longrightarrow> js_split d (js_join [d] xs) = xs"
proof (induction "[d]" xs rule: js_join.induct)
  case (2 x)
  then show ?case by (simp add: js_split_one)
next
  case (3 x y ys)
  then show ?case by (simp add: js_split_plain)
qed simp

lemma form_encode_seps: "38 \<notin> set (form_encode s)" "61 \<notin> set (form_encode s)"
  using form_encode_units form_unit_not_sep by blast+

lemma parse_pair_encoded:
  "parse_pair (form_encode k @ [61] @ form_encode v) = (utf8_bytes k, utf8_bytes v)"
proof -
  have "takeWhile (\<lambda>c. c \<noteq> 61) (form_encode k @ 61 # form_encode v) = form_encode k"
    using form_encode_seps(2)[of k] by (subst takeWhile_append2) auto
  moreover have "dropWhile (\<lambda>c. c \<noteq> 61) (form_encode k @ 61 # form_encode v) = 61 # form_encode v"
    using form_encode_seps(2)[of k] by (subst dropWhile_append2) auto
  ultimately show ?thesis by (simp add: parse_pair_def form_decode_encode)
qed

lemma q_set_new: "k \<notin> fst ` set q \<Longrightarrow> q_set k v q = q @ [(k, v)]"
  by (induction q) auto

lemma qs_entries_distinct:
  "distinct (map fst ps) \<Longrightarrow> fst ` set q \<inter> fst ` set ps = {} \<Longrightarrow>
   qs_entries ps q = q @ map (\<lambda>(k, v). (k, js_string v)) (filter (\<lambda>(k, v). \<not> jnullish v) ps)"
proof (induction ps arbitrary: q)
  case (Cons p ps)
  obtain k v where p: "p = (k, v)" by force
  show ?case
  proof (cases "jnullish v")
    case True
    with Cons p show ?thesis by auto
  next
    case False
    have "k \<notin> fst ` set q" using Cons.prems p by auto
    with False p Cons.prems Cons.IH[of "q @ [(k, js_string v)]"] show ?thesis
      by (auto simp: q_set_new)
  qed
qed simp

lemma q_string_eq_Nil: "q_string q = [] \<longleftrightarrow> q = []"
  by (cases q rule: list.exhaust; cases "tl q") (auto simp: q_string_def split: prod.splits)

lemma qs_parsed:
  assumes "distinct (map fst ps)"
  shows "parse_query (drop 1 (qs ps)) =
    map (\<lambda>(k, v). (utf8_bytes (js k), utf8_bytes (js_string v))) (filter (\<lambda>(k, v). \<not> jnullish v) ps)"
proof -
  let ?q = "map (\<lambda>(k, v). (k, js_string v)) (filter (\<lambda>(k, v). \<not> jnullish v) ps)"
  let ?xs = "map (\<lambda>(k, v). form_encode (js k) @ [61] @ form_encode v) ?q"
  have q: "qs_entries ps [] = ?q" using qs_entries_distinct[OF assms, of "[]"] by simp
  show ?thesis
  proof (cases "?q = []")
    case True
    then show ?thesis using q by (simp add: qs_def q_string_def parse_query_def filter_empty_conv)
  next
    case False
    then have "js_split 38 (js_join [38] ?xs) = ?xs"
      by (intro js_split_join) (auto simp: form_encode_seps)
    with False q show ?thesis
      by (simp add: qs_def Let_def q_string_eq_Nil parse_query_def js_Cons)
        (simp add: q_string_def split_def parse_pair_encoded[simplified])
  qed
qed

text \<open>C9: A query string built by \<open>qs\<close> is read back by the server as exactly the
  parameters that were given a value, in order, key by key and byte by byte: absent
  (\<open>undefined\<close> or \<open>null\<close>) parameters leave no trace, and no value, whatever characters
  a search box feeds in, can end its parameter or start another one.\<close>

theorem qs_roundtrip:
  assumes "distinct (map fst ps)"
  shows "parse_query (drop 1 (qs ps)) =
    map (\<lambda>(k, v). (utf8_bytes (js k), utf8_bytes (js_string v))) (filter (\<lambda>(k, v). \<not> jnullish v) ps)"
  using assms by (rule qs_parsed)

theorem qs_roundtrip_witness:
  "parse_query (drop 1 (qs [(''search'', JStr (js ''a&b=1'')), (''active'', JUndef), (''limit'', JNum 25)])) =
     [(utf8_bytes (js ''search''), utf8_bytes (js ''a&b=1'')), (utf8_bytes (js ''limit''), utf8_bytes (js_num 25))]"
  using qs_roundtrip[of "[(''search'', JStr (js ''a&b=1'')), (''active'', JUndef), (''limit'', JNum 25)]"]
  by (simp add: jnullish_def)

subsection \<open>Classification of outcomes\<close>

text \<open>The envelope of a refusal: an object with an error object that has a code.\<close>

definition envelope :: "http_response \<Rightarrow> json \<Rightarrow> json \<Rightarrow> bool" where
  "envelope res code message \<longleftrightarrow>
     (\<exists>fs es. res_body res = Some (JObj fs) \<and> map_of fs ''error'' = Some (JObj es) \<and>
        map_of es ''code'' = Some code \<and> jtruthy code \<and>
        message = (case map_of es ''message'' of None \<Rightarrow> JUndef | Some m \<Rightarrow> m))"

lemma jprop_Some: "jprop v k = x \<Longrightarrow> x \<noteq> JUndef \<Longrightarrow> \<exists>fs. v = JObj fs \<and> map_of fs k = Some x"
  by (cases v) (auto split: option.splits)

lemma envelope_iff:
  "envelope res code message \<longleftrightarrow>
     (\<exists>b. res_body res = Some b \<and> code = jprop (jprop b ''error'') ''code'' \<and> jtruthy code \<and>
        message = jprop (jprop b ''error'') ''message'')"
proof
  assume "envelope res code message"
  then obtain fs es where "res_body res = Some (JObj fs)" "map_of fs ''error'' = Some (JObj es)"
    "map_of es ''code'' = Some code" "jtruthy code"
    "message = (case map_of es ''message'' of None \<Rightarrow> JUndef | Some m \<Rightarrow> m)"
    unfolding envelope_def by blast
  then show "\<exists>b. res_body res = Some b \<and> code = jprop (jprop b ''error'') ''code'' \<and> jtruthy code \<and>
        message = jprop (jprop b ''error'') ''message''"
    by (intro exI[of _ "JObj fs"]) simp
next
  assume "\<exists>b. res_body res = Some b \<and> code = jprop (jprop b ''error'') ''code'' \<and> jtruthy code \<and>
        message = jprop (jprop b ''error'') ''message''"
  then obtain b where b: "res_body res = Some b" "code = jprop (jprop b ''error'') ''code''" "jtruthy code"
    "message = jprop (jprop b ''error'') ''message''" by blast
  from b(3) have "code \<noteq> JUndef" by (cases code) simp_all
  from jprop_Some[OF b(2)[symmetric] this] obtain es where
    es: "jprop b ''error'' = JObj es" "map_of es ''code'' = Some code" by blast
  from jprop_Some[OF es(1)] obtain fs where fs: "b = JObj fs" "map_of fs ''error'' = Some (JObj es)" by auto
  have "message = (case map_of es ''message'' of None \<Rightarrow> JUndef | Some m \<Rightarrow> m)" by (simp add: b(4) es(1))
  with b(1,3) es(2) fs show "envelope res code message" unfolding envelope_def by blast
qed

lemma error_of_cases:
  "error_of res = ApiClientError n c m \<longleftrightarrow> n = res_status res \<and>
     ((\<exists>code message. envelope res code message \<and> c = js_string code \<and>
         m = (if message = JUndef then [] else js_string message)) \<or>
      ((\<nexists>code message. envelope res code message) \<and> c = http_code res \<and> m = res_text res))"
  by (auto simp: error_of_def envelope_iff Let_def split: option.split)

lemma error_of_api: "\<exists>n c m. error_of res = ApiClientError n c m"
  by (auto simp: error_of_def Let_def split: option.split)

text \<open>C8: Every outcome of a request, exactly. Without a response the caller gets the failure of the
  network itself. With one it gets a value precisely on a 2xx status whose body is JSON, and
  that JSON, or nothing on a 204; UnauthorizedError precisely on 401; a syntax error precisely on
  a 2xx status without JSON; and otherwise an ApiClientError with that status, whose code and
  message are those of the server's envelope when the body has one, and \<open>HTTP_\<close> with the status
  and the status text when it has none. The stored token is gone precisely after a 401 and
  nothing else of the storage ever changes.\<close>

theorem request_outcome:
  assumes "request_recv ss out = (ss', r)"
  shows "(\<forall>m. out = Inl m \<longrightarrow> ss' = ss \<and> r = Inl (OtherError m)) \<and>
         (\<forall>res. out = Inr res \<longrightarrow>
            (\<forall>v. r = Inr v \<longleftrightarrow> res_ok res \<and>
               (if res_status res = 204 then v = JUndef else res_body res = Some v)) \<and>
            (r = Inl UnauthorizedError \<longleftrightarrow> res_status res = 401) \<and>
            (\<forall>m. r = Inl (OtherError m) \<longleftrightarrow> res_ok res \<and> res_status res \<noteq> 204 \<and> res_body res = None \<and>
               m = js ''SyntaxError'') \<and>
            (\<forall>n c m. r = Inl (ApiClientError n c m) \<longleftrightarrow>
               \<not> res_ok res \<and> res_status res \<noteq> 401 \<and> n = res_status res \<and>
               ((\<exists>code message. envelope res code message \<and> c = js_string code \<and>
                   m = (if message = JUndef then [] else js_string message)) \<or>
                ((\<nexists>code message. envelope res code message) \<and>
                   c = js ''HTTP_'' @ js_num (res_status res) \<and> m = res_text res))) \<and>
            (\<forall>k. ss' k = (if res_status res = 401 \<and> k = ''adms_token'' then None else ss k)))"
proof (cases out)
  case (Inl m)
  with assms show ?thesis by (simp add: request_recv_def)
next
  case (Inr res)
  consider "res_status res = 401" | "res_status res \<noteq> 401" "\<not> res_ok res" | "res_ok res" "res_status res \<noteq> 401" by blast
  then show ?thesis
  proof cases
    case 1
    then have "ss' = clearToken ss" "r = Inl UnauthorizedError" "\<not> res_ok res"
      using Inr assms by (simp_all add: request_recv_def res_ok_def)
    with 1 Inr show ?thesis by (simp add: clearToken_def TOKEN_KEY_def)
  next
    case 2
    with Inr assms have r: "r = Inl (error_of res)" "ss' = ss" by (simp_all add: request_recv_def)
    have "error_of res \<noteq> UnauthorizedError" "error_of res \<noteq> OtherError m" for m
      using error_of_api[of res] by auto
    with 2 Inr show ?thesis by (simp add: r error_of_cases http_code_def)
  next
    case 3
    with Inr assms have r: "r = (if res_status res = 204 then Inr JUndef else parse_body res)" "ss' = ss"
      by (simp_all add: request_recv_def split: if_splits)
    show ?thesis using 3 Inr by (cases "res_body res") (simp_all add: r parse_body_def eq_commute)
  qed
qed

theorem request_outcome_witness:
  "snd (request_recv (setToken (js ''t'') Map.empty) (Inr \<lparr>res_status = 409, res_text = js ''Conflict'',
      res_body = Some (JObj [(''error'', JObj [(''code'', JStr (js ''ENROLLMENT_CONFLICT''))])])\<rparr>)) =
     Inl (ApiClientError 409 (js ''ENROLLMENT_CONFLICT'') [])"
proof -
  let ?res = "\<lparr>res_status = 409, res_text = js ''Conflict'',
      res_body = Some (JObj [(''error'', JObj [(''code'', JStr (js ''ENROLLMENT_CONFLICT''))])])\<rparr>"
  obtain ss' r where rr: "request_recv (setToken (js ''t'') Map.empty) (Inr ?res) = (ss', r)" by force
  have "envelope ?res (JStr (js ''ENROLLMENT_CONFLICT'')) JUndef" by (simp add: envelope_def)
  moreover have "\<not> res_ok ?res" by (simp add: res_ok_def)
  moreover have "(\<exists>code message. envelope ?res code message \<and> js ''ENROLLMENT_CONFLICT'' = js_string code \<and>
       ([]::jstr) = (if message = JUndef then [] else js_string message))"
    if "envelope ?res (JStr (js ''ENROLLMENT_CONFLICT'')) JUndef"
    by (intro exI[of _ "JStr (js ''ENROLLMENT_CONFLICT'')"] exI[of _ JUndef] conjI that) simp_all
  ultimately have "r = Inl (ApiClientError 409 (js ''ENROLLMENT_CONFLICT'') [])"
    by (intro iffD2[OF request_outcome[OF rr, THEN conjunct2, rule_format, OF refl,
      THEN conjunct2, THEN conjunct2, THEN conjunct2, THEN conjunct1, rule_format]] conjI disjI1) simp_all
  with rr show ?thesis by simp
qed

end
