(* ===== verification/I18n.thy ===== *)
theory I18n
  imports Client
begin

text \<open>
  Language and operator-facing copy, \<open>frontend/src/i18n\<close>: the choice of the locale, the
  labels of the backend's enums in both languages, and the single place that turns an API
  error into text. A dictionary (\<open>en.ts\<close>, \<open>th.ts\<close>) is a function from dotted keys to
  texts; its wording is a parameter of everything that shows text.
\<close>

section \<open>The locale\<close>

datatype lang = Th | En

type_synonym dict = "string \<Rightarrow> jstr"

definition LOCALE_STORAGE_KEY :: string where
  "LOCALE_STORAGE_KEY = ''adms.locale''"

text \<open>The storage may be inaccessible, which is \<open>None\<close>.\<close>

definition initial_locale :: "storage option \<Rightarrow> lang" where
  "initial_locale ls =
     (case ls of
        None \<Rightarrow> Th
      | Some m \<Rightarrow> if m LOCALE_STORAGE_KEY = Some (js ''en'') then En
                  else if m LOCALE_STORAGE_KEY = Some (js ''th'') then Th else Th)"

definition locale_text :: "lang \<Rightarrow> jstr" where
  "locale_text l = (case l of Th \<Rightarrow> js ''th'' | En \<Rightarrow> js ''en'')"

definition setLocale :: "lang \<Rightarrow> storage option \<Rightarrow> lang \<times> storage option" where
  "setLocale l ls = (l, map_option (\<lambda>m. m(LOCALE_STORAGE_KEY \<mapsto> locale_text l)) ls)"

definition translationsMap :: "dict \<Rightarrow> dict \<Rightarrow> lang \<Rightarrow> dict" where
  "translationsMap th en l = (case l of Th \<Rightarrow> th | En \<Rightarrow> en)"

lemma locale_persists: "initial_locale (snd (setLocale l (Some m))) = l"
  by (cases l) (simp_all add: initial_locale_def setLocale_def locale_text_def)

section \<open>Labels of the backend's enums\<close>

type_synonym label_map = "(string \<times> jstr \<times> jstr) list"

definition enrollmentStatusLabels :: label_map where
  "enrollmentStatusLabels = [
    (''RESERVED'', js ''Reserved'',
      [0xe08, 0xe2d, 0xe07, 0xe23, 0xe2b, 0xe31, 0xe2a, 0xe41, 0xe25, 0xe49, 0xe27]),
    (''TERMINAL_ACCOUNT_CREATED'', js ''Terminal Account Created'',
      [0xe2a, 0xe23, 0xe49, 0xe32, 0xe07, 0xe1a, 0xe31, 0xe0d, 0xe0a, 0xe35, 0xe1a, 0xe19, 0xe40, 0xe04, 0xe23, 0xe37, 0xe48, 0xe2d, 0xe07, 0xe41, 0xe25, 0xe49, 0xe27]),
    (''FINGERPRINT_ENROLLMENT_PENDING'', js ''Fingerprint Enrollment Pending'',
      [0xe23, 0xe2d, 0xe25, 0xe07, 0xe17, 0xe30, 0xe40, 0xe1a, 0xe35, 0xe22, 0xe19, 0xe25, 0xe32, 0xe22, 0xe19, 0xe34, 0xe49, 0xe27, 0xe21, 0xe37, 0xe2d]),
    (''FINGERPRINT_ENROLLED'', js ''Fingerprint Enrolled'',
      [0xe25, 0xe07, 0xe17, 0xe30, 0xe40, 0xe1a, 0xe35, 0xe22, 0xe19, 0xe25, 0xe32, 0xe22, 0xe19, 0xe34, 0xe49, 0xe27, 0xe21, 0xe37, 0xe2d, 0xe41, 0xe25, 0xe49, 0xe27]),
    (''CONTROLLED_SCAN_PENDING'', js ''Awaiting Test Scan'',
      [0xe23, 0xe2d, 0xe17, 0xe14, 0xe2a, 0xe2d, 0xe1a, 0xe2a, 0xe41, 0xe01, 0xe19]),
    (''CONTROLLED_SCAN_CONFIRMED'', js ''Test Scan Confirmed'',
      [0xe22, 0xe37, 0xe19, 0xe22, 0xe31, 0xe19, 0xe01, 0xe32, 0xe23, 0xe17, 0xe14, 0xe2a, 0xe2d, 0xe1a, 0xe2a, 0xe41, 0xe01, 0xe19, 0xe41, 0xe25, 0xe49, 0xe27]),
    (''READY_FOR_MAPPING'', js ''Ready to Confirm Identity'',
      [0xe1e, 0xe23, 0xe49, 0xe2d, 0xe21, 0xe22, 0xe37, 0xe19, 0xe22, 0xe31, 0xe19, 0xe15, 0xe31, 0xe27, 0xe1a, 0xe38, 0xe04, 0xe04, 0xe25]),
    (''RETIRED'', js ''Completed'',
      [0xe40, 0xe2a, 0xe23, 0xe47, 0xe08, 0xe2a, 0xe21, 0xe1a, 0xe39, 0xe23, 0xe13, 0xe4c]),
    (''CANCELLED'', js ''Cancelled'',
      [0xe22, 0xe01, 0xe40, 0xe25, 0xe34, 0xe01, 0xe41, 0xe25, 0xe49, 0xe27])]"

definition attendanceStatusLabels :: label_map where
  "attendanceStatusLabels = [
    (''ON_TIME'', js ''On Time'',
      [0xe15, 0xe23, 0xe07, 0xe40, 0xe27, 0xe25, 0xe32]),
    (''LATE'', js ''Late'',
      [0xe2a, 0xe32, 0xe22]),
    (''UNKNOWN'', js ''Unknown'',
      [0xe44, 0xe21, 0xe48, 0xe17, 0xe23, 0xe32, 0xe1a, 0xe2a, 0xe16, 0xe32, 0xe19, 0xe30])]"

definition mappingStatusLabels :: label_map where
  "mappingStatusLabels = [
    (''VERIFIED'', js ''Verified'',
      [0xe22, 0xe37, 0xe19, 0xe22, 0xe31, 0xe19, 0xe41, 0xe25, 0xe49, 0xe27]),
    (''PROBABLE'', js ''Probable'',
      [0xe04, 0xe32, 0xe14, 0xe27, 0xe48, 0xe32, 0xe16, 0xe39, 0xe01, 0xe15, 0xe49, 0xe2d, 0xe07]),
    (''LEGACY'', js ''Legacy'',
      [0xe02, 0xe49, 0xe2d, 0xe21, 0xe39, 0xe25, 0xe40, 0xe14, 0xe34, 0xe21]),
    (''CANDIDATE'', js ''Candidate'',
      [0xe23, 0xe2d, 0xe1e, 0xe34, 0xe08, 0xe32, 0xe23, 0xe13, 0xe32]),
    (''REVOKED'', js ''Revoked'',
      [0xe22, 0xe01, 0xe40, 0xe25, 0xe34, 0xe01, 0xe01, 0xe32, 0xe23, 0xe22, 0xe37, 0xe19, 0xe22, 0xe31, 0xe19])]"

definition verificationMethodLabels :: label_map where
  "verificationMethodLabels = [
    (''CONTROLLED_SCAN'', js ''Controlled Test Scan'',
      [0xe17, 0xe14, 0xe2a, 0xe2d, 0xe1a, 0xe2a, 0xe41, 0xe01, 0xe19, 0xe20, 0xe32, 0xe22, 0xe43, 0xe15, 0xe49, 0xe01, 0xe32, 0xe23, 0xe04, 0xe27, 0xe1a, 0xe04, 0xe38, 0xe21]),
    (''TERMINAL_ROSTER_REVIEW'', js ''Terminal Roster Review'',
      [0xe15, 0xe23, 0xe27, 0xe08, 0xe2a, 0xe2d, 0xe1a, 0xe23, 0xe32, 0xe22, 0xe0a, 0xe37, 0xe48, 0xe2d, 0xe1a, 0xe19, 0xe40, 0xe04, 0xe23, 0xe37, 0xe48, 0xe2d, 0xe07]),
    (''MANUAL_ADMIN_CONFIRMATION'', js ''Manual Admin Confirmation'',
      [0xe1c, 0xe39, 0xe49, 0xe14, 0xe39, 0xe41, 0xe25, 0xe23, 0xe30, 0xe1a, 0xe1a, 0xe22, 0xe37, 0xe19, 0xe22, 0xe31, 0xe19, 0xe14, 0xe49, 0xe27, 0xe22, 0xe15, 0xe19, 0xe40, 0xe2d, 0xe07]),
    (''LEGACY_MIGRATION'', js ''Legacy Migration'',
      [0xe42, 0xe2d, 0xe19, 0xe22, 0xe49, 0xe32, 0xe22, 0xe08, 0xe32, 0xe01, 0xe23, 0xe30, 0xe1a, 0xe1a, 0xe40, 0xe14, 0xe34, 0xe21])]"

definition attendanceReasoningLabels :: label_map where
  "attendanceReasoningLabels = [
    (''NO_DEVICE_USER'', js ''No Terminal Account Found'',
      [0xe44, 0xe21, 0xe48, 0xe1e, 0xe1a, 0xe1a, 0xe31, 0xe0d, 0xe0a, 0xe35, 0xe1a, 0xe19, 0xe40, 0xe04, 0xe23, 0xe37, 0xe48, 0xe2d, 0xe07, 0xe2a, 0xe41, 0xe01, 0xe19]),
    (''LEGACY_USER'', js ''Legacy Account (Not Migrated)'',
      [0xe1a, 0xe31, 0xe0d, 0xe0a, 0xe35, 0xe40, 0xe01, 0xe48, 0xe32, 0xe17, 0xe35, 0xe48, 0xe22, 0xe31, 0xe07, 0xe44, 0xe21, 0xe48, 0xe42, 0xe2d, 0xe19, 0xe22, 0xe49, 0xe32, 0xe22]),
    (''NO_MAPPING'', js ''No Identity Confirmed Yet'',
      [0xe22, 0xe31, 0xe07, 0xe44, 0xe21, 0xe48, 0xe44, 0xe14, 0xe49, 0xe22, 0xe37, 0xe19, 0xe22, 0xe31, 0xe19, 0xe15, 0xe31, 0xe27, 0xe1a, 0xe38, 0xe04, 0xe04, 0xe25]),
    (''BEFORE_VALID_FROM'', js ''Scan Before Identity Was Confirmed'',
      [0xe2a, 0xe41, 0xe01, 0xe19, 0xe01, 0xe48, 0xe2d, 0xe19, 0xe27, 0xe31, 0xe19, 0xe17, 0xe35, 0xe48, 0xe22, 0xe37, 0xe19, 0xe22, 0xe31, 0xe19, 0xe15, 0xe31, 0xe27, 0xe1a, 0xe38, 0xe04, 0xe04, 0xe25]),
    (''AFTER_VALID_TO'', js ''Scan After Identity Expired'',
      [0xe2a, 0xe41, 0xe01, 0xe19, 0xe2b, 0xe25, 0xe31, 0xe07, 0xe08, 0xe32, 0xe01, 0xe2b, 0xe21, 0xe14, 0xe2d, 0xe32, 0xe22, 0xe38, 0xe01, 0xe32, 0xe23, 0xe22, 0xe37, 0xe19, 0xe22, 0xe31, 0xe19]),
    (''INSIDE_INTERVAL'', js ''Matched (Diagnostic Only)'',
      [0xe08, 0xe31, 0xe1a, 0xe04, 0xe39, 0xe48, 0xe44, 0xe14, 0xe49, 0x20, 0x28, 0xe2a, 0xe33, 0xe2b, 0xe23, 0xe31, 0xe1a, 0xe15, 0xe23, 0xe27, 0xe08, 0xe2a, 0xe2d, 0xe1a, 0xe40, 0xe17, 0xe48, 0xe32, 0xe19, 0xe31, 0xe49, 0xe19, 0x29])]"

text \<open>The entry of a value, both languages.\<close>

fun label_entry :: "label_map \<Rightarrow> jstr \<Rightarrow> (jstr \<times> jstr) option" where
  "label_entry [] v = None"
| "label_entry ((k, ls) # m) v = (if v = js k then Some ls else label_entry m v)"

definition enumLabel :: "label_map \<Rightarrow> jstr \<Rightarrow> lang \<Rightarrow> jstr" where
  "enumLabel m v l =
     nn (map_option (\<lambda>(en, th). case l of En \<Rightarrow> en | Th \<Rightarrow> th) (label_entry m v)) v"

lemmas label_map_defs =
  enrollmentStatusLabels_def attendanceStatusLabels_def mappingStatusLabels_def
  verificationMethodLabels_def attendanceReasoningLabels_def

section \<open>Errors as copy\<close>

definition friendlyApiError :: "js_error \<Rightarrow> dict \<Rightarrow> jstr" where
  "friendlyApiError err t =
     (case err of
        ApiClientError st code m \<Rightarrow>
          if code = js ''WRITE_DISABLED'' \<or> code = js ''WRITE_SESSION_REQUIRED''
          then t ''enrollment.writeSessionLockedBody''
          else if code = js ''WRITE_SESSION_EXPIRED'' then t ''enrollment.writeSessionExpiredMidWorkflow''
          else if code = js ''VALIDATION_ERROR'' then t ''common.apiErrors.validationError''
          else if code = js ''NOT_FOUND'' then t ''common.apiErrors.notFound''
          else if code = js ''RATE_LIMITED'' then t ''common.apiErrors.rateLimited''
          else if code = js ''UNAUTHORIZED'' then t ''common.unauthorized''
          else if code = js ''FORBIDDEN'' then t ''common.forbidden''
          else if code = js ''INTERNAL_ERROR'' then t ''common.apiErrors.internalError''
          else t ''common.apiErrors.genericErrorPrefix''
      | _ \<Rightarrow> t ''common.apiErrors.internalError'')"

text \<open>The pages' own wrapper: a refused write has one notice of its own.\<close>

definition write_refused :: "js_error \<Rightarrow> bool" where
  "write_refused err \<longleftrightarrow>
     api_code_in err [''WRITE_DISABLED'', ''WRITE_SESSION_REQUIRED'', ''WRITE_SESSION_EXPIRED'']"

text \<open>The keys of the dictionary an error can be shown with.\<close>

definition error_copy_keys :: "string list" where
  "error_copy_keys =
     [''enrollment.writeSessionLockedBody'', ''enrollment.writeSessionExpiredMidWorkflow'',
      ''common.apiErrors.validationError'', ''common.apiErrors.notFound'',
      ''common.apiErrors.rateLimited'', ''common.unauthorized'', ''common.forbidden'',
      ''common.apiErrors.internalError'', ''common.apiErrors.genericErrorPrefix'']"

lemma friendlyApiError_keys: "friendlyApiError err t \<in> t ` set error_copy_keys"
  by (cases err) (simp_all add: friendlyApiError_def error_copy_keys_def)

text \<open>No text of the backend reaches the operator: whatever error a call threw, the
  copy shown is one of nine entries of the dictionary, and two API errors with the same code
  give the same copy whatever their status and their raw messages are.\<close>

theorem friendly_error_never_leaks:
  "friendlyApiError err t \<in> t ` set error_copy_keys \<and>
   friendlyApiError (ApiClientError st c m) t = friendlyApiError (ApiClientError st' c m') t"
  using friendlyApiError_keys by (simp add: friendlyApiError_def)

text \<open>A session that expires while the operator works is reported as a server fault:
  \<open>request\<close> throws UnauthorizedError on every 401, which is not an ApiClientError, so the
  copy is the one for internal errors and the UNAUTHORIZED copy is never chosen for an error
  thrown by \<open>request\<close> on a 401.\<close>

theorem expired_session_copy:
  assumes "res_status res = 401"
  shows "\<exists>err. snd (request_recv ss (Inr res)) = Inl err \<and>
           friendlyApiError err t = t ''common.apiErrors.internalError''"
  using assms by (simp add: request_recv_def friendlyApiError_def)

theorem expired_session_copy_witness:
  "\<exists>err. snd (request_recv (setToken (js ''x'') Map.empty)
            (Inr \<lparr>res_status = 401, res_text = js ''Unauthorized'', res_body = None\<rparr>)) = Inl err \<and>
         friendlyApiError err (\<lambda>k. js k) = js ''common.apiErrors.internalError''"
  by (rule expired_session_copy) simp

definition label_maps :: "label_map list" where
  "label_maps = [enrollmentStatusLabels, attendanceStatusLabels, mappingStatusLabels,
     verificationMethodLabels, attendanceReasoningLabels]"

lemma label_entry_key: "label_entry m v = Some ls \<Longrightarrow> \<exists>k. (k, ls) \<in> set m \<and> v = js k"
  by (induction m v rule: label_entry.induct) (auto split: if_splits)

text \<open>A translation is a text of its own: the English one is not the key, the Thai one starts
  outside the range of the keys.\<close>

lemma label_readable:
  assumes "m \<in> set label_maps" and "label_entry m v = Some (en, th)"
  shows "en \<noteq> []" "th \<noteq> []" "en \<noteq> v" "th \<noteq> v"
proof -
  obtain k where k: "(k, en, th) \<in> set m" "v = js k" using label_entry_key[OF assms(2)] by blast
  have "(\<forall>(k, en, th) \<in> set m. en \<noteq> [] \<and> th \<noteq> [] \<and> en \<noteq> js k \<and> hd th \<ge> 0x0E00)"
    using assms(1) by (auto simp: label_map_defs label_maps_def)
  with k have e: "en \<noteq> []" "th \<noteq> []" "en \<noteq> v" "0x0E00 \<le> hd th" by auto
  moreover have "hd (js k) < 0x0E00" if "k \<noteq> []"
    using that by (cases k) (auto simp: js_Cons intro: order_less_trans[OF of_char_u16_lt])
  ultimately show "en \<noteq> []" "th \<noteq> []" "en \<noteq> v" "th \<noteq> v" using k(2) by (auto simp: not_le)
qed

text \<open>Every enum label is total and readable: a value the maps know is shown in the
  current language and never as its raw code, a value they do not know is shown unchanged.\<close>

theorem enum_label_total:
  assumes "m \<in> set label_maps"
  shows "case label_entry m v of
           None \<Rightarrow> enumLabel m v l = v
         | Some (en, th) \<Rightarrow> enumLabel m v l = (if l = En then en else th) \<and>
                             enumLabel m v l \<noteq> [] \<and> enumLabel m v l \<noteq> v"
proof (cases "label_entry m v")
  case (Some ls)
  then show ?thesis using label_readable[OF assms, of v]
    by (cases ls; cases l) (auto simp: enumLabel_def)
qed (simp add: enumLabel_def)

theorem enum_label_total_witness:
  "case label_entry enrollmentStatusLabels (js ''CANCELLED'') of
     None \<Rightarrow> enumLabel enrollmentStatusLabels (js ''CANCELLED'') En = js ''CANCELLED''
   | Some (en, th) \<Rightarrow> enumLabel enrollmentStatusLabels (js ''CANCELLED'') En = (if En = En then en else th) \<and>
        enumLabel enrollmentStatusLabels (js ''CANCELLED'') En \<noteq> [] \<and>
        enumLabel enrollmentStatusLabels (js ''CANCELLED'') En \<noteq> js ''CANCELLED''"
  by (rule enum_label_total) (simp add: label_maps_def)

end
