(* ===== verification/Terminal_Name.thy ===== *)
theory Terminal_Name
  imports Schema
begin

text \<open>
  The default display name for the terminal, \<open>frontend/src/lib/terminalName.ts\<close>: rank
  abbreviation and English name when they fit in twenty units, the plain name otherwise.
\<close>

definition MAX_TERMINAL_NAME_LENGTH :: nat where
  "MAX_TERMINAL_NAME_LENGTH = 20"

record terminal_name_preview =
  np_value :: jstr
  np_rankOmittedForLength :: bool

definition computeTerminalNamePreview ::
  "jstr option \<Rightarrow> rank_metadata option \<Rightarrow> terminal_name_preview" where
  "computeTerminalNamePreview englishName rankMetadata =
     (let name = js_trim (nn englishName []) in
      if name = [] then \<lparr>np_value = [], np_rankOmittedForLength = False\<rparr>
      else
        (let abbr = map_option js_trim (Option.bind rankMetadata rm_rank_en_abbreviation) in
         if \<not> truthy abbr then \<lparr>np_value = name, np_rankOmittedForLength = False\<rparr>
         else
           (let withRank = the abbr @ js '' '' @ name in
            if length withRank \<le> MAX_TERMINAL_NAME_LENGTH
            then \<lparr>np_value = withRank, np_rankOmittedForLength = False\<rparr>
            else \<lparr>np_value = name, np_rankOmittedForLength = True\<rparr>)))"

text \<open>The canonical rank prefix, when there is one.\<close>

definition rank_prefix :: "rank_metadata option \<Rightarrow> jstr" where
  "rank_prefix rankMetadata =
     nn (map_option js_trim (Option.bind rankMetadata rm_rank_en_abbreviation)) []"

lemma preview_cases:
  "computeTerminalNamePreview en rm =
     (let name = js_trim (nn en []); abbr = rank_prefix rm;
          both = name \<noteq> [] \<and> abbr \<noteq> []; fits = length abbr + 1 + length name \<le> 20 in
      \<lparr>np_value = (if both \<and> fits then abbr @ js '' '' @ name else name),
       np_rankOmittedForLength = both \<and> \<not> fits\<rparr>)"
  by (auto simp: computeTerminalNamePreview_def rank_prefix_def MAX_TERMINAL_NAME_LENGTH_def
      Let_def truthy_def split: option.splits)

text \<open>The preview never cuts a name: its value is the trimmed English name, or that name
  after the rank abbreviation and a space, and the latter exactly when there is a name and an
  abbreviation and both fit in twenty units; the hint that the rank was dropped is shown
  exactly when they do not fit.\<close>

theorem preview_exact:
  "let name = js_trim (nn en []); abbr = rank_prefix rm; p = computeTerminalNamePreview en rm in
   (np_value p =
      (if name \<noteq> [] \<and> abbr \<noteq> [] \<and> length abbr + 1 + length name \<le> 20
       then abbr @ js '' '' @ name else name)) \<and>
   (np_rankOmittedForLength p \<longleftrightarrow>
      name \<noteq> [] \<and> abbr \<noteq> [] \<and> 20 < length abbr + 1 + length name)"
  by (simp add: preview_cases Let_def not_le)

text \<open>The comment in the source says that the plain English name "still fits"; it need
  not. The suggested name fits the terminal's twenty units whenever the trimmed English name
  does, and only then: a longer English name is suggested as it is, beyond the limit.\<close>

theorem preview_fits_iff:
  "length (np_value (computeTerminalNamePreview en rm)) \<le> MAX_TERMINAL_NAME_LENGTH \<longleftrightarrow>
   length (js_trim (nn en [])) \<le> MAX_TERMINAL_NAME_LENGTH"
  by (auto simp: preview_cases Let_def MAX_TERMINAL_NAME_LENGTH_def split: if_splits)

end
