(* ===== verification/Auth_Session.thy ===== *)
theory Auth_Session
  imports Async_UI I18n Schema View
begin

text \<open>
  The signed-in identity and what it may do, \<open>frontend/src/auth.tsx\<close>, and the guards of
  the routes, \<open>frontend/src/App.tsx\<close>. The provider is an asynchronous component whose
  requests are all \<open>/auth/me\<close>; the token in the session storage is part of its
  configuration because logging in and out happens outside it.
\<close>

section \<open>Capabilities\<close>

definition WRITE_CAPABLE_ROLES :: "jstr set" where
  "WRITE_CAPABLE_ROLES = js ` {''ENROLLMENT_OPERATOR'', ''OPERATOR'', ''ADMIN''}"

record auth =
  au_me :: "me_response option"
  au_loading :: bool
  au_authError :: bool
  canWrite :: bool
  serverWriteEnabled :: bool
  writeSession :: "write_session_status option"
  writeSessionActive :: bool
  workSessionRequired :: bool
  canMutate :: bool
  isAdmin :: bool
  canOpenWorkSession :: bool
  canRecordAbsence :: bool
  canEditRoster :: bool
  canEnroll :: bool
  canVerifyIdentity :: bool
  canManagePersonnel :: bool
  canManageTerminal :: bool
  canManageOperators :: bool

record provider =
  pv_token :: "jstr option"
  pv_me :: "me_response option"
  pv_loading :: bool
  pv_authError :: bool
  pv_polling :: bool

definition auth_of :: "provider \<Rightarrow> auth" where
  "auth_of s =
     (let me = pv_me s;
          ws = Option.bind me me_write_session;
          ws_on = nn (map_option ws_active ws) False;
          role = nn (map_option me_role me) [];
          can_write = role \<in> WRITE_CAPABLE_ROLES;
          server_on = nn (map_option me_write_enabled me) False;
          required = nn (map_option me_work_session_required me) True;
          admin = (role = js ''ADMIN'');
          operator_or_admin = (role = js ''OPERATOR'' \<or> role = js ''ADMIN'')
      in \<lparr>au_me = me, au_loading = pv_loading s, au_authError = pv_authError s,
          canWrite = can_write, serverWriteEnabled = server_on, writeSession = ws,
          writeSessionActive = ws_on, workSessionRequired = required,
          canMutate = can_write \<and> server_on \<and> (ws_on \<or> \<not> required),
          isAdmin = admin, canOpenWorkSession = operator_or_admin,
          canRecordAbsence = operator_or_admin, canEditRoster = can_write \<and> server_on,
          canEnroll = can_write, canVerifyIdentity = admin,
          canManagePersonnel = operator_or_admin, canManageTerminal = admin,
          canManageOperators = admin\<rparr>)"

text \<open>Outside any provider the context has this value.\<close>

definition default_auth :: auth where
  "default_auth =
     \<lparr>au_me = None, au_loading = True, au_authError = False, canWrite = False,
      serverWriteEnabled = False, writeSession = None, writeSessionActive = False,
      workSessionRequired = True, canMutate = False, isAdmin = False,
      canOpenWorkSession = False, canRecordAbsence = False, canEditRoster = False,
      canEnroll = False, canVerifyIdentity = False, canManagePersonnel = False,
      canManageTerminal = False, canManageOperators = False\<rparr>"

section \<open>The provider\<close>

text \<open>
  \<open>setMe\<close> and the effect on \<open>writeSessionActive\<close>: when that changes, the interval is
  cleared and a new one started only with a token and an active write session.
\<close>

definition setMe :: "me_response option \<Rightarrow> provider \<Rightarrow> provider" where
  "setMe me s =
     (let s' = s\<lparr>pv_me := me\<rparr> in
      if writeSessionActive (auth_of s') = writeSessionActive (auth_of s) then s'
      else s'\<lparr>pv_polling := truthy (pv_token s) \<and> writeSessionActive (auth_of s')\<rparr>)"

text \<open>The effect on each tick: no identity without a token, otherwise ask the server.\<close>

type_synonym me_prog = "(provider, call, js_error + me_response, unit) prog"

definition load_me :: "provider \<Rightarrow> me_prog" where
  "load_me s =
     (if \<not> truthy (pv_token s)
      then Ret ((setMe None s)\<lparr>pv_authError := False, pv_loading := False\<rparr>)
      else Call (s\<lparr>pv_loading := True\<rparr>) api_me
        (\<lambda>r s. case r of
            Inr res \<Rightarrow> Ret ((setMe (Some res) s)\<lparr>pv_authError := False, pv_loading := False\<rparr>)
          | Inl e \<Rightarrow> Ret ((setMe None s)\<lparr>pv_authError := True, pv_loading := False\<rparr>)))"

text \<open>The timer while a write session is active: its failures are ignored.\<close>

definition poll_me :: "provider \<Rightarrow> me_prog" where
  "poll_me s = Call s api_me
     (\<lambda>r s. case r of Inr res \<Rightarrow> Ret (setMe (Some res) s) | Inl e \<Rightarrow> Ret s)"

datatype provider_event = Tick | Poll

definition initial_provider :: "jstr option \<Rightarrow> provider" where
  "initial_provider token = \<lparr>pv_token = token, pv_me = None, pv_loading = True, pv_authError = False,
     pv_polling = False\<rparr>"

definition provider_init :: "provider \<Rightarrow> bool" where
  "provider_init s \<longleftrightarrow> (\<exists>token. s = initial_provider token)"

text \<open>A tick can come at any time (\<open>reload\<close>); the interval fires while it is set up.\<close>

definition provider_enabled :: "provider \<Rightarrow> provider_event \<Rightarrow> bool" where
  "provider_enabled s e =
     (case e of Tick \<Rightarrow> True
      | Poll \<Rightarrow> pv_polling s)"

definition provider_handle :: "provider_event \<Rightarrow> provider \<Rightarrow> me_prog" where
  "provider_handle e s = (case e of Tick \<Rightarrow> load_me s | Poll \<Rightarrow> poll_me s)"

text \<open>Login stores a token, logout and a 401 remove it.\<close>

definition provider_env :: "provider \<Rightarrow> provider \<Rightarrow> bool" where
  "provider_env s s' \<longleftrightarrow> (\<exists>token. s' = s\<lparr>pv_token := token\<rparr>)"

interpretation provider_ui: async_ui provider_init provider_enabled provider_handle provider_env .

section \<open>Route guards\<close>

datatype 'a guarded = Render 'a | Redirect jstr | Denied | Blank

definition RequireAuth :: "storage \<Rightarrow> 'a \<Rightarrow> 'a guarded" where
  "RequireAuth ss x = (if truthy (getToken ss) then Render x else Redirect (js ''/login''))"

definition RequireRole :: "auth \<Rightarrow> string list \<Rightarrow> 'a \<Rightarrow> 'a guarded" where
  "RequireRole a roles x =
     (if au_loading a then Blank
      else (case au_me a of
              None \<Rightarrow> Denied
            | Some me \<Rightarrow> if me_role me \<in> js ` set roles then Render x else Denied))"

datatype page_name =
    P_Login | P_Dashboard | P_Personnel | P_HumanDetail | P_Devices | P_Attendance
  | P_DailyRoster | P_Absences | P_MonthlyReport | P_AttendanceDetail | P_Enrollments
  | P_Mappings | P_TerminalManagement | P_Audit | P_System

text \<open>The route table: the pattern, whether the page is inside the authenticated shell, the
  roles of a \<open>RequireRole\<close> around it.\<close>

definition App_routes :: "(string \<times> page_name \<times> bool \<times> string list option) list" where
  "App_routes =
     [(''/login'', P_Login, False, None),
      (''/'', P_Dashboard, True, None),
      (''/personnel'', P_Personnel, True, None),
      (''/personnel/:employeeId'', P_HumanDetail, True, None),
      (''/devices'', P_Devices, True, None),
      (''/attendance'', P_Attendance, True, None),
      (''/daily'', P_DailyRoster, True, None),
      (''/absences'', P_Absences, True, None),
      (''/monthly'', P_MonthlyReport, True, None),
      (''/attendance/:id'', P_AttendanceDetail, True, None),
      (''/enrollments'', P_Enrollments, True, None),
      (''/mappings'', P_Mappings, True, None),
      (''/terminal-management'', P_TerminalManagement, True, None),
      (''/audit'', P_Audit, True, Some [''ADMIN'']),
      (''/system'', P_System, True, None)]"

definition show_route ::
  "storage \<Rightarrow> auth \<Rightarrow> (string \<times> page_name \<times> bool \<times> string list option) \<Rightarrow> page_name guarded" where
  "show_route ss a r =
     (case r of (pattern, p, shell, roles) \<Rightarrow>
        if shell \<and> RequireAuth ss p \<noteq> Render p then RequireAuth ss p
        else (case roles of None \<Rightarrow> Render p | Some rs \<Rightarrow> RequireRole a rs p))"

section \<open>Properties\<close>

text \<open>An unknown identity has no capability: while \<open>/auth/me\<close> has not answered, after
  it failed, or for a role the frontend does not know, every permission is off and the work
  session counts as required, so no page enables a control that changes data.\<close>

theorem unknown_identity_powerless:
  assumes "pv_me s = None \<or> (\<exists>me. pv_me s = Some me \<and> me_role me \<notin> WRITE_CAPABLE_ROLES)"
  shows "\<not> canWrite (auth_of s) \<and> \<not> canMutate (auth_of s) \<and> \<not> canEditRoster (auth_of s) \<and>
         \<not> canEnroll (auth_of s) \<and> \<not> isAdmin (auth_of s) \<and> \<not> canOpenWorkSession (auth_of s) \<and>
         \<not> canRecordAbsence (auth_of s) \<and> \<not> canVerifyIdentity (auth_of s) \<and>
         \<not> canManagePersonnel (auth_of s) \<and> \<not> canManageTerminal (auth_of s) \<and>
         \<not> canManageOperators (auth_of s) \<and>
         (pv_me s = None \<longrightarrow> workSessionRequired (auth_of s))"
  using assms by (auto simp: auth_of_def Let_def WRITE_CAPABLE_ROLES_def)

definition viewer_me :: me_response where
  "viewer_me = \<lparr>me_display_name = [], me_operator_id = 1, me_role = js ''VIEWER'',
     me_username = js ''v'', me_work_session_required = True, me_write_enabled = True,
     me_write_session = None\<rparr>"

theorem unknown_identity_powerless_witness:
  "\<not> canMutate (auth_of (initial_provider None\<lparr>pv_me := Some viewer_me\<rparr>))"
proof -
  have "me_role viewer_me \<notin> WRITE_CAPABLE_ROLES"
    by (simp add: viewer_me_def WRITE_CAPABLE_ROLES_def)
  then show ?thesis
    using unknown_identity_powerless[of "initial_provider None\<lparr>pv_me := Some viewer_me\<rparr>"] by simp
qed

definition admin_me :: me_response where
  "admin_me = viewer_me\<lparr>me_role := js ''ADMIN'',
     me_write_session := Some \<lparr>ws_active = True, ws_closed_at = None, ws_expires_at = None,
       ws_opened_at = None, ws_opened_by = None, ws_opened_by_name = None, ws_reason = None,
       ws_session_id = None\<rparr>\<rparr>"

lemma polls_iff:
  "writeSessionActive (auth_of s) =
     nn (map_option ws_active (Option.bind (pv_me s) me_write_session)) False"
  by (simp add: auth_of_def Let_def)

lemma admin_polls: "map_option ws_active (me_write_session admin_me) = Some True"
  by (simp add: admin_me_def)

lemma admin_can_mutate: "pv_me s = Some admin_me \<Longrightarrow> canMutate (auth_of s)"
  by (simp add: auth_of_def Let_def admin_me_def viewer_me_def WRITE_CAPABLE_ROLES_def)

text \<open>The capabilities an identity has.\<close>

definition capabilities :: "auth \<Rightarrow> bool list" where
  "capabilities a = [canWrite a, canMutate a, isAdmin a, canOpenWorkSession a, canRecordAbsence a, canEditRoster a,
     canEnroll a, canVerifyIdentity a, canManagePersonnel a, canManageTerminal a, canManageOperators a]"

lemma no_capability: "pv_me s = None \<Longrightarrow> list_all Not (capabilities (auth_of s))"
  by (simp add: capabilities_def auth_of_def Let_def WRITE_CAPABLE_ROLES_def)

text \<open>C40: An identity can come back after logout. A poll of \<open>/auth/me\<close> that is still in
  flight when the operator logs out is not cancelled: reachable is a configuration in which the
  token is gone, the provider has cleared the identity and stopped polling, every capability is
  off, and all that is left is one suspended poll; and the answer to that poll brings the
  former ADMIN's identity and capabilities back, still without a token.\<close>

theorem stale_identity_after_logout:
  "\<exists>c s k. provider_ui.ui_reach c \<and>
     provider_handle Poll s = Call s api_me k \<and> pend c = [(api_me, k)] \<and>
     pv_token (st c) = None \<and> pv_me (st c) = None \<and> \<not> pv_polling (st c) \<and>
     list_all Not (capabilities (auth_of (st c))) \<and>
     (let d = resume 0 (Inr admin_me) c in
        pend d = [] \<and> pv_token (st d) = None \<and> pv_me (st d) = Some admin_me \<and> canMutate (auth_of (st d)))"
proof -
  let ?s0 = "initial_provider (Some (js ''t''))"
  let ?c1 = "exec (provider_handle Tick ?s0) (start ?s0)"
  let ?s2 = "\<lparr>pv_token = Some (js ''t''), pv_me = Some admin_me, pv_loading = False,
               pv_authError = False, pv_polling = True\<rparr>"
  let ?poll = "\<lambda>r s. case r of Inr res \<Rightarrow> Ret (setMe (Some res) s) | Inl e \<Rightarrow> Ret s"
  let ?s5 = "?s2\<lparr>pv_token := None, pv_me := None, pv_polling := False\<rparr>"
  note ev = provider_handle_def load_me_def poll_me_def resume_def initial_provider_def
    setMe_def Let_def polls_iff admin_polls
  have "provider_ui.ui_reach (start ?s0)"
    by (rule provider_ui.initial) (auto simp: provider_init_def)
  then have "provider_ui.ui_reach ?c1"
    using provider_ui.reach_user[of "start ?s0" Tick] by (simp add: provider_enabled_def)
  then have "provider_ui.ui_reach (resume 0 (Inr admin_me) ?c1)"
    by (rule provider_ui.reach_outcome) (simp add: ev)
  moreover have 2: "st (resume 0 (Inr admin_me) ?c1) = ?s2" "pend (resume 0 (Inr admin_me) ?c1) = []"
    by (simp_all add: ev)
  ultimately obtain c2 where c2: "provider_ui.ui_reach c2" "st c2 = ?s2" "pend c2 = []" by blast
  then have "provider_ui.ui_reach (exec (poll_me (st c2)) c2)"
    using provider_ui.reach_user[of c2 Poll] by (simp add: provider_enabled_def provider_handle_def)
  with c2 obtain c3 where c3: "provider_ui.ui_reach c3" "st c3 = ?s2" "pend c3 = [(api_me, ?poll)]"
    by (auto simp: poll_me_def)
  then have "provider_ui.ui_reach (c3\<lparr>st := ?s2\<lparr>pv_token := None\<rparr>\<rparr>)"
    by (intro provider_ui.reach_outside) (auto simp: provider_env_def)
  from provider_ui.reach_user[OF this, of Tick]
  have "provider_ui.ui_reach (exec (load_me (?s2\<lparr>pv_token := None\<rparr>)) (c3\<lparr>st := ?s2\<lparr>pv_token := None\<rparr>\<rparr>))"
    by (simp add: provider_enabled_def provider_handle_def)
  then obtain c5 where c5: "provider_ui.ui_reach c5" "st c5 = ?s5" "pend c5 = [(api_me, ?poll)]"
    using c3 by (auto simp: ev)
  have "provider_handle Poll ?s2 = Call ?s2 api_me ?poll" by (simp add: ev)
  moreover have "list_all Not (capabilities (auth_of (st c5)))"
    by (rule no_capability) (simp add: c5(2))
  moreover have "pv_token (st (resume 0 (Inr admin_me) c5)) = None"
    "pv_me (st (resume 0 (Inr admin_me) c5)) = Some admin_me" "pend (resume 0 (Inr admin_me) c5) = []"
    using c5 by (simp_all add: ev)
  ultimately show ?thesis using c5 admin_can_mutate unfolding Let_def
    by (intro exI[of _ c5] exI[of _ ?s2] exI[of _ ?poll]) simp
qed

text \<open>C19: The identity is polled only during a work session: in every reachable configuration the
  interval is set up only while the identity shown has an active work session, so it stops when
  the session ends, when the identity is cleared or when it fails to load; and every request the
  provider ever sent is for the identity, and was sent with a token or during such a session.\<close>

theorem polls_only_in_session:
  assumes "provider_ui.ui_reach c"
  shows "(pv_polling (st c) \<longrightarrow>
            (\<exists>me ws. pv_me (st c) = Some me \<and> me_write_session me = Some ws \<and> ws_active ws)) \<and>
         (\<forall>s q. Inl (s, q) \<in> set (log c) \<longrightarrow> q = api_me \<and>
            (truthy (pv_token s) \<or>
             (\<exists>me ws. pv_me s = Some me \<and> me_write_session me = Some ws \<and> ws_active ws)))"
proof -
  let ?on = "\<lambda>s. \<exists>me ws. pv_me s = Some me \<and> me_write_session me = Some ws \<and> ws_active ws"
  let ?I = "\<lambda>s. pv_polling s \<longrightarrow> ?on s"
  let ?Q = "\<lambda>s q. q = api_me \<and> (truthy (pv_token s) \<or> ?on s)"
  have active: "writeSessionActive (auth_of s) \<longleftrightarrow> ?on s" for s
    by (cases "pv_me s"; cases "Option.bind (pv_me s) me_write_session") (auto simp: polls_iff nn_def)
  have keep: "?I (setMe me s)" if "?I s" for me s
    using that unfolding active[symmetric] by (simp add: setMe_def Let_def polls_iff)
  have "conf_ok ?I ?Q c"
  proof (rule provider_ui.ui_invariant[OF _ _ _ assms])
    show "?I s" if "provider_init s" for s using that by (auto simp: provider_init_def initial_provider_def)
    show "?I s'" if "?I s" "provider_env s s'" for s s' using that by (auto simp: provider_env_def)
    show "safe ?I ?Q (provider_handle e s)" if I: "?I s" and en: "provider_enabled s e" for s e
    proof (cases e)
      case Tick
      have "?I ((setMe me s')\<lparr>pv_authError := b, pv_loading := l\<rparr>)" if "?I s'" for me s' b l
        using keep[OF that] by simp
      with I Tick show ?thesis by (simp add: provider_handle_def load_me_def split: sum.split)
    next
      case Poll
      with I en keep show ?thesis
        by (simp add: provider_handle_def poll_me_def provider_enabled_def split: sum.split)
    qed
  qed
  then show ?thesis by (simp add: conf_ok_def)
qed

theorem polls_only_in_session_witness:
  "pv_polling (st (resume 0 (Inr admin_me) (exec (provider_handle Tick (initial_provider (Some (js ''t''))))
      (start (initial_provider (Some (js ''t''))))))) \<and>
   (\<exists>me ws. Some admin_me = Some me \<and> me_write_session me = Some ws \<and> ws_active ws)"
proof -
  let ?s0 = "initial_provider (Some (js ''t''))"
  let ?c = "resume 0 (Inr admin_me) (exec (provider_handle Tick ?s0) (start ?s0))"
  note ev = provider_handle_def load_me_def resume_def initial_provider_def
    setMe_def Let_def polls_iff admin_polls
  have "provider_ui.ui_reach (start ?s0)"
    by (rule provider_ui.initial) (auto simp: provider_init_def)
  then have "provider_ui.ui_reach (exec (provider_handle Tick ?s0) (start ?s0))"
    using provider_ui.reach_user[of "start ?s0" Tick] by (simp add: provider_enabled_def)
  then have "provider_ui.ui_reach ?c"
    by (rule provider_ui.reach_outcome) (simp add: ev)
  note p = polls_only_in_session[OF this, THEN conjunct1]
  have "pv_polling (st ?c)" "pv_me (st ?c) = Some admin_me" by (simp_all add: ev)
  with p show ?thesis by simp
qed

text \<open>The roles in their order; a role the frontend does not know ranks with VIEWER.\<close>

definition role_rank :: "jstr \<Rightarrow> nat" where
  "role_rank r =
     (if r = js ''ADMIN'' then 3 else if r = js ''OPERATOR'' then 2
      else if r = js ''ENROLLMENT_OPERATOR'' then 1 else 0)"

text \<open>C36: The roles form a hierarchy: whatever the server's switch and the work session, giving an
  identity a higher role takes away no capability and no page of the route table, and the
  server's switch and the session are read off as before.\<close>

theorem role_hierarchy:
  assumes "pv_me s = Some me" and "role_rank (me_role me) \<le> role_rank r"
    and "s' = s\<lparr>pv_me := Some (me\<lparr>me_role := r\<rparr>)\<rparr>"
  shows "list_all2 (\<longrightarrow>) (capabilities (auth_of s)) (capabilities (auth_of s')) \<and>
         (\<forall>route \<in> set App_routes. \<forall>p. show_route ss (auth_of s) route = Render p \<longrightarrow>
            show_route ss (auth_of s') route = Render p) \<and>
         serverWriteEnabled (auth_of s') = serverWriteEnabled (auth_of s) \<and>
         writeSessionActive (auth_of s') = writeSessionActive (auth_of s)"
proof (intro conjI)
  let ?r = "me_role me"
  have w: "?r \<in> WRITE_CAPABLE_ROLES \<longrightarrow> r \<in> WRITE_CAPABLE_ROLES"
    using assms(2) by (auto simp: role_rank_def WRITE_CAPABLE_ROLES_def split: if_splits)
  have op: "(?r = js ''OPERATOR'' \<or> ?r = js ''ADMIN'') \<longrightarrow> (r = js ''OPERATOR'' \<or> r = js ''ADMIN'')"
    using assms(2) by (auto simp: role_rank_def split: if_splits)
  have admin: "?r = js ''ADMIN'' \<longrightarrow> r = js ''ADMIN''"
    using assms(2) by (auto simp: role_rank_def split: if_splits)
  have eq: "auth_of s = auth_of s" "pv_me s = Some me" "pv_me s' = Some (me\<lparr>me_role := r\<rparr>)" using assms by simp_all
  show "list_all2 (\<longrightarrow>) (capabilities (auth_of s)) (capabilities (auth_of s'))"
    using w op admin by (simp add: capabilities_def auth_of_def Let_def eq(2,3) del: js_inj)
  have roles: "\<forall>route \<in> set App_routes. snd (snd (snd route)) \<in> {None, Some [''ADMIN'']}"
    by (simp add: App_routes_def)
  have guard: "RequireRole (auth_of s') [''ADMIN''] q = Render p"
    if "RequireRole (auth_of s) [''ADMIN''] q = Render p" for q p :: page_name
    using that admin by (simp add: RequireRole_def auth_of_def Let_def eq(2,3) assms(3) split: if_splits)
  show "\<forall>route \<in> set App_routes. \<forall>p. show_route ss (auth_of s) route = Render p \<longrightarrow>
      show_route ss (auth_of s') route = Render p"
    using roles guard by (fastforce simp: show_route_def split: if_splits prod.splits)
qed (use assms in \<open>simp_all add: auth_of_def Let_def\<close>)

theorem role_hierarchy_witness:
  "canEditRoster (auth_of (initial_provider None\<lparr>pv_me := Some (viewer_me\<lparr>me_role := js ''ENROLLMENT_OPERATOR''\<rparr>)\<rparr>)) \<and>
   list_all2 (\<longrightarrow>)
     (capabilities (auth_of (initial_provider None\<lparr>pv_me := Some (viewer_me\<lparr>me_role := js ''ENROLLMENT_OPERATOR''\<rparr>)\<rparr>)))
     (capabilities (auth_of (initial_provider None\<lparr>pv_me := Some (viewer_me\<lparr>me_role := js ''ADMIN''\<rparr>)\<rparr>)))"
proof -
  let ?s = "initial_provider None\<lparr>pv_me := Some (viewer_me\<lparr>me_role := js ''ENROLLMENT_OPERATOR''\<rparr>)\<rparr>"
  have "role_rank (me_role (viewer_me\<lparr>me_role := js ''ENROLLMENT_OPERATOR''\<rparr>)) \<le> role_rank (js ''ADMIN'')"
    by (simp add: role_rank_def)
  from role_hierarchy[OF _ this, of ?s, OF _ refl] show ?thesis
    by (simp add: auth_of_def Let_def WRITE_CAPABLE_ROLES_def viewer_me_def)
qed

text \<open>Every page but the login needs a token, and the audit trail additionally an
  identity whose role is ADMIN: no other combination renders it, in particular not while
  the identity is loading or unknown.\<close>

theorem routes_guarded:
  assumes "r \<in> set App_routes" and "show_route ss a r = Render p"
  shows "(p \<noteq> P_Login \<longrightarrow> truthy (getToken ss)) \<and>
         (p = P_Audit \<longrightarrow> \<not> au_loading a \<and> (\<exists>me. au_me a = Some me \<and> me_role me = js ''ADMIN''))"
  using assms
  by (auto simp: App_routes_def show_route_def RequireAuth_def RequireRole_def
      split: if_splits option.splits)

theorem routes_guarded_witness:
  "(P_Audit \<noteq> P_Login \<longrightarrow> truthy (getToken (setToken (js ''t'') Map.empty))) \<and>
   (P_Audit = P_Audit \<longrightarrow>
      \<not> au_loading (auth_of (initial_provider None\<lparr>pv_loading := False, pv_me := Some admin_me\<rparr>)) \<and>
      (\<exists>me. au_me (auth_of (initial_provider None\<lparr>pv_loading := False, pv_me := Some admin_me\<rparr>)) = Some me \<and>
            me_role me = js ''ADMIN''))"
  by (rule routes_guarded[where r = "(''/audit'', P_Audit, True, Some [''ADMIN''])"])
    (simp_all add: App_routes_def show_route_def RequireAuth_def RequireRole_def auth_of_def
      Let_def admin_me_def)

end
