(* ===== verification/Hooks.thy ===== *)
theory Hooks
  imports Client
begin

text \<open>
  The two hooks that own asynchronous data: \<open>frontend/src/hooks/useApi.ts\<close>, a query that
  is fetched again whenever its dependencies change, and
  \<open>frontend/src/hooks/useAttendanceStream.ts\<close>, the live attendance stream with its
  server-sent event parser and its reconnection. \<open>JSON.parse\<close> is an argument of the parser.
\<close>

section \<open>useApi\<close>

text \<open>Each run of the effect has an AbortController; \<open>as_run\<close> counts the runs, so a run is
  aborted when it is not the last one or the component is gone.\<close>

record 'a api_state =
  as_data :: "'a option"
  as_loading :: bool
  as_error :: "jstr option"
  as_run :: nat
  as_mounted :: bool

definition api_idle :: "'a api_state" where
  "api_idle = \<lparr>as_data = None, as_loading = True, as_error = None, as_run = 0, as_mounted = True\<rparr>"

text \<open>The effect: on mount, on \<open>reload\<close> and when a dependency changes.\<close>

definition api_effect :: "'a api_state \<Rightarrow> 'a api_state" where
  "api_effect s = s\<lparr>as_run := Suc (as_run s), as_loading := True, as_error := None\<rparr>"

definition api_aborted :: "nat \<Rightarrow> 'a api_state \<Rightarrow> bool" where
  "api_aborted i s \<longleftrightarrow> i \<noteq> as_run s \<or> \<not> as_mounted s"

definition api_settle :: "nat \<Rightarrow> js_error + 'a \<Rightarrow> 'a api_state \<Rightarrow> 'a api_state" where
  "api_settle i r s =
     (if api_aborted i s then s
      else (case r of
              Inr d \<Rightarrow> s\<lparr>as_data := Some d, as_loading := False\<rparr>
            | Inl e \<Rightarrow> s\<lparr>as_error := Some (error_message e), as_loading := False\<rparr>))"

datatype 'a api_event = Effect | Settle nat "js_error + 'a" | Unmount

fun api_step :: "'a api_event \<Rightarrow> 'a api_state \<Rightarrow> 'a api_state" where
  "api_step Effect s = api_effect s"
| "api_step (Settle i r) s = api_settle i r s"
| "api_step Unmount s = s\<lparr>as_mounted := False\<rparr>"

definition api_run :: "'a api_event list \<Rightarrow> 'a api_state \<Rightarrow> 'a api_state" where
  "api_run es s = fold api_step es s"

text \<open>The first outcome of a run in a trace; a promise settles once.\<close>

fun outcome_of :: "nat \<Rightarrow> 'a api_event list \<Rightarrow> (js_error + 'a) option" where
  "outcome_of i [] = None"
| "outcome_of i (Settle j r # es) = (if i = j then Some r else outcome_of i es)"
| "outcome_of i (_ # es) = outcome_of i es"

definition settles_once :: "'a api_event list \<Rightarrow> bool" where
  "settles_once es \<longleftrightarrow> distinct (concat (map (\<lambda>e. case e of Settle i r \<Rightarrow> [i] | _ \<Rightarrow> []) es))"

lemma api_run_simps [simp]:
  "api_run [] s = s" "api_run (e # es) s = api_run es (api_step e s)"
  "api_run (es @ fs) s = api_run fs (api_run es s)"
  by (simp_all add: api_run_def)

lemma settles_once_Cons:
  "settles_once (Settle i r # es) \<Longrightarrow> settles_once es \<and> outcome_of i es = None"
proof -
  have "outcome_of i es = None" if "i \<notin> (\<Union>e\<in>set es. set (case e of Settle i r \<Rightarrow> [i] | _ \<Rightarrow> []))"
    using that by (induction i es rule: outcome_of.induct) auto
  then show "settles_once (Settle i r # es) \<Longrightarrow> settles_once es \<and> outcome_of i es = None"
    by (auto simp: settles_once_def)
qed

lemma api_run_quiet:
  assumes "Effect \<notin> set es" "Unmount \<notin> set es" "settles_once es" "as_mounted s"
  shows "api_run es s =
    (case outcome_of (as_run s) es of
       None \<Rightarrow> s
     | Some (Inr d) \<Rightarrow> s\<lparr>as_data := Some d, as_loading := False\<rparr>
     | Some (Inl e) \<Rightarrow> s\<lparr>as_error := Some (error_message e), as_loading := False\<rparr>)"
  using assms
proof (induction es arbitrary: s)
  case (Cons e es)
  then obtain i r where e: "e = Settle i r" by (cases e) auto
  with Cons.prems have once: "settles_once es" "outcome_of i es = None"
    using settles_once_Cons by blast+
  show ?case
  proof (cases "i = as_run s")
    case True
    with e once Cons show ?thesis
      by (cases r) (simp_all add: api_settle_def api_aborted_def)
  next
    case False
    with e once Cons show ?thesis by (simp add: api_settle_def api_aborted_def)
  qed
qed simp

lemma api_run_mounted: "Unmount \<notin> set es \<Longrightarrow> as_mounted (api_run es s) = as_mounted s"
proof (induction es arbitrary: s)
  case (Cons e es)
  moreover have "as_mounted (api_step e s) = as_mounted s" if "e \<noteq> Unmount"
    using that by (cases e) (auto simp: api_effect_def api_settle_def split: sum.splits)
  ultimately show ?case by (metis api_run_simps(2) list.set_intros(1) list.set_intros(2))
qed simp

lemma api_run_run:
  "as_run (api_run es s) = as_run s + length (filter (\<lambda>e. case e of Effect \<Rightarrow> True | _ \<Rightarrow> False) es)"
proof (induction es arbitrary: s)
  case (Cons e es)
  then show ?case
    by (cases e) (auto simp: api_effect_def api_settle_def split: sum.splits)
qed simp

text \<open>C7: The latest run of a query decides what is shown. Whatever answers arrive, in whatever
  order, after the last time the effect ran: until the answer to that run comes the query is
  loading, without an error, with the data it had before; a success replaces the data; a
  failure puts its message beside the data it had before; and an answer to an earlier run that
  arrives later changes nothing at all.\<close>

theorem useApi_latest_wins:
  assumes "Unmount \<notin> set before" and "Unmount \<notin> set after" and "Effect \<notin> set after"
    and "settles_once after"
  shows "let s = api_run (before @ Effect # after) api_idle;
             n = Suc (length (filter (\<lambda>e. case e of Effect \<Rightarrow> True | _ \<Rightarrow> False) before))
         in as_run s = n \<and>
            (case outcome_of n after of
               None \<Rightarrow> as_loading s \<and> as_error s = None \<and> as_data s = as_data (api_run before api_idle)
             | Some (Inr d) \<Rightarrow> \<not> as_loading s \<and> as_error s = None \<and> as_data s = Some d
             | Some (Inl e) \<Rightarrow> \<not> as_loading s \<and> as_error s = Some (error_message e) \<and>
                  as_data s = as_data (api_run before api_idle))"
proof -
  let ?b = "api_run before api_idle"
  have m: "as_mounted (api_effect ?b)"
    using api_run_mounted[OF assms(1), of api_idle] by (simp add: api_effect_def api_idle_def)
  have run: "as_run (api_effect ?b) = Suc (length (filter (\<lambda>e. case e of Effect \<Rightarrow> True | _ \<Rightarrow> False) before))"
    by (simp add: api_effect_def api_run_run) (simp add: api_idle_def)
  show ?thesis
    using api_run_quiet[OF assms(3,2,4) m] run
    by (simp add: Let_def split: option.split sum.split) (auto simp: api_effect_def)
qed

theorem useApi_latest_wins_witness:
  "as_data (api_run [Effect, Effect, Settle 2 (Inr (7::int)), Settle 1 (Inr 3)] api_idle) = Some 7"
proof -
  have f: "Unmount \<notin> set [Effect :: int api_event]" by simp
  show ?thesis
    using useApi_latest_wins[OF f, of "[Settle 2 (Inr 7), Settle 1 (Inr 3)]"]
    by (simp add: settles_once_def Let_def numeral_2_eq_2)
qed

section \<open>Server-sent events\<close>

text \<open>What the collector publishes for a scan; the parser is over any type of events.\<close>

record attendance_event =
  ae_user_id :: jstr
  ae_device_ip :: jstr
  ae_scan_time :: jstr
  ae_punch_type :: "jstr option"
  ae_status :: "jstr option"
  ae_event_type :: jstr

text \<open>A block ends at an empty line; \<open>drain\<close> is the inner loop, giving the complete blocks
  and the rest of the buffer.\<close>

definition block_end :: jstr where
  "block_end = [10, 10]"

lemma index_of_bound: "js_index_of s p = Some i \<Longrightarrow> i + length p \<le> length s"
proof -
  assume "js_index_of s p = Some i"
  then obtain t where t: "s = take i s @ p @ t" "i \<le> length s" using js_index_of_Some by blast
  from arg_cong[OF t(1), of length] t(2) show ?thesis by simp
qed

function drain :: "jstr \<Rightarrow> jstr list \<times> jstr" where
  "drain buffer =
     (case js_index_of buffer block_end of
        None \<Rightarrow> ([], buffer)
      | Some idx \<Rightarrow>
          (let block = js_slice 0 idx buffer; rest = drop (idx + 2) buffer; (bs, r) = drain rest
           in (block # bs, r)))"
  by pat_completeness auto
termination
  by (relation "measure length") (auto dest!: index_of_bound simp: block_end_def)

declare drain.simps [simp del]

definition data_line :: "jstr \<Rightarrow> jstr option" where
  "data_line block = List.find (\<lambda>l. js_starts l (js ''data: '')) (js_split 10 block)"

text \<open>\<open>setLastEvent\<close> for a block: no data line or no JSON leaves the last event as it was.\<close>

definition take_block :: "(jstr \<Rightarrow> 'ev option) \<Rightarrow> 'ev option \<Rightarrow> jstr \<Rightarrow> 'ev option" where
  "take_block parse lastEvent block =
     (case data_line block of
        None \<Rightarrow> lastEvent
      | Some l \<Rightarrow> (case parse (drop 6 l) of None \<Rightarrow> lastEvent | Some ev \<Rightarrow> Some ev))"

text \<open>One pass of the outer loop: a decoded chunk.\<close>

definition feed :: "(jstr \<Rightarrow> 'ev option) \<Rightarrow> jstr \<Rightarrow> jstr \<times> 'ev option \<Rightarrow> jstr \<times> 'ev option" where
  "feed parse chunk s =
     (case s of (buffer, lastEvent) \<Rightarrow>
        (let (bs, rest) = drain (buffer @ chunk) in (rest, foldl (take_block parse) lastEvent bs)))"

lemma index_of_append: "js_index_of a p = Some i \<Longrightarrow> js_index_of (a @ b) p = Some i"
proof (induction a arbitrary: i)
  case Nil
  then have "p = []" by (simp split: if_splits)
  with Nil show ?case by (cases b) auto
next
  case (Cons c a)
  have "js_starts (c # a @ b) p" if "js_starts (c # a) p"
    using that js_starts_iff[of "c # a" p] js_starts_iff[of "c # a @ b" p]
    by (metis append.assoc append_Cons)
  moreover have "\<not> js_starts (c # a @ b) p" if "\<not> js_starts (c # a) p" "js_index_of a p = Some j" for j
  proof
    assume "js_starts (c # a @ b) p"
    then obtain t where t: "c # a @ b = p @ t" by (auto simp: js_starts_iff)
    have "length p \<le> length a" using index_of_bound[OF that(2)] by simp
    with t have "p = take (length p) (c # a)"
      by (metis append_eq_conv_conj append_Cons take_append le_SucI length_Cons diff_is_0_eq take_0 append_Nil2)
    then have "c # a = p @ drop (length p) (c # a)" by (metis append_take_drop_id)
    then have "js_starts (c # a) p" by (auto simp: js_starts_iff)
    with that show False by blast
  qed
  ultimately show ?case using Cons by (auto split: if_splits)
qed

lemma drain_append:
  "drain (a @ b) = (fst (drain a) @ fst (drain (snd (drain a) @ b)), snd (drain (snd (drain a) @ b)))"
proof (induction a rule: drain.induct)
  case (1 a)
  show ?case
  proof (cases "js_index_of a block_end")
    case None
    then have "drain a = ([], a)" by (simp add: drain.simps[of a])
    then show ?thesis by simp
  next
    case (Some i)
    note ab = index_of_append[OF Some, of b]
    have i: "i + 2 \<le> length a" using index_of_bound[OF Some] by (simp add: block_end_def)
    let ?rest = "drop (i + 2) a"
    have IH: "drain (?rest @ b) =
      (fst (drain ?rest) @ fst (drain (snd (drain ?rest) @ b)), snd (drain (snd (drain ?rest) @ b)))"
      using 1[OF Some refl refl] by (metis prod.collapse)
    have a: "drain a = (js_slice 0 i a # fst (drain ?rest), snd (drain ?rest))"
      by (subst drain.simps) (simp add: Some Let_def split_def)
    have "drain (a @ b) = (js_slice 0 i (a @ b) # fst (drain (?rest @ b)), snd (drain (?rest @ b)))"
      using i by (subst drain.simps) (simp add: ab Let_def split_def)
    moreover have "js_slice 0 i (a @ b) = js_slice 0 i a" using i by (simp add: js_slice_def)
    ultimately show ?thesis using a IH by simp
  qed
qed

lemma drain_snd_stable: "drain (snd (drain a)) = ([], snd (drain a))"
proof (induction a rule: drain.induct)
  case (1 a)
  show ?case
  proof (cases "js_index_of a block_end")
    case None
    then show ?thesis by (simp add: drain.simps[of a])
  next
    case (Some i)
    then show ?thesis using 1[OF Some refl refl]
      by (subst (1 2) drain.simps[of a]) (simp add: Let_def split_def)
  qed
qed

lemma feed_append: "feed parse c2 (feed parse c1 s) = feed parse (c1 @ c2) s"
proof -
  obtain b l where s: "s = (b, l)" by force
  show ?thesis
    using drain_append[of "b @ c1" c2]
    by (simp add: s feed_def Let_def split_def foldl_append)
qed

text \<open>C5: The stream parser does not depend on how the network cuts the stream: feeding the
  chunks one by one, whatever their boundaries (inside a block, inside the blank line that
  ends it), leaves the same buffer and the same last event as feeding the whole text at
  once.\<close>

theorem stream_chunking:
  "fold (feed parse) chunks ([], lastEvent) =
   (if chunks = [] then ([], lastEvent) else feed parse (concat chunks) ([], lastEvent))"
proof -
  have "fold (feed parse) cs (feed parse c s) = feed parse (c @ concat cs) s" for c cs s
    by (induction cs arbitrary: c) (simp_all add: feed_append)
  then show ?thesis by (cases chunks) simp_all
qed

text \<open>A well-formed stream: blocks that do not contain an empty line.\<close>

definition frame :: "jstr \<Rightarrow> jstr" where
  "frame payload = js ''data: '' @ payload @ block_end"

lemma index_of_frame:
  assumes "10 \<notin> set s" "hd t \<noteq> 10 \<or> t = []"
  shows "js_index_of (s @ [10, 10] @ t) [10, 10] = Some (length s)"
  using assms by (induction s) auto

lemma js_split_line: "d \<notin> set s \<Longrightarrow> js_split d s = [s]"
  by (induction s) auto

lemma data_prefix: "10 \<notin> set (js ''data: '')" "length (js ''data: '') = 6"
  by (simp_all add: js_eval of_char_def)

lemma frame_index: "10 \<notin> set p \<Longrightarrow> js_index_of (frame p @ t) block_end = Some (6 + length p)"
proof -
  assume p: "10 \<notin> set p"
  have "js_index_of (s @ [10, 10] @ t) [10, 10] = Some (length s)" if "10 \<notin> set s" for s
    using that by (induction s) (auto split: list.splits)
  from this[of "js ''data: '' @ p"] p data_prefix show ?thesis
    by (simp add: frame_def block_end_def)
qed

lemma drain_frame:
  assumes "10 \<notin> set p"
  shows "drain (frame p @ t) = (let (bs, r) = drain t in ((js ''data: '' @ p) # bs, r))"
proof -
  have "js_slice 0 (6 + length p) (frame p @ t) = js ''data: '' @ p"
    using data_prefix(2) by (simp add: js_slice_def frame_def)
  moreover have "drop (6 + length p + 2) (frame p @ t) = t"
    using data_prefix(2) by (simp add: frame_def block_end_def)
  ultimately show ?thesis
    by (subst drain.simps) (simp only: frame_index[OF assms] option.case Let_def split_def)
qed

lemma take_block_frame:
  "10 \<notin> set p \<Longrightarrow> parse p = Some ev \<Longrightarrow> take_block parse lastEvent (js ''data: '' @ p) = Some ev"
  using data_prefix js_split_line[of 10 "js ''data: '' @ p"] by (simp add: take_block_def data_line_def)

lemma feed_frame:
  assumes "10 \<notin> set p"
  shows "feed parse (frame p @ t) ([], lastEvent) = feed parse t ([], take_block parse lastEvent (js ''data: '' @ p))"
  using drain_frame[OF assms, of t] by (simp add: feed_def Let_def split_def)

lemma feed_frames:
  assumes "\<forall>q \<in> set payloads. 10 \<notin> set q" and "10 \<notin> set p" and "parse p = Some ev"
  shows "feed parse (concat (map frame payloads) @ frame p) ([], lastEvent) = ([], Some ev)"
  using assms(1)
proof (induction payloads arbitrary: lastEvent)
  case Nil
  have "feed parse (frame p @ []) ([], lastEvent) = feed parse [] ([], Some ev)"
    using feed_frame[OF assms(2), of parse "[]" lastEvent] take_block_frame[of p parse ev lastEvent] assms by simp
  moreover have "drain [] = ([], [])" by (simp add: drain.simps[of "[]"] block_end_def)
  ultimately show ?case by (simp add: feed_def)
next
  case (Cons q qs)
  then show ?case using feed_frame[of q parse "concat (map frame qs) @ frame p" lastEvent] by simp
qed

lemma feed_concat:
  assumes "chunks \<noteq> []"
  shows "fold (feed parse) chunks s = feed parse (concat chunks) s"
proof -
  have "fold (feed parse) cs (feed parse c s) = feed parse (c @ concat cs) s" for c cs
    by (induction cs arbitrary: c) (simp_all add: feed_append)
  with assms show ?thesis by (cases chunks) auto
qed

text \<open>Every event is delivered: for a sequence of events each sent as one data line, the
  last one becomes the hook's last event and the buffer ends empty, however the network cut
  the text into chunks; a payload that is not JSON before it does not stop the stream.\<close>

theorem stream_delivers:
  assumes "concat chunks = concat (map frame payloads) @ frame p"
    and "\<forall>q \<in> set payloads. 10 \<notin> set q" and "10 \<notin> set p" and "parse p = Some ev"
  shows "fold (feed parse) chunks ([], lastEvent) = ([], Some ev)"
proof -
  have "chunks \<noteq> []" using assms(1) by (auto simp: frame_def block_end_def)
  with feed_concat[of chunks parse] feed_frames[OF assms(2,3), of parse ev lastEvent] assms(1,4) show ?thesis by simp
qed

theorem stream_delivers_witness:
  "fold (feed (\<lambda>s. if s = js ''{}'' then Some (1::int) else None))
     [take 3 (frame (js ''x'')), drop 3 (frame (js ''x'')) @ frame (js ''{}'')] ([], None) = ([], Some 1)"
  by (rule stream_delivers[where payloads = "[js ''x'']" and p = "js ''{}''"])
    (simp_all add: append_assoc[symmetric] js_eval of_char_def del: append_assoc)

section \<open>The connection\<close>

text \<open>
  Every call of \<open>connect\<close> with a token makes a connection with its own AbortController and
  its own \<open>closed\<close> flag. The cleanup that sets \<open>closed\<close> is only kept for the call the
  mount effect made (\<open>sm_cleanup\<close>); the calls of the timer and of Retry drop it.
\<close>

datatype stream_status = Connecting | Connected | Disconnected

datatype phase = Fetching | Reading jstr | Waiting | Over

record conn =
  cn_closed :: bool
  cn_aborted :: bool
  cn_phase :: phase

record 'ev stream =
  sm_token :: "jstr option"
  sm_mounted :: bool
  sm_status :: stream_status
  sm_last :: "'ev option"
  sm_abortRef :: "nat option"
  sm_cleanup :: "nat option"
  sm_conns :: "conn list"

definition new_conn :: conn where
  "new_conn = \<lparr>cn_closed = False, cn_aborted = False, cn_phase = Fetching\<rparr>"

definition connect :: "'ev stream \<Rightarrow> 'ev stream" where
  "connect s =
     (if \<not> truthy (sm_token s) then s\<lparr>sm_status := Disconnected\<rparr>
      else s\<lparr>sm_status := Connecting, sm_abortRef := Some (length (sm_conns s)),
             sm_conns := sm_conns s @ [new_conn]\<rparr>)"

text \<open>The connection \<open>i\<close> changed by a function; \<open>abortRef.current?.abort()\<close>.\<close>

definition upd_conn :: "nat \<Rightarrow> (conn \<Rightarrow> conn) \<Rightarrow> 'ev stream \<Rightarrow> 'ev stream" where
  "upd_conn i f s = s\<lparr>sm_conns := (sm_conns s)[i := f (sm_conns s ! i)]\<rparr>"

definition abort_current :: "'ev stream \<Rightarrow> 'ev stream" where
  "abort_current s =
     (case sm_abortRef s of None \<Rightarrow> s | Some i \<Rightarrow> upd_conn i (\<lambda>c. c\<lparr>cn_aborted := True\<rparr>) s)"

definition mount_stream :: "jstr option \<Rightarrow> 'ev stream" where
  "mount_stream token =
     connect \<lparr>sm_token = token, sm_mounted = True, sm_status = Disconnected, sm_last = None,
       sm_abortRef = None, sm_cleanup = (if truthy token then Some 0 else None), sm_conns = []\<rparr>"

definition unmount :: "'ev stream \<Rightarrow> 'ev stream" where
  "unmount s =
     abort_current
       (case sm_cleanup s of
          None \<Rightarrow> s\<lparr>sm_mounted := False\<rparr>
        | Some i \<Rightarrow> upd_conn i (\<lambda>c. c\<lparr>cn_closed := True, cn_aborted := True\<rparr>) (s\<lparr>sm_mounted := False\<rparr>))"

definition reconnect :: "'ev stream \<Rightarrow> 'ev stream" where
  "reconnect s = connect (abort_current s)"

text \<open>The response arrives; a bad one throws into \<open>finally\<close>.\<close>

definition finish :: "nat \<Rightarrow> 'ev stream \<Rightarrow> 'ev stream" where
  "finish i s =
     (let c = sm_conns s ! i in
      if \<not> cn_closed c \<and> \<not> cn_aborted c
      then upd_conn i (\<lambda>c. c\<lparr>cn_phase := Waiting\<rparr>) (s\<lparr>sm_status := Disconnected\<rparr>)
      else upd_conn i (\<lambda>c. c\<lparr>cn_phase := Over\<rparr>) s)"

definition response :: "nat \<Rightarrow> bool \<Rightarrow> 'ev stream \<Rightarrow> 'ev stream" where
  "response i ok s =
     (if ok then upd_conn i (\<lambda>c. c\<lparr>cn_phase := Reading []\<rparr>) (s\<lparr>sm_status := Connected\<rparr>)
      else finish i s)"

definition chunk :: "(jstr \<Rightarrow> 'ev option) \<Rightarrow> nat \<Rightarrow> jstr \<Rightarrow> 'ev stream \<Rightarrow> 'ev stream" where
  "chunk parse i piece s =
     (case cn_phase (sm_conns s ! i) of
        Reading buffer \<Rightarrow>
          (let (rest, ev) = feed parse piece (buffer, sm_last s) in
           upd_conn i (\<lambda>c. c\<lparr>cn_phase := Reading rest\<rparr>) (s\<lparr>sm_last := ev\<rparr>))
      | _ \<Rightarrow> s)"

definition timer :: "nat \<Rightarrow> 'ev stream \<Rightarrow> 'ev stream" where
  "timer i s =
     (let s' = upd_conn i (\<lambda>c. c\<lparr>cn_phase := Over\<rparr>) s in
      if \<not> cn_closed (sm_conns s ! i) then connect s' else s')"

text \<open>
  What can happen. A fetch or a read of an aborted connection rejects, so it can only end.
  Retry is a button of the badge, shown while the hook says \<open>disconnected\<close>; the flag
  \<open>anytime\<close> says whether it may also be pressed while a reconnection timer is running, as
  the badge allows.
\<close>

definition open_conn :: "conn \<Rightarrow> bool" where
  "open_conn c \<longleftrightarrow> (case cn_phase c of Fetching \<Rightarrow> True | Reading b \<Rightarrow> True | _ \<Rightarrow> False)"

definition live :: "'ev stream \<Rightarrow> nat \<Rightarrow> bool" where
  "live s i \<longleftrightarrow> i < length (sm_conns s) \<and> open_conn (sm_conns s ! i) \<and> \<not> cn_aborted (sm_conns s ! i)"

definition waiting :: "'ev stream \<Rightarrow> nat \<Rightarrow> bool" where
  "waiting s i \<longleftrightarrow> i < length (sm_conns s) \<and> cn_phase (sm_conns s ! i) = Waiting"

inductive stream_step :: "(jstr \<Rightarrow> 'ev option) \<Rightarrow> bool \<Rightarrow> 'ev stream \<Rightarrow> 'ev stream \<Rightarrow> bool"
  for parse anytime where
  on_response: "live s i \<Longrightarrow> cn_phase (sm_conns s ! i) = Fetching \<Longrightarrow>
     stream_step parse anytime s (response i ok s)"
| on_chunk: "live s i \<Longrightarrow> cn_phase (sm_conns s ! i) = Reading b \<Longrightarrow>
     stream_step parse anytime s (chunk parse i piece s)"
| on_end: "i < length (sm_conns s) \<Longrightarrow> open_conn (sm_conns s ! i) \<Longrightarrow>
     stream_step parse anytime s (finish i s)"
| on_timer: "waiting s i \<Longrightarrow> stream_step parse anytime s (timer i s)"
| on_retry: "sm_mounted s \<Longrightarrow> sm_status s = Disconnected \<Longrightarrow> anytime \<or> (\<forall>i. \<not> waiting s i) \<Longrightarrow>
     stream_step parse anytime s (reconnect s)"
| on_unmount: "sm_mounted s \<Longrightarrow> stream_step parse anytime s (unmount s)"
| on_token: "stream_step parse anytime s (s\<lparr>sm_token := token\<rparr>)"

inductive stream_reach :: "(jstr \<Rightarrow> 'ev option) \<Rightarrow> bool \<Rightarrow> 'ev stream \<Rightarrow> bool"
  for parse anytime where
  mounted: "stream_reach parse anytime (mount_stream token)"
| stepped: "stream_reach parse anytime s \<Longrightarrow> stream_step parse anytime s s' \<Longrightarrow>
     stream_reach parse anytime s'"

lemmas live_defs = live_def waiting_def open_conn_def new_conn_def

lemmas conn_defs = connect_def upd_conn_def abort_current_def finish_def response_def chunk_def
  timer_def reconnect_def unmount_def mount_stream_def

text \<open>A connection that will do something by itself.\<close>

definition active_conn :: "conn \<Rightarrow> bool" where
  "active_conn c \<longleftrightarrow> (open_conn c \<and> \<not> cn_aborted c) \<or> cn_phase c = Waiting"

definition pending :: "'ev stream \<Rightarrow> nat \<Rightarrow> bool" where
  "pending s i \<longleftrightarrow> i < length (sm_conns s) \<and> active_conn (sm_conns s ! i)"

lemma pending_iff: "pending s i \<longleftrightarrow> live s i \<or> waiting s i"
  by (auto simp: pending_def active_conn_def live_def waiting_def)

lemma active_simps [simp]:
  "active_conn new_conn" "active_conn (c\<lparr>cn_phase := Waiting\<rparr>)" "\<not> active_conn (c\<lparr>cn_phase := Over\<rparr>)"
  "active_conn (c\<lparr>cn_phase := Reading b\<rparr>) \<longleftrightarrow> \<not> cn_aborted c"
  "active_conn (c\<lparr>cn_aborted := True\<rparr>) \<longleftrightarrow> cn_phase c = Waiting"
  "active_conn (c\<lparr>cn_closed := x, cn_aborted := True\<rparr>) \<longleftrightarrow> cn_phase c = Waiting"
  by (auto simp: active_conn_def open_conn_def new_conn_def split: phase.splits)

lemma pending_upd_conn [simp]:
  "pending (upd_conn i f s) j \<longleftrightarrow>
     (if j = i then i < length (sm_conns s) \<and> active_conn (f (sm_conns s ! i)) else pending s j)"
  by (auto simp: pending_def upd_conn_def)

lemma pending_upd [simp]:
  "pending (s\<lparr>sm_status := x\<rparr>) = pending s" "pending (s\<lparr>sm_last := l\<rparr>) = pending s"
  "pending (s\<lparr>sm_token := t\<rparr>) = pending s" "pending (s\<lparr>sm_mounted := b\<rparr>) = pending s"
  by (simp_all add: pending_def fun_eq_iff)

lemma upd_conn_fields [simp]:
  "sm_abortRef (upd_conn i f s) = sm_abortRef s" "sm_mounted (upd_conn i f s) = sm_mounted s"
  "sm_status (upd_conn i f s) = sm_status s" "sm_token (upd_conn i f s) = sm_token s"
  "length (sm_conns (upd_conn i f s)) = length (sm_conns s)"
  by (simp_all add: upd_conn_def)

text \<open>Every pending connection is the one \<open>abortRef\<close> holds.\<close>

definition single_inv :: "'ev stream \<Rightarrow> bool" where
  "single_inv s \<longleftrightarrow> (\<forall>i. pending s i \<longrightarrow> sm_abortRef s = Some i)"

lemma single_inv_eq: "single_inv s \<Longrightarrow> pending s i \<Longrightarrow> pending s j \<Longrightarrow> i = j"
  by (metis single_inv_def option.inject)

lemma pending_connect:
  "pending (connect s) i \<longleftrightarrow> pending s i \<or> (truthy (sm_token s) \<and> i = length (sm_conns s))"
  by (auto simp: pending_def connect_def nth_append less_Suc_eq)

lemma connect_single: "\<forall>i. \<not> pending s i \<Longrightarrow> single_inv (connect s)"
  by (auto simp: single_inv_def pending_connect) (simp add: connect_def)

lemma waiting_pending: "waiting s i \<Longrightarrow> pending s i"
  by (simp add: pending_iff)

lemma live_pending: "live s i \<Longrightarrow> pending s i"
  by (simp add: pending_iff)

lemma abort_current_none:
  "single_inv s \<Longrightarrow> \<forall>i. \<not> waiting s i \<Longrightarrow> \<not> pending (abort_current s) i"
  by (auto simp: single_inv_def abort_current_def waiting_def split: option.splits)

lemma upd_single:
  assumes "single_inv s" and "pending s i \<or> \<not> active_conn (f (sm_conns s ! i))"
  shows "single_inv (upd_conn i f s)"
  using assms by (auto simp: single_inv_def)

lemma timer_single: "single_inv s \<Longrightarrow> waiting s i \<Longrightarrow> single_inv (timer i s)"
proof -
  assume s: "single_inv s" and w: "waiting s i"
  let ?s = "upd_conn i (\<lambda>c. c\<lparr>cn_phase := Over\<rparr>) s"
  have "\<not> pending ?s j" for j
    using single_inv_eq[OF s waiting_pending[OF w], of j] by auto
  then show ?thesis
    using connect_single[of ?s] by (auto simp: timer_def Let_def single_inv_def)
qed

lemma single_inv_upd [simp]:
  "single_inv (s\<lparr>sm_status := x\<rparr>) = single_inv s" "single_inv (s\<lparr>sm_last := l\<rparr>) = single_inv s"
  "single_inv (s\<lparr>sm_token := t\<rparr>) = single_inv s" "single_inv (s\<lparr>sm_mounted := b\<rparr>) = single_inv s"
  by (auto simp: single_inv_def)

lemma finish_single:
  "single_inv s \<Longrightarrow> i < length (sm_conns s) \<Longrightarrow> open_conn (sm_conns s ! i) \<Longrightarrow>
   single_inv (finish i s)"
  unfolding finish_def Let_def by (auto intro!: upd_single simp: pending_def active_conn_def)

lemma waiting_active: "cn_phase c = Waiting \<Longrightarrow> active_conn c"
  by (simp add: active_conn_def)

lemma close_single:
  assumes "single_inv s"
  shows "single_inv (upd_conn i (\<lambda>c. c\<lparr>cn_closed := b, cn_aborted := True\<rparr>) s)"
proof -
  have "pending s i" if "i < length (sm_conns s)" "cn_phase (sm_conns s ! i) = Waiting"
    using that by (simp add: pending_def waiting_active)
  with assms show ?thesis by (auto simp: single_inv_def)
qed

lemma abort_current_single: "single_inv s \<Longrightarrow> single_inv (abort_current s)"
  by (auto simp: single_inv_def abort_current_def split: option.splits)

lemma step_single: "stream_step parse False s s' \<Longrightarrow> single_inv s \<Longrightarrow> single_inv s'"
proof (induction rule: stream_step.induct)
  case (on_response s i ok)
  then show ?case
    by (cases ok)
      (auto simp: response_def live_pending live_def intro!: upd_single finish_single)
next
  case (on_chunk s i b piece)
  then show ?case
    by (auto simp: chunk_def Let_def split_def live_pending intro!: upd_single)
next
  case (on_retry s)
  then show ?case unfolding reconnect_def
    by (intro connect_single) (simp add: abort_current_none)
next
  case (on_unmount s)
  then show ?case
    by (auto simp: unmount_def close_single intro!: abort_current_single split: option.splits)
qed (simp_all add: finish_single timer_single)

text \<open>C6: Without a Retry during the reconnection delay there is never more than one stream:
  in every reachable state at most one connection is open or waiting for its reconnection
  timer, so an event is never processed twice.\<close>

theorem one_stream:
  assumes "stream_reach parse False s" and "live s i \<or> waiting s i" and "live s j \<or> waiting s j"
  shows "i = j"
proof -
  have "single_inv s" using assms(1)
  proof (induction rule: stream_reach.induct)
    case (mounted token)
    show ?case unfolding mount_stream_def by (rule connect_single) (simp add: pending_def)
  qed (rule step_single)
  with assms(2,3) show ?thesis by (auto simp: pending_iff intro: single_inv_eq)
qed

theorem one_stream_witness: "\<not> live (mount_stream (Some (js ''t'')) :: unit stream) 1"
proof
  let ?s = "mount_stream (Some (js ''t'')) :: unit stream"
  assume one: "live ?s 1"
  have r: "stream_reach (\<lambda>_. None) False ?s" by (rule stream_reach.mounted)
  have "live ?s 0" by (simp add: conn_defs live_defs)
  then show False using one_stream[OF r, of 0 1] one by simp
qed

text \<open>While mounted no connection is closed, and something is pending or Retry is shown.\<close>

definition stall_inv :: "'ev stream \<Rightarrow> bool" where
  "stall_inv s \<longleftrightarrow> (sm_mounted s \<longrightarrow>
     (\<forall>c \<in> set (sm_conns s). \<not> cn_closed c) \<and> ((\<exists>i. pending s i) \<or> sm_status s = Disconnected))"

lemma connect_fields [simp]: "sm_mounted (connect s) = sm_mounted s"
  by (simp add: connect_def)

lemma connect_stall: "\<forall>c \<in> set (sm_conns s). \<not> cn_closed c \<Longrightarrow> stall_inv (connect s)"
  unfolding stall_inv_def pending_connect by (auto simp: connect_def new_conn_def)

lemma upd_conn_set: "c \<in> set (sm_conns (upd_conn i f s)) \<Longrightarrow>
   c \<in> set (sm_conns s) \<or> (c = f (sm_conns s ! i) \<and> sm_conns s ! i \<in> set (sm_conns s))"
  by (cases "i < length (sm_conns s)")
    (auto simp: upd_conn_def list_update_beyond dest!: set_update_subset_insert[THEN subsetD])

lemma upd_stall:
  assumes "stall_inv s" "i < length (sm_conns s)"
    and "active_conn (f (sm_conns s ! i)) \<or> \<not> pending s i"
    and "cn_closed (f (sm_conns s ! i)) = cn_closed (sm_conns s ! i)"
  shows "stall_inv (upd_conn i f s)"
proof -
  have "\<forall>c \<in> set (sm_conns (upd_conn i f s)). \<not> cn_closed c" if "sm_mounted s"
    using that assms(1,2,4) by (auto simp: stall_inv_def dest!: upd_conn_set)
  moreover have "(\<exists>j. pending (upd_conn i f s) j) \<or> sm_status s = Disconnected" if "sm_mounted s"
    using that assms(1,2,3) unfolding stall_inv_def pending_upd_conn by metis
  ultimately show ?thesis by (auto simp: stall_inv_def)
qed

lemma finish_stall:
  assumes "stall_inv s" "i < length (sm_conns s)" "open_conn (sm_conns s ! i)"
  shows "stall_inv (finish i s)"
proof (cases "\<not> cn_closed (sm_conns s ! i) \<and> \<not> cn_aborted (sm_conns s ! i)")
  case True
  then have "finish i s = upd_conn i (\<lambda>c. c\<lparr>cn_phase := Waiting\<rparr>) (s\<lparr>sm_status := Disconnected\<rparr>)"
    by (simp add: finish_def)
  moreover have "stall_inv (s\<lparr>sm_status := Disconnected\<rparr>)" using assms(1) by (auto simp: stall_inv_def)
  ultimately show ?thesis using assms(2) by (auto intro!: upd_stall)
next
  case False
  then have f: "finish i s = upd_conn i (\<lambda>c. c\<lparr>cn_phase := Over\<rparr>) s" by (auto simp: finish_def)
  show ?thesis
  proof (cases "sm_mounted s")
    case True
    then have "\<not> cn_closed (sm_conns s ! i)" using assms(1,2) by (auto simp: stall_inv_def)
    with False have "cn_aborted (sm_conns s ! i)" by blast
    with assms(3) have "\<not> pending s i"
      by (auto simp: pending_def active_conn_def open_conn_def)
    with assms(1,2) show ?thesis unfolding f by (auto intro!: upd_stall)
  next
    case False
    then show ?thesis by (simp add: f stall_inv_def)
  qed
qed

lemma live_stall:
  assumes "sm_mounted s \<Longrightarrow> \<forall>c \<in> set (sm_conns s). \<not> cn_closed c" and "live s i"
    and "active_conn (f (sm_conns s ! i))" and "cn_closed (f (sm_conns s ! i)) = cn_closed (sm_conns s ! i)"
  shows "stall_inv (upd_conn i f s)"
  using assms(1)
  by (auto simp: stall_inv_def intro!: exI[of _ i] dest!: upd_conn_set)
    (insert assms(2-4), auto simp: live_def)

lemma step_stall: "stream_step parse anytime s s' \<Longrightarrow> stall_inv s \<Longrightarrow> stall_inv s'"
proof (induction rule: stream_step.induct)
  case (on_response s i ok)
  then show ?case
    by (cases ok)
      (auto simp: response_def stall_inv_def[of s] live_def intro!: live_stall finish_stall)
next
  case (on_chunk s i b piece)
  then show ?case
    by (auto simp: chunk_def Let_def split_def stall_inv_def[of s] live_def intro!: live_stall)
next
  case (on_timer s i)
  let ?s = "upd_conn i (\<lambda>c. c\<lparr>cn_phase := Over\<rparr>) s"
  have i: "i < length (sm_conns s)" using on_timer by (simp add: waiting_def)
  show ?case
  proof (cases "sm_mounted s")
    case True
    then have "\<not> cn_closed c" if "c \<in> set (sm_conns s)" for c
      using on_timer that by (auto simp: stall_inv_def)
    moreover from this have "\<forall>c \<in> set (sm_conns ?s). \<not> cn_closed c"
      using i by (auto dest!: upd_conn_set)
    ultimately show ?thesis
      using i connect_stall[of ?s] by (simp add: timer_def Let_def)
  next
    case False
    then show ?thesis by (simp add: timer_def Let_def stall_inv_def)
  qed
next
  case (on_retry s)
  then have "\<forall>c \<in> set (sm_conns (abort_current s)). \<not> cn_closed c"
    by (auto simp: abort_current_def stall_inv_def split: option.splits dest!: upd_conn_set)
  then show ?case unfolding reconnect_def by (rule connect_stall)
next
  case (on_unmount s)
  then show ?case by (auto simp: stall_inv_def unmount_def abort_current_def split: option.splits)
next
  case (on_token s token)
  then show ?case by (simp add: stall_inv_def)
qed (simp add: finish_stall)

text \<open>The live view never dies silently: in every reachable state of a mounted page, a
  connection is open or its reconnection timer is running (and will connect, not being
  closed), or the status is \<open>disconnected\<close>, so the badge offers Retry.\<close>

theorem stream_never_stalls:
  assumes "stream_reach parse anytime s" and "sm_mounted s"
  shows "(\<exists>i. live s i) \<or> (\<exists>i. waiting s i \<and> \<not> cn_closed (sm_conns s ! i)) \<or> sm_status s = Disconnected"
proof -
  have "stall_inv s" using assms(1)
  proof (induction rule: stream_reach.induct)
    case (mounted token)
    show ?case unfolding mount_stream_def by (rule connect_stall) simp
  qed (rule step_stall)
  with assms(2) show ?thesis by (auto simp: stall_inv_def pending_iff waiting_def)
qed

theorem stream_never_stalls_witness:
  "(\<exists>i. live (mount_stream None :: unit stream) i) \<or>
   (\<exists>i. waiting (mount_stream None :: unit stream) i \<and>
        \<not> cn_closed (sm_conns (mount_stream None :: unit stream) ! i)) \<or>
   sm_status (mount_stream None :: unit stream) = Disconnected"
  by (rule stream_never_stalls[OF stream_reach.mounted[of "\<lambda>_. None" True]])
    (simp add: mount_stream_def connect_def)

text \<open>C38: Pressing Retry during the reconnection delay doubles the stream: the timer only
  looks at the flag of its own call, which Retry does not set, so it connects a second time.
  A state with two live connections is reachable, and \<open>abortRef\<close> holds only one of them,
  so leaving the page does not abort the other.\<close>

theorem retry_doubles_stream:
  "\<exists>s. stream_reach parse True s \<and> live s 1 \<and> live s 2 \<and> live (unmount s) 1"
proof -
  let ?t = "Some (js ''t'')"
  let ?s1 = "finish 0 (mount_stream ?t)"
  let ?s2 = "reconnect ?s1"
  let ?s3 = "timer 0 ?s2"
  have "stream_reach parse True (mount_stream ?t)" by (rule stream_reach.mounted)
  then have "stream_reach parse True ?s1"
    by (rule stream_reach.stepped) (rule stream_step.on_end; simp add: conn_defs live_defs)
  then have "stream_reach parse True ?s2"
    by (rule stream_reach.stepped) (rule stream_step.on_retry; simp add: conn_defs live_defs)
  then have "stream_reach parse True ?s3"
    by (rule stream_reach.stepped) (rule stream_step.on_timer; simp add: conn_defs live_defs)
  moreover have "live ?s3 1 \<and> live ?s3 2 \<and> live (unmount ?s3) 1"
    by (simp add: conn_defs live_defs Let_def)
  ultimately show ?thesis by blast
qed

text \<open>Leaving the page does not always end the stream: the cleanup of the mount effect
  closes only the first connection, so a reconnection timer of a later one still connects
  after the page is gone.\<close>

theorem stream_after_unmount:
  "\<exists>s. stream_reach parse False s \<and> \<not> sm_mounted s \<and> live s 2"
proof -
  let ?t = "Some (js ''t'')"
  let ?s1 = "finish 0 (mount_stream ?t)"
  let ?s2 = "timer 0 ?s1"
  let ?s3 = "finish 1 ?s2"
  let ?s4 = "unmount ?s3"
  let ?s5 = "timer 1 ?s4"
  have "stream_reach parse False (mount_stream ?t)" by (rule stream_reach.mounted)
  then have "stream_reach parse False ?s1"
    by (rule stream_reach.stepped) (rule stream_step.on_end; simp add: conn_defs live_defs)
  then have "stream_reach parse False ?s2"
    by (rule stream_reach.stepped) (rule stream_step.on_timer; simp add: conn_defs live_defs)
  then have "stream_reach parse False ?s3"
    by (rule stream_reach.stepped) (rule stream_step.on_end; simp add: conn_defs live_defs Let_def)
  then have "stream_reach parse False ?s4"
    by (rule stream_reach.stepped) (rule stream_step.on_unmount; simp add: conn_defs live_defs Let_def)
  then have "stream_reach parse False ?s5"
    by (rule stream_reach.stepped) (rule stream_step.on_timer; simp add: conn_defs live_defs Let_def)
  moreover have "\<not> sm_mounted ?s5 \<and> live ?s5 2"
    by (simp add: conn_defs live_defs Let_def)
  ultimately show ?thesis by blast
qed

end
