(* ===== verification/Widgets.thy ===== *)
theory Widgets
  imports View Hooks I18n Schema
begin

text \<open>
  The shared widgets: the badges, banner and card of \<open>frontend/src/components/Status.tsx\<close>,
  \<open>ConfirmModal.tsx\<close>, \<open>RankSelect.tsx\<close> and \<open>PersonCombobox.tsx\<close>. A widget with state of
  its own has a record and one definition per handler; the texts of the language in use are
  the dictionary \<open>t\<close>.
\<close>

section \<open>Status.tsx\<close>

definition Badge :: "tone \<Rightarrow> 'e view list \<Rightarrow> 'e view" where
  "Badge tone children = Toned tone children"

text \<open>The label of a status: the first of the three maps that translates it.\<close>

definition status_label :: "lang \<Rightarrow> jstr \<Rightarrow> jstr" where
  "status_label locale s =
     foldl (\<lambda>acc m. if acc \<noteq> s then acc else enumLabel m s locale) s
       [enrollmentStatusLabels, mappingStatusLabels, attendanceStatusLabels]"

definition one_of :: "jstr \<Rightarrow> string list \<Rightarrow> bool" where
  "one_of s ks \<longleftrightarrow> list_ex (\<lambda>k. s = js k) ks"

definition StatusBadge :: "lang \<Rightarrow> jstr option \<Rightarrow> 'e view" where
  "StatusBadge locale status =
     (let s = nn (map_option js_upper status) [];
          label = status_label locale s in
      if one_of s [''ON_TIME'', ''VERIFIED'', ''HEALTHY'', ''LIVE'', ''ACTIVE'']
      then Badge Green [Txt label]
      else if one_of s [''LATE'', ''UNKNOWN'', ''UNHEALTHY'', ''FAIL''] then Badge Amber [Txt label]
      else if one_of s [''CANCELLED'', ''RETIRED'', ''REVOKED'', ''INACTIVE'']
      then Badge Neutral [Txt label]
      else if js_includes s (js ''PENDING'') \<or> js_includes s (js ''RESERVED'')
      then Badge Blue [Txt label]
      else if s = js ''READY_FOR_MAPPING'' then Badge Purple [Txt label]
      else Badge Neutral [Txt (if label = [] then [0x2014] else label)])"

definition ScopeBadge :: "bool \<Rightarrow> 'e view" where
  "ScopeBadge scope =
     (if scope then Badge Green [Txt (js ''production'')] else Badge Neutral [Txt (js ''excluded'')])"

definition WriteGateStatusBadge :: "dict \<Rightarrow> bool \<Rightarrow> 'e view" where
  "WriteGateStatusBadge t writeEnabled =
     (if writeEnabled then Toned Amber [Txt (t ''status.writesActive'')]
      else Toned Neutral [Txt (t ''status.writesLocked'')])"

definition StreamStatusBadge :: "dict \<Rightarrow> stream_status \<Rightarrow> 'e option \<Rightarrow> 'e view" where
  "StreamStatusBadge t status onRetry =
     Toned (case status of Connected \<Rightarrow> Green | Connecting \<Rightarrow> Amber | Disconnected \<Rightarrow> Neutral)
       [Txt (case status of
               Connected \<Rightarrow> t ''stream.connected''
             | Connecting \<Rightarrow> t ''stream.connecting''
             | Disconnected \<Rightarrow> t ''stream.disconnected''),
        (case onRetry of
           Some e \<Rightarrow> when_v (status = Disconnected) [Btn False (t ''stream.retry'') e]
         | None \<Rightarrow> Box [])]"

definition Loading :: "dict \<Rightarrow> 'e view" where
  "Loading t = Box [Txt (t ''common.loading'')]"

definition ErrorBanner :: "dict \<Rightarrow> jstr \<Rightarrow> 'e view" where
  "ErrorBanner t m = Toned Red [Txt (js ''!''), Box [Txt (t ''common.error''), Txt m]]"

definition StatCard :: "jstr \<Rightarrow> 'e view \<Rightarrow> jstr option \<Rightarrow> bool \<Rightarrow> 'e view" where
  "StatCard label val hint highlight =
     Toned (if highlight then Blue else Neutral)
       [Txt label, Box [val], when_v (truthy hint) [Txt (nn hint [])]]"

section \<open>ConfirmModal.tsx\<close>

datatype modal_tone = MNeutral | MDanger | MPrimary

definition ConfirmModal ::
  "dict \<Rightarrow> bool \<Rightarrow> jstr \<Rightarrow> modal_tone \<Rightarrow> jstr \<Rightarrow> bool \<Rightarrow> 'e \<Rightarrow> 'e \<Rightarrow> 'e view list \<Rightarrow> 'e view" where
  "ConfirmModal t opened title tone confirmLabel busy onConfirm onCancel children =
     (if \<not> opened then Box []
      else Box
        [Txt title,
         Box children,
         Btn busy (t ''common.cancel'') onCancel,
         Toned (case tone of MDanger \<Rightarrow> Red | MPrimary \<Rightarrow> Purple | MNeutral \<Rightarrow> Blue)
           [Btn busy (if busy then t ''common.saving'' else confirmLabel) onConfirm]])"

lemma offers_ConfirmModal [simp]:
  "offers (ConfirmModal t opened title tone confirmLabel busy onConfirm onCancel children) =
     (if opened then (\<Union>v \<in> set children. offers v) \<union> (if busy then {} else {onCancel, onConfirm})
      else {})"
  by (auto simp: ConfirmModal_def)

section \<open>RankSelect.tsx\<close>

definition RankSelect ::
  "dict \<Rightarrow> rank_reference list api_state \<Rightarrow> jstr \<Rightarrow> (jstr \<Rightarrow> 'e) \<Rightarrow> bool \<Rightarrow> 'e view" where
  "RankSelect t ranks val onChange disabled =
     Select (disabled \<or> as_loading ranks) val
       (([], t ''personnel.selectRankPlaceholder'') #
        map (\<lambda>r. (rr_rank_th_abbreviation r,
               rr_rank_th_full r @ js '' ('' @ rr_rank_th_abbreviation r @ js '')''))
          (nn (as_data ranks) []))
       onChange"

text \<open>The rank dropdown only offers ranks of the server's list: an event it raises is a
  change to no rank or to the abbreviation of a loaded rank, and while disabled or while the
  list is loading it raises none.\<close>

theorem rank_select_canonical:
  "offers (RankSelect t ranks v f disabled) =
     (if disabled \<or> as_loading ranks then {}
      else insert (f []) (f ` rr_rank_th_abbreviation ` set (nn (as_data ranks) [])))"
  by (auto simp: RankSelect_def image_image)

section \<open>PersonCombobox.tsx\<close>

record combobox =
  cb_query :: jstr
  cb_open :: bool

definition combobox0 :: combobox where
  "combobox0 = \<lparr>cb_query = [], cb_open = False\<rparr>"

definition person_label :: "human \<Rightarrow> jstr" where
  "person_label h =
     h_display_name h @ (if truthy (h_rank h) then js '' ('' @ the (h_rank h) @ js '')'' else [])"

text \<open>The effect on \<open>[value]\<close>: follow the selection unless the list is open.\<close>

definition combobox_sync :: "human list option \<Rightarrow> jstr \<Rightarrow> combobox \<Rightarrow> combobox" where
  "combobox_sync humans val s =
     (if cb_open s then s
      else s\<lparr>cb_query :=
        (case List.find (\<lambda>h. h_employee_id h = val) (nn humans []) of
           None \<Rightarrow> [] | Some h \<Rightarrow> person_label h)\<rparr>)"

definition person_matches :: "jstr \<Rightarrow> human \<Rightarrow> bool" where
  "person_matches q h \<longleftrightarrow>
     q = [] \<or> js_includes (js_lower (h_display_name h)) q
     \<or> js_includes (js_lower (nn (h_english_name h) [])) q
     \<or> js_includes (js_lower (nn (h_rank h) [])) q
     \<or> js_includes (js_lower (nn (h_personnel_id h) [])) q"

definition combobox_filtered :: "human list option \<Rightarrow> combobox \<Rightarrow> human list" where
  "combobox_filtered humans s =
     filter (person_matches (js_lower (js_trim (cb_query s)))) (nn humans [])"

datatype combobox_event = CbFocus | CbType jstr | CbPick human | CbClickOutside

text \<open>A handler gives the new state and, when it calls it, the argument of \<open>onChange\<close>.\<close>

definition combobox_handle ::
  "jstr \<Rightarrow> combobox_event \<Rightarrow> combobox \<Rightarrow> combobox \<times> jstr option" where
  "combobox_handle val e s =
     (case e of
        CbFocus \<Rightarrow> (s\<lparr>cb_open := True\<rparr>, None)
      | CbType q \<Rightarrow> (s\<lparr>cb_query := q, cb_open := True\<rparr>, if val \<noteq> [] then Some [] else None)
      | CbPick h \<Rightarrow> (s\<lparr>cb_query := person_label h, cb_open := False\<rparr>, Some (h_employee_id h))
      | CbClickOutside \<Rightarrow> (s\<lparr>cb_open := False\<rparr>, None))"

definition PersonCombobox ::
  "dict \<Rightarrow> human list option \<Rightarrow> bool \<Rightarrow> combobox \<Rightarrow> combobox_event view" where
  "PersonCombobox t humans disabled s =
     Box
       [Field disabled (cb_query s) CbType,
        Box (if disabled then [] else [Btn False [] CbFocus]),
        when_v (cb_open s \<and> \<not> disabled)
          (if combobox_filtered humans s = [] then [Txt (t ''enrollment.noPersonMatchFound'')]
           else map (\<lambda>h. Btn False (person_label h) (CbPick h)) (take 100 (combobox_filtered humans s)))]"

lemma shown_row: "x \<in> set (take n (filter P xs)) \<Longrightarrow> x \<in> set xs \<and> P x"
  by (auto dest: in_set_takeD)

text \<open>The combobox is not an identity resolver: \<open>onChange\<close> gets an employee id only when
  the operator picks a row, every row shown is a person of the list whose name, English name,
  rank or personnel id contains the typed text, at most a hundred are shown, and typing while
  someone is selected clears the selection.\<close>

theorem combobox_only_picks:
  assumes "e \<in> offers (PersonCombobox t humans disabled s)"
    and "combobox_handle val e s = (s', change)"
  shows "\<not> disabled \<and>
         (case e of
            CbPick h \<Rightarrow> change = Some (h_employee_id h) \<and> h \<in> set (nn humans []) \<and>
              person_matches (js_lower (js_trim (cb_query s))) h \<and> cb_open s \<and> \<not> cb_open s'
          | CbType q \<Rightarrow> change = (if val \<noteq> [] then Some [] else None) \<and> cb_query s' = q
          | _ \<Rightarrow> change = None \<and> cb_query s' = cb_query s)"
  using assms
  by (auto simp: PersonCombobox_def combobox_handle_def combobox_filtered_def
      split: if_splits dest!: shown_row)

definition sample_human :: human where
  "sample_human = \<lparr>h_active = True, h_branch = None, h_category = None, h_created_at = [],
     h_display_name = js ''Somchai'', h_employee_id = js ''e1'', h_english_name = None,
     h_has_active_terminal_account = None, h_notes = None, h_personnel_id = None,
     h_position = None, h_production_scope = True, h_rank = None, h_rank_metadata = None,
     h_scan_exempt = False, h_scan_exempt_reason = None, h_source = [], h_updated_at = []\<rparr>"

theorem combobox_only_picks_witness:
  "sample_human \<in> set (nn (Some [sample_human]) [])"
  using combobox_only_picks
    [of "CbPick sample_human" "\<lambda>k. js k" "Some [sample_human]" False "\<lparr>cb_query = [], cb_open = True\<rparr>" "[]"]
  by (simp add: PersonCombobox_def combobox_handle_def combobox_filtered_def person_matches_def)

lemma status_label_cases:
  "status_label l s =
     (case label_entry enrollmentStatusLabels s of
        Some (en, th) \<Rightarrow> (case l of En \<Rightarrow> en | Th \<Rightarrow> th)
      | None \<Rightarrow> (case label_entry mappingStatusLabels s of
          Some (en, th) \<Rightarrow> (case l of En \<Rightarrow> en | Th \<Rightarrow> th)
        | None \<Rightarrow> (case label_entry attendanceStatusLabels s of
            Some (en, th) \<Rightarrow> (case l of En \<Rightarrow> en | Th \<Rightarrow> th)
          | None \<Rightarrow> s)))"
  using label_readable(3,4)[of enrollmentStatusLabels s] label_readable(3,4)[of mappingStatusLabels s]
  by (auto simp: status_label_def enumLabel_def label_maps_def split: option.splits lang.splits)

lemma label_entry_Nil: "m \<in> set label_maps \<Longrightarrow> label_entry m [] = None"
  by (auto simp: label_maps_def label_map_defs)

lemma label_entry_Nils [simp]:
  "label_entry enrollmentStatusLabels [] = None" "label_entry mappingStatusLabels [] = None"
  "label_entry attendanceStatusLabels [] = None"
  by (simp_all add: label_entry_Nil label_maps_def)

lemma status_label_Nil: "status_label l s = [] \<longleftrightarrow> s = []"
proof -
  show ?thesis
    using label_readable(1,2)[of enrollmentStatusLabels s] label_readable(1,2)[of mappingStatusLabels s]
      label_readable(1,2)[of attendanceStatusLabels s]
    by (auto simp: status_label_cases label_maps_def split: option.splits lang.splits)
qed

lemma status_badge_texts:
  "texts (StatusBadge l status :: 'e view) =
     (let s = nn (map_option js_upper status) [] in [if s = [] then [0x2014] else status_label l s])"
proof (cases "nn (map_option js_upper status) [] = []")
  case True
  then show ?thesis using status_label_Nil[of l "[]"]
    by (simp add: StatusBadge_def Badge_def one_of_def js_includes_iff)
next
  case False
  then show ?thesis using status_label_Nil[of l "nn (map_option js_upper status) []"]
    by (simp add: StatusBadge_def Badge_def Let_def)
qed

text \<open>A status the three maps know is shown by its translation and never by its raw code,
  whatever its letter case was; a status they do not know is shown in capitals as it came, and
  no status at all as a dash.\<close>

theorem status_badge_text:
  "texts (StatusBadge l status :: 'e view) =
     (let s = nn (map_option js_upper status) [];
          entry = (case label_entry enrollmentStatusLabels s of
                     Some x \<Rightarrow> Some x
                   | None \<Rightarrow> (case label_entry mappingStatusLabels s of
                                Some x \<Rightarrow> Some x
                              | None \<Rightarrow> label_entry attendanceStatusLabels s))
      in (case entry of
            Some (en, th) \<Rightarrow> [case l of En \<Rightarrow> en | Th \<Rightarrow> th]
          | None \<Rightarrow> [if s = [] then [0x2014] else s]))"
  by (simp only: status_badge_texts status_label_cases Let_def)
    (auto split: option.splits lang.splits)

end
