(* ===== verification/Sessions.thy ===== *)
theory Sessions
  imports Auth_Session Client Widgets
begin

text \<open>
  The work session and the schedule: \<open>frontend/src/components/WriteSessionControl.tsx\<close> (the
  badge and the control panel) and \<open>components/SchedulerControl.tsx\<close>. Each panel is a component
  of \<open>Async_UI\<close>. \<open>time\<close> is \<open>new Date(s).getTime()\<close>, \<open>None\<close> for NaN, which depends on the
  browser's time zone; \<open>shown\<close> is \<open>toLocaleString\<close>.
\<close>

section \<open>WriteSessionControl.tsx\<close>

definition formatRemaining :: "(jstr \<Rightarrow> int option) \<Rightarrow> jstr \<Rightarrow> int \<Rightarrow> jstr" where
  "formatRemaining time expiresAt now =
     (case time expiresAt of
        None \<Rightarrow> js ''NaN:NaN''
      | Some t \<Rightarrow>
          (let ms = t - now in
           if ms \<le> 0 then js ''00:00''
           else (let totalSeconds = ms div 1000;
                     mm = pad_start 2 48 (js_num (totalSeconds div 60));
                     ss = pad_start 2 48 (js_num (totalSeconds mod 60))
                 in mm @ js '':'' @ ss)))"

definition WriteSessionBadge ::
  "(jstr \<Rightarrow> int option) \<Rightarrow> dict \<Rightarrow> auth \<Rightarrow> int \<Rightarrow> 'e view" where
  "WriteSessionBadge time t a now =
     (let effectiveActive = serverWriteEnabled a \<and> writeSessionActive a;
          expires = Option.bind (writeSession a) ws_expires_at in
      if \<not> workSessionRequired a then Box []
      else if effectiveActive \<and> truthy expires
      then Toned Green [Txt (t ''writeSession.badgeActive''), Txt (formatRemaining time (the expires) now)]
      else Toned Neutral [Txt (t ''writeSession.badgeLocked'')])"

record ws_control =
  wc_auth :: auth
  wc_reason :: jstr
  wc_busy :: bool
  wc_error :: "jstr option"
  wc_now :: int

datatype ws_event = WcReason jstr | WcOpen | WcClose

datatype ws_effect = WcReload

type_synonym ws_prog = "(ws_control, call, reply, ws_effect) prog"

definition ws_handleOpen :: "dict \<Rightarrow> ws_control \<Rightarrow> ws_prog" where
  "ws_handleOpen t s =
     (if js_trim (wc_reason s) = [] then Ret s
      else Call (s\<lparr>wc_busy := True, wc_error := None\<rparr>) (api_openWriteSession (js_trim (wc_reason s)))
        (\<lambda>r s. case r of
            Inr res \<Rightarrow> Eff WcReload (Ret (s\<lparr>wc_reason := [], wc_busy := False\<rparr>))
          | Inl err \<Rightarrow> Ret (s\<lparr>wc_error := Some
              (if is_api_code err ''WRITE_SESSION_ALREADY_ACTIVE'' then t ''writeSession.alreadyActive''
               else if is_api_code err ''WRITE_DISABLED'' then t ''personnel.writesDisabledNotice''
               else t ''writeSession.openFailed'' @ js '': '' @ error_message err),
               wc_busy := False\<rparr>)))"

definition ws_handleClose :: "ws_control \<Rightarrow> ws_prog" where
  "ws_handleClose s =
     Call (s\<lparr>wc_busy := True, wc_error := None\<rparr>) api_closeWriteSession
       (\<lambda>r s. case r of
           Inr res \<Rightarrow> Eff WcReload (Ret (s\<lparr>wc_busy := False\<rparr>))
         | Inl err \<Rightarrow> Ret (s\<lparr>wc_error := Some (error_message err), wc_busy := False\<rparr>))"

definition ws_handle :: "dict \<Rightarrow> ws_event \<Rightarrow> ws_control \<Rightarrow> ws_prog" where
  "ws_handle t e s =
     (case e of
        WcReason x \<Rightarrow> Ret (s\<lparr>wc_reason := x\<rparr>)
      | WcOpen \<Rightarrow> ws_handleOpen t s
      | WcClose \<Rightarrow> ws_handleClose s)"

definition WriteSessionControl ::
  "(jstr \<Rightarrow> int option) \<Rightarrow> dict \<Rightarrow> ws_control \<Rightarrow> ws_event view" where
  "WriteSessionControl time t s =
     (let a = wc_auth s; ws = writeSession a in
      Box
       [Txt (t ''writeSession.title''),
        (if writeSessionActive a \<and> ws \<noteq> None then
           Box
            [Txt (t ''writeSession.activeTitle''),
             Txt (t ''writeSession.openedByLabel''), Txt (nn (ws_opened_by_name (the ws)) []),
             Txt (t ''writeSession.remainingLabel''),
             Txt (if truthy (ws_expires_at (the ws))
                  then formatRemaining time (the (ws_expires_at (the ws))) (wc_now s) else [0x2014]),
             Txt (t ''writeSession.reasonLabel''), Txt (nn (ws_reason (the ws)) []),
             when_v (canOpenWorkSession a)
               [Btn (wc_busy s)
                  (if wc_busy s then t ''writeSession.closing'' else t ''writeSession.closeButton'')
                  WcClose]]
         else
           Box
            [Txt (t ''writeSession.lockedTitle''),
             Txt (t ''writeSession.lockedBody''),
             (if canOpenWorkSession a then
                Box
                 [Field False (wc_reason s) WcReason,
                  Btn (wc_busy s \<or> js_trim (wc_reason s) = [])
                    (if wc_busy s then t ''writeSession.opening'' else t ''writeSession.openButton'')
                    WcOpen]
              else Txt (t ''writeSession.adminOnlyHint''))]),
        when_v (truthy (wc_error s)) [Txt (nn (wc_error s) [])]])"

definition ws_init :: "ws_control \<Rightarrow> bool" where
  "ws_init s \<longleftrightarrow> wc_reason s = [] \<and> \<not> wc_busy s \<and> wc_error s = None"

text \<open>The identity is reloaded and the clock ticks from outside.\<close>

definition ws_env :: "ws_control \<Rightarrow> ws_control \<Rightarrow> bool" where
  "ws_env s s' \<longleftrightarrow> (\<exists>a now. s' = s\<lparr>wc_auth := a, wc_now := now\<rparr>)"

lemmas ws_handlers = ws_handle_def ws_handleOpen_def ws_handleClose_def

interpretation ws_ui: single_flight ws_init "\<lambda>s e. e \<in> offers (WriteSessionControl time t s)"
    "ws_handle t" ws_env wc_busy
  for time t
  by unfold_locales
    (auto simp: ws_init_def ws_env_def ws_handlers WriteSessionControl_def Let_def
       split: ws_event.splits sum.splits if_splits)

text \<open>Requests start only for an operator who may open a session.\<close>

definition ws_policy :: "ws_control \<Rightarrow> call \<Rightarrow> bool" where
  "ws_policy s q \<longleftrightarrow> canOpenWorkSession (wc_auth s) \<and>
     ((writeSessionActive (wc_auth s) \<and> q = api_closeWriteSession) \<or>
      (\<exists>r. r \<noteq> [] \<and> js_trim r = r \<and> q = api_openWriteSession r))"

text \<open>The work session panel never sends a request of an operator who may not open
  sessions, never opens one without a reason and never closes one that is not active; it has
  at most one request in flight, and whatever the answers are its handlers end with the
  buttons usable again.\<close>

theorem write_session_requests:
  assumes "ws_ui.ui_reach time t c"
  shows "(\<forall>s q. Inl (s, q) \<in> set (log c) \<longrightarrow> ws_policy s q) \<and>
         length (pend c) = (if wc_busy (st c) then 1 else 0) \<and>
         (\<forall>q k r rs s. (q, k) \<in> set (pend c) \<longrightarrow> answer (k r (st c)) rs = Some s \<longrightarrow> \<not> wc_busy s)"
proof -
  have "conf_ok (\<lambda>s. True) ws_policy c"
  proof (rule ws_ui.ui_invariant[OF _ _ _ assms])
    fix s e
    assume "e \<in> offers (WriteSessionControl time t s)"
    then show "safe (\<lambda>s. True) ws_policy (ws_handle t e s)"
      by (auto simp: ws_handlers WriteSessionControl_def ws_policy_def Let_def
          split: ws_event.splits sum.splits if_splits)
  qed simp_all
  then show ?thesis
    using ws_ui.one_in_flight[OF assms] ws_ui.ends_idle[OF assms] by (auto simp: conf_ok_def)
qed

theorem write_session_requests_witness:
  "let s = \<lparr>wc_auth = auth_of (initial_provider None\<lparr>pv_me := Some admin_me\<rparr>), wc_reason = [],
            wc_busy = False, wc_error = None, wc_now = 0\<rparr>;
       c = exec (ws_handle (\<lambda>k. js k) WcClose s) (start s) in
   length (pend c) = 1 \<and> (\<exists>s. Inl (s, api_closeWriteSession) \<in> set (log c))"
proof -
  let ?s = "\<lparr>wc_auth = auth_of (initial_provider None\<lparr>pv_me := Some admin_me\<rparr>), wc_reason = [],
            wc_busy = False, wc_error = None, wc_now = 0\<rparr>"
  have "ws_ui.ui_reach (\<lambda>_. None) (\<lambda>k. js k) (start ?s)"
    by (rule ws_ui.initial) (simp add: ws_init_def)
  then have "ws_ui.ui_reach (\<lambda>_. None) (\<lambda>k. js k) (exec (ws_handle (\<lambda>k. js k) WcClose ?s) (start ?s))"
    using ws_ui.reach_user[of "\<lambda>_. None" "\<lambda>k. js k" "start ?s" WcClose]
    by (simp add: WriteSessionControl_def Let_def auth_of_def admin_me_def)
  from write_session_requests[OF this] show ?thesis by (simp add: ws_handlers)
qed

lemma js_num_0: "js_num 0 = [48]"
  by (simp add: js_num_def nat_digits.simps js_Cons u16_of_char)

lemma zero_clock: "js ''00:00'' = pad_start 2 48 (js_num 0) @ js '':'' @ pad_start 2 48 (js_num 0)"
proof -
  have "js ''00:00'' = [48, 48, 58, 48, 48]" "js '':'' = [58]" by (simp_all add: js_eval of_char_def)
  then show ?thesis by (simp add: js_num_0 pad_start_def)
qed

text \<open>The countdown is exact: while time remains, the text is the whole minutes and the
  seconds left, each with at least two digits and the seconds below sixty, together the whole
  seconds remaining; afterwards it is \<open>00:00\<close>.\<close>

theorem formatRemaining_exact:
  assumes "time e = Some x"
  shows "\<exists>mm ss. formatRemaining time e now =
            pad_start 2 48 (js_num mm) @ js '':'' @ pad_start 2 48 (js_num ss) \<and>
          0 \<le> ss \<and> ss < 60 \<and> 0 \<le> mm \<and> 60 * mm + ss = max 0 ((x - now) div 1000)"
proof (cases "x - now \<le> 0")
  case True
  then have "(x - now) div 1000 \<le> 0" by simp
  moreover have "js ''00:00'' = pad_start 2 48 (js_num 0) @ js '':'' @ pad_start 2 48 (js_num 0)"
    by (simp only: zero_clock)
  ultimately show ?thesis using assms True
    by (intro exI[of _ 0]) (simp add: formatRemaining_def)
next
  case False
  then show ?thesis using assms
    by (intro exI[of _ "(x - now) div 1000 div 60"] exI[of _ "(x - now) div 1000 mod 60"])
      (simp add: formatRemaining_def Let_def pos_imp_zdiv_nonneg_iff)
qed

theorem formatRemaining_exact_witness:
  "\<exists>mm ss. formatRemaining (\<lambda>_. Some 90500) [] 0 =
            pad_start 2 48 (js_num mm) @ js '':'' @ pad_start 2 48 (js_num ss) \<and>
          0 \<le> ss \<and> ss < 60 \<and> 0 \<le> mm \<and> 60 * mm + ss = max (0::int) (90500 div 1000)"
  using formatRemaining_exact[of "\<lambda>_. Some 90500" "[]" 90500 0] by simp

section \<open>SchedulerControl.tsx\<close>

record last_run =
  lr_action :: jstr
  lr_result :: jstr
  lr_at :: jstr

record schedule_settings =
  ss_enabled :: bool
  ss_days :: jstr
  ss_start_time :: jstr
  ss_end_time :: jstr
  ss_timezone :: jstr
  ss_updated_by :: "int option"
  ss_updated_by_name :: "jstr option"
  ss_updated_at :: "jstr option"
  ss_active_window :: write_session_status
  ss_last_run :: "last_run option"

record scheduler =
  sc_auth :: auth
  sc_settings :: "schedule_settings api_state"
  sc_busy :: bool
  sc_msg :: "(bool \<times> jstr) option"
  sc_now :: int

datatype sc_event = ScToggle bool

datatype sc_effect = ScReload

definition sc_enabled :: "scheduler \<Rightarrow> bool" where
  "sc_enabled s = nn (map_option ss_enabled (as_data (sc_settings s))) False"

definition sc_handleToggle :: "dict \<Rightarrow> bool \<Rightarrow> scheduler \<Rightarrow> (scheduler, call, reply, sc_effect) prog" where
  "sc_handleToggle t nextEnabled s =
     Call (s\<lparr>sc_busy := True, sc_msg := None\<rparr>) (api_updateScheduleSettings nextEnabled)
       (\<lambda>r s. case r of
           Inr res \<Rightarrow> Eff ScReload
             (Ret (s\<lparr>sc_msg := Some (True, t ''system.schedulerUpdateSuccess''), sc_busy := False\<rparr>))
         | Inl err \<Rightarrow> Ret (s\<lparr>sc_msg := Some (False,
               or_str (Some (friendlyApiError err t)) (t ''system.schedulerUpdateFailed'')),
               sc_busy := False\<rparr>))"

definition sc_handle :: "dict \<Rightarrow> sc_event \<Rightarrow> scheduler \<Rightarrow> (scheduler, call, reply, sc_effect) prog" where
  "sc_handle t e s = (case e of ScToggle b \<Rightarrow> sc_handleToggle t b s)"

definition sc_badge :: "dict \<Rightarrow> scheduler \<Rightarrow> tone \<times> jstr" where
  "sc_badge t s =
     (let settings = sc_settings s; enabled = sc_enabled s;
          activeWindow = map_option ss_active_window (as_data settings) in
      if as_loading settings then (Neutral, t ''common.loading'')
      else if truthy (as_error settings) then (Neutral, t ''system.schedulerLoadError'')
      else if enabled \<and> nn (map_option ws_active activeWindow) False
      then (Green, t ''system.schedulerActiveWindowBadge'')
      else if enabled then (Amber, t ''system.schedulerEnabledBadge'')
      else if writeSessionActive (sc_auth s) then (Amber, t ''system.schedulerManualBadge'')
      else (Neutral, t ''system.schedulerLockedBadge''))"

definition STALE_MS :: int where
  "STALE_MS = 3 * 24 * 60 * 60 * 1000"

definition LastRunLine ::
  "(jstr \<Rightarrow> int option) \<Rightarrow> (jstr \<Rightarrow> jstr) \<Rightarrow> dict \<Rightarrow> last_run option \<Rightarrow> bool \<Rightarrow> int \<Rightarrow> 'e view" where
  "LastRunLine time shown t lastRun enabled now =
     (let stale = (case lastRun of None \<Rightarrow> True
            | Some r \<Rightarrow> (case time (lr_at r) of None \<Rightarrow> False | Some x \<Rightarrow> now - x > STALE_MS));
          warn = enabled \<and> stale in
      Toned (if warn then Red else Neutral)
        [Txt (t ''system.schedulerLastRun''),
         (case lastRun of
            Some r \<Rightarrow> Txt (shown (lr_at r) @ js '' ('' @ lr_action r @ [32, 0x2014, 32] @ lr_result r @ js '')'')
          | None \<Rightarrow> Txt (t ''system.schedulerNeverRun'')),
         when_v warn [Txt (t ''system.schedulerStaleWarning'')]])"

definition SchedulerControl ::
  "(jstr \<Rightarrow> int option) \<Rightarrow> (jstr \<Rightarrow> jstr) \<Rightarrow> dict \<Rightarrow> scheduler \<Rightarrow> sc_event view" where
  "SchedulerControl time shown t s =
     (let settings = sc_settings s; enabled = sc_enabled s; admin = isAdmin (sc_auth s) in
      Box
       [Txt (t ''system.schedulerTitle''),
        Txt (t ''system.schedulerSubtitle''),
        Badge (fst (sc_badge t s)) [Txt (snd (sc_badge t s))],
        when_v (truthy (as_error settings)) [ErrorBanner t (nn (as_error settings) [])],
        (case sc_msg s of
           None \<Rightarrow> Box []
         | Some (ok, m) \<Rightarrow> Toned (if ok then Green else Red) [Txt m]),
        (if as_loading settings then Loading t
         else
           Box
            [Txt (t ''system.schedulerToggleLabel''),
             Txt (t ''system.schedulerToggleHint''),
             (case as_data settings of
                None \<Rightarrow> Box []
              | Some d \<Rightarrow> Box
                  [Txt (ss_days d), Txt (ss_start_time d @ [0x2013] @ ss_end_time d),
                   Txt (ss_timezone d),
                   when_v (truthy (ss_updated_by_name d))
                     [Txt ([32, 0x2022] @ js '' by '' @ nn (ss_updated_by_name d) [])]]),
             Txt (if enabled then t ''system.schedulerToggleOn'' else t ''system.schedulerToggleOff''),
             Check (\<not> admin \<or> sc_busy s \<or> as_loading settings) enabled ScToggle,
             (case as_data settings of
                None \<Rightarrow> Box []
              | Some d \<Rightarrow> LastRunLine time shown t (ss_last_run d) enabled (sc_now s)),
             when_v (\<not> admin) [Txt (t ''system.schedulerAdminOnlyHint'')],
             when_v admin
               [Txt (t ''system.adminOnlyBadge''),
                Txt (nn (map_option me_username (au_me (sc_auth s))) [])]])])"

definition sc_init :: "scheduler \<Rightarrow> bool" where
  "sc_init s \<longleftrightarrow> sc_settings s = api_idle \<and> \<not> sc_busy s \<and> sc_msg s = None"

definition sc_env :: "scheduler \<Rightarrow> scheduler \<Rightarrow> bool" where
  "sc_env s s' \<longleftrightarrow> (\<exists>a q now. s' = s\<lparr>sc_auth := a, sc_settings := q, sc_now := now\<rparr>)"

lemma offers_LastRunLine [simp]: "offers (LastRunLine time shown t r en now) = {}"
  by (auto simp: LastRunLine_def Let_def split: option.splits)

lemma offers_SchedulerControl [simp]:
  "offers (SchedulerControl time shown t s) =
     (if isAdmin (sc_auth s) \<and> \<not> sc_busy s \<and> \<not> as_loading (sc_settings s)
      then {ScToggle (\<not> sc_enabled s)} else {})"
  by (auto simp: SchedulerControl_def Let_def Badge_def Loading_def ErrorBanner_def split: option.splits)

interpretation sc_ui: single_flight sc_init "\<lambda>s e. e \<in> offers (SchedulerControl time shown t s)"
    "sc_handle t" sc_env sc_busy
  for time shown t
  by unfold_locales
    (auto simp: sc_init_def sc_env_def sc_handle_def sc_handleToggle_def split: sum.splits if_splits)

text \<open>Only an ADMIN switches the schedule: every request the panel sends was started by an
  ADMIN on loaded settings and asks for the opposite of the state shown at that moment, and
  never two are in flight, so a double click cannot switch it back.\<close>

theorem scheduler_toggle:
  assumes "sc_ui.ui_reach time shown t c"
  shows "(\<forall>s q. Inl (s, q) \<in> set (log c) \<longrightarrow>
            isAdmin (sc_auth s) \<and> q = api_updateScheduleSettings (\<not> sc_enabled s)) \<and>
         length (pend c) = (if sc_busy (st c) then 1 else 0)"
proof -
  have "conf_ok (\<lambda>s. True)
      (\<lambda>s q. isAdmin (sc_auth s) \<and> q = api_updateScheduleSettings (\<not> sc_enabled s)) c"
  proof (rule sc_ui.ui_invariant[OF _ _ _ assms])
    fix s e
    assume "e \<in> offers (SchedulerControl time shown t s)"
    then show "safe (\<lambda>s. True)
      (\<lambda>s q. isAdmin (sc_auth s) \<and> q = api_updateScheduleSettings (\<not> sc_enabled s)) (sc_handle t e s)"
      by (auto simp: sc_handle_def sc_handleToggle_def sc_enabled_def split: if_splits sum.splits)
  qed simp_all
  then show ?thesis using sc_ui.one_in_flight[OF assms] by (auto simp: conf_ok_def)
qed

theorem scheduler_toggle_witness:
  "let s = \<lparr>sc_auth = auth_of (initial_provider None), sc_settings = api_idle, sc_busy = False,
            sc_msg = None, sc_now = 0\<rparr> in length (pend (start s :: (scheduler, call, reply, sc_effect) conf)) = 0"
proof -
  let ?s = "\<lparr>sc_auth = auth_of (initial_provider None), sc_settings = api_idle, sc_busy = False,
            sc_msg = None, sc_now = 0\<rparr>"
  have "sc_ui.ui_reach (\<lambda>_. None) (\<lambda>k. k) (\<lambda>k. js k) (start ?s)"
    by (rule sc_ui.initial) (simp add: sc_init_def)
  from scheduler_toggle[OF this] show ?thesis by (simp only: start_simps) simp
qed

end
