(* ===== verification/Shell.thy ===== *)
theory Shell
  imports Sessions
begin

text \<open>
  The way in and the frame around every page: \<open>frontend/src/pages/Login.tsx\<close> and
  \<open>frontend/src/components/Layout.tsx\<close> (logout, navigation by role, the device indicator,
  the write window banner). What they do to their surroundings (store or clear the token,
  reload the identity, navigate, switch the language) are effects.
\<close>

datatype shell_effect =
    StoreToken jstr
  | DropToken
  | ReloadIdentity
  | Navigate jstr
  | SwitchLocale lang

section \<open>Login.tsx\<close>

record login =
  lg_username :: jstr
  lg_password :: jstr
  lg_error :: "jstr option"
  lg_busy :: bool

datatype login_event = LgUser jstr | LgPass jstr | LgSubmit | LgLocale lang

type_synonym login_prog = "(login, call, reply, shell_effect) prog"

definition login_init :: login where
  "login_init = \<lparr>lg_username = [], lg_password = [], lg_error = None, lg_busy = False\<rparr>"

text \<open>Already signed in: rendering the page navigates away.\<close>

definition login_render :: "storage \<Rightarrow> shell_effect list" where
  "login_render ss = (if truthy (getToken ss) then [Navigate (js ''/'')] else [])"

text \<open>\<open>setToken(res.token)\<close>: the storage keeps texts.\<close>

definition login_submit :: "dict \<Rightarrow> login \<Rightarrow> login_prog" where
  "login_submit t s =
     (if js_trim (lg_username s) = [] \<or> lg_password s = [] then Ret s
      else Call (s\<lparr>lg_busy := True, lg_error := None\<rparr>)
        (api_login (js_trim (lg_username s)) (lg_password s))
        (\<lambda>r s. case r of
            Inr res \<Rightarrow>
              effs [StoreToken (js_string (jprop res ''token'')), ReloadIdentity, Navigate (js ''/'')]
                (Ret (s\<lparr>lg_busy := False\<rparr>))
          | Inl err \<Rightarrow> Ret (s\<lparr>lg_error := Some (friendlyApiError err t), lg_busy := False\<rparr>)))"

definition login_handle :: "dict \<Rightarrow> login_event \<Rightarrow> login \<Rightarrow> login_prog" where
  "login_handle t e s =
     (case e of
        LgUser x \<Rightarrow> Ret (s\<lparr>lg_username := x\<rparr>)
      | LgPass x \<Rightarrow> Ret (s\<lparr>lg_password := x\<rparr>)
      | LgSubmit \<Rightarrow> login_submit t s
      | LgLocale l \<Rightarrow> Eff (SwitchLocale l) (Ret s))"

definition Login :: "dict \<Rightarrow> lang \<Rightarrow> login \<Rightarrow> login_event view" where
  "Login t lc s =
     Box
      [Toned (if lc = Th then Blue else Neutral) [Btn False (js ''TH'') (LgLocale Th)],
       Toned (if lc = En then Blue else Neutral) [Btn False (js ''EN'') (LgLocale En)],
       Txt (js ''AD''), Txt (t ''login.title''), Txt (t ''login.subtitle''),
       Txt (t ''login.environment'' @ js '': 192.168.1.248''),
       Box
        [when_v (truthy (lg_error s))
           [Toned Red [Txt (js ''!''), Txt (t ''login.failed'' @ js '' ('' @ nn (lg_error s) [] @ js '')'')]],
         Txt (t ''login.usernameLabel''),
         Field (lg_busy s) (lg_username s) LgUser,
         Txt (t ''login.passwordLabel''),
         Field (lg_busy s) (lg_password s) LgPass,
         Btn (lg_busy s \<or> js_trim (lg_username s) = [] \<or> lg_password s = [])
           (if lg_busy s then t ''login.signingIn'' else t ''login.signInButton'') LgSubmit]]"

interpretation login_ui: single_flight "\<lambda>s. s = login_init"
    "\<lambda>s e. e \<in> offers (Login t lc s)" "login_handle t" "\<lambda>s s'. s' = s" lg_busy
  for t lc
  by unfold_locales
    (auto simp: login_init_def login_handle_def login_submit_def Login_def
       split: login_event.splits sum.splits if_splits)

text \<open>Signing in sends the trimmed user name and the password as typed, only when both
  are there, and never while an earlier attempt is in flight; the fields are locked meanwhile,
  so the request shows what was sent. A failed attempt leaves no token and shows dictionary
  copy only.\<close>

theorem login_requests:
  assumes "login_ui.ui_reach t lc c"
  shows "(\<forall>s q. Inl (s, q) \<in> set (log c) \<longrightarrow>
            js_trim (lg_username s) \<noteq> [] \<and> lg_password s \<noteq> [] \<and>
            q = api_login (js_trim (lg_username s)) (lg_password s)) \<and>
         length (pend c) = (if lg_busy (st c) then 1 else 0) \<and>
         (\<forall>m. lg_error (st c) = Some m \<longrightarrow> m \<in> t ` set error_copy_keys)"
proof -
  let ?I = "\<lambda>s. \<forall>m. lg_error s = Some m \<longrightarrow> m \<in> t ` set error_copy_keys"
  let ?Q = "\<lambda>s q. js_trim (lg_username s) \<noteq> [] \<and> lg_password s \<noteq> [] \<and>
            q = api_login (js_trim (lg_username s)) (lg_password s)"
  have "conf_ok ?I ?Q c"
  proof (rule login_ui.ui_invariant[OF _ _ _ assms])
    fix s e
    assume "?I s" "e \<in> offers (Login t lc s)"
    then show "safe ?I ?Q (login_handle t e s)"
      using friendlyApiError_keys
      by (auto simp: login_handle_def login_submit_def split: login_event.splits sum.splits)
  qed (auto simp: login_init_def)
  then show ?thesis using login_ui.one_in_flight[OF assms] by (auto simp: conf_ok_def)
qed

theorem login_requests_witness:
  "let s = login_init\<lparr>lg_username := js ''amy'', lg_password := js ''pw''\<rparr>;
       c = exec (login_handle (\<lambda>k. js k) LgSubmit s) (start login_init) in
   length (pend c) = 1"
proof -
  let ?t = "\<lambda>k. js k"
  let ?c1 = "exec (login_handle ?t (LgUser (js ''amy'')) login_init) (start login_init)"
  let ?c2 = "exec (login_handle ?t (LgPass (js ''pw'')) (st ?c1)) ?c1"
  let ?c3 = "exec (login_handle ?t LgSubmit (st ?c2)) ?c2"
  have amy: "js_trim (js ''amy'') = js ''amy''"
    by (rule js_trim_id) (simp_all add: js_eval of_char_def is_ws_def ws_units_def)
  have "login_ui.ui_reach ?t En (start login_init)" by (rule login_ui.initial) simp
  then have "login_ui.ui_reach ?t En ?c1"
    using login_ui.reach_user[of ?t En "start login_init" "LgUser (js ''amy'')"]
    by (simp add: Login_def login_init_def)
  then have "login_ui.ui_reach ?t En ?c2"
    by (rule login_ui.reach_user) (simp add: Login_def login_init_def login_handle_def)
  then have "login_ui.ui_reach ?t En ?c3"
    by (rule login_ui.reach_user) (simp add: Login_def login_init_def login_handle_def amy)
  from login_requests[OF this] show ?thesis
    by (simp add: login_handle_def login_submit_def login_init_def amy)
qed

text \<open>A successful sign-in stores the token first, then reloads the identity, and only
  then leaves the page, so the provider asks the server with the new token and never keeps the
  previous operator's role.\<close>

theorem login_success_order:
  assumes "js_trim (lg_username s) \<noteq> []" and "lg_password s \<noteq> []"
  shows "trace_of (login_submit t s) [Inr res] =
    [Inl (api_login (js_trim (lg_username s)) (lg_password s)),
     Inr (StoreToken (js_string (jprop res ''token''))), Inr ReloadIdentity, Inr (Navigate (js ''/''))]"
  using assms by (simp add: login_submit_def)

theorem login_success_order_witness:
  "trace_of (login_submit (\<lambda>k. js k) (login_init\<lparr>lg_username := [65], lg_password := [66]\<rparr>))
      [Inr (JObj [(''token'', JStr [67])])] =
    [Inl (api_login [65] [66]), Inr (StoreToken [67]), Inr ReloadIdentity, Inr (Navigate (js ''/''))]"
  using login_success_order[of "login_init\<lparr>lg_username := [65], lg_password := [66]\<rparr>" "\<lambda>k. js k"
      "JObj [(''token'', JStr [67])]"]
  by (simp add: js_trim_def is_ws_def ws_units_def)

section \<open>Layout.tsx\<close>

record collector_health =
  co_updated_at :: "jstr option"
  co_device_connected :: bool
  co_last_connect_success :: "jstr option"

record health_check =
  hc_collector :: "collector_health option"

definition logout :: "'s \<Rightarrow> ('s, call, reply, shell_effect) prog" where
  "logout s =
     Call s api_logout (\<lambda>r s. effs [DropToken, ReloadIdentity, Navigate (js ''/login'')] (Ret s))"

record nav_item =
  ni_to :: string
  ni_label :: jstr
  ni_badge :: "jstr option"

definition nav :: "string \<Rightarrow> jstr \<Rightarrow> nav_item" where
  "nav target label = \<lparr>ni_to = target, ni_label = label, ni_badge = None\<rparr>"

definition NAV_GROUPS :: "dict \<Rightarrow> me_response option \<Rightarrow> (jstr \<times> nav_item list) list" where
  "NAV_GROUPS t me =
     (let isEnrollmentOnly = (map_option me_role me = Some (js ''ENROLLMENT_OPERATOR''));
          isAdminRole = (map_option me_role me = Some (js ''ADMIN'')) in
      if isEnrollmentOnly
      then [(t ''workflow.navFingerprintGroup'', [nav ''/enrollments'' (t ''nav.enrollment'')])]
      else
       [(t ''workflow.navAttendanceGroup'',
           [nav ''/'' (t ''nav.dashboard''),
            nav ''/daily'' (t ''leave.navDaily''),
            nav ''/absences'' (t ''leave.navLeave''),
            nav ''/monthly'' (t ''leave.navMonthly''),
            (nav ''/attendance'' (t ''nav.attendance''))\<lparr>ni_badge := Some (js ''LIVE'')\<rparr>]),
        (t ''workflow.navPersonnelGroup'', [nav ''/personnel'' (t ''nav.personnel'')]),
        (t ''workflow.navFingerprintGroup'',
           [nav ''/enrollments'' (t ''nav.enrollment''),
            nav ''/mappings'' (t ''nav.mappings'')]),
        (t ''workflow.navAdminGroup'',
           [nav ''/devices'' (t ''nav.devices''), nav ''/system'' (t ''nav.system'')] @
           (if isAdminRole
            then [nav ''/terminal-management'' (t ''terminalManagement.title''),
                  nav ''/audit'' (t ''nav.audit'')]
            else []))])"

definition NavLinkItem :: "nav_item \<Rightarrow> 'e view" where
  "NavLinkItem n = Lnk (js (ni_to n))
     [Txt (ni_label n), when_v (truthy (ni_badge n)) [Txt (nn (ni_badge n) [])]]"

subsection \<open>Device indicator\<close>

definition HEALTH_STALE_MS :: int where
  "HEALTH_STALE_MS = 2 * 60 * 1000"

datatype device_state = DevUnknown | DevLive | DevOffline

definition device_state_of ::
  "(jstr \<Rightarrow> int option) \<Rightarrow> health_check option \<Rightarrow> int \<Rightarrow> device_state" where
  "device_state_of time health now =
     (case Option.bind health hc_collector of
        None \<Rightarrow> DevUnknown
      | Some c \<Rightarrow>
          (let fresh = (if truthy (co_updated_at c)
                        then (case time (the (co_updated_at c)) of
                                None \<Rightarrow> False | Some x \<Rightarrow> now - x < HEALTH_STALE_MS)
                        else False) in
           if \<not> fresh then DevUnknown
           else if co_device_connected c then DevLive else DevOffline))"

definition js_ends :: "jstr \<Rightarrow> jstr \<Rightarrow> bool" where
  "js_ends s p = js_starts (rev s) (rev p)"

text \<open>Times without an offset are UTC: a \<open>Z\<close> is added.\<close>

definition device_last_seen :: "(jstr \<Rightarrow> jstr) \<Rightarrow> health_check option \<Rightarrow> jstr option" where
  "device_last_seen shown health =
     (case Option.bind health hc_collector of
        None \<Rightarrow> None
      | Some c \<Rightarrow>
          if truthy (co_last_connect_success c) then
            (let x = the (co_last_connect_success c) in
             Some (shown (if js_ends x (js ''Z'') \<or> js_includes x (js ''+'') then x else x @ js ''Z'')))
          else None)"

definition DeviceStatus ::
  "(jstr \<Rightarrow> int option) \<Rightarrow> (jstr \<Rightarrow> jstr) \<Rightarrow> dict \<Rightarrow> health_check option \<Rightarrow> int \<Rightarrow> 'e view" where
  "DeviceStatus time shown t health now =
     Box
      [Txt (js ''192.168.1.201''),
       (case device_state_of time health now of
          DevLive \<Rightarrow> Toned Green [Txt ([0x25CF, 32] @ t ''leave.deviceLive'')]
        | DevOffline \<Rightarrow> Toned Neutral
            [Txt ([0x25CB, 32] @ t ''leave.deviceOffline''),
             (case device_last_seen shown health of
                None \<Rightarrow> Box []
              | Some x \<Rightarrow> when_v (x \<noteq> []) [Txt (js ''('' @ t ''leave.deviceLastSeen'' @ js '' '' @ x @ js '')'')])]
        | DevUnknown \<Rightarrow> Toned Amber [Txt (js ''? '' @ t ''leave.deviceUnknown'')])]"

text \<open>One poll; the answer is dropped once the indicator is gone, a failure forgets the state.\<close>

record device_poll =
  dp_alive :: bool
  dp_health :: "health_check option"

definition device_load :: "device_poll \<Rightarrow> (device_poll, call, js_error + health_check, unit) prog" where
  "device_load s = Call s api_health
     (\<lambda>r s. Ret (if dp_alive s
                 then s\<lparr>dp_health := (case r of Inr h \<Rightarrow> Some h | Inl e \<Rightarrow> None)\<rparr> else s))"

subsection \<open>Write window banner\<close>

definition WriteWindowBanner :: "(jstr \<Rightarrow> jstr) \<Rightarrow> dict \<Rightarrow> auth \<Rightarrow> 'e view" where
  "WriteWindowBanner shown t a =
     (let expires = Option.bind (writeSession a) ws_expires_at in
      if \<not> canWrite a \<or> \<not> serverWriteEnabled a \<or> \<not> workSessionRequired a then Box []
      else if writeSessionActive a \<and> truthy expires
      then Toned Green [Txt ([0x2713, 32] @ t ''workflow.writeOpenBanner'' @ js '' '' @ shown (the expires))]
      else Toned Amber [Txt ([0xD83D, 0xDD12, 32] @ t ''workflow.writeClosedBanner''),
                        Txt (t ''workflow.writeClosedHint'')])"

subsection \<open>The frame\<close>

datatype 'e layout_event = LyLogout | LyLocale lang | LyPage 'e

definition role_pill :: "dict \<Rightarrow> auth \<Rightarrow> jstr" where
  "role_pill t a =
     (let role = map_option me_role (au_me a) in
      if au_loading a then t ''roles.loadingAccount''
      else if au_authError a then t ''roles.sessionErrorTitle''
      else if role = Some (js ''ADMIN'') then t ''roles.admin''
      else if role = Some (js ''ENROLLMENT_OPERATOR'') then t ''roles.enrollmentOperator''
      else if role = Some (js ''OPERATOR'') then t ''roles.operator''
      else t ''roles.viewer'')"

definition Layout ::
  "dict \<Rightarrow> lang \<Rightarrow> auth \<Rightarrow> 'e layout_event view \<Rightarrow> 'e layout_event view \<Rightarrow> 'e layout_event view \<Rightarrow>
   'e view \<Rightarrow> 'e layout_event view" where
  "Layout t lc a device badge banner page_view =
     Box
      [Txt (js ''AD''), Txt (t ''common.systemSubtitle''), Txt (t ''common.systemTitle''),
       Box (map (\<lambda>(title, items). Box (Txt title # map NavLinkItem items)) (NAV_GROUPS t (au_me a))),
       Txt (if au_loading a then t ''roles.loadingAccount''
            else or_str (map_option me_display_name (au_me a)) (js ''Operator'')),
       Txt (role_pill t a),
       Lnk (js ''/manual/index.html'') [Txt [0xE04, 0xE39, 0xE48, 0xE21, 0xE37, 0xE2D]],
       Btn False (t ''nav.signOut'') LyLogout,
       Txt (t ''common.productionEnvironmentLabel'' @ js '' 192.168.1.248''),
       device,
       Toned (if lc = Th then Blue else Neutral) [Btn False (js ''TH'') (LyLocale Th)],
       Toned (if lc = En then Blue else Neutral) [Btn False (js ''EN'') (LyLocale En)],
       badge,
       when_v (au_authError a)
         [Toned Red
           [Txt (t ''roles.sessionErrorTitle''), Txt (t ''roles.sessionErrorBody''),
            Btn False (t ''roles.reloginButton'') LyLogout]],
       banner,
       map_view LyPage page_view]"

text \<open>Logging out always logs out of the browser: whatever the server answers, error or
  not, the token is dropped, the identity reloaded and the login page shown, in this order, so
  the reload finds no token.\<close>

theorem logout_always_clears:
  "trace_of (logout s) [r] =
     [Inl api_logout, Inr DropToken, Inr ReloadIdentity, Inr (Navigate (js ''/login''))]"
  by (simp add: logout_def)

definition shared_paths :: "string list" where
  "shared_paths = [''/'', ''/daily'', ''/absences'', ''/monthly'', ''/attendance'', ''/personnel'',
     ''/enrollments'', ''/mappings'', ''/devices'', ''/system'']"

lemma nav_target:
  assumes "(g, items) \<in> set (NAV_GROUPS t (Some me))" and "n \<in> set items"
  shows "(me_role me = js ''ENROLLMENT_OPERATOR'' \<longrightarrow> ni_to n = ''/enrollments'') \<and>
     (ni_to n \<in> {''/terminal-management'', ''/audit''} \<longrightarrow> me_role me = js ''ADMIN'') \<and>
     (ni_to n \<in> set (''/terminal-management'' # shared_paths) \<or>
      (ni_to n = ''/audit'' \<and> me_role me = js ''ADMIN''))"
proof (cases "me_role me = js ''ENROLLMENT_OPERATOR''")
  case True
  then show ?thesis using assms by (simp add: NAV_GROUPS_def nav_def shared_paths_def)
next
  case False
  have "ni_to n \<in> set shared_paths \<or>
    (me_role me = js ''ADMIN'' \<and> ni_to n \<in> {''/terminal-management'', ''/audit''})"
    using assms False
    by (cases "me_role me = js ''ADMIN''")
      (simp add: NAV_GROUPS_def Let_def nav_def shared_paths_def, elim disjE; force)+
  moreover have "''/terminal-management'' \<notin> set shared_paths" "''/audit'' \<notin> set shared_paths"
    by (simp_all add: shared_paths_def)
  ultimately show ?thesis using False by auto
qed

lemma linked_route:
  assumes "x \<in> set (''/terminal-management'' # shared_paths)"
  shows "\<exists>p shell. (x, p, shell, None) \<in> set App_routes"
proof -
  have "list_all (\<lambda>x. list_ex (\<lambda>(q, p, shell, roles). q = x \<and> roles = None) App_routes)
          (''/terminal-management'' # shared_paths)"
    by (simp add: shared_paths_def App_routes_def)
  with assms have "list_ex (\<lambda>(q, p, shell, roles). q = x \<and> roles = None) App_routes"
    by (simp only: list_all_iff)
  then show ?thesis by (auto simp only: list_ex_iff split: prod.splits)
qed

lemma open_route: "truthy (getToken ss) \<Longrightarrow> show_route ss a (x, p, shell, None) = Render p"
  by (simp add: show_route_def RequireAuth_def)

lemma admin_route:
  "truthy (getToken ss) \<Longrightarrow> \<not> au_loading a \<Longrightarrow> au_me a = Some me \<Longrightarrow> me_role me = js ''ADMIN'' \<Longrightarrow>
   \<exists>p shell roles. (''/audit'', p, shell, roles) \<in> set App_routes \<and>
     show_route ss a (''/audit'', p, shell, roles) = Render p"
  by (rule exI[of _ P_Audit], rule exI[of _ True], rule exI[of _ "Some [''ADMIN'']"])
    (simp add: App_routes_def show_route_def RequireAuth_def RequireRole_def)

text \<open>No link of the navigation leads nowhere: for a signed-in operator whose identity is
  loaded, every link shown is the pattern of a route, and the guards of that route render its
  page. An ENROLLMENT_OPERATOR sees the enrollment page alone; the terminal management and
  audit links are shown to an ADMIN only.\<close>

theorem navigation_reaches_pages:
  assumes "truthy (getToken ss)" and "\<not> au_loading a" and "au_me a = Some me"
    and "(g, items) \<in> set (NAV_GROUPS t (au_me a))" and "n \<in> set items"
  shows "(\<exists>p shell roles. (ni_to n, p, shell, roles) \<in> set App_routes \<and>
            show_route ss a (ni_to n, p, shell, roles) = Render p) \<and>
         (me_role me = js ''ENROLLMENT_OPERATOR'' \<longrightarrow> ni_to n = ''/enrollments'') \<and>
         (ni_to n \<in> {''/terminal-management'', ''/audit''} \<longrightarrow> me_role me = js ''ADMIN'')"
  using nav_target[OF assms(4)[unfolded assms(3)] assms(5)] linked_route[of "ni_to n"]
    open_route[OF assms(1)] admin_route[OF assms(1-3)]
  by (elim conjE disjE) (blast, simp)

theorem navigation_reaches_pages_witness:
  "\<exists>p shell roles. (''/daily'', p, shell, roles) \<in> set App_routes \<and>
     show_route (setToken (js ''t'') Map.empty)
       (auth_of (initial_provider None\<lparr>pv_loading := False, pv_me := Some viewer_me\<rparr>))
       (''/daily'', p, shell, roles) = Render p"
proof -
  let ?a = "auth_of (initial_provider None\<lparr>pv_loading := False, pv_me := Some viewer_me\<rparr>)"
  let ?n = "nav ''/daily'' []"
  have a: "au_me ?a = Some viewer_me" "\<not> au_loading ?a" by (simp_all add: auth_of_def Let_def)
  obtain g items where g: "(g, items) \<in> set (NAV_GROUPS (\<lambda>_. []) (au_me ?a))" "?n \<in> set items"
    unfolding a by (simp add: NAV_GROUPS_def viewer_me_def Let_def) (metis list.set_intros(1,2))
  have "truthy (getToken (setToken (js ''t'') Map.empty))" by simp
  from navigation_reaches_pages[OF this a(2,1) g] show ?thesis by (simp only: nav_def nav_item.simps)
qed

text \<open>The device indicator never claims a state it cannot know: it says live or offline
  only from a collector report less than two minutes old, and then what that report says;
  without a report, with an unreadable or an old one, it says unknown.\<close>

theorem device_state_known:
  "(device_state_of time health now \<noteq> DevUnknown \<longleftrightarrow>
      (\<exists>h c u x. health = Some h \<and> hc_collector h = Some c \<and> co_updated_at c = Some u \<and> u \<noteq> [] \<and>
         time u = Some x \<and> now - x < HEALTH_STALE_MS)) \<and>
   (device_state_of time health now = DevLive \<longrightarrow>
      (\<exists>h c. health = Some h \<and> hc_collector h = Some c \<and> co_device_connected c)) \<and>
   (device_state_of time health now = DevOffline \<longrightarrow>
      (\<exists>h c. health = Some h \<and> hc_collector h = Some c \<and> \<not> co_device_connected c))"
  by (cases health)
    (auto simp: device_state_of_def Let_def truthy_def split: option.splits if_splits)

theorem device_state_known_witness:
  "device_state_of (\<lambda>_. Some 0)
     (Some \<lparr>hc_collector = Some \<lparr>co_updated_at = Some [65], co_device_connected = True,
        co_last_connect_success = None\<rparr>\<rparr>) 1000 \<noteq> DevUnknown"
proof -
  have "\<exists>h c u x. Some \<lparr>hc_collector = Some \<lparr>co_updated_at = Some [65], co_device_connected = True,
        co_last_connect_success = None\<rparr>\<rparr> = Some h \<and> hc_collector h = Some c \<and>
        co_updated_at c = Some u \<and> u \<noteq> [] \<and> Some 0 = Some x \<and> (1000::int) - x < HEALTH_STALE_MS"
    by (simp add: HEALTH_STALE_MS_def)
  with device_state_known[of "\<lambda>_. Some 0"] show ?thesis by blast
qed

text \<open>The write window banner agrees with the permission: when it says that the window is
  open, a write-capable operator can really change data now, and when it says closed they
  cannot, unless the session has no expiry; where sessions are not required no banner shows.\<close>

theorem banner_agrees_with_permission:
  assumes "a = auth_of s"
  shows "case WriteWindowBanner shown t a of
           Toned Green vs \<Rightarrow> canMutate a
         | Toned Amber vs \<Rightarrow> canWrite a \<and> workSessionRequired a \<and>
             (canMutate a \<longrightarrow> \<not> truthy (Option.bind (writeSession a) ws_expires_at))
         | Box vs \<Rightarrow> vs = [] \<and> (canMutate a \<longrightarrow> \<not> workSessionRequired a)
         | _ \<Rightarrow> False"
  using assms by (auto simp: WriteWindowBanner_def auth_of_def Let_def)

theorem banner_agrees_with_permission_witness:
  "case WriteWindowBanner (\<lambda>x. x) (\<lambda>k. js k) (auth_of (initial_provider None)) of
     Toned Green vs \<Rightarrow> canMutate (auth_of (initial_provider None))
   | Toned Amber vs \<Rightarrow> canWrite (auth_of (initial_provider None)) \<and> workSessionRequired (auth_of (initial_provider None)) \<and>
       (canMutate (auth_of (initial_provider None)) \<longrightarrow>
          \<not> truthy (Option.bind (writeSession (auth_of (initial_provider None))) ws_expires_at))
   | Box vs \<Rightarrow> vs = [] \<and> (canMutate (auth_of (initial_provider None)) \<longrightarrow> \<not> workSessionRequired (auth_of (initial_provider None)))
   | _ \<Rightarrow> False"
  by (rule banner_agrees_with_permission[OF refl])

end
