(* ===== verification/Enrollment_Panes.thy ===== *)
theory Enrollment_Panes
  imports Sessions Terminal_Name
begin

text \<open>
  The panels of \<open>frontend/src/pages/Enrollments.tsx\<close> that own a form: \<open>ReserveCard\<close>
  (start an enrollment), \<open>InlineVerifyPane\<close> (the final confirmation by an ADMIN),
  \<open>EnglishNameQuickSave\<close>, and the stateless \<open>ScanWindowReopen\<close> and \<open>MetaItem\<close>. Each form
  is an instance of the one-request-at-a-time contract of \<open>Async_UI\<close>.
\<close>

definition json_number :: "int option \<Rightarrow> json" where
  "json_number x = (case x of None \<Rightarrow> JNull | Some n \<Rightarrow> JNum n)"

section \<open>ReserveCard\<close>

record reserve =
  rv_canMutate :: bool
  rv_operatorName :: jstr
  rv_eligible :: "human page api_state"
  rv_devices :: "device page api_state"
  rv_employeeId :: jstr
  rv_deviceId :: jstr
  rv_operator :: jstr
  rv_busy :: bool
  rv_error :: "jstr option"
  rv_combo :: combobox

datatype reserve_event = RvCombo combobox_event | RvDevice jstr | RvOperator jstr | RvSubmit

datatype reserve_effect = OnReserved int

type_synonym reserve_prog = "(reserve, call, reply, reserve_effect) prog"

definition rv_humans :: "reserve \<Rightarrow> human list option" where
  "rv_humans s = map_option pg_items (as_data (rv_eligible s))"

definition rv_device_items :: "reserve \<Rightarrow> device list" where
  "rv_device_items s = nn (map_option pg_items (as_data (rv_devices s))) []"

text \<open>The two effects that fill in defaults.\<close>

definition reserve_defaults :: "reserve \<Rightarrow> reserve" where
  "reserve_defaults s =
     (let s1 = (if rv_device_items s \<noteq> [] \<and> rv_deviceId s = []
                then s\<lparr>rv_deviceId := js_num (d_device_id (hd (rv_device_items s)))\<rparr> else s)
      in if rv_operatorName s1 \<noteq> [] \<and> rv_operator s1 = []
         then s1\<lparr>rv_operator := rv_operatorName s1\<rparr> else s1)"

text \<open>\<open>setEmployeeId\<close>; the combobox follows a changed value.\<close>

definition set_employeeId :: "jstr \<Rightarrow> reserve \<Rightarrow> reserve" where
  "set_employeeId v s =
     (if v = rv_employeeId s then s
      else s\<lparr>rv_employeeId := v, rv_combo := combobox_sync (rv_humans s) v (rv_combo s)\<rparr>)"

definition reserve_error :: "dict \<Rightarrow> js_error \<Rightarrow> jstr" where
  "reserve_error t e =
     (if api_code_in e [''WRITE_DISABLED'', ''WRITE_SESSION_REQUIRED'']
      then t ''enrollment.writeSessionLockedBody''
      else if is_api_code e ''WRITE_SESSION_EXPIRED''
      then t ''enrollment.writeSessionExpiredMidWorkflow''
      else if is_api_code e ''ENROLLMENT_CONFLICT'' \<and>
        js_includes (js_lower (error_message e)) (js ''already has an active enrollment'')
      then t ''enrollment.activeEnrollmentExistsBody''
      else friendlyApiError e t)"

definition reserve_call :: "jstr \<Rightarrow> jstr \<Rightarrow> jstr \<Rightarrow> call" where
  "reserve_call employeeId deviceId operator = api_reserveEnrollment
     (JObj [(''employee_id'', JStr employeeId), (''device_id'', json_number (js_Number deviceId)),
            (''operator'', JStr (js_trim operator))])"

definition reserve_submit :: "dict \<Rightarrow> reserve \<Rightarrow> reserve_prog" where
  "reserve_submit t s =
     (if rv_employeeId s = [] \<or> rv_deviceId s = [] \<or> js_trim (rv_operator s) = []
      then Ret (s\<lparr>rv_error := Some (t ''enrollment.selectPersonDeviceOperatorRequired'')\<rparr>)
      else Call (s\<lparr>rv_busy := True, rv_error := None\<rparr>)
        (reserve_call (rv_employeeId s) (rv_deviceId s) (rv_operator s))
        (\<lambda>r s. case r of
            Inr res \<Rightarrow> Eff (OnReserved (jint (jprop res ''enrollment_id'')))
              (Ret ((set_employeeId [] s)\<lparr>rv_busy := False\<rparr>))
          | Inl e \<Rightarrow> Ret (s\<lparr>rv_error := Some (reserve_error t e), rv_busy := False\<rparr>)))"

definition reserve_handle :: "dict \<Rightarrow> reserve_event \<Rightarrow> reserve \<Rightarrow> reserve_prog" where
  "reserve_handle t e s0 =
     (let s = reserve_defaults s0 in
      case e of
        RvCombo ce \<Rightarrow>
          (let (cb, change) = combobox_handle (rv_employeeId s) ce (rv_combo s);
               s' = s\<lparr>rv_combo := cb\<rparr> in
           Ret (case change of None \<Rightarrow> s' | Some v \<Rightarrow> set_employeeId v s'))
      | RvDevice d \<Rightarrow> Ret (s\<lparr>rv_deviceId := d\<rparr>)
      | RvOperator x \<Rightarrow> Ret (s\<lparr>rv_operator := x\<rparr>)
      | RvSubmit \<Rightarrow> reserve_submit t s)"

definition ReserveCard :: "dict \<Rightarrow> reserve \<Rightarrow> reserve_event view" where
  "ReserveCard t s0 =
     (let s = reserve_defaults s0; off = \<not> rv_canMutate s \<or> rv_busy s in
      Box
       [Txt (js ''1''), Txt (t ''enrollment.step1Title''), Txt (t ''enrollment.badgeBrowserAction''),
        Txt (t ''enrollment.selectPerson'' @ js '' ('' @
             (case as_data (rv_eligible s) of None \<Rightarrow> js ''...'' | Some p \<Rightarrow> js_num (pg_total p)) @ js '')''),
        map_view RvCombo (PersonCombobox t (rv_humans s) off (rv_combo s)),
        Txt (t ''enrollment.selectDevice''),
        Select off (rv_deviceId s)
          (map (\<lambda>d. (js_num (d_device_id d), d_device_name d @ js '' ('' @ d_device_ip d @ js '')''))
             (rv_device_items s)) RvDevice,
        Txt (t ''audit.operatorColumn''),
        Field off (rv_operator s) RvOperator,
        Btn (off \<or> rv_employeeId s = [])
          (if rv_busy s then t ''common.saving'' else t ''enrollment.step1Button'') RvSubmit,
        when_v (\<not> rv_canMutate s) [Txt (t ''enrollment.writeSessionLockedBody'')],
        when_v (truthy (rv_error s)) [Txt (nn (rv_error s) [])]])"

text \<open>Mounted with the person the address preselects.\<close>

definition reserve_init :: "reserve \<Rightarrow> bool" where
  "reserve_init s \<longleftrightarrow> rv_eligible s = api_idle \<and> rv_devices s = api_idle \<and> rv_deviceId s = [] \<and>
     rv_operator s = rv_operatorName s \<and> \<not> rv_busy s \<and> rv_error s = None \<and> rv_combo s = combobox0"

definition reserve_env :: "reserve \<Rightarrow> reserve \<Rightarrow> bool" where
  "reserve_env s s' \<longleftrightarrow> (\<exists>can name elig devs.
     s' = s\<lparr>rv_canMutate := can, rv_operatorName := name, rv_eligible := elig, rv_devices := devs\<rparr>)"

definition reserve_enabled :: "dict \<Rightarrow> reserve \<Rightarrow> reserve_event \<Rightarrow> bool" where
  "reserve_enabled t s e \<longleftrightarrow> e \<in> offers (ReserveCard t s) \<or> e = RvCombo CbClickOutside"

lemma reserve_defaults_fields [simp]:
  "rv_canMutate (reserve_defaults s) = rv_canMutate s" "rv_busy (reserve_defaults s) = rv_busy s"
  "rv_employeeId (reserve_defaults s) = rv_employeeId s" "rv_combo (reserve_defaults s) = rv_combo s"
  "rv_error (reserve_defaults s) = rv_error s" "rv_humans (reserve_defaults s) = rv_humans s"
  by (simp_all add: reserve_defaults_def Let_def rv_humans_def)

lemma set_employeeId_fields [simp]:
  "rv_busy (set_employeeId v s) = rv_busy s" "rv_canMutate (set_employeeId v s) = rv_canMutate s"
  "rv_error (set_employeeId v s) = rv_error s" "rv_employeeId (set_employeeId v s) = v"
  by (simp_all add: set_employeeId_def)

lemma offers_combobox_disabled [simp]: "offers (PersonCombobox t humans True s) = {}"
  by (simp add: PersonCombobox_def)

lemma offers_ReserveCard:
  "e \<in> offers (ReserveCard t s) \<Longrightarrow> rv_canMutate s \<and> \<not> rv_busy s \<and>
     (e = RvSubmit \<longrightarrow> rv_employeeId s \<noteq> [])"
  by (auto simp: ReserveCard_def Let_def offers_map split: if_splits)

lemma reserve_handle_idle:
  "\<not> rv_busy s \<Longrightarrow> settles rv_busy (reserve_handle t e s)"
  by (auto simp: reserve_handle_def reserve_submit_def Let_def split_def
      split: reserve_event.splits option.splits sum.splits)

lemma reserve_outside:
  "rv_busy s \<Longrightarrow> quiet rv_busy (reserve_handle t (RvCombo CbClickOutside) s)"
  by (simp add: reserve_handle_def combobox_handle_def Let_def)

interpretation reserve_ui: single_flight reserve_init "reserve_enabled t" "reserve_handle t"
    reserve_env rv_busy
  for t
  by unfold_locales
    (auto simp: reserve_init_def reserve_enabled_def reserve_env_def reserve_handle_idle
       reserve_outside dest: offers_ReserveCard)

text \<open>Requests name the person selected, the device shown and the operator, while permitted.\<close>

definition reserve_policy :: "reserve \<Rightarrow> call \<Rightarrow> bool" where
  "reserve_policy s q \<longleftrightarrow> rv_canMutate s \<and> rv_employeeId s \<noteq> [] \<and> rv_deviceId s \<noteq> [] \<and>
     js_trim (rv_operator s) \<noteq> [] \<and> q = reserve_call (rv_employeeId s) (rv_deviceId s) (rv_operator s)"

text \<open>Starting an enrollment: every reservation sent names the person selected, the device
  shown and a non-blank operator, is sent while changes are permitted, never twice at a time,
  and every failure is shown as dictionary copy, the conflict of a second active enrollment
  with its own text and never with the server's.\<close>

theorem reserve_requests:
  assumes "reserve_ui.ui_reach t c"
  shows "(\<forall>s q. Inl (s, q) \<in> set (log c) \<longrightarrow> reserve_policy s q) \<and>
         length (pend c) = (if rv_busy (st c) then 1 else 0) \<and>
         (\<forall>m. rv_error (st c) = Some m \<longrightarrow> m \<in> t `
            (set error_copy_keys \<union> {''enrollment.activeEnrollmentExistsBody'',
               ''enrollment.selectPersonDeviceOperatorRequired''}))"
proof -
  let ?K = "t ` (set error_copy_keys \<union> {''enrollment.activeEnrollmentExistsBody'',
               ''enrollment.selectPersonDeviceOperatorRequired''})"
  let ?I = "\<lambda>s. \<forall>m. rv_error s = Some m \<longrightarrow> m \<in> ?K"
  have err: "reserve_error t e \<in> ?K" for e
    using friendlyApiError_keys[of e t] by (auto simp: reserve_error_def error_copy_keys_def)
  have "conf_ok ?I reserve_policy c"
  proof (rule reserve_ui.ui_invariant[OF _ _ _ assms])
    fix s e
    assume I: "?I s" and e: "reserve_enabled t s e"
    show "safe ?I reserve_policy (reserve_handle t e s)"
    proof (cases "e = RvSubmit")
      case True
      then have "rv_canMutate s" using e offers_ReserveCard by (auto simp: reserve_enabled_def)
      then show ?thesis unfolding True using err
        by (auto simp: reserve_handle_def reserve_submit_def reserve_policy_def Let_def
            simp del: image_Un split: sum.splits)
    next
      case False
      with I show ?thesis
        by (auto simp: reserve_handle_def Let_def split_def simp del: image_Un
            split: reserve_event.splits option.splits)
    qed
  qed (auto simp: reserve_init_def reserve_env_def)
  then show ?thesis using reserve_ui.one_in_flight[OF assms] unfolding conf_ok_def by blast
qed

theorem reserve_requests_witness:
  "let s = \<lparr>rv_canMutate = True, rv_operatorName = js ''op'', rv_eligible = api_idle, rv_devices = api_idle,
            rv_employeeId = js ''e1'', rv_deviceId = [], rv_operator = js ''op'', rv_busy = False,
            rv_error = None, rv_combo = combobox0\<rparr>;
       c = exec (reserve_handle (\<lambda>k. js k) RvSubmit s) (start s) in
   pend c = [] \<and> rv_error (st c) = Some (js ''enrollment.selectPersonDeviceOperatorRequired'')"
proof -
  let ?s = "\<lparr>rv_canMutate = True, rv_operatorName = js ''op'', rv_eligible = api_idle, rv_devices = api_idle,
            rv_employeeId = js ''e1'', rv_deviceId = [], rv_operator = js ''op'', rv_busy = False,
            rv_error = None, rv_combo = combobox0\<rparr>"
  have d: "reserve_defaults ?s = ?s"
    by (simp add: reserve_defaults_def rv_device_items_def api_idle_def)
  have "reserve_ui.ui_reach (\<lambda>k. js k) (start ?s)"
    by (rule reserve_ui.initial) (simp add: reserve_init_def)
  then have "reserve_ui.ui_reach (\<lambda>k. js k) (exec (reserve_handle (\<lambda>k. js k) RvSubmit ?s) (start ?s))"
    using reserve_ui.reach_user[of "\<lambda>k. js k" "start ?s" RvSubmit]
    by (simp add: reserve_enabled_def ReserveCard_def Let_def d)
  from reserve_requests[OF this] show ?thesis
    by (simp add: reserve_handle_def reserve_submit_def d)
qed

text \<open>The device in a reservation is the device shown: for the option of any device, the
  number sent is that device's id, whatever its sign or size.\<close>

theorem reserve_device_roundtrip:
  "call_body (reserve_call emp (js_num (d_device_id d)) operator) =
     Some (JObj [(''employee_id'', JStr emp), (''device_id'', JNum (d_device_id d)),
                 (''operator'', JStr (js_trim operator))])"
  by (simp add: reserve_call_def api_reserveEnrollment_def send_json_def json_number_def)

section \<open>InlineVerifyPane\<close>

record inline_verify =
  iv_enrollment :: enrollment
  iv_canMutate :: bool
  iv_operatorName :: jstr
  iv_note :: jstr
  iv_busy :: bool
  iv_error :: "jstr option"

datatype verify_event = IvNote jstr | IvVerify

datatype verify_effect = OnVerified

definition createMapping_call :: "int \<Rightarrow> jstr \<Rightarrow> jstr \<Rightarrow> call" where
  "createMapping_call i verifiedBy note = api_createMapping
     (JObj [(''enrollment_id'', JNum i), (''verified_by'', JStr verifiedBy),
            (''verification_note'', JStr note)])"

definition inline_verify :: "dict \<Rightarrow> inline_verify \<Rightarrow> (inline_verify, call, reply, verify_effect) prog" where
  "inline_verify t s =
     (if js_trim (iv_note s) = [] then Ret (s\<lparr>iv_error := Some (t ''workflow.exemptReasonRequired'')\<rparr>)
      else Call (s\<lparr>iv_busy := True, iv_error := None\<rparr>)
        (createMapping_call (e_enrollment_id (iv_enrollment s)) (iv_operatorName s) (js_trim (iv_note s)))
        (\<lambda>r s. case r of
            Inr res \<Rightarrow> Eff OnVerified (Ret (s\<lparr>iv_busy := False\<rparr>))
          | Inl err \<Rightarrow> Ret (s\<lparr>iv_error := Some (friendlyApiError err t), iv_busy := False\<rparr>)))"

definition verify_handle ::
  "dict \<Rightarrow> verify_event \<Rightarrow> inline_verify \<Rightarrow> (inline_verify, call, reply, verify_effect) prog" where
  "verify_handle t e s =
     (case e of
        IvNote x \<Rightarrow> Ret (s\<lparr>iv_note := x, iv_error := None\<rparr>)
      | IvVerify \<Rightarrow> inline_verify t s)"

text \<open>\<open>device_name ?? `#${device_id}`\<close>.\<close>

definition device_label :: "enrollment \<Rightarrow> jstr" where
  "device_label e = nn (e_device_name e) (js ''#'' @ js_num (e_device_id e))"

definition InlineVerifyPane :: "dict \<Rightarrow> inline_verify \<Rightarrow> verify_event view" where
  "InlineVerifyPane t s =
     (let e = iv_enrollment s in
      Box
       [Txt (t ''workflow.verifyInlineTitle''),
        Txt (nn (e_employee_name e) []), Txt (device_label e), Txt (e_reserved_device_user_id e),
        Txt (t ''workflow.verifyNoteLabel''),
        Field False (iv_note s) IvNote,
        when_v (truthy (iv_error s)) [Txt (nn (iv_error s) [])],
        Btn (\<not> iv_canMutate s \<or> iv_busy s)
          (if iv_busy s then t ''common.saving'' else t ''workflow.verifyButton'') IvVerify,
        Lnk (js ''/mappings'') [Txt (t ''nav.mappings'' @ [32, 0x2192])]])"

definition verify_init :: "inline_verify \<Rightarrow> bool" where
  "verify_init s \<longleftrightarrow> iv_note s = [] \<and> \<not> iv_busy s \<and> iv_error s = None"

text \<open>The props: the pane is the same instance when the selected enrollment changes.\<close>

definition verify_env :: "inline_verify \<Rightarrow> inline_verify \<Rightarrow> bool" where
  "verify_env s s' \<longleftrightarrow>
     (\<exists>e can name. s' = s\<lparr>iv_enrollment := e, iv_canMutate := can, iv_operatorName := name\<rparr>)"

interpretation verify_ui: single_flight verify_init "\<lambda>s e. e \<in> offers (InlineVerifyPane t s)"
    "verify_handle t" verify_env iv_busy
  for t
  by unfold_locales
    (auto simp: verify_init_def verify_env_def verify_handle_def inline_verify_def InlineVerifyPane_def
       Let_def split: verify_event.splits sum.splits if_splits)

text \<open>The final confirmation: every mapping the pane creates is for the enrollment shown at
  that moment, under the signed-in operator's name and with a note that is not blank, and is
  only sent while changes are permitted and no other confirmation is in flight.\<close>

theorem inline_verify_requests:
  assumes "verify_ui.ui_reach t c"
  shows "(\<forall>s q. Inl (s, q) \<in> set (log c) \<longrightarrow>
            iv_canMutate s \<and> js_trim (iv_note s) \<noteq> [] \<and>
            q = createMapping_call (e_enrollment_id (iv_enrollment s)) (iv_operatorName s)
                  (js_trim (iv_note s))) \<and>
         length (pend c) = (if iv_busy (st c) then 1 else 0)"
proof -
  let ?Q = "\<lambda>s q. iv_canMutate s \<and> js_trim (iv_note s) \<noteq> [] \<and>
            q = createMapping_call (e_enrollment_id (iv_enrollment s)) (iv_operatorName s)
                  (js_trim (iv_note s))"
  have "conf_ok (\<lambda>s. True) ?Q c"
  proof (rule verify_ui.ui_invariant[OF _ _ _ assms])
    fix s e
    assume "e \<in> offers (InlineVerifyPane t s)"
    then show "safe (\<lambda>s. True) ?Q (verify_handle t e s)"
      by (auto simp: verify_handle_def inline_verify_def InlineVerifyPane_def Let_def
          split: verify_event.splits sum.splits if_splits)
  qed simp_all
  then show ?thesis using verify_ui.one_in_flight[OF assms] by (auto simp: conf_ok_def)
qed

definition sample_enrollment :: enrollment where
  "sample_enrollment = \<lparr>e_confirmed_at = None, e_confirmed_by = None, e_controlled_scan_time = None,
     e_controlled_scan_window_until = None, e_created_at = [], e_device_id = 1, e_device_name = None,
     e_device_uid = None, e_employee_id = js ''e1'', e_employee_name = None, e_english_name = None,
     e_enrollment_id = 7, e_fingerprint_confirmed_at = None, e_lifecycle_state = js ''IN_PROGRESS'',
     e_notes = None, e_rank = None, e_rank_metadata = None, e_reserved_at = [], e_reserved_by = [],
     e_reserved_device_user_id = js ''101'', e_status = js ''RESERVED'', e_terminal_created_at = None,
     e_updated_at = []\<rparr>"

theorem inline_verify_requests_witness:
  "let s = \<lparr>iv_enrollment = sample_enrollment, iv_canMutate = True, iv_operatorName = js ''boss'',
            iv_note = [], iv_busy = False, iv_error = None\<rparr>;
       c = exec (verify_handle (\<lambda>k. js k) IvVerify s) (start s) in length (pend c) = 0"
proof -
  let ?s = "\<lparr>iv_enrollment = sample_enrollment, iv_canMutate = True, iv_operatorName = js ''boss'',
            iv_note = [], iv_busy = False, iv_error = None\<rparr>"
  have "verify_ui.ui_reach (\<lambda>k. js k) (start ?s)"
    by (rule verify_ui.initial) (simp add: verify_init_def)
  then have "verify_ui.ui_reach (\<lambda>k. js k) (exec (verify_handle (\<lambda>k. js k) IvVerify ?s) (start ?s))"
    using verify_ui.reach_user[of "\<lambda>k. js k" "start ?s" IvVerify]
    by (simp add: InlineVerifyPane_def Let_def)
  from inline_verify_requests[OF this] show ?thesis
    by (simp add: verify_handle_def inline_verify_def)
qed

section \<open>EnglishNameQuickSave\<close>

record quick_save =
  qs_employeeId :: jstr
  qs_canMutate :: bool
  qs_value :: jstr
  qs_busy :: bool
  qs_error :: "jstr option"

datatype quick_event = QsValue jstr | QsSave

datatype quick_effect = OnSaved

definition quick_save :: "dict \<Rightarrow> quick_save \<Rightarrow> (quick_save, call, reply, quick_effect) prog" where
  "quick_save t s =
     (if js_trim (qs_value s) = [] then Ret s
      else Call (s\<lparr>qs_busy := True, qs_error := None\<rparr>)
        (api_updateHumanEnglishName (qs_employeeId s) (Some (js_trim (qs_value s))))
        (\<lambda>r s. case r of
            Inr res \<Rightarrow> Eff OnSaved (Ret (s\<lparr>qs_busy := False\<rparr>))
          | Inl err \<Rightarrow> Ret (s\<lparr>qs_error := Some (friendlyApiError err t), qs_busy := False\<rparr>)))"

definition quick_handle ::
  "dict \<Rightarrow> quick_event \<Rightarrow> quick_save \<Rightarrow> (quick_save, call, reply, quick_effect) prog" where
  "quick_handle t e s =
     (case e of QsValue x \<Rightarrow> Ret (s\<lparr>qs_value := x\<rparr>) | QsSave \<Rightarrow> quick_save t s)"

definition EnglishNameQuickSave :: "dict \<Rightarrow> quick_save \<Rightarrow> quick_event view" where
  "EnglishNameQuickSave t s =
     Box
      [Field (\<not> qs_canMutate s \<or> qs_busy s) (qs_value s) QsValue,
       Btn (\<not> qs_canMutate s \<or> qs_busy s \<or> js_trim (qs_value s) = [])
         (if qs_busy s then t ''common.saving'' else t ''workflow.saveEnglishName'') QsSave,
       Txt (t ''workflow.saveEnglishNameHint''),
       when_v (truthy (qs_error s)) [Txt (nn (qs_error s) [])]]"

definition quick_init :: "quick_save \<Rightarrow> bool" where
  "quick_init s \<longleftrightarrow> qs_value s = [] \<and> \<not> qs_busy s \<and> qs_error s = None"

definition quick_env :: "quick_save \<Rightarrow> quick_save \<Rightarrow> bool" where
  "quick_env s s' \<longleftrightarrow> (\<exists>i can. s' = s\<lparr>qs_employeeId := i, qs_canMutate := can\<rparr>)"

interpretation quick_ui: single_flight quick_init "\<lambda>s e. e \<in> offers (EnglishNameQuickSave t s)"
    "quick_handle t" quick_env qs_busy
  for t
  by unfold_locales
    (auto simp: quick_init_def quick_env_def quick_handle_def quick_save_def EnglishNameQuickSave_def
       split: quick_event.splits sum.splits if_splits)

section \<open>ScanWindowReopen and MetaItem\<close>

definition scan_window_expired :: "(jstr \<Rightarrow> int option) \<Rightarrow> jstr option \<Rightarrow> int \<Rightarrow> bool" where
  "scan_window_expired time until now =
     (if truthy until then (case time (the until) of None \<Rightarrow> False | Some x \<Rightarrow> x < now) else False)"

definition ScanWindowReopen ::
  "(jstr \<Rightarrow> int option) \<Rightarrow> dict \<Rightarrow> jstr option \<Rightarrow> bool \<Rightarrow> bool \<Rightarrow> 'e \<Rightarrow> int \<Rightarrow> 'e view" where
  "ScanWindowReopen time t until can busy onReopen now =
     (let expired = scan_window_expired time until now in
      Box
       [when_v expired [Txt (t ''workflow.scanWindowExpired'')],
        Toned (if expired then Indigo else Neutral)
          [Btn (\<not> can \<or> busy) (if busy then t ''common.saving'' else t ''workflow.scanWindowReopen'') onReopen]])"

lemma offers_ScanWindowReopen [simp]:
  "offers (ScanWindowReopen time t until can busy e now) = (if can \<and> \<not> busy then {e} else {})"
  by (simp add: ScanWindowReopen_def Let_def)

definition MetaItem :: "jstr \<Rightarrow> jstr \<Rightarrow> 'e view" where
  "MetaItem dt dd = Box [Txt dt, Txt dd]"

lemma offers_MetaItem [simp]: "offers (MetaItem dt dd) = {}"
  by (simp add: MetaItem_def)

end
