(* ===== verification/Enrollment_Inspector.thy ===== *)
theory Enrollment_Inspector
  imports Enrollment_Panes
begin

text \<open>
  \<open>ActiveEnrollmentInspector\<close> of \<open>frontend/src/pages/Enrollments.tsx\<close>: its local state, the
  synchronisation it does while rendering, the effects on the live stream, and the view with
  one pane per enrollment status. The page that owns the actions is theory Enrollment_Page.
\<close>

section \<open>Steps and actions\<close>

definition getStepIndex :: "jstr \<Rightarrow> int" where
  "getStepIndex status =
     (if status = js ''RESERVED'' then 0
      else if status = js ''TERMINAL_ACCOUNT_CREATED'' \<or> status = js ''FINGERPRINT_ENROLLMENT_PENDING'' then 1
      else if status = js ''FINGERPRINT_ENROLLED'' \<or> status = js ''CONTROLLED_SCAN_PENDING'' \<or>
        status = js ''CONTROLLED_SCAN_CONFIRMED'' then 2
      else if status = js ''READY_FOR_MAPPING'' then 3
      else if status = js ''RETIRED'' then 4
      else if status = js ''CANCELLED'' then -1
      else 0)"

text \<open>The action names the page dispatches on.\<close>

datatype action =
    CreateAccount | StartFingerprint | ConfirmFingerprint | StartScan | ConfirmScan | MarkReady | CancelSession

section \<open>State\<close>

record inspector =
  in_displayName :: jstr
  in_touched :: bool
  in_lastSynced :: int
  in_cancelNotes :: jstr
  in_cancelError :: bool
  in_showCancel :: bool
  in_stream :: stream_status
  in_lastEvent :: "attendance_event option"
  in_detected :: "jstr option"
  in_autoConfirmedFor :: "jstr option"

definition namePreview :: "enrollment \<Rightarrow> terminal_name_preview" where
  "namePreview e = computeTerminalNamePreview (e_english_name e) (e_rank_metadata e)"

definition mount_inspector :: "enrollment \<Rightarrow> inspector" where
  "mount_inspector e =
     \<lparr>in_displayName = np_value (namePreview e), in_touched = False, in_lastSynced = e_enrollment_id e,
      in_cancelNotes = [], in_cancelError = False, in_showCancel = False, in_stream = Disconnected,
      in_lastEvent = None, in_detected = None, in_autoConfirmedFor = None\<rparr>"

text \<open>Done while rendering: a new selection resets the name, the same one follows a refetch
  unless the operator has typed.\<close>

definition sync_name :: "enrollment \<Rightarrow> inspector \<Rightarrow> inspector" where
  "sync_name e i =
     (if e_enrollment_id e \<noteq> in_lastSynced i
      then i\<lparr>in_lastSynced := e_enrollment_id e, in_touched := False,
             in_displayName := np_value (namePreview e)\<rparr>
      else if \<not> in_touched i \<and> in_displayName i \<noteq> np_value (namePreview e)
      then i\<lparr>in_displayName := np_value (namePreview e)\<rparr>
      else i)"

text \<open>The effect on the last event and the terminal id.\<close>

definition detect_scan :: "enrollment \<Rightarrow> inspector \<Rightarrow> inspector" where
  "detect_scan e i =
     (case in_lastEvent i of
        None \<Rightarrow> i
      | Some ev \<Rightarrow>
          if ae_event_type ev = js ''ATTENDANCE_SCAN'' \<and> ae_user_id ev = e_reserved_device_user_id e
          then i\<lparr>in_detected := Some (ae_scan_time ev)\<rparr> else i)"

definition sync_inspector :: "enrollment \<Rightarrow> inspector \<Rightarrow> inspector" where
  "sync_inspector e i = detect_scan e (sync_name e i)"

text \<open>When the effect that confirms a live scan fires.\<close>

definition auto_confirm_ready :: "enrollment \<Rightarrow> bool \<Rightarrow> action option \<Rightarrow> inspector \<Rightarrow> bool" where
  "auto_confirm_ready e can busyAction i \<longleftrightarrow>
     truthy (in_detected i) \<and> in_detected i \<noteq> in_autoConfirmedFor i \<and>
     e_status e = js ''CONTROLLED_SCAN_PENDING'' \<and> can \<and> busyAction = None"

section \<open>View\<close>

datatype insp_event =
    InToggleCancel
  | InNotes jstr
  | InSubmitCancel
  | InName jstr
  | InRun action jstr
  | InReconnect

text \<open>What the view needs besides the inspector's own state: the props and the surroundings
  (the clock, the browser's date functions).\<close>

record insp_props =
  ip_enrollment :: enrollment
  ip_canMutate :: bool
  ip_isAdmin :: bool
  ip_busyAction :: "action option"
  ip_uncertain :: bool
  ip_now :: int

definition STEPS :: "dict \<Rightarrow> (string \<times> jstr) list" where
  "STEPS t =
     [(''RESERVED'', t ''workflow.wizStep1''), (''TERMINAL_ACCOUNT_CREATED'', t ''workflow.wizStep2''),
      (''CONTROLLED_SCAN_PENDING'', t ''workflow.wizStep3''), (''READY_FOR_MAPPING'', t ''workflow.wizStep4'')]"

definition stepper :: "dict \<Rightarrow> jstr \<Rightarrow> 'e view" where
  "stepper t status =
     (let currentStep = getStepIndex status in
      Box (map (\<lambda>(idx, (i, label)).
          let isCompleted = currentStep > int idx; isCurrent = (currentStep = int idx) in
          Toned (if isCompleted then Green else if isCurrent then Blue else Neutral)
            [Txt (if isCompleted then [0x2713] else js_num (int idx + 1)), Txt label])
        (enumerate 0 (STEPS t))))"

definition inspector_header :: "lang \<Rightarrow> dict \<Rightarrow> insp_props \<Rightarrow> inspector \<Rightarrow> insp_event view" where
  "inspector_header l t p i =
     (let e = ip_enrollment p in
      Box
       [Txt (t ''enrollment.sessionHeaderPrefix'' @ js '' '' @ nn (e_employee_name e) (e_employee_id e)),
        StatusBadge l (Some (e_status e)),
        Txt (t ''enrollment.targetTerminalLabel''), Txt (device_label e),
        Txt (t ''enrollment.reservedIdLabel''), Txt (e_reserved_device_user_id e),
        when_v (ip_canMutate p \<and> e_status e \<noteq> js ''RETIRED'' \<and> e_status e \<noteq> js ''CANCELLED'')
          [Btn False (if in_showCancel i then t ''common.close'' else t ''enrollment.cancelSession'')
             InToggleCancel]])"

definition cancel_drawer :: "dict \<Rightarrow> insp_props \<Rightarrow> inspector \<Rightarrow> insp_event view" where
  "cancel_drawer t p i =
     when_v (in_showCancel i)
       [Txt (t ''enrollment.cancelSession''),
        Field False (in_cancelNotes i) InNotes,
        when_v (in_cancelError i) [Txt (t ''enrollment.cancelReasonRequired'')],
        Btn (\<not> ip_canMutate p \<or> ip_busyAction p = Some CancelSession)
          (if ip_busyAction p = Some CancelSession then t ''common.saving'' else t ''common.confirm'')
          InSubmitCancel]"

text \<open>The button of a pane: disabled without permission and while its own action runs.\<close>

definition action_button :: "dict \<Rightarrow> insp_props \<Rightarrow> action \<Rightarrow> jstr \<Rightarrow> insp_event view" where
  "action_button t p a label =
     Btn (\<not> ip_canMutate p \<or> ip_busyAction p = Some a)
       (if ip_busyAction p = Some a then t ''common.saving'' else label) (InRun a [])"

text \<open>RESERVED: the scanner account. The quick save form is a component of its own.\<close>

definition pane_reserved ::
  "dict \<Rightarrow> insp_props \<Rightarrow> insp_event view \<Rightarrow> inspector \<Rightarrow> insp_event view" where
  "pane_reserved t p quick i =
     (let e = ip_enrollment p; busy = (ip_busyAction p = Some CreateAccount);
          english = truthy (e_english_name e) in
      Box
       [Txt (t ''enrollment.step2Title''), Txt (t ''enrollment.badgeBrowserAction''),
        Txt (t ''enrollment.step2Desc''),
        Txt (t ''enrollment.terminalDisplayName''),
        (if english then Txt (np_value (namePreview e))
         else if ip_isAdmin p then quick
         else Field (\<not> ip_canMutate p \<or> busy) (in_displayName i) InName),
        when_v (\<not> english \<and> \<not> ip_isAdmin p)
          [Txt (t ''enrollment.terminalNameNoEnglishHint''),
           Lnk (js ''/personnel/'' @ e_employee_id e) [Txt (t ''enrollment.fixEnglishNameLink'')]],
        when_v (np_rankOmittedForLength (namePreview e))
          [Txt (t ''enrollment.terminalNameRankOmittedHint'')],
        Btn (\<not> ip_canMutate p \<or> busy \<or> js_trim (in_displayName i) = [])
          (if busy then t ''enrollment.creatingOrVerifying''
           else if ip_uncertain p then t ''enrollment.verifyReconcileButton''
           else t ''enrollment.step2Button'')
          (InRun CreateAccount (js_trim (in_displayName i)))])"

definition pane_fingerprint :: "dict \<Rightarrow> insp_props \<Rightarrow> insp_event view" where
  "pane_fingerprint t p =
     (let e = ip_enrollment p in
      Box
       [Txt (t ''enrollment.step3Title''), Txt (t ''enrollment.badgePhysicalAction''),
        Txt ([0xe1e, 0xe32, 0xe1a, 0xe38, 0xe04, 0xe04, 0xe25, 0xe44, 0xe1b, 0xe22, 0xe31, 0xe07,
            0xe40, 0xe04, 0xe23, 0xe37, 0xe48, 0xe2d, 0xe07, 0xe2a, 0xe41, 0xe01, 0xe19,
            32] @ device_label e),
        Txt [0xe01, 0xe14, 0xe1b, 0xe38, 0xe48, 0xe21, 32, 77, 101, 110, 117, 32, 0x2192, 32, 0xe40,
            0xe25, 0xe37, 0xe2d, 0xe01, 32, 85, 115, 101, 114, 32, 77, 103, 116, 32, 0x2192, 32, 77,
            97, 110, 97, 103, 101],
        Txt ([0xe04, 0xe49, 0xe19, 0xe2b, 0xe32, 32, 85, 115, 101, 114, 32, 73, 68,
            32] @ e_reserved_device_user_id e @ [32, 0xe41, 0xe25, 0xe30, 0xe01, 0xe14, 32, 79, 75]),
        Txt [0xe40, 0xe25, 0xe37, 0xe2d, 0xe01, 32, 69, 110, 114, 111, 108, 108, 32, 70, 80, 32,
            0xe41, 0xe25, 0xe49, 0xe27, 0xe27, 0xe32, 0xe07, 0xe19, 0xe34, 0xe49, 0xe27, 32, 51, 32,
            0xe04, 0xe23, 0xe31, 0xe49, 0xe07, 32, 0xe08, 0xe19, 0xe01, 0xe27, 0xe48, 0xe32, 0xe40,
            0xe04, 0xe23, 0xe37, 0xe48, 0xe2d, 0xe07, 0xe08, 0xe30, 0xe41, 0xe08, 0xe49, 0xe07, 0xe2a,
            0xe33, 0xe40, 0xe23, 0xe47, 0xe08],
        Txt [0xe01, 0xe14, 0xe1b, 0xe38, 0xe48, 0xe21, 32, 69, 83, 67, 32, 0xe40, 0xe1e, 0xe37, 0xe48,
            0xe2d, 0xe01, 0xe25, 0xe31, 0xe1a, 0xe2a, 0xe39, 0xe48, 0xe2b, 0xe19, 0xe49, 0xe32, 0xe08,
            0xe2d, 0xe2b, 0xe25, 0xe31, 0xe01],
        Txt (t ''enrollment.step3Title''), Txt (t ''enrollment.step3Desc''),
        action_button t p ConfirmFingerprint (t ''enrollment.step3Button'')])"

definition pane_fingerprint_enrolled :: "dict \<Rightarrow> insp_props \<Rightarrow> insp_event view" where
  "pane_fingerprint_enrolled t p =
     Box
      [Txt (t ''enrollment.step4Title''), Txt (t ''enrollment.badgeBrowserAction''),
       Txt (t ''enrollment.step4Desc''),
       action_button t p StartScan (t ''enrollment.startScanWindowButton'')]"

definition pane_scan_pending ::
  "(jstr \<Rightarrow> int option) \<Rightarrow> (jstr \<Rightarrow> jstr) \<Rightarrow> dict \<Rightarrow> insp_props \<Rightarrow> inspector \<Rightarrow> insp_event view" where
  "pane_scan_pending time shown t p i =
     (let e = ip_enrollment p in
      Box
       [Txt (t ''enrollment.step4Title''), Txt (t ''enrollment.badgePhysicalAction''),
        Txt ([0xe43, 0xe2b, 0xe49, 32] @ nn (e_employee_name e) [] @ [32, 0xe17, 0xe33, 0xe01, 0xe32,
            0xe23, 0xe17, 0xe14, 0xe2a, 0xe2d, 0xe1a, 0xe2a, 0xe41, 0xe01, 0xe19, 0xe19, 0xe34, 0xe49,
            0xe27, 0xe17, 0xe35, 0xe48, 0xe40, 0xe04, 0xe23, 0xe37, 0xe48, 0xe2d, 0xe07,
            32] @ device_label e @
             [32, 0xe17, 0xe31, 0xe19, 0xe17, 0xe35]),
        Txt (t ''workflow.autoScanHint''),
        ScanWindowReopen time t (e_controlled_scan_window_until e) (ip_canMutate p)
          (ip_busyAction p = Some StartScan) (InRun StartScan []) (ip_now p),
        StreamStatusBadge t (in_stream i) (Some InReconnect),
        (if truthy (in_detected i)
         then Toned Green [Txt (t ''enrollment.liveScanDetected''), Txt (shown (the (in_detected i)))]
         else Toned Neutral [Txt (t ''enrollment.waitingForScan'')]),
        action_button t p ConfirmScan (t ''enrollment.step4Button'')])"

definition pane_scan_confirmed :: "dict \<Rightarrow> insp_props \<Rightarrow> insp_event view" where
  "pane_scan_confirmed t p =
     Box
      [Txt (t ''enrollment.step5Title''),
       Txt ([0x2713] @ t ''enrollment.step5ChecklistTerminalAccount''),
       Txt ([0x2713] @ t ''enrollment.step5ChecklistFingerprint''),
       Txt ([0x2713] @ t ''enrollment.step5ChecklistScan''),
       Txt (t ''enrollment.step5Desc''),
       action_button t p MarkReady (t ''enrollment.step5Button'')]"

definition opt_time :: "(jstr \<Rightarrow> jstr) \<Rightarrow> jstr option \<Rightarrow> jstr" where
  "opt_time shown x = (if truthy x then shown (the x) else [0x2014])"

definition technical_details :: "(jstr \<Rightarrow> jstr) \<Rightarrow> dict \<Rightarrow> insp_props \<Rightarrow> insp_event view" where
  "technical_details shown t p =
     (let e = ip_enrollment p in
      when_v (ip_isAdmin p)
       [Txt (t ''enrollment.technicalDetailsToggle''),
        MetaItem (t ''enrollment.metaEmployeeIdLabel'') (e_employee_id e),
        MetaItem (t ''enrollment.metaTerminalUidLabel'')
          (case e_device_uid e of None \<Rightarrow> [0x2014] | Some u \<Rightarrow> if u \<noteq> 0 then js_num u else [0x2014]),
        MetaItem (t ''enrollment.metaReservedAtLabel'') (opt_time shown (Some (e_reserved_at e))),
        MetaItem (t ''enrollment.metaAccountCreatedLabel'') (opt_time shown (e_terminal_created_at e)),
        MetaItem (t ''enrollment.metaFpConfirmedAtLabel'') (opt_time shown (e_fingerprint_confirmed_at e)),
        MetaItem (t ''enrollment.metaScanConfirmedAtLabel'') (opt_time shown (e_controlled_scan_time e))])"

definition action_pane ::
  "(jstr \<Rightarrow> int option) \<Rightarrow> (jstr \<Rightarrow> jstr) \<Rightarrow> dict \<Rightarrow> insp_props \<Rightarrow> insp_event view \<Rightarrow> insp_event view \<Rightarrow>
   inspector \<Rightarrow> insp_event view" where
  "action_pane time shown t p quick verify i =
     (let status = e_status (ip_enrollment p) in
      Box
       [when_v (status = js ''RESERVED'') [pane_reserved t p quick i],
        when_v (status = js ''TERMINAL_ACCOUNT_CREATED'' \<or> status = js ''FINGERPRINT_ENROLLMENT_PENDING'')
          [pane_fingerprint t p],
        when_v (status = js ''FINGERPRINT_ENROLLED'') [pane_fingerprint_enrolled t p],
        when_v (status = js ''CONTROLLED_SCAN_PENDING'') [pane_scan_pending time shown t p i],
        when_v (status = js ''CONTROLLED_SCAN_CONFIRMED'') [pane_scan_confirmed t p],
        when_v (status = js ''READY_FOR_MAPPING'')
          [if ip_isAdmin p then verify else Txt (t ''workflow.waitingAdminVerify'')],
        when_v (status = js ''RETIRED'')
          [Txt (t ''enrollment.completedTitle''), Txt (t ''enrollment.completedDesc'')]])"

definition ActiveEnrollmentInspector ::
  "lang \<Rightarrow> (jstr \<Rightarrow> int option) \<Rightarrow> (jstr \<Rightarrow> jstr) \<Rightarrow> dict \<Rightarrow> insp_props \<Rightarrow> insp_event view \<Rightarrow>
   insp_event view \<Rightarrow> inspector \<Rightarrow> insp_event view" where
  "ActiveEnrollmentInspector l time shown t p quick verify i =
     Box
      [inspector_header l t p i,
       stepper t (e_status (ip_enrollment p)),
       cancel_drawer t p i,
       action_pane time shown t p quick verify i,
       technical_details shown t p]"

section \<open>What the view offers\<close>

lemma offers_StatusBadge [simp]: "offers (StatusBadge l s) = {}"
  by (auto simp: StatusBadge_def Badge_def Let_def)

lemma offers_stepper [simp]: "offers (stepper t s) = {}"
  by (auto simp: stepper_def Let_def split_def)

lemma offers_StreamStatusBadge [simp]:
  "offers (StreamStatusBadge t s r) = (if s = Disconnected then set_option r else {})"
  by (cases r) (simp_all add: StreamStatusBadge_def)

lemma offers_action_button [simp]:
  "offers (action_button t p a label) =
     (if ip_canMutate p \<and> ip_busyAction p \<noteq> Some a then {InRun a []} else {})"
  by (simp add: action_button_def)

lemma offers_technical_details [simp]: "offers (technical_details shown t p) = {}"
  by (simp add: technical_details_def Let_def)

text \<open>The workflow action each status is about.\<close>

definition pane_actions :: "jstr \<Rightarrow> action set" where
  "pane_actions status =
     (if status = js ''RESERVED'' then {CreateAccount}
      else if status = js ''TERMINAL_ACCOUNT_CREATED'' \<or> status = js ''FINGERPRINT_ENROLLMENT_PENDING''
      then {ConfirmFingerprint}
      else if status = js ''FINGERPRINT_ENROLLED'' then {StartScan}
      else if status = js ''CONTROLLED_SCAN_PENDING'' then {StartScan, ConfirmScan}
      else if status = js ''CONTROLLED_SCAN_CONFIRMED'' then {MarkReady}
      else {})"

lemma offers_pane_reserved:
  "offers (pane_reserved t p quick i) =
     (if truthy (e_english_name (ip_enrollment p)) then {}
      else if ip_isAdmin p then offers quick
      else if ip_canMutate p \<and> ip_busyAction p \<noteq> Some CreateAccount then range InName else {}) \<union>
     (if ip_canMutate p \<and> ip_busyAction p \<noteq> Some CreateAccount \<and> js_trim (in_displayName i) \<noteq> []
      then {InRun CreateAccount (js_trim (in_displayName i))} else {})"
  by (simp add: pane_reserved_def Let_def)

lemma offers_pane_scan_pending:
  "offers (pane_scan_pending time shown t p i) =
     (if ip_canMutate p \<and> ip_busyAction p \<noteq> Some StartScan then {InRun StartScan []} else {}) \<union>
     (if in_stream i = Disconnected then {InReconnect} else {}) \<union>
     (if ip_canMutate p \<and> ip_busyAction p \<noteq> Some ConfirmScan then {InRun ConfirmScan []} else {})"
  by (simp add: pane_scan_pending_def Let_def)

lemma offers_action_pane:
  "offers (action_pane time shown t p quick verify i) =
     (let status = e_status (ip_enrollment p) in
      if status = js ''RESERVED'' then offers (pane_reserved t p quick i)
      else if status = js ''TERMINAL_ACCOUNT_CREATED'' \<or> status = js ''FINGERPRINT_ENROLLMENT_PENDING''
      then offers (action_button t p ConfirmFingerprint [])
      else if status = js ''FINGERPRINT_ENROLLED'' then offers (action_button t p StartScan [])
      else if status = js ''CONTROLLED_SCAN_PENDING'' then offers (pane_scan_pending time shown t p i)
      else if status = js ''CONTROLLED_SCAN_CONFIRMED'' then offers (action_button t p MarkReady [])
      else if status = js ''READY_FOR_MAPPING'' \<and> ip_isAdmin p then offers verify else {})"
  by (simp add: action_pane_def pane_fingerprint_def pane_fingerprint_enrolled_def
      pane_scan_confirmed_def Let_def)

lemma offers_inspector:
  "offers (ActiveEnrollmentInspector l time shown t p quick verify i) =
     (if ip_canMutate p \<and> e_status (ip_enrollment p) \<noteq> js ''RETIRED'' \<and>
         e_status (ip_enrollment p) \<noteq> js ''CANCELLED'' then {InToggleCancel} else {}) \<union>
     (if in_showCancel i then range InNotes \<union>
        (if ip_canMutate p \<and> ip_busyAction p \<noteq> Some CancelSession then {InSubmitCancel} else {})
      else {}) \<union>
     offers (action_pane time shown t p quick verify i)"
  by (auto simp: ActiveEnrollmentInspector_def inspector_header_def cancel_drawer_def Let_def)

lemma inspector_run_offered:
  assumes "InRun a x \<in> offers (ActiveEnrollmentInspector l time shown t p (Box []) (Box []) i)"
  shows "ip_canMutate p \<and> ip_busyAction p \<noteq> Some a \<and> a \<in> pane_actions (e_status (ip_enrollment p)) \<and>
         (a = CreateAccount \<longrightarrow> x = js_trim (in_displayName i) \<and> x \<noteq> [])"
  using assms
  by (auto simp: offers_inspector offers_action_pane offers_pane_reserved offers_pane_scan_pending
      pane_actions_def Let_def split: if_splits)

definition sample_props :: insp_props where
  "sample_props = \<lparr>ip_enrollment = sample_enrollment\<lparr>e_status := js ''CONTROLLED_SCAN_CONFIRMED''\<rparr>,
     ip_canMutate = True, ip_isAdmin = False, ip_busyAction = None, ip_uncertain = False, ip_now = 0\<rparr>"

text \<open>The workflow, as the enrollment passes through it: the actions open at each status.\<close>

definition workflow :: "(string \<times> action) list" where
  "workflow =
     [(''RESERVED'', CreateAccount), (''TERMINAL_ACCOUNT_CREATED'', ConfirmFingerprint),
      (''FINGERPRINT_ENROLLMENT_PENDING'', ConfirmFingerprint), (''FINGERPRINT_ENROLLED'', StartScan),
      (''CONTROLLED_SCAN_PENDING'', StartScan), (''CONTROLLED_SCAN_PENDING'', ConfirmScan),
      (''CONTROLLED_SCAN_CONFIRMED'', MarkReady)]"

text \<open>C21: The inspector's own controls are exactly those of the workflow, for every status, whether
  known or not: an action's button is live if and only if changes are permitted, this action is
  not running and it is one of the status in the workflow, and it starts the action with no
  payload, but the scanner account with the trimmed name in the field, and only if that is not
  blank; a cancellation can be submitted if and only if its drawer is open, changes are
  permitted and none is running; and the drawer can be opened or closed if and only if changes
  are permitted and the enrollment is neither completed nor cancelled.\<close>

theorem inspector_offers_workflow_action:
  "let ctl = offers (ActiveEnrollmentInspector l time shown t p (Box []) (Box []) i);
       status = e_status (ip_enrollment p) in
   (InRun a x \<in> ctl \<longleftrightarrow> ip_canMutate p \<and> ip_busyAction p \<noteq> Some a \<and>
      (\<exists>k. status = js k \<and> (k, a) \<in> set workflow) \<and>
      (if a = CreateAccount then x = js_trim (in_displayName i) \<and> x \<noteq> [] else x = [])) \<and>
   (InSubmitCancel \<in> ctl \<longleftrightarrow> in_showCancel i \<and> ip_canMutate p \<and> ip_busyAction p \<noteq> Some CancelSession) \<and>
   (InToggleCancel \<in> ctl \<longleftrightarrow> ip_canMutate p \<and> status \<notin> {js ''RETIRED'', js ''CANCELLED''})"
proof -
  have w: "(\<exists>k. status = js k \<and> (k, a) \<in> set workflow) \<longleftrightarrow> a \<in> pane_actions status" for status
    by (auto simp: pane_actions_def workflow_def)
  have run: "InRun a x \<in> offers (action_pane time shown t p (Box []) (Box []) i) \<longleftrightarrow>
      ip_canMutate p \<and> ip_busyAction p \<noteq> Some a \<and> a \<in> pane_actions (e_status (ip_enrollment p)) \<and>
      (if a = CreateAccount then x = js_trim (in_displayName i) \<and> x \<noteq> [] else x = [])"
  proof -
    let ?st = "e_status (ip_enrollment p)"
    consider "?st = js ''RESERVED''" | "?st = js ''TERMINAL_ACCOUNT_CREATED''"
      | "?st = js ''FINGERPRINT_ENROLLMENT_PENDING''" | "?st = js ''FINGERPRINT_ENROLLED''"
      | "?st = js ''CONTROLLED_SCAN_PENDING''" | "?st = js ''CONTROLLED_SCAN_CONFIRMED''"
      | "?st \<notin> js ` {''RESERVED'', ''TERMINAL_ACCOUNT_CREATED'', ''FINGERPRINT_ENROLLMENT_PENDING'',
          ''FINGERPRINT_ENROLLED'', ''CONTROLLED_SCAN_PENDING'', ''CONTROLLED_SCAN_CONFIRMED''}" by blast
    then show ?thesis
      by cases (auto simp: offers_action_pane offers_pane_reserved offers_pane_scan_pending pane_actions_def)
  qed
  have cancel: "InSubmitCancel \<notin> offers (action_pane time shown t p (Box []) (Box []) i)"
    "InToggleCancel \<notin> offers (action_pane time shown t p (Box []) (Box []) i)"
    by (auto simp: offers_action_pane offers_pane_reserved offers_pane_scan_pending Let_def split: if_splits)
  show ?thesis
    unfolding Let_def w offers_inspector Un_iff run by (simp add: cancel) auto
qed

lemma js_trim_ne: "s \<noteq> [] \<Longrightarrow> \<not> is_ws (hd s) \<Longrightarrow> js_trim s \<noteq> []"
  by (cases s) (simp_all add: js_trim_strip strip_end_Cons)

lemma preview_nonblank:
  assumes "js_trim (nn (e_english_name e) []) \<noteq> []"
  shows "js_trim (np_value (namePreview e)) \<noteq> []"
proof -
  let ?n = "js_trim (nn (e_english_name e) [])" and ?a = "rank_prefix (e_rank_metadata e)"
  have a: "?a \<noteq> [] \<Longrightarrow> \<not> is_ws (hd ?a)"
    by (cases "Option.bind (e_rank_metadata e) rm_rank_en_abbreviation")
      (auto simp: rank_prefix_def dest: js_trim_hd)
  have "np_value (namePreview e) = ?n \<or> (?a \<noteq> [] \<and> np_value (namePreview e) = ?a @ js '' '' @ ?n)"
    by (auto simp: namePreview_def preview_cases Let_def)
  moreover have "js_trim (?a @ js '' '' @ ?n) \<noteq> []" if "?a \<noteq> []"
    using that a[OF that] by (intro js_trim_ne) simp_all
  ultimately show ?thesis using assms by auto
qed

text \<open>The action that takes an enrollment of each status on to the next one.\<close>

definition advancing :: "(string \<times> action) list" where
  "advancing =
     [(''RESERVED'', CreateAccount), (''TERMINAL_ACCOUNT_CREATED'', ConfirmFingerprint),
      (''FINGERPRINT_ENROLLMENT_PENDING'', ConfirmFingerprint), (''FINGERPRINT_ENROLLED'', StartScan),
      (''CONTROLLED_SCAN_PENDING'', ConfirmScan), (''CONTROLLED_SCAN_CONFIRMED'', MarkReady)]"

definition idle_quick :: "jstr \<Rightarrow> quick_save" where
  "idle_quick v = \<lparr>qs_employeeId = [], qs_canMutate = True, qs_value = v, qs_busy = False, qs_error = None\<rparr>"

lemma sync_inspector_name:
  "in_touched (sync_inspector e i) \<or> in_displayName (sync_inspector e i) = np_value (namePreview e)"
  by (simp add: sync_inspector_def sync_name_def detect_scan_def split: option.split)

text \<open>C22: A permitted operator is never stuck. With nothing running, in every status before the
  last the live button of the action that advances the enrollment is there; the one
  exception is a reserved enrollment of a person without an English name, where the name it
  needs can be entered: by an operator in the field, after which the button is live for every
  name that is not blank, by an ADMIN in the quick save form, whose save button then is. In the
  last status an ADMIN has the button that confirms the identity. This is for an inspector as
  rendered whose name field was not edited and an English name that is not made of blanks, and
  with the two embedded forms idle and permitted as the page passes it to them.\<close>

theorem inspector_never_stuck:
  assumes "ip_canMutate p" and "ip_busyAction p = None" and "e = ip_enrollment p"
    and "i = sync_inspector e i0" and "\<not> in_touched i"
    and "truthy (e_english_name e) \<longrightarrow> js_trim (nn (e_english_name e) []) \<noteq> []"
    and "qs_canMutate q" "\<not> qs_busy q" and "iv_canMutate v" "\<not> iv_busy v"
    and "ctl = (\<lambda>i q. offers (ActiveEnrollmentInspector l time shown t p
          (map_view f (EnglishNameQuickSave t q)) (map_view g (InlineVerifyPane t v)) i))"
  shows "(\<forall>(k, a) \<in> set advancing. e_status e = js k \<longrightarrow>
            (\<exists>x. InRun a x \<in> ctl i q) \<or>
            (a = CreateAccount \<and> \<not> truthy (e_english_name e) \<and>
             (if ip_isAdmin p
              then (\<forall>x. f (QsValue x) \<in> ctl i q) \<and>
                   (\<forall>x. js_trim x \<noteq> [] \<longrightarrow> f QsSave \<in> ctl i (q\<lparr>qs_value := x\<rparr>))
              else (\<forall>x. InName x \<in> ctl i q) \<and>
                   (\<forall>x. js_trim x \<noteq> [] \<longrightarrow>
                      InRun CreateAccount (js_trim x) \<in> ctl (i\<lparr>in_displayName := x, in_touched := True\<rparr>) q)))) \<and>
         (e_status e = js ''READY_FOR_MAPPING'' \<longrightarrow> ip_isAdmin p \<longrightarrow> g IvVerify \<in> ctl i q)"
proof -
  have name: "in_displayName i = np_value (namePreview e)"
    using assms(4,5) sync_inspector_name[of e i0] by auto
  have english: "js_trim (in_displayName i) \<noteq> []" if "truthy (e_english_name e)"
    using preview_nonblank[of e] assms(6) that unfolding name by blast
  have lv: "ctl i q = offers (ActiveEnrollmentInspector l time shown t p
      (map_view f (EnglishNameQuickSave t q)) (map_view g (InlineVerifyPane t v)) i)" for i q
    by (simp add: assms(11))
  note view = lv offers_inspector offers_action_pane assms(1,2) assms(3)[symmetric] Let_def
  have quick: "offers (EnglishNameQuickSave t q) =
      range QsValue \<union> (if js_trim (qs_value q) = [] then {} else {QsSave})" if "qs_canMutate q" "\<not> qs_busy q" for q
    using that by (simp add: EnglishNameQuickSave_def)
  have reserved: "(\<exists>x. InRun CreateAccount x \<in> ctl i q) \<or>
      (\<not> truthy (e_english_name e) \<and>
       (if ip_isAdmin p
        then (\<forall>x. f (QsValue x) \<in> ctl i q) \<and> (\<forall>x. js_trim x \<noteq> [] \<longrightarrow> f QsSave \<in> ctl i (q\<lparr>qs_value := x\<rparr>))
        else (\<forall>x. InName x \<in> ctl i q) \<and> (\<forall>x. js_trim x \<noteq> [] \<longrightarrow>
           InRun CreateAccount (js_trim x) \<in> ctl (i\<lparr>in_displayName := x, in_touched := True\<rparr>) q)))"
    if "e_status e = js ''RESERVED''"
  proof (cases "truthy (e_english_name e)")
    case True
    with that english show ?thesis by (auto simp: view offers_pane_reserved)
  next
    case False
    with that assms(7,8) show ?thesis by (auto simp: view offers_pane_reserved offers_map quick)
  qed
  have "g IvVerify \<in> ctl i q" if "e_status e = js ''READY_FOR_MAPPING''" "ip_isAdmin p"
    using that assms(9,10) by (auto simp: view offers_map InlineVerifyPane_def)
  moreover have "InRun a [] \<in> ctl i q" if "(k, a) \<in> set advancing" "e_status e = js k" "a \<noteq> CreateAccount" for k a
    using that by (auto simp: advancing_def view offers_pane_scan_pending)
  moreover have "k = ''RESERVED''" if "(k, CreateAccount) \<in> set advancing" for k
    using that by (auto simp: advancing_def)
  ultimately show ?thesis using reserved by (fastforce split: prod.splits)
qed

theorem inspector_never_stuck_witness:
  "\<exists>x. InRun MarkReady x \<in> offers (ActiveEnrollmentInspector En (\<lambda>_. None) (\<lambda>x. x) (\<lambda>k. js k)
      sample_props (map_view (\<lambda>_. InReconnect) (EnglishNameQuickSave (\<lambda>k. js k) (idle_quick [])))
      (map_view (\<lambda>_. InReconnect) (InlineVerifyPane (\<lambda>k. js k)
         \<lparr>iv_enrollment = ip_enrollment sample_props, iv_canMutate = True, iv_operatorName = [], iv_note = [],
          iv_busy = False, iv_error = None\<rparr>))
      (sync_inspector (ip_enrollment sample_props) (mount_inspector (ip_enrollment sample_props))))"
proof -
  let ?e = "ip_enrollment sample_props"
  let ?v = "\<lparr>iv_enrollment = ?e, iv_canMutate = True, iv_operatorName = [], iv_note = [],
          iv_busy = False, iv_error = None\<rparr>"
  have t: "\<not> in_touched (sync_inspector ?e (mount_inspector ?e))"
    by (simp add: sync_inspector_def sync_name_def mount_inspector_def detect_scan_def)
  have p: "ip_canMutate sample_props" "ip_busyAction sample_props = None" by (simp_all add: sample_props_def)
  have n: "truthy (e_english_name ?e) \<longrightarrow> js_trim (nn (e_english_name ?e) []) \<noteq> []"
    by (simp add: sample_props_def sample_enrollment_def)
  have q: "qs_canMutate (idle_quick [])" "\<not> qs_busy (idle_quick [])" by (simp_all add: idle_quick_def)
  have m: "(''CONTROLLED_SCAN_CONFIRMED'', MarkReady) \<in> set advancing" "e_status ?e = js ''CONTROLLED_SCAN_CONFIRMED''"
    by (simp_all add: advancing_def sample_props_def)
  have v: "iv_canMutate ?v" "\<not> iv_busy ?v" by simp_all
  note r = inspector_never_stuck[OF p refl refl t n q v refl, THEN conjunct1, THEN bspec, OF m(1),
      unfolded split_conv, rule_format, OF m(2)]
  show ?thesis using r[of En "\<lambda>_. None" "\<lambda>x. x" "\<lambda>k. js k" "\<lambda>_. InReconnect" "\<lambda>_. InReconnect"]
    by simp
qed

lemma detect_scan_fields [simp]:
  "in_displayName (detect_scan e i) = in_displayName i" "in_touched (detect_scan e i) = in_touched i"
  "in_lastSynced (detect_scan e i) = in_lastSynced i" "in_lastEvent (detect_scan e i) = in_lastEvent i"
  "detect_scan e (detect_scan e i) = detect_scan e i"
  by (simp_all add: detect_scan_def split: option.split)

lemma sync_name_settled:
  "in_lastSynced i = e_enrollment_id e \<Longrightarrow> in_touched i \<or> in_displayName i = np_value (namePreview e) \<Longrightarrow>
   sync_name e i = i"
  by (auto simp: sync_name_def)

lemma sync_name_fields:
  "in_lastSynced (sync_name e i) = e_enrollment_id e"
  "in_touched (sync_name e i) \<or> in_displayName (sync_name e i) = np_value (namePreview e)"
  by (simp_all add: sync_name_def)

lemma sync_inspector_idem: "sync_inspector e (sync_inspector e i) = sync_inspector e i"
  using sync_name_settled[of "sync_inspector e i" e] sync_name_fields[of e i]
  by (simp add: sync_inspector_def)

text \<open>The account name on the scanner never comes from somebody else: after rendering, the
  name field is the suggestion for the enrollment shown unless the operator has typed into it
  since this enrollment was selected; a refetch never overwrites what was typed, a change of
  the selection always does; and rendering settles at once.\<close>

theorem inspector_name_in_sync:
  "(\<not> in_touched (sync_inspector e i) \<longrightarrow> in_displayName (sync_inspector e i) = np_value (namePreview e)) \<and>
   in_lastSynced (sync_inspector e i) = e_enrollment_id e \<and>
   (in_lastSynced i = e_enrollment_id e \<and> in_touched i \<longrightarrow>
      in_displayName (sync_inspector e i) = in_displayName i \<and> in_touched (sync_inspector e i)) \<and>
   (in_lastSynced i \<noteq> e_enrollment_id e \<longrightarrow>
      in_displayName (sync_inspector e i) = np_value (namePreview e) \<and> \<not> in_touched (sync_inspector e i)) \<and>
   sync_inspector e (sync_inspector e i) = sync_inspector e i"
  using sync_name_fields[of e i] sync_inspector_idem[of e i]
  by (simp add: sync_inspector_def) (simp add: sync_name_def)

theorem inspector_name_in_sync_witness:
  "in_displayName (sync_inspector sample_enrollment (mount_inspector sample_enrollment)) =
     np_value (namePreview sample_enrollment)"
  using inspector_name_in_sync[of sample_enrollment "mount_inspector sample_enrollment"]
  by (simp add: sync_inspector_def sync_name_def detect_scan_def mount_inspector_def)

end
