(* ===== verification/Enrollment_Page.thy ===== *)
theory Enrollment_Page
  imports Enrollment_Inspector
begin

text \<open>
  The page component \<open>Enrollments\<close> of \<open>frontend/src/pages/Enrollments.tsx\<close>: the queue and
  the selection, \<open>runAction\<close> with its automatic continuation and its error copy, the effects
  that start actions by themselves, and the view. The inspector's own state is part of the
  page's state while a selected enrollment is shown.
\<close>

section \<open>State\<close>

record enr_page =
  en_auth :: auth
  en_list :: "enrollment page api_state"
  en_selectedId :: "int option"
  en_actionError :: "jstr option"
  en_actionSuccess :: "jstr option"
  en_busyAction :: "action option"
  en_uncertain :: bool
  en_autoCreateId :: "int option"
  en_insp :: "inspector option"

definition en_items :: "enr_page \<Rightarrow> enrollment list" where
  "en_items s = nn (map_option pg_items (as_data (en_list s))) []"

definition in_progress :: "enrollment \<Rightarrow> bool" where
  "in_progress e \<longleftrightarrow> e_lifecycle_state e = js ''IN_PROGRESS''"

definition activeItems :: "enr_page \<Rightarrow> enrollment list" where
  "activeItems s = filter in_progress (en_items s)"

definition historyItems :: "enr_page \<Rightarrow> enrollment list" where
  "historyItems s = filter (\<lambda>e. \<not> in_progress e) (en_items s)"

definition en_selected :: "enr_page \<Rightarrow> enrollment option" where
  "en_selected s =
     (case en_selectedId s of None \<Rightarrow> None
      | Some i \<Rightarrow> List.find (\<lambda>e. e_enrollment_id e = i) (en_items s))"

text \<open>The effect that selects the first active enrollment when none is selected.\<close>

definition auto_select :: "enr_page \<Rightarrow> enr_page" where
  "auto_select s =
     (if en_selectedId s = None \<and> activeItems s \<noteq> []
      then s\<lparr>en_selectedId := Some (e_enrollment_id (hd (activeItems s)))\<rparr> else s)"

text \<open>The inspector is mounted while an enrollment is selected and synchronises itself.\<close>

definition mount_selected :: "enr_page \<Rightarrow> enr_page" where
  "mount_selected s =
     s\<lparr>en_insp := (case en_selected s of
         None \<Rightarrow> None
       | Some e \<Rightarrow> Some (case en_insp s of
            None \<Rightarrow> mount_inspector e
          | Some i \<Rightarrow> sync_inspector e i))\<rparr>"

text \<open>The page is rendered before its effect runs, so an inspector without a selection is
  unmounted first; the effect's choice is then rendered.\<close>

definition render :: "enr_page \<Rightarrow> enr_page" where
  "render s = mount_selected (auto_select (mount_selected s))"

section \<open>runAction\<close>

datatype enr_effect = ReloadList | ReloadNextActions | ReconnectStream

type_synonym enr_prog = "(enr_page, call, reply, enr_effect) prog"

definition AUTO_NEXT :: "action \<Rightarrow> action option" where
  "AUTO_NEXT a =
     (case a of ConfirmFingerprint \<Rightarrow> Some StartScan | ConfirmScan \<Rightarrow> Some MarkReady | _ \<Rightarrow> None)"

text \<open>The request of an action; the payload is the display name or the notes.\<close>

definition action_call :: "action \<Rightarrow> int \<Rightarrow> jstr \<Rightarrow> jstr \<Rightarrow> call" where
  "action_call a i operator x =
     (case a of
        CreateAccount \<Rightarrow> api_createTerminalAccount i x operator
      | StartFingerprint \<Rightarrow> api_startFingerprintEnrollment i operator None
      | ConfirmFingerprint \<Rightarrow> api_confirmFingerprintEnrolled i operator None
      | StartScan \<Rightarrow> api_startControlledScan i operator None
      | ConfirmScan \<Rightarrow> api_confirmControlledScan i operator
      | MarkReady \<Rightarrow> api_markReadyForMapping i operator None
      | CancelSession \<Rightarrow> api_cancelEnrollment i operator x)"

definition action_success :: "dict \<Rightarrow> action \<Rightarrow> json \<Rightarrow> jstr" where
  "action_success t a res =
     (case a of
        CreateAccount \<Rightarrow> if jtruthy (jprop res ''reconciled'') then t ''enrollment.terminalReconciledSuccess''
          else t ''enrollment.terminalCreatedSuccess''
      | StartFingerprint \<Rightarrow> t ''enrollment.fingerprintWindowActiveMessage''
      | ConfirmFingerprint \<Rightarrow> t ''enrollment.fingerprintConfirmedMessage''
      | StartScan \<Rightarrow> t ''enrollment.scanWindowStartedMessage''
      | ConfirmScan \<Rightarrow> t ''enrollment.scanConfirmedMessage''
      | MarkReady \<Rightarrow> t ''enrollment.readyForMappingSuccessMessage''
      | CancelSession \<Rightarrow> t ''enrollment.cancelSuccessMessage'')"

definition on_success :: "dict \<Rightarrow> action \<Rightarrow> json \<Rightarrow> enr_page \<Rightarrow> enr_page" where
  "on_success t a res s =
     (let s1 = s\<lparr>en_actionSuccess := Some (action_success t a res)\<rparr> in
      case a of
        CreateAccount \<Rightarrow> s1\<lparr>en_uncertain := False\<rparr>
      | CancelSession \<Rightarrow> s1\<lparr>en_selectedId := None\<rparr>
      | _ \<Rightarrow> s1)"

definition conflict_copy :: "dict \<Rightarrow> jstr \<Rightarrow> jstr" where
  "conflict_copy t m =
     (if js_includes m (js ''-> CANCELLED'') \<or> js_includes m (js ''CANCELLED ->'')
      then t ''enrollment.alreadyCancelledBody''
      else if js_includes m (js ''no matching attendance scan found'')
      then t ''enrollment.scanNotFoundYetBody''
      else t ''enrollment.enrollmentConflictBody'')"

definition titled :: "dict \<Rightarrow> string \<Rightarrow> string \<Rightarrow> jstr" where
  "titled t title b = t title @ js ''. '' @ t b"

text \<open>The copy of a failure, and what it makes of \<open>terminalAccountUncertain\<close>.\<close>

definition action_failure :: "dict \<Rightarrow> action \<Rightarrow> js_error \<Rightarrow> jstr \<times> bool option" where
  "action_failure t a err =
     (if a = CreateAccount \<and> is_api_code err ''TERMINAL_ACCOUNT_CONFLICT''
      then (titled t ''enrollment.terminalConflictTitle'' ''enrollment.terminalConflictBody'', Some False)
      else if a = CreateAccount \<and> is_api_code err ''TERMINAL_ACCOUNT_UNCONFIRMED''
      then (titled t ''enrollment.terminalUnconfirmedTitle'' ''enrollment.terminalUnconfirmedBody'', Some True)
      else if a = CreateAccount \<and> is_api_code err ''DEVICE_COMMAND_TIMEOUT''
      then (t ''enrollment.terminalUnconfirmedBody'', Some True)
      else if a = CreateAccount \<and> is_api_code err ''DEVICE_COMMAND_IN_PROGRESS''
      then (t ''enrollment.terminalInProgressBody'', Some True)
      else if a = CreateAccount \<and> api_code_in err [''DEVICE_UNAVAILABLE'', ''COLLECTOR_UNAVAILABLE'',
        ''DEVICE_COMMAND_QUEUE_FULL'', ''DEVICE_OWNER_TIMEOUT'', ''DEVICE_COMMAND_CANCELLED'']
      then (titled t ''enrollment.terminalUnavailableTitle'' ''enrollment.terminalUnavailableBody'', Some False)
      else if is_api_code err ''WRITE_SESSION_EXPIRED''
      then (t ''enrollment.writeSessionExpiredMidWorkflow'', None)
      else if api_code_in err [''WRITE_SESSION_REQUIRED'', ''WRITE_DISABLED'']
      then (t ''enrollment.writeSessionLockedBody'', None)
      else if is_api_code err ''ENROLLMENT_CONFLICT''
      then (conflict_copy t (error_message err), None)
      else (friendlyApiError err t, None))"

definition on_failure :: "dict \<Rightarrow> action \<Rightarrow> js_error \<Rightarrow> enr_page \<Rightarrow> enr_page" where
  "on_failure t a err s =
     (let (copy, u) = action_failure t a err in
      s\<lparr>en_actionError := Some copy, en_uncertain := nn u (en_uncertain s)\<rparr>)"

definition action_started :: "action \<Rightarrow> enr_page \<Rightarrow> enr_page" where
  "action_started a s = s\<lparr>en_busyAction := Some a, en_actionError := None, en_actionSuccess := None\<rparr>"

definition action_done :: "enr_page \<Rightarrow> enr_page" where
  "action_done s = s\<lparr>en_busyAction := None\<rparr>"

text \<open>The handler captured \<open>selected\<close> and \<open>me\<close> when it was made; \<open>next\<close> is the awaited
  continuation, which handles its own errors.\<close>

definition run_one ::
  "dict \<Rightarrow> int \<Rightarrow> jstr \<Rightarrow> action \<Rightarrow> jstr \<Rightarrow> (enr_page \<Rightarrow> enr_prog) \<Rightarrow> enr_page \<Rightarrow> enr_prog" where
  "run_one t i operator a x next s =
     Call (action_started a s) (action_call a i operator x)
       (\<lambda>r s. case r of
           Inr res \<Rightarrow>
             effs [ReloadList, ReloadNextActions]
               (and_then (next (on_success t a res s)) (\<lambda>s. Ret (action_done s)))
         | Inl err \<Rightarrow>
             effs (if a = CreateAccount \<or> a = CancelSession then [ReloadList, ReloadNextActions] else [])
               (Ret (action_done (on_failure t a err s))))"

definition auto_rank :: "action \<Rightarrow> nat" where
  "auto_rank a = (case AUTO_NEXT a of None \<Rightarrow> 0 | Some n \<Rightarrow> 1)"

function runAction :: "dict \<Rightarrow> int \<Rightarrow> jstr \<Rightarrow> action \<Rightarrow> jstr \<Rightarrow> enr_page \<Rightarrow> enr_prog" where
  "runAction t i operator a x =
     run_one t i operator a x
       (case AUTO_NEXT a of None \<Rightarrow> Ret | Some n \<Rightarrow> runAction t i operator n [])"
  by pat_completeness auto
termination
  by (relation "measure (\<lambda>(t, i, operator, a, x). auto_rank a)")
    (auto simp: auto_rank_def AUTO_NEXT_def split: action.splits)

declare runAction.simps [simp del]

section \<open>Handlers\<close>

datatype enr_event =
    EnSelect int
  | EnRefresh
  | EnInsp insp_event
  | EnAutoCreate
  | EnAutoConfirm
  | EnReserved int
  | EnVerified
  | EnPersonUpdated

definition en_operator :: "enr_page \<Rightarrow> jstr" where
  "en_operator s = nn (map_option me_username (au_me (en_auth s))) (js ''operator'')"

text \<open>\<open>onRunAction\<close>: only called from the inspector, so an enrollment is selected.\<close>

definition en_run :: "dict \<Rightarrow> action \<Rightarrow> jstr \<Rightarrow> enr_page \<Rightarrow> enr_prog" where
  "en_run t a x s =
     (case en_selected s of
        None \<Rightarrow> Ret s
      | Some e \<Rightarrow> runAction t (e_enrollment_id e) (en_operator s) a x s)"

definition upd_insp :: "(inspector \<Rightarrow> inspector) \<Rightarrow> enr_page \<Rightarrow> enr_page" where
  "upd_insp f s = s\<lparr>en_insp := map_option f (en_insp s)\<rparr>"

definition insp_handle :: "dict \<Rightarrow> insp_event \<Rightarrow> enr_page \<Rightarrow> enr_prog" where
  "insp_handle t e s =
     (case e of
        InToggleCancel \<Rightarrow> Ret (upd_insp (\<lambda>i. i\<lparr>in_showCancel := \<not> in_showCancel i\<rparr>) s)
      | InNotes x \<Rightarrow> Ret (upd_insp (\<lambda>i. i\<lparr>in_cancelNotes := x, in_cancelError := False\<rparr>) s)
      | InName x \<Rightarrow> Ret (upd_insp (\<lambda>i. i\<lparr>in_touched := True, in_displayName := x\<rparr>) s)
      | InSubmitCancel \<Rightarrow>
          (case en_insp s of None \<Rightarrow> Ret s
           | Some i \<Rightarrow>
               if js_trim (in_cancelNotes i) = [] then Ret (upd_insp (\<lambda>i. i\<lparr>in_cancelError := True\<rparr>) s)
               else en_run t CancelSession (js_trim (in_cancelNotes i)) s)
      | InRun a x \<Rightarrow> en_run t a x s
      | InReconnect \<Rightarrow> Eff ReconnectStream (Ret s))"

text \<open>The two effects that start an action by themselves.\<close>

definition en_can_create :: "enr_page \<Rightarrow> enrollment \<Rightarrow> bool" where
  "en_can_create s e \<longleftrightarrow> canMutate (en_auth s) \<and> truthy (e_english_name e) \<and>
     js_trim (np_value (namePreview e)) \<noteq> []"

definition auto_create :: "dict \<Rightarrow> enr_page \<Rightarrow> enr_prog" where
  "auto_create t s =
     (case en_selected s of
        None \<Rightarrow> Ret s
      | Some e \<Rightarrow>
          let s' = s\<lparr>en_autoCreateId := None\<rparr> in
          if en_can_create s e then en_run t CreateAccount (js_trim (np_value (namePreview e))) s'
          else Ret s')"

definition auto_confirm :: "dict \<Rightarrow> enr_page \<Rightarrow> enr_prog" where
  "auto_confirm t s =
     en_run t ConfirmScan [] (upd_insp (\<lambda>i. i\<lparr>in_autoConfirmedFor := in_detected i\<rparr>) s)"

definition enr_handle :: "dict \<Rightarrow> enr_event \<Rightarrow> enr_page \<Rightarrow> enr_prog" where
  "enr_handle t e s0 =
     (let s = render s0 in
      case e of
        EnSelect i \<Rightarrow> Ret (s\<lparr>en_selectedId := Some i, en_actionError := None, en_actionSuccess := None,
                          en_uncertain := False\<rparr>)
      | EnRefresh \<Rightarrow> Eff ReloadList (Ret s)
      | EnInsp ie \<Rightarrow> insp_handle t ie s
      | EnAutoCreate \<Rightarrow> auto_create t s
      | EnAutoConfirm \<Rightarrow> auto_confirm t s
      | EnReserved i \<Rightarrow> Eff ReloadList (Ret (s\<lparr>en_actionError := None,
                          en_actionSuccess := Some (t ''enrollment.reserveSuccessMessage''),
                          en_selectedId := Some i, en_autoCreateId := Some i\<rparr>))
      | EnVerified \<Rightarrow> effs [ReloadList, ReloadNextActions] (Ret (s\<lparr>en_actionError := None,
                          en_actionSuccess := Some (t ''workflow.verifiedDone'')\<rparr>))
      | EnPersonUpdated \<Rightarrow> Eff ReloadList (Ret s))"

section \<open>View\<close>

definition queue_item :: "lang \<Rightarrow> dict \<Rightarrow> enr_page \<Rightarrow> enrollment \<Rightarrow> enr_event view" where
  "queue_item l t s e =
     (let stepIdx = getStepIndex (e_status e) in
      Toned (if en_selectedId s = Some (e_enrollment_id e) then Blue else Neutral)
       [Btn False (nn (e_employee_name e) (js_slice 0 8 (e_employee_id e))) (EnSelect (e_enrollment_id e)),
        Txt (t ''attendance.terminalIdColumn''), Txt (e_reserved_device_user_id e),
        StatusBadge l (Some (e_status e)),
        Txt (t ''enrollment.reservedByPrefix'' @ js '': '' @ e_reserved_by e),
        Txt (if stepIdx \<ge> 0
             then t ''workflow.wizStepOf'' @ js '' '' @ js_num (min (stepIdx + 1) (int (length (STEPS t)))) @
               js '' / '' @ js_num (int (length (STEPS t)))
             else t ''enrollment.cancelledTitle'')])"

definition history_item :: "dict \<Rightarrow> enrollment \<Rightarrow> enr_event view" where
  "history_item t e =
     Box
      [Txt (nn (e_employee_name e) (js_slice 0 8 (e_employee_id e))),
       Txt (js ''Terminal User''), Txt (e_reserved_device_user_id e),
       Txt (if e_lifecycle_state e = js ''COMPLETED'' then t ''enrollment.completedTitle''
            else if e_lifecycle_state e = js ''REMOVED_FROM_TERMINAL''
            then t ''enrollment.removedFromTerminalLabel''
            else t ''enrollment.cancelledTitle''),
       Txt (t ''enrollment.historyPreservedNote'')]"

definition enr_props :: "enr_page \<Rightarrow> int \<Rightarrow> enrollment \<Rightarrow> insp_props" where
  "enr_props s now e =
     \<lparr>ip_enrollment = e, ip_canMutate = canMutate (en_auth s), ip_isAdmin = isAdmin (en_auth s),
      ip_busyAction = en_busyAction s, ip_uncertain = en_uncertain s, ip_now = now\<rparr>"

text \<open>The reserve card, the badge and the two inner forms are components of their own; their
  views are arguments.\<close>

definition enr_queue :: "lang \<Rightarrow> dict \<Rightarrow> enr_page \<Rightarrow> enr_event view" where
  "enr_queue l t s =
     Box
      [Txt (t ''enrollment.activeQueue'' @ js '' ('' @ js_num (int (length (activeItems s))) @ js '')''),
       Btn False (t ''common.refresh'') EnRefresh,
       (if as_loading (en_list s) then Loading t
        else if truthy (as_error (en_list s)) then ErrorBanner t (nn (as_error (en_list s)) [])
        else if activeItems s = [] then Txt (t ''enrollment.noActiveSessions'')
        else Box (map (queue_item l t s) (activeItems s))),
       when_v (historyItems s \<noteq> [])
         (Txt (t ''enrollment.historyTitle'' @ js '' ('' @ js_num (int (length (historyItems s))) @ js '')'') #
          map (history_item t) (historyItems s))]"

definition Enrollments ::
  "lang \<Rightarrow> (jstr \<Rightarrow> int option) \<Rightarrow> (jstr \<Rightarrow> jstr) \<Rightarrow> dict \<Rightarrow> int \<Rightarrow> enr_event view \<Rightarrow> enr_event view \<Rightarrow>
   insp_event view \<Rightarrow> insp_event view \<Rightarrow> enr_page \<Rightarrow> enr_event view" where
  "Enrollments l time shown t now badge reserve_card quick verify s0 =
     (let s = render s0; a = en_auth s in
      Box
       [Txt (t ''enrollment.title''), Txt (t ''enrollment.subtitle''), badge,
        when_v (\<not> (serverWriteEnabled a \<and> (writeSessionActive a \<or> \<not> workSessionRequired a)))
          [Txt (t ''enrollment.writeSessionLockedTitle''), Txt (t ''enrollment.writeSessionLockedBody'')],
        when_v (truthy (en_actionError s)) [ErrorBanner t (nn (en_actionError s) [])],
        when_v (truthy (en_actionSuccess s)) [Toned Green [Txt (nn (en_actionSuccess s) [])]],
        reserve_card,
        enr_queue l t s,
        (case (en_selected s, en_insp s) of
           (Some e, Some i) \<Rightarrow>
             map_view EnInsp
               (ActiveEnrollmentInspector l time shown t (enr_props s now e) quick verify i)
         | _ \<Rightarrow> Txt (t ''enrollment.noActiveSessions''))])"

section \<open>The component\<close>

definition enr_init :: "enr_page \<Rightarrow> bool" where
  "enr_init s \<longleftrightarrow> en_list s = api_idle \<and> en_selectedId s = None \<and> en_actionError s = None \<and>
     en_actionSuccess s = None \<and> en_busyAction s = None \<and> \<not> en_uncertain s \<and>
     en_autoCreateId s = None \<and> en_insp s = None"

text \<open>The events of the page's own view, its effects, and the callbacks of the inner forms.\<close>

definition enr_enabled :: "enr_page \<Rightarrow> enr_event \<Rightarrow> bool" where
  "enr_enabled s0 e =
     (let s = render s0 in
      case e of
        EnAutoCreate \<Rightarrow>
          (case en_selected s of None \<Rightarrow> False
           | Some x \<Rightarrow> en_autoCreateId s = Some (e_enrollment_id x) \<and> e_status x = js ''RESERVED'')
      | EnAutoConfirm \<Rightarrow>
          (case (en_selected s, en_insp s) of
             (Some x, Some i) \<Rightarrow> auto_confirm_ready x (canMutate (en_auth s)) (en_busyAction s) i
           | _ \<Rightarrow> False)
      | EnReserved i \<Rightarrow> True
      | EnVerified \<Rightarrow> en_selected s \<noteq> None
      | EnPersonUpdated \<Rightarrow> en_selected s \<noteq> None
      | _ \<Rightarrow> e \<in> offers (Enrollments En (\<lambda>_. None) (\<lambda>x. x) (\<lambda>k. js k) 0 (Box []) (Box []) (Box []) (Box []) s0))"

text \<open>New query data, a new identity, a new event or status of the stream; each is rendered.\<close>

definition enr_env :: "enr_page \<Rightarrow> enr_page \<Rightarrow> bool" where
  "enr_env s0 s' \<longleftrightarrow>
     (\<exists>l a. s' = render ((render s0)\<lparr>en_list := l, en_auth := a\<rparr>)) \<or>
     (\<exists>ev x. s' = render (upd_insp (\<lambda>i. i\<lparr>in_lastEvent := ev, in_stream := x\<rparr>) (render s0)))"

interpretation enr_ui: async_ui enr_init enr_enabled "enr_handle t" enr_env
  for t .

section \<open>Facts and properties\<close>

subsection \<open>runAction\<close>

text \<open>C4: One action, at most one automatic continuation, step by step. \<open>runAction\<close> sends the request of
  its action for the enrollment selected when it started; if that fails nothing more is sent,
  and the lists are reloaded only when the scanner may have changed, after a failed account
  creation or cancellation; if it succeeds both lists are reloaded, and the two actions without
  a human decision behind them are continued by their successor, for the same enrollment and
  under the same operator even when another one was selected meanwhile, whose success reloads
  both lists again. Whatever the answers, it ends with no action marked as running, and what
  the operator reads is the outcome of the last action alone: its notice or the copy of its
  failure.\<close>

theorem run_action_chain:
  "let next = AUTO_NEXT a;
       both = map Inr [ReloadList, ReloadNextActions];
       ends = (\<lambda>b r s'. en_busyAction s' = None \<and>
         en_actionSuccess s' = (case r of Inr res \<Rightarrow> Some (action_success t b res) | Inl err \<Rightarrow> None) \<and>
         en_actionError s' = (case r of Inr res \<Rightarrow> None | Inl err \<Rightarrow> Some (fst (action_failure t b err)))) in
   trace_of (runAction t i operator a x s) [r1, r2] =
     Inl (action_call a i operator x) #
       (case r1 of
          Inl err \<Rightarrow> if a \<in> {CreateAccount, CancelSession} then both else []
        | Inr res \<Rightarrow> both @
            (case a of
               ConfirmFingerprint \<Rightarrow> Inl (action_call StartScan i operator []) # (if isl r2 then [] else both)
             | ConfirmScan \<Rightarrow> Inl (action_call MarkReady i operator []) # (if isl r2 then [] else both)
             | _ \<Rightarrow> [])) \<and>
   (\<exists>s'. answer (runAction t i operator a x s) [r1, r2] = Some s' \<and>
      (case (r1, next) of (Inr res, Some n) \<Rightarrow> ends n r2 s' | _ \<Rightarrow> ends a r1 s'))"
  by (cases r1; cases r2; cases a)
    (simp_all add: runAction.simps run_one_def AUTO_NEXT_def action_done_def on_success_def on_failure_def
      action_started_def Let_def split_def)

lemma api_code_unique: "is_api_code err k \<Longrightarrow> is_api_code err k' \<longleftrightarrow> k' = k"
  by (cases err) auto

definition uncertain_codes :: "string list" where
  "uncertain_codes = [''TERMINAL_ACCOUNT_UNCONFIRMED'', ''DEVICE_COMMAND_TIMEOUT'', ''DEVICE_COMMAND_IN_PROGRESS'']"

definition certain_codes :: "string list" where
  "certain_codes = [''TERMINAL_ACCOUNT_CONFLICT'', ''DEVICE_UNAVAILABLE'', ''COLLECTOR_UNAVAILABLE'',
     ''DEVICE_COMMAND_QUEUE_FULL'', ''DEVICE_OWNER_TIMEOUT'', ''DEVICE_COMMAND_CANCELLED'']"

lemma action_failure_uncertain:
  "snd (action_failure t a err) =
     (if a = CreateAccount \<and> api_code_in err uncertain_codes then Some True
      else if a = CreateAccount \<and> api_code_in err certain_codes then Some False else None)"
proof (cases "a = CreateAccount \<and> api_code_in err (uncertain_codes @ certain_codes)")
  case True
  then obtain k where "k \<in> set (uncertain_codes @ certain_codes)" and c: "is_api_code err k"
    by (auto simp: api_code_in_def list_ex_iff)
  then have "k \<in> set [''TERMINAL_ACCOUNT_UNCONFIRMED'', ''DEVICE_COMMAND_TIMEOUT'', ''DEVICE_COMMAND_IN_PROGRESS'',
     ''TERMINAL_ACCOUNT_CONFLICT'', ''DEVICE_UNAVAILABLE'', ''COLLECTOR_UNAVAILABLE'',
     ''DEVICE_COMMAND_QUEUE_FULL'', ''DEVICE_OWNER_TIMEOUT'', ''DEVICE_COMMAND_CANCELLED'']"
    by (simp only: uncertain_codes_def certain_codes_def append.simps)
  then show ?thesis using True
    by (simp only: list.set insert_iff empty_iff simp_thms, elim disjE)
      (simp_all add: action_failure_def api_code_in_def uncertain_codes_def certain_codes_def
        api_code_unique[OF c])
next
  case False
  then show ?thesis
    by (auto simp: action_failure_def api_code_in_def uncertain_codes_def certain_codes_def)
qed

lemma action_failure_text:
  "fst (action_failure t a err) \<in>
     t ` (set error_copy_keys \<union> {''enrollment.terminalUnconfirmedBody'', ''enrollment.terminalInProgressBody'',
            ''enrollment.alreadyCancelledBody'', ''enrollment.scanNotFoundYetBody'',
            ''enrollment.enrollmentConflictBody''}) \<union>
     {titled t ''enrollment.terminalConflictTitle'' ''enrollment.terminalConflictBody'',
      titled t ''enrollment.terminalUnconfirmedTitle'' ''enrollment.terminalUnconfirmedBody'',
      titled t ''enrollment.terminalUnavailableTitle'' ''enrollment.terminalUnavailableBody''}"
proof -
  define ok where "ok x \<longleftrightarrow> x \<in>
     t ` (set error_copy_keys \<union> {''enrollment.terminalUnconfirmedBody'', ''enrollment.terminalInProgressBody'',
            ''enrollment.alreadyCancelledBody'', ''enrollment.scanNotFoundYetBody'',
            ''enrollment.enrollmentConflictBody''}) \<union>
     {titled t ''enrollment.terminalConflictTitle'' ''enrollment.terminalConflictBody'',
      titled t ''enrollment.terminalUnconfirmedTitle'' ''enrollment.terminalUnconfirmedBody'',
      titled t ''enrollment.terminalUnavailableTitle'' ''enrollment.terminalUnavailableBody''}" for x
  have friendly: "ok (friendlyApiError err t)"
    using friendlyApiError_keys[of err t] unfolding ok_def by blast
  have keys: "ok (t k)" if "k \<in> set error_copy_keys" for k
    using that unfolding ok_def by blast
  have "ok (t ''enrollment.writeSessionLockedBody'')" "ok (t ''enrollment.writeSessionExpiredMidWorkflow'')"
    by (rule keys, simp add: error_copy_keys_def)+
  moreover have "ok (t ''enrollment.terminalUnconfirmedBody'')" "ok (t ''enrollment.terminalInProgressBody'')"
    "ok (t ''enrollment.alreadyCancelledBody'')" "ok (t ''enrollment.scanNotFoundYetBody'')"
    "ok (t ''enrollment.enrollmentConflictBody'')"
    "ok (titled t ''enrollment.terminalConflictTitle'' ''enrollment.terminalConflictBody'')"
    "ok (titled t ''enrollment.terminalUnconfirmedTitle'' ''enrollment.terminalUnconfirmedBody'')"
    "ok (titled t ''enrollment.terminalUnavailableTitle'' ''enrollment.terminalUnavailableBody'')"
    by (simp_all add: ok_def)
  ultimately have "ok (fst (action_failure t a err))"
    using friendly by (simp add: action_failure_def conflict_copy_def)
  then show ?thesis unfolding ok_def .
qed

text \<open>C20: The operator never reads the server's words: the copy of a failed action is built from
  the dictionary alone, it depends on the server's message only through the two patterns of an
  enrollment conflict, and the scanner account is marked uncertain exactly when the command may
  have reached the device, and cleared exactly when it certainly conflicted or never left.\<close>

theorem action_failure_copy:
  "fst (action_failure t a err) \<in>
     t ` (set error_copy_keys \<union> {''enrollment.terminalUnconfirmedBody'', ''enrollment.terminalInProgressBody'',
            ''enrollment.alreadyCancelledBody'', ''enrollment.scanNotFoundYetBody'',
            ''enrollment.enrollmentConflictBody''}) \<union>
     {titled t ''enrollment.terminalConflictTitle'' ''enrollment.terminalConflictBody'',
      titled t ''enrollment.terminalUnconfirmedTitle'' ''enrollment.terminalUnconfirmedBody'',
      titled t ''enrollment.terminalUnavailableTitle'' ''enrollment.terminalUnavailableBody''} \<and>
   (snd (action_failure t a err) = Some True \<longleftrightarrow> a = CreateAccount \<and> api_code_in err uncertain_codes) \<and>
   (snd (action_failure t a err) = Some False \<longleftrightarrow> a = CreateAccount \<and> api_code_in err certain_codes)"
proof -
  have "\<not> (api_code_in err uncertain_codes \<and> api_code_in err certain_codes)"
    by (cases err) (auto simp: api_code_in_def uncertain_codes_def certain_codes_def)
  then show ?thesis using action_failure_text[of t a err] by (simp add: action_failure_uncertain)
qed

subsection \<open>Requests of the page\<close>

lemma offers_history_item [simp]: "offers (history_item t e) = {}"
  by (simp add: history_item_def)

lemma offers_queue_item [simp]: "offers (queue_item l t s e) = {EnSelect (e_enrollment_id e)}"
  by (simp add: queue_item_def Let_def)

lemma offers_enr_queue:
  "offers (enr_queue l t s) = insert EnRefresh
     (if as_loading (en_list s) \<or> truthy (as_error (en_list s)) then {}
      else (\<lambda>e. EnSelect (e_enrollment_id e)) ` set (activeItems s))"
  by (auto simp: enr_queue_def Loading_def ErrorBanner_def)

lemma offers_Enrollments:
  "offers (Enrollments l time shown t now badge rcard quick verify s0) =
     offers badge \<union> offers rcard \<union> offers (enr_queue l t (render s0)) \<union>
     (case (en_selected (render s0), en_insp (render s0)) of
        (Some e, Some i) \<Rightarrow> EnInsp ` offers (ActiveEnrollmentInspector l time shown t
           (enr_props (render s0) now e) quick verify i)
      | _ \<Rightarrow> {})"
  by (auto simp: Enrollments_def Let_def offers_map ErrorBanner_def split: option.splits)

text \<open>History cannot become the active workflow: the queue lets the operator select active
  enrollments only, never one that is completed, cancelled or removed from the scanner.\<close>

theorem queue_selects_active_only:
  assumes "EnSelect i \<in> offers (Enrollments l time shown t now (Box []) (Box []) quick verify s)"
  shows "\<exists>e \<in> set (en_items (render s)). e_enrollment_id e = i \<and> e_lifecycle_state e = js ''IN_PROGRESS''"
  using assms
  by (auto simp: offers_Enrollments offers_enr_queue activeItems_def in_progress_def
      split: option.splits if_splits)



lemma action_started_fields [simp]:
  "en_auth (action_started a s) = en_auth s" "en_selected (action_started a s) = en_selected s"
  "en_operator (action_started a s) = en_operator s"
  by (simp_all add: action_started_def en_selected_def en_items_def en_operator_def split: option.split)




lemma upd_insp_fields [simp]:
  "en_auth (upd_insp f s) = en_auth s" "en_selected (upd_insp f s) = en_selected s"
  "en_operator (upd_insp f s) = en_operator s"
  by (simp_all add: upd_insp_def en_selected_def en_items_def en_operator_def split: option.split)



lemma en_selected_autoCreateId [simp]: "en_selected (s\<lparr>en_autoCreateId := x\<rparr>) = en_selected s"
  by (simp add: en_selected_def en_items_def split: option.split)




subsection \<open>Concrete pages\<close>

definition demo_enrollment :: "int \<Rightarrow> jstr \<Rightarrow> string \<Rightarrow> enrollment" where
  "demo_enrollment i user status = sample_enrollment
     \<lparr>e_enrollment_id := i, e_reserved_device_user_id := user, e_status := js status\<rparr>"

definition demo_list :: "enrollment list \<Rightarrow> enrollment page api_state" where
  "demo_list es = \<lparr>as_data = Some \<lparr>pg_items = es, pg_total = int (length es), pg_limit = 100, pg_offset = 0\<rparr>,
     as_loading = False, as_error = None, as_run = 1, as_mounted = True\<rparr>"

definition demo_page :: "enrollment list \<Rightarrow> int \<Rightarrow> action option \<Rightarrow> inspector \<Rightarrow> enr_page" where
  "demo_page es i b insp =
     \<lparr>en_auth = auth_of (initial_provider None\<lparr>pv_me := Some admin_me\<rparr>), en_list = demo_list es,
      en_selectedId = Some i, en_actionError = None, en_actionSuccess = None, en_busyAction = b,
      en_uncertain = False, en_autoCreateId = None, en_insp = Some insp\<rparr>"

definition demo_start :: enr_page where
  "demo_start = \<lparr>en_auth = auth_of (initial_provider None), en_list = api_idle, en_selectedId = None,
     en_actionError = None, en_actionSuccess = None, en_busyAction = None, en_uncertain = False,
     en_autoCreateId = None, en_insp = None\<rparr>"

lemma demo_enrollment_simps [simp]:
  "e_enrollment_id (demo_enrollment i u x) = i" "e_status (demo_enrollment i u x) = js x"
  "e_reserved_device_user_id (demo_enrollment i u x) = u" "in_progress (demo_enrollment i u x)"
  "namePreview (demo_enrollment i u x) = namePreview sample_enrollment"
  "e_english_name (demo_enrollment i u x) = None"
  by (simp_all add: demo_enrollment_def sample_enrollment_def in_progress_def namePreview_def)

lemma demo_page_simps [simp]:
  "en_items (demo_page es i b insp) = es" "en_selectedId (demo_page es i b insp) = Some i"
  "en_busyAction (demo_page es i b insp) = b" "en_insp (demo_page es i b insp) = Some insp"
  "canMutate (en_auth (demo_page es i b insp))" "as_loading (en_list (demo_page es i b insp)) = False"
  "as_error (en_list (demo_page es i b insp)) = None"
  "activeItems (demo_page es i b insp) = filter in_progress es"
  by (simp_all add: demo_page_def demo_list_def en_items_def activeItems_def admin_can_mutate)

lemma demo_start_simps [simp]: "en_items demo_start = []" "en_selectedId demo_start = None"
  "en_insp demo_start = None" "activeItems demo_start = []" "en_selected demo_start = None"
  by (simp_all add: demo_start_def en_items_def api_idle_def activeItems_def en_selected_def)

lemma demo_init: "enr_init demo_start"
  by (simp add: enr_init_def demo_start_def)

lemma render_demo_start [simp]: "render demo_start = demo_start"
  by (simp add: render_def auto_select_def mount_selected_def en_selected_def activeItems_def
      en_items_def demo_start_def api_idle_def)

text \<open>The first load of the queue: the first active enrollment is selected and its inspector
  mounted.\<close>

lemma demo_loaded:
  assumes "es = demo_enrollment i u x # rest"
  shows "\<exists>c. enr_ui.ui_reach t c \<and>
           st c = demo_page es i None (mount_inspector (demo_enrollment i u x)) \<and> pend c = [] \<and> log c = []"
proof -
  have r: "enr_ui.ui_reach t (start demo_start)"
    by (rule enr_ui.initial) (rule demo_init)
  have "demo_page es i None (mount_inspector (demo_enrollment i u x)) =
      render (demo_start\<lparr>en_list := demo_list es,
        en_auth := auth_of (initial_provider None\<lparr>pv_me := Some admin_me\<rparr>)\<rparr>)"
    using assms
    by (simp add: demo_page_def demo_start_def render_def auto_select_def mount_selected_def
        en_selected_def en_items_def activeItems_def demo_list_def)
  then have "enr_env demo_start (demo_page es i None (mount_inspector (demo_enrollment i u x)))"
    unfolding enr_env_def render_demo_start by blast
  with enr_ui.reach_env[OF r] show ?thesis by auto
qed

lemma render_demo:
  assumes "List.find (\<lambda>e. e_enrollment_id e = i) es = Some e"
  shows "render (demo_page es i b insp) = demo_page es i b (sync_inspector e insp)"
  using assms
  by (simp add: render_def auto_select_def mount_selected_def en_selected_def)
    (simp add: demo_page_def demo_list_def en_items_def sync_inspector_idem)

lemma selected_demo: "en_selected (demo_page es i b insp) = List.find (\<lambda>e. e_enrollment_id e = i) es"
  by (simp add: en_selected_def)

lemma upd_demo: "upd_insp f (demo_page es i b insp) = demo_page es i b (f insp)"
  by (simp add: upd_insp_def demo_page_def)

lemma started_demo: "action_started a (demo_page es i b insp) = demo_page es i (Some a) insp"
  by (simp add: action_started_def demo_page_def)

text \<open>An inspector that is in sync with its enrollment and saw no scan.\<close>

definition settled :: "int \<Rightarrow> inspector \<Rightarrow> bool" where
  "settled i insp \<longleftrightarrow> in_lastSynced insp = i \<and> in_displayName insp = np_value (namePreview sample_enrollment) \<and>
     in_lastEvent insp = None"

lemma sync_settled: "settled i insp \<Longrightarrow> sync_inspector (demo_enrollment i u x) insp = insp"
  by (simp add: settled_def sync_inspector_def sync_name_def detect_scan_def)

lemma settled_mount: "settled i (mount_inspector (demo_enrollment i u x))"
  by (simp add: settled_def mount_inspector_def)

subsection \<open>What can go wrong\<close>

abbreviation cancel_demo :: "int \<Rightarrow> enrollment" where
  "cancel_demo i \<equiv> demo_enrollment i [] ''TERMINAL_ACCOUNT_CREATED''"

definition drawer :: "bool \<Rightarrow> jstr \<Rightarrow> inspector" where
  "drawer b notes = mount_inspector (cancel_demo 7)\<lparr>in_showCancel := b, in_cancelNotes := notes\<rparr>"

lemma settled_drawer: "settled 7 (drawer b notes)"
  using settled_mount[of 7] by (simp add: settled_def drawer_def)

lemma drawer_simps [simp]: "in_showCancel (drawer b n) = b" "in_cancelNotes (drawer b n) = n"
  by (simp_all add: drawer_def)

abbreviation drawer_page :: "action option \<Rightarrow> bool \<Rightarrow> jstr \<Rightarrow> enr_page" where
  "drawer_page b open_drawer notes \<equiv> demo_page [cancel_demo 7] 7 b (drawer open_drawer notes)"

lemma render_drawer [simp]: "render (drawer_page b x n) = drawer_page b x n"
  by (simp add: render_demo sync_settled settled_drawer)

lemma drawer_enabled:
  "enr_enabled (drawer_page b x n) (EnInsp e) \<longleftrightarrow>
     e = InToggleCancel \<or> (x \<and> e \<in> range InNotes) \<or> (x \<and> b \<noteq> Some CancelSession \<and> e = InSubmitCancel) \<or>
     (b \<noteq> Some ConfirmFingerprint \<and> e = InRun ConfirmFingerprint [])"
  by (auto simp: enr_enabled_def offers_Enrollments offers_enr_queue selected_demo offers_inspector
      offers_action_pane enr_props_def Let_def split: if_splits)

text \<open>Two requests of one handler step on the cancel drawer.\<close>

lemma drawer_ready:
  "\<exists>c. enr_ui.ui_reach t c \<and> st c = drawer_page None True [120] \<and> pend c = [] \<and> log c = []"
proof -
  obtain c0 where c0: "enr_ui.ui_reach t c0" "st c0 = drawer_page None False []" "pend c0 = []" "log c0 = []"
    using demo_loaded[of "[cancel_demo 7]" 7 "[]" "''TERMINAL_ACCOUNT_CREATED''" "[]" t]
    by (auto simp: drawer_def mount_inspector_def)
  have "enr_handle t (EnInsp InToggleCancel) (drawer_page None False []) = Ret (drawer_page None True [])"
    by (simp add: enr_handle_def insp_handle_def upd_demo) (simp add: drawer_def mount_inspector_def)
  from enr_ui.reach_ret[OF c0(1,2) _ this] drawer_enabled c0
  obtain c1 where c1: "enr_ui.ui_reach t c1" "st c1 = drawer_page None True []" "pend c1 = []" "log c1 = []"
    by auto
  have "enr_handle t (EnInsp (InNotes [120])) (drawer_page None True []) = Ret (drawer_page None True [120])"
    by (simp add: enr_handle_def insp_handle_def upd_demo) (simp add: drawer_def mount_inspector_def)
  from enr_ui.reach_ret[OF c1(1,2) _ this] drawer_enabled c1 show ?thesis by auto
qed

lemma trim_x: "js_trim [120] = [120]"
  by (rule js_trim_id) (simp_all add: is_ws_def ws_units_def)

lemma drawer_submit:
  "\<exists>k. enr_handle t (EnInsp InSubmitCancel) (drawer_page b True [120]) =
     Call (drawer_page (Some CancelSession) True [120])
       (action_call CancelSession 7 (en_operator (drawer_page b True [120])) [120]) k"
  by (simp add: enr_handle_def insp_handle_def trim_x en_run_def selected_demo runAction.simps run_one_def
      started_demo Let_def)

lemma drawer_confirm:
  "\<exists>k. enr_handle t (EnInsp (InRun ConfirmFingerprint [])) (drawer_page b True [120]) =
     Call (drawer_page (Some ConfirmFingerprint) True [120])
       (action_call ConfirmFingerprint 7 (en_operator (drawer_page b True [120])) []) k"
  by (simp add: enr_handle_def insp_handle_def en_run_def selected_demo runAction.simps run_one_def
      started_demo Let_def)

lemma demo_operator: "en_operator (demo_page es i b insp) = js ''v''"
  by (simp add: en_operator_def demo_page_def auth_of_def Let_def admin_me_def viewer_me_def)

text \<open>The guard against a second click is per action, not per page: starting another action
  while a cancellation is in flight enables the cancel button again, and the same enrollment
  can be cancelled twice at the same time. A configuration with two identical cancellations in
  flight is reachable.\<close>

theorem same_action_twice_in_flight:
  "\<exists>c q k1 k2 k3 q'. enr_ui.ui_reach t c \<and> pend c = [(q, k1), (q', k2), (q, k3)] \<and>
     q = api_cancelEnrollment 7 (js ''v'') [120]"
proof -
  let ?q = "action_call CancelSession 7 (js ''v'') [120]"
  let ?q' = "action_call ConfirmFingerprint 7 (js ''v'') []"
  obtain c0 where c0: "enr_ui.ui_reach t c0" "st c0 = drawer_page None True [120]" "pend c0 = []"
    using drawer_ready by blast
  obtain k1 where "enr_handle t (EnInsp InSubmitCancel) (drawer_page None True [120]) =
     Call (drawer_page (Some CancelSession) True [120]) ?q k1"
    using drawer_submit[of t None] by (auto simp: demo_operator)
  from enr_ui.reach_call[OF c0(1,2) _ this] drawer_enabled c0
  obtain c1 where c1: "enr_ui.ui_reach t c1" "st c1 = drawer_page (Some CancelSession) True [120]"
    "pend c1 = [(?q, k1)]" by auto
  obtain k2 where "enr_handle t (EnInsp (InRun ConfirmFingerprint [])) (drawer_page (Some CancelSession) True [120]) =
     Call (drawer_page (Some ConfirmFingerprint) True [120]) ?q' k2"
    using drawer_confirm[of t "Some CancelSession"] by (auto simp: demo_operator)
  from enr_ui.reach_call[OF c1(1,2) _ this] drawer_enabled c1
  obtain c2 where c2: "enr_ui.ui_reach t c2" "st c2 = drawer_page (Some ConfirmFingerprint) True [120]"
    "pend c2 = [(?q, k1), (?q', k2)]" by auto
  obtain k3 where "enr_handle t (EnInsp InSubmitCancel) (drawer_page (Some ConfirmFingerprint) True [120]) =
     Call (drawer_page (Some CancelSession) True [120]) ?q k3"
    using drawer_submit[of t "Some ConfirmFingerprint"] by (auto simp: demo_operator)
  from enr_ui.reach_call[OF c2(1,2) _ this] drawer_enabled c2
  obtain c3 where "enr_ui.ui_reach t c3" "pend c3 = [(?q, k1), (?q', k2), (?q, k3)]" by auto
  then show ?thesis by (auto simp: action_call_def)
qed

lemma drawer_submit_done:
  "\<exists>k. enr_handle t (EnInsp InSubmitCancel) (drawer_page None True [120]) =
     Call (drawer_page (Some CancelSession) True [120])
       (action_call CancelSession 7 (en_operator (drawer_page None True [120])) [120]) k \<and>
     (\<forall>res s. k (Inr res) s =
        effs [ReloadList, ReloadNextActions] (Ret (action_done (on_success t CancelSession res s))))"
  by (simp add: enr_handle_def insp_handle_def trim_x en_run_def selected_demo runAction.simps run_one_def
      started_demo AUTO_NEXT_def Let_def)

text \<open>A cancelled enrollment stays on the bench: the page clears the selection after a
  successful cancellation, as its comment says, but the effect that fills an empty selection
  runs before the reloaded queue arrives and picks the first enrollment of the old queue, which
  can be the one just cancelled. A configuration that shows the inspector of a cancelled
  enrollment that is no longer in the active queue is reachable.\<close>

theorem cancelled_enrollment_reselected:
  "\<exists>c e. enr_ui.ui_reach t c \<and> en_selected (st c) = Some e \<and> e_status e = js ''CANCELLED'' \<and>
     activeItems (st c) = [] \<and> en_insp (st c) \<noteq> None \<and>
     en_actionSuccess (st c) = Some (t ''enrollment.cancelSuccessMessage'')"
proof -
  obtain c0 where c0: "enr_ui.ui_reach t c0" "st c0 = drawer_page None True [120]" "pend c0 = []"
    using drawer_ready by blast
  obtain k where k: "enr_handle t (EnInsp InSubmitCancel) (drawer_page None True [120]) =
     Call (drawer_page (Some CancelSession) True [120])
       (action_call CancelSession 7 (en_operator (drawer_page None True [120])) [120]) k"
    "\<And>res s. k (Inr res) s =
        effs [ReloadList, ReloadNextActions] (Ret (action_done (on_success t CancelSession res s)))"
    using drawer_submit_done by blast
  from enr_ui.reach_call[OF c0(1,2) _ k(1)] drawer_enabled c0
  obtain c1 q where c1: "enr_ui.ui_reach t c1" "st c1 = drawer_page (Some CancelSession) True [120]"
    "pend c1 = [(q, k)]" by auto
  have "0 < length (pend c1)" by (simp add: c1(3))
  then have r2: "enr_ui.ui_reach t (resume 0 (Inr JNull) c1)"
    using c1(1) by (intro enr_ui.reach_outcome)
  let ?s2 = "(drawer_page None True [120])\<lparr>en_selectedId := None,
      en_actionSuccess := Some (t ''enrollment.cancelSuccessMessage'')\<rparr>"
  have s2: "st (resume 0 (Inr JNull) c1) = ?s2"
    by (simp add: resume_def c1 k(2) action_done_def on_success_def action_success_def)
      (simp add: demo_page_def)
  let ?e = "(cancel_demo 7)\<lparr>e_status := js ''CANCELLED'', e_lifecycle_state := js ''CANCELLED''\<rparr>"
  let ?s3 = "render ((render ?s2)\<lparr>en_list := demo_list [?e], en_auth := en_auth ?s2\<rparr>)"
  have "enr_env ?s2 ?s3" unfolding enr_env_def by blast
  with enr_ui.reach_env[OF r2] s2 obtain c3 where c3: "enr_ui.ui_reach t c3" "st c3 = ?s3" by auto
  have sel: "en_selectedId (render ?s2) = Some 7" "en_insp (render ?s2) = Some (mount_inspector (cancel_demo 7))"
    "en_actionSuccess (render ?s2) = Some (t ''enrollment.cancelSuccessMessage'')"
    by (simp_all add: render_def auto_select_def mount_selected_def en_selected_def demo_page_def
        demo_list_def en_items_def activeItems_def)
  have e: "\<not> in_progress ?e" "e_enrollment_id ?e = 7" by (simp_all add: in_progress_def demo_enrollment_def)
  have "en_selectedId ?s3 = Some 7" "en_items ?s3 = [?e]" "en_insp ?s3 \<noteq> None"
    "en_actionSuccess ?s3 = Some (t ''enrollment.cancelSuccessMessage'')"
    using sel e
    by (simp_all add: render_def[of "(render s)\<lparr>en_list := l, en_auth := a\<rparr>" for s l a]
        auto_select_def mount_selected_def en_selected_def demo_list_def en_items_def)
  with e c3 show ?thesis
    by (intro exI[of _ c3] exI[of _ ?e]) (simp add: en_selected_def activeItems_def)
qed

subsubsection \<open>A scan of somebody else\<close>

definition scan_event :: attendance_event where
  "scan_event = \<lparr>ae_user_id = [49], ae_device_ip = [], ae_scan_time = [57],
     ae_punch_type = None, ae_status = None, ae_event_type = js ''ATTENDANCE_SCAN''\<rparr>"

abbreviation scan_first :: enrollment where
  "scan_first \<equiv> demo_enrollment 7 [49] ''TERMINAL_ACCOUNT_CREATED''"

abbreviation scan_second :: enrollment where
  "scan_second \<equiv> demo_enrollment 8 [50] ''CONTROLLED_SCAN_PENDING''"

definition scan_insp :: "int \<Rightarrow> jstr option \<Rightarrow> inspector" where
  "scan_insp i confirmed = (mount_inspector scan_first)\<lparr>in_lastSynced := i, in_stream := Connected,
     in_lastEvent := Some scan_event, in_detected := Some [57], in_autoConfirmedFor := confirmed\<rparr>"

lemma scan_insp_sync:
  "sync_inspector scan_first (scan_insp 7 x) = scan_insp 7 x"
  "sync_inspector scan_second (scan_insp 7 x) = scan_insp 8 x"
  "sync_inspector scan_second (scan_insp 8 x) = scan_insp 8 x"
  "sync_inspector scan_first ((mount_inspector scan_first)\<lparr>in_lastEvent := Some scan_event,
     in_stream := Connected\<rparr>) = scan_insp 7 None"
  by (simp_all add: scan_insp_def sync_inspector_def sync_name_def detect_scan_def scan_event_def
      mount_inspector_def)

text \<open>C37: A scan of one person confirms the test scan of another, and nobody clicks: the detected
  scan is kept when the selection changes and is not tied to the test-scan window. Reachable is
  a page that has sent nothing yet, whose last event is a scan of a terminal id that is not the
  selected enrollment's, whose detected scan is that one, and on which nevertheless the effect
  that confirms by itself is due; running that effect, without any click, sends exactly the
  confirmation of the selected enrollment. (The server still looks for the evidence of the
  right person, so the request is answered by a conflict.)\<close>

theorem scan_confirms_other_enrollment:
  "\<exists>c e i ev. enr_ui.ui_reach t c \<and> log c = [] \<and>
     en_selected (render (st c)) = Some e \<and> en_insp (render (st c)) = Some i \<and>
     in_lastEvent i = Some ev \<and> ae_user_id ev \<noteq> e_reserved_device_user_id e \<and>
     in_detected i = Some (ae_scan_time ev) \<and> enr_enabled (st c) EnAutoConfirm \<and>
     (\<exists>s. log (exec (enr_handle t EnAutoConfirm (st c)) c) =
        [Inl (s, api_confirmControlledScan (e_enrollment_id e) (en_operator (st c)))])"
proof -
  let ?es = "[scan_first, scan_second]"
  obtain c0 where c0: "enr_ui.ui_reach t c0" "st c0 = demo_page ?es 7 None (mount_inspector scan_first)"
    "log c0 = []"
    using demo_loaded[of ?es 7 "[49]" "''TERMINAL_ACCOUNT_CREATED''" "[scan_second]" t] by auto
  have "sync_inspector scan_first (mount_inspector scan_first) = mount_inspector scan_first"
    by (rule sync_settled[OF settled_mount])
  then have "render (upd_insp (\<lambda>i. i\<lparr>in_lastEvent := Some scan_event, in_stream := Connected\<rparr>)
      (render (st c0))) = demo_page ?es 7 None (scan_insp 7 None)"
    by (simp add: c0(2) render_demo upd_demo scan_insp_sync)
  then have "enr_env (st c0) (demo_page ?es 7 None (scan_insp 7 None))"
    unfolding enr_env_def by (intro disjI2) metis
  with enr_ui.reach_env[OF c0(1)] c0(3) obtain c1 where c1: "enr_ui.ui_reach t c1"
    "st c1 = demo_page ?es 7 None (scan_insp 7 None)" "log c1 = []" by auto
  have "enr_handle t (EnSelect 8) (demo_page ?es 7 None (scan_insp 7 None)) =
      Ret (demo_page ?es 8 None (scan_insp 7 None))"
    by (simp add: enr_handle_def render_demo scan_insp_sync) (simp add: demo_page_def)
  moreover have "enr_enabled (demo_page ?es 7 None (scan_insp 7 None)) (EnSelect 8)"
    by (simp add: enr_enabled_def render_demo scan_insp_sync offers_Enrollments offers_enr_queue Let_def)
  ultimately obtain c2 where c2: "enr_ui.ui_reach t c2" "st c2 = demo_page ?es 8 None (scan_insp 7 None)"
    "log c2 = []" using enr_ui.reach_ret[OF c1(1,2)] c1(3) by metis
  have r8: "render (demo_page ?es 8 None (scan_insp 7 None)) = demo_page ?es 8 None (scan_insp 8 None)"
    by (simp add: render_demo scan_insp_sync)
  let ?s = "demo_page ?es 8 (Some ConfirmScan) (scan_insp 8 (Some [57]))"
  have "enr_enabled (demo_page ?es 8 None (scan_insp 7 None)) EnAutoConfirm"
    by (simp add: enr_enabled_def r8 selected_demo auto_confirm_ready_def Let_def) (simp add: scan_insp_def)
  moreover have "\<exists>k. enr_handle t EnAutoConfirm (demo_page ?es 8 None (scan_insp 7 None)) =
      Call ?s (action_call ConfirmScan 8 (js ''v'') []) k"
    by (simp add: enr_handle_def r8 auto_confirm_def upd_demo en_run_def selected_demo runAction.simps
        run_one_def started_demo demo_operator Let_def) (simp add: scan_insp_def)
  then have "log (exec (enr_handle t EnAutoConfirm (st c2)) c2) = [Inl (?s, api_confirmControlledScan 8 (js ''v''))]"
    by (auto simp: c2 action_call_def)
  moreover have "en_selected (render (st c2)) = Some scan_second" "en_insp (render (st c2)) = Some (scan_insp 8 None)"
    by (simp_all add: c2(2) r8 selected_demo)
  moreover have "in_lastEvent (scan_insp 8 None) = Some scan_event"
    "in_detected (scan_insp 8 None) = Some (ae_scan_time scan_event)"
    "ae_user_id scan_event \<noteq> e_reserved_device_user_id scan_second"
    by (simp_all add: scan_insp_def scan_event_def)
  ultimately show ?thesis using c2
    by (intro exI[of _ c2] exI[of _ scan_second] exI[of _ "scan_insp 8 None"] exI[of _ scan_event])
      (simp add: demo_operator)
qed

theorem queue_selects_active_only_witness:
  "\<exists>e \<in> {scan_first, scan_second}. e_enrollment_id e = 8 \<and> e_lifecycle_state e = js ''IN_PROGRESS''"
proof -
  let ?s = "demo_page [scan_first, scan_second] 7 None (scan_insp 7 None)"
  have "EnSelect 8 \<in> offers (Enrollments En (\<lambda>_. None) (\<lambda>x. x) (\<lambda>k. js k) 0 (Box []) (Box []) (Box []) (Box []) ?s)"
    by (simp add: offers_Enrollments offers_enr_queue render_demo scan_insp_sync)
  from queue_selects_active_only[OF this] show ?thesis by (simp add: render_demo scan_insp_sync)
qed


end
