(* ===== verification/Terminal_Management.thy ===== *)
theory Terminal_Management
  imports Sessions
begin

text \<open>
  The page \<open>frontend/src/pages/TerminalManagement.tsx\<close>: the inventory of the scanner, the
  three confirmation dialogs (remove a fingerprint, remove an account, re-enroll a finger), and
  the polling of a re-enrollment with its interval timers.
\<close>

section \<open>State\<close>

definition DEVICE_ID :: int where
  "DEVICE_ID = 1"

datatype reenroll_status = ReIdle | RePending | ReConfirmed | ReFailed

text \<open>\<open>tp_intervals\<close> are the interval timers that run, each with the account it polls for;
  \<open>tp_pollRef\<close> is the last one set up.\<close>

record term_page =
  tp_auth :: auth
  tp_inv :: "terminal_inventory api_state"
  tp_actionError :: "jstr option"
  tp_actionSuccess :: "jstr option"
  tp_busyItem :: "jstr option"
  tp_fpConfirmItem :: "terminal_inventory_item option"
  tp_acctConfirmItem :: "terminal_inventory_item option"
  tp_acctAcknowledge :: bool
  tp_reenrollItem :: "terminal_inventory_item option"
  tp_reenrollStatus :: reenroll_status
  tp_pollRef :: "nat option"
  tp_intervals :: "(nat \<times> jstr) list"
  tp_timers :: nat

datatype term_event =
    TmRefresh
  | TmReenroll terminal_inventory_item
  | TmRemoveFingerprint terminal_inventory_item
  | TmRemoveAccount terminal_inventory_item
  | TmFingerprintConfirm
  | TmFingerprintCancel
  | TmAccountConfirm
  | TmAccountCancel
  | TmAcknowledge bool
  | TmReenrollStart
  | TmReenrollCancel
  | TmPoll nat

datatype term_effect = ReloadInventory

type_synonym term_prog = "(term_page, call, reply, term_effect) prog"

definition tp_isAdmin :: "term_page \<Rightarrow> bool" where
  "tp_isAdmin s \<longleftrightarrow> map_option me_role (au_me (tp_auth s)) = Some (js ''ADMIN'')"

definition tp_operator :: "term_page \<Rightarrow> jstr" where
  "tp_operator s = nn (map_option me_username (au_me (tp_auth s))) (js ''operator'')"

section \<open>Handlers\<close>

definition friendlyError :: "dict \<Rightarrow> js_error \<Rightarrow> jstr" where
  "friendlyError t err =
     (if is_api_code err ''DEVICE_UNAVAILABLE'' then t ''terminalManagement.deviceUnreachable''
      else if is_api_code err ''ACTIVE_HUMAN_PROTECTION''
      then t ''terminalManagement.removeAccountActiveWarning''
      else if api_code_in err [''WRITE_SESSION_REQUIRED'', ''WRITE_DISABLED'']
      then t ''enrollment.writeSessionLockedBody''
      else if is_api_code err ''WRITE_SESSION_EXPIRED''
      then t ''enrollment.writeSessionExpiredMidWorkflow''
      else friendlyApiError err t)"

definition removed_notice :: "dict \<Rightarrow> json \<Rightarrow> string \<Rightarrow> jstr" where
  "removed_notice t res k =
     (if jtruthy (jprop res ''already_absent'') then t ''terminalManagement.alreadyAbsentNotice'' else t k)"

definition handleRemoveFingerprint :: "dict \<Rightarrow> term_page \<Rightarrow> term_prog" where
  "handleRemoveFingerprint t s =
     (case tp_fpConfirmItem s of
        None \<Rightarrow> Ret s
      | Some item \<Rightarrow>
          Call (s\<lparr>tp_busyItem := Some (ti_device_user_id item), tp_actionError := None\<rparr>)
            (api_removeTerminalFingerprint DEVICE_ID (ti_device_user_id item) (tp_operator s) None)
            (\<lambda>r s. case r of
                Inr res \<Rightarrow> Eff ReloadInventory
                  (Ret (s\<lparr>tp_actionSuccess := Some (removed_notice t res ''terminalManagement.fingerprintRemoveSuccess''),
                          tp_fpConfirmItem := None, tp_busyItem := None\<rparr>))
              | Inl err \<Rightarrow> Ret (s\<lparr>tp_actionError := Some (friendlyError t err), tp_fpConfirmItem := None,
                                tp_busyItem := None\<rparr>)))"

definition handleRemoveAccount :: "dict \<Rightarrow> term_page \<Rightarrow> term_prog" where
  "handleRemoveAccount t s =
     (case tp_acctConfirmItem s of
        None \<Rightarrow> Ret s
      | Some item \<Rightarrow>
          Call (s\<lparr>tp_busyItem := Some (ti_device_user_id item), tp_actionError := None\<rparr>)
            (api_removeTerminalAccount DEVICE_ID (ti_device_user_id item) (tp_operator s) (tp_acctAcknowledge s))
            (\<lambda>r s. case r of
                Inr res \<Rightarrow> Eff ReloadInventory
                  (Ret (s\<lparr>tp_actionSuccess := Some (removed_notice t res ''terminalManagement.accountRemoveSuccess''),
                          tp_acctConfirmItem := None, tp_acctAcknowledge := False, tp_busyItem := None\<rparr>))
              | Inl err \<Rightarrow>
                  Ret (s\<lparr>tp_actionError := Some (friendlyError t err),
                         tp_acctConfirmItem :=
                           (if is_api_code err ''ACTIVE_HUMAN_PROTECTION'' then tp_acctConfirmItem s else None),
                         tp_busyItem := None\<rparr>)))"

definition handleStartReenroll :: "dict \<Rightarrow> term_page \<Rightarrow> term_prog" where
  "handleStartReenroll t s =
     (case tp_reenrollItem s of
        None \<Rightarrow> Ret s
      | Some item \<Rightarrow>
          Call (s\<lparr>tp_busyItem := Some (ti_device_user_id item), tp_actionError := None,
                  tp_reenrollStatus := RePending\<rparr>)
            (api_startFingerprintReenroll (ti_device_user_id item) (tp_operator s))
            (\<lambda>r s. case r of
                Inr res \<Rightarrow>
                  Ret (s\<lparr>tp_pollRef := Some (tp_timers s),
                         tp_intervals := tp_intervals s @ [(tp_timers s, ti_device_user_id item)],
                         tp_timers := Suc (tp_timers s)\<rparr>)
              | Inl err \<Rightarrow>
                  Ret (s\<lparr>tp_actionError := Some (friendlyError t err), tp_reenrollStatus := ReIdle,
                         tp_busyItem := None, tp_reenrollItem := None\<rparr>)))"

text \<open>\<open>if (pollRef.current) window.clearInterval(pollRef.current)\<close>.\<close>

definition clear_poll :: "term_page \<Rightarrow> term_page" where
  "clear_poll s = s\<lparr>tp_intervals :=
     filter (\<lambda>(i, u). Some i \<noteq> tp_pollRef s) (tp_intervals s)\<rparr>"

definition poll_answer :: "dict \<Rightarrow> json \<Rightarrow> term_page \<Rightarrow> term_prog" where
  "poll_answer t status s =
     (let state = jprop status ''state'' in
      if state = JStr (js ''confirmed'')
      then Eff ReloadInventory
        (Ret ((clear_poll s)\<lparr>tp_reenrollStatus := ReConfirmed, tp_busyItem := None,
           tp_actionSuccess := Some (t ''terminalManagement.reenrollSuccess'')\<rparr>))
      else if state = JStr (js ''failed'')
      then Eff ReloadInventory
        (Ret ((clear_poll s)\<lparr>tp_reenrollStatus := ReFailed, tp_busyItem := None, tp_actionSuccess := None,
           tp_actionError := Some (t ''terminalManagement.reenrollFailed'')\<rparr>))
      else Ret s)"

text \<open>A failing poll, and an id the client cannot encode, leave everything as it is.\<close>

definition poll_reenroll :: "dict \<Rightarrow> nat \<Rightarrow> term_page \<Rightarrow> term_prog" where
  "poll_reenroll t i s =
     (case map_of (tp_intervals s) i of
        None \<Rightarrow> Ret s
      | Some deviceUserId \<Rightarrow>
          (case api_fingerprintReenrollStatus deviceUserId of
             None \<Rightarrow> Ret s
           | Some q \<Rightarrow>
               Call s q (\<lambda>r s. case r of Inr status \<Rightarrow> poll_answer t status s | Inl err \<Rightarrow> Ret s)))"

definition term_handle :: "dict \<Rightarrow> term_event \<Rightarrow> term_page \<Rightarrow> term_prog" where
  "term_handle t e s =
     (case e of
        TmRefresh \<Rightarrow> Eff ReloadInventory (Ret s)
      | TmReenroll item \<Rightarrow> Ret (s\<lparr>tp_reenrollItem := Some item, tp_reenrollStatus := ReIdle\<rparr>)
      | TmRemoveFingerprint item \<Rightarrow> Ret (s\<lparr>tp_fpConfirmItem := Some item\<rparr>)
      | TmRemoveAccount item \<Rightarrow> Ret (s\<lparr>tp_acctConfirmItem := Some item, tp_acctAcknowledge := False\<rparr>)
      | TmFingerprintConfirm \<Rightarrow> handleRemoveFingerprint t s
      | TmFingerprintCancel \<Rightarrow> Ret (s\<lparr>tp_fpConfirmItem := None\<rparr>)
      | TmAccountConfirm \<Rightarrow> handleRemoveAccount t s
      | TmAccountCancel \<Rightarrow> Ret (s\<lparr>tp_acctConfirmItem := None, tp_acctAcknowledge := False\<rparr>)
      | TmAcknowledge b \<Rightarrow> Ret (s\<lparr>tp_acctAcknowledge := b\<rparr>)
      | TmReenrollStart \<Rightarrow> handleStartReenroll t s
      | TmReenrollCancel \<Rightarrow>
          Ret (if tp_reenrollStatus s = ReIdle then s\<lparr>tp_reenrollItem := None\<rparr> else s)
      | TmPoll i \<Rightarrow> poll_reenroll t i s)"

section \<open>View\<close>

definition fingerprint_text :: "dict \<Rightarrow> terminal_inventory_item \<Rightarrow> jstr" where
  "fingerprint_text t item =
     (case ti_fingerprint_count item of
        None \<Rightarrow> t ''terminalManagement.fingerprintUnknown''
      | Some n \<Rightarrow> if n > 0 then t ''terminalManagement.fingerprintPresent''
                  else t ''terminalManagement.fingerprintAbsent'')"

definition human_status_text :: "dict \<Rightarrow> terminal_inventory_item \<Rightarrow> jstr" where
  "human_status_text t item =
     (case ti_human_active item of
        Some True \<Rightarrow> t ''terminalManagement.humanActive''
      | Some False \<Rightarrow> t ''terminalManagement.humanInactive''
      | None \<Rightarrow> t ''terminalManagement.humanUnlinked'')"

definition mapping_text :: "dict \<Rightarrow> terminal_inventory_item \<Rightarrow> jstr" where
  "mapping_text t item =
     (if ti_mapping_state item = js ''open'' then t ''terminalManagement.mappingOpen''
      else if ti_mapping_state item = js ''closed'' then t ''terminalManagement.mappingClosed''
      else t ''terminalManagement.mappingNone'')"

definition inventory_row :: "dict \<Rightarrow> term_page \<Rightarrow> terminal_inventory_item \<Rightarrow> term_event view" where
  "inventory_row t s item =
     (let off = \<not> canMutate (tp_auth s) \<or> tp_busyItem s = Some (ti_device_user_id item) in
      Box
       [Txt (nn (ti_human_name item) (t ''terminalManagement.humanUnlinked'')),
        Txt (ti_device_user_id item),
        Txt (human_status_text t item),
        Txt (fingerprint_text t item),
        Txt (mapping_text t item),
        Btn off (t ''terminalManagement.reenrollButton'') (TmReenroll item),
        Btn (off \<or> ti_fingerprint_count item = Some 0)
          (t ''terminalManagement.removeFingerprintButton'') (TmRemoveFingerprint item),
        Btn off (t ''terminalManagement.removeAccountButton'') (TmRemoveAccount item)])"

definition item_title :: "terminal_inventory_item option \<Rightarrow> jstr" where
  "item_title x = (case x of None \<Rightarrow> [] | Some item \<Rightarrow> nn (ti_human_name item) (ti_device_user_id item))"

definition item_busy :: "term_page \<Rightarrow> terminal_inventory_item option \<Rightarrow> bool" where
  "item_busy s x \<longleftrightarrow> tp_busyItem s = map_option ti_device_user_id x"

definition fingerprint_modal :: "dict \<Rightarrow> term_page \<Rightarrow> term_event view" where
  "fingerprint_modal t s =
     (let x = tp_fpConfirmItem s in
      ConfirmModal t (x \<noteq> None) (t ''terminalManagement.removeFingerprintConfirmTitle'') MDanger
        (t ''terminalManagement.removeFingerprintButton'') (item_busy s x)
        TmFingerprintConfirm TmFingerprintCancel
        [Txt (item_title x), Txt (t ''terminalManagement.removeFingerprintConfirmBody'')])"

text \<open>The account of an active person with an open mapping needs the acknowledgement.\<close>

definition needs_acknowledge :: "terminal_inventory_item option \<Rightarrow> bool" where
  "needs_acknowledge x \<longleftrightarrow>
     (\<exists>item. x = Some item \<and> ti_human_active item = Some True \<and> ti_mapping_state item = js ''open'')"

definition account_modal :: "dict \<Rightarrow> term_page \<Rightarrow> term_event view" where
  "account_modal t s =
     (let x = tp_acctConfirmItem s in
      ConfirmModal t (x \<noteq> None) (t ''terminalManagement.removeAccountConfirmTitle'') MDanger
        (t ''terminalManagement.removeAccountButton'') (item_busy s x)
        TmAccountConfirm TmAccountCancel
        [Txt (item_title x), Txt (t ''terminalManagement.removeAccountConfirmBody''),
         when_v (needs_acknowledge x)
           [Txt (t ''terminalManagement.removeAccountActiveWarning''),
            Check False (tp_acctAcknowledge s) TmAcknowledge,
            Txt (t ''terminalManagement.removeAccountAcknowledgeLabel'')]])"

definition reenroll_modal :: "dict \<Rightarrow> term_page \<Rightarrow> term_event view" where
  "reenroll_modal t s =
     (let x = tp_reenrollItem s; status = tp_reenrollStatus s in
      ConfirmModal t (x \<noteq> None) (t ''terminalManagement.reenrollConfirmTitle'') MPrimary
        (t ''terminalManagement.reenrollButton'') (status = RePending)
        TmReenrollStart TmReenrollCancel
        [Txt (item_title x),
         when_v (status = ReIdle)
           [Txt (t ''terminalManagement.reenrollConfirmBody''),
            Txt (t ''terminalManagement.reenrollCannotCancelNotice'')],
         when_v (status = RePending) [Txt (t ''terminalManagement.reenrollInProgress'')],
         when_v (status = ReConfirmed) [Txt (t ''terminalManagement.reenrollSuccess'')],
         when_v (status = ReFailed) [Txt (t ''terminalManagement.reenrollFailed'')]])"

definition inventory_table :: "dict \<Rightarrow> term_page \<Rightarrow> term_event view" where
  "inventory_table t s =
     (let inv = tp_inv s in
      if as_loading inv then Loading t
      else if truthy (as_error inv) then ErrorBanner t (nn (as_error inv) [])
      else if \<not> nn (map_option inv_device_reachable (as_data inv)) False
      then Toned Amber [Txt (t ''terminalManagement.deviceUnreachable'')]
      else Box
        (map Txt [t ''terminalManagement.nameColumn'', t ''terminalManagement.terminalIdColumn'',
           t ''terminalManagement.humanStatusColumn'', t ''terminalManagement.fingerprintStatusColumn'',
           t ''terminalManagement.mappingStatusColumn''] @
         map (inventory_row t s) (nn (map_option inv_items (as_data inv)) [])))"

definition TerminalManagement :: "dict \<Rightarrow> term_event view \<Rightarrow> term_page \<Rightarrow> term_event view" where
  "TerminalManagement t badge s =
     (if \<not> tp_isAdmin s
      then Box [Txt (t ''terminalManagement.title''), ErrorBanner t (t ''terminalManagement.viewerNoAccess'')]
      else Box
        [Txt (t ''terminalManagement.title''), Txt (t ''terminalManagement.subtitle''), badge,
         Btn False (t ''terminalManagement.refreshButton'') TmRefresh,
         when_v (truthy (tp_actionSuccess s)) [Toned Green [Txt (nn (tp_actionSuccess s) [])]],
         when_v (truthy (tp_actionError s)) [ErrorBanner t (nn (tp_actionError s) [])],
         inventory_table t s,
         fingerprint_modal t s,
         account_modal t s,
         reenroll_modal t s])"

section \<open>The component\<close>

definition term_init :: "term_page \<Rightarrow> bool" where
  "term_init s \<longleftrightarrow> tp_inv s = api_idle \<and> tp_actionError s = None \<and> tp_actionSuccess s = None \<and>
     tp_busyItem s = None \<and> tp_fpConfirmItem s = None \<and> tp_acctConfirmItem s = None \<and>
     \<not> tp_acctAcknowledge s \<and> tp_reenrollItem s = None \<and> tp_reenrollStatus s = ReIdle \<and>
     tp_pollRef s = None \<and> tp_intervals s = [] \<and> tp_timers s = 1"

definition term_enabled :: "dict \<Rightarrow> term_page \<Rightarrow> term_event \<Rightarrow> bool" where
  "term_enabled t s e \<longleftrightarrow>
     e \<in> offers (TerminalManagement t (Box []) s) \<or> (\<exists>i u. e = TmPoll i \<and> (i, u) \<in> set (tp_intervals s))"

definition term_env :: "term_page \<Rightarrow> term_page \<Rightarrow> bool" where
  "term_env s s' \<longleftrightarrow> (\<exists>a inv. s' = s\<lparr>tp_auth := a, tp_inv := inv\<rparr>)"

interpretation term_ui: async_ui term_init "term_enabled t" "term_handle t" term_env
  for t .

section \<open>Properties\<close>

lemma offers_inventory_row:
  "offers (inventory_row t s item) =
     (if canMutate (tp_auth s) \<and> tp_busyItem s \<noteq> Some (ti_device_user_id item)
      then {TmReenroll item, TmRemoveAccount item} \<union>
        (if ti_fingerprint_count item = Some 0 then {} else {TmRemoveFingerprint item})
      else {})"
  by (auto simp: inventory_row_def Let_def)

definition row_event :: "term_event \<Rightarrow> terminal_inventory_item \<Rightarrow> bool" where
  "row_event e item \<longleftrightarrow> e \<in> {TmReenroll item, TmRemoveAccount item, TmRemoveFingerprint item}"

lemma offers_inventory_table:
  "e \<in> offers (inventory_table t s) \<Longrightarrow> canMutate (tp_auth s) \<and>
     (\<exists>item \<in> set (nn (map_option inv_items (as_data (tp_inv s))) []). row_event e item)"
  by (auto simp: inventory_table_def Let_def Loading_def ErrorBanner_def offers_inventory_row row_event_def
      split: if_splits)

lemma offers_fingerprint_modal:
  "offers (fingerprint_modal t s) =
     (if tp_fpConfirmItem s \<noteq> None \<and> \<not> item_busy s (tp_fpConfirmItem s)
      then {TmFingerprintConfirm, TmFingerprintCancel} else {})"
  by (auto simp: fingerprint_modal_def Let_def)

lemma offers_account_modal:
  "offers (account_modal t s) =
     (if tp_acctConfirmItem s = None then {}
      else (if item_busy s (tp_acctConfirmItem s) then {} else {TmAccountConfirm, TmAccountCancel}) \<union>
        (if needs_acknowledge (tp_acctConfirmItem s) then {TmAcknowledge (\<not> tp_acctAcknowledge s)} else {}))"
  by (auto simp: account_modal_def Let_def)

lemma offers_reenroll_modal:
  "offers (reenroll_modal t s) =
     (if tp_reenrollItem s \<noteq> None \<and> tp_reenrollStatus s \<noteq> RePending
      then {TmReenrollStart, TmReenrollCancel} else {})"
  by (auto simp: reenroll_modal_def Let_def)

lemma offers_TerminalManagement:
  "offers (TerminalManagement t (Box []) s) =
     (if tp_isAdmin s then insert TmRefresh (offers (inventory_table t s) \<union> offers (fingerprint_modal t s) \<union>
        offers (account_modal t s) \<union> offers (reenroll_modal t s))
      else {})"
  by (auto simp: TerminalManagement_def ErrorBanner_def)

text \<open>The acknowledgement is only ever set while its warning is on the screen.\<close>

definition ack_inv :: "term_page \<Rightarrow> bool" where
  "ack_inv s \<longleftrightarrow>
     (tp_acctAcknowledge s \<longrightarrow> tp_acctConfirmItem s = None \<or> needs_acknowledge (tp_acctConfirmItem s))"

definition term_policy :: "term_page \<Rightarrow> call \<Rightarrow> bool" where
  "term_policy s q \<longleftrightarrow>
     (\<exists>i u. map_of (tp_intervals s) i = Some u \<and> api_fingerprintReenrollStatus u = Some q) \<or>
     (tp_isAdmin s \<and>
      ((\<exists>item. tp_fpConfirmItem s = Some item \<and>
          q = api_removeTerminalFingerprint DEVICE_ID (ti_device_user_id item) (tp_operator s) None) \<or>
       (\<exists>item. tp_acctConfirmItem s = Some item \<and>
          q = api_removeTerminalAccount DEVICE_ID (ti_device_user_id item) (tp_operator s) (tp_acctAcknowledge s) \<and>
          (tp_acctAcknowledge s \<longrightarrow> needs_acknowledge (Some item))) \<or>
       (\<exists>item. tp_reenrollItem s = Some item \<and>
          q = api_startFingerprintReenroll (ti_device_user_id item) (tp_operator s))))"

lemma term_upd_simps [simp]:
  "tp_isAdmin (s\<lparr>tp_busyItem := x\<rparr>) = tp_isAdmin s" "tp_isAdmin (s\<lparr>tp_actionError := y\<rparr>) = tp_isAdmin s"
  "tp_isAdmin (s\<lparr>tp_reenrollStatus := z\<rparr>) = tp_isAdmin s"
  "tp_operator (s\<lparr>tp_busyItem := x\<rparr>) = tp_operator s" "tp_operator (s\<lparr>tp_actionError := y\<rparr>) = tp_operator s"
  "tp_operator (s\<lparr>tp_reenrollStatus := z\<rparr>) = tp_operator s"
  by (simp_all add: tp_isAdmin_def tp_operator_def)

lemma removeFingerprint_safe:
  "ack_inv s \<Longrightarrow> tp_isAdmin s \<Longrightarrow> safe ack_inv term_policy (handleRemoveFingerprint t s)"
  by (auto simp: handleRemoveFingerprint_def ack_inv_def term_policy_def split: option.split sum.split)

lemma removeAccount_safe:
  "ack_inv s \<Longrightarrow> tp_isAdmin s \<Longrightarrow> safe ack_inv term_policy (handleRemoveAccount t s)"
  by (auto simp: handleRemoveAccount_def ack_inv_def term_policy_def split: option.split sum.split)

lemma startReenroll_safe:
  "ack_inv s \<Longrightarrow> tp_isAdmin s \<Longrightarrow> safe ack_inv term_policy (handleStartReenroll t s)"
  by (auto simp: handleStartReenroll_def ack_inv_def term_policy_def split: option.split sum.split)

lemma poll_safe: "ack_inv s \<Longrightarrow> safe ack_inv term_policy (poll_reenroll t i s)"
  by (auto simp: poll_reenroll_def poll_answer_def clear_poll_def ack_inv_def term_policy_def Let_def
      split: option.split sum.split)

lemma term_handle_safe:
  assumes inv: "ack_inv s" and en: "term_enabled t s e"
  shows "safe ack_inv term_policy (term_handle t e s)"
proof (cases "\<exists>i. e = TmPoll i")
  case True
  with inv show ?thesis by (auto simp: term_handle_def poll_safe)
next
  case False
  with en have off: "e \<in> offers (TerminalManagement t (Box []) s)" by (auto simp: term_enabled_def)
  then have adm: "tp_isAdmin s" by (auto simp: offers_TerminalManagement split: if_splits)
  have "needs_acknowledge (tp_acctConfirmItem s)" if "e = TmAcknowledge b" for b
    using off that
    by (auto simp: offers_TerminalManagement offers_fingerprint_modal offers_account_modal
        offers_reenroll_modal row_event_def dest!: offers_inventory_table split: if_splits)
  then show ?thesis using inv adm False
    by (cases e)
      (simp_all add: term_handle_def removeFingerprint_safe removeAccount_safe startReenroll_safe,
       simp_all add: ack_inv_def)
qed

text \<open>C2: Nothing is changed on the scanner without its own dialog: every removal of a fingerprint or of
  an account and every re-enrollment the page sends was started by an ADMIN from the dialog open
  for exactly that account, under the signed-in operator's name. The removal of an account
  carries the state of the acknowledgement box, and it carries a given acknowledgement only for
  an active person with an open mapping, whose warning is then in the dialog; a removal without
  it is sent as well, and refusing it for such a person is left to the server. The only other
  requests are polls of the status of an account whose re-enrollment timer is running.\<close>

theorem terminal_requests_confirmed:
  assumes "term_ui.ui_reach t c" and "Inl (s, q) \<in> set (log c)"
  shows "term_policy s q"
proof -
  have "conf_ok ack_inv term_policy c"
  proof (rule term_ui.ui_invariant[OF _ _ _ assms(1)])
    show "ack_inv s" if "term_init s" for s using that by (simp add: term_init_def ack_inv_def)
    show "ack_inv s'" if "ack_inv s" "term_env s s'" for s s' using that by (auto simp: term_env_def ack_inv_def)
  qed (rule term_handle_safe)
  with assms(2) show ?thesis by (simp add: conf_ok_def)
qed

definition sample_item :: terminal_inventory_item where
  "sample_item = \<lparr>ti_device_user_id = js ''101'', ti_fingerprint_count = Some 1, ti_human_active = Some True,
     ti_human_name = None, ti_mapping_state = js ''open'', ti_name = None, ti_privilege = None, ti_uid = None\<rparr>"

definition term_demo :: "reenroll_status \<Rightarrow> (nat \<times> jstr) list \<Rightarrow> jstr option \<Rightarrow> term_page" where
  "term_demo status ints busy =
     \<lparr>tp_auth = auth_of (initial_provider None\<lparr>pv_me := Some admin_me\<rparr>),
      tp_inv = \<lparr>as_data = Some \<lparr>inv_device_reachable = True, inv_items = [sample_item]\<rparr>, as_loading = False,
        as_error = None, as_run = 1, as_mounted = True\<rparr>,
      tp_actionError = None, tp_actionSuccess = None, tp_busyItem = busy, tp_fpConfirmItem = None,
      tp_acctConfirmItem = None, tp_acctAcknowledge = False, tp_reenrollItem = Some sample_item,
      tp_reenrollStatus = status, tp_pollRef = (if ints = [] then None else Some 1), tp_intervals = ints,
      tp_timers = (if ints = [] then 1 else 2)\<rparr>"

lemma term_demo_admin: "tp_isAdmin (term_demo rst ints b)" "tp_operator (term_demo rst ints b) = js ''v''"
  "canMutate (tp_auth (term_demo rst ints b))"
  by (simp_all add: term_demo_def tp_isAdmin_def tp_operator_def auth_of_def Let_def admin_me_def
      viewer_me_def WRITE_CAPABLE_ROLES_def)

text \<open>The dialog is open for the only account of the inventory.\<close>

lemma term_demo_reach:
  "\<exists>c. term_ui.ui_reach t c \<and> st c = term_demo ReIdle [] None \<and> pend c = [] \<and> log c = []"
proof -
  let ?s1 = "(term_demo ReIdle [] None)\<lparr>tp_reenrollItem := None\<rparr>"
  let ?s0 = "?s1\<lparr>tp_inv := api_idle\<rparr>"
  have r0: "term_ui.ui_reach t (start ?s0)"
    by (rule term_ui.initial) (simp add: term_init_def term_demo_def)
  have "term_env ?s0 ?s1" unfolding term_env_def
    by (rule exI[of _ "tp_auth ?s1"], rule exI[of _ "tp_inv ?s1"]) (simp add: term_demo_def)
  with term_ui.reach_env[OF r0] obtain c1 where c1: "term_ui.ui_reach t c1" "st c1 = ?s1" "pend c1 = []"
    "log c1 = []" by auto
  have "term_handle t (TmReenroll sample_item) ?s1 = Ret (term_demo ReIdle [] None)"
    by (simp add: term_handle_def term_demo_def)
  moreover have "term_enabled t ?s1 (TmReenroll sample_item)"
    using term_demo_admin[of ReIdle "[]" None]
    by (simp add: term_enabled_def offers_TerminalManagement inventory_table_def offers_inventory_row
        tp_isAdmin_def) (simp add: term_demo_def offers_inventory_row auth_of_def)
  ultimately show ?thesis using term_ui.reach_ret[OF c1(1,2)] c1 by auto
qed

lemma term_demo_start:
  "\<exists>k. term_handle t TmReenrollStart (term_demo ReIdle [] None) =
     Call (term_demo RePending [] (Some (js ''101''))) (api_startFingerprintReenroll (js ''101'') (js ''v'')) k \<and>
     k (Inr JNull) (term_demo RePending [] (Some (js ''101''))) =
       Ret (term_demo RePending [(1, js ''101'')] (Some (js ''101'')))"
proof -
  have item: "tp_reenrollItem (term_demo ReIdle [] None) = Some sample_item"
    "ti_device_user_id sample_item = js ''101''" by (simp_all add: term_demo_def sample_item_def)
  have upd: "(term_demo ReIdle [] None)\<lparr>tp_busyItem := Some (js ''101''), tp_actionError := None,
      tp_reenrollStatus := RePending\<rparr> = term_demo RePending [] (Some (js ''101''))"
    by (simp add: term_demo_def)
  show ?thesis
    by (simp add: term_handle_def handleStartReenroll_def item upd term_demo_admin)
      (simp add: term_demo_def)
qed

text \<open>C39: The dialog of a finished re-enrollment does not close by its Cancel button: once a poll
  reported that the finger was enrolled, the dialog stays open, it offers just two buttons,
  Cancel changes nothing, and the other one sends the re-enrollment again. Such a configuration
  is reachable with no request in flight and no timer left that could change it.\<close>

theorem reenroll_dialog_stuck:
  "\<exists>c item. term_ui.ui_reach t c \<and> tp_reenrollItem (st c) = Some item \<and>
     tp_reenrollStatus (st c) = ReConfirmed \<and> pend c = [] \<and> tp_intervals (st c) = [] \<and>
     offers (reenroll_modal t (st c)) = {TmReenrollStart, TmReenrollCancel} \<and>
     term_handle t TmReenrollCancel (st c) = Ret (st c) \<and>
     (\<exists>s k. term_handle t TmReenrollStart (st c) =
        Call s (api_startFingerprintReenroll (ti_device_user_id item) (tp_operator (st c))) k)"
proof -
  obtain c0 where c0: "term_ui.ui_reach t c0" "st c0 = term_demo ReIdle [] None" "pend c0 = []"
    using term_demo_reach by blast
  let ?u = "Some (js ''101'')"
  obtain k where k: "term_handle t TmReenrollStart (term_demo ReIdle [] None) =
      Call (term_demo RePending [] ?u) (api_startFingerprintReenroll (js ''101'') (js ''v'')) k"
    "k (Inr JNull) (term_demo RePending [] ?u) = Ret (term_demo RePending [(1, js ''101'')] ?u)"
    using term_demo_start[of t] by blast
  have "term_enabled t (term_demo ReIdle [] None) TmReenrollStart"
    by (simp add: term_enabled_def offers_TerminalManagement offers_reenroll_modal term_demo_admin)
      (simp add: term_demo_def)
  from term_ui.reach_call[OF c0(1,2) this k(1)] c0
  obtain c1 q where c1: "term_ui.ui_reach t c1" "st c1 = term_demo RePending [] ?u" "pend c1 = [(q, k)]"
    by auto
  have "0 < length (pend c1)" by (simp add: c1(3))
  then have r2: "term_ui.ui_reach t (resume 0 (Inr JNull) c1)"
    using c1(1) by (intro term_ui.reach_outcome)
  have s2: "st (resume 0 (Inr JNull) c1) = term_demo RePending [(1, js ''101'')] ?u"
    "pend (resume 0 (Inr JNull) c1) = []"
    by (simp_all add: resume_def c1 k(2))
  obtain pq where pq: "api_fingerprintReenrollStatus (js ''101'') = Some pq"
    by (simp add: api_fingerprintReenrollStatus_def encodeURIComponent_def js_eval of_char_def is_high_def
        is_low_def)
  let ?yes = "JObj [(''state'', JStr (js ''confirmed''))]"
  let ?done = "(term_demo ReConfirmed [] None)\<lparr>tp_pollRef := Some 1, tp_timers := 2,
      tp_actionSuccess := Some (t ''terminalManagement.reenrollSuccess'')\<rparr>"
  obtain k' where k': "term_handle t (TmPoll 1) (term_demo RePending [(1, js ''101'')] ?u) =
      Call (term_demo RePending [(1, js ''101'')] ?u) pq k'"
    "k' (Inr ?yes) (term_demo RePending [(1, js ''101'')] ?u) = Eff ReloadInventory (Ret ?done)"
    by (simp add: term_handle_def poll_reenroll_def poll_answer_def clear_poll_def pq term_demo_def)
  have "term_enabled t (term_demo RePending [(1, js ''101'')] ?u) (TmPoll 1)"
    by (simp add: term_enabled_def) (simp add: term_demo_def)
  from term_ui.reach_call[OF r2 s2(1) this k'(1)] s2
  obtain c3 q' where c3: "term_ui.ui_reach t c3" "st c3 = term_demo RePending [(1, js ''101'')] ?u"
    "pend c3 = [(q', k')]" by auto
  have "0 < length (pend c3)" by (simp add: c3(3))
  then have r4: "term_ui.ui_reach t (resume 0 (Inr ?yes) c3)"
    using c3(1) by (intro term_ui.reach_outcome)
  have s4: "st (resume 0 (Inr ?yes) c3) = ?done" "pend (resume 0 (Inr ?yes) c3) = []"
    by (simp_all add: resume_def c3 k'(2) del: One_nat_def)
  define fin where "fin = ?done"
  have d: "tp_reenrollItem fin = Some sample_item" "tp_reenrollStatus fin = ReConfirmed"
    "tp_intervals fin = []" by (simp_all add: fin_def term_demo_def)
  have s5: "st (resume 0 (Inr ?yes) c3) = fin" using s4(1) by (simp only: fin_def)
  show ?thesis
    by (rule exI[of _ "resume 0 (Inr ?yes) c3"], rule exI[of _ sample_item])
      (simp add: r4 s5 s4(2) d offers_reenroll_modal term_handle_def handleStartReenroll_def)
qed

theorem terminal_requests_confirmed_witness:
  "term_policy (term_demo RePending [] (Some (js ''101'')))
     (api_startFingerprintReenroll (js ''101'') (js ''v''))"
proof -
  let ?t = "\<lambda>k. js k"
  obtain c0 where c0: "term_ui.ui_reach ?t c0" "st c0 = term_demo ReIdle [] None"
    using term_demo_reach[of ?t] by blast
  obtain k where k: "term_handle ?t TmReenrollStart (term_demo ReIdle [] None) =
      Call (term_demo RePending [] (Some (js ''101''))) (api_startFingerprintReenroll (js ''101'') (js ''v'')) k"
    using term_demo_start[of ?t] by blast
  have "term_enabled ?t (term_demo ReIdle [] None) TmReenrollStart"
    by (simp add: term_enabled_def offers_TerminalManagement offers_reenroll_modal term_demo_admin)
      (simp add: term_demo_def)
  from term_ui.reach_call[OF c0 this k] obtain c1 where "term_ui.ui_reach ?t c1"
    "Inl (term_demo RePending [] (Some (js ''101'')), api_startFingerprintReenroll (js ''101'') (js ''v''))
       \<in> set (log c1)" by fastforce
  then show ?thesis by (rule terminal_requests_confirmed)
qed

text \<open>The errors of this page are dictionary copy: whatever the scanner commands failed
  with, the operator reads an entry of the dictionary, and a scanner out of reach, a protected
  active person and a closed write window each have their own.\<close>

theorem terminal_error_copy:
  "friendlyError t err \<in> t ` (set error_copy_keys \<union>
     {''terminalManagement.deviceUnreachable'', ''terminalManagement.removeAccountActiveWarning''}) \<and>
   (is_api_code err ''DEVICE_UNAVAILABLE'' \<longrightarrow>
      friendlyError t err = t ''terminalManagement.deviceUnreachable'') \<and>
   (is_api_code err ''ACTIVE_HUMAN_PROTECTION'' \<longrightarrow>
      friendlyError t err = t ''terminalManagement.removeAccountActiveWarning'')"
proof -
  define K where "K = t ` (set error_copy_keys \<union>
     {''terminalManagement.deviceUnreachable'', ''terminalManagement.removeAccountActiveWarning''})"
  have key: "t k \<in> K" if "k \<in> set error_copy_keys" for k using that by (simp add: K_def)
  have "friendlyApiError err t \<in> K" using friendlyApiError_keys[of err t] by (auto simp: K_def)
  moreover have "t ''enrollment.writeSessionLockedBody'' \<in> K" "t ''enrollment.writeSessionExpiredMidWorkflow'' \<in> K"
    by (rule key, simp add: error_copy_keys_def)+
  moreover have "t ''terminalManagement.deviceUnreachable'' \<in> K"
    "t ''terminalManagement.removeAccountActiveWarning'' \<in> K" by (simp_all add: K_def)
  ultimately have "friendlyError t err \<in> K" by (simp add: friendlyError_def)
  moreover have "\<not> is_api_code err ''DEVICE_UNAVAILABLE''" if "is_api_code err ''ACTIVE_HUMAN_PROTECTION''"
    using that by (cases err) auto
  ultimately show ?thesis unfolding K_def by (simp add: friendlyError_def)
qed

theorem terminal_error_copy_witness:
  "friendlyError (\<lambda>k. js k) (ApiClientError 503 (js ''DEVICE_UNAVAILABLE'') []) =
     js ''terminalManagement.deviceUnreachable''"
  using terminal_error_copy[of "\<lambda>k. js k" "ApiClientError 503 (js ''DEVICE_UNAVAILABLE'') []"] by simp

end
