(* ===== verification/Mappings.thy ===== *)
theory Mappings
  imports Enrollment_Panes
begin

text \<open>
  The page \<open>frontend/src/pages/Mappings.tsx\<close>: the current and the historical identity
  mappings, and the ADMIN's panel that confirms an eligible enrollment, with its two stages
  (the request that checks the evidence and the confirmation dialog).
\<close>

section \<open>The lists\<close>

definition fmt :: "jstr \<Rightarrow> jstr" where
  "fmt stamp = js_slice 0 19 (js_replace stamp (js ''T'') (js '' ''))"

record mappings_page =
  mp_auth :: auth
  mp_query :: "mapping page api_state"

definition mp_items :: "mappings_page \<Rightarrow> mapping list" where
  "mp_items s = nn (map_option pg_items (as_data (mp_query s))) []"

definition currentItems :: "mappings_page \<Rightarrow> mapping list" where
  "currentItems s = filter m_is_current (mp_items s)"

definition historyItems :: "mappings_page \<Rightarrow> mapping list" where
  "historyItems s = filter (\<lambda>m. \<not> m_is_current m) (mp_items s)"

definition mapping_user :: "mapping \<Rightarrow> jstr" where
  "mapping_user m = nn (m_device_user_id m) (js_num (m_device_user_pk m))"

definition mapping_name :: "mapping \<Rightarrow> jstr" where
  "mapping_name m = nn (m_employee_name m) (js_slice 0 8 (m_employee_id m))"

definition current_row :: "lang \<Rightarrow> dict \<Rightarrow> mapping \<Rightarrow> 'e view" where
  "current_row l t m =
     Box
      [Txt (js ''#'' @ js_num (m_mapping_id m)), Txt (mapping_name m), Txt (mapping_user m),
       Toned Green [Txt (t ''mappings.activeMapping'')],
       Txt (fmt (m_valid_from m)),
       Txt (if truthy (m_verification_method m)
            then enumLabel verificationMethodLabels (the (m_verification_method m)) l else [0x2014]),
       Txt (nn (m_verified_by m) [])]"

definition history_row :: "dict \<Rightarrow> mapping \<Rightarrow> 'e view" where
  "history_row t m =
     Box
      [Txt (js ''#'' @ js_num (m_mapping_id m)), Txt (mapping_name m), Txt (mapping_user m),
       Toned Neutral
         [Txt (if m_mapping_lifecycle_state m = js ''REMOVED_FROM_TERMINAL''
               then t ''mappings.removedFromTerminalState'' else t ''mappings.endedState'')],
       Txt (fmt (m_valid_from m)),
       Txt (if truthy (m_valid_to m) then fmt (the (m_valid_to m)) else [0x2014])]"

definition section_title :: "dict \<Rightarrow> string \<Rightarrow> nat \<Rightarrow> 'e view" where
  "section_title t k n = Txt (t k @ js '' ('' @ js_num (int n) @ js '')'')"

definition current_table :: "lang \<Rightarrow> dict \<Rightarrow> mappings_page \<Rightarrow> 'e view" where
  "current_table l t s =
     Box
      [section_title t ''mappings.currentSectionTitle'' (length (currentItems s)),
       (if currentItems s = [] then Txt (t ''mappings.currentSectionEmpty'')
        else Box
         (map Txt [t ''mappings.mapIdColumn'', t ''personnel.thaiName'', t ''attendance.terminalIdColumn'',
            t ''common.status'', t ''mappings.startedLabel'' @ js '' (UTC)'',
            t ''mappings.verificationMethodColumn'', t ''mappings.verifiedBy''] @
          map (current_row l t) (currentItems s)))]"

definition history_table :: "dict \<Rightarrow> mappings_page \<Rightarrow> 'e view" where
  "history_table t s =
     Box
      [section_title t ''mappings.historySectionTitle'' (length (historyItems s)),
       (if historyItems s = [] then Txt (t ''mappings.historySectionEmpty'')
        else Box
         (map Txt [t ''mappings.mapIdColumn'', t ''personnel.thaiName'', t ''mappings.formerTerminalIdLabel'',
            t ''common.status'', t ''mappings.startedLabel'' @ js '' (UTC)'',
            t ''mappings.endedLabel'' @ js '' (UTC)''] @
          map (history_row t) (historyItems s)))]"

definition Mappings :: "lang \<Rightarrow> dict \<Rightarrow> 'e view \<Rightarrow> mappings_page \<Rightarrow> 'e view" where
  "Mappings l t create_panel s =
     (let q = mp_query s in
      Box
       [Txt (t ''mappings.title''), Txt (t ''mappings.subtitle''),
        Txt (case as_data q of
               None \<Rightarrow> t ''common.loading''
             | Some p \<Rightarrow> js_num (int (length (currentItems s))) @ js '' '' @ t ''mappings.verifiedMappings''),
        when_v (isAdmin (mp_auth s)) [create_panel],
        (if as_loading q then Loading t
         else if truthy (as_error q) then ErrorBanner t (nn (as_error q) [])
         else Box
          [current_table l t s, history_table t s, Txt (t ''mappings.temporalFooterNote'')])])"

section \<open>CreateMappingPanel\<close>

record create_mapping =
  cm_auth :: auth
  cm_elig :: "mapping_eligibility_item list api_state"
  cm_selectedId :: "int option"
  cm_verifiedBy :: jstr
  cm_note :: jstr
  cm_busy :: bool
  cm_error :: "jstr option"
  cm_confirmOpen :: bool

datatype create_event =
    CmSelect jstr | CmVerifiedBy jstr | CmNote jstr | CmRequest | CmConfirm | CmCancel

datatype create_effect = ReloadEligible | OnCreated

type_synonym create_prog = "(create_mapping, call, reply, create_effect) prog"

definition cm_items :: "create_mapping \<Rightarrow> mapping_eligibility_item list" where
  "cm_items s = nn (as_data (cm_elig s)) []"

definition cm_item :: "create_mapping \<Rightarrow> mapping_eligibility_item option" where
  "cm_item s =
     (case cm_selectedId s of None \<Rightarrow> None
      | Some i \<Rightarrow> List.find (\<lambda>e. mi_enrollment_id e = i) (cm_items s))"

text \<open>The evidence the server needs: the account and the controlled scan are both known.\<close>

definition evidence_complete :: "mapping_eligibility_item \<Rightarrow> bool" where
  "evidence_complete item \<longleftrightarrow> mi_device_user_pk item \<noteq> None \<and> mi_controlled_attendance_id item \<noteq> None"

definition requestSubmit :: "dict \<Rightarrow> create_mapping \<Rightarrow> create_mapping" where
  "requestSubmit t s =
     (case cm_item s of
        None \<Rightarrow> s\<lparr>cm_error := Some (t ''mappings.selectAndFillRequired'')\<rparr>
      | Some item \<Rightarrow>
          if js_trim (cm_verifiedBy s) = [] \<or> js_trim (cm_note s) = []
          then s\<lparr>cm_error := Some (t ''mappings.selectAndFillRequired'')\<rparr>
          else if \<not> evidence_complete item
          then s\<lparr>cm_error := Some (t ''mappings.evidenceIncompleteBody'')\<rparr>
          else s\<lparr>cm_error := None, cm_confirmOpen := True\<rparr>)"

definition mapping_error :: "dict \<Rightarrow> js_error \<Rightarrow> jstr" where
  "mapping_error t e =
     (if api_code_in e [''WRITE_DISABLED'', ''WRITE_SESSION_REQUIRED'']
      then t ''enrollment.writeSessionLockedBody''
      else if is_api_code e ''WRITE_SESSION_EXPIRED''
      then t ''enrollment.writeSessionExpiredMidWorkflow''
      else if is_api_code e ''VALIDATION_ERROR'' then t ''mappings.evidenceIncompleteBody''
      else if is_api_code e ''MAPPING_CONFLICT''
      then (let m = js_lower (error_message e) in
            if js_includes m (js ''already'') \<or> js_includes m (js ''verified'')
            then t ''mappings.alreadyMappedBody'' else t ''mappings.mappingConflictBody'')
      else friendlyApiError e t)"

definition confirmSubmit :: "dict \<Rightarrow> create_mapping \<Rightarrow> create_prog" where
  "confirmSubmit t s =
     (case cm_item s of
        None \<Rightarrow> Ret s
      | Some item \<Rightarrow>
          if \<not> evidence_complete item then Ret s
          else Call (s\<lparr>cm_busy := True, cm_error := None\<rparr>)
            (createMapping_call (mi_enrollment_id item) (js_trim (cm_verifiedBy s)) (js_trim (cm_note s)))
            (\<lambda>r s. case r of
                Inr res \<Rightarrow> effs [ReloadEligible, OnCreated]
                  (Ret (s\<lparr>cm_selectedId := None, cm_note := [], cm_confirmOpen := False, cm_busy := False\<rparr>))
              | Inl e \<Rightarrow> Ret (s\<lparr>cm_confirmOpen := False, cm_error := Some (mapping_error t e),
                               cm_busy := False\<rparr>)))"

definition create_handle :: "dict \<Rightarrow> create_event \<Rightarrow> create_mapping \<Rightarrow> create_prog" where
  "create_handle t e s =
     (case e of
        CmSelect v \<Rightarrow> Ret (s\<lparr>cm_selectedId := (if v = [] then None else js_Number v), cm_error := None\<rparr>)
      | CmVerifiedBy x \<Rightarrow> Ret (s\<lparr>cm_verifiedBy := x\<rparr>)
      | CmNote x \<Rightarrow> Ret (s\<lparr>cm_note := x\<rparr>)
      | CmRequest \<Rightarrow> Ret (requestSubmit t s)
      | CmConfirm \<Rightarrow> confirmSubmit t s
      | CmCancel \<Rightarrow> Ret (s\<lparr>cm_confirmOpen := False\<rparr>))"

definition eligible_label :: "dict \<Rightarrow> mapping_eligibility_item \<Rightarrow> jstr" where
  "eligible_label t e =
     nn (mi_employee_name e) (js_slice 0 8 (mi_employee_id e)) @ [32, 0xB7, 32] @
     t ''attendance.terminalIdColumn'' @ js '' '' @ mi_reserved_device_user_id e"

definition scan_time_text :: "mapping_eligibility_item \<Rightarrow> jstr" where
  "scan_time_text item =
     (if truthy (mi_controlled_scan_time item) then fmt (the (mi_controlled_scan_time item)) else [0x2014])"

definition create_form :: "dict \<Rightarrow> create_mapping \<Rightarrow> create_event view" where
  "create_form t s =
     (let off = \<not> canMutate (cm_auth s) \<or> cm_busy s in
      Box
       [Txt (t ''mappings.eligibleEnrollmentLabel''),
        Select off (case cm_selectedId s of None \<Rightarrow> [] | Some i \<Rightarrow> js_num i)
          (([], t ''mappings.selectEligibleSessionPlaceholder'') #
           map (\<lambda>e. (js_num (mi_enrollment_id e), eligible_label t e)) (cm_items s)) CmSelect,
        Txt (t ''mappings.verifiedBy''), Field off (cm_verifiedBy s) CmVerifiedBy,
        Txt (t ''mappings.verificationNoteLabel''), Field off (cm_note s) CmNote,
        (case cm_item s of
           None \<Rightarrow> Box []
         | Some item \<Rightarrow> Box
            [Txt (t ''mappings.humanFieldLabel''), Txt (nn (mi_employee_name item) []),
             Txt (t ''mappings.terminalAccountFieldLabel''),
             Txt (nn (mi_device_user_id item) [] @ [32, 0xB7, 32] @ nn (mi_device_name item) []),
             Txt (t ''mappings.controlledScanEvidenceLabel''), Txt (scan_time_text item)]),
        Btn (off \<or> cm_selectedId s = None \<or> cm_selectedId s = Some 0)
          (if cm_busy s then t ''common.saving'' else t ''mappings.createMappingButton'') CmRequest])"

definition confirm_dialog :: "dict \<Rightarrow> create_mapping \<Rightarrow> create_event view" where
  "confirm_dialog t s =
     (case cm_item s of
        None \<Rightarrow> Box []
      | Some item \<Rightarrow>
          ConfirmModal t (cm_confirmOpen s) (t ''mappings.confirmTitle'') MPrimary
            (t ''mappings.createMappingButton'') (cm_busy s) CmConfirm CmCancel
            [Txt (t ''mappings.confirmPersonLabel''), Txt (nn (mi_employee_name item) [0x2014]),
             Txt (t ''mappings.confirmTerminalLabel''), Txt (nn (mi_device_name item) [0x2014]),
             Txt (t ''mappings.confirmScanLabel''), Txt (scan_time_text item),
             Txt (t ''mappings.confirmWarning'')])"

definition CreateMappingPanel :: "dict \<Rightarrow> create_mapping \<Rightarrow> create_event view" where
  "CreateMappingPanel t s =
     Box
      [Txt (t ''mappings.adminAuthorityTitle''), Txt (t ''mappings.adminAuthorityDesc''),
       Txt (t ''enrollment.badgeAdminAction''),
       when_v (\<not> canMutate (cm_auth s)) [Txt (t ''enrollment.writeSessionLockedBody'')],
       when_v (truthy (cm_error s)) [ErrorBanner t (nn (cm_error s) [])],
       (if as_loading (cm_elig s) then Loading t
        else if truthy (as_error (cm_elig s)) then ErrorBanner t (nn (as_error (cm_elig s)) [])
        else if as_data (cm_elig s) = Some [] then Txt (t ''mappings.noEligibleEnrollments'')
        else create_form t s),
       confirm_dialog t s]"

definition create_init :: "create_mapping \<Rightarrow> bool" where
  "create_init s \<longleftrightarrow> cm_elig s = api_idle \<and> cm_selectedId s = None \<and> cm_note s = [] \<and>
     cm_verifiedBy s = nn (map_option me_username (au_me (cm_auth s))) [] \<and> \<not> cm_busy s \<and>
     cm_error s = None \<and> \<not> cm_confirmOpen s"

definition create_env :: "create_mapping \<Rightarrow> create_mapping \<Rightarrow> bool" where
  "create_env s s' \<longleftrightarrow> (\<exists>a q. s' = s\<lparr>cm_auth := a, cm_elig := q\<rparr>)"

section \<open>Properties\<close>

lemma offers_confirm_dialog:
  "offers (confirm_dialog t s) =
     (if cm_item s \<noteq> None \<and> cm_confirmOpen s \<and> \<not> cm_busy s then {CmConfirm, CmCancel} else {})"
  by (auto simp: confirm_dialog_def split: option.splits)

lemma offers_create_form:
  "e \<in> offers (create_form t s) \<Longrightarrow> canMutate (cm_auth s) \<and> \<not> cm_busy s \<and> e \<noteq> CmConfirm \<and> e \<noteq> CmCancel"
  by (auto simp: create_form_def Let_def split: if_splits option.splits)

lemma offers_create:
  "e \<in> offers (CreateMappingPanel t s) \<Longrightarrow> \<not> cm_busy s \<and>
     (e \<in> offers (create_form t s) \<or> (e \<in> {CmConfirm, CmCancel} \<and> cm_item s \<noteq> None \<and> cm_confirmOpen s))"
  by (auto simp: CreateMappingPanel_def offers_confirm_dialog Loading_def ErrorBanner_def
      dest: offers_create_form split: if_splits)

lemma requestSubmit_busy [simp]: "cm_busy (requestSubmit t s) = cm_busy s"
  by (simp add: requestSubmit_def split: option.split)

lemma create_handle_settles: "\<not> cm_busy s \<Longrightarrow> settles cm_busy (create_handle t e s)"
  by (auto simp: create_handle_def confirmSubmit_def split: create_event.splits option.splits sum.splits)

interpretation create_ui: single_flight create_init "\<lambda>s e. e \<in> offers (CreateMappingPanel t s)"
    "create_handle t" create_env cm_busy
  for t
  by unfold_locales
    (auto simp: create_init_def create_env_def create_handle_settles dest: offers_create)

text \<open>The dialog opens only on complete evidence: it is shown after a request only for an
  eligible enrollment whose scanner account and controlled scan are both resolved, with a
  verifier and a note that are not blank; otherwise an explanation is shown and nothing else
  changes.\<close>

theorem dialog_needs_evidence:
  "(cm_confirmOpen (requestSubmit t s) \<and> \<not> cm_confirmOpen s \<longleftrightarrow>
      \<not> cm_confirmOpen s \<and> (\<exists>item. cm_item s = Some item \<and> evidence_complete item) \<and>
      js_trim (cm_verifiedBy s) \<noteq> [] \<and> js_trim (cm_note s) \<noteq> []) \<and>
   (cm_error (requestSubmit t s) = None \<or> cm_confirmOpen (requestSubmit t s) = cm_confirmOpen s) \<and>
   cm_selectedId (requestSubmit t s) = cm_selectedId s \<and> cm_note (requestSubmit t s) = cm_note s"
  by (auto simp: requestSubmit_def split: option.splits)

text \<open>C3: The panel confirms exactly the enrollment whose evidence is on the screen: every
  mapping requested is for the selected eligible enrollment, with complete evidence, from an
  open dialog; never two at a time, and a failure always closes the dialog and shows dictionary
  copy.\<close>

theorem mapping_requests:
  assumes "create_ui.ui_reach t c"
  shows "(\<forall>s q. Inl (s, q) \<in> set (log c) \<longrightarrow>
            (\<exists>item. cm_item s = Some item \<and> item \<in> set (cm_items s) \<and> evidence_complete item \<and>
               cm_selectedId s = Some (mi_enrollment_id item) \<and> cm_confirmOpen s \<and>
               q = createMapping_call (mi_enrollment_id item) (js_trim (cm_verifiedBy s)) (js_trim (cm_note s)))) \<and>
         length (pend c) = (if cm_busy (st c) then 1 else 0) \<and>
         (\<forall>q k r rs s. (q, k) \<in> set (pend c) \<longrightarrow> answer (k r (st c)) rs = Some s \<longrightarrow> \<not> cm_busy s)"
proof -
  let ?Q = "\<lambda>s q. \<exists>item. cm_item s = Some item \<and> item \<in> set (cm_items s) \<and> evidence_complete item \<and>
               cm_selectedId s = Some (mi_enrollment_id item) \<and> cm_confirmOpen s \<and>
               q = createMapping_call (mi_enrollment_id item) (js_trim (cm_verifiedBy s)) (js_trim (cm_note s))"
  have sel: "cm_selectedId s = Some (mi_enrollment_id item) \<and> item \<in> set (cm_items s)"
    if "cm_item s = Some item" for s item
    using that by (auto simp: cm_item_def find_Some_iff split: option.splits)
  have upd: "cm_item (s\<lparr>cm_busy := b, cm_error := x\<rparr>) = cm_item s"
    "cm_items (s\<lparr>cm_busy := b, cm_error := x\<rparr>) = cm_items s" for s b x
    by (simp_all add: cm_item_def cm_items_def split: option.split)
  have "conf_ok (\<lambda>s. True) ?Q c"
  proof (rule create_ui.ui_invariant[OF _ _ _ assms])
    fix s e
    assume "e \<in> offers (CreateMappingPanel t s)"
    then have "e = CmConfirm \<longrightarrow> cm_confirmOpen s"
      using offers_create[of e t s] offers_create_form[of e t s] by blast
    then show "safe (\<lambda>s. True) ?Q (create_handle t e s)"
      using sel[of s]
      by (cases e) (auto simp: create_handle_def confirmSubmit_def upd split: option.splits sum.splits)
  qed simp_all
  then show ?thesis
    using create_ui.one_in_flight[OF assms] create_ui.ends_idle[OF assms] unfolding conf_ok_def by blast
qed

definition sample_elig :: mapping_eligibility_item where
  "sample_elig = \<lparr>mi_confirmed_at = None, mi_confirmed_by = None, mi_controlled_attendance_id = Some 77,
     mi_controlled_scan_time = None, mi_device_id = 1, mi_device_name = None, mi_device_user_active = None,
     mi_device_user_id = None, mi_device_user_pk = Some 12, mi_employee_id = js ''e'',
     mi_employee_name = None, mi_enrollment_id = 5, mi_notes = None,
     mi_reserved_device_user_id = js ''101''\<rparr>"

definition create_demo :: "int option \<Rightarrow> jstr \<Rightarrow> bool \<Rightarrow> create_mapping" where
  "create_demo sel note opened =
     \<lparr>cm_auth = auth_of (initial_provider None\<lparr>pv_me := Some admin_me\<rparr>),
      cm_elig = \<lparr>as_data = Some [sample_elig], as_loading = False, as_error = None, as_run = 1, as_mounted = True\<rparr>,
      cm_selectedId = sel, cm_verifiedBy = js ''v'', cm_note = note, cm_busy = False, cm_error = None,
      cm_confirmOpen = opened\<rparr>"

lemma js_num_not_Nil: "js_num n \<noteq> []"
proof -
  have "nat_digits m \<noteq> []" for m by (subst nat_digits.simps) simp
  then show ?thesis by (simp add: js_num_def)
qed

lemma create_demo_facts: "canMutate (cm_auth (create_demo a b d))" "\<not> cm_busy (create_demo a b d)"
  "cm_item (create_demo (Some 5) b d) = Some sample_elig" "evidence_complete sample_elig"
  "mi_enrollment_id sample_elig = 5" "cm_item (create_demo None b d) = None"
  "cm_items (create_demo a b d) = [sample_elig]"
  by (simp_all add: create_demo_def admin_can_mutate cm_item_def cm_items_def sample_elig_def
      evidence_complete_def)

text \<open>The ADMIN picks the eligible enrollment, writes a note and asks for the mapping.\<close>

lemma create_demo_reach:
  "\<exists>c. create_ui.ui_reach t c \<and> st c = create_demo (Some 5) (js ''n'') True \<and> pend c = [] \<and> log c = []"
proof -
  let ?d = "create_demo None [] False"
  let ?s0 = "?d\<lparr>cm_elig := api_idle\<rparr>"
  have "create_ui.ui_reach t (start ?s0)"
    by (rule create_ui.initial) (simp add: create_init_def create_demo_def auth_of_def Let_def
        admin_me_def viewer_me_def)
  moreover have "create_env ?s0 ?d" unfolding create_env_def
    by (rule exI[of _ "cm_auth ?d"], rule exI[of _ "cm_elig ?d"]) (simp add: create_demo_def)
  ultimately obtain c1 where 1: "create_ui.ui_reach t c1" "st c1 = ?d" "pend c1 = []" "log c1 = []"
    using create_ui.reach_env[of t "start ?s0" ?d] by auto
  have off: "e \<in> offers (CreateMappingPanel t (create_demo a b False))"
    if "e \<in> offers (create_form t (create_demo a b False))" for e a b
    using that by (simp add: CreateMappingPanel_def) (simp add: create_demo_def)
  have "CmSelect (js_num 5) \<in> offers (create_form t ?d)"
    by (simp add: create_form_def Let_def create_demo_facts)
  from create_ui.reach_ret[OF 1(1,2) off[OF this], of "create_demo (Some 5) [] False"]
  obtain c2 where 2: "create_ui.ui_reach t c2" "st c2 = create_demo (Some 5) [] False" "pend c2 = []"
    "log c2 = []"
    using js_Number_num[of 5] js_num_not_Nil[of 5] 1 by (auto simp: create_handle_def create_demo_def)
  have "CmNote (js ''n'') \<in> offers (create_form t (create_demo (Some 5) [] False))"
    by (simp add: create_form_def Let_def create_demo_facts)
  from create_ui.reach_ret[OF 2(1,2) off[OF this], of "create_demo (Some 5) (js ''n'') False"]
  obtain c3 where 3: "create_ui.ui_reach t c3" "st c3 = create_demo (Some 5) (js ''n'') False" "pend c3 = []"
    "log c3 = []"
    using 2 by (auto simp: create_handle_def create_demo_def)
  have "CmRequest \<in> offers (create_form t (create_demo (Some 5) (js ''n'') False))"
    by (simp add: create_form_def Let_def create_demo_facts) (simp add: create_demo_def)
  moreover have "requestSubmit t (create_demo (Some 5) (js ''n'') False) = create_demo (Some 5) (js ''n'') True"
    by (simp add: requestSubmit_def create_demo_facts)
      (simp add: create_demo_def js_trim_def is_ws_def ws_units_def js_eval u16_of_char)
  ultimately show ?thesis
    using create_ui.reach_ret[OF 3(1,2) off[of CmRequest], of "create_demo (Some 5) (js ''n'') True"] 3
    by (auto simp: create_handle_def)
qed

theorem mapping_requests_witness:
  "\<exists>s. cm_confirmOpen s \<and> cm_selectedId s = Some 5 \<and> cm_items s = [sample_elig]"
proof -
  let ?t = "\<lambda>k. js k" and ?s = "create_demo (Some 5) (js ''n'') True"
  obtain c0 where c0: "create_ui.ui_reach ?t c0" "st c0 = ?s" using create_demo_reach[of ?t] by blast
  obtain k where k: "create_handle ?t CmConfirm ?s = Call (?s\<lparr>cm_busy := True, cm_error := None\<rparr>)
      (createMapping_call 5 (js_trim (cm_verifiedBy ?s)) (js_trim (cm_note ?s))) k"
    by (simp add: create_handle_def confirmSubmit_def create_demo_facts)
  have "CmConfirm \<in> offers (CreateMappingPanel ?t ?s)"
    by (simp add: CreateMappingPanel_def offers_confirm_dialog create_demo_facts) (simp add: create_demo_def)
  from create_ui.reach_call[OF c0 this k] obtain c1 where c1: "create_ui.ui_reach ?t c1"
    "Inl (?s\<lparr>cm_busy := True, cm_error := None\<rparr>, createMapping_call 5 (js_trim (cm_verifiedBy ?s))
       (js_trim (cm_note ?s))) \<in> set (log c1)" by fastforce
  define s where "s = ?s\<lparr>cm_busy := True, cm_error := None\<rparr>"
  have "cm_confirmOpen s \<and> (\<exists>item \<in> set (cm_items s). cm_selectedId s = Some (mi_enrollment_id item))"
    using mapping_requests[OF c1(1)] c1(2) unfolding s_def by blast
  moreover have "cm_items s = [sample_elig]" by (simp add: s_def cm_items_def create_demo_def)
  ultimately have "cm_confirmOpen s \<and> cm_selectedId s = Some 5 \<and> cm_items s = [sample_elig]"
    by (simp add: create_demo_facts)
  then show ?thesis by blast
qed

text \<open>Current and past mappings never mix: every mapping of the query is in exactly one of
  the two tables, the current one only if the server derived it as current, and the count in
  the header is the length of the current table.\<close>

theorem mappings_partitioned:
  "set (currentItems s) \<union> set (historyItems s) = set (mp_items s) \<and>
   set (currentItems s) \<inter> set (historyItems s) = {} \<and>
   length (currentItems s) + length (historyItems s) = length (mp_items s) \<and>
   texts (current_table l t s :: 'e view) =
     (t ''mappings.currentSectionTitle'' @ js '' ('' @ js_num (int (length (currentItems s))) @ js '')'') #
     (if currentItems s = [] then [t ''mappings.currentSectionEmpty'']
      else [t ''mappings.mapIdColumn'', t ''personnel.thaiName'', t ''attendance.terminalIdColumn'',
            t ''common.status'', t ''mappings.startedLabel'' @ js '' (UTC)'',
            t ''mappings.verificationMethodColumn'', t ''mappings.verifiedBy''] @
          concat (map (\<lambda>m. texts (current_row l t m :: 'e view)) (filter m_is_current (mp_items s))))"
  by (auto simp: currentItems_def historyItems_def current_table_def section_title_def comp_def
      sum_length_filter_compl)

end
