(* ===== verification/Personnel_Lifecycle.thy ===== *)
theory Personnel_Lifecycle
  imports Widgets Auth_Session
begin

text \<open>
  The controls of \<open>frontend/src/components/PersonnelLifecycle.tsx\<close> on one person: whether
  they must scan (\<open>ScanPolicyCard\<close>), leaving and rejoining the unit (\<open>OffboardPanel\<close>), the
  link to enrollment (\<open>EnrollLink\<close>) and their name on the scanners (\<open>TerminalNameCard\<close>).
  Each card with a busy flag is an instance of the one-request-at-a-time contract.
\<close>

definition EXEMPT_REASON_PRESETS :: "jstr list" where
  "EXEMPT_REASON_PRESETS =
     [[0xe01, 0xe32, 0xe23, 0xe40, 0xe07, 0xe34, 0xe19],
      [0xe2a, 0xe33, 0xe19, 0xe31, 0xe01, 0xe07, 0xe32, 0xe19, 0xe1c, 0xe39, 0xe49, 0xe1a, 0xe31,
          0xe07, 0xe04, 0xe31, 0xe1a, 0xe1a, 0xe31, 0xe0d, 0xe0a, 0xe32],
      [0xe44, 0xe1b, 0xe23, 0xe32, 0xe0a, 0xe01, 0xe32, 0xe23],
      [0xe44, 0xe1b, 0xe0a, 0xe48, 0xe27, 0xe22, 0xe23, 0xe32, 0xe0a, 0xe01, 0xe32, 0xe23]]"

definition writeError :: "js_error \<Rightarrow> dict \<Rightarrow> jstr" where
  "writeError err t =
     (if api_code_in err [''WRITE_DISABLED'', ''WRITE_SESSION_REQUIRED'', ''WRITE_SESSION_EXPIRED'']
      then t ''personnel.writesDisabledNotice'' else friendlyApiError err t)"

text \<open>A message with its tone, as several panels keep it.\<close>

type_synonym notice = "(bool \<times> jstr) option"

definition notice_view :: "notice \<Rightarrow> 'e view" where
  "notice_view m =
     (case m of None \<Rightarrow> Box [] | Some (good, x) \<Rightarrow> Toned (if good then Green else Red) [Txt x])"

lemma offers_notice [simp]: "offers (notice_view m) = {}"
  by (simp add: notice_view_def split: option.split prod.split)

datatype lc_effect = OnChanged | ReloadAccounts

text \<open>An ADMIN with an active work session, for the witnesses.\<close>

definition admin_auth :: auth where
  "admin_auth = auth_of (initial_provider None\<lparr>pv_me := Some admin_me\<rparr>)"

lemma admin_auth [simp]: "canManagePersonnel admin_auth" "canEditRoster admin_auth" "canMutate admin_auth"
  "isAdmin admin_auth" "canEnroll admin_auth" "canRecordAbsence admin_auth" "canManageOperators admin_auth"
  by (simp_all add: admin_auth_def auth_of_def Let_def admin_me_def viewer_me_def WRITE_CAPABLE_ROLES_def)

section \<open>ScanPolicyCard\<close>

record scan_policy =
  sp_auth :: auth
  sp_human :: human
  sp_reason :: jstr
  sp_reasonError :: bool
  sp_busy :: bool
  sp_msg :: notice

datatype sp_event = SpReason jstr | SpSave bool

definition sp_save :: "dict \<Rightarrow> bool \<Rightarrow> scan_policy \<Rightarrow> (scan_policy, call, reply, lc_effect) prog" where
  "sp_save t exempt s =
     (if exempt \<and> js_trim (sp_reason s) = [] then Ret (s\<lparr>sp_reasonError := True\<rparr>)
      else Call (s\<lparr>sp_busy := True, sp_msg := None\<rparr>)
        (api_setScanExempt (h_employee_id (sp_human s)) exempt
           (if exempt then Some (js_trim (sp_reason s)) else None))
        (\<lambda>r s. case r of
            Inr res \<Rightarrow> Eff OnChanged (Ret (s\<lparr>sp_msg := Some (True, t ''workflow.savedOk''), sp_busy := False\<rparr>))
          | Inl e \<Rightarrow> Ret (s\<lparr>sp_msg := Some (False, writeError e t), sp_busy := False\<rparr>)))"

definition sp_handle :: "dict \<Rightarrow> sp_event \<Rightarrow> scan_policy \<Rightarrow> (scan_policy, call, reply, lc_effect) prog" where
  "sp_handle t e s =
     (case e of
        SpReason r \<Rightarrow> Ret (s\<lparr>sp_reason := r, sp_reasonError := False\<rparr>)
      | SpSave exempt \<Rightarrow> sp_save t exempt s)"

definition ScanPolicyCard :: "dict \<Rightarrow> scan_policy \<Rightarrow> sp_event view" where
  "ScanPolicyCard t s =
     (let h = sp_human s; can = canEditRoster (sp_auth s) in
      Box
       [Txt (t ''workflow.scanPolicyTitle''),
        Toned (if h_scan_exempt h then Purple else Neutral)
          [Txt (if h_scan_exempt h then t ''workflow.scanExemptLabel'' else t ''workflow.scanRequired'')],
        when_v (h_scan_exempt h \<and> truthy (h_scan_exempt_reason h))
          [Txt (t ''workflow.exemptReasonLabel'' @ js '': '' @ nn (h_scan_exempt_reason h) [])],
        when_v (canManagePersonnel (sp_auth s) \<and> h_active h)
          [when_v (\<not> h_scan_exempt h)
             [Txt (t ''workflow.exemptReasonLabel''),
              Box (map (\<lambda>r. Btn False r (SpReason r)) EXEMPT_REASON_PRESETS),
              Field False (sp_reason s) SpReason,
              when_v (sp_reasonError s) [Txt (t ''workflow.exemptReasonRequired'')]],
           Btn (\<not> can \<or> sp_busy s)
             (if sp_busy s then t ''common.saving''
              else if h_scan_exempt h then t ''workflow.clearExemptButton'' else t ''workflow.setExemptButton'')
             (SpSave (\<not> h_scan_exempt h)),
           when_v (\<not> can) [Txt (t ''workflow.needsWriteWindow'')]],
        notice_view (sp_msg s)])"

definition sp_init :: "scan_policy \<Rightarrow> bool" where
  "sp_init s \<longleftrightarrow> sp_reason s = nn (h_scan_exempt_reason (sp_human s)) [] \<and> \<not> sp_reasonError s \<and>
     \<not> sp_busy s \<and> sp_msg s = None"

text \<open>The identity and the person are reloaded from outside.\<close>

definition sp_env :: "scan_policy \<Rightarrow> scan_policy \<Rightarrow> bool" where
  "sp_env s s' \<longleftrightarrow> (\<exists>a h. s' = s\<lparr>sp_auth := a, sp_human := h\<rparr>)"

lemma offers_ScanPolicyCard:
  "e \<in> offers (ScanPolicyCard t s) \<Longrightarrow>
     canManagePersonnel (sp_auth s) \<and> h_active (sp_human s) \<and>
     (\<forall>x. e = SpSave x \<longrightarrow> canEditRoster (sp_auth s) \<and> \<not> sp_busy s \<and> x = (\<not> h_scan_exempt (sp_human s)))"
  by (cases e) (auto simp: ScanPolicyCard_def Let_def split: if_splits)

lemma sp_settles: "\<not> sp_busy s \<Longrightarrow> settles sp_busy (sp_handle t e s)"
  by (cases e) (auto simp: sp_handle_def sp_save_def split: sum.split)

interpretation scan_policy_ui: single_flight sp_init "\<lambda>s e. e \<in> offers (ScanPolicyCard t s)"
    "sp_handle t" sp_env sp_busy
  for t
proof unfold_locales
  fix s e
  assume "e \<in> offers (ScanPolicyCard t s)" "sp_busy s"
  then show "quiet sp_busy (sp_handle t e s)"
    using offers_ScanPolicyCard[of e t s] by (cases e) (simp_all add: sp_handle_def)
qed (auto simp: sp_init_def sp_env_def sp_settles)

text \<open>A change of the policy concerns the active person shown, is sent by someone who may
  edit the roster, turns the policy shown, and carries a reason exactly when it exempts.\<close>

definition sp_policy :: "scan_policy \<Rightarrow> call \<Rightarrow> bool" where
  "sp_policy s q \<longleftrightarrow>
     canManagePersonnel (sp_auth s) \<and> canEditRoster (sp_auth s) \<and> h_active (sp_human s) \<and>
     (if h_scan_exempt (sp_human s)
      then q = api_setScanExempt (h_employee_id (sp_human s)) False None
      else \<exists>r. r \<noteq> [] \<and> js_trim r = r \<and> q = api_setScanExempt (h_employee_id (sp_human s)) True (Some r))"

text \<open>Nobody is exempted from scanning without a reason: every change the card sends is for
  the active person shown, by someone who may edit the roster, and an exemption carries a
  reason that is not blank; one change at a time, and the card always becomes usable again.\<close>

theorem scan_policy_requests:
  assumes "scan_policy_ui.ui_reach t c"
  shows "orderly sp_busy sp_policy c"
proof (rule scan_policy_ui.orderly[OF assms])
  fix s e
  assume "e \<in> offers (ScanPolicyCard t s)"
  from offers_ScanPolicyCard[OF this] show "safe (\<lambda>s. True) sp_policy (sp_handle t e s)"
    by (cases e) (auto simp: sp_handle_def sp_save_def sp_policy_def split: sum.split)
qed

definition sp_demo :: scan_policy where
  "sp_demo = \<lparr>sp_auth = admin_auth, sp_human = sample_human\<lparr>h_active := True, h_scan_exempt := True,
       h_scan_exempt_reason := None\<rparr>, sp_reason = [], sp_reasonError = False, sp_busy = False, sp_msg = None\<rparr>"

theorem scan_policy_requests_witness:
  "orderly sp_busy sp_policy (exec (sp_handle (\<lambda>k. js k) (SpSave False) sp_demo) (start sp_demo)) \<and>
   length (pend (exec (sp_handle (\<lambda>k. js k) (SpSave False) sp_demo) (start sp_demo))) = 1"
proof -
  have "scan_policy_ui.ui_reach (\<lambda>k. js k) (start sp_demo)"
    by (rule scan_policy_ui.initial) (simp add: sp_init_def sp_demo_def)
  then have "scan_policy_ui.ui_reach (\<lambda>k. js k)
      (exec (sp_handle (\<lambda>k. js k) (SpSave False) sp_demo) (start sp_demo))"
    using scan_policy_ui.reach_user[of "\<lambda>k. js k" "start sp_demo" "SpSave False"]
    by (simp add: ScanPolicyCard_def Let_def) (simp add: sp_demo_def)
  from scan_policy_requests[OF this] show ?thesis
    by (simp add: sp_handle_def sp_save_def)
qed

section \<open>OffboardPanel\<close>

record offboard =
  ob_auth :: auth
  ob_human :: human
  ob_accounts :: "human_terminal_account list api_state"
  ob_open :: bool
  ob_reason :: jstr
  ob_reasonError :: bool
  ob_busy :: bool
  ob_result :: notice

datatype ob_event = ObOpen | ObCancel | ObReason jstr | ObConfirm | ObRetryRemove | ObReactivate

type_synonym ob_prog = "(offboard, call, reply, lc_effect) prog"

definition accountList :: "offboard \<Rightarrow> human_terminal_account list" where
  "accountList s = nn (as_data (ob_accounts s)) []"

text \<open>\<open>r.failed.length === 0\<close>, where a reply without the list throws.\<close>

definition removal_clean :: "reply \<Rightarrow> bool" where
  "removal_clean r \<longleftrightarrow> (case r of Inl e \<Rightarrow> False | Inr j \<Rightarrow> jprop j ''failed'' = JArr [])"

text \<open>The accounts and the person are those of the render that started the handler.\<close>

definition removeAccounts ::
  "human \<Rightarrow> human_terminal_account list \<Rightarrow> (bool \<Rightarrow> offboard \<Rightarrow> ob_prog) \<Rightarrow> offboard \<Rightarrow> ob_prog" where
  "removeAccounts h accs k s =
     (if accs = [] then k True s
      else Call s (api_removeFromScanner (h_employee_id h)) (\<lambda>r s. k (removal_clean r) s))"

definition removal_notice :: "dict \<Rightarrow> bool \<Rightarrow> notice" where
  "removal_notice t removed =
     Some (removed, if removed then t ''workflow.offboardDone'' else t ''workflow.offboardPartial'')"

definition handleOffboard :: "dict \<Rightarrow> offboard \<Rightarrow> ob_prog" where
  "handleOffboard t s =
     (if js_trim (ob_reason s) = [] then Ret (s\<lparr>ob_reasonError := True\<rparr>)
      else
        (let h = ob_human s; accs = accountList s in
         Call (s\<lparr>ob_busy := True, ob_result := None\<rparr>)
           (api_deactivateHuman (h_employee_id h) (js_trim (ob_reason s)))
           (\<lambda>r s. case r of
               Inl e \<Rightarrow> Ret (s\<lparr>ob_busy := False, ob_open := False, ob_result := Some (False, writeError e t)\<rparr>)
             | Inr res \<Rightarrow>
                 removeAccounts h accs
                   (\<lambda>removed s. effs [ReloadAccounts, OnChanged]
                      (Ret (s\<lparr>ob_result := removal_notice t removed, ob_busy := False, ob_open := False,
                              ob_reason := []\<rparr>))) s)))"

definition handleRetryRemove :: "dict \<Rightarrow> offboard \<Rightarrow> ob_prog" where
  "handleRetryRemove t s =
     removeAccounts (ob_human s) (accountList s)
       (\<lambda>removed s. effs [ReloadAccounts, OnChanged]
          (Ret (s\<lparr>ob_result := removal_notice t removed, ob_busy := False\<rparr>)))
       (s\<lparr>ob_busy := True\<rparr>)"

definition handleReactivate :: "dict \<Rightarrow> offboard \<Rightarrow> ob_prog" where
  "handleReactivate t s =
     Call (s\<lparr>ob_busy := True, ob_result := None\<rparr>) (api_reactivateHuman (h_employee_id (ob_human s)) None)
       (\<lambda>r s. case r of
           Inr res \<Rightarrow> Eff OnChanged
             (Ret (s\<lparr>ob_result := Some (True, t ''personnel.reactivateSuccess''), ob_busy := False\<rparr>))
         | Inl e \<Rightarrow> Ret (s\<lparr>ob_result := Some (False, writeError e t), ob_busy := False\<rparr>))"

definition ob_handle :: "dict \<Rightarrow> ob_event \<Rightarrow> offboard \<Rightarrow> ob_prog" where
  "ob_handle t e s =
     (case e of
        ObOpen \<Rightarrow> Ret (s\<lparr>ob_reason := [], ob_reasonError := False, ob_open := True\<rparr>)
      | ObCancel \<Rightarrow> Ret (s\<lparr>ob_open := False\<rparr>)
      | ObReason r \<Rightarrow> Ret (s\<lparr>ob_reason := r, ob_reasonError := False\<rparr>)
      | ObConfirm \<Rightarrow> handleOffboard t s
      | ObRetryRemove \<Rightarrow> handleRetryRemove t s
      | ObReactivate \<Rightarrow> handleReactivate t s)"

definition account_label :: "human_terminal_account \<Rightarrow> jstr" where
  "account_label a = js ''#'' @ js_num (ta_device_id a) @ [32, 0xB7, 32] @ ta_device_user_id a"

definition offboard_modal :: "dict \<Rightarrow> offboard \<Rightarrow> ob_event view" where
  "offboard_modal t s =
     ConfirmModal t (ob_open s) (t ''workflow.offboardTitle'') MDanger (t ''workflow.offboardButton'')
       (ob_busy s) ObConfirm ObCancel
       [Txt (t ''workflow.offboardBody''),
        Txt (t ''workflow.offboardAccounts''),
        (if accountList s = [] then Txt (t ''workflow.offboardNoAccounts'')
         else Box (map (\<lambda>a. Txt (account_label a)) (accountList s))),
        Txt (t ''personnel.deactivateReasonLabel''),
        Field False (ob_reason s) ObReason,
        when_v (ob_reasonError s) [Txt (t ''personnel.deactivateReasonRequired'')]]"

definition OffboardPanel :: "dict \<Rightarrow> offboard \<Rightarrow> ob_event view" where
  "OffboardPanel t s =
     (let off = \<not> canEditRoster (ob_auth s) \<or> ob_busy s in
      Box
       [notice_view (ob_result s),
        (if h_active (ob_human s) then Btn off (t ''workflow.offboardButton'') ObOpen
         else Box
          [when_v (accountList s \<noteq> [])
             [Btn off
                (if ob_busy s then t ''common.saving''
                 else t ''workflow.retryRemoveButton'' @ js '' ('' @ js_num (int (length (accountList s))) @ js '')'')
                ObRetryRemove],
           Txt (t ''workflow.rejoinHint''),
           Btn off (t ''personnel.reactivateButton'') ObReactivate]),
        when_v (\<not> canEditRoster (ob_auth s)) [Txt (t ''workflow.needsWriteWindow'')],
        offboard_modal t s])"

definition ob_init :: "offboard \<Rightarrow> bool" where
  "ob_init s \<longleftrightarrow> ob_accounts s = api_idle \<and> \<not> ob_open s \<and> ob_reason s = [] \<and> \<not> ob_reasonError s \<and>
     \<not> ob_busy s \<and> ob_result s = None"

definition ob_env :: "offboard \<Rightarrow> offboard \<Rightarrow> bool" where
  "ob_env s s' \<longleftrightarrow> (\<exists>a h q. s' = s\<lparr>ob_auth := a, ob_human := h, ob_accounts := q\<rparr>)"

lemma offers_OffboardPanel:
  "e \<in> offers (OffboardPanel t s) \<Longrightarrow>
     (case e of
        ObOpen \<Rightarrow> h_active (ob_human s) \<and> canEditRoster (ob_auth s) \<and> \<not> ob_busy s
      | ObRetryRemove \<Rightarrow>
          \<not> h_active (ob_human s) \<and> accountList s \<noteq> [] \<and> canEditRoster (ob_auth s) \<and> \<not> ob_busy s
      | ObReactivate \<Rightarrow> \<not> h_active (ob_human s) \<and> canEditRoster (ob_auth s) \<and> \<not> ob_busy s
      | ObConfirm \<Rightarrow> ob_open s \<and> \<not> ob_busy s
      | ObCancel \<Rightarrow> ob_open s \<and> \<not> ob_busy s
      | ObReason r \<Rightarrow> ob_open s)"
  by (cases e) (auto simp: OffboardPanel_def offboard_modal_def Let_def split: if_splits)

lemmas ob_handlers = ob_handle_def handleOffboard_def handleRetryRemove_def handleReactivate_def
  removeAccounts_def Let_def

lemma ob_settles: "\<not> ob_busy s \<Longrightarrow> settles ob_busy (ob_handle t e s)"
  by (cases e) (auto simp: ob_handlers split: sum.splits)

interpretation offboard_ui: single_flight ob_init "\<lambda>s e. e \<in> offers (OffboardPanel t s)"
    "ob_handle t" ob_env ob_busy
  for t
proof unfold_locales
  fix s e
  assume "e \<in> offers (OffboardPanel t s)" "ob_busy s"
  then show "quiet ob_busy (ob_handle t e s)"
    by (cases e) (auto simp: ob_handle_def dest: offers_OffboardPanel)
qed (auto simp: ob_init_def ob_env_def ob_settles)

text \<open>C16: Leaving the unit is closing first, the scanner second: with a reason, the panel closes
  the person; only if that succeeded, and the list of their accounts on the screen was not
  empty, it asks for the removal from the scanners; then it reloads both. It reports success
  exactly if nothing was left to remove, and after a refusal it sends nothing more.\<close>

theorem offboard_sequence:
  assumes "js_trim (ob_reason s) \<noteq> []"
  shows "trace_of (handleOffboard t s) (r # rs) =
           Inl (api_deactivateHuman (h_employee_id (ob_human s)) (js_trim (ob_reason s))) #
           (if isl r then []
            else if accountList s = [] then [Inr ReloadAccounts, Inr OnChanged]
            else Inl (api_removeFromScanner (h_employee_id (ob_human s))) #
                 (if rs = [] then [] else [Inr ReloadAccounts, Inr OnChanged])) \<and>
         (\<forall>s'. answer (handleOffboard t s) (r # rs) = Some s' \<longrightarrow>
            \<not> ob_busy s' \<and> \<not> ob_open s' \<and>
            ob_result s' =
              (case r of
                 Inl e \<Rightarrow> Some (False, writeError e t)
               | Inr _ \<Rightarrow> removal_notice t (accountList s = [] \<or> removal_clean (hd rs))))"
  using assms by (cases rs) (auto simp: handleOffboard_def removeAccounts_def Let_def split: sum.split)

text \<open>The panel can report a removal it never tried: while the list of accounts is still
  loading, or failed to load, closing the person sends no removal at all and shows the message
  of a complete one.\<close>

theorem offboard_unseen_accounts:
  assumes "as_data (ob_accounts s) = None" and "js_trim (ob_reason s) \<noteq> []"
  shows "trace_of (handleOffboard t s) [Inr res] =
           [Inl (api_deactivateHuman (h_employee_id (ob_human s)) (js_trim (ob_reason s))),
            Inr ReloadAccounts, Inr OnChanged] \<and>
         (\<exists>s'. answer (handleOffboard t s) [Inr res] = Some s' \<and>
               ob_result s' = Some (True, t ''workflow.offboardDone''))"
  using assms by (simp add: handleOffboard_def removeAccounts_def accountList_def removal_notice_def Let_def)

definition sample_account :: human_terminal_account where
  "sample_account = \<lparr>ta_active = True, ta_device_display_name = Some [65], ta_device_id = 1,
     ta_device_user_id = [66], ta_expected_name = Some [67]\<rparr>"

definition ob_demo :: "human_terminal_account list option \<Rightarrow> offboard" where
  "ob_demo accs = \<lparr>ob_auth = admin_auth, ob_human = sample_human, ob_accounts = api_idle\<lparr>as_data := accs\<rparr>,
     ob_open = True, ob_reason = [77], ob_reasonError = False, ob_busy = False, ob_result = None\<rparr>"

lemma ob_demo_reason: "js_trim (ob_reason (ob_demo accs)) = [77]"
  by (simp add: ob_demo_def js_trim_def is_ws_def ws_units_def)

theorem offboard_sequence_witness:
  "trace_of (handleOffboard js (ob_demo (Some [sample_account]))) [Inr JNull, Inr JNull] =
     [Inl (api_deactivateHuman (js ''e1'') [77]), Inl (api_removeFromScanner (js ''e1'')),
      Inr ReloadAccounts, Inr OnChanged]"
proof -
  have "js_trim (ob_reason (ob_demo (Some [sample_account]))) \<noteq> []" by (simp add: ob_demo_reason)
  from offboard_sequence[OF this, of js "Inr JNull" "[Inr JNull]"] show ?thesis
    by (simp add: ob_demo_reason accountList_def) (simp add: ob_demo_def sample_human_def)
qed

theorem offboard_unseen_accounts_witness:
  "\<exists>s'. answer (handleOffboard (\<lambda>k. js k) (ob_demo None)) [Inr JNull] = Some s' \<and>
        ob_result s' = Some (True, js ''workflow.offboardDone'')"
proof -
  have "as_data (ob_accounts (ob_demo None)) = None" by (simp add: ob_demo_def)
  moreover have "js_trim (ob_reason (ob_demo None)) \<noteq> []" by (simp add: ob_demo_reason)
  ultimately show ?thesis using offboard_unseen_accounts[of "ob_demo None" "\<lambda>k. js k" JNull] by blast
qed

text \<open>Requests of the panel: closing needs the open dialog and a reason, removing and
  reactivating start from a closed person and the permission to edit the roster.\<close>

definition ob_policy :: "offboard \<Rightarrow> call \<Rightarrow> bool" where
  "ob_policy s q \<longleftrightarrow>
     ((\<exists>r. r \<noteq> [] \<and> js_trim r = r \<and> q = api_deactivateHuman (h_employee_id (ob_human s)) r \<and> ob_open s) \<or>
      (\<exists>i. q = api_removeFromScanner i) \<or>
      (q = api_reactivateHuman (h_employee_id (ob_human s)) None \<and> \<not> h_active (ob_human s) \<and>
       canEditRoster (ob_auth s)))"

lemma offboard_orderly:
  assumes "offboard_ui.ui_reach t c"
  shows "orderly ob_busy ob_policy c"
proof (rule offboard_ui.orderly_inv(1)[where I = "\<lambda>s. True", OF assms])
  fix s e
  assume "e \<in> offers (OffboardPanel t s)"
  from offers_OffboardPanel[OF this] show "safe (\<lambda>s. True) ob_policy (ob_handle t e s)"
    by (cases e) (auto simp: ob_handlers ob_policy_def split: sum.split)
qed simp_all

section \<open>EnrollLink\<close>

definition EnrollLink :: "dict \<Rightarrow> auth \<Rightarrow> human \<Rightarrow> 'e view" where
  "EnrollLink t a h =
     (if \<not> canEnroll a \<or> \<not> h_active h \<or> h_scan_exempt h \<or> nn (h_has_active_terminal_account h) False
      then Box []
      else Lnk (js ''/enrollments?employee='' @ h_employee_id h) [Txt (t ''workflow.enrollButton'')])"

section \<open>TerminalNameCard\<close>

record name_card =
  nc_auth :: auth
  nc_human :: human
  nc_accounts :: "human_terminal_account list api_state"
  nc_busy :: bool
  nc_msg :: notice

datatype nc_event = NcSync

definition nc_list :: "name_card \<Rightarrow> human_terminal_account list" where
  "nc_list s = nn (as_data (nc_accounts s)) []"

definition nc_expected :: "name_card \<Rightarrow> jstr" where
  "nc_expected s = (case nc_list s of [] \<Rightarrow> [] | a # _ \<Rightarrow> nn (ta_expected_name a) [])"

definition nc_mismatch :: "name_card \<Rightarrow> bool" where
  "nc_mismatch s \<longleftrightarrow> list_ex (\<lambda>a. nn (ta_device_display_name a) [] \<noteq> nc_expected s) (nc_list s)"

definition nc_sync :: "dict \<Rightarrow> name_card \<Rightarrow> (name_card, call, reply, lc_effect) prog" where
  "nc_sync t s =
     Call (s\<lparr>nc_busy := True, nc_msg := None\<rparr>) (api_syncTerminalName (h_employee_id (nc_human s)))
       (\<lambda>r s. case r of
           Inr res \<Rightarrow> Eff ReloadAccounts
             (Ret (s\<lparr>nc_msg := Some (True, t ''workflow.terminalNameSynced''), nc_busy := False\<rparr>))
         | Inl e \<Rightarrow> Ret (s\<lparr>nc_msg := Some (False,
                              if is_api_code e ''ENGLISH_NAME_REQUIRED''
                              then t ''workflow.terminalNameNeedsEnglish'' else friendlyApiError e t),
                            nc_busy := False\<rparr>))"

definition nc_handle :: "dict \<Rightarrow> nc_event \<Rightarrow> name_card \<Rightarrow> (name_card, call, reply, lc_effect) prog" where
  "nc_handle t e s = nc_sync t s"

definition device_name_text :: "human_terminal_account \<Rightarrow> jstr" where
  "device_name_text a = ta_device_user_id a @ js '': '' @ nn (ta_device_display_name a) [0x2014]"

definition TerminalNameCard :: "dict \<Rightarrow> name_card \<Rightarrow> nc_event view" where
  "TerminalNameCard t s =
     (if nc_list s = [] then Box []
      else Toned (if nc_mismatch s then Amber else Neutral)
       [Txt (t ''workflow.terminalNameTitle''),
        Txt (t ''workflow.terminalNameOnDevice''),
        Txt (js_join (js '', '') (map device_name_text (nc_list s))),
        Txt (t ''workflow.terminalNameExpected''),
        Txt (if nc_expected s = [] then [0x2014] else nc_expected s),
        when_v (nc_mismatch s) [Txt (t ''workflow.terminalNameMismatch''), Txt (t ''workflow.terminalNameAuto'')],
        when_v (canManagePersonnel (nc_auth s))
          [Btn (\<not> canEditRoster (nc_auth s) \<or> nc_busy s \<or> nc_expected s = [])
             (if nc_busy s then t ''common.saving'' else t ''workflow.terminalNameSyncButton'') NcSync],
        notice_view (nc_msg s)])"

definition nc_init :: "name_card \<Rightarrow> bool" where
  "nc_init s \<longleftrightarrow> nc_accounts s = api_idle \<and> \<not> nc_busy s \<and> nc_msg s = None"

definition nc_env :: "name_card \<Rightarrow> name_card \<Rightarrow> bool" where
  "nc_env s s' \<longleftrightarrow> (\<exists>a h q. s' = s\<lparr>nc_auth := a, nc_human := h, nc_accounts := q\<rparr>)"

lemma offers_TerminalNameCard:
  "e \<in> offers (TerminalNameCard t s) \<longleftrightarrow>
     nc_list s \<noteq> [] \<and> canManagePersonnel (nc_auth s) \<and> canEditRoster (nc_auth s) \<and> \<not> nc_busy s \<and>
     nc_expected s \<noteq> []"
  by (cases e) (simp add: TerminalNameCard_def)

interpretation name_card_ui: single_flight nc_init "\<lambda>s e. e \<in> offers (TerminalNameCard t s)"
    "nc_handle t" nc_env nc_busy
  for t
  by unfold_locales
    (auto simp: nc_init_def nc_env_def nc_handle_def nc_sync_def offers_TerminalNameCard split: sum.splits)

text \<open>The scanner name is pushed only from the roster: every push is for the person shown,
  who has a scanner account and a roster name to push, by someone who may edit the roster; one
  at a time. The card warns exactly if some scanner shows another name than the roster's.\<close>

theorem name_card_requests:
  assumes "name_card_ui.ui_reach t c"
  shows "orderly nc_busy
           (\<lambda>s q. q = api_syncTerminalName (h_employee_id (nc_human s)) \<and> nc_list s \<noteq> [] \<and> nc_expected s \<noteq> [] \<and>
                  canManagePersonnel (nc_auth s) \<and> canEditRoster (nc_auth s)) c \<and>
         (nc_list (st c) \<noteq> [] \<and> \<not> nc_mismatch (st c) \<longleftrightarrow>
            nc_list (st c) \<noteq> [] \<and>
            (\<forall>a \<in> set (nc_list (st c)). nn (ta_device_display_name a) [] = nn (ta_expected_name (hd (nc_list (st c)))) []))"
proof
  show "orderly nc_busy
           (\<lambda>s q. q = api_syncTerminalName (h_employee_id (nc_human s)) \<and> nc_list s \<noteq> [] \<and> nc_expected s \<noteq> [] \<and>
                  canManagePersonnel (nc_auth s) \<and> canEditRoster (nc_auth s)) c"
    by (rule name_card_ui.orderly[OF assms])
      (auto simp: nc_handle_def nc_sync_def offers_TerminalNameCard nc_list_def nc_expected_def split: sum.splits)
qed (auto simp: nc_mismatch_def nc_expected_def list_ex_iff split: list.splits)

definition nc_demo :: "human_terminal_account list api_state \<Rightarrow> name_card" where
  "nc_demo q = \<lparr>nc_auth = admin_auth, nc_human = sample_human, nc_accounts = q, nc_busy = False, nc_msg = None\<rparr>"

theorem name_card_requests_witness:
  "\<exists>c. name_card_ui.ui_reach (\<lambda>k. js k) c \<and> length (log c) = 1 \<and> nc_list (st c) = [sample_account] \<and>
       nc_mismatch (st c)"
proof -
  let ?q = "api_idle\<lparr>as_data := Some [sample_account]\<rparr>"
  have "name_card_ui.ui_reach (\<lambda>k. js k) (start (nc_demo api_idle))"
    by (rule name_card_ui.initial) (simp add: nc_init_def nc_demo_def)
  moreover have "nc_env (nc_demo api_idle) (nc_demo ?q)" unfolding nc_env_def nc_demo_def
    by (rule exI[of _ admin_auth], rule exI[of _ sample_human], rule exI[of _ ?q]) simp
  ultimately obtain c1 where 1: "name_card_ui.ui_reach (\<lambda>k. js k) c1" "st c1 = nc_demo ?q" "log c1 = []"
    using name_card_ui.reach_env[of _ "start (nc_demo api_idle)"] by auto
  obtain k where "nc_handle (\<lambda>k. js k) NcSync (nc_demo ?q) =
      Call ((nc_demo ?q)\<lparr>nc_busy := True, nc_msg := None\<rparr>)
        (api_syncTerminalName (h_employee_id (nc_human (nc_demo ?q)))) k"
    by (simp add: nc_handle_def nc_sync_def)
  moreover have "NcSync \<in> offers (TerminalNameCard (\<lambda>k. js k) (nc_demo ?q))"
    by (simp add: offers_TerminalNameCard nc_list_def nc_expected_def nc_demo_def sample_account_def)
  ultimately obtain c2 where 2: "name_card_ui.ui_reach (\<lambda>k. js k) c2" "length (log c2) = 1"
    "st c2 = (nc_demo ?q)\<lparr>nc_busy := True, nc_msg := None\<rparr>"
    using name_card_ui.reach_call[OF 1(1,2)] 1(3) by fastforce
  from 2(3) have l: "nc_list (st c2) = [sample_account]" by (simp add: nc_list_def nc_demo_def)
  from name_card_requests[OF 2(1)] l have "nc_mismatch (st c2)" by (auto simp: sample_account_def)
  with 2 l show ?thesis by blast
qed

end
