(* ===== verification/Personnel_Form.thy ===== *)
theory Personnel_Form
  imports Personnel_Lifecycle Terminal_Name
begin

text \<open>
  The dialog of \<open>frontend/src/components/PersonnelFormModal.tsx\<close> that adds a person and
  edits one: its fields, the body it sends in either mode, the terminal name it previews and
  the screen after a person was added.
\<close>

datatype form_mode = Create | Edit

record person_form =
  pf_auth :: auth
  pf_mode :: form_mode
  pf_human :: "human option"
  pf_ranks :: "rank_reference list api_state"
  pf_departments :: "jstr list api_state"
  pf_displayName :: jstr
  pf_rank :: jstr
  pf_englishName :: jstr
  pf_personnelId :: jstr
  pf_branch :: jstr
  pf_category :: jstr
  pf_position :: jstr
  pf_busy :: bool
  pf_error :: "jstr option"
  pf_justCreated :: "json option"

datatype form_event =
    FmDisplayName jstr | FmRank jstr | FmEnglish jstr | FmPersonnelId jstr | FmBranch jstr
  | FmCategory jstr | FmPosition jstr | FmSubmit | FmCloseButton | FmGoEnroll

datatype form_effect = OnSaved json | OnClose | FormNavigate jstr

type_synonym form_prog = "(person_form, call, reply, form_effect) prog"

text \<open>The fields start from the person, if there is one.\<close>

definition open_form ::
  "auth \<Rightarrow> form_mode \<Rightarrow> human option \<Rightarrow> person_form" where
  "open_form a mode h =
     \<lparr>pf_auth = a, pf_mode = mode, pf_human = h, pf_ranks = api_idle, pf_departments = api_idle,
      pf_displayName = nn (map_option h_display_name h) [],
      pf_rank = nn (Option.bind h h_rank) [],
      pf_englishName = nn (Option.bind h h_english_name) [],
      pf_personnelId = nn (Option.bind h h_personnel_id) [],
      pf_branch = nn (Option.bind h h_branch) [],
      pf_category = nn (Option.bind h h_category) [],
      pf_position = nn (Option.bind h h_position) [],
      pf_busy = False, pf_error = None, pf_justCreated = None\<rparr>"

definition rankMeta :: "person_form \<Rightarrow> rank_reference option" where
  "rankMeta s = List.find (\<lambda>r. rr_rank_th_abbreviation r = pf_rank s) (nn (as_data (pf_ranks s)) [])"

definition metadata_of :: "rank_reference \<Rightarrow> rank_metadata" where
  "metadata_of r =
     \<lparr>rm_acting = None, rm_rank_category = None, rm_rank_en = Some (rr_rank_en r),
      rm_rank_en_abbreviation = Some (rr_rank_en_abbreviation r), rm_rank_th_abbreviation = None,
      rm_rank_th_full = None, rm_rank_th_original = rr_rank_th_abbreviation r\<rparr>"

definition form_namePreview :: "person_form \<Rightarrow> terminal_name_preview" where
  "form_namePreview s =
     computeTerminalNamePreview (Some (pf_englishName s)) (map_option metadata_of (rankMeta s))"

text \<open>The body: an empty optional field is left out of a new person and cleared in an old one.\<close>

definition form_fields :: "(jstr option \<Rightarrow> json) \<Rightarrow> person_form \<Rightarrow> json" where
  "form_fields enc s =
     JObj [(''display_name'', JStr (js_trim (pf_displayName s))),
           (''rank'', enc (opt_str (pf_rank s))),
           (''english_name'', enc (opt_str (js_trim (pf_englishName s)))),
           (''personnel_id'', enc (opt_str (js_trim (pf_personnelId s)))),
           (''branch'', enc (opt_str (js_trim (pf_branch s)))),
           (''category'', enc (opt_str (js_trim (pf_category s)))),
           (''position'', enc (opt_str (js_trim (pf_position s))))]"

definition form_error :: "dict \<Rightarrow> js_error \<Rightarrow> jstr" where
  "form_error t e =
     (if is_api_code e ''PERSONNEL_DUPLICATE'' then t ''personnel.duplicatePersonnelIdBody''
      else if api_code_in e [''WRITE_DISABLED'', ''WRITE_SESSION_REQUIRED'', ''WRITE_SESSION_EXPIRED'']
      then t ''personnel.writesDisabledNotice''
      else friendlyApiError e t)"

definition form_submit :: "dict \<Rightarrow> person_form \<Rightarrow> form_prog" where
  "form_submit t s =
     (if js_trim (pf_displayName s) = [] then Ret (s\<lparr>pf_error := Some (t ''personnel.displayNameRequired'')\<rparr>)
      else
        (let s1 = s\<lparr>pf_busy := True, pf_error := None\<rparr>;
             failed = (\<lambda>e s. Ret (s\<lparr>pf_error := Some (form_error t e), pf_busy := False\<rparr>)) in
         case pf_mode s of
           Create \<Rightarrow> Call s1 (api_createHuman (form_fields (j_opt JStr) s))
             (\<lambda>r s. case r of
                 Inr created \<Rightarrow> Eff (OnSaved created)
                   (Ret (s\<lparr>pf_justCreated := if jtruthy created then Some created else None, pf_busy := False\<rparr>))
               | Inl e \<Rightarrow> failed e s)
         | Edit \<Rightarrow> (case pf_human s of
             None \<Rightarrow> Ret (s1\<lparr>pf_busy := False\<rparr>)
           | Some h \<Rightarrow> Call s1 (api_updateHuman (h_employee_id h) (form_fields (j_null JStr) s))
               (\<lambda>r s. case r of
                   Inr updated \<Rightarrow> effs [OnSaved updated, OnClose] (Ret (s\<lparr>pf_busy := False\<rparr>))
                 | Inl e \<Rightarrow> failed e s))))"

definition form_handle :: "dict \<Rightarrow> form_event \<Rightarrow> person_form \<Rightarrow> form_prog" where
  "form_handle t e s =
     (case e of
        FmDisplayName x \<Rightarrow> Ret (s\<lparr>pf_displayName := x\<rparr>)
      | FmRank x \<Rightarrow> Ret (s\<lparr>pf_rank := x\<rparr>)
      | FmEnglish x \<Rightarrow> Ret (s\<lparr>pf_englishName := x\<rparr>)
      | FmPersonnelId x \<Rightarrow> Ret (s\<lparr>pf_personnelId := x\<rparr>)
      | FmBranch x \<Rightarrow> Ret (s\<lparr>pf_branch := x\<rparr>)
      | FmCategory x \<Rightarrow> Ret (s\<lparr>pf_category := x\<rparr>)
      | FmPosition x \<Rightarrow> Ret (s\<lparr>pf_position := x\<rparr>)
      | FmSubmit \<Rightarrow> form_submit t s
      | FmCloseButton \<Rightarrow> Eff OnClose (Ret s)
      | FmGoEnroll \<Rightarrow> Eff (FormNavigate (js ''/enrollments'')) (Ret s))"

definition created_screen :: "dict \<Rightarrow> json \<Rightarrow> form_event view" where
  "created_screen t created =
     Box [Txt ([0x2713, 32] @ t ''personnel.createSuccessTitle''),
          Txt (js_string (jprop created ''display_name'')),
          Btn False (t ''personnel.goToEnrollmentButton'') FmGoEnroll,
          Btn False (t ''common.close'') FmCloseButton]"

text \<open>The departments, and the person's own when it is not among them.\<close>

definition branch_options :: "person_form \<Rightarrow> jstr list" where
  "branch_options s =
     nn (as_data (pf_departments s)) [] @
     (if pf_branch s \<noteq> [] \<and> pf_branch s \<notin> set (nn (as_data (pf_departments s)) []) then [pf_branch s] else [])"

definition PersonnelFormModal :: "dict \<Rightarrow> person_form \<Rightarrow> form_event view" where
  "PersonnelFormModal t s =
     (if \<not> canManagePersonnel (pf_auth s) then Box []
      else case pf_justCreated s of
        Some created \<Rightarrow> created_screen t created
      | None \<Rightarrow>
          (let busy = pf_busy s; preview = form_namePreview s in
           Box
            [Txt (if pf_mode s = Create then t ''personnel.addPersonnelTitle'' else t ''personnel.editPersonnelTitle''),
             when_v (truthy (pf_error s)) [Toned Red [Txt (nn (pf_error s) [])]],
             Txt (t ''personnel.thaiFullNameLabel''), Field False (pf_displayName s) FmDisplayName,
             Txt (t ''personnel.rank''), RankSelect t (pf_ranks s) (pf_rank s) FmRank busy,
             Txt (t ''personnel.personnelIdLabel''), Field busy (pf_personnelId s) FmPersonnelId,
             Txt (t ''personnel.englishName''), Field busy (pf_englishName s) FmEnglish,
             Txt (t ''personnel.branch''),
             Select busy (pf_branch s) (([], [0x2014]) # map (\<lambda>d. (d, d)) (branch_options s)) FmBranch,
             Txt (t ''personnel.category''), Field busy (pf_category s) FmCategory,
             Txt (t ''workflow.positionCol''), Field busy (pf_position s) FmPosition,
             Txt (t ''enrollment.terminalDisplayName''),
             Txt (if js_trim (pf_englishName s) \<noteq> [] then np_value preview
                  else t ''personnel.englishNameRequiredForTerminalHint''),
             when_v (np_rankOmittedForLength preview) [Txt (t ''enrollment.terminalNameRankOmittedHint'')],
             Btn busy (t ''common.cancel'') FmCloseButton,
             Btn busy (if busy then t ''common.saving'' else t ''common.save'') FmSubmit]))"

definition form_init :: "person_form \<Rightarrow> bool" where
  "form_init s \<longleftrightarrow> s = open_form (pf_auth s) (pf_mode s) (pf_human s)"

text \<open>Identity and query results come from outside; the person being edited may be reloaded.\<close>

definition form_env :: "person_form \<Rightarrow> person_form \<Rightarrow> bool" where
  "form_env s s' \<longleftrightarrow>
     (\<exists>a h r d. s' = s\<lparr>pf_auth := a, pf_human := h, pf_ranks := r, pf_departments := d\<rparr>)"

section \<open>Properties\<close>

lemma form_settles: "\<not> pf_busy s \<Longrightarrow> settles pf_busy (form_handle t e s)"
  by (cases e) (auto simp: form_handle_def form_submit_def Let_def split: form_mode.split option.split sum.split)

lemma offers_form:
  "e \<in> offers (PersonnelFormModal t s) \<Longrightarrow> canManagePersonnel (pf_auth s) \<and>
     (e = FmSubmit \<longrightarrow> \<not> pf_busy s)"
  by (cases e) (auto simp: PersonnelFormModal_def created_screen_def RankSelect_def Let_def
      split: if_splits option.splits)

interpretation form_ui: single_flight form_init "\<lambda>s e. e \<in> offers (PersonnelFormModal t s)"
    "form_handle t" form_env pf_busy
  for t
proof unfold_locales
  fix s
  assume "form_init s"
  then show "\<not> pf_busy s" by (metis form_init_def open_form_def person_form.select_convs(13))
next
  fix s e
  assume "e \<in> offers (PersonnelFormModal t s)" "pf_busy s"
  then show "quiet pf_busy (form_handle t e s)"
    using offers_form[of e t s] by (cases e) (simp_all add: form_handle_def)
qed (auto simp: form_env_def form_settles)

text \<open>What the form sends: by its mode, for the person it edits, with a name.\<close>

definition form_policy :: "person_form \<Rightarrow> call \<Rightarrow> bool" where
  "form_policy s q \<longleftrightarrow>
     canManagePersonnel (pf_auth s) \<and> js_trim (pf_displayName s) \<noteq> [] \<and>
     (case pf_mode s of
        Create \<Rightarrow> q = api_createHuman (form_fields (j_opt JStr) s)
      | Edit \<Rightarrow> (\<exists>h. pf_human s = Some h \<and>
                   q = api_updateHuman (h_employee_id h) (form_fields (j_null JStr) s)))"

text \<open>C31: The form sends what it shows: every request is the creation or the update of exactly
  the fields on the screen, trimmed, with a name that is not blank, by someone who may manage
  personnel; one at a time, and every failure leaves the form usable.\<close>

theorem form_requests:
  assumes "form_ui.ui_reach t c"
  shows "orderly pf_busy form_policy c"
proof (rule form_ui.orderly[OF assms])
  fix s e
  assume "e \<in> offers (PersonnelFormModal t s)"
  from offers_form[OF this] show "safe (\<lambda>s. True) form_policy (form_handle t e s)"
    by (cases e) (auto simp: form_handle_def form_submit_def form_policy_def form_fields_def Let_def
        split: form_mode.split option.split sum.split)
qed

lemma sample_human_tidy: "js_trim (h_display_name sample_human) = h_display_name sample_human"
  "h_display_name sample_human \<noteq> []"
  by (simp_all add: sample_human_def js_trim_def is_ws_def ws_units_def js_eval u16_of_char)

theorem form_requests_witness:
  "\<exists>c. form_ui.ui_reach (\<lambda>k. js k) c \<and> length (log c) = 1 \<and> orderly pf_busy form_policy c"
proof -
  let ?s = "open_form admin_auth Edit (Some sample_human)"
  have r: "form_ui.ui_reach (\<lambda>k. js k) (start ?s)"
    by (rule form_ui.initial) (simp add: form_init_def open_form_def)
  have "FmSubmit \<in> offers (PersonnelFormModal (\<lambda>k. js k) ?s)"
    by (simp add: PersonnelFormModal_def Let_def) (simp add: open_form_def Let_def)
  moreover have "\<exists>k. form_handle (\<lambda>k. js k) FmSubmit ?s = Call (?s\<lparr>pf_busy := True, pf_error := None\<rparr>)
      (api_updateHuman (h_employee_id sample_human) (form_fields (j_null JStr) ?s)) k"
    using sample_human_tidy by (simp add: form_handle_def form_submit_def open_form_def Let_def)
  ultimately obtain c where "form_ui.ui_reach (\<lambda>k. js k) c" "length (log c) = 1"
    using form_ui.reach_call[OF r] by fastforce
  with form_requests[of "\<lambda>k. js k" c] show ?thesis by blast
qed

text \<open>A person whose texts are as the form would save them.\<close>

definition tidy :: "jstr option \<Rightarrow> bool" where
  "tidy x \<longleftrightarrow> (case x of None \<Rightarrow> True | Some v \<Rightarrow> v \<noteq> [] \<and> js_trim v = v)"

lemma tidy_back: "tidy x \<Longrightarrow> opt_str (js_trim (nn x [])) = x"
  by (auto simp: tidy_def split: option.splits)

text \<open>C32: Saving an untouched form changes nothing: the update of a person whose texts carry no
  stray blanks holds the person's own values, and null exactly where the person has none.\<close>

theorem untouched_form_keeps_person:
  assumes "js_trim (h_display_name h) = h_display_name h"
    and "h_rank h \<noteq> Some []"
    and "list_all tidy [h_english_name h, h_personnel_id h, h_branch h, h_category h, h_position h]"
  shows "form_fields (j_null JStr) (open_form a Edit (Some h)) =
           JObj [(''display_name'', JStr (h_display_name h)), (''rank'', j_null JStr (h_rank h)),
                 (''english_name'', j_null JStr (h_english_name h)),
                 (''personnel_id'', j_null JStr (h_personnel_id h)),
                 (''branch'', j_null JStr (h_branch h)), (''category'', j_null JStr (h_category h)),
                 (''position'', j_null JStr (h_position h))]"
proof -
  have "opt_str (nn (h_rank h) []) = h_rank h" using assms(2) by (cases "h_rank h") (auto simp: opt_str_def)
  with assms show ?thesis by (simp add: form_fields_def open_form_def tidy_back)
qed

theorem untouched_form_keeps_person_witness:
  "jprop (form_fields (j_null JStr) (open_form admin_auth Edit (Some sample_human))) ''branch'' = JNull"
proof -
  note sample_human_tidy(1)
  moreover have "h_rank sample_human \<noteq> Some []" by (simp add: sample_human_def)
  moreover have "list_all tidy [h_english_name sample_human, h_personnel_id sample_human,
      h_branch sample_human, h_category sample_human, h_position sample_human]"
    by (simp add: sample_human_def tidy_def)
  ultimately show ?thesis
    using untouched_form_keeps_person[of sample_human admin_auth]
    by (simp add: sample_human_def j_null_def)
qed

end
