(* ===== verification/Csv_Import.thy ===== *)
theory Csv_Import
  imports Personnel_Lifecycle
begin

text \<open>
  The dialog of \<open>frontend/src/components/CsvImportModal.tsx\<close>: choose a file, read the
  server's preview, tick the people of the roster who left, confirm. The confirmation uploads
  the file again and then closes the ticked people one after the other; \<open>MissingPeople\<close>
  is the list of those not in the file. Besides JSON requests the dialog uploads files and
  downloads the template: its requests are of type \<open>csv_request\<close>, and \<open>csv_wire\<close> is the
  HTTP request each becomes.
\<close>

datatype csv_request = RqPreview js_file | RqCommit js_file | RqTemplate | RqCall call

definition csv_wire :: "jstr \<Rightarrow> storage \<Rightarrow> csv_request \<Rightarrow> http_request" where
  "csv_wire base ss q =
     (case q of
        RqPreview f \<Rightarrow> upload_send base ss previewHumansImport_path f
      | RqCommit f \<Rightarrow> upload_send base ss commitHumansImport_path f
      | RqTemplate \<Rightarrow> download_send base ss importTemplateCsv_path
      | RqCall c \<Rightarrow> request_send base ss c)"

record committed =
  cd_created :: int
  cd_updated :: int
  cd_renamed :: int
  cd_failed :: int
  cd_left :: int
  cd_leftFailed :: "jstr list"

record csv_import =
  ci_file :: "js_file option"
  ci_preview :: "csv_preview option"
  ci_busy :: bool
  ci_error :: "jstr option"
  ci_committed :: "committed option"
  ci_leaving :: "jstr list"
  ci_leaveReason :: jstr

datatype csv_event =
    CiFile js_file | CiToggle jstr | CiReason jstr | CiCommit | CiTemplate | CiClose

datatype csv_effect = OnCommitted | CsvClose | SaveBlob string

type_synonym csv_prog = "(csv_import, csv_request, reply, csv_effect) prog"

definition LEFT_REASON :: jstr where
  "LEFT_REASON = [0xe22, 0xe49, 0xe32, 0xe22, 0xe2d, 0xe2d, 0xe01]"

definition csv_init :: csv_import where
  "csv_init = \<lparr>ci_file = None, ci_preview = None, ci_busy = False, ci_error = None, ci_committed = None,
     ci_leaving = [], ci_leaveReason = LEFT_REASON\<rparr>"

subsection \<open>Reading the replies\<close>

definition missing_of :: "json \<Rightarrow> csv_missing_person" where
  "missing_of j =
     \<lparr>cm_branch = jstring (jprop j ''branch''), cm_display_name = nn (jstring (jprop j ''display_name'')) [],
      cm_employee_id = nn (jstring (jprop j ''employee_id'')) [], cm_rank = jstring (jprop j ''rank'')\<rparr>"

definition row_of :: "json \<Rightarrow> csv_row_result" where
  "row_of j =
     \<lparr>cr_changed_fields = None, cr_classification = nn (jstring (jprop j ''classification'')) [],
      cr_data = None, cr_employee_id = jstring (jprop j ''employee_id''),
      cr_reason_key = jstring (jprop j ''reason_key''), cr_reason_th = jstring (jprop j ''reason_th''),
      cr_row_number = jint (jprop j ''row_number''), cr_warning_th = jstring (jprop j ''warning_th'')\<rparr>"

definition preview_of :: "json \<Rightarrow> csv_preview" where
  "preview_of j =
     (let m = jprop j ''summary'' in
      \<lparr>cp_missing = (if jnullish (jprop j ''missing'') then None
                    else Some (map missing_of (jlist (jprop j ''missing'')))),
       cp_rows = map row_of (jlist (jprop j ''rows'')),
       cp_summary = \<lparr>cs_error = jint (jprop m ''error''), cs_new = jint (jprop m ''new''),
                     cs_unchanged = jint (jprop m ''unchanged''), cs_update = jint (jprop m ''update'')\<rparr>\<rparr>)"

subsection \<open>Handlers\<close>

definition ci_missing :: "csv_import \<Rightarrow> csv_missing_person list" where
  "ci_missing s = nn (Option.bind (ci_preview s) cp_missing) []"

definition handleFileChosen :: "dict \<Rightarrow> js_file \<Rightarrow> csv_import \<Rightarrow> csv_prog" where
  "handleFileChosen t f s =
     Call (s\<lparr>ci_file := Some f, ci_preview := None, ci_leaving := [], ci_error := None, ci_busy := True\<rparr>)
       (RqPreview f)
       (\<lambda>r s. case r of
           Inr j \<Rightarrow> Ret (s\<lparr>ci_preview := Some (preview_of j), ci_busy := False\<rparr>)
         | Inl e \<Rightarrow> Ret (s\<lparr>ci_error := Some (if is_api_code e ''CSV_MALFORMED''
                             then t ''personnel.csvMalformedBody'' else friendlyApiError e t),
                           ci_busy := False\<rparr>))"

definition missing_name :: "csv_missing_person \<Rightarrow> jstr" where
  "missing_name m = js_trim (nn (cm_rank m) [] @ js '' '' @ cm_display_name m)"

definition leave_reason :: "csv_import \<Rightarrow> jstr" where
  "leave_reason s = (if js_trim (ci_leaveReason s) = [] then LEFT_REASON else js_trim (ci_leaveReason s))"

text \<open>The loop over the ticked people: close the person, then their scanner accounts.\<close>

fun leave_all ::
  "jstr \<Rightarrow> csv_missing_person list \<Rightarrow> int \<Rightarrow> jstr list \<Rightarrow>
   (int \<Rightarrow> jstr list \<Rightarrow> csv_import \<Rightarrow> csv_prog) \<Rightarrow> csv_import \<Rightarrow> csv_prog" where
  "leave_all reason [] left failed k s = k left failed s"
| "leave_all reason (m # ms) left failed k s =
     Call s (RqCall (api_deactivateHuman (cm_employee_id m) reason))
       (\<lambda>r s. case r of
           Inl e \<Rightarrow> leave_all reason ms left (failed @ [missing_name m]) k s
         | Inr res \<Rightarrow> Call s (RqCall (api_removeFromScanner (cm_employee_id m)))
             (\<lambda>r s. leave_all reason ms (left + 1)
                (if removal_clean r then failed else failed @ [missing_name m]) k s))"

definition hasRows :: "csv_import \<Rightarrow> bool" where
  "hasRows s =
     (case ci_preview s of None \<Rightarrow> False
      | Some p \<Rightarrow> cs_new (cp_summary p) > 0 \<or> cs_update (cp_summary p) > 0)"

definition ticked :: "csv_import \<Rightarrow> csv_missing_person list" where
  "ticked s = filter (\<lambda>m. cm_employee_id m \<in> set (ci_leaving s)) (ci_missing s)"

definition committed_of :: "json \<Rightarrow> int \<Rightarrow> jstr list \<Rightarrow> committed" where
  "committed_of result left failed =
     (let sync = jprop result ''terminal_name_sync'' in
      \<lparr>cd_created = jint (jprop result ''created''), cd_updated = jint (jprop result ''updated''),
       cd_renamed = jint (jprop sync ''renamed''), cd_failed = jint (jprop sync ''failed''),
       cd_left = left, cd_leftFailed = failed\<rparr>)"

definition commit_error :: "dict \<Rightarrow> js_error \<Rightarrow> jstr" where
  "commit_error t e = writeError e t"

text \<open>What follows the upload (or its absence), with the values of the render that started it.\<close>

definition commit_rest :: "csv_import \<Rightarrow> json \<Rightarrow> csv_import \<Rightarrow> csv_prog" where
  "commit_rest s0 result s =
     leave_all (leave_reason s0) (ticked s0) 0 []
       (\<lambda>left failed s. Eff OnCommitted
          (Ret (s\<lparr>ci_committed := Some (committed_of result left failed), ci_busy := False\<rparr>))) s"

definition handleCommit :: "dict \<Rightarrow> csv_import \<Rightarrow> csv_prog" where
  "handleCommit t s =
     (case ci_file s of
        None \<Rightarrow> Ret s
      | Some f \<Rightarrow>
          (let s1 = s\<lparr>ci_busy := True, ci_error := None\<rparr> in
           if hasRows s
           then Call s1 (RqCommit f)
             (\<lambda>r s'. case r of
                 Inr result \<Rightarrow> commit_rest s result s'
               | Inl e \<Rightarrow> Ret (s'\<lparr>ci_error := Some (commit_error t e), ci_busy := False\<rparr>))
           else commit_rest s JNull s1))"

text \<open>Outside any \<open>try\<close>: a failed download shows nothing.\<close>

definition downloadTemplate :: "csv_import \<Rightarrow> csv_prog" where
  "downloadTemplate s =
     Call s RqTemplate
       (\<lambda>r s. case r of Inr blob \<Rightarrow> Eff (SaveBlob ''personnel_import_template.csv'') (Ret s) | Inl e \<Rightarrow> Ret s)"

definition csv_handle :: "dict \<Rightarrow> csv_event \<Rightarrow> csv_import \<Rightarrow> csv_prog" where
  "csv_handle t e s =
     (case e of
        CiFile f \<Rightarrow> handleFileChosen t f s
      | CiToggle i \<Rightarrow> Ret (s\<lparr>ci_leaving := set_toggle i (ci_leaving s)\<rparr>)
      | CiReason x \<Rightarrow> Ret (s\<lparr>ci_leaveReason := x\<rparr>)
      | CiCommit \<Rightarrow> handleCommit t s
      | CiTemplate \<Rightarrow> downloadTemplate s
      | CiClose \<Rightarrow> Eff CsvClose (Ret s))"

subsection \<open>View\<close>

definition errorRows :: "csv_import \<Rightarrow> csv_row_result list" where
  "errorRows s = filter (\<lambda>r. cr_classification r = js ''ERROR'')
     (nn (map_option cp_rows (ci_preview s)) [])"

definition warningRows :: "csv_import \<Rightarrow> csv_row_result list" where
  "warningRows s = filter (\<lambda>r. truthy (cr_warning_th r)) (nn (map_option cp_rows (ci_preview s)) [])"

text \<open>\<open>missing.length > 0.2 * (missing.length + inFile)\<close>, a fifth of those on either side.\<close>

definition suspicious :: "nat \<Rightarrow> nat \<Rightarrow> bool" where
  "suspicious n_missing in_file \<longleftrightarrow> 5 * n_missing > n_missing + in_file"

definition MissingPeople ::
  "csv_missing_person list \<Rightarrow> nat \<Rightarrow> jstr list \<Rightarrow> jstr \<Rightarrow> csv_event view" where
  "MissingPeople missing inFile leaving reason =
     Box
      [Txt ([0xe44, 0xe21, 0xe48, 0xe2d, 0xe22, 0xe39, 0xe48, 0xe43, 0xe19, 0xe44, 0xe1f, 0xe25,
          0xe4c, 32] @ js_num (int (length missing)) @ [32, 0xe04, 0xe19, 32, 0x2014, 32, 0xe22,
          0xe49, 0xe32, 0xe22, 0xe2d, 0xe2d, 0xe01, 0xe2b, 0xe23, 0xe37, 0xe2d, 0xe44, 0xe21, 0xe48, 63]),
       Txt [0xe15, 0xe34, 0xe4a, 0xe01, 0xe40, 0xe09, 0xe1e, 0xe32, 0xe30, 0xe04, 0xe19, 0xe17, 0xe35,
           0xe48, 0xe22, 0xe49, 0xe32, 0xe22, 0xe2d, 0xe2d, 0xe01, 47, 0xe1e, 0xe49, 0xe19, 0xe2b,
           0xe19, 0xe48, 0xe27, 0xe22, 0xe08, 0xe23, 0xe34, 0xe07, 32, 0xe23, 0xe30, 0xe1a, 0xe1a,
           0xe08, 0xe30, 0xe1b, 0xe34, 0xe14, 0xe0a, 0xe37, 0xe48, 0xe2d, 0xe41, 0xe25, 0xe30, 0xe25,
           0xe1a, 0xe25, 0xe32, 0xe22, 0xe19, 0xe34, 0xe49, 0xe27, 0xe21, 0xe37, 0xe2d, 0xe2d, 0xe2d,
           0xe01, 0xe08, 0xe32, 0xe01, 0xe40, 0xe04, 0xe23, 0xe37, 0xe48, 0xe2d, 0xe07, 0xe2a, 0xe41,
           0xe01, 0xe19, 0xe40, 0xe21, 0xe37, 0xe48, 0xe2d, 0xe01, 0xe14, 0xe22, 0xe37, 0xe19, 0xe22,
           0xe31, 0xe19, 32, 0xb7, 32, 0xe04, 0xe19, 0xe17, 0xe35, 0xe48, 0xe44, 0xe21, 0xe48, 0xe15,
           0xe34, 0xe4a, 0xe01, 0xe08, 0xe30, 0xe44, 0xe21, 0xe48, 0xe16, 0xe39, 0xe01, 0xe41, 0xe15, 0xe30],
       when_v (suspicious (length missing) inFile)
         [Toned Amber [Txt [0x26a0, 0xfe0f, 32, 0xe2b, 0xe32, 0xe22, 0xe08, 0xe32, 0xe01, 0xe44,
             0xe1f, 0xe25, 0xe4c, 0xe40, 0xe01, 0xe34, 0xe19, 32, 50, 48, 37, 32, 0x2014, 32, 0xe44,
             0xe1f, 0xe25, 0xe4c, 0xe2d, 0xe32, 0xe08, 0xe44, 0xe21, 0xe48, 0xe04, 0xe23, 0xe1a, 32,
             40, 0xe40, 0xe0a, 0xe48, 0xe19, 32, 0xe2a, 0xe48, 0xe07, 0xe2d, 0xe2d, 0xe01, 0xe40,
             0xe09, 0xe1e, 0xe32, 0xe30, 0xe1a, 0xe32, 0xe07, 0xe41, 0xe1c, 0xe19, 0xe01, 41, 32,
             0xe15, 0xe23, 0xe27, 0xe08, 0xe43, 0xe2b, 0xe49, 0xe41, 0xe19, 0xe48, 0xe43, 0xe08,
             0xe01, 0xe48, 0xe2d, 0xe19, 0xe15, 0xe34, 0xe4a, 0xe01]]],
       Box (map (\<lambda>m. Box
          [Check False (cm_employee_id m \<in> set leaving) (\<lambda>b. CiToggle (cm_employee_id m)),
           Txt (missing_name m), Txt (nn (cm_branch m) [])]) missing),
       when_v (leaving \<noteq> [])
         [Txt ([0xe22, 0xe49, 0xe32, 0xe22, 0xe2d, 0xe2d, 0xe01,
             32] @ js_num (int (length leaving)) @ [32, 0xe04, 0xe19, 32, 0xb7, 32, 0xe40, 0xe2b,
             0xe15, 0xe38, 0xe1c, 0xe25]),
          Field False reason CiReason]]"

definition count_box :: "tone \<Rightarrow> int \<Rightarrow> jstr \<Rightarrow> 'e view" where
  "count_box tone n label = Toned tone [Txt (js_num n), Txt label]"

definition committed_view :: "dict \<Rightarrow> committed \<Rightarrow> csv_event view" where
  "committed_view t c =
     Box
      [Toned Green [Txt ([0x2713, 32] @
         js_replace (js_replace (t ''personnel.importCommittedMessage'') (js ''{created}'') (js_num (cd_created c)))
           (js ''{updated}'') (js_num (cd_updated c)))],
       when_v (cd_renamed c > 0 \<or> cd_failed c > 0)
         [Toned (if cd_failed c \<noteq> 0 then Amber else Green)
           [Txt (js_replace (js_replace (t ''workflow.namesSyncedResult'') (js ''{renamed}'') (js_num (cd_renamed c)))
             (js ''{failed}'') (js_num (cd_failed c)))]],
       when_v (cd_left c > 0 \<or> cd_leftFailed c \<noteq> [])
         [Toned (if cd_leftFailed c \<noteq> [] then Amber else Green)
           [Txt ([0xe22, 0xe49, 0xe32, 0xe22, 0xe2d, 0xe2d, 0xe01, 0xe41, 0xe25, 0xe49, 0xe27,
               32] @ js_num (cd_left c) @ [32, 0xe04, 0xe19] @
              (if cd_leftFailed c \<noteq> []
               then [32, 0xb7, 32, 0xe22, 0xe31, 0xe07, 0xe25, 0xe1a, 0xe08, 0xe32, 0xe01, 0xe40,
                   0xe04, 0xe23, 0xe37, 0xe48, 0xe2d, 0xe07, 0xe2a, 0xe41, 0xe01, 0xe19, 0xe44, 0xe21,
                   0xe48, 0xe2a, 0xe33, 0xe40, 0xe23, 0xe47, 0xe08, 58,
                   32] @ js_join (js '', '') (cd_leftFailed c) @
                    [32, 40, 0xe40, 0xe1b, 0xe34, 0xe14, 0xe2b, 0xe19, 0xe49, 0xe32, 0xe04, 0xe19,
                        0xe19, 0xe31, 0xe49, 0xe19, 0xe41, 0xe25, 0xe49, 0xe27, 0xe01, 0xe14, 32, 34,
                        0xe25, 0xe1a, 0xe2d, 0xe2d, 0xe01, 0xe08, 0xe32, 0xe01, 0xe40, 0xe04, 0xe23,
                        0xe37, 0xe48, 0xe2d, 0xe07, 0xe2d, 0xe35, 0xe01, 0xe04, 0xe23, 0xe31, 0xe49,
                        0xe07, 34, 41]
               else []))]],
       Btn False (t ''common.close'') CiClose]"

definition preview_view :: "dict \<Rightarrow> csv_import \<Rightarrow> csv_preview \<Rightarrow> csv_event view" where
  "preview_view t s p =
     (let m = cp_summary p in
      Box
       [count_box Blue (cs_new m) (t ''personnel.csvNewLabel''),
        count_box Amber (cs_update m) (t ''personnel.csvUpdateLabel''),
        count_box Neutral (cs_unchanged m) (t ''personnel.csvUnchangedLabel''),
        count_box Red (cs_error m) (t ''personnel.csvErrorLabel''),
        when_v (errorRows s \<noteq> []) [Toned Red (map (\<lambda>r. Txt (nn (cr_reason_th r) [])) (errorRows s))],
        (if nn (cp_missing p) [] \<noteq> []
         then MissingPeople (nn (cp_missing p) []) (length (cp_rows p)) (ci_leaving s) (ci_leaveReason s)
         else Box []),
        when_v (warningRows s \<noteq> []) [Toned Amber (map (\<lambda>r. Txt (nn (cr_warning_th r) [])) (warningRows s))],
        Btn (ci_busy s) (t ''common.cancel'') CiClose,
        Btn (ci_busy s \<or> (cs_new m = 0 \<and> cs_update m = 0 \<and> ci_leaving s = []))
          (if ci_busy s then t ''common.saving'' else t ''personnel.confirmImportButton'') CiCommit])"

text \<open>The file input offers any file while it is enabled.\<close>

definition CsvImportModal :: "dict \<Rightarrow> csv_import \<Rightarrow> csv_event view" where
  "CsvImportModal t s =
     Box
      [Txt (t ''personnel.importCsvTitle''),
       (case ci_committed s of
          Some c \<Rightarrow> committed_view t c
        | None \<Rightarrow> Box
            [Btn False (t ''personnel.downloadTemplateButton'') CiTemplate,
             when_v (truthy (ci_error s)) [Toned Red [Txt (nn (ci_error s) [])]],
             (case ci_preview s of None \<Rightarrow> Box [] | Some p \<Rightarrow> preview_view t s p)])]"

definition csv_enabled :: "dict \<Rightarrow> csv_import \<Rightarrow> csv_event \<Rightarrow> bool" where
  "csv_enabled t s e \<longleftrightarrow>
     e \<in> offers (CsvImportModal t s) \<or>
     ((\<exists>f. e = CiFile f) \<and> ci_committed s = None \<and> \<not> ci_busy s)"

text \<open>Nothing outside touches the dialog's state.\<close>

definition csv_env :: "csv_import \<Rightarrow> csv_import \<Rightarrow> bool" where
  "csv_env s s' \<longleftrightarrow> s' = s"

interpretation csv_ui: async_ui "\<lambda>s. s = csv_init" "csv_enabled t" "csv_handle t" csv_env
  for t .

section \<open>Properties\<close>

text \<open>
  The outcomes of closing a list of people: of each the answer to closing them and, where
  that succeeded, the answer to removing them from the scanners.
\<close>

definition leave_replies :: "(reply \<times> reply) list \<Rightarrow> reply list" where
  "leave_replies os = concat (map (\<lambda>(c, r). if isl c then [c] else [c, r]) os)"

definition leave_requests :: "jstr \<Rightarrow> (csv_missing_person \<times> reply \<times> reply) list \<Rightarrow> csv_request list" where
  "leave_requests reason ps =
     concat (map (\<lambda>(m, c, r).
       RqCall (api_deactivateHuman (cm_employee_id m) reason) #
       (if isl c then [] else [RqCall (api_removeFromScanner (cm_employee_id m))])) ps)"

definition not_left :: "(csv_missing_person \<times> reply \<times> reply) list \<Rightarrow> jstr list" where
  "not_left ps = map (\<lambda>(m, c, r). missing_name m) (filter (\<lambda>(m, c, r). isl c \<or> \<not> removal_clean r) ps)"

lemma leave_all_exact:
  assumes "length os = length ms"
  shows "requests_of (trace_of (leave_all reason ms left failed k s) (leave_replies os @ rs)) =
           leave_requests reason (zip ms os) @
           requests_of (trace_of (k (left + int (length (filter (\<lambda>(c, r). \<not> isl c) os)))
                                   (failed @ not_left (zip ms os)) s) rs) \<and>
         answer (leave_all reason ms left failed k s) (leave_replies os @ rs) =
           answer (k (left + int (length (filter (\<lambda>(c, r). \<not> isl c) os))) (failed @ not_left (zip ms os)) s) rs"
  using assms
proof (induction ms arbitrary: os left failed)
  case Nil
  then show ?case by (simp add: leave_replies_def leave_requests_def not_left_def)
next
  case (Cons m ms)
  then obtain c r os' where os: "os = (c, r) # os'" "length os' = length ms" by (cases os) auto
  show ?case
    using Cons.IH[OF os(2)]
    by (cases c) (simp_all add: os leave_replies_def leave_requests_def not_left_def algebra_simps)
qed

text \<open>C15: Confirming an import does exactly what was ticked. It uploads the chosen file again only
  if the preview announced new or changed people; if that upload is refused nobody is closed.
  Then it closes the ticked people of the preview in their order and asks for the removal of
  their scanner accounts exactly for those it could close. The summary counts the people
  closed, and names exactly those whom it could not close or not remove cleanly.\<close>

theorem csv_commit_exact:
  assumes "ci_file s = Some f" and "length os = length (ticked s)"
  shows "(let upload = (if hasRows s then [RqCommit f] else []);
              rs = (if hasRows s then [Inr result] else []) @ leave_replies os;
              ps = zip (ticked s) os in
          requests_of (trace_of (handleCommit t s) rs) = upload @ leave_requests (leave_reason s) ps \<and>
          (\<exists>s'. answer (handleCommit t s) rs = Some s' \<and> \<not> ci_busy s' \<and>
             ci_committed s' =
               Some (committed_of (if hasRows s then result else JNull)
                       (int (length (filter (\<lambda>(c, r). \<not> isl c) os))) (not_left ps)))) \<and>
         (hasRows s \<longrightarrow>
            trace_of (handleCommit t s) [Inl e] = [Inl (RqCommit f)] \<and>
            answer (handleCommit t s) [Inl e] =
              Some (s\<lparr>ci_busy := False, ci_error := Some (writeError e t)\<rparr>)) \<and>
         (\<forall>m. m \<in> set (ticked s) \<longleftrightarrow> m \<in> set (ci_missing s) \<and> cm_employee_id m \<in> set (ci_leaving s))"
proof -
  note exact = leave_all_exact[OF assms(2), where rs = "[]", simplified]
  have "m \<in> set (ticked s) \<longleftrightarrow> m \<in> set (ci_missing s) \<and> cm_employee_id m \<in> set (ci_leaving s)" for m
    by (auto simp: ticked_def)
  then show ?thesis
    using assms(1) by (simp add: handleCommit_def commit_rest_def commit_error_def exact Let_def)
qed

definition csv_demo :: csv_import where
  "csv_demo = csv_init\<lparr>ci_file := Some \<lparr>file_name = [97], file_text = []\<rparr>,
     ci_preview := Some \<lparr>cp_missing = Some [\<lparr>cm_branch = None, cm_display_name = [65], cm_employee_id = [66],
                                               cm_rank = None\<rparr>],
       cp_rows = [], cp_summary = \<lparr>cs_error = 0, cs_new = 1, cs_unchanged = 0, cs_update = 0\<rparr>\<rparr>,
     ci_leaving := [[66]]\<rparr>"

lemma csv_demo_facts: "ci_file csv_demo = Some \<lparr>file_name = [97], file_text = []\<rparr>" "hasRows csv_demo"
  "length (ticked csv_demo) = 1"
  by (simp_all add: csv_demo_def hasRows_def ticked_def ci_missing_def)

theorem csv_commit_exact_witness:
  "answer (handleCommit (\<lambda>k. js k) csv_demo) [Inl UnauthorizedError] =
     Some (csv_demo\<lparr>ci_busy := False, ci_error := Some (writeError UnauthorizedError (\<lambda>k. js k))\<rparr>)"
  using csv_commit_exact[OF csv_demo_facts(1), where os = "[(Inr JNull, Inr JNull)]"
      and t = "\<lambda>k. js k" and e = UnauthorizedError]
    csv_demo_facts by simp

text \<open>What the dialog may send, by kind of request.\<close>

definition csv_policy :: "csv_import \<Rightarrow> csv_request \<Rightarrow> bool" where
  "csv_policy s q \<longleftrightarrow>
     (case q of
        RqPreview f \<Rightarrow> ci_file s = Some f \<and> ci_preview s = None
      | RqCommit f \<Rightarrow> ci_file s = Some f \<and> ci_preview s \<noteq> None \<and> hasRows s
      | RqTemplate \<Rightarrow> True
      | RqCall c \<Rightarrow> (\<exists>i r. r \<noteq> [] \<and> c = api_deactivateHuman i r) \<or> (\<exists>i. c = api_removeFromScanner i))"

lemma leave_reason_nonblank: "leave_reason s \<noteq> []"
  by (simp add: leave_reason_def LEFT_REASON_def)

lemma leave_all_safe:
  "reason \<noteq> [] \<Longrightarrow> (\<And>l f s. safe (\<lambda>s. True) csv_policy (k l f s)) \<Longrightarrow>
     safe (\<lambda>s. True) csv_policy (leave_all reason ms left failed k s)"
proof (induction ms arbitrary: left failed s)
  case (Cons m ms)
  then show ?case by (auto simp: csv_policy_def split: sum.split)
qed simp

lemma offers_commit: "csv_enabled t s CiCommit \<Longrightarrow> ci_preview s \<noteq> None"
  by (auto simp: csv_enabled_def CsvImportModal_def committed_view_def split: option.splits if_splits)

lemma hasRows_busy [simp]: "hasRows (s\<lparr>ci_busy := b, ci_error := e\<rparr>) = hasRows s"
  by (simp add: hasRows_def)

text \<open>Nothing is imported unseen: whatever the user does and however the server answers, every
  upload that writes is of the file chosen last, with its preview on the screen announcing new
  or changed people, and a person is closed only with a reason that is not blank.\<close>

theorem csv_requests:
  assumes "csv_ui.ui_reach t c" and "Inl (s, q) \<in> set (log c)"
  shows "csv_policy s q"
proof -
  have "conf_ok (\<lambda>s. True) csv_policy c"
  proof (rule csv_ui.ui_invariant[OF _ _ _ assms(1)])
    fix s e
    assume en: "csv_enabled t s e"
    have rest: "safe (\<lambda>s. True) csv_policy (commit_rest s0 res s1)" for s0 res s1
      unfolding commit_rest_def by (rule leave_all_safe) (simp_all add: leave_reason_nonblank)
    show "safe (\<lambda>s. True) csv_policy (csv_handle t e s)"
      using en offers_commit[of t s]
      by (cases e)
        (auto simp: csv_handle_def handleFileChosen_def handleCommit_def downloadTemplate_def csv_policy_def
          rest Let_def split: sum.split option.split)
  qed simp_all
  with assms(2) show ?thesis by (simp add: conf_ok_def)
qed

theorem csv_requests_witness:
  "csv_policy (csv_init\<lparr>ci_file := Some \<lparr>file_name = [97], file_text = []\<rparr>, ci_busy := True\<rparr>)
     (RqPreview \<lparr>file_name = [97], file_text = []\<rparr>)"
proof -
  let ?f = "\<lparr>file_name = [97], file_text = []\<rparr>"
  have r: "csv_ui.ui_reach (\<lambda>k. js k) (start csv_init)" by (rule csv_ui.initial) simp
  have e: "csv_enabled (\<lambda>k. js k) csv_init (CiFile ?f)" by (simp add: csv_enabled_def csv_init_def)
  obtain k where "csv_handle (\<lambda>k. js k) (CiFile ?f) csv_init =
      Call (csv_init\<lparr>ci_file := Some ?f, ci_busy := True\<rparr>) (RqPreview ?f) k"
    by (simp add: csv_handle_def handleFileChosen_def csv_init_def)
  from csv_ui.reach_call[OF r start_simps(1) e this] obtain c where
    "csv_ui.ui_reach (\<lambda>k. js k) c"
    "Inl (csv_init\<lparr>ci_file := Some ?f, ci_busy := True\<rparr>, RqPreview ?f) \<in> set (log c)" by fastforce
  then show ?thesis by (rule csv_requests)
qed

end
