(* ===== verification/Personnel_Parts.thy ===== *)
theory Personnel_Parts
  imports Personnel_Lifecycle
begin

text \<open>
  The parts of \<open>frontend/src/pages/Personnel.tsx\<close> below the table: the per-row scan policy
  (\<open>QuickScanPolicy\<close>), the bar that exempts a selection (\<open>BulkExemptBar\<close>), the repair of
  scanner names (\<open>NameMismatchBar\<close>), and the stateless hub, cards, badges and rows.
\<close>

section \<open>QuickScanPolicy\<close>

record quick_policy =
  qp_auth :: auth
  qp_human :: human
  qp_busy :: bool
  qp_error :: "jstr option"

datatype qp_event = QpChange jstr

definition qp_current :: "quick_policy \<Rightarrow> jstr" where
  "qp_current s =
     (if h_scan_exempt (qp_human s) then nn (h_scan_exempt_reason (qp_human s)) [] else [])"

definition qp_change :: "dict \<Rightarrow> jstr \<Rightarrow> quick_policy \<Rightarrow> (quick_policy, call, reply, lc_effect) prog" where
  "qp_change t v s =
     Call (s\<lparr>qp_busy := True, qp_error := None\<rparr>)
       (api_bulkScanExempt [h_employee_id (qp_human s)] (v \<noteq> []) (opt_str v))
       (\<lambda>r s. case r of
           Inr res \<Rightarrow> Eff OnChanged (Ret (s\<lparr>qp_busy := False\<rparr>))
         | Inl e \<Rightarrow> Ret (s\<lparr>qp_error := Some (friendlyApiError e t), qp_busy := False\<rparr>))"

definition qp_handle :: "dict \<Rightarrow> qp_event \<Rightarrow> quick_policy \<Rightarrow> (quick_policy, call, reply, lc_effect) prog" where
  "qp_handle t e s = (case e of QpChange v \<Rightarrow> qp_change t v s)"

definition qp_options :: "dict \<Rightarrow> quick_policy \<Rightarrow> (jstr \<times> jstr) list" where
  "qp_options t s =
     ([], t ''workflow.quickRequired'') #
     map (\<lambda>r. (r, t ''workflow.quickExemptPrefix'' @ r)) EXEMPT_REASON_PRESETS @
     (if qp_current s \<noteq> [] \<and> qp_current s \<notin> set EXEMPT_REASON_PRESETS
      then [(qp_current s, t ''workflow.quickExemptPrefix'' @ qp_current s)] else [])"

definition QuickScanPolicy :: "dict \<Rightarrow> quick_policy \<Rightarrow> qp_event view" where
  "QuickScanPolicy t s =
     Box [Select (\<not> canEditRoster (qp_auth s) \<or> qp_busy s) (qp_current s) (qp_options t s) QpChange,
          when_v (truthy (qp_error s)) [Txt (nn (qp_error s) [])]]"

definition qp_init :: "quick_policy \<Rightarrow> bool" where
  "qp_init s \<longleftrightarrow> \<not> qp_busy s \<and> qp_error s = None"

definition qp_env :: "quick_policy \<Rightarrow> quick_policy \<Rightarrow> bool" where
  "qp_env s s' \<longleftrightarrow> (\<exists>a h. s' = s\<lparr>qp_auth := a, qp_human := h\<rparr>)"

lemma offers_QuickScanPolicy:
  "QpChange v \<in> offers (QuickScanPolicy t s) \<longleftrightarrow>
     canEditRoster (qp_auth s) \<and> \<not> qp_busy s \<and> v \<in> insert [] (insert (qp_current s) (set EXEMPT_REASON_PRESETS))"
proof -
  have "fst ` set (qp_options t s) = insert [] (insert (qp_current s) (set EXEMPT_REASON_PRESETS))"
    by (auto simp: qp_options_def image_Un image_image)
  then show ?thesis by (auto simp: QuickScanPolicy_def)
qed

interpretation quick_policy_ui: single_flight qp_init "\<lambda>s e. e \<in> offers (QuickScanPolicy t s)"
    "qp_handle t" qp_env qp_busy
  for t
proof unfold_locales
  fix s e
  assume "e \<in> offers (QuickScanPolicy t s)" "qp_busy s"
  then show "quiet qp_busy (qp_handle t e s)" by (cases e) (simp add: offers_QuickScanPolicy)
qed (auto simp: qp_init_def qp_env_def qp_handle_def qp_change_def split: qp_event.splits sum.splits)

section \<open>BulkExemptBar\<close>

record bulk_bar =
  bb_auth :: auth
  bb_ids :: "jstr list"
  bb_preset :: jstr
  bb_other :: jstr
  bb_busy :: bool
  bb_msg :: notice

datatype bb_event = BbPreset jstr | BbOther jstr | BbApply bool | BbClear

datatype bb_effect = BulkDone | BulkClear

definition bb_reason :: "bulk_bar \<Rightarrow> jstr" where
  "bb_reason s = (if bb_preset s = js ''__other'' then js_trim (bb_other s) else bb_preset s)"

definition bb_apply :: "dict \<Rightarrow> bool \<Rightarrow> bulk_bar \<Rightarrow> (bulk_bar, call, reply, bb_effect) prog" where
  "bb_apply t exempt s =
     Call (s\<lparr>bb_busy := True, bb_msg := None\<rparr>)
       (api_bulkScanExempt (bb_ids s) exempt (if exempt then opt_str (bb_reason s) else None))
       (\<lambda>r s. case r of
           Inr res \<Rightarrow> Eff BulkDone
             (Ret (s\<lparr>bb_msg := Some (True, js_replace (t ''workflow.bulkDone'') (js ''{n}'')
                                     (js_string (jprop res ''changed''))),
                     bb_busy := False\<rparr>))
         | Inl e \<Rightarrow> Ret (s\<lparr>bb_msg := Some (False, friendlyApiError e t), bb_busy := False\<rparr>))"

definition bb_handle :: "dict \<Rightarrow> bb_event \<Rightarrow> bulk_bar \<Rightarrow> (bulk_bar, call, reply, bb_effect) prog" where
  "bb_handle t e s =
     (case e of
        BbPreset x \<Rightarrow> Ret (s\<lparr>bb_preset := x\<rparr>)
      | BbOther x \<Rightarrow> Ret (s\<lparr>bb_other := x\<rparr>)
      | BbApply exempt \<Rightarrow> bb_apply t exempt s
      | BbClear \<Rightarrow> Eff BulkClear (Ret s))"

definition BulkExemptBar :: "dict \<Rightarrow> bulk_bar \<Rightarrow> bb_event view" where
  "BulkExemptBar t s =
     (let off = \<not> canEditRoster (bb_auth s) \<or> bb_busy s in
      Box
       [Txt (js_replace (t ''workflow.selectedCount'') (js ''{n}'') (js_num (int (length (bb_ids s))))),
        Select False (bb_preset s)
          (map (\<lambda>r. (r, r)) EXEMPT_REASON_PRESETS @ [(js ''__other'', t ''workflow.reasonOther'')]) BbPreset,
        when_v (bb_preset s = js ''__other'') [Field False (bb_other s) BbOther],
        Btn (off \<or> bb_reason s = []) (t ''workflow.bulkExempt'') (BbApply True),
        Btn off (t ''workflow.bulkRequire'') (BbApply False),
        Btn False (t ''workflow.clearSelection'') BbClear,
        when_v (\<not> canEditRoster (bb_auth s)) [Txt (t ''workflow.needsWriteWindow'')],
        notice_view (bb_msg s)])"

definition bb_init :: "bulk_bar \<Rightarrow> bool" where
  "bb_init s \<longleftrightarrow> bb_preset s = hd EXEMPT_REASON_PRESETS \<and> bb_other s = [] \<and> \<not> bb_busy s \<and> bb_msg s = None"

definition bb_env :: "bulk_bar \<Rightarrow> bulk_bar \<Rightarrow> bool" where
  "bb_env s s' \<longleftrightarrow> (\<exists>a i. s' = s\<lparr>bb_auth := a, bb_ids := i\<rparr>)"

lemma offers_BulkExemptBar:
  "e \<in> offers (BulkExemptBar t s) \<Longrightarrow>
     (\<forall>x. e = BbApply x \<longrightarrow> canEditRoster (bb_auth s) \<and> \<not> bb_busy s \<and> (x \<longrightarrow> bb_reason s \<noteq> []))"
  by (auto simp: BulkExemptBar_def Let_def split: if_splits)

interpretation bulk_ui: single_flight bb_init "\<lambda>s e. e \<in> offers (BulkExemptBar t s)"
    "bb_handle t" bb_env bb_busy
  for t
proof unfold_locales
  fix s e
  assume "e \<in> offers (BulkExemptBar t s)" "bb_busy s"
  then show "quiet bb_busy (bb_handle t e s)"
    using offers_BulkExemptBar[of e t s] by (cases e) (simp_all add: bb_handle_def)
qed (auto simp: bb_init_def bb_env_def bb_handle_def bb_apply_def split: bb_event.splits sum.splits)

text \<open>Changes of scan policies for one row and for a selection: never an exemption without a
  reason, and never a reason without an exemption.\<close>

definition exemption_call :: "jstr list \<Rightarrow> call \<Rightarrow> bool" where
  "exemption_call ids q \<longleftrightarrow>
     q = api_bulkScanExempt ids False None \<or> (\<exists>r. r \<noteq> [] \<and> q = api_bulkScanExempt ids True (Some r))"

text \<open>The two quick ways to exempt people keep the rule of the form: each request concerns the
  row's person or exactly the selection shown, by someone who may edit the roster, and carries
  a reason exactly when it exempts; one at a time.\<close>

theorem quick_exemptions:
  "(quick_policy_ui.ui_reach t c \<longrightarrow>
      orderly qp_busy (\<lambda>s q. canEditRoster (qp_auth s) \<and> exemption_call [h_employee_id (qp_human s)] q) c) \<and>
   (bulk_ui.ui_reach t d \<longrightarrow>
      orderly bb_busy (\<lambda>s q. canEditRoster (bb_auth s) \<and> exemption_call (bb_ids s) q) d)"
proof (intro conjI impI)
  assume "quick_policy_ui.ui_reach t c"
  then show "orderly qp_busy (\<lambda>s q. canEditRoster (qp_auth s) \<and> exemption_call [h_employee_id (qp_human s)] q) c"
  proof (rule quick_policy_ui.orderly)
    fix s e
    assume "e \<in> offers (QuickScanPolicy t s)"
    then show "safe (\<lambda>s. True)
       (\<lambda>s q. canEditRoster (qp_auth s) \<and> exemption_call [h_employee_id (qp_human s)] q) (qp_handle t e s)"
      by (cases e) (auto simp: offers_QuickScanPolicy qp_handle_def qp_change_def exemption_call_def opt_str_def
          split: sum.split)
  qed
next
  assume "bulk_ui.ui_reach t d"
  then show "orderly bb_busy (\<lambda>s q. canEditRoster (bb_auth s) \<and> exemption_call (bb_ids s) q) d"
  proof (rule bulk_ui.orderly)
    fix s e
    assume "e \<in> offers (BulkExemptBar t s)"
    from offers_BulkExemptBar[OF this]
    show "safe (\<lambda>s. True) (\<lambda>s q. canEditRoster (bb_auth s) \<and> exemption_call (bb_ids s) q) (bb_handle t e s)"
      by (cases e) (auto simp: bb_handle_def bb_apply_def exemption_call_def opt_str_def split: sum.split)
  qed
qed

definition bb_demo :: bulk_bar where
  "bb_demo = \<lparr>bb_auth = admin_auth, bb_ids = [[65]], bb_preset = hd EXEMPT_REASON_PRESETS, bb_other = [],
     bb_busy = False, bb_msg = None\<rparr>"

theorem quick_exemptions_witness:
  "\<exists>d. bulk_ui.ui_reach (\<lambda>k. js k) d \<and> length (log d) = 1 \<and>
       orderly bb_busy (\<lambda>s q. canEditRoster (bb_auth s) \<and> exemption_call (bb_ids s) q) d"
proof -
  have "bulk_ui.ui_reach (\<lambda>k. js k) (start bb_demo)"
    by (rule bulk_ui.initial) (simp add: bb_init_def bb_demo_def)
  moreover have "BbApply False \<in> offers (BulkExemptBar (\<lambda>k. js k) bb_demo)"
    by (simp add: BulkExemptBar_def Let_def) (simp add: bb_demo_def)
  moreover have "\<exists>s q k. bb_handle (\<lambda>k. js k) (BbApply False) bb_demo = Call s q k"
    by (simp add: bb_handle_def bb_apply_def)
  ultimately obtain d where "bulk_ui.ui_reach (\<lambda>k. js k) d" "length (log d) = 1"
    using bulk_ui.reach_call[of "\<lambda>k. js k" "start bb_demo" bb_demo "BbApply False"] by fastforce
  with quick_exemptions[of "\<lambda>k. js k" undefined d] show ?thesis by blast
qed

section \<open>NameMismatchBar\<close>

record name_mismatch =
  nm_employee_id :: jstr
  nm_display_name :: jstr
  nm_device_id :: int
  nm_device_user_id :: jstr
  nm_device_display_name :: "jstr option"
  nm_expected_name :: jstr

record mismatch_bar =
  mb_auth :: auth
  mb_list :: "name_mismatch list api_state"
  mb_busy :: bool
  mb_msg :: notice

datatype mb_event = MbSyncAll

definition mb_items :: "mismatch_bar \<Rightarrow> name_mismatch list" where
  "mb_items s = nn (as_data (mb_list s)) []"

definition fixable :: "mismatch_bar \<Rightarrow> name_mismatch list" where
  "fixable s = filter (\<lambda>m. nm_expected_name m \<noteq> []) (mb_items s)"

definition sync_result :: "dict \<Rightarrow> json \<Rightarrow> json \<Rightarrow> jstr" where
  "sync_result t renamed failed =
     js_replace (js_replace (t ''workflow.namesSyncedResult'') (js ''{renamed}'') (js_string renamed))
       (js ''{failed}'') (js_string failed)"

definition mb_syncAll :: "dict \<Rightarrow> mismatch_bar \<Rightarrow> (mismatch_bar, call, reply, lc_effect) prog" where
  "mb_syncAll t s =
     Call (s\<lparr>mb_busy := True, mb_msg := None\<rparr>) api_syncAllTerminalNames
       (\<lambda>r s. case r of
           Inr res \<Rightarrow> Eff ReloadAccounts
             (Ret (s\<lparr>mb_msg := Some (jprop res ''failed'' = JNum 0,
                               sync_result t (jprop res ''renamed'') (jprop res ''failed'')),
                     mb_busy := False\<rparr>))
         | Inl e \<Rightarrow> Ret (s\<lparr>mb_msg := Some (False, friendlyApiError e t), mb_busy := False\<rparr>))"

definition mb_handle :: "dict \<Rightarrow> mb_event \<Rightarrow> mismatch_bar \<Rightarrow> (mismatch_bar, call, reply, lc_effect) prog" where
  "mb_handle t e s = mb_syncAll t s"

definition mismatch_row :: "dict \<Rightarrow> name_mismatch \<Rightarrow> 'e view" where
  "mismatch_row t m =
     Box [Lnk (js ''/personnel/'' @ nm_employee_id m) [Txt (nm_display_name m)],
          Txt (nn (nm_device_display_name m) [0x2014] @ [32, 0x2192, 32] @
               (if nm_expected_name m \<noteq> [] then nm_expected_name m
                else t ''workflow.terminalNameNeedsEnglish''))]"

definition NameMismatchBar :: "dict \<Rightarrow> mismatch_bar \<Rightarrow> mb_event view" where
  "NameMismatchBar t s =
     (let items = mb_items s; n = length (fixable s) in
      if items = [] \<and> mb_msg s = None then Box []
      else Box
       [when_v (items \<noteq> [])
          [Txt (js_replace (t ''workflow.namesMismatchTitle'') (js ''{n}'') (js_num (int (length items)))),
           Box (map (mismatch_row t) items),
           when_v (n > 0)
             [Btn (mb_busy s \<or> \<not> canMutate (mb_auth s))
                (if mb_busy s then t ''common.saving''
                 else js_replace (t ''workflow.namesSyncAllButton'') (js ''{n}'') (js_num (int n)))
                MbSyncAll]],
        notice_view (mb_msg s)])"

definition mb_init :: "mismatch_bar \<Rightarrow> bool" where
  "mb_init s \<longleftrightarrow> mb_list s = api_idle \<and> \<not> mb_busy s \<and> mb_msg s = None"

definition mb_env :: "mismatch_bar \<Rightarrow> mismatch_bar \<Rightarrow> bool" where
  "mb_env s s' \<longleftrightarrow> (\<exists>a q. s' = s\<lparr>mb_auth := a, mb_list := q\<rparr>)"

lemma offers_NameMismatchBar:
  "e \<in> offers (NameMismatchBar t s) \<longleftrightarrow> fixable s \<noteq> [] \<and> canMutate (mb_auth s) \<and> \<not> mb_busy s"
  by (cases e) (auto simp: NameMismatchBar_def mismatch_row_def fixable_def Let_def)

interpretation mismatch_ui: single_flight mb_init "\<lambda>s e. e \<in> offers (NameMismatchBar t s)"
    "mb_handle t" mb_env mb_busy
  for t
  by unfold_locales
    (auto simp: mb_init_def mb_env_def mb_handle_def mb_syncAll_def offers_NameMismatchBar split: sum.splits)

lemma mismatch_orderly:
  "mismatch_ui.ui_reach t c \<Longrightarrow>
     orderly mb_busy (\<lambda>s q. q = api_syncAllTerminalNames \<and> fixable s \<noteq> [] \<and> canMutate (mb_auth s)) c"
  by (erule mismatch_ui.orderly)
    (auto simp: mb_handle_def mb_syncAll_def offers_NameMismatchBar fixable_def mb_items_def split: sum.splits)

section \<open>Stateless parts\<close>

definition Row :: "jstr \<Rightarrow> jstr \<Rightarrow> jstr option \<Rightarrow> 'e view" where
  "Row label val hint =
     Box [Txt label, Txt val, when_v (truthy hint) [Txt (js ''('' @ nn hint [] @ js '')'')]]"

definition TaskCard :: "jstr \<Rightarrow> jstr \<Rightarrow> (jstr \<times> 'e) option \<Rightarrow> 'e view" where
  "TaskCard title desc act =
     Box [Txt title, Txt desc,
          (case act of None \<Rightarrow> Box [] | Some (label, e) \<Rightarrow> Btn False label e)]"

record personnel_summary =
  su_active :: int
  su_inactive :: int
  su_scan_exempt :: int
  su_needs_enrollment :: int
  su_left_with_terminal_account :: int

definition hub_count :: "(personnel_summary \<Rightarrow> int) \<Rightarrow> personnel_summary option \<Rightarrow> jstr" where
  "hub_count f summary = (case summary of None \<Rightarrow> [0x2014] | Some x \<Rightarrow> js_num (f x))"

definition hub_counts :: "dict \<Rightarrow> personnel_summary option \<Rightarrow> (jstr \<times> jstr \<times> jstr) list" where
  "hub_counts t summary =
     [([], t ''workflow.countActive'', hub_count su_active summary),
      (js ''needs_enrollment'', t ''workflow.countNeedsEnroll'', hub_count su_needs_enrollment summary),
      (js ''exempt'', t ''workflow.countExempt'', hub_count su_scan_exempt summary),
      (js ''left_with_account'', t ''workflow.countLeftWithAccount'',
       hub_count su_left_with_terminal_account summary)]"

definition PersonnelHub ::
  "dict \<Rightarrow> personnel_summary option \<Rightarrow> bool \<Rightarrow> (jstr \<Rightarrow> 'e) \<Rightarrow> 'e \<Rightarrow> 'e \<Rightarrow> 'e view" where
  "PersonnelHub t summary canManage onFilter onImport onAdd =
     Box
      [Box (map (\<lambda>(key, label, n). Btn False (label @ js '' '' @ n) (onFilter key)) (hub_counts t summary)),
       Txt (t ''workflow.hubTitle''),
       TaskCard (t ''workflow.importTitle'') (t ''workflow.importDesc'')
         (if canManage then Some (t ''personnel.importCsvButton'', onImport) else None),
       TaskCard (t ''workflow.joinTitle'') (t ''workflow.joinDesc'')
         (if canManage then Some (t ''personnel.addPersonnelButton'', onAdd) else None),
       TaskCard (t ''workflow.leaveTitle'') (t ''workflow.leaveDesc'')
         (Some (t ''workflow.countLeftWithAccount'', onFilter (js ''left_with_account''))),
       TaskCard (t ''workflow.exemptTitle'') (t ''workflow.exemptDesc'')
         (Some (t ''workflow.countExempt'', onFilter (js ''exempt'')))]"

definition ScanStateBadge :: "dict \<Rightarrow> human \<Rightarrow> 'e view" where
  "ScanStateBadge t h =
     (let account = nn (h_has_active_terminal_account h) False in
      if \<not> h_active h
      then (if account then Toned Red [Txt (t ''workflow.scanLeftWithAccount'')] else Txt [0x2014])
      else if h_scan_exempt h
      then Txt (or_str (h_scan_exempt_reason h) (or_str (h_position h) [0x2014]))
      else if account then Toned Green [Txt ([0x2713, 32] @ t ''workflow.scanEnrolled'')]
      else Toned Amber [Txt (t ''workflow.scanNeeds'')])"

record branch_readiness =
  br_branch :: jstr
  br_required :: int
  br_enrolled :: int
  br_missing :: int
  br_away :: int
  br_exempt :: int
  br_percent :: int

record readiness =
  rd_total :: branch_readiness
  rd_branches :: "branch_readiness list"

text \<open>\<open>n || ""\<close>: a count that is zero is left blank.\<close>

definition nonzero :: "int \<Rightarrow> jstr" where
  "nonzero n = (if n = 0 then [] else js_num n)"

text \<open>A row can be clicked when somebody of its branch is missing.\<close>

definition readiness_row :: "(jstr \<Rightarrow> 'e) \<Rightarrow> branch_readiness \<Rightarrow> 'e view" where
  "readiness_row onPick b =
     Box [Btn (br_missing b \<le> 0) (br_branch b) (onPick (br_branch b)),
          Txt (js_num (br_required b)), Txt (js_num (br_enrolled b)), Txt (js_num (br_missing b)),
          Txt (nonzero (br_away b)), Txt (nonzero (br_exempt b))]"

definition ReadinessCard :: "dict \<Rightarrow> readiness option \<Rightarrow> (jstr \<Rightarrow> 'e) \<Rightarrow> 'e view" where
  "ReadinessCard t r onPick =
     (case r of
        None \<Rightarrow> Box []
      | Some d \<Rightarrow> Box
         ([Txt (t ''leave.readinessTitle''),
           Toned (if br_percent (rd_total d) = 100 then Green else Amber) [Txt (js_num (br_percent (rd_total d)) @ js ''%'')],
           Txt (t ''leave.readinessHint'')] @
          map Txt [t ''leave.branch'', t ''leave.readinessRequired'', t ''leave.readinessEnrolled'',
            t ''leave.readinessMissing'', t ''leave.readinessAway'', t ''workflow.scanExempt''] @
          map (readiness_row onPick) (rd_branches d)))"

end
