(* ===== verification/Personnel_Page.thy ===== *)
theory Personnel_Page
  imports Personnel_Parts
begin

text \<open>
  The pages of \<open>frontend/src/pages/Personnel.tsx\<close>: the roster (\<open>Personnel\<close>: filters,
  paging, selection, export and the dialogs it opens) and one person (\<open>HumanDetail\<close>). The
  panels they embed are theories of their own and enter as views.
\<close>

section \<open>Personnel\<close>

record personnel_page =
  pp_auth :: auth
  pp_search :: jstr
  pp_scope :: jstr
  pp_activeFilter :: jstr
  pp_scanStatus :: jstr
  pp_branch :: jstr
  pp_page :: nat
  pp_selected :: "jstr list"
  pp_showAdd :: bool
  pp_showImport :: bool
  pp_exportBusy :: bool
  pp_exportError :: "jstr option"
  pp_list :: "human page api_state"
  pp_summary :: "personnel_summary api_state"
  pp_branches :: "jstr list api_state"
  pp_readiness :: "readiness api_state"

datatype 'c pp_event =
    PpSearch jstr | PpScope jstr | PpActive jstr | PpScan jstr | PpBranch jstr | PpPickBranch jstr
  | PpPrev | PpNext | PpToggle jstr | PpTogglePage | PpExport
  | PpShowImport | PpShowAdd | PpCloseAdd | PpCloseImport | PpRefresh | PpBulkDone | PpBulkClear
  | PpPart 'c

datatype pp_effect = ReloadHumans | ReloadSummary | SaveExport string

type_synonym pp_prog = "(personnel_page, jstr, js_error + unit, pp_effect) prog"

definition limit :: nat where
  "limit = 25"

text \<open>\<open>x === "true" ? true : x === "false" ? false : undefined\<close>.\<close>

definition tri :: "jstr \<Rightarrow> bool option" where
  "tri x = (if x = js ''true'' then Some True else if x = js ''false'' then Some False else None)"

definition humans_query :: "personnel_page \<Rightarrow> call" where
  "humans_query s = api_humans
     [(''limit'', JNum (int limit)),
      (''offset'', JNum (int (pp_page s * limit))),
      (''search'', j_opt JStr (opt_str (pp_search s))),
      (''production_scope'', j_opt JBool (tri (pp_scope s))),
      (''active'', j_opt JBool (tri (pp_activeFilter s))),
      (''scan_status'', j_opt JStr (opt_str (pp_scanStatus s))),
      (''branch'', j_opt JStr (opt_str (pp_branch s)))]"

definition pp_items :: "personnel_page \<Rightarrow> human list" where
  "pp_items s = nn (map_option pg_items (as_data (pp_list s))) []"

definition pp_total :: "personnel_page \<Rightarrow> nat" where
  "pp_total s = nat (nn (map_option pg_total (as_data (pp_list s))) 0)"

definition pageIds :: "personnel_page \<Rightarrow> jstr list" where
  "pageIds s = map h_employee_id (filter h_active (pp_items s))"

definition allPageSelected :: "personnel_page \<Rightarrow> bool" where
  "allPageSelected s \<longleftrightarrow> pageIds s \<noteq> [] \<and> list_all (\<lambda>i. i \<in> set (pp_selected s)) (pageIds s)"

definition toggle_page :: "personnel_page \<Rightarrow> jstr list" where
  "toggle_page s =
     (if allPageSelected s then foldl (\<lambda>sel i. set_delete i sel) (pp_selected s) (pageIds s)
      else foldl (\<lambda>sel i. set_add i sel) (pp_selected s) (pageIds s))"

text \<open>The number of pages, \<open>Math.ceil(total / limit)\<close>.\<close>

definition page_count :: "nat \<Rightarrow> nat" where
  "page_count cnt = (cnt + limit - 1) div limit"

definition applyScanFilter :: "jstr \<Rightarrow> personnel_page \<Rightarrow> personnel_page" where
  "applyScanFilter x s = s\<lparr>pp_scanStatus := x, pp_activeFilter := [], pp_page := 0\<rparr>"

definition handleExport :: "dict \<Rightarrow> personnel_page \<Rightarrow> pp_prog" where
  "handleExport t s =
     Call (s\<lparr>pp_exportBusy := True, pp_exportError := None\<rparr>) (exportHumansCsv_path (tri (pp_activeFilter s)))
       (\<lambda>r s. case r of
           Inr blob \<Rightarrow> Eff (SaveExport ''personnel_export.csv'') (Ret (s\<lparr>pp_exportBusy := False\<rparr>))
         | Inl e \<Rightarrow> Ret (s\<lparr>pp_exportError := Some (friendlyApiError e t), pp_exportBusy := False\<rparr>))"

text \<open>An event of an embedded panel changes that panel's own state only.\<close>

definition pp_handle :: "dict \<Rightarrow> 'c pp_event \<Rightarrow> personnel_page \<Rightarrow> pp_prog" where
  "pp_handle t e s =
     (case e of
        PpSearch x \<Rightarrow> Ret (s\<lparr>pp_search := x, pp_page := 0\<rparr>)
      | PpScope x \<Rightarrow> Ret (s\<lparr>pp_scope := x, pp_page := 0\<rparr>)
      | PpActive x \<Rightarrow> Ret (s\<lparr>pp_activeFilter := x, pp_page := 0\<rparr>)
      | PpScan x \<Rightarrow> Ret (applyScanFilter x s)
      | PpBranch x \<Rightarrow> Ret (s\<lparr>pp_branch := x, pp_page := 0\<rparr>)
      | PpPickBranch b \<Rightarrow> Ret (s\<lparr>pp_scanStatus := js ''needs_enrollment'', pp_activeFilter := [],
                               pp_branch := (if b = [0x2014] then [] else b), pp_page := 0\<rparr>)
      | PpPrev \<Rightarrow> Ret (s\<lparr>pp_page := pp_page s - 1\<rparr>)
      | PpNext \<Rightarrow> Ret (s\<lparr>pp_page := pp_page s + 1\<rparr>)
      | PpToggle i \<Rightarrow> Ret (s\<lparr>pp_selected := set_toggle i (pp_selected s)\<rparr>)
      | PpTogglePage \<Rightarrow> Ret (s\<lparr>pp_selected := toggle_page s\<rparr>)
      | PpExport \<Rightarrow> handleExport t s
      | PpShowImport \<Rightarrow> Ret (s\<lparr>pp_showImport := True\<rparr>)
      | PpShowAdd \<Rightarrow> Ret (s\<lparr>pp_showAdd := True\<rparr>)
      | PpCloseAdd \<Rightarrow> Ret (s\<lparr>pp_showAdd := False\<rparr>)
      | PpCloseImport \<Rightarrow> Ret (s\<lparr>pp_showImport := False\<rparr>)
      | PpRefresh \<Rightarrow> effs [ReloadHumans, ReloadSummary] (Ret s)
      | PpBulkDone \<Rightarrow> effs [ReloadHumans, ReloadSummary] (Ret (s\<lparr>pp_selected := []\<rparr>))
      | PpBulkClear \<Rightarrow> Ret (s\<lparr>pp_selected := []\<rparr>)
      | PpPart c \<Rightarrow> Ret s)"

text \<open>One row; \<open>quick h\<close> is the row's \<open>QuickScanPolicy\<close>.\<close>

definition personnel_row ::
  "dict \<Rightarrow> (human \<Rightarrow> 'c view) \<Rightarrow> personnel_page \<Rightarrow> human \<Rightarrow> 'c pp_event view" where
  "personnel_row t quick s h =
     (let manage = canManagePersonnel (pp_auth s) in
      Box
       [when_v manage
          [Check (\<not> h_active h) (h_employee_id h \<in> set (pp_selected s)) (\<lambda>b. PpToggle (h_employee_id h))],
        Lnk (js ''/personnel/'' @ h_employee_id h) [Txt (h_display_name h)],
        Txt (if truthy (h_english_name h) then nn (h_english_name h) [] else t ''personnel.notSet''),
        Txt (nn (h_rank h) [0x2014]),
        (let a = Option.bind (h_rank_metadata h) rm_rank_en_abbreviation in
         when_v (truthy a) [Txt (js ''('' @ nn a [] @ js '')'')]),
        Txt (nn (h_position h) [0x2014]),
        Txt (nn (h_branch h) [0x2014]),
        ScopeBadge (h_production_scope h),
        (if manage \<and> h_active h
         then Box [map_view PpPart (quick h),
                   when_v (nn (h_has_active_terminal_account h) False)
                     [Txt ([0x2713, 32] @ t ''workflow.scanEnrolled'')]]
         else ScanStateBadge t h),
        Txt (if h_active h then t ''common.active'' else t ''common.inactive'')])"

definition pager :: "dict \<Rightarrow> nat \<Rightarrow> nat \<Rightarrow> 'c pp_event view" where
  "pager t pg cnt =
     Box
      [Txt (t ''common.showing'' @ js '' '' @ js_num (int (pg * limit + 1)) @ [0x2013] @
            js_num (int (min ((pg + 1) * limit) cnt)) @ js '' '' @ t ''common.of'' @ js '' '' @ js_num (int cnt)),
       Btn (pg = 0) (t ''common.back'') PpPrev,
       Txt (t ''common.page'' @ js '' '' @ js_num (int (pg + 1)) @ js '' '' @ t ''common.of'' @ js '' '' @
            js_num (int (max 1 (page_count cnt)))),
       Btn (page_count cnt \<le> pg + 1) (t ''common.next'') PpNext]"

definition personnel_table ::
  "dict \<Rightarrow> (human \<Rightarrow> 'c view) \<Rightarrow> personnel_page \<Rightarrow> 'c pp_event view" where
  "personnel_table t quick s =
     Box
      [when_v (canManagePersonnel (pp_auth s)) [Check False (allPageSelected s) (\<lambda>b. PpTogglePage)],
       Box (map Txt [t ''personnel.thaiName'', t ''personnel.englishName'', t ''personnel.rank'',
          t ''workflow.positionCol'', t ''personnel.branch'', t ''personnel.scope'', t ''workflow.colScan'',
          t ''common.status'']),
       Box (map (personnel_row t quick s) (pp_items s)),
       pager t (pp_page s) (pp_total s)]"

definition personnel_toolbar :: "dict \<Rightarrow> personnel_page \<Rightarrow> 'c pp_event view" where
  "personnel_toolbar t s =
     Box
      [Field False (pp_search s) PpSearch,
       Select False (pp_scope s)
         [([], t ''personnel.allScopes''), (js ''true'', t ''personnel.productionScope''),
          (js ''false'', t ''personnel.excludedScope'')] PpScope,
       Select False (pp_activeFilter s)
         [([], t ''personnel.filterAll''), (js ''true'', t ''personnel.filterActiveOnly''),
          (js ''false'', t ''personnel.filterInactiveOnly'')] PpActive,
       Select False (pp_scanStatus s)
         [([], t ''workflow.filterScanAll''), (js ''needs_enrollment'', t ''workflow.scanNeeds''),
          (js ''enrolled'', t ''workflow.scanEnrolled''), (js ''exempt'', t ''workflow.scanExempt''),
          (js ''left_with_account'', t ''workflow.scanLeftWithAccount'')] PpScan,
       Select False (pp_branch s)
         (([], t ''workflow.allBranches'') # map (\<lambda>b. (b, b)) (nn (as_data (pp_branches s)) [])) PpBranch]"

text \<open>The whole page, with its panels: the mismatch bar, the bulk bar, the two dialogs.\<close>

definition Personnel ::
  "dict \<Rightarrow> (human \<Rightarrow> 'c view) \<Rightarrow> 'c view \<Rightarrow> 'c view \<Rightarrow> 'c view \<Rightarrow> 'c view \<Rightarrow> personnel_page \<Rightarrow> 'c pp_event view" where
  "Personnel t quick mismatch bulk add_dialog import_dialog s =
     (let manage = canManagePersonnel (pp_auth s); q = pp_list s in
      Box
       [Txt (t ''personnel.title''), Txt (t ''personnel.subtitle''),
        Txt (case as_data q of None \<Rightarrow> t ''common.loading''
             | Some p \<Rightarrow> js_num (pg_total p) @ js '' '' @ t ''common.results''),
        Btn (pp_exportBusy s) (t ''personnel.exportCsvButton'') PpExport,
        when_v manage
          [Btn False (t ''personnel.importCsvButton'') PpShowImport,
           Btn False (t ''personnel.addPersonnelButton'') PpShowAdd],
        PersonnelHub t (as_data (pp_summary s)) manage PpScan PpShowImport PpShowAdd,
        when_v manage [map_view PpPart mismatch],
        ReadinessCard t (as_data (pp_readiness s)) PpPickBranch,
        personnel_toolbar t s,
        when_v (manage \<and> pp_selected s \<noteq> []) [map_view PpPart bulk],
        (if as_loading q then Loading t
         else if truthy (as_error q) then ErrorBanner t (nn (as_error q) [])
         else personnel_table t quick s),
        when_v (truthy (pp_exportError s)) [ErrorBanner t (nn (pp_exportError s) [])],
        when_v (pp_showAdd s) [map_view PpPart add_dialog],
        when_v (pp_showImport s) [map_view PpPart import_dialog]])"

definition pp_init :: "personnel_page \<Rightarrow> bool" where
  "pp_init s \<longleftrightarrow> pp_search s = [] \<and> pp_scope s = js ''true'' \<and> pp_activeFilter s = [] \<and> pp_scanStatus s = [] \<and>
     pp_branch s = [] \<and> pp_page s = 0 \<and> pp_selected s = [] \<and> \<not> pp_showAdd s \<and> \<not> pp_showImport s \<and>
     \<not> pp_exportBusy s \<and> pp_exportError s = None \<and> pp_list s = api_idle"

text \<open>The view's own events, and what its panels call back.\<close>

definition pp_enabled ::
  "dict \<Rightarrow> (human \<Rightarrow> 'c view) \<Rightarrow> 'c view \<Rightarrow> 'c view \<Rightarrow> 'c view \<Rightarrow> 'c view \<Rightarrow> personnel_page \<Rightarrow> 'c pp_event \<Rightarrow> bool" where
  "pp_enabled t quick mismatch bulk add_dialog import_dialog s e \<longleftrightarrow>
     e \<in> offers (Personnel t quick mismatch bulk add_dialog import_dialog s) \<or>
     (e = PpCloseAdd \<and> pp_showAdd s) \<or> (e = PpCloseImport \<and> pp_showImport s) \<or> e = PpRefresh \<or>
     (e \<in> {PpBulkDone, PpBulkClear} \<and> pp_selected s \<noteq> [])"

definition pp_env :: "personnel_page \<Rightarrow> personnel_page \<Rightarrow> bool" where
  "pp_env s s' \<longleftrightarrow> (\<exists>a q u b r. s' = s\<lparr>pp_auth := a, pp_list := q, pp_summary := u, pp_branches := b, pp_readiness := r\<rparr>)"

subsection \<open>Properties\<close>

lemma offers_ScanStateBadge [simp]: "offers (ScanStateBadge t h) = {}"
  by (simp add: ScanStateBadge_def Let_def)

lemma offers_ScopeBadge [simp]: "offers (ScopeBadge b) = {}"
  by (simp add: ScopeBadge_def Badge_def)

lemma pp_settles: "\<not> pp_exportBusy s \<Longrightarrow> settles pp_exportBusy (pp_handle t e s)"
  by (cases e) (auto simp: pp_handle_def handleExport_def applyScanFilter_def split: sum.split)

lemma no_export:
  "PpExport \<notin> offers (personnel_row t quick s h)"
  "PpExport \<notin> offers (pager t pg n)"
  "PpExport \<notin> offers (personnel_toolbar t s)"
  "PpExport \<notin> offers (ReadinessCard t r PpPickBranch)"
  "PpExport \<notin> offers (PersonnelHub t u m PpScan PpShowImport PpShowAdd)"
  by (auto simp: personnel_row_def offers_map Let_def split: if_splits)
    (auto simp: pager_def personnel_toolbar_def ReadinessCard_def readiness_row_def PersonnelHub_def
       TaskCard_def hub_counts_def split: if_splits option.splits)

lemma export_not_busy:
  "pp_enabled t quick mismatch bulk add_dialog import_dialog s PpExport \<Longrightarrow> \<not> pp_exportBusy s"
  by (auto simp: pp_enabled_def Personnel_def personnel_table_def no_export offers_map Loading_def
      ErrorBanner_def Let_def split: if_splits)

interpretation personnel_ui: single_flight pp_init
    "pp_enabled t quick mismatch bulk add_dialog import_dialog" "pp_handle t" pp_env pp_exportBusy
  for t quick mismatch bulk add_dialog import_dialog
proof unfold_locales
  fix s e
  assume en: "pp_enabled t quick mismatch bulk add_dialog import_dialog s e" "pp_exportBusy s"
  have "e \<noteq> PpExport" using en export_not_busy[of t quick mismatch bulk add_dialog import_dialog s] by blast
  with en(2) show "quiet pp_exportBusy (pp_handle t e s)"
    by (cases e) (auto simp: pp_handle_def applyScanFilter_def)
qed (auto simp: pp_init_def pp_env_def pp_settles)

lemma page_count_less: "p < page_count n \<longleftrightarrow> p * limit < n"
proof -
  have "p < (n + 24) div 25 \<longleftrightarrow> p * 25 + 25 \<le> n + 24"
    using less_eq_div_iff_mult_less_eq[of 25 "Suc p" "n + 24"] by (simp add: Suc_le_eq algebra_simps)
  then show ?thesis by (auto simp: page_count_def limit_def)
qed

lemma page_of_result:
  "i < n \<longleftrightarrow> (\<exists>!p. p < page_count n \<and> p * limit \<le> i \<and> i < min ((p + 1) * limit) n)"
proof
  assume i: "i < n"
  have d: "i div 25 * 25 \<le> i" "i < (i div 25 + 1) * 25"
    by presburger+
  show "\<exists>!p. p < page_count n \<and> p * limit \<le> i \<and> i < min ((p + 1) * limit) n"
  proof (rule ex1I[of _ "i div 25"])
    show "i div 25 < page_count n \<and> i div 25 * limit \<le> i \<and> i < min ((i div 25 + 1) * limit) n"
      using i d by (simp add: page_count_less limit_def)
    fix p
    assume "p < page_count n \<and> p * limit \<le> i \<and> i < min ((p + 1) * limit) n"
    then show "p = i div 25" by (simp add: limit_def) (metis div_nat_eqI mult.commute add.commute mult_Suc)
  qed
qed auto

text \<open>C33: Paging shows every result once: page \<open>p\<close> asks for the 25 results from \<open>25 p\<close> on; Next is
  offered exactly if results remain after this page and Back exactly on later pages, and the
  pages offered cover every result exactly once.\<close>

theorem paging_exact:
  "(PpNext \<in> offers (pager t pg n :: 'c pp_event view) \<longleftrightarrow> (pg + 1) * limit < n) \<and>
   (PpPrev \<in> offers (pager t pg n :: 'c pp_event view) \<longleftrightarrow> 0 < pg) \<and>
   (i < n \<longleftrightarrow> (\<exists>!p. p < page_count n \<and> p * limit \<le> i \<and> i < min ((p + 1) * limit) n)) \<and>
   call_path (humans_query (s\<lparr>pp_page := pg\<rparr>)) = js ''/api/v1/humans'' @
     qs [(''limit'', JNum 25), (''offset'', JNum (int (pg * limit))),
      (''search'', j_opt JStr (opt_str (pp_search s))),
      (''production_scope'', j_opt JBool (tri (pp_scope s))),
      (''active'', j_opt JBool (tri (pp_activeFilter s))),
      (''scan_status'', j_opt JStr (opt_str (pp_scanStatus s))),
      (''branch'', j_opt JStr (opt_str (pp_branch s)))]"
proof -
  have "page_count n \<le> pg + 1 \<longleftrightarrow> \<not> (pg + 1) * limit < n"
    unfolding page_count_less[of "pg + 1" n, symmetric] by (rule linorder_not_less[symmetric])
  then show ?thesis
    using page_of_result[of i n]
    by (auto simp: pager_def humans_query_def api_humans_def api_get_def limit_def)
qed

text \<open>A filter never shows the middle of its results: whatever a user changes in the toolbar,
  the hub or the readiness card, the list starts again at its first page, the selection stays,
  and no filter is changed but the ones that event stands for.\<close>

theorem filters_reset_page:
  "list_all (\<lambda>(e, s'). pp_handle t e s = Ret s' \<and> pp_page s' = 0 \<and> pp_selected s' = pp_selected s)
     [(PpSearch x, s\<lparr>pp_search := x, pp_page := 0\<rparr>),
      (PpScope x, s\<lparr>pp_scope := x, pp_page := 0\<rparr>),
      (PpActive x, s\<lparr>pp_activeFilter := x, pp_page := 0\<rparr>),
      (PpScan x, s\<lparr>pp_scanStatus := x, pp_activeFilter := [], pp_page := 0\<rparr>),
      (PpBranch x, s\<lparr>pp_branch := x, pp_page := 0\<rparr>),
      (PpPickBranch x, s\<lparr>pp_scanStatus := js ''needs_enrollment'', pp_activeFilter := [],
         pp_branch := if x = [0x2014] then [] else x, pp_page := 0\<rparr> :: personnel_page)]"
  by (simp add: pp_handle_def applyScanFilter_def)

lemma fold_add: "set (foldl (\<lambda>sel i. set_add i sel) sel ids) = set sel \<union> set ids"
  "distinct sel \<Longrightarrow> distinct (foldl (\<lambda>sel i. set_add i sel) sel ids)"
  by (induction ids arbitrary: sel) auto

lemma fold_delete: "set (foldl (\<lambda>sel i. set_delete i sel) sel ids) = set sel - set ids"
  "distinct sel \<Longrightarrow> distinct (foldl (\<lambda>sel i. set_delete i sel) sel ids)"
  by (induction ids arbitrary: sel) auto

lemma pp_handle_inv:
  "distinct (pp_selected s) \<Longrightarrow>
     safe (\<lambda>s. distinct (pp_selected s)) (\<lambda>s q. q = exportHumansCsv_path (tri (pp_activeFilter s)))
       (pp_handle t e s)"
  by (cases e) (auto simp: pp_handle_def handleExport_def applyScanFilter_def toggle_page_def fold_add fold_delete
      split: sum.split)

text \<open>The export asks for the people of the active filter, one download at a time.\<close>

lemma personnel_reachable:
  assumes "personnel_ui.ui_reach TYPE('c) t quick mismatch bulk add_dialog import_dialog c"
  shows "orderly pp_exportBusy (\<lambda>s q. q = exportHumansCsv_path (tri (pp_activeFilter s))) c"
    "distinct (pp_selected (st c))"
proof -
  note rule = personnel_ui.orderly_inv[where I = "\<lambda>s. distinct (pp_selected s)", OF assms]
  show "orderly pp_exportBusy (\<lambda>s q. q = exportHumansCsv_path (tri (pp_activeFilter s))) c"
    by (rule rule(1)) (auto simp: pp_init_def pp_env_def pp_handle_inv)
  show "distinct (pp_selected (st c))"
    by (rule rule(2)) (auto simp: pp_init_def pp_env_def intro: pp_handle_inv)
qed

text \<open>Selecting people for a bulk change: on every reachable page nobody is selected twice; the
  header box selects the whole page, or clears it if all of it was selected, and touches nobody
  outside the page; a row's box turns exactly that person; only active people can be ticked;
  and once a bulk change was done nobody is selected.\<close>

theorem selection_exact:
  assumes "personnel_ui.ui_reach TYPE('c) t quick mismatch bulk add_dialog import_dialog c" and "s = st c"
  shows "distinct (pp_selected s) \<and>
         set (toggle_page s) =
           (if allPageSelected s then set (pp_selected s) - set (pageIds s)
            else set (pp_selected s) \<union> set (pageIds s)) \<and>
         (i \<in> set (set_toggle i (pp_selected s)) \<longleftrightarrow> i \<notin> set (pp_selected s)) \<and>
         set (set_toggle i (pp_selected s)) - {i} = set (pp_selected s) - {i} \<and>
         (\<forall>h. PpToggle (h_employee_id h) \<in> offers (personnel_row t (\<lambda>h. Box [] :: 'c view) s h) \<longleftrightarrow>
            canManagePersonnel (pp_auth s) \<and> h_active h) \<and>
         pp_selected (state_of (pp_handle t (PpBulkDone :: 'c pp_event) s)) = []"
proof -
  have "PpToggle (h_employee_id h) \<in> offers (personnel_row t (\<lambda>h. Box [] :: 'c view) s h) \<longleftrightarrow>
      canManagePersonnel (pp_auth s) \<and> h_active h" for h
    by (auto simp: personnel_row_def Let_def)
  moreover have "set (set_toggle i (pp_selected s)) - {i} = set (pp_selected s) - {i}" by auto
  moreover have "distinct (pp_selected s)" using personnel_reachable(2)[OF assms(1)] assms(2) by simp
  ultimately show ?thesis
    by (auto simp: toggle_page_def fold_add fold_delete pp_handle_def)
qed

definition pp_demo :: personnel_page where
  "pp_demo = \<lparr>pp_auth = admin_auth, pp_search = [], pp_scope = js ''true'', pp_activeFilter = [],
     pp_scanStatus = [], pp_branch = [], pp_page = 0, pp_selected = [], pp_showAdd = False,
     pp_showImport = False, pp_exportBusy = False, pp_exportError = None, pp_list = api_idle,
     pp_summary = api_idle, pp_branches = api_idle, pp_readiness = api_idle\<rparr>"

theorem selection_exact_witness:
  "set (toggle_page (pp_demo\<lparr>pp_list := api_idle\<lparr>as_data :=
      Some \<lparr>pg_items = [sample_human], pg_total = 1, pg_limit = 25, pg_offset = 0\<rparr>\<rparr>\<rparr>)) = {js ''e1''}"
proof -
  let ?t = "\<lambda>k. js k" and ?b = "Box [] :: unit view"
  let ?s = "pp_demo\<lparr>pp_list := api_idle\<lparr>as_data :=
      Some \<lparr>pg_items = [sample_human], pg_total = 1, pg_limit = 25, pg_offset = 0\<rparr>\<rparr>\<rparr>"
  have "personnel_ui.ui_reach TYPE(unit) ?t (\<lambda>h. ?b) ?b ?b ?b ?b (start pp_demo)"
    by (rule personnel_ui.initial) (simp add: pp_init_def pp_demo_def)
  moreover have "pp_env pp_demo ?s" unfolding pp_env_def
    by (rule exI[of _ "pp_auth pp_demo"], rule exI[of _ "pp_list ?s"], rule exI[of _ "pp_summary pp_demo"],
        rule exI[of _ "pp_branches pp_demo"], rule exI[of _ "pp_readiness pp_demo"]) simp
  ultimately obtain c where "personnel_ui.ui_reach TYPE(unit) ?t (\<lambda>h. ?b) ?b ?b ?b ?b c" "?s = st c"
    using personnel_ui.reach_env[of ?t "\<lambda>h. ?b" ?b ?b ?b ?b "start pp_demo" ?s] by auto
  from selection_exact[OF this] show ?thesis
    by (simp add: pageIds_def pp_items_def allPageSelected_def pp_demo_def sample_human_def)
qed

subsection \<open>The selection as a set\<close>

text \<open>The specification: the selected people are a set, changed by five events.\<close>

fun selection_spec :: "jstr set \<Rightarrow> 'c pp_event \<Rightarrow> jstr set \<Rightarrow> jstr set" where
  "selection_spec ids (PpToggle i) S = (if i \<in> S then S - {i} else insert i S)"
| "selection_spec ids PpTogglePage S = (if ids \<noteq> {} \<and> ids \<subseteq> S then S - ids else S \<union> ids)"
| "selection_spec ids PpBulkDone S = {}"
| "selection_spec ids PpBulkClear S = {}"
| "selection_spec ids e S = S"

text \<open>The list of identifiers implements the set: whatever the replies, the list after an event
  stands for the set the specification gives, holds nobody twice, and a run of events on
  pages of any content stands for the run of the specification.\<close>

fun run_events :: "dict \<Rightarrow> (human page api_state \<times> 'c pp_event \<times> (js_error + unit) list) list \<Rightarrow> personnel_page \<Rightarrow>
    personnel_page option" where
  "run_events t [] s = Some s"
| "run_events t ((q, e, rs) # es) s =
     Option.bind (answer (pp_handle t e (s\<lparr>pp_list := q\<rparr>)) rs) (run_events t es)"

fun run_spec :: "(human page api_state \<times> 'c pp_event \<times> (js_error + unit) list) list \<Rightarrow> jstr set \<Rightarrow> jstr set" where
  "run_spec [] S = S"
| "run_spec ((q, e, rs) # es) S =
     run_spec es (selection_spec (h_employee_id ` {h \<in> set (nn (map_option pg_items (as_data q)) []). h_active h}) e S)"

lemma selection_step:
  assumes "answer (pp_handle t e s) rs = Some s'" and "distinct (pp_selected s)"
  shows "set (pp_selected s') = selection_spec (set (pageIds s)) e (set (pp_selected s)) \<and> distinct (pp_selected s')"
  using assms
  by (cases e; cases rs)
    (auto simp: pp_handle_def handleExport_def applyScanFilter_def toggle_page_def allPageSelected_def fold_add
      fold_delete list_all_iff split: sum.splits if_splits)

theorem selection_refines_set:
  assumes "run_events t es s = Some s'" and "distinct (pp_selected s)"
  shows "set (pp_selected s') = run_spec es (set (pp_selected s)) \<and> distinct (pp_selected s')"
  using assms
proof (induction es arbitrary: s)
  case (Cons x es)
  obtain q e rs where x: "x = (q, e, rs)" by (cases x) auto
  then obtain m where m: "answer (pp_handle t e (s\<lparr>pp_list := q\<rparr>)) rs = Some m" "run_events t es m = Some s'"
    using Cons.prems(1) by (auto simp: bind_eq_Some_conv)
  have "set (pageIds (s\<lparr>pp_list := q\<rparr>)) =
      h_employee_id ` {h \<in> set (nn (map_option pg_items (as_data q)) []). h_active h}"
    by (simp add: pageIds_def pp_items_def)
  with selection_step[OF m(1)] Cons.prems(2) Cons.IH[OF m(2)] x show ?case by simp
qed simp

theorem selection_refines_set_witness:
  "\<exists>s'. run_events js [(api_idle\<lparr>as_data := Some \<lparr>pg_items = [sample_human], pg_total = 1, pg_limit = 25,
         pg_offset = 0\<rparr>\<rparr>, PpTogglePage :: unit pp_event, []), (api_idle, PpToggle [66], [])] pp_demo = Some s' \<and>
     set (pp_selected s') = {js ''e1'', [66]}"
proof -
  let ?es = "[(api_idle\<lparr>as_data := Some \<lparr>pg_items = [sample_human], pg_total = 1, pg_limit = 25,
         pg_offset = 0\<rparr>\<rparr>, PpTogglePage :: unit pp_event, []), (api_idle, PpToggle [66], [])]"
  have "\<exists>s'. run_events js ?es pp_demo = Some s'" by (simp add: pp_handle_def)
  then obtain s' where r: "run_events js ?es pp_demo = Some s'" by blast
  have "distinct (pp_selected pp_demo)" by (simp add: pp_demo_def)
  from selection_refines_set[OF r this] have "set (pp_selected s') = {js ''e1'', [66]}"
    by (auto simp: pp_demo_def sample_human_def js_eval of_char_def split: if_splits)
  with r show ?thesis by blast
qed

text \<open>The result of a bulk change is never read: the bar shows it only while somebody is
  selected, and the change clears the selection before it, so after a successful change the
  page is the same whatever the bar has to say.\<close>

theorem bulk_result_unseen:
  "trace_of (bb_handle t (BbApply x) b) [Inr res] =
     [Inl (api_bulkScanExempt (bb_ids b) x (if x then opt_str (bb_reason b) else None)), Inr BulkDone] \<and>
   (let s' = state_of (pp_handle t (PpBulkDone :: 'c pp_event) s) in
    Personnel t quick mismatch bar add_dialog import_dialog s' =
    Personnel t quick mismatch bar' add_dialog import_dialog s')"
  by (simp add: bb_handle_def bb_apply_def pp_handle_def Personnel_def when_v_def Let_def)

section \<open>HumanDetail\<close>

record human_detail =
  hd_employeeId :: "jstr option"
  hd_auth :: auth
  hd_query :: "human api_state"
  hd_showEdit :: bool
  hd_editingEnglish :: bool
  hd_englishInput :: jstr
  hd_saveBusy :: bool
  hd_saveError :: "jstr option"
  hd_saveSuccess :: bool

datatype 'c hd_event =
    HdShowEdit | HdCloseEdit | HdReload | HdStartEdit | HdInput jstr | HdSave | HdCancel | HdPart 'c

datatype hd_effect = ReloadHuman

type_synonym hd_prog = "(human_detail, call, reply, hd_effect) prog"

text \<open>The name is misleading in the source: OPERATOR counts as well.\<close>

definition hd_isAdmin :: "auth \<Rightarrow> bool" where
  "hd_isAdmin a \<longleftrightarrow> (\<exists>me. au_me a = Some me \<and> (me_role me = js ''ADMIN'' \<or> me_role me = js ''OPERATOR''))"

definition startEdit :: "human_detail \<Rightarrow> human_detail" where
  "startEdit s = s\<lparr>hd_englishInput := nn (Option.bind (as_data (hd_query s)) h_english_name) [],
     hd_editingEnglish := True, hd_saveError := None, hd_saveSuccess := False\<rparr>"

definition handleSaveEnglish :: "dict \<Rightarrow> human_detail \<Rightarrow> hd_prog" where
  "handleSaveEnglish t s =
     (if \<not> truthy (hd_employeeId s) then Ret s
      else Call (s\<lparr>hd_saveBusy := True, hd_saveError := None\<rparr>)
        (api_updateHumanEnglishName (nn (hd_employeeId s) []) (opt_str (js_trim (hd_englishInput s))))
        (\<lambda>r s. case r of
            Inr res \<Rightarrow> Eff ReloadHuman
              (Ret (s\<lparr>hd_saveSuccess := True, hd_editingEnglish := False, hd_saveBusy := False\<rparr>))
          | Inl e \<Rightarrow> Ret (s\<lparr>hd_saveError := Some (writeError e t), hd_saveBusy := False\<rparr>)))"

definition hd_handle :: "dict \<Rightarrow> 'c hd_event \<Rightarrow> human_detail \<Rightarrow> hd_prog" where
  "hd_handle t e s =
     (case e of
        HdShowEdit \<Rightarrow> Ret (s\<lparr>hd_showEdit := True\<rparr>)
      | HdCloseEdit \<Rightarrow> Ret (s\<lparr>hd_showEdit := False\<rparr>)
      | HdReload \<Rightarrow> Eff ReloadHuman (Ret s)
      | HdStartEdit \<Rightarrow> Ret (startEdit s)
      | HdInput x \<Rightarrow> Ret (s\<lparr>hd_englishInput := x\<rparr>)
      | HdSave \<Rightarrow> handleSaveEnglish t s
      | HdCancel \<Rightarrow> Ret (s\<lparr>hd_editingEnglish := False\<rparr>)
      | HdPart c \<Rightarrow> Ret s)"

definition english_row :: "dict \<Rightarrow> human_detail \<Rightarrow> human \<Rightarrow> 'c hd_event view" where
  "english_row t s h =
     (if hd_editingEnglish s
      then Box
        [Field (hd_saveBusy s) (hd_englishInput s) HdInput,
         Btn (hd_saveBusy s) (if hd_saveBusy s then t ''common.saving'' else t ''common.save'') HdSave,
         Btn (hd_saveBusy s) (t ''common.cancel'') HdCancel]
      else Box
        [Txt (if truthy (h_english_name h) then nn (h_english_name h) [] else t ''personnel.notSet''),
         when_v (hd_isAdmin (hd_auth s)) [Btn (\<not> canEditRoster (hd_auth s)) (t ''common.edit'') HdStartEdit]])"

definition rank_text :: "human \<Rightarrow> jstr" where
  "rank_text h =
     (let en = Option.bind (h_rank_metadata h) rm_rank_en in
      nn (h_rank h) [0x2014] @ js '' '' @ (if truthy en then js ''('' @ nn en [] @ js '')'' else []))"

definition detail_rows :: "dict \<Rightarrow> human_detail \<Rightarrow> human \<Rightarrow> 'c hd_event view" where
  "detail_rows t s h =
     Box
      [Row (t ''personnel.thaiName'') (h_display_name h) None,
       Txt (t ''personnel.englishName''), english_row t s h,
       Row (t ''personnel.personnelId'') (nn (h_personnel_id h) [0x2014]) None,
       Row (t ''personnel.rank'') (rank_text h) (Some (t ''personnel.rankSourceManagedHint'')),
       Row (t ''personnel.position'') (nn (h_position h) [0x2014]) None,
       Row (t ''personnel.branch'') (nn (h_branch h) [0x2014]) None,
       Row (t ''personnel.category'') (nn (h_category h) [0x2014]) None,
       Row (t ''personnel.scope'')
         (if h_production_scope h then t ''personnel.productionScope'' else t ''personnel.excludedScope'') None,
       Row (t ''personnel.statusLabel'')
         (if h_active h then t ''personnel.statusActive'' else t ''personnel.statusInactive'') None,
       Row (js ''UUID'') (h_employee_id h) None]"

text \<open>The panels: the edit dialog, the scan policy, the scanner name, the absences, leaving.\<close>

definition HumanDetail ::
  "dict \<Rightarrow> 'c view \<Rightarrow> 'c view \<Rightarrow> 'c view \<Rightarrow> 'c view \<Rightarrow> 'c view \<Rightarrow> human_detail \<Rightarrow> 'c hd_event view" where
  "HumanDetail t edit_dialog policy name_card absences offboarding s =
     (let q = hd_query s in
      if as_loading q then Loading t
      else if truthy (as_error q) then ErrorBanner t (nn (as_error q) [])
      else case as_data q of
        None \<Rightarrow> ErrorBanner t (js ''Human not found'')
      | Some h \<Rightarrow> Box
         [Txt (h_display_name h), Txt (t ''personnel.subtitle''),
          when_v (canManagePersonnel (hd_auth s)) [Btn False (t ''personnel.editPersonnelButton'') HdShowEdit],
          ScopeBadge (h_production_scope h),
          when_v (hd_showEdit s) [map_view HdPart edit_dialog],
          when_v (hd_saveSuccess s) [Toned Green [Txt ([0x2713, 32] @ t ''personnel.updateSuccess'')]],
          when_v (truthy (hd_saveError s))
            [Toned Red [Txt (t ''personnel.updateFailed'' @ js '': '' @ nn (hd_saveError s) [])]],
          detail_rows t s h,
          when_v (h_active h \<and> \<not> h_scan_exempt h \<and> h_has_active_terminal_account h = Some False)
            [Toned Amber [Txt (t ''personnel.noTerminalAccountTitle''), Txt (t ''personnel.noTerminalAccountBody''),
                          EnrollLink t (hd_auth s) h]],
          map_view HdPart policy,
          map_view HdPart name_card,
          map_view HdPart absences,
          when_v (hd_isAdmin (hd_auth s)) [map_view HdPart offboarding],
          Lnk (js ''/personnel'') [Txt ([0x2190, 32] @ t ''common.back'' @ js '' '' @ t ''personnel.title'')]])"

definition PersonAbsences :: "dict \<Rightarrow> auth \<Rightarrow> jstr \<Rightarrow> bool \<Rightarrow> 'a api_state \<Rightarrow> ('a option \<Rightarrow> 'e view) \<Rightarrow> 'e view" where
  "PersonAbsences t a employeeId active q table =
     Box
      [Txt (t ''leave.historyTitle''),
       when_v (canRecordAbsence a \<and> active)
         [Lnk (js ''/absences?employee='' @ employeeId) [Txt (js ''+ '' @ t ''leave.addForPerson'')]],
       (if truthy (as_error q) then ErrorBanner t (nn (as_error q) []) else table (as_data q))]"

definition hd_init :: "human_detail \<Rightarrow> bool" where
  "hd_init s \<longleftrightarrow> hd_query s = api_idle \<and> \<not> hd_showEdit s \<and> \<not> hd_editingEnglish s \<and> hd_englishInput s = [] \<and>
     \<not> hd_saveBusy s \<and> hd_saveError s = None \<and> \<not> hd_saveSuccess s"

definition hd_env :: "human_detail \<Rightarrow> human_detail \<Rightarrow> bool" where
  "hd_env s s' \<longleftrightarrow> (\<exists>i a q. s' = s\<lparr>hd_employeeId := i, hd_auth := a, hd_query := q\<rparr>)"

definition hd_enabled ::
  "dict \<Rightarrow> 'c view \<Rightarrow> 'c view \<Rightarrow> 'c view \<Rightarrow> 'c view \<Rightarrow> 'c view \<Rightarrow> human_detail \<Rightarrow> 'c hd_event \<Rightarrow> bool" where
  "hd_enabled t edit_dialog policy name_card absences offboarding s e \<longleftrightarrow>
     e \<in> offers (HumanDetail t edit_dialog policy name_card absences offboarding s) \<or>
     (e = HdCloseEdit \<and> hd_showEdit s) \<or> e = HdReload"

lemma offers_Row [simp]: "offers (Row a b c) = {}"
  by (simp add: Row_def)

lemma offers_EnrollLink [simp]: "offers (EnrollLink t a h) = {}"
  by (simp add: EnrollLink_def)

lemma offers_HdSave:
  "hd_enabled t ed po na ab ob s HdSave \<Longrightarrow> hd_editingEnglish s \<and> \<not> hd_saveBusy s \<and> as_data (hd_query s) \<noteq> None"
  by (auto simp: hd_enabled_def HumanDetail_def detail_rows_def english_row_def offers_map Loading_def
      ErrorBanner_def Let_def split: if_splits option.splits)

lemma hd_settles: "\<not> hd_saveBusy s \<Longrightarrow> settles hd_saveBusy (hd_handle t e s)"
  by (cases e) (auto simp: hd_handle_def handleSaveEnglish_def startEdit_def split: sum.split)

interpretation detail_ui: single_flight hd_init
    "hd_enabled t edit_dialog policy name_card absences offboarding" "hd_handle t" hd_env hd_saveBusy
  for t edit_dialog policy name_card absences offboarding
proof unfold_locales
  fix s e
  assume en: "hd_enabled t edit_dialog policy name_card absences offboarding s e" "hd_saveBusy s"
  have "e \<noteq> HdSave" using en offers_HdSave[of t edit_dialog policy name_card absences offboarding s] by blast
  with en(2) show "quiet hd_saveBusy (hd_handle t e s)"
    by (cases e) (auto simp: hd_handle_def startEdit_def)
qed (auto simp: hd_init_def hd_env_def hd_settles)

text \<open>The English name saved is the one typed, trimmed, for the person of the address; blank
  clears it.\<close>

lemma english_name_orderly:
  assumes "detail_ui.ui_reach TYPE('c) t ed po na ab ob c"
  shows "orderly hd_saveBusy
     (\<lambda>s q. q = api_updateHumanEnglishName (nn (hd_employeeId s) []) (opt_str (js_trim (hd_englishInput s))) \<and>
            hd_editingEnglish s) c"
proof (rule detail_ui.orderly[OF assms])
  fix s e
  assume en: "hd_enabled t ed po na ab ob s e"
  have "e = HdSave \<Longrightarrow> hd_editingEnglish s" using offers_HdSave[of t ed po na ab ob s] en by blast
  then show "safe (\<lambda>s. True)
     (\<lambda>s q. q = api_updateHumanEnglishName (nn (hd_employeeId s) []) (opt_str (js_trim (hd_englishInput s))) \<and>
            hd_editingEnglish s) (hd_handle t e s)"
    by (cases e) (auto simp: hd_handle_def handleSaveEnglish_def split: sum.split)
qed

end
