(* ===== verification/Dates.thy ===== *)
theory Dates
  imports Prelude
begin

text \<open>
  Calendar dates as the pages use them: the day numbers of JavaScript's \<open>Date\<close> (the
  proleptic Gregorian calendar of the language's specification), the dates of a month's
  calendar, and the ISO texts \<open>YYYY-MM-DD\<close> of the date inputs and of the server. Months
  are counted from 0 in \<open>make_day\<close> and from 1 in texts, as in the language. The day on
  which the program runs and the wording of a date in Thai are parameters of the pages.
\<close>

section \<open>Day numbers\<close>

definition leap :: "int \<Rightarrow> bool" where
  "leap y \<longleftrightarrow> 4 dvd y \<and> (\<not> 100 dvd y \<or> 400 dvd y)"

text \<open>\<open>DayFromYear\<close> of the language's specification.\<close>

definition day_from_year :: "int \<Rightarrow> int" where
  "day_from_year y = 365 * (y - 1970) + (y - 1969) div 4 - (y - 1901) div 100 + (y - 1601) div 400"

definition month_lens :: "int \<Rightarrow> int list" where
  "month_lens y = [31, if leap y then 29 else 28, 31, 30, 31, 30, 31, 31, 30, 31, 30, 31]"

definition month_len :: "int \<Rightarrow> int \<Rightarrow> int" where
  "month_len y m = month_lens y ! nat m"

text \<open>\<open>MakeDay\<close>: months and days may lie outside their ranges.\<close>

definition make_day :: "int \<Rightarrow> int \<Rightarrow> int \<Rightarrow> int" where
  "make_day y m d =
     (let ym = y + m div 12 in
      day_from_year ym + sum_list (take (nat (m mod 12)) (month_lens ym)) + d - 1)"

text \<open>\<open>getDay\<close>: Sunday is 0.\<close>

definition week_day :: "int \<Rightarrow> int" where
  "week_day n = (n + 4) mod 7"

text \<open>\<open>new Date(y, m, d)\<close> takes the years 0 to 99 as 1900 to 1999.\<close>

definition full_year :: "int \<Rightarrow> int" where
  "full_year y = (if 0 \<le> y \<and> y \<le> 99 then 1900 + y else y)"

lemma div_step:
  fixes k x :: int
  assumes k: "0 < k"
  shows "(x + 1) div k = x div k + (if k dvd (x + 1) then 1 else 0)"
proof -
  have x: "x = k * (x div k) + x mod k" by simp
  have r: "0 \<le> x mod k" "x mod k < k" using k by simp_all
  show ?thesis
  proof (cases "x mod k = k - 1")
    case True
    then have e: "x + 1 = k * (x div k + 1) + 0" unfolding distrib_left using x by linarith
    then have "(x + 1) div k = x div k + 1" by (rule int_div_pos_eq) (use k in simp_all)
    moreover have "k dvd (x + 1)" by (subst e) simp
    ultimately show ?thesis by simp
  next
    case False
    with r have r': "0 \<le> x mod k + 1" "x mod k + 1 < k" by simp_all
    have e: "x + 1 = k * (x div k) + (x mod k + 1)" using x by simp
    then have "(x + 1) div k = x div k" by (rule int_div_pos_eq) (use r' in simp_all)
    moreover have "(x + 1) mod k = x mod k + 1" by (rule int_mod_pos_eq[OF e]) (use r' in simp_all)
    then have "\<not> k dvd (x + 1)" using r by (simp add: dvd_eq_mod_eq_0)
    ultimately show ?thesis by simp
  qed
qed

lemma year_sum: "365 * (y + 1 - 1970) + (a + p) - (b + q) + (c + r) =
    365 * (y - 1970) + a - b + c + 365 + p - q + r" for y :: int
  by simp

lemma year_len: "day_from_year (y + 1) = day_from_year y + (if leap y then 366 else 365)"
proof -
  have 4: "(y + 1 - 1969) div 4 = (y - 1969) div 4 + (if 4 dvd y then 1 else 0)"
    proof -
    have "4 dvd (y - 1969 + 1) \<longleftrightarrow> 4 dvd y" by presburger
    then show ?thesis using div_step[of 4 "y - 1969"] by (simp add: algebra_simps)
  qed
  have 100: "(y + 1 - 1901) div 100 = (y - 1901) div 100 + (if 100 dvd y then 1 else 0)"
    proof -
    have "100 dvd (y - 1901 + 1) \<longleftrightarrow> 100 dvd y" by presburger
    then show ?thesis using div_step[of 100 "y - 1901"] by (simp add: algebra_simps)
  qed
  have 400: "(y + 1 - 1601) div 400 = (y - 1601) div 400 + (if 400 dvd y then 1 else 0)"
    proof -
    have "400 dvd (y - 1601 + 1) \<longleftrightarrow> 400 dvd y" by presburger
    then show ?thesis using div_step[of 400 "y - 1601"] by (simp add: algebra_simps)
  qed
  have d: "100 dvd y \<Longrightarrow> 4 dvd y" "400 dvd y \<Longrightarrow> 100 dvd y" by presburger+
  have "day_from_year (y + 1) = day_from_year y + 365 + (if 4 dvd y then 1 else 0)
      - (if 100 dvd y then 1 else 0) + (if 400 dvd y then 1 else 0)"
    unfolding day_from_year_def 4 100 400 by (rule year_sum)
  moreover have "365 + (if 4 dvd y then 1 else 0) - (if 100 dvd y then 1 else 0) +
      (if 400 dvd y then 1 else 0) = (if leap y then 366 else 365 :: int)"
    unfolding leap_def using d by (cases "400 dvd y"; cases "100 dvd y"; cases "4 dvd y") simp_all
  ultimately show ?thesis by linarith
qed

lemma year_mono: "y \<le> z \<Longrightarrow> day_from_year y + (if y < z then 365 else 0) \<le> day_from_year z"
proof (induction z rule: int_ge_induct)
  case (step z)
  then show ?case using year_len[of z] by (auto split: if_splits)
qed simp

text \<open>\<open>YearFromTime\<close>: the year a day lies in, searched from a first guess.\<close>

function find_year :: "int \<Rightarrow> int \<Rightarrow> int" where
  "find_year n y =
     (if n < day_from_year y then find_year n (y - 1)
      else if day_from_year (y + 1) \<le> n then find_year n (y + 1)
      else y)"
  by auto
termination
proof (relation "measure (\<lambda>(n, y). nat (if n < day_from_year y then day_from_year y - n
       else if day_from_year (y + 1) \<le> n then n + 1 - day_from_year (y + 1) else 0))")
  fix n y
  assume "n < day_from_year y"
  then show "((n, y - 1), n, y) \<in> measure (\<lambda>(n, y). nat (if n < day_from_year y then day_from_year y - n
       else if day_from_year (y + 1) \<le> n then n + 1 - day_from_year (y + 1) else 0))" using year_len[of "y - 1"] by auto
next
  fix n y
  assume "\<not> n < day_from_year y" "day_from_year (y + 1) \<le> n"
  then show "((n, y + 1), n, y) \<in> measure (\<lambda>(n, y). nat (if n < day_from_year y then day_from_year y - n
       else if day_from_year (y + 1) \<le> n then n + 1 - day_from_year (y + 1) else 0))" using year_len[of y] year_len[of "y + 1"] by (auto simp: add.commute)
qed simp

declare find_year.simps [simp del]

definition year_of :: "int \<Rightarrow> int" where
  "year_of n = find_year n (1970 + n div 365)"

lemma find_year_bounds: "day_from_year (find_year n y) \<le> n \<and> n < day_from_year (find_year n y + 1)"
proof (induction n y rule: find_year.induct)
  case (1 n y)
  then show ?case by (subst (1 2) find_year.simps) auto
qed

lemma year_of_unique: "day_from_year y \<le> n \<Longrightarrow> n < day_from_year (y + 1) \<Longrightarrow> year_of n = y"
  using find_year_bounds[of n "1970 + n div 365"] year_mono[of "y + 1" "year_of n"]
    year_mono[of "year_of n + 1" y] unfolding year_of_def
  by (smt (verit))

section \<open>The day of the month\<close>

text \<open>Which entry of a list of lengths a position falls in, and where in it.\<close>

fun split_months :: "int list \<Rightarrow> int \<Rightarrow> nat \<times> int" where
  "split_months [] k = (0, k)"
| "split_months (l # ls) k =
     (if k < l then (0, k) else (let (m, j) = split_months ls (k - l) in (Suc m, j)))"

text \<open>\<open>getDate\<close>.\<close>

definition get_date :: "int \<Rightarrow> int" where
  "get_date n = snd (split_months (month_lens (year_of n)) (n - day_from_year (year_of n))) + 1"

lemma split_months_at:
  "i < length ls \<Longrightarrow> 0 \<le> j \<Longrightarrow> j < ls ! i \<Longrightarrow> list_all (\<lambda>l. 0 \<le> l) ls \<Longrightarrow>
   split_months ls (sum_list (take i ls) + j) = (i, j)"
proof (induction ls arbitrary: i)
  case (Cons l ls)
  show ?case
  proof (cases i)
    case 0
    then show ?thesis using Cons.prems by simp
  next
    case (Suc k)
    have "0 \<le> sum_list (take k ls)"
      using Cons.prems(4) by (auto intro!: sum_list_nonneg simp: list_all_iff dest: in_set_takeD)
    then show ?thesis using Suc Cons.prems Cons.IH[of k] by (simp add: add.assoc)
  qed
qed simp

lemma month_lens_facts [simp]:
  "length (month_lens y) = 12" "list_all (\<lambda>l. 0 \<le> l) (month_lens y)"
  "sum_list (month_lens y) = (if leap y then 366 else 365)"
  by (simp_all add: month_lens_def)

lemma month_cases: "0 \<le> m \<Longrightarrow> m < 12 \<Longrightarrow> m \<in> {0, 1, 2, 3, 4, 5, 6, 7, 8, 9, 10, 11}" for m :: int
  by (simp, presburger)

lemma month_len_bounds: "0 \<le> m \<Longrightarrow> m < 12 \<Longrightarrow> 28 \<le> month_len y m \<and> month_len y m \<le> 31"
  by (drule (1) month_cases) (auto simp: month_len_def month_lens_def)

text \<open>The day number of a date, its month given from 0.\<close>

lemma make_day_in_year:
  assumes m: "0 \<le> m" "m < 12"
  shows "make_day y m d = day_from_year y + sum_list (take (nat m) (month_lens y)) + (d - 1)"
  using m by (simp add: make_day_def Let_def)

lemma sum_take_month:
  assumes "0 \<le> m" "m < 12"
  shows "sum_list (take (nat m) (month_lens y)) + month_len y m =
     sum_list (take (Suc (nat m)) (month_lens y))"
  using assms by (simp add: month_len_def take_Suc_conv_app_nth)

lemma sum_take_mono: "i \<le> j \<Longrightarrow> list_all (\<lambda>l. 0 \<le> l) ls \<Longrightarrow> sum_list (take i ls) \<le> sum_list (take j ls)"
  for ls :: "int list"
proof -
  assume "i \<le> j" and "list_all (\<lambda>l. 0 \<le> l) ls"
  then obtain k where "take j ls = take i ls @ take k (drop i ls)"
    by (metis le_add_diff_inverse take_add)
  moreover have "0 \<le> sum_list (take k (drop i ls))"
    using \<open>list_all _ ls\<close> by (auto intro!: sum_list_nonneg simp: list_all_iff dest: in_set_takeD in_set_dropD)
  ultimately show ?thesis by simp
qed

lemma date_of_day:
  assumes m: "0 \<le> m" "m < 12" and d: "1 \<le> d" "d \<le> month_len y m"
  shows "year_of (make_day y m d) = y" "get_date (make_day y m d) = d"
proof -
  let ?s = "sum_list (take (nat m) (month_lens y))"
  have "0 \<le> ?s" using sum_take_mono[of 0 "nat m" "month_lens y"] by simp
  moreover have "?s + month_len y m \<le> (if leap y then 366 else 365)"
    using sum_take_month[OF m, of y] sum_take_mono[of "Suc (nat m)" 12 "month_lens y"] m by simp
  ultimately show y: "year_of (make_day y m d) = y"
    using d make_day_in_year[OF m] by (intro year_of_unique) (auto simp: year_len split: if_splits)
  show "get_date (make_day y m d) = d"
    using split_months_at[of "nat m" "month_lens y" "d - 1"] m d
    by (simp add: get_date_def y) (simp add: make_day_in_year month_len_def)
qed

text \<open>The day before the first of the next month is the last of the month.\<close>

lemma day_zero: "0 \<le> m \<Longrightarrow> m < 12 \<Longrightarrow> make_day y (m + 1) 0 = make_day y m (month_len y m)"
proof (cases "m = 11")
  case True
  then show ?thesis
    using year_len[of y] by (simp add: make_day_def month_len_def month_lens_def add.commute)
next
  case False
  assume m: "0 \<le> m" "m < 12"
  with False have "nat (m + 1) = Suc (nat m)" "0 \<le> m + 1" "m + 1 < 12" by auto
  then show ?thesis using sum_take_month[OF m, of y] m by (simp add: make_day_in_year)
qed

lemma month_end: "0 \<le> m \<Longrightarrow> m < 12 \<Longrightarrow> get_date (make_day y (m + 1) 0) = month_len y m"
  using day_zero[of m y] date_of_day(2)[of m "month_len y m" y] month_len_bounds[of m y] by simp

text \<open>Later dates have larger day numbers.\<close>

lemma make_day_less:
  assumes m: "0 \<le> m" "m < 12" "0 \<le> m'" "m' < 12"
    and d: "1 \<le> d" "d \<le> month_len y m" "1 \<le> d'" "d' \<le> month_len y' m'"
    and lt: "y < y' \<or> (y = y' \<and> (m < m' \<or> (m = m' \<and> d < d')))"
  shows "make_day y m d < make_day y' m' d'"
proof -
  have s': "0 \<le> sum_list (take (nat m') (month_lens y'))"
    using sum_take_mono[of 0 "nat m'" "month_lens y'"] by simp
  have s: "sum_list (take (nat m) (month_lens y)) + month_len y m \<le> (if leap y then 366 else 365)"
    using sum_take_month[of m y] sum_take_mono[of "Suc (nat m)" 12 "month_lens y"] m by simp
  consider "y < y'" | "y = y'" "m < m'" | "y = y'" "m = m'" "d < d'" using lt by blast
  then show ?thesis
  proof cases
    case 1
    then have "day_from_year (y + 1) \<le> day_from_year y'" using year_mono[of "y + 1" y'] by (auto split: if_splits)
    then show ?thesis using s s' d m year_len[of y] by (simp add: make_day_in_year split: if_splits)
  next
    case 2
    then have "sum_list (take (nat m) (month_lens y)) + month_len y m \<le> sum_list (take (nat m') (month_lens y))"
      using sum_take_month[of m y] sum_take_mono[of "Suc (nat m)" "nat m'" "month_lens y"] m by simp
    then show ?thesis using 2 d m by (simp add: make_day_in_year)
  next
    case 3
    then show ?thesis using m by (simp add: make_day_in_year)
  qed
qed

section \<open>Date texts\<close>

text \<open>\<open>String(n).padStart(2, "0")\<close>.\<close>

definition pad2 :: "int \<Rightarrow> jstr" where
  "pad2 n = pad_start 2 48 (js_num n)"

definition iso_date :: "int \<Rightarrow> int \<Rightarrow> int \<Rightarrow> jstr" where
  "iso_date y m d = js_num y @ js ''-'' @ pad2 (m + 1) @ js ''-'' @ pad2 d"

text \<open>The date a text \<open>YYYY-MM-DD\<close> names, its month from 0. Date inputs and the server give no
  other texts but the empty one; \<open>new Date\<close> of anything else is not used.\<close>

definition parse_iso :: "jstr \<Rightarrow> (int \<times> int \<times> int) option" where
  "parse_iso s =
     (let ys = js_slice 0 4 s; ms = js_slice 5 7 s; ds = js_slice 8 10 s;
          y = int (digits_value ys); m = int (digits_value ms) - 1; d = int (digits_value ds) in
      if s = ys @ [45] @ ms @ [45] @ ds \<and> length s = 10 \<and> list_all is_digit (ys @ ms @ ds) \<and>
         0 \<le> m \<and> m < 12 \<and> 1 \<le> d \<and> d \<le> month_len y m
      then Some (y, m, d) else None)"

definition day_number :: "jstr \<Rightarrow> int option" where
  "day_number s = map_option (\<lambda>(y, m, d). make_day y m d) (parse_iso s)"

text \<open>The value of one digit.\<close>

definition digit_val :: "u16 \<Rightarrow> nat" where
  "digit_val c = unat c - 48"

lemma digit_val_less: "is_digit c \<Longrightarrow> digit_val c < 10"
  by (simp add: is_digit_def digit_val_def word_le_nat_alt) arith

lemma digit_val_mono: "is_digit c \<Longrightarrow> is_digit d \<Longrightarrow> c < d \<longleftrightarrow> digit_val c < digit_val d"
  by (simp add: is_digit_def digit_val_def word_le_nat_alt word_less_nat_alt) arith

lemma digits_value_snoc: "digits_value (s @ [c]) = 10 * digits_value s + digit_val c"
  by (simp add: digits_value_def digit_val_def)

lemma digits_value_Cons: "digits_value (c # s) = digit_val c * 10 ^ length s + digits_value s"
proof (induction s rule: rev_induct)
  case (snoc d s)
  have "digits_value (c # s @ [d]) = 10 * digits_value (c # s) + digit_val d"
    using digits_value_snoc[of "c # s" d] by simp
  with snoc show ?case by (simp add: digits_value_snoc algebra_simps)
qed (simp add: digits_value_def digit_val_def)

lemma digits_value_less: "list_all is_digit s \<Longrightarrow> digits_value s < 10 ^ length s"
proof (induction s)
  case (Cons c s)
  then have "digit_val c \<le> 9" using digit_val_less[of c] by simp
  then have "digit_val c * 10 ^ length s \<le> 9 * 10 ^ length s" by (rule mult_le_mono1)
  moreover have "digits_value s < 10 ^ length s" using Cons by simp
  ultimately have "digit_val c * 10 ^ length s + digits_value s < 10 * 10 ^ length s" by linarith
  then show ?case by (simp add: digits_value_Cons)
qed (simp add: digits_value_def)

text \<open>Texts of equally many digits compare like the numbers they show.\<close>

lemma digits_less:
  "length a = length b \<Longrightarrow> list_all is_digit a \<Longrightarrow> list_all is_digit b \<Longrightarrow>
   (js_less a b \<longleftrightarrow> digits_value a < digits_value b) \<and> (a = b \<longleftrightarrow> digits_value a = digits_value b)"
proof (induction a b rule: list_induct2)
  case (Cons c a d b)
  then have a: "digits_value a < 10 ^ length a" and b: "digits_value b < 10 ^ length a"
    using digits_value_less[of a] digits_value_less[of b] by simp_all
  consider "digit_val c < digit_val d" | "digit_val d < digit_val c" | "digit_val c = digit_val d" by linarith
  then show ?case
  proof cases
    case 1
    then have "Suc (digit_val c) * 10 ^ length a \<le> digit_val d * 10 ^ length a" by (intro mult_le_mono1) simp
    then have lt: "digits_value (c # a) < digits_value (d # b)" using a Cons.hyps by (simp add: digits_value_Cons)
    moreover have "c < d" using 1 Cons.prems digit_val_mono[of c d] by simp
    ultimately show ?thesis by auto
  next
    case 2
    then have "Suc (digit_val d) * 10 ^ length a \<le> digit_val c * 10 ^ length a" by (intro mult_le_mono1) simp
    then have lt: "digits_value (d # b) < digits_value (c # a)" using b Cons.hyps by (simp add: digits_value_Cons)
    moreover have "d < c" using 2 Cons.prems digit_val_mono[of d c] by simp
    ultimately show ?thesis by auto
  next
    case 3
    then have "\<not> c < d" "\<not> d < c" using Cons.prems digit_val_mono[of c d] digit_val_mono[of d c] by simp_all
    then have "c = d" by (simp add: not_less_iff_gr_or_eq)
    then show ?thesis using Cons by (simp add: digits_value_Cons)
  qed
qed (simp add: digits_value_def)

lemma js_less_append:
  "length a = length b \<Longrightarrow> js_less (a @ x) (b @ y) \<longleftrightarrow> js_less a b \<or> (a = b \<and> js_less x y)"
  by (induction a b rule: list_induct2) auto

lemma parse_iso_Some:
  assumes "parse_iso s = Some (y, m, d)"
  obtains ys ms ds where "s = ys @ [45] @ ms @ [45] @ ds"
    "length ys = 4" "length ms = 2" "length ds = 2" "list_all is_digit (ys @ ms @ ds)"
    "y = int (digits_value ys)" "m = int (digits_value ms) - 1" "d = int (digits_value ds)"
    "0 \<le> m" "m < 12" "1 \<le> d" "d \<le> month_len y m"
  using assms by (auto simp: parse_iso_def Let_def js_slice_def split: if_splits)

text \<open>The relation \<open><\<close> of the language on date texts is the order of the calendar.\<close>

lemma iso_less:
  assumes a: "parse_iso a = Some (y, m, d)" and b: "parse_iso b = Some (y', m', d')"
  shows "js_less a b \<longleftrightarrow> make_day y m d < make_day y' m' d'"
    "a = b \<longleftrightarrow> make_day y m d = make_day y' m' d'"
proof -
  obtain ys ms ds where A: "a = ys @ [45] @ ms @ [45] @ ds"
    "length ys = 4" "length ms = 2" "length ds = 2" "list_all is_digit (ys @ ms @ ds)"
    "y = int (digits_value ys)" "m = int (digits_value ms) - 1" "d = int (digits_value ds)"
    "0 \<le> m" "m < 12" "1 \<le> d" "d \<le> month_len y m" by (rule parse_iso_Some[OF a])
  obtain ys' ms' ds' where B: "b = ys' @ [45] @ ms' @ [45] @ ds'"
    "length ys' = 4" "length ms' = 2" "length ds' = 2" "list_all is_digit (ys' @ ms' @ ds')"
    "y' = int (digits_value ys')" "m' = int (digits_value ms') - 1" "d' = int (digits_value ds')"
    "0 \<le> m'" "m' < 12" "1 \<le> d'" "d' \<le> month_len y' m'" by (rule parse_iso_Some[OF b])
  let ?lt = "y < y' \<or> (y = y' \<and> (m < m' \<or> (m = m' \<and> d < d')))"
  let ?gt = "y' < y \<or> (y' = y \<and> (m' < m \<or> (m' = m \<and> d' < d)))"
  have Y: "(js_less ys ys' \<longleftrightarrow> y < y') \<and> (ys = ys' \<longleftrightarrow> y = y')"
    using digits_less[of ys ys'] A B by simp
  have M: "(js_less ms ms' \<longleftrightarrow> m < m') \<and> (ms = ms' \<longleftrightarrow> m = m')"
    using digits_less[of ms ms'] A B by simp
  have D: "(js_less ds ds' \<longleftrightarrow> d < d') \<and> (ds = ds' \<longleftrightarrow> d = d')"
    using digits_less[of ds ds'] A B by simp
  have "js_less a b \<longleftrightarrow> ?lt"
    unfolding A(1) B(1) using Y M D A B by (simp add: js_less_append)
  moreover have "a = b \<longleftrightarrow> \<not> ?lt \<and> \<not> ?gt"
    unfolding A(1) B(1) using Y M D A(2-4) B(2-4) by auto
  moreover have "?lt \<Longrightarrow> make_day y m d < make_day y' m' d'"
    using A(9-12) B(9-12) by (intro make_day_less)
  moreover have "?gt \<Longrightarrow> make_day y' m' d' < make_day y m d"
    using A(9-12) B(9-12) by (intro make_day_less)
  moreover have "\<not> ?lt \<and> \<not> ?gt \<Longrightarrow> y = y' \<and> m = m' \<and> d = d'" by linarith
  ultimately show "js_less a b \<longleftrightarrow> make_day y m d < make_day y' m' d'"
    "a = b \<longleftrightarrow> make_day y m d = make_day y' m' d'" by (metis less_asym less_irrefl)+
qed

text \<open>The texts the calendar builds parse back to their date.\<close>

lemma nat_digits_length: "length (nat_digits n) \<le> Suc k \<longleftrightarrow> n < 10 ^ Suc k"
proof (induction k arbitrary: n)
  case 0
  have "nat_digits m \<noteq> []" for m by (subst nat_digits.simps) simp
  then show ?case by (auto simp: nat_digits.simps[of n] Suc_le_eq)
next
  case (Suc k)
  show ?case
  proof (cases "n < 10")
    case True
    then have "n < 10 * 10 ^ Suc k" by (simp add: less_le_trans)
    with True show ?thesis by (simp add: nat_digits.simps[of n])
  next
    case False
    then have "length (nat_digits n) \<le> Suc (Suc k) \<longleftrightarrow> n div 10 < 10 ^ Suc k"
      by (simp add: nat_digits.simps[of n] Suc.IH)
    then show ?thesis by (simp add: div_less_iff_less_mult mult.commute)
  qed
qed

lemma digits_value_pad: "digits_value (replicate k 48 @ s) = digits_value s"
  by (induction k) (simp_all add: digits_value_Cons digit_val_def)

lemma pad2_digits:
  assumes "0 \<le> n" "n < 100"
  shows "length (pad2 n) = 2" "list_all is_digit (pad2 n)" "int (digits_value (pad2 n)) = n"
proof -
  have "length (nat_digits (nat n)) \<le> 2" using nat_digits_length[of "nat n" 1] assms by (simp add: numeral_2_eq_2)
  then show "length (pad2 n) = 2" using assms by (simp add: pad2_def pad_start_def js_num_def)
  have "is_digit 48" by (simp add: is_digit_def)
  then show "list_all is_digit (pad2 n)"
    using js_nat_digits[of "nat n"] assms by (auto simp: pad2_def pad_start_def js_num_def list_all_iff)
  show "int (digits_value (pad2 n)) = n"
    using js_nat_digits[of "nat n"] assms by (simp add: pad2_def pad_start_def js_num_def digits_value_pad)
qed

lemma year_digits:
  assumes "1000 \<le> y" "y \<le> 9999"
  shows "length (js_num y) = 4" "list_all is_digit (js_num y)" "int (digits_value (js_num y)) = y"
proof -
  have "length (nat_digits (nat y)) \<le> 4" "\<not> length (nat_digits (nat y)) \<le> 3"
    using nat_digits_length[of "nat y" 3] nat_digits_length[of "nat y" 2] assms by auto
  then show "length (js_num y) = 4" using assms by (simp add: js_num_def)
  show "list_all is_digit (js_num y)" "int (digits_value (js_num y)) = y"
    using js_nat_digits[of "nat y"] assms by (simp_all add: js_num_def)
qed

lemma parse_iso_date:
  assumes y: "1000 \<le> y" "y \<le> 9999" and m: "0 \<le> m" "m < 12" and d: "1 \<le> d" "d \<le> month_len y m"
  shows "parse_iso (iso_date y m d) = Some (y, m, d)"
    "js_slice 5 7 (iso_date y m d) = pad2 (m + 1)" "js_slice 0 4 (iso_date y m d) = js_num y"
proof -
  have "d < 100" using d month_len_bounds[of m y] m by simp
  note D = pad2_digits[of d, OF _ this] and M = pad2_digits[of "m + 1"] and Y = year_digits[OF y]
  have s: "iso_date y m d = js_num y @ [45] @ pad2 (m + 1) @ [45] @ pad2 d"
    by (simp add: iso_date_def js_Cons of_char_def)
  have sl: "js_slice 0 4 (iso_date y m d) = js_num y" "js_slice 5 7 (iso_date y m d) = pad2 (m + 1)"
    "js_slice 8 10 (iso_date y m d) = pad2 d"
    using Y(1) M(1) D(1) m d by (simp_all add: s js_slice_def)
  then show "js_slice 5 7 (iso_date y m d) = pad2 (m + 1)" "js_slice 0 4 (iso_date y m d) = js_num y" by simp_all
  have "length (iso_date y m d) = 10" using Y(1) M(1) D(1) m d by (simp add: s)
  then show "parse_iso (iso_date y m d) = Some (y, m, d)"
    unfolding parse_iso_def Let_def sl using Y(2,3) M(2,3) D(2,3) m d by (simp add: s)
qed

section \<open>The date of a day\<close>

text \<open>\<open>getMonth\<close>; with \<open>year_of\<close> and \<open>get_date\<close> the date of a day number.\<close>

definition get_month :: "int \<Rightarrow> int" where
  "get_month n = int (fst (split_months (month_lens (year_of n)) (n - day_from_year (year_of n))))"

lemma split_months_in:
  "0 \<le> k \<Longrightarrow> k < sum_list ls \<Longrightarrow> list_all (\<lambda>l. 0 \<le> l) ls \<Longrightarrow> split_months ls k = (i, j) \<Longrightarrow>
   i < length ls \<and> 0 \<le> j \<and> j < ls ! i \<and> k = sum_list (take i ls) + j"
proof (induction ls arbitrary: k i j)
  case (Cons l ls)
  show ?case
  proof (cases "k < l")
    case True
    with Cons.prems show ?thesis by auto
  next
    case False
    obtain i' j' where r: "split_months ls (k - l) = (i', j')" by force
    with Cons.prems False have "i = Suc i'" "j = j'" by simp_all
    with Cons.IH[OF _ _ _ r] Cons.prems False show ?thesis by simp
  qed
qed simp

lemma date_of_number:
  "0 \<le> get_month n" "get_month n < 12" "1 \<le> get_date n" "get_date n \<le> month_len (year_of n) (get_month n)"
  "make_day (year_of n) (get_month n) (get_date n) = n"
proof -
  let ?y = "year_of n" and ?k = "n - day_from_year (year_of n)"
  obtain i j where s: "split_months (month_lens ?y) ?k = (i, j)" by force
  have "0 \<le> ?k" "?k < sum_list (month_lens ?y)"
    using find_year_bounds[of n "1970 + n div 365"] year_len[of ?y] by (auto simp: year_of_def)
  from split_months_in[OF this _ s]
  have i: "i < 12" "0 \<le> j" "j < month_lens ?y ! i" "?k = sum_list (take i (month_lens ?y)) + j" by simp_all
  have m: "get_month n = int i" and d: "get_date n = j + 1" by (simp_all add: get_month_def get_date_def s)
  show "0 \<le> get_month n" "get_month n < 12" "1 \<le> get_date n" "get_date n \<le> month_len ?y (get_month n)"
    using i m d by (simp_all add: month_len_def)
  show "make_day ?y (get_month n) (get_date n) = n"
    using i m d make_day_in_year[of "int i" ?y "j + 1"] by simp
qed

section \<open>The last weekdays\<close>

definition week_day_p :: "int \<Rightarrow> bool" where
  "week_day_p n \<longleftrightarrow> week_day n \<noteq> 0 \<and> week_day n \<noteq> 6"

text \<open>The loop of \<open>recentWeekdays\<close>: from a day back, weekdays put in front until there are \<open>n\<close>.\<close>

function recent_from :: "nat \<Rightarrow> int \<Rightarrow> int list \<Rightarrow> int list" where
  "recent_from n d out =
     (if n \<le> length out then out
      else recent_from n (d - 1) (if week_day_p d then d # out else out))"
  by auto
termination
proof (relation "measure (\<lambda>(n, d, out). 3 * (n - length out) +
     (if week_day d = 0 then 2 else if week_day d = 6 then 1 else 0))")
  fix n d and out :: "int list"
  assume "\<not> n \<le> length out"
  moreover have "week_day d = 0 \<Longrightarrow> week_day (d - 1) = 6" "week_day d = 6 \<Longrightarrow> week_day (d - 1) = 5"
    by (simp_all add: week_day_def) presburger+
  ultimately show "((n, d - 1, if week_day_p d then d # out else out), n, d, out) \<in>
      measure (\<lambda>(n, d, out). 3 * (n - length out) +
        (if week_day d = 0 then 2 else if week_day d = 6 then 1 else 0))"
    by (auto simp: week_day_p_def)
qed simp

declare recent_from.simps [simp del]

text \<open>It returns the last \<open>n\<close> weekdays, none left out, from at most \<open>3 n + 2\<close> days.\<close>

definition weekend_rank :: "int \<Rightarrow> int" where
  "weekend_rank d = (if week_day d = 0 then 2 else if week_day d = 6 then 1 else 0)"

lemma weekend_rank_step:
  "week_day_p d \<Longrightarrow> weekend_rank d = 0" "\<not> week_day_p d \<Longrightarrow> weekend_rank (d - 1) = weekend_rank d - 1"
  "weekend_rank d \<le> 2"
proof -
  have "week_day d = 0 \<Longrightarrow> week_day (d - 1) = 6" "week_day d = 6 \<Longrightarrow> week_day (d - 1) = 5"
    by (simp_all add: week_day_def) presburger+
  then show "week_day_p d \<Longrightarrow> weekend_rank d = 0" "\<not> week_day_p d \<Longrightarrow> weekend_rank (d - 1) = weekend_rank d - 1"
    "weekend_rank d \<le> 2" by (auto simp: weekend_rank_def week_day_p_def)
qed

lemma recent_from_exact:
  "out = filter week_day_p [d + 1..e] \<Longrightarrow> length out \<le> n \<Longrightarrow> d \<le> e \<Longrightarrow>
   \<exists>lo. recent_from n d out = filter week_day_p [lo..e] \<and> length (recent_from n d out) = n \<and>
        lo \<le> d + 1 \<and> d + 1 - lo \<le> 3 * int (n - length out) + weekend_rank d"
proof (induction n d out rule: recent_from.induct)
  case (1 n d out)
  show ?case
  proof (cases "n \<le> length out")
    case True
    then have "recent_from n d out = out" by (subst recent_from.simps) simp
    with 1 True weekend_rank_step(1)[of d] show ?thesis
      by (intro exI[of _ "d + 1"]) (auto simp: weekend_rank_def)
  next
    case False
    let ?out = "if week_day_p d then d # out else out"
    have r: "recent_from n d out = recent_from n (d - 1) ?out"
      using False by (subst recent_from.simps) simp
    have out: "?out = filter week_day_p [(d - 1) + 1..e]"
      using 1(2,4) by (simp add: upto_rec1[of d e])
    have len: "length ?out \<le> n" "d - 1 \<le> e" using False 1(4) by auto
    from 1(1)[OF False out len] obtain lo where lo:
      "recent_from n (d - 1) ?out = filter week_day_p [lo..e]" "length (recent_from n (d - 1) ?out) = n"
      "lo \<le> d" "d - lo \<le> 3 * int (n - length ?out) + weekend_rank (d - 1)" by auto
    have "d + 1 - lo \<le> 3 * int (n - length out) + weekend_rank d"
    proof (cases "week_day_p d")
      case True
      with False lo(4) weekend_rank_step(1)[OF True] weekend_rank_step(3)[of "d - 1"] show ?thesis by auto
    next
      case wk: False
      with lo(4) weekend_rank_step(2)[OF wk] show ?thesis by simp
    qed
    then show ?thesis using lo r by (intro exI[of _ lo]) simp
  qed
qed

text \<open>The texts of day numbers of the years 1000 to 9999.\<close>

definition day_text :: "int \<Rightarrow> jstr" where
  "day_text n = iso_date (year_of n) (get_month n) (get_date n)"

lemma day_text_number:
  assumes "1000 \<le> year_of n" "year_of n \<le> 9999"
  shows "day_number (day_text n) = Some n"
  using parse_iso_date(1)[OF assms date_of_number(1-4)] date_of_number(5)
  by (simp add: day_number_def day_text_def)

lemma year_of_mono: "m \<le> n \<Longrightarrow> year_of m \<le> year_of n"
  using find_year_bounds[of m "1970 + m div 365"] find_year_bounds[of n "1970 + n div 365"]
    year_mono[of "year_of n + 1" "year_of m"]
  by (cases "year_of m \<le> year_of n") (auto simp: year_of_def split: if_splits)

lemma year_of_number: "day_number s = Some n \<Longrightarrow> parse_iso s = Some (y, m, d) \<Longrightarrow> year_of n = y"
proof -
  assume n: "day_number s = Some n" and p: "parse_iso s = Some (y, m, d)"
  have "0 \<le> m" "m < 12" "1 \<le> d" "d \<le> month_len y m" by (rule parse_iso_Some[OF p]; simp)+
  then show "year_of n = y" using n p by (auto simp: day_number_def date_of_day)
qed

end
