(* ===== verification/Absences.thy ===== *)
theory Absences
  imports Personnel_Lifecycle Dates
begin

text \<open>
  The leave register of \<open>frontend/src/pages/Absences.tsx\<close>: \<open>AbsenceForm\<close> records an
  absence, \<open>AbsenceTable\<close> lists and cancels them, \<open>Absences\<close> is the page with its filters
  and paging. The form and the table are instances of the one-request-at-a-time contract.
  Today's date is a value of the surroundings, and \<open>thai_date\<close>, the wording of a date by
  the language's locale data, is a parameter of the views.
\<close>

record absence_type =
  aty_code :: jstr
  aty_counts_as :: jstr
  aty_name_en :: jstr
  aty_name_th :: jstr
  aty_requires_order_ref :: bool

record absence =
  ab_absence_id :: int
  ab_branch :: "jstr option"
  ab_cancel_reason :: "jstr option"
  ab_cancelled_at :: "jstr option"
  ab_cancelled_by :: "jstr option"
  ab_counts_as :: jstr
  ab_days :: int
  ab_destination :: "jstr option"
  ab_employee_id :: jstr
  ab_employee_name :: jstr
  ab_end_date :: jstr
  ab_note :: "jstr option"
  ab_order_ref :: "jstr option"
  ab_rank :: "jstr option"
  ab_recorded_at :: jstr
  ab_recorded_by :: jstr
  ab_start_date :: jstr
  ab_status :: jstr
  ab_type_code :: jstr
  ab_type_name_en :: jstr
  ab_type_name_th :: jstr

definition absenceError :: "js_error \<Rightarrow> dict \<Rightarrow> jstr" where
  "absenceError err t =
     (if is_api_code err ''ABSENCE_OVERLAP'' then t ''leave.overlap''
      else if api_code_in err [''WRITE_DISABLED'', ''WRITE_SESSION_REQUIRED'', ''WRITE_SESSION_EXPIRED'']
      then t ''personnel.writesDisabledNotice''
      else friendlyApiError err t)"

section \<open>AbsenceForm\<close>

record absence_form =
  af_auth :: auth
  af_locale :: lang
  af_humans :: "human page api_state"
  af_types :: "absence_type list api_state"
  af_employeeId :: jstr
  af_combo :: combobox
  af_typeCode :: jstr
  af_startDate :: jstr
  af_endDate :: jstr
  af_orderRef :: jstr
  af_destination :: jstr
  af_note :: jstr
  af_busy :: bool
  af_msg :: notice

datatype af_event =
    AfCombo combobox_event | AfType jstr | AfStart jstr | AfEnd jstr | AfOrder jstr
  | AfDestination jstr | AfNote jstr | AfSubmit

datatype ab_effect = OnSavedAbsence | OnAbsencesChanged

type_synonym af_prog = "(absence_form, call, reply, ab_effect) prog"

definition af_people :: "absence_form \<Rightarrow> human list option" where
  "af_people s = map_option pg_items (as_data (af_humans s))"

definition selectedType :: "absence_form \<Rightarrow> absence_type option" where
  "selectedType s = List.find (\<lambda>x. aty_code x = af_typeCode s) (nn (as_data (af_types s)) [])"

definition isDuty :: "absence_form \<Rightarrow> bool" where
  "isDuty s \<longleftrightarrow> map_option aty_counts_as (selectedType s) = Some (js ''DUTY'')"

definition needs_order :: "absence_form \<Rightarrow> bool" where
  "needs_order s \<longleftrightarrow> (case selectedType s of None \<Rightarrow> False | Some x \<Rightarrow> aty_requires_order_ref x)"

text \<open>Whole days between two dates; a text that is no date gives NaN, shown like 0.\<close>

definition absence_days :: "jstr \<Rightarrow> jstr \<Rightarrow> int" where
  "absence_days start_date end_date =
     (if start_date \<noteq> [] \<and> end_date \<noteq> [] \<and> \<not> js_less end_date start_date
      then (case (day_number start_date, day_number end_date) of
              (Some a, Some b) \<Rightarrow> b - a + 1
            | _ \<Rightarrow> 0)
      else 0)"

text \<open>\<open>setEmployeeId\<close>; the combobox follows a changed value.\<close>

definition af_set_person :: "jstr \<Rightarrow> absence_form \<Rightarrow> absence_form" where
  "af_set_person v s =
     (if v = af_employeeId s then s
      else s\<lparr>af_employeeId := v, af_combo := combobox_sync (af_people s) v (af_combo s)\<rparr>)"

definition absence_body :: "absence_form \<Rightarrow> json" where
  "absence_body s = JObj
     [(''employee_id'', JStr (af_employeeId s)),
      (''type_code'', JStr (af_typeCode s)),
      (''start_date'', JStr (af_startDate s)),
      (''end_date'', JStr (af_endDate s)),
      (''order_ref'', j_null JStr (opt_str (js_trim (af_orderRef s)))),
      (''destination'', j_null JStr (if isDuty s then opt_str (js_trim (af_destination s)) else None)),
      (''note'', j_null JStr (opt_str (js_trim (af_note s))))]"

definition af_submit :: "dict \<Rightarrow> absence_form \<Rightarrow> af_prog" where
  "af_submit t s =
     (if af_employeeId s = [] \<or> af_startDate s = [] \<or> af_endDate s = [] \<or>
         js_less (af_endDate s) (af_startDate s)
      then Ret (s\<lparr>af_msg := Some (False, t ''leave.selectPersonRequired'')\<rparr>)
      else if needs_order s \<and> js_trim (af_orderRef s) = []
      then Ret (s\<lparr>af_msg := Some (False, t ''leave.orderRefRequired'')\<rparr>)
      else Call (s\<lparr>af_busy := True, af_msg := None\<rparr>) (api_createAbsence (absence_body s))
        (\<lambda>r s. case r of
            Inr res \<Rightarrow> Eff OnSavedAbsence
              (Ret ((af_set_person [] s)\<lparr>af_msg := Some (True, t ''leave.saved''), af_orderRef := [],
                 af_destination := [], af_note := [], af_busy := False\<rparr>))
          | Inl e \<Rightarrow> Ret (s\<lparr>af_msg := Some (False, absenceError e t), af_busy := False\<rparr>)))"

definition af_handle :: "dict \<Rightarrow> af_event \<Rightarrow> absence_form \<Rightarrow> af_prog" where
  "af_handle t e s =
     (case e of
        AfCombo ce \<Rightarrow>
          (let (cb, change) = combobox_handle (af_employeeId s) ce (af_combo s);
               s' = s\<lparr>af_combo := cb\<rparr> in
           Ret (case change of None \<Rightarrow> s' | Some v \<Rightarrow> af_set_person v s'))
      | AfType x \<Rightarrow> Ret (s\<lparr>af_typeCode := x\<rparr>)
      | AfStart x \<Rightarrow>
          Ret (s\<lparr>af_startDate := x, af_endDate := if js_less (af_endDate s) x then x else af_endDate s\<rparr>)
      | AfEnd x \<Rightarrow> Ret (s\<lparr>af_endDate := x\<rparr>)
      | AfOrder x \<Rightarrow> Ret (s\<lparr>af_orderRef := x\<rparr>)
      | AfDestination x \<Rightarrow> Ret (s\<lparr>af_destination := x\<rparr>)
      | AfNote x \<Rightarrow> Ret (s\<lparr>af_note := x\<rparr>)
      | AfSubmit \<Rightarrow> af_submit t s)"

definition AbsenceForm :: "dict \<Rightarrow> absence_form \<Rightarrow> af_event view" where
  "AbsenceForm t s =
     (let off = \<not> canEditRoster (af_auth s) \<or> af_busy s;
          days = absence_days (af_startDate s) (af_endDate s) in
      Box
       [Txt (t ''leave.formTitle''),
        Txt (t ''leave.person''),
        map_view AfCombo (PersonCombobox t (af_people s) off (af_combo s)),
        Txt (t ''leave.type''),
        Select off (af_typeCode s)
          (map (\<lambda>x. (aty_code x, case af_locale s of Th \<Rightarrow> aty_name_th x | En \<Rightarrow> aty_name_en x))
             (nn (as_data (af_types s)) [])) AfType,
        Txt (t ''leave.startDate''), Field off (af_startDate s) AfStart,
        Txt (t ''leave.endDate''),
        when_v (days > 0) [Txt (js ''('' @ js_num days @ js '' '' @ t ''leave.days'' @ js '')'')],
        Field off (af_endDate s) AfEnd,
        Txt (t ''leave.orderRef''), when_v (needs_order s) [Txt (js '' *'')],
        Field off (af_orderRef s) AfOrder,
        when_v (isDuty s) [Txt (t ''leave.destination''), Field off (af_destination s) AfDestination],
        Txt (t ''leave.note''), Field off (af_note s) AfNote,
        Btn (off \<or> af_employeeId s = []) (if af_busy s then t ''common.saving'' else t ''leave.saveButton'')
          AfSubmit,
        when_v (\<not> canEditRoster (af_auth s)) [Txt (t ''workflow.needsWriteWindow'')],
        notice_view (af_msg s)])"

definition af_init :: "jstr \<Rightarrow> jstr \<Rightarrow> absence_form \<Rightarrow> bool" where
  "af_init today initialEmployeeId s \<longleftrightarrow>
     af_humans s = api_idle \<and> af_types s = api_idle \<and> af_employeeId s = initialEmployeeId \<and>
     af_combo s = combobox_sync None initialEmployeeId combobox0 \<and> af_typeCode s = js ''SICK'' \<and>
     af_startDate s = today \<and> af_endDate s = today \<and> af_orderRef s = [] \<and> af_destination s = [] \<and>
     af_note s = [] \<and> \<not> af_busy s \<and> af_msg s = None"

definition af_env :: "absence_form \<Rightarrow> absence_form \<Rightarrow> bool" where
  "af_env s s' \<longleftrightarrow> (\<exists>a l h ty. s' = s\<lparr>af_auth := a, af_locale := l, af_humans := h, af_types := ty\<rparr>)"

definition af_enabled :: "dict \<Rightarrow> absence_form \<Rightarrow> af_event \<Rightarrow> bool" where
  "af_enabled t s e \<longleftrightarrow> e \<in> offers (AbsenceForm t s) \<or> e = AfCombo CbClickOutside"

lemma af_set_person_fields [simp]:
  "af_busy (af_set_person v s) = af_busy s" "af_msg (af_set_person v s) = af_msg s"
  "af_employeeId (af_set_person v s) = v" "af_auth (af_set_person v s) = af_auth s"
  by (simp_all add: af_set_person_def)

lemma no_combobox_disabled: "offers (PersonCombobox t humans True s) = {}"
  by (simp add: PersonCombobox_def)

lemma offers_AbsenceForm:
  "e \<in> offers (AbsenceForm t s) \<Longrightarrow> canEditRoster (af_auth s) \<and> \<not> af_busy s \<and>
     (e = AfSubmit \<longrightarrow> af_employeeId s \<noteq> [])"
  by (auto simp: AbsenceForm_def Let_def offers_map no_combobox_disabled split: if_splits)

lemma af_settles: "\<not> af_busy s \<Longrightarrow> settles af_busy (af_handle t e s)"
  by (auto simp: af_handle_def af_submit_def Let_def split_def split: af_event.splits option.splits sum.splits)

interpretation absence_form_ui: single_flight "af_init today emp" "af_enabled t" "af_handle t" af_env af_busy
  for today emp t
proof unfold_locales
  fix s e
  assume "af_enabled t s e" "af_busy s"
  then have "e = AfCombo CbClickOutside" by (auto simp: af_enabled_def dest: offers_AbsenceForm)
  with \<open>af_busy s\<close> show "quiet af_busy (af_handle t e s)"
    by (simp add: af_handle_def combobox_handle_def)
qed (auto simp: af_init_def af_env_def af_settles)

text \<open>An absence is sent for a chosen person and dates in order.\<close>

definition absence_policy :: "absence_form \<Rightarrow> call \<Rightarrow> bool" where
  "absence_policy s q \<longleftrightarrow>
     canEditRoster (af_auth s) \<and> af_employeeId s \<noteq> [] \<and> af_startDate s \<noteq> [] \<and> af_endDate s \<noteq> [] \<and>
     \<not> js_less (af_endDate s) (af_startDate s) \<and>
     (needs_order s \<longrightarrow> js_trim (af_orderRef s) \<noteq> []) \<and>
     q = api_createAbsence (absence_body s)"

lemma absence_body_busy [simp]:
  "selectedType (s\<lparr>af_busy := b, af_msg := m\<rparr>) = selectedType s"
  "isDuty (s\<lparr>af_busy := b, af_msg := m\<rparr>) = isDuty s"
  "needs_order (s\<lparr>af_busy := b, af_msg := m\<rparr>) = needs_order s"
  "absence_body (s\<lparr>af_busy := b, af_msg := m\<rparr>) = absence_body s"
proof -
  show t: "selectedType (s\<lparr>af_busy := b, af_msg := m\<rparr>) = selectedType s"
    by (simp add: selectedType_def)
  show d: "isDuty (s\<lparr>af_busy := b, af_msg := m\<rparr>) = isDuty s" by (simp add: isDuty_def t)
  show "needs_order (s\<lparr>af_busy := b, af_msg := m\<rparr>) = needs_order s" by (simp add: needs_order_def t)
  show "absence_body (s\<lparr>af_busy := b, af_msg := m\<rparr>) = absence_body s" by (simp add: absence_body_def d)
qed

text \<open>C26: Recording an absence: one request at a time, only while the roster may be edited, for a
  chosen person, with both dates given and not in reverse order, with an order number where
  the type requires one, and a destination only for official duty; the form is free again
  after every outcome.\<close>

theorem absence_requests:
  assumes "absence_form_ui.ui_reach today emp t c"
  shows "orderly af_busy absence_policy c"
proof (rule absence_form_ui.orderly[OF assms])
  fix s e
  assume en: "af_enabled t s e"
  show "safe (\<lambda>s. True) absence_policy (af_handle t e s)"
  proof (cases "e = AfSubmit")
    case True
    then have "canEditRoster (af_auth s)" using en by (auto simp: af_enabled_def dest: offers_AbsenceForm)
    then show ?thesis unfolding True
      by (auto simp: af_handle_def af_submit_def absence_policy_def split: sum.split)
  next
    case False
    then show ?thesis by (cases e) (auto simp: af_handle_def Let_def split_def split: option.splits)
  qed
qed

definition af_demo :: absence_form where
  "af_demo = \<lparr>af_auth = admin_auth, af_locale = Th, af_humans = api_idle, af_types = api_idle,
     af_employeeId = js ''e1'', af_combo = combobox_sync None (js ''e1'') combobox0, af_typeCode = js ''SICK'',
     af_startDate = js ''2026-02-27'', af_endDate = js ''2026-02-27'', af_orderRef = [],
     af_destination = [], af_note = [], af_busy = False, af_msg = None\<rparr>"

lemma af_demo_init: "af_init (js ''2026-02-27'') (js ''e1'') af_demo"
  by (simp add: af_init_def af_demo_def)

lemma af_demo_submit: "AfSubmit \<in> offers (AbsenceForm t af_demo)"
  by (simp add: AbsenceForm_def Let_def af_demo_def)

theorem absence_requests_witness:
  "absence_policy (af_demo\<lparr>af_busy := True\<rparr>) (api_createAbsence (absence_body af_demo))"
proof -
  let ?t = "\<lambda>k. js k"
  have "absence_form_ui.ui_reach (js ''2026-02-27'') (js ''e1'') ?t (start af_demo)"
    by (rule absence_form_ui.initial[OF af_demo_init])
  moreover have "af_enabled ?t af_demo AfSubmit" by (simp add: af_enabled_def af_demo_submit)
  moreover have "\<exists>k. af_handle ?t AfSubmit af_demo =
      Call (af_demo\<lparr>af_busy := True\<rparr>) (api_createAbsence (absence_body af_demo)) k"
    by (simp add: af_handle_def af_submit_def) (simp add: af_demo_def needs_order_def selectedType_def api_idle_def)
  ultimately obtain c where c: "absence_form_ui.ui_reach (js ''2026-02-27'') (js ''e1'') ?t c"
    "Inl (af_demo\<lparr>af_busy := True\<rparr>, api_createAbsence (absence_body af_demo)) \<in> set (log c)"
    using absence_form_ui.reach_call[of "js ''2026-02-27''" "js ''e1''" ?t "start af_demo" af_demo AfSubmit] by auto
  from absence_requests[OF c(1)] c(2) show ?thesis by (simp add: orderly_def)
qed

text \<open>C27: The number of days shown beside the dates is the number of calendar days from the first
  to the last, both included, across months and leap years; it is positive exactly when the
  form accepts the dates as being in order.\<close>

theorem absence_days_exact:
  assumes a: "day_number a = Some x" and b: "day_number b = Some y"
  shows "absence_days a b = int (card {x..y}) \<and> (absence_days a b > 0 \<longleftrightarrow> \<not> js_less b a)"
proof -
  obtain ya ma da where A: "parse_iso a = Some (ya, ma, da)" "x = make_day ya ma da"
    using a by (auto simp: day_number_def)
  obtain yb mb db where B: "parse_iso b = Some (yb, mb, db)" "y = make_day yb mb db"
    using b by (auto simp: day_number_def)
  have "js_less b a \<longleftrightarrow> y < x" using iso_less(1)[OF B(1) A(1)] A(2) B(2) by simp
  moreover have "a \<noteq> []" "b \<noteq> []" using A(1) B(1) by (auto simp: parse_iso_def Let_def split: if_splits)
  ultimately show ?thesis using a b by (auto simp: absence_days_def)
qed

theorem absence_days_exact_witness:
  "absence_days (js ''2028-02-27'') (js ''2028-03-01'') = 4"
proof -
  have "day_number (js ''2028-02-27'') = Some 21241" "day_number (js ''2028-03-01'') = Some 21244"
    by code_simp+
  from absence_days_exact[OF this] show ?thesis by simp
qed

text \<open>A person preselected by the address is not shown: the field stays blank after the people
  have loaded, although saving is offered and would record the absence for that person.\<close>

theorem absence_preselection_blank:
  fixes people :: "human page" and a :: auth and h :: human
  assumes "h \<in> set (pg_items people)" and "canEditRoster a" and "h_employee_id h \<noteq> []"
  shows "\<exists>c. absence_form_ui.ui_reach today (h_employee_id h) t c \<and>
           af_people (st c) = Some (pg_items people) \<and>
           cb_query (af_combo (st c)) = [] \<and>
           af_employeeId (st c) = h_employee_id h \<and>
           AfSubmit \<in> offers (AbsenceForm t (st c))"
proof -
  let ?s = "af_demo\<lparr>af_employeeId := h_employee_id h, af_startDate := today, af_endDate := today,
     af_combo := combobox_sync None (h_employee_id h) combobox0\<rparr>"
  let ?s' = "?s\<lparr>af_auth := a, af_humans := api_idle\<lparr>as_data := Some people\<rparr>\<rparr>"
  have "absence_form_ui.ui_reach today (h_employee_id h) t (start ?s)"
    by (rule absence_form_ui.initial) (simp add: af_init_def af_demo_def)
  moreover have "af_env ?s ?s'" unfolding af_env_def
    by (rule exI[of _ a], rule exI[of _ "af_locale ?s"], rule exI[of _ "af_humans ?s'"],
        rule exI[of _ "af_types ?s"]) simp
  ultimately obtain c where c: "absence_form_ui.ui_reach today (h_employee_id h) t c" "st c = ?s'"
    using absence_form_ui.reach_env[of today "h_employee_id h" t "start ?s" ?s'] by auto
  moreover have "AfSubmit \<in> offers (AbsenceForm t ?s')"
    using assms by (simp add: AbsenceForm_def Let_def) (simp add: af_demo_def)
  ultimately show ?thesis
    by (intro exI[of _ c]) (simp add: af_people_def combobox_sync_def combobox0_def)
qed

theorem absence_preselection_blank_witness:
  "\<exists>c. absence_form_ui.ui_reach [] (js ''e1'') js c \<and> cb_query (af_combo (st c)) = [] \<and>
       af_employeeId (st c) = js ''e1''"
  using absence_preselection_blank[of sample_human "\<lparr>pg_items = [sample_human], pg_total = 1, pg_limit = 200,
      pg_offset = 0\<rparr>" admin_auth "[]" js]
  by (auto simp: sample_human_def)

section \<open>AbsenceTable\<close>

record absence_table =
  at_auth :: auth
  at_locale :: lang
  at_items :: "absence list"
  at_showPerson :: bool
  at_cancelTarget :: "absence option"
  at_reason :: jstr
  at_busy :: bool
  at_error :: "jstr option"

datatype at_event = AtPick absence | AtReason jstr | AtConfirm | AtClose

type_synonym at_prog = "(absence_table, call, reply, ab_effect) prog"

definition confirmCancel :: "dict \<Rightarrow> absence_table \<Rightarrow> at_prog" where
  "confirmCancel t s =
     (case at_cancelTarget s of
        None \<Rightarrow> Ret s
      | Some a \<Rightarrow>
          if js_trim (at_reason s) = [] then Ret s
          else Call (s\<lparr>at_busy := True, at_error := None\<rparr>)
            (api_cancelAbsence (ab_absence_id a) (js_trim (at_reason s)))
            (\<lambda>r s. case r of
                Inr res \<Rightarrow> Eff OnAbsencesChanged
                  (Ret (s\<lparr>at_cancelTarget := None, at_reason := [], at_busy := False\<rparr>))
              | Inl e \<Rightarrow> Ret (s\<lparr>at_cancelTarget := None, at_error := Some (absenceError e t),
                               at_busy := False\<rparr>)))"

definition at_handle :: "dict \<Rightarrow> at_event \<Rightarrow> absence_table \<Rightarrow> at_prog" where
  "at_handle t e s =
     (case e of
        AtPick a \<Rightarrow> Ret (s\<lparr>at_reason := [], at_cancelTarget := Some a\<rparr>)
      | AtReason x \<Rightarrow> Ret (s\<lparr>at_reason := x\<rparr>)
      | AtConfirm \<Rightarrow> confirmCancel t s
      | AtClose \<Rightarrow> Ret (s\<lparr>at_cancelTarget := None\<rparr>))"

definition type_name :: "absence_table \<Rightarrow> absence \<Rightarrow> jstr" where
  "type_name s a = (case at_locale s of Th \<Rightarrow> ab_type_name_th a | En \<Rightarrow> ab_type_name_en a)"

definition person_text :: "jstr option \<Rightarrow> jstr \<Rightarrow> jstr" where
  "person_text rank name = (if truthy rank then nn rank [] @ js '' '' else []) @ name"

text \<open>\<open>[a, b].filter(Boolean).join(" \<dots> ") || "\<dots>"\<close>.\<close>

definition joined :: "jstr option list \<Rightarrow> jstr" where
  "joined xs = (let parts = map the (filter truthy xs) in
     if parts = [] then [0x2014] else js_join [32, 0xB7, 32] parts)"

definition absence_row :: "dict \<Rightarrow> (jstr \<Rightarrow> jstr) \<Rightarrow> absence_table \<Rightarrow> absence \<Rightarrow> at_event view" where
  "absence_row t thai_date s a =
     Box
      [when_v (at_showPerson s)
         [Lnk (js ''/personnel/'' @ ab_employee_id a) [Txt (person_text (ab_rank a) (ab_employee_name a))],
          when_v (truthy (ab_branch a)) [Txt (nn (ab_branch a) [])]],
       Toned (if ab_counts_as a = js ''DUTY'' then Blue else Amber) [Txt (type_name s a)],
       Txt (thai_date (ab_start_date a)),
       Txt (thai_date (ab_end_date a) @ js '' ('' @ js_num (ab_days a) @ js '' '' @ t ''leave.days'' @ js '')''),
       Txt (nn (ab_order_ref a) [0x2014]),
       Txt (joined [ab_destination a, ab_note a]),
       when_v (ab_status a = js ''CANCELLED'')
         [Txt (t ''leave.cancelled'' @ js '': '' @ nn (ab_cancel_reason a) [])],
       Txt (ab_recorded_by a),
       when_v (canRecordAbsence (at_auth s) \<and> ab_status a = js ''RECORDED'')
         [Btn (\<not> canEditRoster (at_auth s)) (t ''leave.cancelButton'') (AtPick a)]]"

definition cancel_modal :: "dict \<Rightarrow> (jstr \<Rightarrow> jstr) \<Rightarrow> absence_table \<Rightarrow> at_event view" where
  "cancel_modal t thai_date s =
     ConfirmModal t (at_cancelTarget s \<noteq> None) (t ''leave.cancelTitle'') MDanger (t ''leave.cancelButton'')
       (at_busy s) AtConfirm AtClose
       [(case at_cancelTarget s of
           None \<Rightarrow> Box []
         | Some a \<Rightarrow> Txt (ab_employee_name a @ [32, 0xB7, 32] @ type_name s a @ [32, 0xB7, 32] @
              thai_date (ab_start_date a) @ [32, 0x2013, 32] @ thai_date (ab_end_date a))),
        Txt (t ''leave.cancelReason''), Field False (at_reason s) AtReason]"

definition AbsenceTable :: "dict \<Rightarrow> (jstr \<Rightarrow> jstr) \<Rightarrow> absence_table \<Rightarrow> at_event view" where
  "AbsenceTable t thai_date s =
     (if at_items s = [] then Txt (t ''leave.noRecords'')
      else Box
       ([when_v (truthy (at_error s)) [ErrorBanner t (nn (at_error s) [])],
         when_v (at_showPerson s) [Txt (t ''leave.person'')]] @
        map Txt [t ''leave.type'', t ''leave.startDate'', t ''leave.endDate'', t ''leave.orderRef'',
                 t ''leave.note'', t ''leave.recordedBy''] @
        map (absence_row t thai_date s) (at_items s) @
        [cancel_modal t thai_date s]))"

definition at_init :: "absence_table \<Rightarrow> bool" where
  "at_init s \<longleftrightarrow> at_cancelTarget s = None \<and> at_reason s = [] \<and> \<not> at_busy s \<and> at_error s = None"

definition at_env :: "absence_table \<Rightarrow> absence_table \<Rightarrow> bool" where
  "at_env s s' \<longleftrightarrow> (\<exists>a l i p. s' = s\<lparr>at_auth := a, at_locale := l, at_items := i, at_showPerson := p\<rparr>)"

lemma offers_ErrorBanner [simp]: "offers (ErrorBanner t m) = {}"
  by (simp add: ErrorBanner_def)

lemma offers_AbsenceTable:
  "e \<in> offers (AbsenceTable t thai s) \<Longrightarrow>
     (e = AtConfirm \<longrightarrow> \<not> at_busy s \<and> at_cancelTarget s \<noteq> None) \<and>
     (\<forall>a. e = AtPick a \<longrightarrow> ab_status a = js ''RECORDED'' \<and> a \<in> set (at_items s) \<and> canEditRoster (at_auth s))"
  by (auto simp: AbsenceTable_def absence_row_def cancel_modal_def split: if_splits option.splits)

lemma at_settles: "\<not> at_busy s \<Longrightarrow> settles at_busy (at_handle t e s)"
  by (cases e) (auto simp: at_handle_def confirmCancel_def split: option.split sum.split)

interpretation absence_table_ui: single_flight at_init "\<lambda>s e. e \<in> offers (AbsenceTable t thai s)"
    "at_handle t" at_env at_busy
  for t thai
proof unfold_locales
  fix s e
  assume "e \<in> offers (AbsenceTable t thai s)" "at_busy s"
  then have "e \<noteq> AtConfirm" by (auto dest: offers_AbsenceTable)
  with \<open>at_busy s\<close> show "quiet at_busy (at_handle t e s)" by (cases e) (auto simp: at_handle_def)
qed (auto simp: at_init_def at_env_def at_settles)

definition cancel_policy :: "absence_table \<Rightarrow> call \<Rightarrow> bool" where
  "cancel_policy s q \<longleftrightarrow>
     (\<exists>a. at_cancelTarget s = Some a \<and> ab_status a = js ''RECORDED'' \<and> js_trim (at_reason s) \<noteq> [] \<and>
          q = api_cancelAbsence (ab_absence_id a) (js_trim (at_reason s)))"

text \<open>Cancelling an absence: a request is sent only for the recorded absence the open dialog
  shows, with a reason that is not blank, one at a time; a failure is shown and closes the
  dialog.\<close>

theorem cancel_requests:
  assumes "absence_table_ui.ui_reach t thai c"
  shows "orderly at_busy cancel_policy c"
proof (rule absence_table_ui.orderly_inv(1)[OF assms,
      where I = "\<lambda>s. \<forall>a. at_cancelTarget s = Some a \<longrightarrow> ab_status a = js ''RECORDED''"])
  fix s e
  assume I: "\<forall>a. at_cancelTarget s = Some a \<longrightarrow> ab_status a = js ''RECORDED''"
    and en: "e \<in> offers (AbsenceTable t thai s)"
  show "safe (\<lambda>s. \<forall>a. at_cancelTarget s = Some a \<longrightarrow> ab_status a = js ''RECORDED'') cancel_policy (at_handle t e s)"
    using I offers_AbsenceTable[OF en]
    by (cases e) (auto simp: at_handle_def confirmCancel_def cancel_policy_def split: option.split sum.split)
qed (auto simp: at_init_def at_env_def)

definition sample_absence :: absence where
  "sample_absence = \<lparr>ab_absence_id = 7, ab_branch = None, ab_cancel_reason = None, ab_cancelled_at = None,
     ab_cancelled_by = None, ab_counts_as = js ''LEAVE'',
     ab_days = 1, ab_destination = None, ab_employee_id = js ''e1'', ab_employee_name = js ''Somchai'',
     ab_end_date = js ''2026-02-27'', ab_note = None, ab_order_ref = None, ab_rank = None,
     ab_recorded_at = js ''2026-02-27T02:00:00Z'', ab_recorded_by = js ''admin'', ab_start_date = js ''2026-02-27'', ab_status = js ''RECORDED'',
     ab_type_code = js ''SICK'', ab_type_name_en = js ''Sick'', ab_type_name_th = js ''Sick''\<rparr>"

definition at_demo :: absence_table where
  "at_demo = \<lparr>at_auth = admin_auth, at_locale = En, at_items = [sample_absence], at_showPerson = True,
     at_cancelTarget = None, at_reason = [], at_busy = False, at_error = None\<rparr>"

theorem cancel_requests_witness:
  "cancel_policy (at_demo\<lparr>at_cancelTarget := Some sample_absence, at_reason := [77], at_busy := True\<rparr>)
     (api_cancelAbsence 7 [77])"
proof -
  let ?t = "\<lambda>k. js k" and ?d = "\<lambda>d :: jstr. d"
  let ?s1 = "at_demo\<lparr>at_cancelTarget := Some sample_absence\<rparr>"
  let ?s2 = "?s1\<lparr>at_reason := [77]\<rparr>"
  let ?s3 = "at_demo\<lparr>at_cancelTarget := Some sample_absence, at_reason := [77], at_busy := True\<rparr>"
  have r0: "absence_table_ui.ui_reach ?t ?d (start at_demo)"
    by (rule absence_table_ui.initial) (simp add: at_init_def at_demo_def)
  have "AtPick sample_absence \<in> offers (AbsenceTable ?t ?d at_demo)"
    by (simp add: AbsenceTable_def absence_row_def at_demo_def) (simp add: sample_absence_def)
  moreover have "at_handle ?t (AtPick sample_absence) at_demo = Ret ?s1"
    by (simp add: at_handle_def at_demo_def)
  ultimately obtain c1 where c1: "absence_table_ui.ui_reach ?t ?d c1" "st c1 = ?s1"
    using absence_table_ui.reach_ret[OF r0, of at_demo "AtPick sample_absence" ?s1] by auto
  have "AtReason [77] \<in> offers (AbsenceTable ?t ?d ?s1)"
    by (simp add: AbsenceTable_def cancel_modal_def at_demo_def)
  moreover have "at_handle ?t (AtReason [77]) ?s1 = Ret ?s2" by (simp add: at_handle_def)
  ultimately obtain c2 where c2: "absence_table_ui.ui_reach ?t ?d c2" "st c2 = ?s2"
    using absence_table_ui.reach_ret[OF c1] by blast
  have "AtConfirm \<in> offers (AbsenceTable ?t ?d ?s2)"
    by (simp add: AbsenceTable_def cancel_modal_def at_demo_def)
  moreover have "js_trim [77] = [77]" by (simp add: js_trim_def is_ws_def ws_units_def)
  then have "\<exists>k. at_handle ?t AtConfirm ?s2 = Call ?s3 (api_cancelAbsence 7 [77]) k"
    by (simp add: at_handle_def confirmCancel_def sample_absence_def at_demo_def)
  ultimately obtain c where c: "absence_table_ui.ui_reach ?t ?d c"
    "Inl (?s3, api_cancelAbsence 7 [77]) \<in> set (log c)"
    using absence_table_ui.reach_call[OF c2] by fastforce
  from cancel_requests[OF c(1)] c(2) show ?thesis by (simp add: orderly_def)
qed

end
