(* ===== verification/Holidays.thy ===== *)
theory Holidays
  imports Absences
begin

text \<open>
  The holiday calendar of \<open>frontend/src/pages/Absences.tsx\<close> (\<open>HolidayManager\<close>): the cells of
  a month, moving between months, marking and clearing holidays, and filling in the fixed
  holidays of a year one request after the other. The Enter key in the name field adds the
  holiday whatever the buttons allow, so the component is not one request at a time.
\<close>

definition FIXED_HOLIDAYS :: "(jstr \<times> jstr) list" where
  "FIXED_HOLIDAYS =
     [(js ''01-01'', [0xe27, 0xe31, 0xe19, 0xe02, 0xe36, 0xe49, 0xe19, 0xe1b, 0xe35, 0xe43, 0xe2b,
         0xe21, 0xe48]),
      (js ''04-06'', [0xe27, 0xe31, 0xe19, 0xe08, 0xe31, 0xe01, 0xe23, 0xe35]),
      (js ''04-13'', [0xe27, 0xe31, 0xe19, 0xe2a, 0xe07, 0xe01, 0xe23, 0xe32, 0xe19, 0xe15, 0xe4c]),
      (js ''04-14'', [0xe27, 0xe31, 0xe19, 0xe2a, 0xe07, 0xe01, 0xe23, 0xe32, 0xe19, 0xe15, 0xe4c]),
      (js ''04-15'', [0xe27, 0xe31, 0xe19, 0xe2a, 0xe07, 0xe01, 0xe23, 0xe32, 0xe19, 0xe15, 0xe4c]),
      (js ''05-04'', [0xe27, 0xe31, 0xe19, 0xe09, 0xe31, 0xe15, 0xe23, 0xe21, 0xe07, 0xe04, 0xe25]),
      (js ''06-03'', [0xe27, 0xe31, 0xe19, 0xe40, 0xe09, 0xe25, 0xe34, 0xe21, 0xe1e, 0xe23, 0xe30,
          0xe0a, 0xe19, 0xe21, 0xe1e, 0xe23, 0xe23, 0xe29, 0xe32, 0xe2a, 0xe21, 0xe40, 0xe14, 0xe47,
          0xe08, 0xe1e, 0xe23, 0xe30, 0xe23, 0xe32, 0xe0a, 0xe34, 0xe19, 0xe35]),
      (js ''07-28'', [0xe27, 0xe31, 0xe19, 0xe40, 0xe09, 0xe25, 0xe34, 0xe21, 0xe1e, 0xe23, 0xe30,
          0xe0a, 0xe19, 0xe21, 0xe1e, 0xe23, 0xe23, 0xe29, 0xe32, 32, 0xe23, 46, 49, 48]),
      (js ''08-12'', [0xe27, 0xe31, 0xe19, 0xe41, 0xe21, 0xe48, 0xe41, 0xe2b, 0xe48, 0xe07, 0xe0a,
          0xe32, 0xe15, 0xe34]),
      (js ''10-13'', [0xe27, 0xe31, 0xe19, 0xe19, 0xe27, 0xe21, 0xe34, 0xe19, 0xe17, 0xe23, 0xe21,
          0xe2b, 0xe32, 0xe23, 0xe32, 0xe0a]),
      (js ''10-23'', [0xe27, 0xe31, 0xe19, 0xe1b, 0xe34, 0xe22, 0xe21, 0xe2b, 0xe32, 0xe23, 0xe32, 0xe0a]),
      (js ''12-05'', [0xe27, 0xe31, 0xe19, 0xe1e, 0xe48, 0xe2d, 0xe41, 0xe2b, 0xe48, 0xe07, 0xe0a,
          0xe32, 0xe15, 0xe34]),
      (js ''12-10'', [0xe27, 0xe31, 0xe19, 0xe23, 0xe31, 0xe10, 0xe18, 0xe23, 0xe23, 0xe21, 0xe19,
          0xe39, 0xe0d]),
      (js ''12-31'', [0xe27, 0xe31, 0xe19, 0xe2a, 0xe34, 0xe49, 0xe19, 0xe1b, 0xe35])]"

definition THAI_MONTHS :: "jstr list" where
  "THAI_MONTHS =
     [[0xe21, 0xe01, 0xe23, 0xe32, 0xe04, 0xe21], [0xe01, 0xe38, 0xe21, 0xe20, 0xe32, 0xe1e, 0xe31,
         0xe19, 0xe18, 0xe4c], [0xe21, 0xe35, 0xe19, 0xe32, 0xe04, 0xe21], [0xe40, 0xe21, 0xe29,
         0xe32, 0xe22, 0xe19], [0xe1e, 0xe24, 0xe29, 0xe20, 0xe32, 0xe04, 0xe21], [0xe21, 0xe34,
         0xe16, 0xe38, 0xe19, 0xe32, 0xe22, 0xe19],
      [0xe01, 0xe23, 0xe01, 0xe0e, 0xe32, 0xe04, 0xe21], [0xe2a, 0xe34, 0xe07, 0xe2b, 0xe32, 0xe04,
          0xe21], [0xe01, 0xe31, 0xe19, 0xe22, 0xe32, 0xe22, 0xe19], [0xe15, 0xe38, 0xe25, 0xe32,
          0xe04, 0xe21], [0xe1e, 0xe24, 0xe28, 0xe08, 0xe34, 0xe01, 0xe32, 0xe22, 0xe19], [0xe18,
          0xe31, 0xe19, 0xe27, 0xe32, 0xe04, 0xe21]]"

record holiday =
  ho_holiday_date :: jstr
  ho_name_th :: jstr

record holiday_manager =
  hm_auth :: auth
  hm_today :: jstr
  hm_list :: "holiday list api_state"
  hm_year :: int
  hm_month :: int
  hm_picked :: "jstr option"
  hm_name :: jstr
  hm_busy :: bool
  hm_error :: "jstr option"

datatype hm_event = HmShift int | HmPick jstr | HmRemove jstr | HmName jstr | HmAdd | HmCancel | HmFill

datatype hm_effect = ReloadHolidays

type_synonym hm_prog = "(holiday_manager, call, reply, hm_effect) prog"

definition hm_holidays :: "holiday_manager \<Rightarrow> holiday list" where
  "hm_holidays s = nn (as_data (hm_list s)) []"

text \<open>A later entry of the list replaces an earlier one of the same date.\<close>

definition byDate :: "holiday_manager \<Rightarrow> jstr \<Rightarrow> jstr option" where
  "byDate s = map_of (rev (map (\<lambda>h. (ho_holiday_date h, ho_name_th h)) (hm_holidays s)))"

text \<open>The remainder of the language, which has the sign of the dividend.\<close>

definition js_rem :: "int \<Rightarrow> int \<Rightarrow> int" where
  "js_rem a b = (if a < 0 then - ((- a) mod b) else a mod b)"

definition hm_shift :: "int \<Rightarrow> holiday_manager \<Rightarrow> holiday_manager" where
  "hm_shift delta s =
     (let m = hm_month s + delta in
      s\<lparr>hm_year := hm_year s + m div 12, hm_month := js_rem (js_rem m 12 + 12) 12, hm_picked := None\<rparr>)"

text \<open>\<open>run\<close>: the action is given what follows its success and its failure.\<close>

definition hm_run ::
  "dict \<Rightarrow> ((holiday_manager \<Rightarrow> hm_prog) \<Rightarrow> (js_error \<Rightarrow> holiday_manager \<Rightarrow> hm_prog) \<Rightarrow>
    holiday_manager \<Rightarrow> hm_prog) \<Rightarrow> holiday_manager \<Rightarrow> hm_prog" where
  "hm_run t fn s =
     fn (\<lambda>s. Eff ReloadHolidays (Ret (s\<lparr>hm_busy := False\<rparr>)))
        (\<lambda>e s. Ret (s\<lparr>hm_error := Some (absenceError e t), hm_busy := False\<rparr>))
        (s\<lparr>hm_busy := True, hm_error := None\<rparr>)"

definition hm_add :: "dict \<Rightarrow> holiday_manager \<Rightarrow> hm_prog" where
  "hm_add t s =
     (if \<not> truthy (hm_picked s) \<or> js_trim (hm_name s) = [] then Ret s
      else hm_run t (\<lambda>ok err s'.
        Call s' (api_setHoliday (nn (hm_picked s) []) (js_trim (hm_name s)))
          (\<lambda>r s. case r of Inr x \<Rightarrow> ok (s\<lparr>hm_picked := None, hm_name := []\<rparr>) | Inl e \<Rightarrow> err e s)) s)"

definition hm_remove :: "dict \<Rightarrow> jstr \<Rightarrow> holiday_manager \<Rightarrow> hm_prog" where
  "hm_remove t d s =
     hm_run t (\<lambda>ok err s. Call s (api_deleteHoliday d)
       (\<lambda>r s. case r of Inr x \<Rightarrow> ok s | Inl e \<Rightarrow> err e s)) s"

text \<open>The loop over the fixed holidays that the year does not have yet.\<close>

fun set_all ::
  "(jstr \<times> jstr) list \<Rightarrow> (holiday_manager \<Rightarrow> hm_prog) \<Rightarrow> (js_error \<Rightarrow> holiday_manager \<Rightarrow> hm_prog) \<Rightarrow>
   holiday_manager \<Rightarrow> hm_prog" where
  "set_all [] ok err s = ok s"
| "set_all ((d, n) # rest) ok err s =
     Call s (api_setHoliday d n) (\<lambda>r s. case r of Inr x \<Rightarrow> set_all rest ok err s | Inl e \<Rightarrow> err e s)"

definition missing_fixed :: "holiday_manager \<Rightarrow> (jstr \<times> jstr) list" where
  "missing_fixed s =
     filter (\<lambda>(d, n). byDate s d = None)
       (map (\<lambda>(md, n). (js_num (hm_year s) @ js ''-'' @ md, n)) FIXED_HOLIDAYS)"

definition fillFixed :: "dict \<Rightarrow> holiday_manager \<Rightarrow> hm_prog" where
  "fillFixed t s = hm_run t (set_all (missing_fixed s)) s"

definition hm_handle :: "dict \<Rightarrow> hm_event \<Rightarrow> holiday_manager \<Rightarrow> hm_prog" where
  "hm_handle t e s =
     (case e of
        HmShift d \<Rightarrow> Ret (hm_shift d s)
      | HmPick d \<Rightarrow> Ret (s\<lparr>hm_picked := Some d\<rparr>)
      | HmRemove d \<Rightarrow> hm_remove t d s
      | HmName x \<Rightarrow> Ret (s\<lparr>hm_name := x\<rparr>)
      | HmAdd \<Rightarrow> hm_add t s
      | HmCancel \<Rightarrow> Ret (s\<lparr>hm_picked := None\<rparr>)
      | HmFill \<Rightarrow> fillFixed t s)"

section \<open>The calendar\<close>

text \<open>Blank cells up to the weekday of the first, then the days of the month.\<close>

definition month_cells :: "int \<Rightarrow> int \<Rightarrow> int option list" where
  "month_cells year month =
     (let first = week_day (make_day (full_year year) month 1);
          days = get_date (make_day (full_year year) (month + 1) 0) in
      replicate (nat first) None @ map (\<lambda>i. Some (int i + 1)) [0..<nat days])"

definition holiday_cell :: "holiday_manager \<Rightarrow> nat \<Rightarrow> int option \<Rightarrow> hm_event view" where
  "holiday_cell s i c =
     (case c of
        None \<Rightarrow> Box []
      | Some d \<Rightarrow>
          (let stamp = iso_date (hm_year s) (hm_month s) d;
               weekend = i mod 7 = 0 \<or> i mod 7 = 6;
               hol = byDate s stamp in
           Box
            [Btn (\<not> canEditRoster (hm_auth s) \<or> hm_busy s \<or> (weekend \<and> \<not> truthy hol)) (js_num d)
               (if truthy hol then HmRemove stamp else HmPick stamp),
             when_v (truthy hol) [Txt (nn hol [])]]))"

definition monthList :: "holiday_manager \<Rightarrow> holiday list" where
  "monthList s = filter (\<lambda>h. js_slice 5 7 (ho_holiday_date h) = pad2 (hm_month s + 1)) (hm_holidays s)"

definition HolidayManager :: "dict \<Rightarrow> (jstr \<Rightarrow> jstr) \<Rightarrow> holiday_manager \<Rightarrow> hm_event view" where
  "HolidayManager t thai_date s =
     (let thai_year = js_num (hm_year s + 543) in
      Box
       ([Txt (t ''leave.holidaysTitle'' @ js '' '' @ thai_year),
         Txt (js ''('' @ js_num (int (length (hm_holidays s))) @ [32, 0xe27, 0xe31, 0xe19, 41]),
         Txt (t ''leave.holidayHint'' @ [32, 0xb7, 32, 0xe04, 0xe25, 0xe34, 0xe01, 0xe27, 0xe31,
             0xe19, 0xe43, 0xe19, 0xe1b, 0xe0f, 0xe34, 0xe17, 0xe34, 0xe19, 0xe40, 0xe1e, 0xe37,
             0xe48, 0xe2d, 0xe40, 0xe1e, 0xe34, 0xe48, 0xe21, 47, 0xe25, 0xe1a]),
         Btn (\<not> canEditRoster (hm_auth s) \<or> hm_busy s)
           ([0xe40, 0xe15, 0xe34, 0xe21, 0xe27, 0xe31, 0xe19, 0xe2b, 0xe22, 0xe38, 0xe14, 0xe27,
               0xe31, 0xe19, 0xe17, 0xe35, 0xe48, 0xe15, 0xe32, 0xe22, 0xe15, 0xe31, 0xe27, 0xe02,
               0xe2d, 0xe07, 0xe1b, 0xe35, 32] @ thai_year) HmFill,
         Btn False [0x2039] (HmShift (- 1)),
         Txt (THAI_MONTHS ! nat (hm_month s) @ js '' '' @ thai_year),
         Btn False [0x203a] (HmShift 1)] @
        map Txt [[0xe2d, 0xe32], [0xe08], [0xe2d], [0xe1e], [0xe1e, 0xe24], [0xe28], [0xe2a]] @
        map (\<lambda>(i, c). holiday_cell s i c)
          (enumerate 0 (month_cells (hm_year s) (hm_month s))) @
        [when_v (truthy (hm_picked s))
           [Txt (thai_date (nn (hm_picked s) [])),
            Field False (hm_name s) HmName,
            Btn (hm_busy s \<or> js_trim (hm_name s) = []) (t ''leave.holidayAdd'') HmAdd,
            Btn False (t ''common.cancel'') HmCancel],
         when_v (truthy (hm_error s)) [Toned Red [Txt (nn (hm_error s) [])]],
         Box (map (\<lambda>h. Txt (thai_date (ho_holiday_date h) @ [32, 0x2014, 32] @ ho_name_th h)) (monthList s))]))"

text \<open>Enter in the name field adds, whether the button is enabled or not.\<close>

definition hm_enabled :: "dict \<Rightarrow> (jstr \<Rightarrow> jstr) \<Rightarrow> holiday_manager \<Rightarrow> hm_event \<Rightarrow> bool" where
  "hm_enabled t thai_date s e \<longleftrightarrow>
     e \<in> offers (HolidayManager t thai_date s) \<or> (e = HmAdd \<and> truthy (hm_picked s))"

definition hm_init :: "jstr \<Rightarrow> holiday_manager \<Rightarrow> bool" where
  "hm_init today s \<longleftrightarrow>
     hm_today s = today \<and> hm_list s = api_idle \<and>
     js_Number (js_slice 0 4 today) = Some (hm_year s) \<and>
     js_Number (js_slice 5 7 today) = Some (hm_month s + 1) \<and>
     hm_picked s = None \<and> hm_name s = [] \<and> \<not> hm_busy s \<and> hm_error s = None"

definition hm_env :: "holiday_manager \<Rightarrow> holiday_manager \<Rightarrow> bool" where
  "hm_env s s' \<longleftrightarrow> (\<exists>a d q. s' = s\<lparr>hm_auth := a, hm_today := d, hm_list := q\<rparr>)"

interpretation holiday_ui: async_ui "hm_init today" "hm_enabled t thai_date" "hm_handle t" hm_env
  for today t thai_date .

section \<open>Properties\<close>

lemma week_day_add: "week_day (n + int k) = (week_day n + int k) mod 7"
  by (simp add: week_day_def) presburger

text \<open>C18: The calendar shows each day of the month once, in order, and in the column of its
  weekday: the cells that are not blank are 1, 2, and so on to the length of the month, and
  the position of each, counted from a Sunday, is the weekday of that date.\<close>

theorem calendar_exact:
  assumes m: "0 \<le> m" "m < 12" and y: "100 \<le> y"
  shows "map the (filter (\<lambda>c. c \<noteq> None) (month_cells y m)) = map int [1..<Suc (nat (month_len y m))] \<and>
         (\<forall>i d. i < length (month_cells y m) \<longrightarrow> month_cells y m ! i = Some d \<longrightarrow>
            int i mod 7 = week_day (make_day y m d))"
proof -
  let ?f = "week_day (make_day y m 1)" and ?n = "nat (month_len y m)"
  have fy: "full_year y = y" using y by (simp add: full_year_def)
  have f: "0 \<le> ?f" by (simp add: week_day_def)
  have c: "month_cells y m = replicate (nat ?f) None @ map (\<lambda>i. Some (int i + 1)) [0..<?n]"
    by (simp add: month_cells_def Let_def fy month_end[OF m])
  have "map the (filter (\<lambda>c. c \<noteq> None) (month_cells y m)) = map (\<lambda>i. int i + 1) [0..<?n]"
    by (simp add: c comp_def)
  also have "\<dots> = map int [1..<Suc ?n]"
    unfolding map_Suc_upt[symmetric] One_nat_def by (simp add: comp_def add.commute)
  finally have 1: "map the (filter (\<lambda>c. c \<noteq> None) (month_cells y m)) = map int [1..<Suc ?n]" .
  have 2: "int i mod 7 = week_day (make_day y m d)"
    if i: "i < length (month_cells y m)" and d: "month_cells y m ! i = Some d" for i d
  proof -
    have "nat ?f \<le> i" using d by (rule contrapos_pp) (simp add: c nth_append)
    then obtain k where k: "i = nat ?f + k" using le_Suc_ex by blast
    with i have "k < ?n" by (simp add: c)
    with d k have "d = int k + 1" by (simp add: c nth_append)
    then have "make_day y m d = make_day y m 1 + int k" by (simp add: make_day_def Let_def)
    then show ?thesis using f by (simp add: week_day_add k)
  qed
  show ?thesis using 1 2 by blast
qed

theorem calendar_exact_witness:
  "map the (filter (\<lambda>c. c \<noteq> None) (month_cells 2028 1)) = map int [1..<30]"
proof -
  have "month_len 2028 1 = 29" by (simp add: month_len_def month_lens_def leap_def)
  with calendar_exact[of 1 2028] show ?thesis by simp
qed

lemma js_rem_mod: "js_rem (js_rem m 12 + 12) 12 = m mod 12"
proof -
  have "0 \<le> js_rem m 12 + 12" by (simp add: js_rem_def) (smt (verit) pos_mod_bound)
  moreover have "js_rem m 12 mod 12 = m mod 12" by (simp add: js_rem_def mod_minus_eq)
  ultimately show ?thesis by (simp add: js_rem_def)
qed

lemma hm_shift_month:
  "0 \<le> hm_month (hm_shift d s) \<and> hm_month (hm_shift d s) < 12 \<and>
   12 * hm_year (hm_shift d s) + hm_month (hm_shift d s) = 12 * hm_year s + hm_month s + d"
proof -
  let ?m = "hm_month s + d"
  have y: "hm_year (hm_shift d s) = hm_year s + ?m div 12" by (simp add: hm_shift_def Let_def)
  have m: "hm_month (hm_shift d s) = ?m mod 12"
    unfolding hm_shift_def Let_def js_rem_mod by simp
  have "12 * (?m div 12) + ?m mod 12 = ?m" by simp
  then show ?thesis unfolding y m by (simp add: distrib_left)
qed

text \<open>What the manager may send from a state when it has sent the requests of \<open>H\<close>: the holiday
  picked, with the name in the open field; the removal of a holiday on a day of the month shown;
  or one of the fixed holidays that were missing in the year shown when the filling began, which
  began with the first of these.\<close>

definition shown_day :: "holiday_manager \<Rightarrow> jstr \<Rightarrow> bool" where
  "shown_day s d \<longleftrightarrow>
     (\<exists>n. Some n \<in> set (month_cells (hm_year s) (hm_month s)) \<and> d = iso_date (hm_year s) (hm_month s) n)"

definition holiday_policy :: "(holiday_manager \<times> call) set \<Rightarrow> holiday_manager \<Rightarrow> call \<Rightarrow> bool" where
  "holiday_policy H s q \<longleftrightarrow>
     (\<exists>d. d \<noteq> [] \<and> hm_picked s = Some d \<and> js_trim (hm_name s) \<noteq> [] \<and>
          q = api_setHoliday d (js_trim (hm_name s))) \<or>
     (\<exists>d. shown_day s d \<and> truthy (byDate s d) \<and> canEditRoster (hm_auth s) \<and> q = api_deleteHoliday d) \<or>
     (\<exists>s0 md n d0 n0. (md, n) \<in> set FIXED_HOLIDAYS \<and> q = api_setHoliday (js_num (hm_year s0) @ js ''-'' @ md) n \<and>
          byDate s0 (js_num (hm_year s0) @ js ''-'' @ md) = None \<and> canEditRoster (hm_auth s0) \<and>
          missing_fixed s0 \<noteq> [] \<and> hd (missing_fixed s0) = (d0, n0) \<and>
          (s0, api_setHoliday d0 n0) \<in> insert (s, q) H)"

definition month_ok :: "holiday_manager \<Rightarrow> bool" where
  "month_ok s \<longleftrightarrow> 0 \<le> hm_month s \<and> hm_month s < 12"

lemma month_ok_update [simp]:
  "month_ok (s\<lparr>hm_busy := b\<rparr>) = month_ok s" "month_ok (s\<lparr>hm_error := e\<rparr>) = month_ok s"
  "month_ok (s\<lparr>hm_picked := p\<rparr>) = month_ok s" "month_ok (s\<lparr>hm_name := n\<rparr>) = month_ok s"
  by (simp_all add: month_ok_def)

lemma set_all_safe:
  assumes "\<And>H s d n. (d, n) \<in> set xs \<Longrightarrow> H0 \<subseteq> H \<Longrightarrow> Q H s (api_setHoliday d n)"
    and "\<And>H s. month_ok s \<Longrightarrow> hsafe (\<lambda>H. month_ok) Q (ok s) H"
    and "\<And>H e s. month_ok s \<Longrightarrow> hsafe (\<lambda>H. month_ok) Q (err e s) H"
  shows "month_ok s \<Longrightarrow> H0 \<subseteq> H \<Longrightarrow> hsafe (\<lambda>H. month_ok) Q (set_all xs ok err s) H"
  using assms(1)
proof (induction xs arbitrary: s H)
  case Nil
  then show ?case using assms(2) by simp
next
  case (Cons x xs)
  obtain d n where x: "x = (d, n)" by force
  have "hsafe (\<lambda>H. month_ok) Q (set_all xs ok err s') H'" if "insert (s, api_setHoliday d n) H \<subseteq> H'" "month_ok s'" for H' s'
    using that Cons.prems by (intro Cons.IH) auto
  moreover have "Q H s (api_setHoliday d n)" using Cons.prems x by simp
  ultimately show ?case using Cons.prems(1) assms(3) by (auto simp: x split: sum.split)
qed

lemma missing_fixed_from:
  "(d, n) \<in> set (missing_fixed s) \<longleftrightarrow>
     (\<exists>md. (md, n) \<in> set FIXED_HOLIDAYS \<and> d = js_num (hm_year s) @ js ''-'' @ md \<and> byDate s d = None)"
  by (auto simp: missing_fixed_def)

lemma fill_policy:
  assumes "(d, n) \<in> set (missing_fixed s0)" "canEditRoster (hm_auth s0)" "missing_fixed s0 = (d0, n0) # rest"
    and "(s0, api_setHoliday d0 n0) \<in> insert (s, api_setHoliday d n) H"
  shows "holiday_policy H s (api_setHoliday d n)"
proof -
  obtain md where md: "(md, n) \<in> set FIXED_HOLIDAYS" "d = js_num (hm_year s0) @ js ''-'' @ md" "byDate s0 d = None"
    using assms(1) by (auto simp: missing_fixed_from)
  have "missing_fixed s0 \<noteq> []" "hd (missing_fixed s0) = (d0, n0)" using assms(3) by simp_all
  with md assms(2,4) show ?thesis unfolding holiday_policy_def
    by (intro disjI2 exI[of _ s0] exI[of _ md] exI[of _ n] exI[of _ d0] exI[of _ n0]) simp
qed

lemma byDate_update [simp]:
  "byDate (s\<lparr>hm_busy := b, hm_error := e\<rparr>) = byDate s"
  by (simp add: byDate_def hm_holidays_def)

lemma missing_fixed_update [simp]:
  "missing_fixed (s\<lparr>hm_busy := b, hm_error := e\<rparr>) = missing_fixed s"
  by (simp add: missing_fixed_def)

lemma shown_day_update [simp]: "shown_day (s\<lparr>hm_busy := b, hm_error := e\<rparr>) = shown_day s"
  by (simp add: shown_day_def fun_eq_iff)

lemma enumerate_mem: "(a, c) \<in> set (enumerate n xs) \<Longrightarrow> c \<in> set xs"
  by (metis enumerate_eq_zip set_zip_rightD)

lemma offers_HmRemove:
  "hm_enabled t thai s (HmRemove d) \<Longrightarrow> shown_day s d \<and> truthy (byDate s d) \<and> canEditRoster (hm_auth s)"
  by (auto simp: hm_enabled_def HolidayManager_def holiday_cell_def shown_day_def Let_def
      dest!: enumerate_mem split: if_splits option.splits)

lemma offers_HmFill: "hm_enabled t thai s HmFill \<Longrightarrow> canEditRoster (hm_auth s)"
  by (auto simp: hm_enabled_def HolidayManager_def holiday_cell_def Let_def split: if_splits option.splits)

lemma fillFixed_safe:
  assumes "canEditRoster (hm_auth s)" and "month_ok s"
  shows "hsafe (\<lambda>H. month_ok) holiday_policy (fillFixed t s) H"
proof (cases "missing_fixed s")
  case Nil
  with assms(2) show ?thesis by (simp add: fillFixed_def hm_run_def)
next
  case (Cons x rest)
  obtain d0 n0 where x: "x = (d0, n0)" by force
  let ?s = "s\<lparr>hm_busy := True, hm_error := None\<rparr>" and ?q = "api_setHoliday d0 n0"
  have m: "missing_fixed ?s = (d0, n0) # rest" "canEditRoster (hm_auth ?s)" using Cons x assms(1) by simp_all
  have "holiday_policy H' s' (api_setHoliday d n)"
    if "(d, n) \<in> set ((d0, n0) # rest)" "(?s, ?q) \<in> insert (s', api_setHoliday d n) H'" for d n H' s'
    using that m(1) by (intro fill_policy[OF _ m(2,1)]) simp_all
  then have "hsafe (\<lambda>H. month_ok) holiday_policy (set_all rest ok err s') H'"
    if "insert (?s, ?q) H \<subseteq> H'" "month_ok s'" "\<And>H s. month_ok s \<Longrightarrow> hsafe (\<lambda>H. month_ok) holiday_policy (ok s) H"
      "\<And>H e s. month_ok s \<Longrightarrow> hsafe (\<lambda>H. month_ok) holiday_policy (err e s) H" for H' s' ok err
    using that by (intro set_all_safe[of rest "insert (?s, ?q) H"]) auto
  moreover have "holiday_policy H ?s ?q" using m(1) by (intro fill_policy[OF _ m(2,1)]) simp_all
  ultimately show ?thesis using assms(2) by (auto simp: fillFixed_def hm_run_def Cons x split: sum.split)
qed

lemma offers_HmShift: "hm_enabled t thai s (HmShift d) \<Longrightarrow> d = 1 \<or> d = - 1"
  by (auto simp: hm_enabled_def HolidayManager_def holiday_cell_def Let_def split: if_splits option.splits)

text \<open>C28: On every reachable state of the manager the month lies in its year (so the name of the month
  exists) and moving changes the shown month by exactly the months moved. Every request it sent
  was meant: it sets the day picked to the trimmed name typed; or, with the permission, it clears
  a day of the month shown that the list has as a holiday, and a click on such a day sends the
  removal of exactly that day; or it sets one of the fixed holidays that the year shown at the
  click on the filling button did not have, in a run that began at that click, with the
  permission, whatever month is shown by now.\<close>

theorem holiday_manager_safe:
  assumes reach: "holiday_ui.ui_reach today t thai c" and today: "parse_iso today \<noteq> None"
  shows "0 \<le> hm_month (st c) \<and> hm_month (st c) < int (length THAI_MONTHS) \<and>
         12 * hm_year (hm_shift d (st c)) + hm_month (hm_shift d (st c)) =
           12 * hm_year (st c) + hm_month (st c) + d \<and>
         requests_of (trace_of (hm_handle t (HmRemove day) (st c)) rs) = [api_deleteHoliday day] \<and>
         log_ok holiday_policy (log c)"
proof -
  have "hist_ok (\<lambda>H. month_ok) holiday_policy c"
  proof (rule holiday_ui.ui_history[OF _ _ _ reach])
    fix s
    assume init: "hm_init today s"
    obtain y m d where "parse_iso today = Some (y, m, d)" using today by auto
    then have "0 \<le> m" "m < 12" "m = int (digits_value (js_slice 5 7 today)) - 1"
      "list_all is_digit (js_slice 5 7 today)" "js_slice 5 7 today \<noteq> []"
      by (auto simp: parse_iso_def Let_def js_slice_def split: if_splits)
    moreover from this have "js_Number (js_slice 5 7 today) = Some (m + 1)" by (simp add: js_Number_def)
    ultimately show "month_ok s" using init by (simp add: hm_init_def month_ok_def)
  next
    fix H s e
    assume I: "month_ok s" and en: "hm_enabled t thai s e"
    show "hsafe (\<lambda>H. month_ok) holiday_policy (hm_handle t e s) H"
    proof (cases e)
      case (HmShift d)
      then show ?thesis using hm_shift_month[of d s] by (simp add: hm_handle_def month_ok_def)
    next
      case (HmRemove d)
      let ?s = "s\<lparr>hm_busy := True, hm_error := None\<rparr>"
      have "shown_day ?s d" "truthy (byDate ?s d)" "canEditRoster (hm_auth ?s)"
        using offers_HmRemove[of t thai s d] en HmRemove by simp_all
      then have "holiday_policy H ?s (api_deleteHoliday d)" unfolding holiday_policy_def by blast
      then show ?thesis using I HmRemove
        by (auto simp: hm_handle_def hm_remove_def hm_run_def split: sum.split)
    next
      case HmAdd
      then show ?thesis using I
        by (cases "hm_picked s")
          (auto simp: hm_handle_def hm_add_def hm_run_def holiday_policy_def split: sum.split)
    next
      case HmFill
      then show ?thesis using I en offers_HmFill[of t thai s] by (simp add: hm_handle_def fillFixed_safe)
    qed (use I in \<open>auto simp: hm_handle_def\<close>)
  qed (auto simp: hm_env_def month_ok_def)
  moreover have "requests_of (trace_of (hm_handle t (HmRemove day) (st c)) rs) = [api_deleteHoliday day]"
    by (cases rs) (auto simp: hm_handle_def hm_remove_def hm_run_def split: sum.split)
  ultimately show ?thesis using hm_shift_month[of d "st c"] by (simp add: hist_ok_def THAI_MONTHS_def month_ok_def)
qed

definition hm_demo :: holiday_manager where
  "hm_demo = \<lparr>hm_auth = admin_auth, hm_today = js ''2026-02-27'', hm_list = api_idle, hm_year = 2026,
     hm_month = 1, hm_picked = None, hm_name = [], hm_busy = False, hm_error = None\<rparr>"

lemma hm_demo_reach: "holiday_ui.ui_reach (js ''2026-02-27'') t thai (start hm_demo)"
proof (rule holiday_ui.initial)
  have "js_Number (js_slice 0 4 (js ''2026-02-27'')) = Some 2026"
    "js_Number (js_slice 5 7 (js ''2026-02-27'')) = Some 2" by code_simp+
  then show "hm_init (js ''2026-02-27'') hm_demo" by (simp add: hm_init_def hm_demo_def)
qed

theorem holiday_manager_safe_witness:
  "12 * hm_year (hm_shift 23 hm_demo) + hm_month (hm_shift 23 hm_demo) = 12 * 2026 + 1 + 23"
proof -
  have "parse_iso (js ''2026-02-27'') \<noteq> None" by code_simp
  from holiday_manager_safe[OF hm_demo_reach this, of 23] show ?thesis by (simp add: hm_demo_def)
qed

lemma set_all_trace:
  "requests_of (trace_of (set_all xs ok err s) (map Inr oks @ [Inl e])) =
     take (Suc (length oks)) (map (\<lambda>(d, n). api_setHoliday d n) xs) @
     (if length xs \<le> length oks
      then requests_of (trace_of (ok s) (drop (length xs) (map Inr oks) @ [Inl e]))
      else requests_of (trace_of (err e s) []))"
proof (induction xs arbitrary: oks)
  case (Cons x xs)
  then show ?case by (cases oks; cases x) auto
qed simp

lemma set_all_answer:
  "answer (set_all xs ok err s) (map Inr oks @ [Inl e]) =
     (if length xs \<le> length oks then answer (ok s) (drop (length xs) (map Inr oks) @ [Inl e])
      else answer (err e s) [])"
proof (induction xs arbitrary: oks)
  case (Cons x xs)
  then show ?case by (cases oks; cases x) auto
qed simp

text \<open>Filling in the fixed holidays sends them one after the other, leaving out the dates that
  already have a holiday, and stops at the first failure: after \<open>k\<close> successes and a failure
  exactly the first \<open>k + 1\<close> of the missing ones were sent, the failure is shown if and only
  if one of them failed, and the manager is free again in either case.\<close>

theorem fill_fixed_exact:
  "requests_of (trace_of (fillFixed t s) (map Inr oks @ [Inl e])) =
     take (Suc (length oks)) (map (\<lambda>(d, n). api_setHoliday d n) (missing_fixed s)) \<and>
   map_option (\<lambda>s'. (hm_busy s', hm_error s')) (answer (fillFixed t s) (map Inr oks @ [Inl e])) =
     Some (False, if length (missing_fixed s) \<le> length oks then None else Some (absenceError e t)) \<and>
   (\<forall>(md, n) \<in> set FIXED_HOLIDAYS. let d = js_num (hm_year s) @ js ''-'' @ md in
      byDate s d \<noteq> None \<or> (d, n) \<in> set (missing_fixed s))"
proof (intro conjI)
  show "\<forall>(md, n) \<in> set FIXED_HOLIDAYS. let d = js_num (hm_year s) @ js ''-'' @ md in
      byDate s d \<noteq> None \<or> (d, n) \<in> set (missing_fixed s)"
    by (force simp: missing_fixed_def Let_def)
qed (simp_all add: fillFixed_def hm_run_def set_all_trace set_all_answer)

text \<open>Enter in the name field is not stopped while a request is in flight: pressed twice it sends
  the same holiday twice.\<close>

theorem holiday_enter_twice:
  "\<exists>c. holiday_ui.ui_reach (js ''2026-02-27'') t thai c \<and> hm_busy (st c) \<and>
       map fst (pend c) = replicate 2 (api_setHoliday (js ''2026-02-27'') [77])"
proof -
  let ?d = "js ''2026-02-27''"
  let ?s1 = "hm_demo\<lparr>hm_picked := Some ?d\<rparr>"
  let ?s2 = "?s1\<lparr>hm_name := [77]\<rparr>"
  let ?s3 = "?s2\<lparr>hm_busy := True\<rparr>"
  let ?q = "api_setHoliday ?d [77]"
  have trim: "js_trim [77] = [77]" by (simp add: js_trim_def is_ws_def ws_units_def)
  have "month_cells 2026 1 ! 26 = Some 27" "26 < length (month_cells 2026 1)"
    "iso_date 2026 1 27 = ?d" by code_simp+
  then have "(26, Some 27) \<in> set (enumerate 0 (month_cells 2026 1))"
    by (simp add: in_set_enumerate_eq)
  moreover have "HmPick ?d \<in> offers (holiday_cell hm_demo 26 (Some 27))"
    using \<open>iso_date 2026 1 27 = ?d\<close>
    by (simp add: holiday_cell_def Let_def byDate_def hm_holidays_def hm_demo_def api_idle_def)
  ultimately have "hm_enabled t thai hm_demo (HmPick ?d)"
    by (force simp: hm_enabled_def HolidayManager_def Let_def hm_demo_def)
  then obtain c1 where c1: "holiday_ui.ui_reach ?d t thai c1" "st c1 = ?s1" "pend c1 = []"
    using holiday_ui.reach_ret[OF hm_demo_reach[of t thai], where s = hm_demo and e = "HmPick ?d" and s' = ?s1] by (auto simp: hm_handle_def)
  have "hm_enabled t thai ?s1 (HmName [77])" by (simp add: hm_enabled_def HolidayManager_def Let_def)
  then obtain c2 where c2: "holiday_ui.ui_reach ?d t thai c2" "st c2 = ?s2" "pend c2 = []"
    using holiday_ui.reach_ret[OF c1(1,2), of "HmName [77]" ?s2] c1(3) by (auto simp: hm_handle_def)
  have "\<exists>k. hm_handle t HmAdd ?s2 = Call ?s3 ?q k"
    by (simp add: hm_handle_def hm_add_def hm_run_def trim) (simp add: hm_demo_def)
  moreover have "hm_enabled t thai ?s2 HmAdd" by (simp add: hm_enabled_def)
  ultimately obtain c3 where c3: "holiday_ui.ui_reach ?d t thai c3" "st c3 = ?s3" "map fst (pend c3) = [?q]"
    using holiday_ui.reach_call[OF c2(1,2), of HmAdd ?s3 ?q] c2(3) by fastforce
  have "\<exists>k. hm_handle t HmAdd ?s3 = Call ?s3 ?q k"
    by (simp add: hm_handle_def hm_add_def hm_run_def trim) (simp add: hm_demo_def)
  moreover have "hm_enabled t thai ?s3 HmAdd" by (simp add: hm_enabled_def)
  ultimately obtain c4 where "holiday_ui.ui_reach ?d t thai c4" "st c4 = ?s3" "map fst (pend c4) = [?q, ?q]"
    using holiday_ui.reach_call[OF c3(1,2), of HmAdd ?s3 ?q] c3(3) by fastforce
  then show ?thesis by (intro exI[of _ c4]) (simp add: numeral_2_eq_2)
qed

end
