(* ===== verification/Absence_Page.thy ===== *)
theory Absence_Page
  imports Absences
begin

text \<open>
  The page \<open>Absences\<close> of \<open>frontend/src/pages/Absences.tsx\<close> around the form, the table and
  the calendar (its filters, its query and its pager), and \<open>AbsenceImport\<close>, the import from
  a spreadsheet: choosing a file uploads it for a preview, and a faultless preview offers to
  record it.
\<close>

section \<open>Absences\<close>

datatype leave_scope = CurrentScope | AllScope

record absences_page =
  ax_auth :: auth
  ax_today :: jstr
  ax_scope :: leave_scope
  ax_showCancelled :: bool
  ax_search :: jstr
  ax_page :: nat
  ax_list :: "absence page api_state"

datatype 'c ax_event =
    AxScope leave_scope | AxCancelled bool | AxSearch jstr | AxPrev | AxNext | AxReload | AxPart 'c

datatype ax_effect = ReloadAbsences

type_synonym ax_prog = "(absences_page, call, reply, ax_effect) prog"

definition ax_limit :: nat where
  "ax_limit = 50"

definition absences_query :: "absences_page \<Rightarrow> call" where
  "absences_query s = api_absences
     [(''limit'', JNum (int ax_limit)), (''offset'', JNum (int (ax_page s * ax_limit))),
      (''on_or_after'', j_opt JStr (if ax_scope s = CurrentScope then Some (ax_today s) else None)),
      (''include_cancelled'', JBool (ax_showCancelled s)),
      (''search'', j_opt JStr (opt_str (ax_search s)))]"

definition ax_handle :: "'c ax_event \<Rightarrow> absences_page \<Rightarrow> ax_prog" where
  "ax_handle e s =
     (case e of
        AxScope v \<Rightarrow> Ret (s\<lparr>ax_scope := v, ax_page := 0\<rparr>)
      | AxCancelled b \<Rightarrow> Ret (s\<lparr>ax_showCancelled := b\<rparr>)
      | AxSearch x \<Rightarrow> Ret (s\<lparr>ax_search := x, ax_page := 0\<rparr>)
      | AxPrev \<Rightarrow> Ret (s\<lparr>ax_page := ax_page s - 1\<rparr>)
      | AxNext \<Rightarrow> Ret (s\<lparr>ax_page := ax_page s + 1\<rparr>)
      | AxReload \<Rightarrow> Eff ReloadAbsences (Ret s)
      | AxPart c \<Rightarrow> Ret s)"

definition absences_pager :: "dict \<Rightarrow> absences_page \<Rightarrow> 'c ax_event view" where
  "absences_pager t s =
     (case as_data (ax_list s) of
        None \<Rightarrow> Box []
      | Some d \<Rightarrow> when_v (pg_total d > int ax_limit)
          [Btn (ax_page s = 0) (t ''common.back'') AxPrev,
           Txt (js_num (int (ax_page s + 1)) @ js '' / '' @
                js_num ((pg_total d + int ax_limit - 1) div int ax_limit)),
           Btn (int ((ax_page s + 1) * ax_limit) \<ge> pg_total d) (t ''common.next'') AxNext])"

text \<open>The parts: the form, the table of the loaded absences, the import, the calendar.\<close>

definition Absences ::
  "dict \<Rightarrow> 'c view \<Rightarrow> (absence list \<Rightarrow> 'c view) \<Rightarrow> 'c view \<Rightarrow> 'c view \<Rightarrow> absences_page \<Rightarrow> 'c ax_event view" where
  "Absences t form table import_panel calendar s =
     (let q = ax_list s in
      Box
       [Txt (t ''leave.title''), Txt (t ''leave.subtitle''),
        when_v (canRecordAbsence (ax_auth s)) [map_view AxPart form],
        Txt (t ''leave.listTitle''),
        Btn False (t ''leave.filterCurrent'') (AxScope CurrentScope),
        Btn False (t ''leave.filterAll'') (AxScope AllScope),
        Check False (ax_showCancelled s) AxCancelled, Txt (t ''leave.showCancelled''),
        Field False (ax_search s) AxSearch,
        (if as_loading q then Loading t
         else if truthy (as_error q) then ErrorBanner t (nn (as_error q) [])
         else map_view AxPart (table (nn (map_option pg_items (as_data q)) []))),
        absences_pager t s,
        when_v (canRecordAbsence (ax_auth s)) [map_view AxPart import_panel],
        when_v (isAdmin (ax_auth s)) [map_view AxPart calendar]])"

definition ax_init :: "absences_page \<Rightarrow> bool" where
  "ax_init s \<longleftrightarrow> ax_scope s = CurrentScope \<and> \<not> ax_showCancelled s \<and> ax_search s = [] \<and> ax_page s = 0 \<and>
     ax_list s = api_idle"

definition ax_env :: "absences_page \<Rightarrow> absences_page \<Rightarrow> bool" where
  "ax_env s s' \<longleftrightarrow> (\<exists>a d q. s' = s\<lparr>ax_auth := a, ax_today := d, ax_list := q\<rparr>)"

text \<open>The form, the table and the import ask the page to reload.\<close>

definition ax_enabled ::
  "dict \<Rightarrow> 'c view \<Rightarrow> (absence list \<Rightarrow> 'c view) \<Rightarrow> 'c view \<Rightarrow> 'c view \<Rightarrow> absences_page \<Rightarrow> 'c ax_event \<Rightarrow> bool" where
  "ax_enabled t form table import_panel calendar s e \<longleftrightarrow>
     e \<in> offers (Absences t form table import_panel calendar s) \<or> e = AxReload"

interpretation absences_ui: async_ui ax_init "ax_enabled t form table import_panel calendar" ax_handle ax_env
  for t form table import_panel calendar .

lemma offers_Loading [simp]: "offers (Loading t) = {}"
  by (simp add: Loading_def)

lemma ax_own_offers:
  "AxPrev \<in> offers (Absences t form table import_panel calendar s) \<longleftrightarrow>
     AxPrev \<in> offers (absences_pager t s :: 'c ax_event view)"
  "AxNext \<in> offers (Absences t form table import_panel calendar s) \<longleftrightarrow>
     AxNext \<in> offers (absences_pager t s :: 'c ax_event view)"
  "AxCancelled b \<in> offers (Absences t form table import_panel calendar s) \<longleftrightarrow> b = (\<not> ax_showCancelled s)"
  for form :: "'c view"
  by (auto simp: Absences_def absences_pager_def Let_def offers_map split: option.splits if_splits)

text \<open>Unticking ``show cancelled'' strands the list: the page number is kept, so when fewer
  absences remain than the page starts at, the list says that there is none, and with at most
  fifty remaining the pager that would lead back is not shown either.\<close>

theorem cancelled_filter_strands_page:
  fixes form :: "'c view"
  shows "\<exists>c n. absences_ui.ui_reach TYPE('c) t form table import_panel calendar c \<and>
       0 < n \<and> ax_list (st c) = api_idle\<lparr>as_loading := False,
         as_data := Some \<lparr>pg_items = [], pg_total = n, pg_limit = 50, pg_offset = 50\<rparr>\<rparr> \<and>
       int (ax_page (st c) * ax_limit) > n \<and>
       AxPrev \<notin> offers (Absences t form table import_panel calendar (st c)) \<and>
       AxNext \<notin> offers (Absences t form table import_panel calendar (st c))"
proof -
  let ?V = "Absences t form table import_panel calendar"
  let ?s0 = "\<lparr>ax_auth = default_auth, ax_today = [], ax_scope = CurrentScope, ax_showCancelled = False,
     ax_search = [], ax_page = 0, ax_list = api_idle\<rparr>"
  let ?page = "\<lambda>n k. api_idle\<lparr>as_loading := False,
     as_data := Some \<lparr>pg_items = [], pg_total = n, pg_limit = 50, pg_offset = k\<rparr>\<rparr>"
  let ?s1 = "?s0\<lparr>ax_showCancelled := True\<rparr>"
  let ?s2 = "?s1\<lparr>ax_list := ?page 60 0\<rparr>"
  let ?s3 = "?s2\<lparr>ax_page := 1\<rparr>"
  let ?s4 = "?s3\<lparr>ax_showCancelled := False\<rparr>"
  let ?s5 = "?s4\<lparr>ax_list := ?page 40 50\<rparr>"
  let ?R = "absences_ui.ui_reach TYPE('c) t form table import_panel calendar"
  have env: "ax_env s (s\<lparr>ax_list := q\<rparr>)" for s q unfolding ax_env_def
    by (rule exI[of _ "ax_auth s"], rule exI[of _ "ax_today s"], rule exI[of _ q]) simp
  have r0: "?R (start ?s0)" by (rule absences_ui.initial) (simp add: ax_init_def)
  have e1: "ax_enabled t form table import_panel calendar ?s0 (AxCancelled True)"
    by (simp add: ax_enabled_def ax_own_offers)
  obtain c1 where c1: "?R c1" "st c1 = ?s1"
    using absences_ui.reach_ret[OF r0 _ e1, of ?s1] by (auto simp: ax_handle_def)
  obtain c2 where c2: "?R c2" "st c2 = ?s2"
    using absences_ui.reach_env[OF c1(1), of ?s2] env[of ?s1] c1(2) by auto
  have e2: "ax_enabled t form table import_panel calendar ?s2 AxNext"
    by (simp add: ax_enabled_def ax_own_offers absences_pager_def ax_limit_def)
  obtain c3 where c3: "?R c3" "st c3 = ?s3"
    using absences_ui.reach_ret[OF c2 e2, of ?s3] by (auto simp: ax_handle_def)
  have e3: "ax_enabled t form table import_panel calendar ?s3 (AxCancelled False)"
    by (simp add: ax_enabled_def ax_own_offers)
  obtain c4 where c4: "?R c4" "st c4 = ?s4"
    using absences_ui.reach_ret[OF c3 e3, of ?s4] by (auto simp: ax_handle_def)
  obtain c5 where c5: "?R c5" "st c5 = ?s5"
    using absences_ui.reach_env[OF c4(1), of ?s5] env[of ?s4] c4(2) by auto
  show ?thesis
    using c5(1) by (intro exI[of _ c5] exI[of _ 40])
      (simp add: c5(2) ax_own_offers absences_pager_def ax_limit_def)
qed

text \<open>Where the pager is shown it leads through exactly the pages there are.\<close>

lemma absences_paging:
  assumes "as_data (ax_list s) = Some d" and "pg_total d > int ax_limit"
  shows "(AxNext \<in> offers (Absences t form table import_panel calendar s) \<longleftrightarrow>
            int (ax_page s + 1) < (pg_total d + int ax_limit - 1) div int ax_limit) \<and>
         (AxPrev \<in> offers (Absences t form table import_panel calendar s) \<longleftrightarrow> 0 < ax_page s)"
  using assms by (auto simp: ax_own_offers absences_pager_def ax_limit_def)

section \<open>AbsenceImport\<close>

record import_row =
  ir_destination :: "jstr option"
  ir_employee_id :: "jstr option"
  ir_end_date :: "jstr option"
  ir_errors :: "jstr list"
  ir_line :: int
  ir_name :: "jstr option"
  ir_note :: "jstr option"
  ir_order_ref :: "jstr option"
  ir_start_date :: "jstr option"
  ir_type_code :: "jstr option"

record import_result =
  ires_created :: int
  ires_invalid :: int
  ires_valid :: int
  ires_rows :: "import_row list"

record absence_import =
  ai_file :: "js_file option"
  ai_result :: "import_result option"
  ai_busy :: bool
  ai_error :: "jstr option"

datatype ai_request = RqImport js_file bool | RqImportTemplate

datatype ai_event = AiDownload | AiFile "js_file option" | AiCommit

datatype ai_effect = OnImported | SaveTemplate jstr

type_synonym ai_prog = "(absence_import, ai_request, reply, ai_effect) prog"

definition ai_wire :: "jstr \<Rightarrow> storage \<Rightarrow> ai_request \<Rightarrow> http_request" where
  "ai_wire base ss q =
     (case q of
        RqImport f commit \<Rightarrow> upload_send base ss (absenceImport_path commit) f
      | RqImportTemplate \<Rightarrow> download_send base ss absenceTemplate_path)"

definition import_row_of :: "json \<Rightarrow> import_row" where
  "import_row_of j =
     \<lparr>ir_destination = jstring (jprop j ''destination''), ir_employee_id = jstring (jprop j ''employee_id''),
      ir_end_date = jstring (jprop j ''end_date''),
      ir_errors = map (\<lambda>x. nn (jstring x) []) (jlist (jprop j ''errors'')), ir_line = jint (jprop j ''line''), ir_name = jstring (jprop j ''name''),
      ir_note = jstring (jprop j ''note''), ir_order_ref = jstring (jprop j ''order_ref''),
      ir_start_date = jstring (jprop j ''start_date''), ir_type_code = jstring (jprop j ''type_code'')\<rparr>"

definition import_result_of :: "json \<Rightarrow> import_result" where
  "import_result_of j =
     \<lparr>ires_created = jint (jprop j ''created''), ires_invalid = jint (jprop j ''invalid''),
      ires_valid = jint (jprop j ''valid''), ires_rows = map import_row_of (jlist (jprop j ''rows''))\<rparr>"

definition ai_download :: "dict \<Rightarrow> absence_import \<Rightarrow> ai_prog" where
  "ai_download t s =
     Call s RqImportTemplate
       (\<lambda>r s. case r of
           Inr blob \<Rightarrow> Eff (SaveTemplate [0xe41, 0xe1a, 0xe1a, 0xe1f, 0xe2d, 0xe23, 0xe4c,
               0xe21, 0xe19, 0xe33, 0xe40, 0xe02, 0xe49, 0xe32, 0xe01, 0xe32, 0xe23, 0xe25, 0xe32, 46,
               99, 115, 118]) (Ret s)
         | Inl e \<Rightarrow> Ret (s\<lparr>ai_error := Some (friendlyApiError e t)\<rparr>))"

definition ai_run :: "dict \<Rightarrow> js_file \<Rightarrow> bool \<Rightarrow> absence_import \<Rightarrow> ai_prog" where
  "ai_run t f commit s =
     Call (s\<lparr>ai_busy := True, ai_error := None\<rparr>) (RqImport f commit)
       (\<lambda>r s. case r of
           Inr j \<Rightarrow>
             (let res = import_result_of j in
              if commit \<and> ires_created res \<noteq> 0
              then Eff OnImported (Ret (s\<lparr>ai_result := Some res, ai_file := None, ai_busy := False\<rparr>))
              else Ret (s\<lparr>ai_result := Some res, ai_busy := False\<rparr>))
         | Inl e \<Rightarrow> Ret (s\<lparr>ai_error := Some (friendlyApiError e t), ai_busy := False\<rparr>))"

definition ai_handle :: "dict \<Rightarrow> ai_event \<Rightarrow> absence_import \<Rightarrow> ai_prog" where
  "ai_handle t e s =
     (case e of
        AiDownload \<Rightarrow> ai_download t s
      | AiFile fo \<Rightarrow>
          (let s' = s\<lparr>ai_file := fo, ai_result := None\<rparr> in
           case fo of None \<Rightarrow> Ret s' | Some f \<Rightarrow> ai_run t f False s')
      | AiCommit \<Rightarrow> (case ai_file s of None \<Rightarrow> Ret s | Some f \<Rightarrow> ai_run t f True s))"

text \<open>A file is chosen and its preview is faultless, not empty and not recorded yet.\<close>

definition can_commit :: "absence_import \<Rightarrow> bool" where
  "can_commit s \<longleftrightarrow>
     (case (ai_file s, ai_result s) of
        (Some f, Some r) \<Rightarrow> ires_invalid r = 0 \<and> ires_rows r \<noteq> [] \<and> ires_created r = 0
      | _ \<Rightarrow> False)"

definition import_message :: "import_result \<Rightarrow> jstr" where
  "import_message r =
     (if ires_created r \<noteq> 0 then [0x2705, 32, 0xe1a, 0xe31, 0xe19, 0xe17, 0xe36, 0xe01, 0xe41,
         0xe25, 0xe49, 0xe27, 32] @ js_num (ires_created r) @ [32, 0xe23, 0xe32, 0xe22, 0xe01, 0xe32, 0xe23]
      else if ires_rows r = [] then [0xe44, 0xe21, 0xe48, 0xe1e, 0xe1a, 0xe41, 0xe16, 0xe27, 0xe02,
          0xe49, 0xe2d, 0xe21, 0xe39, 0xe25, 0xe43, 0xe19, 0xe44, 0xe1f, 0xe25, 0xe4c]
      else if ires_invalid r \<noteq> 0
      then [0x274c, 32, 0xe21, 0xe35, 0xe02, 0xe49, 0xe2d, 0xe1c, 0xe34, 0xe14, 0xe1e, 0xe25, 0xe32,
          0xe14, 32] @ js_num (ires_invalid r) @
           [32, 0xe41, 0xe16, 0xe27, 32, 0x2014, 32, 0xe41, 0xe01, 0xe49, 0xe43, 0xe19, 0xe44, 0xe1f,
               0xe25, 0xe4c, 0xe41, 0xe25, 0xe49, 0xe27, 0xe2d, 0xe31, 0xe1b, 0xe42, 0xe2b, 0xe25,
               0xe14, 0xe43, 0xe2b, 0xe21, 0xe48, 32, 40, 0xe22, 0xe31, 0xe07, 0xe44, 0xe21, 0xe48,
               0xe21, 0xe35, 0xe2d, 0xe30, 0xe44, 0xe23, 0xe16, 0xe39, 0xe01, 0xe1a, 0xe31, 0xe19,
               0xe17, 0xe36, 0xe01, 41]
      else [0xe15, 0xe23, 0xe27, 0xe08, 0xe1c, 0xe48, 0xe32, 0xe19, 0xe17, 0xe31, 0xe49, 0xe07, 0xe2b,
          0xe21, 0xe14, 32] @ js_num (ires_valid r) @ [32, 0xe41, 0xe16, 0xe27])"

definition import_row_view :: "(jstr \<Rightarrow> jstr) \<Rightarrow> import_row \<Rightarrow> ai_event view" where
  "import_row_view thai_date r =
     Box [Txt (js_num (ir_line r)), Txt (nn (ir_name r) []), Txt (nn (ir_type_code r) [0x2014]),
          Txt ((if truthy (ir_start_date r) then thai_date (nn (ir_start_date r) []) else [0x2014]) @
               (if truthy (ir_end_date r) \<and> ir_end_date r \<noteq> ir_start_date r
                then [32, 0x2013, 32] @ thai_date (nn (ir_end_date r) []) else [])),
          Toned (if ir_errors r \<noteq> [] then Red else Green)
            [Txt (if ir_errors r \<noteq> [] then js_join [32, 0xB7, 32] (ir_errors r) else [0x2713])]]"

definition AbsenceImport :: "dict \<Rightarrow> (jstr \<Rightarrow> jstr) \<Rightarrow> absence_import \<Rightarrow> ai_event view" where
  "AbsenceImport t thai_date s =
     Box
      [Txt [0xe19, 0xe33, 0xe40, 0xe02, 0xe49, 0xe32, 0xe01, 0xe32, 0xe23, 0xe25, 0xe32, 0xe08, 0xe32,
          0xe01, 32, 69, 120, 99, 101, 108],
       Txt [49, 41, 32, 0xe14, 0xe32, 0xe27, 0xe19, 0xe4c, 0xe42, 0xe2b, 0xe25, 0xe14, 0xe41, 0xe1a,
           0xe1a, 0xe1f, 0xe2d, 0xe23, 0xe4c, 0xe21, 32, 50, 41, 32, 0xe01, 0xe23, 0xe2d, 0xe01,
           0xe43, 0xe19, 32, 69, 120, 99, 101, 108, 32, 40, 0xe41, 0xe16, 0xe27, 0xe17, 0xe35, 0xe48,
           0xe02, 0xe36, 0xe49, 0xe19, 0xe15, 0xe49, 0xe19, 0xe14, 0xe49, 0xe27, 0xe22, 32, 35, 32,
           0xe40, 0xe1b, 0xe47, 0xe19, 0xe15, 0xe31, 0xe27, 0xe2d, 0xe22, 0xe48, 0xe32, 0xe07, 32,
           0xe23, 0xe30, 0xe1a, 0xe1a, 0xe02, 0xe49, 0xe32, 0xe21, 41, 32, 0xe41, 0xe25, 0xe49, 0xe27,
           32, 83, 97, 118, 101, 32, 0xe40, 0xe1b, 0xe47, 0xe19, 32, 67, 83, 86, 32, 85, 84, 70, 45,
           56, 32, 51, 41, 32, 0xe2d, 0xe31, 0xe1b, 0xe42, 0xe2b, 0xe25, 0xe14, 0xe40, 0xe1e, 0xe37,
           0xe48, 0xe2d, 0xe15, 0xe23, 0xe27, 0xe08, 32, 52, 41, 32, 0xe01, 0xe14, 0xe1a, 0xe31,
           0xe19, 0xe17, 0xe36, 0xe01, 32, 0xb7, 32, 0xe1b, 0xe23, 0xe30, 0xe40, 0xe20, 0xe17, 58, 32,
           0xe25, 0xe32, 0xe1b, 0xe48, 0xe27, 0xe22, 44, 32, 0xe25, 0xe32, 0xe01, 0xe34, 0xe08, 44,
           32, 0xe25, 0xe32, 0xe1e, 0xe31, 0xe01, 0xe1c, 0xe48, 0xe2d, 0xe19, 44, 32, 0xe25, 0xe32,
           0xe04, 0xe25, 0xe2d, 0xe14, 0xe1a, 0xe38, 0xe15, 0xe23, 44, 32, 0xe25, 0xe32, 0xe2d, 0xe38,
           0xe1b, 0xe2a, 0xe21, 0xe1a, 0xe17, 44, 32, 0xe44, 0xe1b, 0xe23, 0xe32, 0xe0a, 0xe01, 0xe32,
           0xe23, 44, 32, 0xe44, 0xe1b, 0xe0a, 0xe48, 0xe27, 0xe22, 0xe23, 0xe32, 0xe0a, 0xe01, 0xe32,
           0xe23, 44, 32, 0xe44, 0xe1b, 0xe28, 0xe36, 0xe01, 0xe29, 0xe32, 32, 47, 32, 0xe2d, 0xe1a,
           0xe23, 0xe21, 32, 40, 0xe23, 0xe32, 0xe0a, 0xe01, 0xe32, 0xe23, 47, 0xe0a, 0xe48, 0xe27,
           0xe22, 0xe23, 0xe32, 0xe0a, 0xe01, 0xe32, 0xe23, 47, 0xe28, 0xe36, 0xe01, 0xe29, 0xe32, 32,
           0xe15, 0xe49, 0xe2d, 0xe07, 0xe21, 0xe35, 0xe40, 0xe25, 0xe02, 0xe17, 0xe35, 0xe48, 0xe04,
           0xe33, 0xe2a, 0xe31, 0xe48, 0xe07, 41, 32, 0xb7, 32, 0xe27, 0xe31, 0xe19, 0xe17, 0xe35,
           0xe48, 0xe43, 0xe0a, 0xe49, 0xe23, 0xe39, 0xe1b, 0xe41, 0xe1a, 0xe1a, 32, 49, 48, 47, 49,
           49, 47, 50, 53, 54, 57],
       Btn False [0x2b07, 32, 0xe14, 0xe32, 0xe27, 0xe19, 0xe4c, 0xe42, 0xe2b, 0xe25, 0xe14, 0xe41,
           0xe1a, 0xe1a, 0xe1f, 0xe2d, 0xe23, 0xe4c, 0xe21] AiDownload,
       when_v (can_commit s)
         [Btn (ai_busy s) ([0xe1a, 0xe31, 0xe19, 0xe17, 0xe36, 0xe01, 32] @
            js_num (case ai_result s of None \<Rightarrow> 0 | Some r \<Rightarrow> ires_valid r) @ [32, 0xe23, 0xe32, 0xe22, 0xe01, 0xe32, 0xe23]) AiCommit],
       when_v (truthy (ai_error s)) [ErrorBanner t (nn (ai_error s) [])],
       (case ai_result s of
          None \<Rightarrow> Box []
        | Some r \<Rightarrow> Box
            ([Txt (import_message r)] @
             map Txt [[0xe41, 0xe16, 0xe27], [0xe01, 0xe33, 0xe25, 0xe31, 0xe07, 0xe1e,
                 0xe25], [0xe1b, 0xe23, 0xe30, 0xe40, 0xe20, 0xe17], [0xe0a, 0xe48, 0xe27, 0xe07,
                 0xe27, 0xe31, 0xe19], [0xe1c, 0xe25]] @
             map (import_row_view thai_date) (ires_rows r)))]"

text \<open>The file input is never disabled and offers any file, or none.\<close>

definition ai_enabled :: "dict \<Rightarrow> (jstr \<Rightarrow> jstr) \<Rightarrow> absence_import \<Rightarrow> ai_event \<Rightarrow> bool" where
  "ai_enabled t thai_date s e \<longleftrightarrow> e \<in> offers (AbsenceImport t thai_date s) \<or> (\<exists>fo. e = AiFile fo)"

definition ai_init :: absence_import where
  "ai_init = \<lparr>ai_file = None, ai_result = None, ai_busy = False, ai_error = None\<rparr>"

interpretation import_ui: async_ui "\<lambda>s. s = ai_init" "ai_enabled t thai_date" "ai_handle t" "\<lambda>s s'. s' = s"
  for t thai_date .


lemma offers_import_row [simp]: "offers (import_row_view thai_date r) = {}"
  by (simp add: import_row_view_def)

lemma offers_AiCommit: "ai_enabled t thai s AiCommit \<longleftrightarrow> can_commit s \<and> \<not> ai_busy s"
  by (auto simp: ai_enabled_def AbsenceImport_def ErrorBanner_def split: option.splits)




text \<open>A reply to a preview of one row without faults.\<close>

definition clean_preview :: json where
  "clean_preview = JObj [(''created'', JNum 0), (''invalid'', JNum 0), (''valid'', JNum 1),
     (''rows'', JArr [JObj [(''line'', JNum 2), (''errors'', JArr [])]])]"

lemma clean_preview: "import_result_of clean_preview =
  \<lparr>ires_created = 0, ires_invalid = 0, ires_valid = 1,
   ires_rows = [\<lparr>ir_destination = None, ir_employee_id = None, ir_end_date = None, ir_errors = [],
                 ir_line = 2, ir_name = None, ir_note = None, ir_order_ref = None,
                 ir_start_date = None, ir_type_code = None\<rparr>]\<rparr>"
  by (simp add: clean_preview_def import_result_of_def import_row_of_def)

text \<open>A second file chosen while the first is being checked inherits its preview: the outcome of
  the first is shown for the second, and recording the second, which was not checked, is
  offered.\<close>

theorem import_preview_of_other_file:
  "\<exists>c. import_ui.ui_reach t thai c \<and> ai_file (st c) = Some g \<and>
       ai_result (st c) = Some (import_result_of clean_preview) \<and>
       map fst (pend c) = [RqImport g False] \<and> ai_enabled t thai (st c) AiCommit"
proof -
  let ?A = "ai_init\<lparr>ai_file := Some f, ai_busy := True\<rparr>" and ?B = "ai_init\<lparr>ai_file := Some g, ai_busy := True\<rparr>"
  have en: "ai_enabled t thai s (AiFile fo)" for s fo by (simp add: ai_enabled_def)
  have run: "\<exists>k. ai_handle t (AiFile (Some x)) s = Call (s\<lparr>ai_file := Some x, ai_result := None,
       ai_busy := True, ai_error := None\<rparr>) (RqImport x False) k \<and>
     (\<forall>s'. k (Inr clean_preview) s' = Ret (s'\<lparr>ai_result := Some (import_result_of clean_preview),
       ai_busy := False\<rparr>))" for x s
    by (simp add: ai_handle_def ai_run_def Let_def)
  have r0: "import_ui.ui_reach t thai (start ai_init)" by (rule import_ui.initial) simp
  from run[of f ai_init] obtain k where
    k: "ai_handle t (AiFile (Some f)) ai_init = Call ?A (RqImport f False) k"
      "\<And>s'. k (Inr clean_preview) s' = Ret (s'\<lparr>ai_result := Some (import_result_of clean_preview),
         ai_busy := False\<rparr>)"
    by (auto simp: ai_init_def)
  obtain c1 where c1: "import_ui.ui_reach t thai c1" "st c1 = ?A" "pend c1 = [(RqImport f False, k)]"
    using import_ui.reach_call[OF r0 _ en, of ai_init "Some f"] k(1) by auto
  from run[of g ?A] obtain l where
    "ai_handle t (AiFile (Some g)) ?A = Call ?B (RqImport g False) l"
    by (auto simp: ai_init_def)
  then obtain c2 where c2: "import_ui.ui_reach t thai c2" "st c2 = ?B"
    "pend c2 = [(RqImport f False, k), (RqImport g False, l)]"
    using import_ui.reach_call[OF c1(1,2) en, of "Some g"] c1(3) by auto
  let ?c = "resume 0 (Inr clean_preview) c2"
  have "import_ui.ui_reach t thai ?c" by (rule import_ui.reach_outcome) (use c2 in simp_all)
  moreover have "st ?c = ?B\<lparr>ai_result := Some (import_result_of clean_preview), ai_busy := False\<rparr>"
    "pend ?c = [(RqImport g False, l)]"
    by (simp_all add: resume_def c2 k(2))
  ultimately show ?thesis
    by (intro exI[of _ ?c]) (simp add: offers_AiCommit can_commit_def clean_preview)
qed


end
