(* ===== verification/System_Settings.thy ===== *)
theory System_Settings
  imports Personnel_Lifecycle Personnel_Parts "HOL-Library.Multiset"
begin

text \<open>
  The settings cards of \<open>frontend/src/pages/System.tsx\<close>: \<open>DepartmentsCard\<close> (an editable,
  ordered list saved as a whole), \<open>TrackingModeCard\<close> (when absences start to count) and
  \<open>TelegramReportCard\<close> (preview and sending of the daily report). Each is an instance of the
  one-request-at-a-time contract.
\<close>

section \<open>DepartmentsCard\<close>

record departments =
  dc_list :: "jstr list api_state"
  dc_draft :: "jstr list option"
  dc_newName :: jstr
  dc_busy :: bool
  dc_msg :: notice

datatype dc_event = DcMove nat int | DcDelete jstr | DcNew jstr | DcAdd | DcSave

datatype dc_effect = ReloadDepartments

type_synonym dc_prog = "(departments, call, reply, dc_effect) prog"

definition dc_items :: "departments \<Rightarrow> jstr list" where
  "dc_items s = nn (dc_draft s) (nn (as_data (dc_list s)) [])"

definition dc_edit :: "jstr list \<Rightarrow> departments \<Rightarrow> departments" where
  "dc_edit next_items s = s\<lparr>dc_draft := Some next_items, dc_msg := None\<rparr>"

text \<open>Exchanging two entries.\<close>

definition swap :: "nat \<Rightarrow> nat \<Rightarrow> 'a list \<Rightarrow> 'a list" where
  "swap i j xs = xs[i := xs ! j, j := xs ! i]"

definition dc_move :: "nat \<Rightarrow> int \<Rightarrow> departments \<Rightarrow> departments" where
  "dc_move i d s =
     (let j = int i + d in
      if j < 0 \<or> j \<ge> int (length (dc_items s)) then s else dc_edit (swap i (nat j) (dc_items s)) s)"

definition dc_add :: "departments \<Rightarrow> departments" where
  "dc_add s =
     (let n = js_trim (dc_newName s) in
      if n = [] \<or> n \<in> set (dc_items s) then s
      else (dc_edit (dc_items s @ [n]) s)\<lparr>dc_newName := []\<rparr>)"

definition dc_save :: "dict \<Rightarrow> departments \<Rightarrow> dc_prog" where
  "dc_save t s =
     Call (s\<lparr>dc_busy := True\<rparr>) (api_setDepartments (dc_items s))
       (\<lambda>r s. case r of
           Inr res \<Rightarrow> Eff ReloadDepartments
             (Ret (s\<lparr>dc_draft := None, dc_msg := Some (True, [0xe1a, 0xe31, 0xe19, 0xe17,
                 0xe36, 0xe01, 0xe23, 0xe32, 0xe22, 0xe0a, 0xe37, 0xe48, 0xe2d, 0xe41, 0xe1c, 0xe19,
                 0xe01, 0xe41, 0xe25, 0xe49, 0xe27]), dc_busy := False\<rparr>))
         | Inl e \<Rightarrow> Ret (s\<lparr>dc_msg := Some (False, friendlyApiError e t), dc_busy := False\<rparr>))"

definition dc_handle :: "dict \<Rightarrow> dc_event \<Rightarrow> departments \<Rightarrow> dc_prog" where
  "dc_handle t e s =
     (case e of
        DcMove i d \<Rightarrow> Ret (dc_move i d s)
      | DcDelete x \<Rightarrow> Ret (dc_edit (filter (\<lambda>y. y \<noteq> x) (dc_items s)) s)
      | DcNew x \<Rightarrow> Ret (s\<lparr>dc_newName := x\<rparr>)
      | DcAdd \<Rightarrow> Ret (dc_add s)
      | DcSave \<Rightarrow> dc_save t s)"

definition DepartmentsCard :: "dict \<Rightarrow> departments \<Rightarrow> dc_event view" where
  "DepartmentsCard t s =
     Box
      [Txt [0xe23, 0xe32, 0xe22, 0xe0a, 0xe37, 0xe48, 0xe2d, 0xe41, 0xe1c, 0xe19, 0xe01],
       Txt [0xe43, 0xe0a, 0xe49, 0xe40, 0xe1b, 0xe47, 0xe19, 0xe15, 0xe31, 0xe27, 0xe40, 0xe25, 0xe37,
           0xe2d, 0xe01, 32, 34, 0xe41, 0xe1c, 0xe19, 0xe01, 34, 32, 0xe43, 0xe19, 0xe1f, 0xe2d,
           0xe23, 0xe4c, 0xe21, 0xe01, 0xe33, 0xe25, 0xe31, 0xe07, 0xe1e, 0xe25, 32, 0xe41, 0xe25,
           0xe30, 0xe43, 0xe0a, 0xe49, 0xe08, 0xe31, 0xe14, 0xe01, 0xe25, 0xe38, 0xe48, 0xe21, 0xe43,
           0xe19, 0xe23, 0xe32, 0xe22, 0xe07, 0xe32, 0xe19, 32, 0xb7, 32, 0xe25, 0xe1a, 0xe2d, 0xe2d,
           0xe01, 0xe08, 0xe32, 0xe01, 0xe23, 0xe32, 0xe22, 0xe01, 0xe32, 0xe23, 0xe41, 0xe25, 0xe49,
           0xe27, 32, 0xe04, 0xe19, 0xe17, 0xe35, 0xe48, 0xe2d, 0xe22, 0xe39, 0xe48, 0xe41, 0xe1c,
           0xe19, 0xe01, 0xe19, 0xe31, 0xe49, 0xe19, 0xe22, 0xe31, 0xe07, 0xe04, 0xe07, 0xe04, 0xe48,
           0xe32, 0xe40, 0xe14, 0xe34, 0xe21],
       when_v (truthy (as_error (dc_list s))) [ErrorBanner t (nn (as_error (dc_list s)) [])],
       Box (map (\<lambda>(i, d). Box
          [Txt d, Btn False [0x25b2] (DcMove i (- 1)), Btn False [0x25bc] (DcMove i 1),
           Btn False (t ''common.delete'') (DcDelete d)]) (enumerate 0 (dc_items s))),
       Field False (dc_newName s) DcNew,
       Btn False [0xe40, 0xe1e, 0xe34, 0xe48, 0xe21] DcAdd,
       Btn (dc_busy s \<or> dc_draft s = None) [0xe1a, 0xe31, 0xe19, 0xe17, 0xe36, 0xe01] DcSave,
       notice_view (dc_msg s)]"

definition dc_init :: "departments \<Rightarrow> bool" where
  "dc_init s \<longleftrightarrow> dc_list s = api_idle \<and> dc_draft s = None \<and> dc_newName s = [] \<and> \<not> dc_busy s \<and> dc_msg s = None"

text \<open>The server's list has every department once.\<close>

definition dc_env :: "departments \<Rightarrow> departments \<Rightarrow> bool" where
  "dc_env s s' \<longleftrightarrow> (\<exists>q. distinct (nn (as_data q) []) \<and> s' = s\<lparr>dc_list := q\<rparr>)"

lemma dc_fields [simp]:
  "dc_busy (dc_edit xs s) = dc_busy s" "dc_busy (dc_move i d s) = dc_busy s" "dc_busy (dc_add s) = dc_busy s"
  by (simp_all add: dc_edit_def dc_move_def dc_add_def Let_def)

lemma dc_save_offered: "DcSave \<in> offers (DepartmentsCard t s) \<longleftrightarrow> \<not> dc_busy s \<and> dc_draft s \<noteq> None"
  by (auto simp: DepartmentsCard_def ErrorBanner_def)

interpretation departments_ui: single_flight dc_init "\<lambda>s e. e \<in> offers (DepartmentsCard t s)"
    "dc_handle t" dc_env dc_busy
  for t
proof unfold_locales
  fix s :: departments and e
  assume "e \<in> offers (DepartmentsCard t s)" "dc_busy s"
  then have "e \<noteq> DcSave" using dc_save_offered[of t s] by auto
  with \<open>dc_busy s\<close> show "quiet dc_busy (dc_handle t e s)" by (cases e) (auto simp: dc_handle_def)
next
  fix s :: departments and e
  assume "\<not> dc_busy s"
  then show "settles dc_busy (dc_handle t e s)"
    by (cases e) (auto simp: dc_handle_def dc_save_def split: sum.split)
qed (auto simp: dc_init_def dc_env_def)

lemma swap_facts:
  assumes "i < length xs" "j < length xs"
  shows "mset (swap i j xs) = mset xs" "length (swap i j xs) = length xs" "swap j i (swap i j xs) = xs"
    "distinct (swap i j xs) = distinct xs"
proof -
  show m: "mset (swap i j xs) = mset xs" unfolding swap_def using mset_swap[OF assms(2,1)] by simp
  show "length (swap i j xs) = length xs" by (simp add: swap_def)
  show "swap j i (swap i j xs) = xs"
    using assms by (intro nth_equalityI) (auto simp: swap_def nth_list_update)
  show "distinct (swap i j xs) = distinct xs"
    using m by (metis mset_eq_imp_distinct_iff)
qed

text \<open>The list on the screen never has a department twice, and so neither has what is saved.\<close>

definition dc_inv :: "departments \<Rightarrow> bool" where
  "dc_inv s \<longleftrightarrow> distinct (nn (as_data (dc_list s)) []) \<and> distinct (nn (dc_draft s) [])"

lemma dc_inv_items: "dc_inv s \<Longrightarrow> distinct (dc_items s)"
  by (cases "dc_draft s") (simp_all add: dc_inv_def dc_items_def)

lemma dc_inv_move: "dc_inv s \<Longrightarrow> i < length (dc_items s) \<Longrightarrow> dc_inv (dc_move i d s)"
  using dc_inv_items[of s] by (auto simp: dc_move_def Let_def dc_edit_def dc_inv_def swap_facts)

lemma no_banner_event: "e \<in> offers (ErrorBanner t m) \<longleftrightarrow> False"
  by (simp add: ErrorBanner_def)

lemma dc_offers_move: "DcMove i d \<in> offers (DepartmentsCard t s) \<Longrightarrow> i < length (dc_items s) \<and> (d = 1 \<or> d = - 1)"
  by (auto simp: DepartmentsCard_def no_banner_event in_set_enumerate_eq split: if_splits)

lemma dc_inv_handle:
  assumes "dc_inv s" and "e \<in> offers (DepartmentsCard t s)"
  shows "safe dc_inv (\<lambda>s q. q = api_setDepartments (dc_items s) \<and> distinct (dc_items s) \<and> dc_draft s \<noteq> None)
           (dc_handle t e s)"
proof (cases e)
  case (DcMove i d)
  then show ?thesis using assms dc_offers_move[of i d t s] by (simp add: dc_handle_def dc_inv_move)
next
  case DcAdd
  then show ?thesis using assms dc_inv_items[of s]
    by (auto simp: dc_handle_def dc_add_def dc_edit_def dc_inv_def Let_def)
next
  case DcSave
  moreover have "dc_draft s \<noteq> None" using assms(2) DcSave dc_save_offered[of t s] by simp
  moreover have "dc_inv (s\<lparr>dc_busy := True\<rparr>)" "dc_items (s\<lparr>dc_busy := True\<rparr>) = dc_items s"
    using assms(1) by (simp_all add: dc_inv_def dc_items_def)
  ultimately show ?thesis using dc_inv_items[OF assms(1)]
    by (auto simp: dc_handle_def dc_save_def dc_inv_def split: sum.split)
qed (use assms dc_inv_items[of s] in \<open>auto simp: dc_handle_def dc_edit_def dc_inv_def\<close>)

text \<open>C25: The department list: it never holds a department twice; what is saved is the list on the
  screen after a change, one request at a time; moving an entry exchanges it with its
  neighbour and moving it back restores the list, at either end it changes nothing; adding
  appends the trimmed name unless it is blank or present.\<close>

theorem departments_exact:
  assumes "departments_ui.ui_reach t c" and "s = st c" and "Suc i < length (dc_items s)"
  shows "orderly dc_busy
           (\<lambda>s q. q = api_setDepartments (dc_items s) \<and> distinct (dc_items s) \<and> dc_draft s \<noteq> None) c \<and>
         distinct (dc_items s) \<and>
         mset (dc_items (dc_move i 1 s)) = mset (dc_items s) \<and>
         dc_items (dc_move i 1 s) ! i = dc_items s ! Suc i \<and>
         dc_items (dc_move (Suc i) (- 1) (dc_move i 1 s)) = dc_items s \<and>
         dc_move 0 (- 1) s = s \<and> dc_move (length (dc_items s) - 1) 1 s = s \<and>
         dc_items (dc_add s) =
           (let n = js_trim (dc_newName s) in
            if n = [] \<or> n \<in> set (dc_items s) then dc_items s else dc_items s @ [n])"
proof (intro conjI)
  let ?Q = "\<lambda>s q. q = api_setDepartments (dc_items s) \<and> distinct (dc_items s) \<and> dc_draft s \<noteq> None"
  note rule = departments_ui.orderly_inv[OF assms(1), where I = dc_inv and Q = ?Q]
  show "orderly dc_busy ?Q c"
    by (rule rule(1)) (simp_all only: dc_inv_handle, auto simp: dc_init_def dc_env_def dc_inv_def api_idle_def)
  have "dc_inv (st c)"
    by (rule rule(2)) (simp_all only: dc_inv_handle, auto simp: dc_init_def dc_env_def dc_inv_def api_idle_def)
  then show "distinct (dc_items s)" using dc_inv_items assms(2) by blast
  have items: "dc_items (dc_edit xs s) = xs" for xs by (simp add: dc_items_def dc_edit_def)
  have move: "dc_move i 1 s = dc_edit (swap i (Suc i) (dc_items s)) s"
    using assms(3) by (simp add: dc_move_def Let_def nat_add_distrib)
  show "mset (dc_items (dc_move i 1 s)) = mset (dc_items s)"
    using assms(3) by (simp add: move items swap_facts)
  show "dc_items (dc_move i 1 s) ! i = dc_items s ! Suc i"
    using assms(3) by (simp add: move items swap_def)
  show "dc_items (dc_move (Suc i) (- 1) (dc_move i 1 s)) = dc_items s"
    using assms(3) by (simp add: move dc_move_def[of "Suc i"] Let_def items swap_facts) (simp add: dc_items_def dc_edit_def)
  show "dc_move 0 (- 1) s = s" by (simp add: dc_move_def)
  show "dc_move (length (dc_items s) - 1) 1 s = s" using assms(3) by (simp add: dc_move_def)
  show "dc_items (dc_add s) = (let n = js_trim (dc_newName s) in
      if n = [] \<or> n \<in> set (dc_items s) then dc_items s else dc_items s @ [n])"
    by (simp add: dc_add_def Let_def dc_edit_def dc_items_def)
qed

definition dc_demo :: departments where
  "dc_demo = \<lparr>dc_list = api_idle\<lparr>as_loading := False, as_data := Some [js ''A'', js ''B'']\<rparr>, dc_draft = None,
     dc_newName = [], dc_busy = False, dc_msg = None\<rparr>"

lemma dc_demo_reach: "\<exists>c. departments_ui.ui_reach t c \<and> st c = dc_demo \<and> pend c = [] \<and> log c = []"
proof -
  let ?s = "dc_demo\<lparr>dc_list := api_idle\<rparr>"
  have "departments_ui.ui_reach t (start ?s)"
    by (rule departments_ui.initial) (simp add: dc_init_def dc_demo_def)
  moreover have "dc_env ?s dc_demo" unfolding dc_env_def
    by (rule exI[of _ "dc_list dc_demo"]) (simp add: dc_demo_def)
  ultimately show ?thesis using departments_ui.reach_env[of t "start ?s" dc_demo] by simp
qed

theorem departments_exact_witness:
  "dc_items (dc_move 1 (- 1) (dc_move 0 1 dc_demo)) = [js ''A'', js ''B''] \<and>
   dc_items (dc_move 0 1 dc_demo) ! 0 = js ''B''"
proof -
  obtain c where "departments_ui.ui_reach js c" "dc_demo = st c" using dc_demo_reach by metis
  from departments_exact[OF this, of 0] show ?thesis by (simp add: dc_demo_def dc_items_def)
qed

text \<open>A change made while the list is being saved is lost: the request carries the list as it was,
  and its success drops the draft with the change, without a word.\<close>

theorem department_edit_lost:
  "\<exists>c x. departments_ui.ui_reach t c \<and> x \<in> set (dc_items (st c)) \<and> dc_busy (st c) \<and>
     length (pend c) = 1 \<and>
     (let d = resume 0 (Inr JNull) c in
      x \<notin> set (dc_items (st d)) \<and> map_option fst (dc_msg (st d)) = Some True \<and>
      (\<forall>s q. Inl (s, q) \<in> set (log d) \<longrightarrow> q = api_setDepartments [js ''B'', js ''A'']))"
proof -
  let ?s1 = "dc_demo\<lparr>dc_draft := Some [js ''B'', js ''A'']\<rparr>"
  let ?s2 = "?s1\<lparr>dc_busy := True\<rparr>"
  let ?s3 = "?s2\<lparr>dc_draft := Some [js ''A'', js ''B'']\<rparr>"
  let ?s4 = "?s3\<lparr>dc_newName := js ''C''\<rparr>"
  let ?s5 = "?s3\<lparr>dc_draft := Some [js ''A'', js ''B'', js ''C'']\<rparr>"
  let ?q = "api_setDepartments [js ''B'', js ''A'']"
  let ?k = "\<lambda>r s :: departments. case r of
           Inr res \<Rightarrow> Eff ReloadDepartments
             (Ret (s\<lparr>dc_draft := None, dc_msg := Some (True, [0xe1a, 0xe31, 0xe19, 0xe17,
                 0xe36, 0xe01, 0xe23, 0xe32, 0xe22, 0xe0a, 0xe37, 0xe48, 0xe2d, 0xe41, 0xe1c, 0xe19,
                 0xe01, 0xe41, 0xe25, 0xe49, 0xe27]), dc_busy := False\<rparr>))
         | Inl e \<Rightarrow> Ret (s\<lparr>dc_msg := Some (False, friendlyApiError e t), dc_busy := False\<rparr>)"
  have trim: "js_trim (js ''C'') = js ''C''" by code_simp
  have move: "DcMove 0 1 \<in> offers (DepartmentsCard t s)" if "dc_items s \<noteq> []" for s
    using that by (cases "dc_items s") (auto simp: DepartmentsCard_def)
  obtain c0 where c0: "departments_ui.ui_reach t c0" "st c0 = dc_demo" "pend c0 = []" "log c0 = []"
    using dc_demo_reach by blast
  have "dc_handle t (DcMove 0 1) dc_demo = Ret ?s1"
    by (simp add: dc_handle_def dc_move_def dc_items_def dc_edit_def swap_def dc_demo_def)
  then obtain c1 where c1: "departments_ui.ui_reach t c1" "st c1 = ?s1" "pend c1 = []" "log c1 = []"
    using departments_ui.reach_ret[OF c0(1,2) move] c0(3,4) by (auto simp: dc_items_def dc_demo_def)
  have "dc_handle t DcSave ?s1 = Call ?s2 ?q ?k" by (simp add: dc_handle_def dc_save_def dc_items_def)
  moreover have "DcSave \<in> offers (DepartmentsCard t ?s1)" by (simp add: dc_save_offered) (simp add: dc_demo_def)
  ultimately obtain c2 where c2: "departments_ui.ui_reach t c2" "st c2 = ?s2" "pend c2 = [(?q, ?k)]"
    "log c2 = [Inl (?s2, ?q)]"
    using departments_ui.reach_call[OF c1(1,2)] c1(3,4) by fastforce
  have "dc_handle t (DcMove 0 1) ?s2 = Ret ?s3"
    by (simp add: dc_handle_def dc_move_def dc_items_def dc_edit_def swap_def) (simp add: dc_demo_def)
  then obtain c3 where c3: "departments_ui.ui_reach t c3" "st c3 = ?s3" "pend c3 = [(?q, ?k)]"
    "log c3 = [Inl (?s2, ?q)]"
    using departments_ui.reach_ret[OF c2(1,2) move] c2(3,4) by (auto simp: dc_items_def)
  have e3: "DcNew (js ''C'') \<in> offers (DepartmentsCard t ?s3)" by (simp add: DepartmentsCard_def)
  have h3: "dc_handle t (DcNew (js ''C'')) ?s3 = Ret ?s4" by (simp add: dc_handle_def)
  obtain c4 where c4: "departments_ui.ui_reach t c4" "st c4 = ?s4" "pend c4 = [(?q, ?k)]"
    "log c4 = [Inl (?s2, ?q)]"
    using departments_ui.reach_ret[OF c3(1,2) e3 h3] by (auto simp: c3(3,4))
  have e4: "DcAdd \<in> offers (DepartmentsCard t ?s4)" by (simp add: DepartmentsCard_def)
  have h4: "dc_handle t DcAdd ?s4 = Ret ?s5"
    by (simp add: dc_handle_def dc_add_def dc_items_def dc_edit_def trim) (simp add: dc_demo_def)
  obtain c5 where c5: "departments_ui.ui_reach t c5" "st c5 = ?s5" "pend c5 = [(?q, ?k)]"
    "log c5 = [Inl (?s2, ?q)]"
    using departments_ui.reach_ret[OF c4(1,2) e4 h4] by (auto simp: c4(3,4))
  show ?thesis
    by (intro exI[of _ c5] exI[of _ "js ''C''"])
      (simp add: c5 resume_def Let_def dc_items_def, simp add: dc_demo_def, blast)
qed

section \<open>TrackingModeCard\<close>

record tracking_state =
  trk_counting_from :: "jstr option"
  trk_live :: bool
  trk_live_since :: "jstr option"
  trk_mode :: jstr
  trk_readiness :: branch_readiness

record tracking_card =
  tc_auth :: auth
  tc_tr :: "tracking_state api_state"
  tc_busy :: bool
  tc_error :: "jstr option"
  tc_startDate :: jstr

datatype tc_event = TcChoose string | TcDate jstr

datatype tc_effect = ReloadTracking

type_synonym tc_prog = "(tracking_card, call, reply, tc_effect) prog"

text \<open>\<open>startDate || d?.counting_from || ...\<close>.\<close>

definition tc_date :: "tracking_card \<Rightarrow> jstr option" where
  "tc_date s =
     (if tc_startDate s \<noteq> [] then Some (tc_startDate s)
      else Option.bind (Option.bind (as_data (tc_tr s)) trk_counting_from) opt_str)"

definition tc_choose :: "dict \<Rightarrow> string \<Rightarrow> tracking_card \<Rightarrow> tc_prog" where
  "tc_choose t mode s =
     Call (s\<lparr>tc_busy := True, tc_error := None\<rparr>)
       (api_setTracking (js mode) (if mode = ''date'' then tc_date s else None))
       (\<lambda>r s. case r of
           Inr res \<Rightarrow> Eff ReloadTracking (Ret (s\<lparr>tc_busy := False\<rparr>))
         | Inl e \<Rightarrow> Ret (s\<lparr>tc_error := Some (friendlyApiError e t), tc_busy := False\<rparr>))"

definition tc_handle :: "dict \<Rightarrow> tc_event \<Rightarrow> tracking_card \<Rightarrow> tc_prog" where
  "tc_handle t e s =
     (case e of
        TcChoose mode \<Rightarrow> tc_choose t mode s
      | TcDate x \<Rightarrow> Ret (s\<lparr>tc_startDate := x\<rparr>))"

text \<open>\<open>long_date\<close> is the wording of a date with the month in full.\<close>

definition TrackingModeCard :: "dict \<Rightarrow> (jstr \<Rightarrow> jstr) \<Rightarrow> tracking_card \<Rightarrow> tc_event view" where
  "TrackingModeCard t long_date s =
     (let off = tc_busy s \<or> \<not> canEditRoster (tc_auth s) in
      Box
       [Txt (t ''leave.trackTitle''),
        (case as_data (tc_tr s) of
           None \<Rightarrow> Box []
         | Some d \<Rightarrow> Badge (if trk_live d then Green else Neutral)
             [Txt ((if trk_live d then t ''leave.trackLive'' else t ''leave.trackTrial'') @ [32, 0xB7, 32] @
                   js_num (br_enrolled (trk_readiness d)) @ js ''/'' @ js_num (br_required (trk_readiness d)))]),
        Box (map (\<lambda>(mode, label). Btn off label (TcChoose mode))
          [(''auto'', t ''leave.trackAuto''), (''on'', t ''leave.trackOn''), (''off'', t ''leave.trackOff'')]),
        Txt (t ''leave.trackDateLabel''),
        Field False (nn (tc_date s) []) TcDate,
        Btn (off \<or> tc_date s = None) (t ''leave.trackDateButton'') (TcChoose ''date''),
        (case as_data (tc_tr s) of
           None \<Rightarrow> Box []
         | Some d \<Rightarrow> when_v (trk_mode d = js ''date'' \<and> truthy (trk_counting_from d))
             [Txt (js_replace (t ''leave.trackDateActive'') (js ''{date}'')
                (long_date (nn (trk_counting_from d) [])))]),
        when_v (truthy (tc_error s)) [Toned Red [Txt (nn (tc_error s) [])]]])"

definition tc_init :: "tracking_card \<Rightarrow> bool" where
  "tc_init s \<longleftrightarrow> tc_tr s = api_idle \<and> \<not> tc_busy s \<and> tc_error s = None \<and> tc_startDate s = []"

definition tc_env :: "tracking_card \<Rightarrow> tracking_card \<Rightarrow> bool" where
  "tc_env s s' \<longleftrightarrow> (\<exists>a q. s' = s\<lparr>tc_auth := a, tc_tr := q\<rparr>)"

lemma tc_offers:
  "TcChoose mode \<in> offers (TrackingModeCard t long_date s) \<longleftrightarrow>
     \<not> tc_busy s \<and> canEditRoster (tc_auth s) \<and>
     (mode \<in> {''auto'', ''on'', ''off''} \<or> (mode = ''date'' \<and> tc_date s \<noteq> None))"
  by (auto simp: TrackingModeCard_def Let_def Badge_def split: option.splits)

interpretation tracking_ui: single_flight tc_init "\<lambda>s e. e \<in> offers (TrackingModeCard t long_date s)"
    "tc_handle t" tc_env tc_busy
  for t long_date
proof unfold_locales
  fix s :: tracking_card and e
  assume "e \<in> offers (TrackingModeCard t long_date s)" "tc_busy s"
  then show "quiet tc_busy (tc_handle t e s)"
    by (cases e) (auto simp: tc_handle_def tc_offers)
next
  fix s :: tracking_card and e
  assume "\<not> tc_busy s"
  then show "settles tc_busy (tc_handle t e s)"
    by (cases e) (auto simp: tc_handle_def tc_choose_def split: sum.split)
qed (auto simp: tc_init_def tc_env_def)

definition tracking_policy :: "tracking_card \<Rightarrow> call \<Rightarrow> bool" where
  "tracking_policy s q \<longleftrightarrow> canEditRoster (tc_auth s) \<and>
     ((\<exists>mode \<in> {''auto'', ''on'', ''off''}. q = api_setTracking (js mode) None) \<or>
      (\<exists>d. d \<noteq> [] \<and> q = api_setTracking (js ''date'') (Some d) \<and>
        (d = tc_startDate s \<or>
         (tc_startDate s = [] \<and> Option.bind (as_data (tc_tr s)) trk_counting_from = Some d))))"

text \<open>When absences start to count is changed only by who may edit the roster, one request at a
  time, and the fixed date is sent only with the date the card shows, never without one.\<close>

theorem tracking_requests:
  assumes "tracking_ui.ui_reach t long_date c"
  shows "orderly tc_busy tracking_policy c"
proof (rule tracking_ui.orderly[OF assms])
  fix s e
  assume en: "e \<in> offers (TrackingModeCard t long_date s)"
  show "safe (\<lambda>s. True) tracking_policy (tc_handle t e s)"
  proof (cases e)
    case (TcChoose mode)
    with en have "canEditRoster (tc_auth s)"
      "mode \<in> {''auto'', ''on'', ''off''} \<or> (mode = ''date'' \<and> tc_date s \<noteq> None)" by (simp_all add: tc_offers)
    then have "tracking_policy (s\<lparr>tc_busy := True, tc_error := None\<rparr>)
        (api_setTracking (js mode) (if mode = ''date'' then tc_date s else None))"
      by (auto simp: tracking_policy_def tc_date_def bind_eq_Some_conv opt_str_def split: if_splits)
    then show ?thesis by (simp add: TcChoose tc_handle_def tc_choose_def split: sum.split)
  qed (simp add: tc_handle_def)
qed

theorem tracking_requests_witness:
  "\<exists>c. tracking_ui.ui_reach js (\<lambda>d. d) c \<and> length (log c) = 1 \<and> orderly tc_busy tracking_policy c"
proof -
  let ?s = "\<lparr>tc_auth = admin_auth, tc_tr = api_idle, tc_busy = False, tc_error = None, tc_startDate = []\<rparr>"
  let ?s1 = "?s\<lparr>tc_startDate := js ''2026-10-01''\<rparr>"
  have r0: "tracking_ui.ui_reach js (\<lambda>d. d) (start ?s)" by (rule tracking_ui.initial) (simp add: tc_init_def)
  have e1: "TcDate (js ''2026-10-01'') \<in> offers (TrackingModeCard js (\<lambda>d. d) ?s)"
    by (simp add: TrackingModeCard_def Let_def)
  obtain c1 where c1: "tracking_ui.ui_reach js (\<lambda>d. d) c1" "st c1 = ?s1" "log c1 = []"
    using tracking_ui.reach_ret[OF r0 _ e1, of ?s1] by (auto simp: tc_handle_def)
  have e2: "TcChoose ''date'' \<in> offers (TrackingModeCard js (\<lambda>d. d) ?s1)"
    by (simp add: tc_offers tc_date_def)
  obtain c where "tracking_ui.ui_reach js (\<lambda>d. d) c" "length (log c) = 1"
    using tracking_ui.reach_call[OF c1(1,2) e2] c1(3) by (force simp: tc_handle_def tc_choose_def)
  then show ?thesis using tracking_requests[of js "\<lambda>d. d" c] by blast
qed

section \<open>TelegramReportCard\<close>

record telegram_card =
  tg_text :: "jstr option"
  tg_msg :: notice
  tg_busy :: bool

datatype tg_event = TgPreview | TgSend

type_synonym tg_prog = "(telegram_card, call, reply, unit) prog"

definition tg_explain :: "dict \<Rightarrow> js_error \<Rightarrow> jstr" where
  "tg_explain t e =
     (if is_api_code e ''TELEGRAM_NOT_CONFIGURED'' then t ''leave.tgNotConfigured''
      else if is_api_code e ''TELEGRAM_SEND_FAILED'' then t ''leave.tgFailed'' @ js '': '' @ error_message e
      else friendlyApiError e t)"

definition tg_preview :: "dict \<Rightarrow> telegram_card \<Rightarrow> tg_prog" where
  "tg_preview t s =
     Call (s\<lparr>tg_busy := True, tg_msg := None\<rparr>) api_telegramPreview
       (\<lambda>r s. case r of
           Inr j \<Rightarrow> Ret (s\<lparr>tg_text := Some (nn (jstring (jprop j ''text'')) (t ''leave.tgNonWorkday'')),
                          tg_busy := False\<rparr>)
         | Inl e \<Rightarrow> Ret (s\<lparr>tg_msg := Some (False, tg_explain t e), tg_busy := False\<rparr>))"

definition tg_send :: "dict \<Rightarrow> telegram_card \<Rightarrow> tg_prog" where
  "tg_send t s =
     Call (s\<lparr>tg_busy := True, tg_msg := None\<rparr>) api_telegramSend
       (\<lambda>r s. case r of
           Inr j \<Rightarrow> Ret (s\<lparr>tg_text := jstring (jprop j ''text''), tg_msg := Some (True, t ''leave.tgSent''),
                          tg_busy := False\<rparr>)
         | Inl e \<Rightarrow> Ret (s\<lparr>tg_msg := Some (False, tg_explain t e), tg_busy := False\<rparr>))"

definition tg_handle :: "dict \<Rightarrow> tg_event \<Rightarrow> telegram_card \<Rightarrow> tg_prog" where
  "tg_handle t e s = (case e of TgPreview \<Rightarrow> tg_preview t s | TgSend \<Rightarrow> tg_send t s)"

definition TelegramReportCard :: "dict \<Rightarrow> telegram_card \<Rightarrow> tg_event view" where
  "TelegramReportCard t s =
     Box
      [Txt (t ''leave.tgTitle''), Txt (t ''leave.tgHint''),
       Btn (tg_busy s) (t ''leave.tgPreview'') TgPreview,
       Btn (tg_busy s) (t ''leave.tgSend'') TgSend,
       notice_view (tg_msg s),
       when_v (truthy (tg_text s)) [Txt (nn (tg_text s) [])]]"

definition tg_init :: telegram_card where
  "tg_init = \<lparr>tg_text = None, tg_msg = None, tg_busy = False\<rparr>"

interpretation telegram_ui: single_flight "\<lambda>s. s = tg_init" "\<lambda>s e. e \<in> offers (TelegramReportCard t s)"
    "tg_handle t" "\<lambda>s s'. s' = s" tg_busy
  for t
  by unfold_locales
    (auto simp: tg_init_def TelegramReportCard_def tg_handle_def tg_preview_def tg_send_def
      split: if_splits sum.splits)

text \<open>The report is sent once per press of Send and never by the preview: the preview sends only
  the preview request, sending only the sending request, and a press while one is in flight
  is not offered, so the two never overlap.\<close>

theorem telegram_requests:
  assumes "telegram_ui.ui_reach t c"
  shows "orderly tg_busy (\<lambda>s q. q = api_telegramPreview \<or> q = api_telegramSend) c \<and>
         (\<forall>s. requests_of (trace_of (tg_handle t TgPreview s) [r]) = [api_telegramPreview] \<and>
              requests_of (trace_of (tg_handle t TgSend s) [r]) = [api_telegramSend]) \<and>
         (tg_busy (st c) \<longrightarrow> offers (TelegramReportCard t (st c)) = {})"
proof (intro conjI)
  show "orderly tg_busy (\<lambda>s q. q = api_telegramPreview \<or> q = api_telegramSend) c"
    by (rule telegram_ui.orderly[OF assms])
      (auto simp: tg_handle_def tg_preview_def tg_send_def split: tg_event.split sum.split)
qed (auto simp: tg_handle_def tg_preview_def tg_send_def TelegramReportCard_def split: sum.split)

theorem telegram_requests_witness:
  "requests_of (trace_of (tg_handle js TgSend tg_init) [Inl UnauthorizedError]) = [api_telegramSend]"
proof -
  have "telegram_ui.ui_reach js (start tg_init)" by (rule telegram_ui.initial) simp
  from telegram_requests[OF this, of "Inl UnauthorizedError"] show ?thesis by blast
qed

text \<open>A failed sending shows the text of the server, after a text of the dictionary.\<close>

lemma telegram_raw_message:
  "tg_explain t (ApiClientError n (js ''TELEGRAM_SEND_FAILED'') m) = t ''leave.tgFailed'' @ js '': '' @ m"
  by (simp add: tg_explain_def)

end
