(* ===== verification/System_Page.thy ===== *)
theory System_Page
  imports System_Settings
begin

text \<open>
  The rest of \<open>frontend/src/pages/System.tsx\<close>: \<open>ChangePasswordForm\<close> (an instance of the
  one-request-at-a-time contract), \<open>OperatorAccountsManagement\<close> (the form for a new account
  and the switch of each account, which is not guarded by the form's busy flag) and the page
  \<open>System\<close> with its telemetry cards and the table of ranks. The wordings of a time of day
  and of a date are parameters of the views.
\<close>

section \<open>ChangePasswordForm\<close>

record change_password =
  pw_current :: jstr
  pw_next :: jstr
  pw_busy :: bool
  pw_msg :: notice

datatype pw_event = PwCurrent jstr | PwNext jstr | PwSubmit

type_synonym pw_prog = "(change_password, call, reply, unit) prog"

definition pw_too_short :: "dict \<Rightarrow> jstr \<Rightarrow> jstr" where
  "pw_too_short t x = js_replace (t ''workflow.pwTooShort'') (js ''{n}'') (js_num (int (length x)))"

text \<open>Lengths are counted in code units.\<close>

definition pw_problem :: "dict \<Rightarrow> change_password \<Rightarrow> jstr option" where
  "pw_problem t s =
     (if pw_current s = [] then Some (t ''workflow.pwCurrentMissing'')
      else if length (pw_next s) < 12 then Some (pw_too_short t (pw_next s))
      else if length (pw_next s) > 256 then Some (t ''workflow.pwTooLong'')
      else if pw_next s = pw_current s then Some (t ''workflow.pwSame'')
      else None)"

definition pw_error :: "dict \<Rightarrow> jstr \<Rightarrow> js_error \<Rightarrow> jstr" where
  "pw_error t next_pw e =
     (if is_api_code e ''CURRENT_PASSWORD_INCORRECT'' then t ''workflow.pwCurrentWrong''
      else if is_api_code e ''NEW_PASSWORD_SAME'' then t ''workflow.pwSame''
      else if is_api_code e ''VALIDATION_ERROR'' then pw_too_short t next_pw
      else if is_api_code e ''SESSION'' \<or> e = UnauthorizedError then t ''workflow.pwSessionExpired''
      else friendlyApiError e t)"

definition pw_submit :: "dict \<Rightarrow> change_password \<Rightarrow> pw_prog" where
  "pw_submit t s =
     (if truthy (pw_problem t s) then Ret (s\<lparr>pw_msg := Some (False, nn (pw_problem t s) [])\<rparr>)
      else Call (s\<lparr>pw_busy := True, pw_msg := None\<rparr>) (api_changePassword (pw_current s) (pw_next s))
        (\<lambda>r s'. case r of
            Inr j \<Rightarrow> Ret (s'\<lparr>pw_current := [], pw_next := [],
               pw_msg := Some (True, t ''system.passwordChangedSuccess'' @ js '' ('' @
                 js_string (jprop j ''other_tokens_revoked'') @ js '' other session(s) revoked)''),
               pw_busy := False\<rparr>)
          | Inl e \<Rightarrow> Ret (s'\<lparr>pw_msg := Some (False, pw_error t (pw_next s) e), pw_busy := False\<rparr>)))"

definition pw_handle :: "dict \<Rightarrow> pw_event \<Rightarrow> change_password \<Rightarrow> pw_prog" where
  "pw_handle t e s =
     (case e of
        PwCurrent x \<Rightarrow> Ret (s\<lparr>pw_current := x\<rparr>)
      | PwNext x \<Rightarrow> Ret (s\<lparr>pw_next := x\<rparr>)
      | PwSubmit \<Rightarrow> pw_submit t s)"

definition ChangePasswordForm :: "dict \<Rightarrow> change_password \<Rightarrow> pw_event view" where
  "ChangePasswordForm t s =
     Box
      [Txt (t ''system.changePasswordTitle''), Txt (t ''system.passwordFormSubtitle''),
       notice_view (pw_msg s),
       Txt (t ''system.currentPassword''), Field (pw_busy s) (pw_current s) PwCurrent,
       Txt (t ''system.newPassword''), Field (pw_busy s) (pw_next s) PwNext,
       Btn (pw_busy s) (if pw_busy s then t ''common.saving'' else t ''system.changePasswordButton'') PwSubmit]"

definition pw_init :: change_password where
  "pw_init = \<lparr>pw_current = [], pw_next = [], pw_busy = False, pw_msg = None\<rparr>"

interpretation password_ui: single_flight "\<lambda>s. s = pw_init" "\<lambda>s e. e \<in> offers (ChangePasswordForm t s)"
    "pw_handle t" "\<lambda>s s'. s' = s" pw_busy
  for t
proof unfold_locales
  fix s :: change_password and e
  assume "e \<in> offers (ChangePasswordForm t s)" "pw_busy s"
  then show "quiet pw_busy (pw_handle t e s)" by (auto simp: ChangePasswordForm_def)
next
  fix s :: change_password and e
  assume "\<not> pw_busy s"
  then show "settles pw_busy (pw_handle t e s)"
    by (cases e) (auto simp: pw_handle_def pw_submit_def split: sum.split)
qed (simp_all add: pw_init_def)

definition password_policy :: "change_password \<Rightarrow> call \<Rightarrow> bool" where
  "password_policy s q \<longleftrightarrow>
     pw_current s \<noteq> [] \<and> 12 \<le> length (pw_next s) \<and> length (pw_next s) \<le> 256 \<and>
     pw_next s \<noteq> pw_current s \<and> q = api_changePassword (pw_current s) (pw_next s)"

lemma js_replace_nonempty: "s \<noteq> [] \<Longrightarrow> r \<noteq> [] \<Longrightarrow> js_replace s p r \<noteq> []"
  by (auto simp: js_replace_def split: option.split)

lemma js_num_nonempty: "js_num (int n) \<noteq> []"
  using js_nat_digits[of n] by (simp add: js_num_def)

lemma pw_problem_truthy:
  assumes "\<forall>k \<in> {''workflow.pwCurrentMissing'', ''workflow.pwTooShort'', ''workflow.pwTooLong'', ''workflow.pwSame''}. t k \<noteq> []"
  shows "truthy (pw_problem t s) \<longleftrightarrow>
     pw_current s = [] \<or> length (pw_next s) < 12 \<or> length (pw_next s) > 256 \<or> pw_next s = pw_current s"
  using assms by (auto simp: pw_problem_def pw_too_short_def js_replace_nonempty js_num_nonempty)

text \<open>Changing the password: with texts for its four complaints, the form sends a request only for
  a new password of 12 to 256 units that differs from the current one, which is not blank, one
  request at a time; both fields are cleared by success and only by it.\<close>

theorem password_requests:
  assumes "password_ui.ui_reach t c"
    and "\<forall>k \<in> {''workflow.pwCurrentMissing'', ''workflow.pwTooShort'', ''workflow.pwTooLong'', ''workflow.pwSame''}. t k \<noteq> []"
  shows "orderly pw_busy password_policy c \<and>
         (\<forall>s s' r. password_policy s (api_changePassword (pw_current s) (pw_next s)) \<longrightarrow>
            answer (pw_handle t PwSubmit s) [r] = Some s' \<longrightarrow>
            (pw_current s', pw_next s') = (if isl r then (pw_current s, pw_next s) else ([], [])))"
proof (intro conjI allI impI)
  show "orderly pw_busy password_policy c"
  proof (rule password_ui.orderly[OF assms(1)])
    fix s e
    show "safe (\<lambda>s. True) password_policy (pw_handle t e s)"
      using pw_problem_truthy[OF assms(2), of s]
      by (cases e) (auto simp: pw_handle_def pw_submit_def password_policy_def split: sum.split)
  qed
next
  fix s s' and r :: reply
  assume "password_policy s (api_changePassword (pw_current s) (pw_next s))"
    and "answer (pw_handle t PwSubmit s) [r] = Some s'"
  then show "(pw_current s', pw_next s') = (if isl r then (pw_current s, pw_next s) else ([], []))"
    using pw_problem_truthy[OF assms(2), of s]
    by (cases r) (auto simp: pw_handle_def pw_submit_def password_policy_def)
qed

text \<open>Whatever fails, the complaint is a text of the dictionary, the number of units filled in.\<close>

lemma password_error_copy:
  "pw_error t x e \<in> insert (pw_too_short t x) (t ` ({''workflow.pwCurrentWrong'', ''workflow.pwSame'',
     ''workflow.pwSessionExpired''} \<union> set error_copy_keys))"
  using friendlyApiError_keys[of e t] by (auto simp: pw_error_def)

theorem password_requests_witness:
  "\<exists>c. password_ui.ui_reach js c \<and> length (log c) = 1 \<and> orderly pw_busy password_policy c"
proof -
  let ?t = "\<lambda>k. js k"
  let ?s1 = "pw_init\<lparr>pw_current := [1]\<rparr>"
  let ?s2 = "?s1\<lparr>pw_next := replicate 12 2\<rparr>"
  have r0: "password_ui.ui_reach ?t (start pw_init)" by (rule password_ui.initial) simp
  have e0: "PwCurrent [1] \<in> offers (ChangePasswordForm ?t pw_init)" by (simp add: ChangePasswordForm_def pw_init_def)
  obtain c1 where c1: "password_ui.ui_reach ?t c1" "st c1 = ?s1" "log c1 = []"
    using password_ui.reach_ret[OF r0 _ e0, of ?s1] by (auto simp: pw_handle_def)
  have e1: "PwNext (replicate 12 2) \<in> offers (ChangePasswordForm ?t ?s1)"
    by (simp add: ChangePasswordForm_def pw_init_def)
  obtain c2 where c2: "password_ui.ui_reach ?t c2" "st c2 = ?s2" "log c2 = []"
    using password_ui.reach_ret[OF c1(1,2) e1, of ?s2] c1(3) by (auto simp: pw_handle_def)
  have e2: "PwSubmit \<in> offers (ChangePasswordForm ?t ?s2)" by (simp add: ChangePasswordForm_def pw_init_def)
  have np: "pw_problem ?t ?s2 = None" by (simp add: pw_problem_def numeral_eq_Suc)
  obtain c where "password_ui.ui_reach ?t c" "length (log c) = 1"
    using password_ui.reach_call[OF c2(1,2) e2] c2(3) np by (force simp: pw_handle_def pw_submit_def)
  then show ?thesis using password_requests[of ?t c] by auto
qed

section \<open>OperatorAccountsManagement\<close>

record operator_out =
  op_active :: bool
  op_created_at :: jstr
  op_display_name :: jstr
  op_operator_id :: int
  op_role :: jstr
  op_updated_at :: jstr
  op_username :: jstr

record operator_accounts =
  oa_auth :: auth
  oa_operators :: "operator_out list api_state"
  oa_username :: jstr
  oa_displayName :: jstr
  oa_password :: jstr
  oa_role :: jstr
  oa_createBusy :: bool
  oa_createMsg :: notice
  oa_toggleError :: "jstr option"

datatype oa_event =
    OaUsername jstr | OaDisplayName jstr | OaPassword jstr | OaRole jstr | OaCreate | OaToggle int bool

datatype oa_effect = ReloadOperators

type_synonym oa_prog = "(operator_accounts, call, reply, oa_effect) prog"

definition oa_incomplete :: "operator_accounts \<Rightarrow> bool" where
  "oa_incomplete s \<longleftrightarrow> js_trim (oa_username s) = [] \<or> js_trim (oa_displayName s) = [] \<or> length (oa_password s) < 12"

definition operator_body :: "operator_accounts \<Rightarrow> json" where
  "operator_body s = JObj [(''username'', JStr (js_trim (oa_username s))),
     (''display_name'', JStr (js_trim (oa_displayName s))), (''password'', JStr (oa_password s)),
     (''role'', JStr (oa_role s))]"

definition oa_handleCreate :: "dict \<Rightarrow> operator_accounts \<Rightarrow> oa_prog" where
  "oa_handleCreate t s =
     (if oa_incomplete s then Ret (s\<lparr>oa_createMsg := Some (False, t ''system.operatorValidationError'')\<rparr>)
      else Call (s\<lparr>oa_createBusy := True, oa_createMsg := None\<rparr>) (api_createOperator (operator_body s))
        (\<lambda>r s'. case r of
            Inr j \<Rightarrow> Eff ReloadOperators
              (Ret (s'\<lparr>oa_username := [], oa_displayName := [], oa_password := [],
                 oa_createMsg := Some (True, t ''system.operatorCreateSuccessPrefix'' @ [32, 39] @
                   oa_username s @ [39, 32] @ t ''system.operatorCreateSuccessSuffix''),
                 oa_createBusy := False\<rparr>))
          | Inl e \<Rightarrow> Ret (s'\<lparr>oa_createMsg := Some (False, friendlyApiError e t), oa_createBusy := False\<rparr>)))"

definition oa_handleToggle :: "dict \<Rightarrow> int \<Rightarrow> bool \<Rightarrow> operator_accounts \<Rightarrow> oa_prog" where
  "oa_handleToggle t operatorId currentActive s =
     Call (s\<lparr>oa_toggleError := None\<rparr>) (api_toggleOperatorActive operatorId (\<not> currentActive))
       (\<lambda>r s. case r of
           Inr j \<Rightarrow> Eff ReloadOperators (Ret s)
         | Inl e \<Rightarrow> Ret (s\<lparr>oa_toggleError := Some (friendlyApiError e t)\<rparr>))"

definition oa_handle :: "dict \<Rightarrow> oa_event \<Rightarrow> operator_accounts \<Rightarrow> oa_prog" where
  "oa_handle t e s =
     (case e of
        OaUsername x \<Rightarrow> Ret (s\<lparr>oa_username := x\<rparr>)
      | OaDisplayName x \<Rightarrow> Ret (s\<lparr>oa_displayName := x\<rparr>)
      | OaPassword x \<Rightarrow> Ret (s\<lparr>oa_password := x\<rparr>)
      | OaRole x \<Rightarrow> Ret (s\<lparr>oa_role := x\<rparr>)
      | OaCreate \<Rightarrow> oa_handleCreate t s
      | OaToggle i active \<Rightarrow> oa_handleToggle t i active s)"

definition role_options :: "dict \<Rightarrow> (jstr \<times> jstr) list" where
  "role_options t = [(js ''VIEWER'', t ''roles.viewer''), (js ''OPERATOR'', t ''roles.operator''),
     (js ''ADMIN'', t ''roles.admin'')]"

definition role_desc :: "dict \<Rightarrow> jstr \<Rightarrow> jstr" where
  "role_desc t r =
     (if r = js ''ADMIN'' then t ''roles.adminDesc''
      else if r = js ''OPERATOR'' then t ''roles.operatorDesc''
      else if r = js ''ENROLLMENT_OPERATOR'' then t ''roles.enrollmentOperatorDesc''
      else t ''roles.viewerDesc'')"

definition operator_row :: "dict \<Rightarrow> (jstr \<Rightarrow> jstr) \<Rightarrow> auth \<Rightarrow> operator_out \<Rightarrow> oa_event view" where
  "operator_row t shown_date a op =
     Box
      [Txt (op_username op), Txt (op_display_name op), Txt (op_role op),
       Txt (if op_active op then t ''common.active'' else t ''common.inactive''),
       Txt (shown_date (op_created_at op)),
       (if map_option me_operator_id (au_me a) = Some (op_operator_id op)
        then Txt (t ''system.currentSessionLabel'')
        else Btn False (if op_active op then t ''system.deactivate'' else t ''system.activate'')
          (OaToggle (op_operator_id op) (op_active op)))]"

definition OperatorAccountsManagement :: "dict \<Rightarrow> (jstr \<Rightarrow> jstr) \<Rightarrow> operator_accounts \<Rightarrow> oa_event view" where
  "OperatorAccountsManagement t shown_date s =
     (let q = oa_operators s; off = oa_createBusy s in
      Box
       [Txt (t ''system.operatorsTitle''), Txt (t ''system.operatorsSubtitle''),
        Badge Purple [Txt (t ''system.adminOnlyBadge'')],
        when_v (truthy (oa_toggleError s)) [Toned Red [Txt (nn (oa_toggleError s) [])]],
        notice_view (oa_createMsg s),
        Txt (t ''system.createOperatorButton''),
        Txt (t ''system.username''), Field off (oa_username s) OaUsername,
        Txt (t ''system.displayName''), Field off (oa_displayName s) OaDisplayName,
        Txt (t ''system.role''), Select off (oa_role s) (role_options t) OaRole,
        Txt (role_desc t (oa_role s)),
        Txt (t ''system.initialPassword'' @ js '' ('' @ [0x2265] @ js '' 12 chars)''),
        Field off (oa_password s) OaPassword,
        Btn (off \<or> oa_incomplete s) (if off then t ''common.saving'' else t ''system.createAccount'') OaCreate,
        (if as_loading q then Loading t
         else if truthy (as_error q) then ErrorBanner t (nn (as_error q) [])
         else Box
           (map Txt [t ''system.username'', t ''system.displayName'', t ''system.role'', t ''common.status'',
                     t ''system.createdColumn'', t ''common.actions''] @
            map (operator_row t shown_date (oa_auth s)) (nn (as_data q) [])))])"

definition oa_init :: "operator_accounts \<Rightarrow> bool" where
  "oa_init s \<longleftrightarrow> oa_operators s = api_idle \<and> oa_username s = [] \<and> oa_displayName s = [] \<and> oa_password s = [] \<and>
     oa_role s = js ''OPERATOR'' \<and> \<not> oa_createBusy s \<and> oa_createMsg s = None \<and> oa_toggleError s = None"

definition oa_env :: "operator_accounts \<Rightarrow> operator_accounts \<Rightarrow> bool" where
  "oa_env s s' \<longleftrightarrow> (\<exists>a q. s' = s\<lparr>oa_auth := a, oa_operators := q\<rparr>)"

interpretation operators_ui: async_ui oa_init "\<lambda>s e. e \<in> offers (OperatorAccountsManagement t shown_date s)"
    "oa_handle t" oa_env
  for t shown_date .

lemma oa_offers:
  "OaCreate \<in> offers (OperatorAccountsManagement t d s) \<longleftrightarrow> \<not> oa_createBusy s \<and> \<not> oa_incomplete s"
  "OaRole x \<in> offers (OperatorAccountsManagement t d s) \<longleftrightarrow>
     \<not> oa_createBusy s \<and> x \<in> {js ''VIEWER'', js ''OPERATOR'', js ''ADMIN''}"
  "OaToggle i b \<in> offers (OperatorAccountsManagement t d s) \<Longrightarrow>
     map_option me_operator_id (au_me (oa_auth s)) \<noteq> Some i \<and>
     (\<exists>op \<in> set (nn (as_data (oa_operators s)) []). op_operator_id op = i \<and> op_active op = b)"
  by (auto simp: OperatorAccountsManagement_def operator_row_def Let_def role_options_def Badge_def
      Loading_def ErrorBanner_def split: if_splits)

definition operator_policy :: "operator_accounts \<Rightarrow> call \<Rightarrow> bool" where
  "operator_policy s q \<longleftrightarrow>
     (q = api_createOperator (operator_body s) \<and> \<not> oa_incomplete s \<and>
        oa_role s \<in> {js ''VIEWER'', js ''OPERATOR'', js ''ADMIN''}) \<or>
     (\<exists>op \<in> set (nn (as_data (oa_operators s)) []).
        map_option me_operator_id (au_me (oa_auth s)) \<noteq> Some (op_operator_id op) \<and>
        q = api_toggleOperatorActive (op_operator_id op) (\<not> op_active op))"

text \<open>C30: Accounts: nobody switches off the account they are logged in with: every switch sent is for a
  listed account other than the viewer's own and asks for the opposite of the state shown;
  every new account has a user name, a name, a password of at least 12 units and one of three
  roles, so ENROLLMENT_OPERATOR, which the form has a description for, can never be given.\<close>

theorem operator_requests:
  assumes "operators_ui.ui_reach t shown_date c"
  shows "(\<forall>s q. Inl (s, q) \<in> set (log c) \<longrightarrow> operator_policy s q) \<and>
         oa_role (st c) \<noteq> js ''ENROLLMENT_OPERATOR''"
proof -
  let ?I = "\<lambda>s. oa_role s \<in> {js ''VIEWER'', js ''OPERATOR'', js ''ADMIN''}"
  have "conf_ok ?I operator_policy c"
  proof (rule operators_ui.ui_invariant[OF _ _ _ assms])
    fix s e
    assume I: "?I s" and en: "e \<in> offers (OperatorAccountsManagement t shown_date s)"
    show "safe ?I operator_policy (oa_handle t e s)"
    proof (cases e)
      case OaCreate
      have "operator_policy (s\<lparr>oa_createBusy := True, oa_createMsg := None\<rparr>) (api_createOperator (operator_body s))"
        using I en oa_offers(1)[of t shown_date s] OaCreate
        by (simp add: operator_policy_def operator_body_def oa_incomplete_def)
      with I show ?thesis
        by (auto simp: OaCreate oa_handle_def oa_handleCreate_def split: sum.split)
    next
      case (OaToggle i b)
      with en have "operator_policy (s\<lparr>oa_toggleError := None\<rparr>) (api_toggleOperatorActive i (\<not> b))"
        using oa_offers(3)[of i b t shown_date s] by (auto simp: operator_policy_def)
      with I show ?thesis
        by (auto simp: OaToggle oa_handle_def oa_handleToggle_def split: sum.split)
    qed (use I en oa_offers(2)[of _ t shown_date s] in \<open>auto simp: oa_handle_def\<close>)
  qed (auto simp: oa_init_def oa_env_def)
  then show ?thesis by (auto simp: conf_ok_def)
qed

theorem operator_requests_witness:
  "\<exists>c. operators_ui.ui_reach js (\<lambda>d. d) c \<and> length (log c) = 1 \<and>
     (\<forall>s q. Inl (s, q) \<in> set (log c) \<longrightarrow> operator_policy s q)"
proof -
  let ?t = "\<lambda>k. js k" and ?d = "\<lambda>d :: jstr. d"
  let ?op = "\<lparr>op_active = True, op_created_at = [], op_display_name = js ''B'', op_operator_id = 2,
     op_role = js ''VIEWER'', op_updated_at = [], op_username = js ''b''\<rparr>"
  let ?s = "\<lparr>oa_auth = default_auth, oa_operators = api_idle, oa_username = [], oa_displayName = [],
     oa_password = [], oa_role = js ''OPERATOR'', oa_createBusy = False, oa_createMsg = None,
     oa_toggleError = None\<rparr>"
  let ?s1 = "?s\<lparr>oa_operators := api_idle\<lparr>as_loading := False, as_data := Some [?op]\<rparr>\<rparr>"
  have r0: "operators_ui.ui_reach ?t ?d (start ?s)" by (rule operators_ui.initial) (simp add: oa_init_def)
  have "oa_env ?s ?s1" unfolding oa_env_def
    by (rule exI[of _ default_auth], rule exI[of _ "oa_operators ?s1"]) simp
  then obtain c1 where c1: "operators_ui.ui_reach ?t ?d c1" "st c1 = ?s1" "log c1 = []"
    using operators_ui.reach_env[OF r0, of ?s1] by auto
  have e1: "OaToggle 2 True \<in> offers (OperatorAccountsManagement ?t ?d ?s1)"
    by (simp add: OperatorAccountsManagement_def operator_row_def Let_def default_auth_def api_idle_def)
  obtain c where "operators_ui.ui_reach ?t ?d c" "length (log c) = 1"
    using operators_ui.reach_call[OF c1(1,2) e1] c1(3) by (force simp: oa_handle_def oa_handleToggle_def)
  then show ?thesis using operator_requests[of ?t ?d c] by blast
qed

section \<open>System\<close>

record system_collector =
  sc_db_status :: "jstr option"
  sc_device_connected :: "bool option"
  sc_last_connect_success :: "jstr option"
  sc_last_event_received :: "jstr option"
  sc_loop_alive :: "bool option"
  sc_mqtt_status :: "jstr option"
  sc_state :: "jstr option"
  sc_updated_at :: "jstr option"

record system_health =
  sh_collector :: "system_collector option"
  sh_database :: jstr
  sh_mqtt :: "jstr option"
  sh_status :: jstr
  sh_timestamp :: jstr

record system_page =
  sy_auth :: auth
  sy_health :: "system_health api_state"
  sy_ranks :: "rank_reference list api_state"

datatype 'c sy_event = SySession 'c | SyAdmin 'c | SyPassword 'c

definition telemetry ::
  "dict \<Rightarrow> (jstr \<Rightarrow> jstr) \<Rightarrow> (jstr \<Rightarrow> jstr) \<Rightarrow> system_health \<Rightarrow> 'e view" where
  "telemetry t shown_time shown_date h =
     (let connected = (case sh_collector h of None \<Rightarrow> False | Some c \<Rightarrow> nn (sc_device_connected c) False);
          state = Option.bind (sh_collector h) sc_state in
      Box
       [StatCard (t ''system.apiService'') (Badge Green [Txt (t ''system.apiReachable'')]) None False,
        StatCard (t ''system.databaseService'')
          (Badge (if sh_database h = js ''HEALTHY'' then Green else Red)
            [Txt (if sh_database h = js ''HEALTHY'' then t ''status.dbHealthy'' else t ''status.dbDegraded'')])
          None False,
        StatCard (t ''system.mqttService'')
          (Badge (if sh_mqtt h = Some (js ''HEALTHY'') then Green else Amber)
            [Txt (if sh_mqtt h = Some (js ''HEALTHY'') then t ''status.mqttHealthy'' else nn (sh_mqtt h) [0x2014])])
          (Some (t ''system.mqttHint'')) False,
        StatCard (t ''system.collectorService'')
          (Txt (if state = Some (js ''LIVE'') then t ''status.collectorLive'' else nn state [0x2014]))
          (Some (if connected then t ''status.deviceConnected'' else t ''status.deviceDisconnected'')) connected,
        StatCard (t ''system.lastUpdatedLabel'')
          (Txt (if sh_timestamp h \<noteq> [] then shown_time (sh_timestamp h) else [0x2014]))
          (Some (if sh_timestamp h \<noteq> [] then shown_date (sh_timestamp h) else [])) False])"

definition rank_row :: "rank_reference \<Rightarrow> 'e view" where
  "rank_row r = Box [Txt (rr_rank_th_full r), Txt (rr_rank_th_abbreviation r), Txt (rr_rank_en r),
     Txt (rr_rank_en_abbreviation r), Txt (rr_rank_category r)]"

text \<open>The parts: the work session and schedule controls, the three settings cards, the password
  form, the accounts.\<close>

definition System ::
  "dict \<Rightarrow> (jstr \<Rightarrow> jstr) \<Rightarrow> (jstr \<Rightarrow> jstr) \<Rightarrow> 'c view \<Rightarrow> 'c view list \<Rightarrow> 'c view \<Rightarrow> 'c view \<Rightarrow>
   system_page \<Rightarrow> 'c sy_event view" where
  "System t shown_time shown_date controls cards password accounts s =
     (let h = sy_health s; r = sy_ranks s;
          is_admin = (map_option me_role (au_me (sy_auth s)) = Some (js ''ADMIN'')) in
      Box
       [Txt (t ''system.title''), Txt (t ''system.subtitle''),
        (if workSessionRequired (sy_auth s) then map_view SySession controls
         else Box [Txt (t ''workflow.openPolicyTitle''), Txt (t ''workflow.openPolicyBody'')]),
        when_v is_admin (map (map_view SyAdmin) cards),
        (if as_loading h then Loading t
         else if truthy (as_error h) then ErrorBanner t (nn (as_error h) [])
         else case as_data h of None \<Rightarrow> Box [] | Some x \<Rightarrow> telemetry t shown_time shown_date x),
        map_view SyPassword password,
        when_v is_admin [map_view SyAdmin accounts],
        Txt (t ''system.rankReferenceTitle'' @ js '' ('' @
             js_num (int (length (nn (as_data r) []))) @ js '')''),
        Txt (t ''system.rankTableHint''),
        (if as_loading r then Loading t
         else if truthy (as_error r) then ErrorBanner t (nn (as_error r) [])
         else Box
           (map Txt [t ''system.rankThFullColumn'', t ''system.rankThAbbrColumn'', t ''system.rankEnColumn'',
                     t ''system.rankEnAbbrColumn'', t ''system.rankCategoryColumn''] @
            map rank_row (nn (as_data r) [])))])"

lemma offers_StatCard: "offers (StatCard l v h b) = offers v"
  by (simp add: StatCard_def)

text \<open>The settings and the accounts are for administrators; everyone may change their password.\<close>

lemma system_parts:
  "SyAdmin e \<in> offers (System t f g controls cards password accounts s) \<longleftrightarrow>
     map_option me_role (au_me (sy_auth s)) = Some (js ''ADMIN'') \<and>
     (e \<in> offers accounts \<or> (\<exists>v \<in> set cards. e \<in> offers v))"
  "SySession e \<in> offers (System t f g controls cards password accounts s) \<longleftrightarrow>
     workSessionRequired (sy_auth s) \<and> e \<in> offers controls"
  "SyPassword e \<in> offers (System t f g controls cards password accounts s) \<longleftrightarrow> e \<in> offers password"
  by (auto simp: System_def Let_def offers_map telemetry_def offers_StatCard Badge_def Loading_def
      ErrorBanner_def rank_row_def split: option.splits if_splits)

end
