(* ===== verification/Roster_Pages.thy ===== *)
theory Roster_Pages
  imports System_Settings Absences
begin

text \<open>
  The roster pages: \<open>frontend/src/pages/DailyRoster.tsx\<close> (who is here on a day, with tiles
  that filter by status, and \<open>TrialBanner\<close>) and \<open>MonthlyReport.tsx\<close> (a letter per person
  and day, and the export). The wordings of dates and times by the language's locale data
  are parameters of the views.
\<close>

section \<open>The roster of a day\<close>

text \<open>Counts by status, as the server's object lists them.\<close>

type_synonym counts = "(jstr \<times> int) list"

definition count_of :: "counts \<Rightarrow> string \<Rightarrow> int" where
  "count_of m k = nn (map_of m (js k)) 0"

record roster_branch =
  rb_branch :: jstr
  rb_counts :: counts

record roster_person =
  rp_absence_end :: "jstr option"
  rp_absence_name_th :: "jstr option"
  rp_absence_start :: "jstr option"
  rp_branch :: "jstr option"
  rp_category :: "jstr option"
  rp_display_name :: jstr
  rp_employee_id :: jstr
  rp_first_scan :: "jstr option"
  rp_order_ref :: "jstr option"
  rp_rank :: "jstr option"
  rp_scan_exempt :: bool
  rp_scans_outside_window :: int
  rp_status :: jstr
  rp_tracked_from :: "jstr option"
  rp_type_code :: "jstr option"

record roster =
  ro_by_branch :: "roster_branch list"
  ro_date :: jstr
  ro_holiday_name :: "jstr option"
  ro_is_workday :: bool
  ro_late_after :: jstr
  ro_live :: bool
  ro_people :: "roster_person list"
  ro_scan_window :: jstr
  ro_total :: int
  ro_totals :: counts

definition STATUS_ORDER :: "string list" where
  "STATUS_ORDER = [''PRESENT'', ''LATE'', ''LEAVE'', ''DUTY'', ''EXEMPT'', ''NOT_YET'', ''ABSENT'',
     ''NOT_ENROLLED'', ''OFF'']"

definition STATUS_TONE :: "string \<Rightarrow> tone" where
  "STATUS_TONE s =
     (if s = ''PRESENT'' then Green else if s = ''LATE'' \<or> s = ''LEAVE'' then Amber
      else if s = ''DUTY'' then Blue else if s = ''EXEMPT'' then Green
      else if s = ''ABSENT'' then Red else Neutral)"

text \<open>\<open>lv\<close> is the loaded roster's flag, \<open>None\<close> while there is none.\<close>

definition roster_label :: "dict \<Rightarrow> bool option \<Rightarrow> string \<Rightarrow> jstr" where
  "roster_label t lv s =
     (if s = ''ABSENT'' \<and> lv = Some False then t ''leave.trialAbsent'' else t (''leave.st_'' @ s))"

text \<open>The label of a status sent by the server: an unknown one has no entry and shows nothing.\<close>

definition status_text :: "dict \<Rightarrow> bool option \<Rightarrow> jstr \<Rightarrow> jstr" where
  "status_text t lv x =
     (case List.find (\<lambda>s. js s = x) STATUS_ORDER of None \<Rightarrow> [] | Some s \<Rightarrow> roster_label t lv s)"

record daily_roster =
  dr_today :: jstr
  dr_day :: jstr
  dr_filter :: string
  dr_roster :: "roster api_state"

datatype dr_event = DrDay jstr | DrToday | DrReload | DrAll | DrFilter string

datatype dr_effect = ReloadRoster

type_synonym dr_prog = "(daily_roster, call, reply, dr_effect) prog"

definition roster_query :: "daily_roster \<Rightarrow> call" where
  "roster_query s = api_dailyRoster (Some (dr_day s))"

definition dr_handle :: "dr_event \<Rightarrow> daily_roster \<Rightarrow> dr_prog" where
  "dr_handle e s =
     (case e of
        DrDay x \<Rightarrow> Ret (if x \<noteq> [] then s\<lparr>dr_day := x\<rparr> else s)
      | DrToday \<Rightarrow> Ret (s\<lparr>dr_day := dr_today s\<rparr>)
      | DrReload \<Rightarrow> Eff ReloadRoster (Ret s)
      | DrAll \<Rightarrow> Ret (s\<lparr>dr_filter := []\<rparr>)
      | DrFilter k \<Rightarrow> Ret (s\<lparr>dr_filter := if dr_filter s = k then [] else k\<rparr>))"

definition dr_shown :: "roster option \<Rightarrow> string list" where
  "dr_shown d = filter (\<lambda>s. s \<noteq> ''OFF'' \<or> (\<exists>r. d = Some r \<and> \<not> ro_is_workday r)) STATUS_ORDER"

definition dr_people :: "daily_roster \<Rightarrow> roster_person list" where
  "dr_people s = filter (\<lambda>p. dr_filter s = [] \<or> rp_status p = js (dr_filter s))
     (nn (map_option ro_people (as_data (dr_roster s))) [])"

definition roster_row ::
  "dict \<Rightarrow> (jstr \<Rightarrow> jstr) \<Rightarrow> (jstr \<Rightarrow> jstr) \<Rightarrow> bool option \<Rightarrow> roster_person \<Rightarrow> dr_event view" where
  "roster_row t thai_date thai_time lv p =
     Box
      [Lnk (js ''/personnel/'' @ rp_employee_id p) [Txt (person_text (rp_rank p) (rp_display_name p))],
       Txt (nn (rp_branch p) [0x2014]),
       Txt (status_text t lv (rp_status p)),
       Txt (if truthy (rp_first_scan p) then thai_time (nn (rp_first_scan p) []) else [0x2014]),
       when_v (rp_scans_outside_window p > 0)
         [Txt (t ''workflow.outsideWindow'' @ [32, 0xD7] @ js_num (rp_scans_outside_window p))],
       Txt (if truthy (rp_absence_name_th p)
            then nn (rp_absence_name_th p) [] @ js '' '' @ thai_date (nn (rp_absence_start p) (js ''null'')) @
              [0x2013] @ thai_date (nn (rp_absence_end p) (js ''null'')) @
              (if truthy (rp_order_ref p) then [32, 0xB7, 32] @ nn (rp_order_ref p) [] else [])
            else [])]"

definition TrialBanner :: "dict \<Rightarrow> (jstr \<Rightarrow> jstr) \<Rightarrow> tracking_state option \<Rightarrow> 'e view" where
  "TrialBanner t long_date tr =
     (case tr of
        None \<Rightarrow> Box []
      | Some d \<Rightarrow>
          if trk_live d then Box []
          else Toned Blue
            [Txt ([0xD83E, 0xDDEA, 32] @ t ''leave.trialTitle''),
             Txt (if trk_mode d = js ''date'' \<and> truthy (trk_counting_from d)
                  then js_replace (t ''leave.trialBodyDate'') (js ''{date}'')
                    (long_date (nn (trk_counting_from d) []))
                  else js_replace (js_replace (t ''leave.trialBody'') (js ''{done}'')
                    (js_num (br_enrolled (trk_readiness d)))) (js ''{req}'')
                    (js_num (br_required (trk_readiness d))))])"

definition roster_body ::
  "dict \<Rightarrow> (jstr \<Rightarrow> jstr) \<Rightarrow> (jstr \<Rightarrow> jstr) \<Rightarrow> dr_event view \<Rightarrow> daily_roster \<Rightarrow> roster \<Rightarrow> dr_event view" where
  "roster_body t thai_date thai_time trial s d =
     (let lv = Some (ro_live d); shown = dr_shown (Some d) in
      Box
       [trial,
        when_v (\<not> ro_is_workday d)
          [Txt (t ''leave.holidayBadge'' @
                (if truthy (ro_holiday_name d) then [32, 0x2014, 32] @ nn (ro_holiday_name d) [] else []) @
                [32, 0xB7, 32] @ thai_date (ro_date d))],
        Btn False (t ''leave.totalLabel'' @ js '' '' @ js_num (ro_total d)) DrAll,
        Box (map (\<lambda>k. Toned (STATUS_TONE k)
          [Btn False (roster_label t lv k @ js '' '' @ js_num (count_of (ro_totals d) k)) (DrFilter k)]) shown),
        Txt (t ''leave.byBranch''), Txt (t ''leave.branch''),
        Box (map (\<lambda>k. Txt (roster_label t lv k)) shown),
        Box (map (\<lambda>b. Box (Txt (rb_branch b) #
          map (\<lambda>k. Txt (js_num (count_of (rb_counts b) k))) shown)) (ro_by_branch d)),
        Box (map Txt [t ''leave.person'', t ''leave.branch'', t ''common.status'', t ''leave.firstScan'',
          t ''leave.note'']),
        Box (map (roster_row t thai_date thai_time lv) (dr_people s))])"

definition DailyRoster ::
  "dict \<Rightarrow> (jstr \<Rightarrow> jstr) \<Rightarrow> (jstr \<Rightarrow> jstr) \<Rightarrow> dr_event view \<Rightarrow> daily_roster \<Rightarrow> dr_event view" where
  "DailyRoster t thai_date thai_time trial s =
     (let q = dr_roster s; data = as_data q in
      Box
       [Txt (t ''leave.dailyTitle''),
        Txt (js_replace (js_replace (t ''leave.dailySubtitle'') (js ''{window}'')
               (nn (map_option ro_scan_window data) (js ''06:30'' @ [0x2013] @ js ''11:00'')))
             (js ''{time}'') (nn (map_option ro_late_after data) (js ''10:00''))),
        Field False (dr_day s) DrDay,
        Btn False (t ''leave.today'') DrToday,
        Btn False (t ''common.refresh'') DrReload,
        (if as_loading q \<and> data = None then Loading t
         else if truthy (as_error q) then ErrorBanner t (nn (as_error q) [])
         else case data of None \<Rightarrow> Box [] | Some d \<Rightarrow> roster_body t thai_date thai_time trial s d)])"

definition dr_init :: "jstr \<Rightarrow> daily_roster \<Rightarrow> bool" where
  "dr_init today s \<longleftrightarrow> dr_today s = today \<and> dr_day s = today \<and> dr_filter s = [] \<and> dr_roster s = api_idle"

definition dr_env :: "daily_roster \<Rightarrow> daily_roster \<Rightarrow> bool" where
  "dr_env s s' \<longleftrightarrow> (\<exists>d q. d \<noteq> [] \<and> s' = s\<lparr>dr_today := d, dr_roster := q\<rparr>)"

interpretation roster_ui: async_ui "dr_init today"
    "\<lambda>s e. e \<in> offers (DailyRoster t thai_date thai_time (TrialBanner t long_date tr) s)" dr_handle dr_env
  for today t thai_date thai_time long_date tr .

lemma offers_TrialBanner [simp]: "offers (TrialBanner t long_date tr) = {}"
  by (simp add: TrialBanner_def split: option.split)

lemma dr_offers_filter:
  assumes "as_data (dr_roster s) = Some d" and "\<not> truthy (as_error (dr_roster s))"
  shows "DrFilter k \<in> offers (DailyRoster t thai_date thai_time (TrialBanner t long_date tr) s) \<longleftrightarrow>
     k \<in> set (dr_shown (Some d))"
  using assms by (auto simp: DailyRoster_def roster_body_def roster_row_def Let_def)

lemma dr_filter_known:
  "DrFilter k \<in> offers (DailyRoster t thai_date thai_time (TrialBanner t long_date tr) s) \<Longrightarrow> k \<in> set STATUS_ORDER"
  by (auto simp: DailyRoster_def roster_body_def roster_row_def dr_shown_def Let_def Loading_def ErrorBanner_def
      split: if_splits option.splits)

text \<open>The statuses the server gives a person on a day: a day off only on a day that is no workday.\<close>

definition server_status :: "bool \<Rightarrow> jstr \<Rightarrow> bool" where
  "server_status workday x \<longleftrightarrow>
     x \<in> js ` {''PRESENT'', ''LATE'', ''LEAVE'', ''DUTY'', ''EXEMPT'', ''NOT_YET'', ''ABSENT'', ''NOT_ENROLLED''} \<or>
     (\<not> workday \<and> x = js ''OFF'')"

lemma server_status_shown:
  "server_status (ro_is_workday d) x \<Longrightarrow> \<exists>k \<in> set (dr_shown (Some d)). x = js k"
  by (auto simp: server_status_def dr_shown_def STATUS_ORDER_def)

text \<open>C34: The tiles divide the roster: given a roster as the server makes it, where each person has one
  of the eight statuses of its classification or, on a day that is no workday, the day off, each
  person is in the list of exactly one tile offered, and in the list without a filter; the
  filter in force on any reachable page is none or one of the nine statuses; pressing a tile
  twice restores the list, and the date cannot be emptied.\<close>

theorem roster_tiles_partition:
  assumes reach: "roster_ui.ui_reach today t thai_date thai_time long_date tr c" and s: "s = st c"
    and today: "today \<noteq> []"
    and d: "as_data (dr_roster s) = Some d" "\<not> truthy (as_error (dr_roster s))"
    and served: "\<forall>p \<in> set (ro_people d). server_status (ro_is_workday d) (rp_status p)"
    and p: "p \<in> set (ro_people d)"
  shows "(\<exists>!k. DrFilter k \<in> offers (DailyRoster t thai_date thai_time (TrialBanner t long_date tr) s) \<and>
            p \<in> set (dr_people (s\<lparr>dr_filter := k\<rparr>))) \<and>
         p \<in> set (dr_people (s\<lparr>dr_filter := []\<rparr>)) \<and>
         dr_filter s \<in> insert [] (set STATUS_ORDER) \<and> dr_day s \<noteq> [] \<and>
         (k \<in> set STATUS_ORDER \<longrightarrow> dr_filter s = [] \<longrightarrow>
            state_of (dr_handle (DrFilter k) (state_of (dr_handle (DrFilter k) s))) = s)"
proof (intro conjI impI)
  obtain k where k: "k \<in> set (dr_shown (Some d))" "rp_status p = js k"
    using server_status_shown served p by blast
  then have "k \<noteq> []" by (auto simp: dr_shown_def STATUS_ORDER_def split: if_splits)
  moreover have "l \<noteq> []" if "l \<in> set (dr_shown (Some d))" for l
    using that by (auto simp: dr_shown_def STATUS_ORDER_def split: if_splits)
  ultimately show "\<exists>!k. DrFilter k \<in> offers (DailyRoster t thai_date thai_time (TrialBanner t long_date tr) s) \<and>
            p \<in> set (dr_people (s\<lparr>dr_filter := k\<rparr>))"
    using k p d by (auto simp: dr_offers_filter[OF d] dr_people_def intro!: ex1I[of _ k])
  show "p \<in> set (dr_people (s\<lparr>dr_filter := []\<rparr>))" using p d by (simp add: dr_people_def)
  let ?I = "\<lambda>s. dr_filter s \<in> insert [] (set STATUS_ORDER) \<and> dr_day s \<noteq> [] \<and> dr_today s \<noteq> []"
  have "conf_ok ?I (\<lambda>s q. True) c"
  proof (rule roster_ui.ui_invariant[OF _ _ _ reach])
    fix s e
    assume I: "?I s"
      and en: "e \<in> offers (DailyRoster t thai_date thai_time (TrialBanner t long_date tr) s)"
    show "safe ?I (\<lambda>s q. True) (dr_handle e s)"
    proof (cases e)
      case (DrFilter k)
      then show ?thesis using I dr_filter_known en by (auto simp: dr_handle_def)
    qed (use I in \<open>auto simp: dr_handle_def\<close>)
  qed (use today in \<open>auto simp: dr_init_def dr_env_def\<close>)
  then show "dr_filter s \<in> insert [] (set STATUS_ORDER)" "dr_day s \<noteq> []" using s by (simp_all add: conf_ok_def)
next
  assume "k \<in> set STATUS_ORDER" "dr_filter s = []"
  then show "state_of (dr_handle (DrFilter k) (state_of (dr_handle (DrFilter k) s))) = s"
    by (auto simp: dr_handle_def STATUS_ORDER_def)
qed

definition sample_person :: roster_person where
  "sample_person = \<lparr>rp_absence_end = None, rp_absence_name_th = None, rp_absence_start = None,
     rp_branch = None, rp_category = None, rp_display_name = js ''Somchai'', rp_employee_id = js ''e1'', rp_first_scan = None,
     rp_order_ref = None, rp_rank = None, rp_scan_exempt = False,
     rp_scans_outside_window = 0, rp_status = js ''LATE'', rp_tracked_from = None, rp_type_code = None\<rparr>"

definition sample_roster :: roster where
  "sample_roster = \<lparr>ro_by_branch = [], ro_date = js ''2026-02-27'', ro_holiday_name = None,
     ro_is_workday = True, ro_late_after = js ''10:00'', ro_live = True, ro_people = [sample_person],
     ro_scan_window = [], ro_total = 1, ro_totals = [(js ''LATE'', 1)]\<rparr>"

theorem roster_tiles_partition_witness:
  "\<exists>s. as_data (dr_roster s) = Some sample_roster \<and> sample_person \<in> set (dr_people (s\<lparr>dr_filter := []\<rparr>)) \<and>
     (\<exists>!k. DrFilter k \<in> offers (DailyRoster js id id (TrialBanner js id None) s) \<and>
            sample_person \<in> set (dr_people (s\<lparr>dr_filter := k\<rparr>)))"
proof -
  let ?a = "\<lparr>dr_today = [50], dr_day = [50], dr_filter = [], dr_roster = api_idle\<rparr>"
  let ?s = "?a\<lparr>dr_roster := api_idle\<lparr>as_data := Some sample_roster, as_loading := False\<rparr>\<rparr>"
  have "roster_ui.ui_reach [50] js id id id None (start ?a)"
    by (rule roster_ui.initial) (simp add: dr_init_def)
  moreover have "dr_env ?a ?s" unfolding dr_env_def
    by (rule exI[of _ "[50]"], rule exI[of _ "api_idle\<lparr>as_data := Some sample_roster, as_loading := False\<rparr>"]) simp
  ultimately obtain c where c: "roster_ui.ui_reach [50] js id id id None c" "?s = st c"
    using roster_ui.reach_env[of "[50]" js id id id None "start ?a" ?s] by auto
  have d: "as_data (dr_roster ?s) = Some sample_roster" "\<not> truthy (as_error (dr_roster ?s))"
    by (simp_all add: api_idle_def)
  have "\<forall>p \<in> set (ro_people sample_roster). server_status (ro_is_workday sample_roster) (rp_status p)"
    "sample_person \<in> set (ro_people sample_roster)"
    by (simp_all add: sample_roster_def sample_person_def server_status_def)
  from roster_tiles_partition[OF c _ d this] d show ?thesis by blast
qed

section \<open>The report of a month\<close>

record monthly_day =
  md_date :: jstr
  md_holiday_name :: "jstr option"
  md_is_workday :: bool

record monthly_person =
  mp_branch :: "jstr option"
  mp_counts :: counts
  mp_days :: "jstr list"
  mp_display_name :: jstr
  mp_employee_id :: jstr
  mp_rank :: "jstr option"
  mp_scan_exempt :: bool

record monthly =
  mr_by_branch :: "roster_branch list"
  mr_days :: "monthly_day list"
  mr_late_after :: jstr
  mr_month :: jstr
  mr_people :: "monthly_person list"
  mr_scan_window :: jstr
  mr_workdays :: int

definition CODES :: "(string \<times> jstr) list" where
  "CODES = [(''PRESENT'', [0xe21]), (''LATE'', [0xe2a]), (''LEAVE'', [0xe25]), (''DUTY'', [0xe23]),
     (''EXEMPT'', [0xe1b]), (''NOT_YET'', []), (''NOT_ENROLLED'', [0xe19]), (''ABSENT'', [0xe02]), (''OFF'', [])]"

definition TOTALS :: "string list" where
  "TOTALS = [''PRESENT'', ''LATE'', ''LEAVE'', ''DUTY'', ''ABSENT'']"

text \<open>\<open>CODES[s]?.code ?? ""\<close>.\<close>

definition day_code :: "jstr \<Rightarrow> jstr" where
  "day_code x = nn (map_of (map (\<lambda>(k, c). (js k, c)) CODES) x) []"

record monthly_page =
  mo_month :: jstr
  mo_exporting :: bool
  mo_exportError :: "jstr option"
  mo_report :: "monthly api_state"

datatype mo_event = MoMonth jstr | MoExport

datatype mo_effect = SaveMonthly jstr

type_synonym mo_prog = "(monthly_page, jstr, js_error + unit, mo_effect) prog"

definition monthly_query :: "monthly_page \<Rightarrow> call" where
  "monthly_query s = api_monthlyReport (mo_month s)"

definition mo_exportCsv :: "dict \<Rightarrow> monthly_page \<Rightarrow> mo_prog" where
  "mo_exportCsv t s =
     Call (s\<lparr>mo_exporting := True, mo_exportError := None\<rparr>) (monthlyReportCsv_path (mo_month s))
       (\<lambda>r s'. case r of
           Inr blob \<Rightarrow> Eff (SaveMonthly (js ''attendance_'' @ mo_month s @ js ''.csv''))
             (Ret (s'\<lparr>mo_exporting := False\<rparr>))
         | Inl e \<Rightarrow> Ret (s'\<lparr>mo_exportError := Some (friendlyApiError e t), mo_exporting := False\<rparr>))"

definition mo_handle :: "dict \<Rightarrow> mo_event \<Rightarrow> monthly_page \<Rightarrow> mo_prog" where
  "mo_handle t e s =
     (case e of
        MoMonth x \<Rightarrow> Ret (if x \<noteq> [] then s\<lparr>mo_month := x\<rparr> else s)
      | MoExport \<Rightarrow> mo_exportCsv t s)"

definition month_row :: "monthly_person \<Rightarrow> mo_event view" where
  "month_row p =
     Box
      ([Lnk (js ''/personnel/'' @ mp_employee_id p) [Txt (person_text (mp_rank p) (mp_display_name p))],
        Txt (nn (mp_branch p) [0x2014])] @
       map (\<lambda>s. Txt (day_code s)) (mp_days p) @
       map (\<lambda>k. Txt (js_num (count_of (mp_counts p) k))) TOTALS)"

definition month_table :: "dict \<Rightarrow> monthly \<Rightarrow> mo_event view" where
  "month_table t d =
     Box
      ([Txt (t ''leave.person''), Txt (t ''leave.branch'')] @
       map (\<lambda>x. Txt (case js_Number (js_slice 8 10 (md_date x)) of None \<Rightarrow> js ''NaN'' | Some n \<Rightarrow> js_num n))
         (mr_days d) @
       map (\<lambda>k. Txt (t (''leave.st_'' @ k))) TOTALS @
       map month_row (mr_people d))"

definition MonthlyReport :: "dict \<Rightarrow> mo_event view \<Rightarrow> monthly_page \<Rightarrow> mo_event view" where
  "MonthlyReport t trial s =
     (let q = mo_report s; data = as_data q in
      Box
       [Txt (t ''leave.monthlyTitle''),
        (case data of
           None \<Rightarrow> Box []
         | Some d \<Rightarrow> Txt (js_replace (js_replace (js_replace (t ''leave.monthlySubtitle'') (js ''{n}'')
             (js_num (mr_workdays d))) (js ''{window}'') (mr_scan_window d)) (js ''{time}'') (mr_late_after d))),
        Field False (mo_month s) MoMonth,
        Btn (mo_exporting s) (t ''leave.exportExcel'') MoExport,
        trial,
        when_v (truthy (mo_exportError s)) [ErrorBanner t (nn (mo_exportError s) [])],
        Txt (t ''leave.legend'' @ js '':''),
        Box (map (\<lambda>(k, c). Box [Txt c, Txt (t (''leave.st_'' @ k))]) (filter (\<lambda>(k, c). c \<noteq> []) CODES)),
        (if as_loading q \<and> data = None then Loading t
         else if truthy (as_error q) then ErrorBanner t (nn (as_error q) [])
         else case data of None \<Rightarrow> Box [] | Some d \<Rightarrow> month_table t d)])"

definition mo_init :: "jstr \<Rightarrow> monthly_page \<Rightarrow> bool" where
  "mo_init today s \<longleftrightarrow> mo_month s = js_slice 0 7 today \<and> \<not> mo_exporting s \<and> mo_exportError s = None \<and>
     mo_report s = api_idle"

definition mo_env :: "monthly_page \<Rightarrow> monthly_page \<Rightarrow> bool" where
  "mo_env s s' \<longleftrightarrow> (\<exists>q. s' = s\<lparr>mo_report := q\<rparr>)"

lemma mo_offers_export:
  "MoExport \<in> offers (MonthlyReport t (TrialBanner t long_date tr) s) \<longleftrightarrow> \<not> mo_exporting s"
  by (auto simp: MonthlyReport_def month_table_def month_row_def Let_def Loading_def ErrorBanner_def
      split: option.splits)

interpretation monthly_ui: single_flight "mo_init today"
    "\<lambda>s e. e \<in> offers (MonthlyReport t (TrialBanner t long_date tr) s)" "mo_handle t" mo_env mo_exporting
  for today t long_date tr
proof unfold_locales
  fix s :: monthly_page and e
  assume "e \<in> offers (MonthlyReport t (TrialBanner t long_date tr) s)" "mo_exporting s"
  then show "quiet mo_exporting (mo_handle t e s)"
    by (cases e) (auto simp: mo_handle_def mo_offers_export)
next
  fix s :: monthly_page and e
  assume "\<not> mo_exporting s"
  then show "settles mo_exporting (mo_handle t e s)"
    by (cases e) (auto simp: mo_handle_def mo_exportCsv_def split: sum.split)
qed (auto simp: mo_init_def mo_env_def)

text \<open>The monthly report: the export is of the month shown when it was asked for, also in the name
  of the file, one at a time; and no letter of the table stands for two statuses.\<close>

theorem monthly_export:
  assumes "monthly_ui.ui_reach today t long_date tr c"
  shows "orderly mo_exporting (\<lambda>s q. q = monthlyReportCsv_path (mo_month s)) c \<and>
         (Inr (SaveMonthly f) \<in> set (trace_of (mo_handle t MoExport s) [r]) \<longrightarrow>
            \<not> isl r \<and> f = js ''attendance_'' @ mo_month s @ js ''.csv'') \<and>
         (day_code x = day_code y \<longrightarrow> day_code x \<noteq> [] \<longrightarrow> x = y)"
proof (intro conjI)
  show "orderly mo_exporting (\<lambda>s q. q = monthlyReportCsv_path (mo_month s)) c"
    by (rule monthly_ui.orderly[OF assms])
      (auto simp: mo_handle_def mo_exportCsv_def split: mo_event.split sum.split)
  show "Inr (SaveMonthly f) \<in> set (trace_of (mo_handle t MoExport s) [r]) \<longrightarrow>
            \<not> isl r \<and> f = js ''attendance_'' @ mo_month s @ js ''.csv''"
    by (cases r) (auto simp: mo_handle_def mo_exportCsv_def)
  show "day_code x = day_code y \<longrightarrow> day_code x \<noteq> [] \<longrightarrow> x = y"
    by (auto simp: day_code_def CODES_def split: if_splits)
qed

theorem monthly_export_witness:
  "\<exists>c. monthly_ui.ui_reach (js ''2026-02-27'') js id None c \<and> length (log c) = 1 \<and>
     orderly mo_exporting (\<lambda>s q. q = monthlyReportCsv_path (mo_month s)) c"
proof -
  let ?s = "\<lparr>mo_month = js_slice 0 7 (js ''2026-02-27''), mo_exporting = False, mo_exportError = None,
     mo_report = api_idle\<rparr>"
  have r0: "monthly_ui.ui_reach (js ''2026-02-27'') js id None (start ?s)"
    by (rule monthly_ui.initial) (simp add: mo_init_def)
  have e0: "MoExport \<in> offers (MonthlyReport js (TrialBanner js id None) ?s)"
    by (simp add: mo_offers_export)
  obtain c where "monthly_ui.ui_reach (js ''2026-02-27'') js id None c" "length (log c) = 1"
    using monthly_ui.reach_call[OF r0 _ e0] by (force simp: mo_handle_def mo_exportCsv_def)
  then show ?thesis using monthly_export[of "js ''2026-02-27''" js id None c] by blast
qed

end
