(* ===== verification/Dashboard_Page.thy ===== *)
theory Dashboard_Page
  imports Roster_Pages System_Page
begin

text \<open>
  The landing page, \<open>frontend/src/pages/Dashboard.tsx\<close>: today's roster by status, the last seven
  weekdays, the fingerprint readiness and the technical counters. The days are those of
  \<open>Dates\<close>; the wordings of dates by the language's locale data, the trial banner and the
  session badge, which raise no event, are parameters of the views.
\<close>

section \<open>The technical counters\<close>

record dashboard_summary =
  ds_attendance_today :: int
  ds_attendance_total :: int
  ds_attendance_unattributed :: int
  ds_collector :: "system_collector option"
  ds_device_users_active :: int
  ds_device_users_total :: int
  ds_device_users_unmapped :: int
  ds_devices_active :: int
  ds_devices_total :: int
  ds_enrollments_active_count :: int
  ds_enrollments_by_lifecycle_state :: counts
  ds_humans_excluded :: int
  ds_humans_production_eligible :: int
  ds_humans_total :: int
  ds_mappings_total :: int
  ds_mappings_verified_active :: int

datatype db_event = DbReload | DbReloadSummary

definition collector_live :: "dashboard_summary option \<Rightarrow> bool" where
  "collector_live d =
     (case Option.bind d ds_collector of
        None \<Rightarrow> False
      | Some c \<Rightarrow> sc_state c = Some (js ''LIVE'') \<and> sc_device_connected c = Some True)"

definition collector_text :: "dict \<Rightarrow> dashboard_summary \<Rightarrow> jstr" where
  "collector_text t d =
     (let state = Option.bind (ds_collector d) sc_state in
      if state = Some (js ''LIVE'') then t ''status.collectorLive'' else nn state [0x2014])"

definition device_connected :: "dashboard_summary \<Rightarrow> bool" where
  "device_connected d \<longleftrightarrow> Option.bind (ds_collector d) sc_device_connected = Some True"

definition LIFECYCLE_ORDER :: "string list" where
  "LIFECYCLE_ORDER = [''IN_PROGRESS'', ''COMPLETED'', ''REMOVED_FROM_TERMINAL'', ''CANCELLED'']"

definition LIFECYCLE_LABELS :: "(string \<times> string) list" where
  "LIFECYCLE_LABELS = [(''IN_PROGRESS'', ''dashboard.lifecycleInProgress''),
     (''COMPLETED'', ''dashboard.lifecycleCompleted''),
     (''REMOVED_FROM_TERMINAL'', ''dashboard.lifecycleRemoved''),
     (''CANCELLED'', ''dashboard.lifecycleCancelled'')]"

definition enrollLifecycle :: "dashboard_summary \<Rightarrow> (string \<times> int) list" where
  "enrollLifecycle d =
     map (\<lambda>k. (k, count_of (ds_enrollments_by_lifecycle_state d) k))
       (filter (\<lambda>k. count_of (ds_enrollments_by_lifecycle_state d) k \<noteq> 0) LIFECYCLE_ORDER)"

definition lifecycle_label :: "dict \<Rightarrow> string \<Rightarrow> jstr" where
  "lifecycle_label t k = (case map_of LIFECYCLE_LABELS k of None \<Rightarrow> js k | Some e \<Rightarrow> t e)"

definition overview_hero :: "dict \<Rightarrow> db_event view \<Rightarrow> dashboard_summary \<Rightarrow> db_event view" where
  "overview_hero t badge d =
     Box
      [Txt (t ''dashboard.title''),
       Txt (t ''system.collectorService'' @ js '': '' @ collector_text t d @ [32, 0xB7, 32] @ js ''ZKTeco ZEM560: ''),
       Toned (if collector_live (Some d) then Green else Amber)
         [Txt (if device_connected d then js ''192.168.1.201 ('' @ t ''status.deviceConnected'' @ js '')''
               else t ''status.deviceDisconnected'')],
       badge,
       Btn False (t ''common.refresh'') DbReloadSummary]"

text \<open>The headline of the accounts and of the mappings is the current count; the count of all rows
  ever is in the hint.\<close>

definition overview_cards :: "dict \<Rightarrow> dashboard_summary \<Rightarrow> db_event view list" where
  "overview_cards t d =
     [StatCard (t ''nav.personnel'') (Txt (js_num (ds_humans_total d)))
        (Some (js_num (ds_humans_production_eligible d) @ js '' '' @ t ''personnel.productionScope'' @ js '' / '' @
           js_num (ds_humans_excluded d) @ js '' '' @ t ''personnel.excludedScope'')) False,
      StatCard (t ''nav.devices'') (Txt (js_num (ds_devices_total d)))
        (Some (js_num (ds_devices_active d) @ js '' '' @ t ''common.active'' @ js '' (ZEM560)'')) False,
      StatCard (t ''devices.currentTerminalAccounts'') (Txt (js_num (ds_device_users_active d)))
        (Some (js_num (ds_device_users_total d) @ js '' '' @ t ''devices.discoveredUsersHistoricalHint'')) False,
      StatCard (t ''dashboard.kpiAttendanceToday'') (Txt (js_num (ds_attendance_today d)))
        (Some (js_num (ds_attendance_total d) @ js '' '' @ t ''common.all'' @ js '' / '' @
           js_num (ds_attendance_unattributed d) @ js '' '' @ t ''dashboard.kpiUnattributed'')) False,
      StatCard (t ''mappings.verifiedMappings'') (Txt (js_num (ds_mappings_verified_active d)))
        (Some (js_num (ds_mappings_total d) @ js '' '' @ t ''dashboard.mappingsHistoricalHint'')) False,
      StatCard (t ''dashboard.enrollmentActiveCountLabel'') (Txt (js_num (ds_enrollments_active_count d)))
        (Some (t ''dashboard.enrollmentActiveCountHint'')) (ds_enrollments_active_count d > 0),
      StatCard (t ''system.collectorService'') (Txt (collector_text t d))
        (Some (if device_connected d then t ''status.deviceConnected'' else t ''status.deviceDisconnected''))
        (collector_live (Some d))]"

definition lifecycle_panel :: "dict \<Rightarrow> dashboard_summary \<Rightarrow> db_event view" where
  "lifecycle_panel t d =
     when_v (enrollLifecycle d \<noteq> [])
       [Txt (t ''dashboard.enrollmentStatusTitle''), Txt (t ''dashboard.enrollmentActiveCountHint''),
        Box (map (\<lambda>(k, n). Toned (if k = ''IN_PROGRESS'' then Blue else Neutral)
          [Txt (lifecycle_label t k), Txt (js_num n)]) (enrollLifecycle d))]"

definition SystemOverview :: "dict \<Rightarrow> db_event view \<Rightarrow> dashboard_summary api_state \<Rightarrow> db_event view" where
  "SystemOverview t badge q =
     (if as_loading q then Loading t
      else if truthy (as_error q) then ErrorBanner t (nn (as_error q) [])
      else case as_data q of
          None \<Rightarrow> ErrorBanner t (js ''No dashboard data'')
        | Some d \<Rightarrow>
            Box [Txt [0xe02, 0xe49, 0xe2d, 0xe21, 0xe39, 0xe25, 0xe23, 0xe30, 0xe1a, 0xe1a, 32, 40,
                0xe40, 0xe17, 0xe04, 0xe19, 0xe34, 0xe04,
                41], overview_hero t badge d, Box (overview_cards t d),
              lifecycle_panel t d])"

section \<open>The days of the week chart\<close>

text \<open>\<open>new Date(`${todayLocal()}T00:00:00`)\<close> of a text that is no date is invalid: its weekday is
  NaN, which is neither Saturday nor Sunday, and so are the parts of the text put in front.\<close>

definition recentWeekdays :: "jstr \<Rightarrow> nat \<Rightarrow> jstr list" where
  "recentWeekdays today n =
     (case day_number today of
        None \<Rightarrow> replicate n (js ''NaN-NaN-NaN'')
      | Some d \<Rightarrow> map day_text (recent_from n d []))"

definition week_queries :: "jstr \<Rightarrow> call list" where
  "week_queries today = map (\<lambda>d. api_dailyRoster (Some d)) (recentWeekdays today 7)"

lemma sorted_days: "sorted_wrt (<) (filter P [lo..e :: int])"
  by (rule sorted_wrt_filter) (simp add: strict_sorted_iff)

lemma year_of_range:
  assumes "day_number s = Some e" "parse_iso s = Some (y, m, d)" "1001 \<le> y" "y \<le> 9999" "e - 365 \<le> n" "n \<le> e"
  shows "1000 \<le> year_of n \<and> year_of n \<le> 9999"
proof -
  have y: "year_of e = y" by (rule year_of_number[OF assms(1,2)])
  have "day_from_year y \<le> e" using find_year_bounds[of e "1970 + e div 365"] y by (simp add: year_of_def)
  moreover have "day_from_year (y - 1) \<le> day_from_year y - 365" using year_mono[of "y - 1" y] by simp
  ultimately have "y - 1 \<le> year_of n"
    using find_year_bounds[of n "1970 + n div 365"] year_mono[of "year_of n + 1" "y - 1"] assms(5)
    by (cases "y - 1 \<le> year_of n") (auto simp: year_of_def split: if_splits)
  with year_of_mono[OF assms(6)] y assms(3,4) show ?thesis by simp
qed

lemma day_text_less:
  assumes "1000 \<le> year_of j" "year_of j \<le> 9999" "1000 \<le> year_of k" "year_of k \<le> 9999"
  shows "js_less (day_text j) (day_text k) \<longleftrightarrow> j < k"
  unfolding day_text_def
  using iso_less(1)[OF parse_iso_date(1)[OF assms(1,2) date_of_number(1-4)]
      parse_iso_date(1)[OF assms(3,4) date_of_number(1-4)]]
  by (simp add: date_of_number(5))

text \<open>C17: The loop behind the week chart ends for every date and every number of days, after at most
  three steps back per day asked for and two more, and returns what it is meant to: as many
  days as asked for, in order, each a weekday up to today, with no weekday left out in
  between.\<close>

theorem recent_weekdays_exact:
  assumes today: "parse_iso today = Some (y, m, d)" "1001 \<le> y" "y \<le> 9999" and n: "n \<le> 100"
  shows "\<exists>e lo days. day_number today = Some e \<and> recentWeekdays today n = map day_text days \<and>
     length days = n \<and> e + 1 - lo \<le> 3 * int n + 2 \<and>
     set days = {k. lo \<le> k \<and> k \<le> e \<and> week_day_p k} \<and>
     (\<forall>k \<in> set days. day_number (day_text k) = Some k) \<and>
     sorted_wrt js_less (recentWeekdays today n)"
proof -
  obtain e where e: "day_number today = Some e" using today(1) by (simp add: day_number_def)
  obtain lo where lo: "recent_from n e [] = filter week_day_p [lo..e]" "length (recent_from n e []) = n"
    "e + 1 - lo \<le> 3 * int n + 2"
    using recent_from_exact[of "[]" e e n] weekend_rank_step(3)[of e] by fastforce
  let ?days = "recent_from n e []"
  have days: "set ?days = {k. lo \<le> k \<and> k \<le> e \<and> week_day_p k}" using lo(1) by auto
  have year: "1000 \<le> year_of k" "year_of k \<le> 9999" if "k \<in> set ?days" for k
    using year_of_range[OF e today, of k] that days lo(3) n by auto
  have "sorted_wrt (<) ?days" unfolding lo(1) by (rule sorted_days)
  then have "sorted_wrt (\<lambda>j k. js_less (day_text j) (day_text k)) ?days"
    by (rule sorted_wrt_mono_rel[rotated]) (simp add: day_text_less year)
  then have "sorted_wrt js_less (map day_text ?days)" by (simp add: sorted_wrt_map)
  moreover have "\<forall>k \<in> set ?days. day_number (day_text k) = Some k" using day_text_number year by blast
  moreover have "recentWeekdays today n = map day_text ?days" by (simp add: recentWeekdays_def e)
  ultimately show ?thesis using e lo(2,3) days
    by - (rule exI[of _ e], rule exI[of _ lo], rule exI[of _ ?days], simp)
qed

theorem recent_weekdays_exact_witness:
  "\<exists>e. day_number (js ''2026-03-02'') = Some e \<and> length (recentWeekdays (js ''2026-03-02'') 7) = 7"
proof -
  have "parse_iso (js ''2026-03-02'') = Some (2026, 2, 2)" by code_simp
  from recent_weekdays_exact[OF this, of 7] show ?thesis by auto
qed

section \<open>The page\<close>

definition TILES :: "(string \<times> tone) list" where
  "TILES = [(''PRESENT'', Green), (''LATE'', Amber), (''LEAVE'', Amber), (''DUTY'', Blue), (''ABSENT'', Red),
     (''NOT_YET'', Neutral)]"

record dashboard_page =
  db_today :: jstr
  db_roster :: "roster api_state"
  db_readiness :: "readiness api_state"
  db_health :: "dashboard_summary api_state"
  db_week :: "roster list api_state"
  db_summary :: "dashboard_summary api_state"

datatype db_effect = ReloadTodayRoster | ReloadReadiness | ReloadHealth | ReloadWeek | ReloadSummary

type_synonym db_prog = "(dashboard_page, call, reply, db_effect) prog"

text \<open>The requests of the page's hooks: today's roster, the readiness, the counters, the week.\<close>

definition dashboard_queries :: "dashboard_page \<Rightarrow> call list" where
  "dashboard_queries s =
     [api_dailyRoster (Some (db_today s)), api_readiness, api_dashboard] @ week_queries (db_today s) @
     [api_dashboard]"

definition db_handle :: "db_event \<Rightarrow> dashboard_page \<Rightarrow> db_prog" where
  "db_handle e s =
     (case e of
        DbReload \<Rightarrow> effs [ReloadTodayRoster, ReloadReadiness, ReloadHealth, ReloadWeek] (Ret s)
      | DbReloadSummary \<Rightarrow> Eff ReloadSummary (Ret s))"

definition tile_label :: "dict \<Rightarrow> string \<Rightarrow> jstr" where
  "tile_label t k = t (''leave.st_'' @ k)"

text \<open>The parts of a day's bar: the tiles but the last, with their counts.\<close>

definition day_parts :: "roster \<Rightarrow> (string \<times> int) list" where
  "day_parts d = map (\<lambda>(k, c). (k, count_of (ro_totals d) k)) (filter (\<lambda>(k, c). k \<noteq> ''NOT_YET'') TILES)"

definition day_sum :: "roster \<Rightarrow> int" where
  "day_sum d = foldl (\<lambda>a (k, n). a + n) 0 (day_parts d)"

definition day_row :: "dict \<Rightarrow> (jstr \<Rightarrow> jstr) \<Rightarrow> roster \<Rightarrow> 'e view" where
  "day_row t short_date d =
     Box
      [Txt (short_date (ro_date d)),
       (if ro_is_workday d \<and> day_sum d > 0
        then Box (map (\<lambda>(k, n). if n \<noteq> 0 then Txt (tile_label t k @ js '' '' @ js_num n) else Box []) (day_parts d))
        else Txt (if ro_is_workday d then [0x2014] else nn (ro_holiday_name d) [0xe27, 0xe31, 0xe19,
            0xe2b, 0xe22, 0xe38, 0xe14])),
       Txt (if ro_is_workday d \<and> day_sum d \<noteq> 0 then [0xe02, 0xe32, 0xe14,
           32] @ js_num (count_of (ro_totals d) ''ABSENT'') else [])]"

definition week_panel :: "dict \<Rightarrow> (jstr \<Rightarrow> jstr) \<Rightarrow> roster list api_state \<Rightarrow> 'e view" where
  "week_panel t short_date q =
     Box
      [Txt [55, 32, 0xe27, 0xe31, 0xe19, 0xe17, 0xe33, 0xe01, 0xe32, 0xe23, 0xe25, 0xe48, 0xe32,
          0xe2a, 0xe38, 0xe14],
       (if truthy (as_error q) then ErrorBanner t (nn (as_error q) [])
        else case as_data q of
            None \<Rightarrow> Loading t
          | Some ds \<Rightarrow>
              Box (map (day_row t short_date) ds @
                   map (\<lambda>(k, c). Txt (tile_label t k)) (filter (\<lambda>(k, c). k \<noteq> ''NOT_YET'') TILES)))]"

definition branch_row :: "branch_readiness \<Rightarrow> 'e view" where
  "branch_row b =
     Box [Txt (br_branch b),
       Toned (if br_missing b \<noteq> 0 then Neutral else Green)
         [Txt (js_num (br_enrolled b) @ js ''/'' @ js_num (br_required b) @ js '' '' @
            (if br_missing b \<noteq> 0 then [40, 0xe02, 0xe32, 0xe14,
                32] @ js_num (br_missing b) @ js '')'' else [0x2713]))]]"

definition readiness_panel :: "dict \<Rightarrow> readiness api_state \<Rightarrow> 'e view" where
  "readiness_panel t q =
     Box
      [Txt [0xe04, 0xe27, 0xe32, 0xe21, 0xe1e, 0xe23, 0xe49, 0xe2d, 0xe21, 0xe01, 0xe32, 0xe23, 0xe25,
          0xe07, 0xe25, 0xe32, 0xe22, 0xe19, 0xe34, 0xe49, 0xe27, 0xe21, 0xe37,
          0xe2d], Lnk (js ''/enrollments'') [Txt [0xe44, 0xe1b, 0xe2b, 0xe19, 0xe49, 0xe32, 0xe25,
          0xe07, 0xe19, 0xe34, 0xe49, 0xe27, 32, 0x2192]],
       (if truthy (as_error q) then ErrorBanner t (nn (as_error q) [])
        else case as_data q of
            None \<Rightarrow> Loading t
          | Some r \<Rightarrow>
              Box
               [Txt (js_num (br_percent (rd_total r)) @ js ''%''),
                Txt ([0xe25, 0xe07, 0xe41, 0xe25, 0xe49, 0xe27,
                    32] @ js_num (br_enrolled (rd_total r)) @ js '' / '' @ js_num (br_required (rd_total r)) @
                  [32, 0xe04, 0xe19, 32, 0xb7, 32, 0xe40, 0xe2b, 0xe25, 0xe37, 0xe2d,
                      32] @ js_num (br_missing (rd_total r))),
                Box (map branch_row (rd_branches r))])]"

definition today_tiles :: "dict \<Rightarrow> roster api_state \<Rightarrow> 'e view" where
  "today_tiles t q =
     (if truthy (as_error q) then ErrorBanner t (nn (as_error q) [])
      else case as_data q of
          None \<Rightarrow> Loading t
        | Some r \<Rightarrow> Box (map (\<lambda>(k, c). Lnk (js ''/daily'')
            [Toned c [Txt (tile_label t k), Txt (js_num (count_of (ro_totals r) k))]]) TILES))"

definition branch_table :: "dict \<Rightarrow> roster option \<Rightarrow> 'e view" where
  "branch_table t q =
     (case q of
        None \<Rightarrow> Box []
      | Some r \<Rightarrow>
          when_v (ro_by_branch r \<noteq> [])
            [Box (Txt [0xe41, 0xe1c, 0xe19, 0xe01, 32, 40, 0xe27, 0xe31, 0xe19, 0xe19, 0xe35, 0xe49,
                41] # map (\<lambda>(k, c). Txt (tile_label t k)) TILES),
             Box (map (\<lambda>b. Box (Txt (rb_branch b) #
               map (\<lambda>(k, c). Txt (js_num (count_of (rb_counts b) k))) TILES)) (ro_by_branch r))])"

definition Dashboard ::
  "dict \<Rightarrow> (jstr \<Rightarrow> jstr) \<Rightarrow> (jstr \<Rightarrow> jstr) \<Rightarrow> db_event view \<Rightarrow> db_event view \<Rightarrow> dashboard_page \<Rightarrow>
   db_event view" where
  "Dashboard t long_date short_date badge trial s =
     (let r = as_data (db_roster s); ok = collector_live (as_data (db_health s)) in
      Box
       [Txt [0xe20, 0xe32, 0xe1e, 0xe23, 0xe27, 0xe21, 0xe01, 0xe33, 0xe25, 0xe31, 0xe07, 0xe1e,
           0xe25, 0xe27, 0xe31, 0xe19, 0xe19, 0xe35, 0xe49],
        Txt (long_date (db_today s)),
        (case r of
           None \<Rightarrow> Box []
         | Some d \<Rightarrow> Box
             [when_v (\<not> ro_is_workday d) [Txt ([32, 0xB7, 32] @ nn (ro_holiday_name d) [0xe27,
                 0xe31, 0xe19, 0xe2b, 0xe22, 0xe38, 0xe14])],
              Txt ([32, 0xb7, 32, 0xe0a, 0xe48, 0xe27, 0xe07, 0xe2a, 0xe41, 0xe01, 0xe19,
                  32] @ ro_scan_window d @ [32, 0xb7, 32, 0xe2a, 0xe32, 0xe22, 0xe2b, 0xe25, 0xe31,
                  0xe07, 32] @ ro_late_after d)]),
        Toned (if ok then Green else Red)
          [Txt (if ok then [0x25cf, 32, 0xe40, 0xe04, 0xe23, 0xe37, 0xe48, 0xe2d, 0xe07, 0xe2a, 0xe41,
              0xe01, 0xe19, 0xe2d, 0xe2d, 0xe19, 0xe44, 0xe25, 0xe19, 0xe4c] else [0x25cf, 32, 0xe40,
              0xe04, 0xe23, 0xe37, 0xe48, 0xe2d, 0xe07, 0xe2a, 0xe41, 0xe01, 0xe19, 0xe2d, 0xe2d,
              0xe1f, 0xe44, 0xe25, 0xe19, 0xe4c])],
        Btn False (t ''common.refresh'') DbReload,
        trial,
        today_tiles t (db_roster s),
        week_panel t short_date (db_week s),
        readiness_panel t (db_readiness s),
        branch_table t r,
        SystemOverview t badge (db_summary s)])"

end
