(* ===== verification/Attendance_Pages.thy ===== *)
theory Attendance_Pages
  imports Widgets Auth_Session
begin

text \<open>
  The reading pages: \<open>frontend/src/pages/Attendance.tsx\<close> (the scans, with the banner of a new
  one, and the scans nobody is attributed to), \<open>Devices.tsx\<close> and \<open>Audit.tsx\<close>. The
  wording of instants by the language's locale data, \<open>formatBangkokTime\<close> and
  \<open>fmt\<close>, is a parameter of the views.
\<close>

section \<open>The banner of a new scan\<close>

text \<open>
  The state of the banner with the browser's timers: \<open>bn_timers\<close> are the ones running, with
  the time they are due, \<open>bn_ref\<close> is \<open>bannerTimer.current\<close>. Identifiers of timers
  start at 1, so a set one is truthy. A timer that has run or was cleared is not in the list.
\<close>

record banner =
  bn_newScan :: "(jstr \<times> jstr) option"
  bn_ref :: "nat option"
  bn_timers :: "(nat \<times> int) list"
  bn_fresh :: nat
  bn_now :: int

definition banner0 :: "int \<Rightarrow> banner" where
  "banner0 now = \<lparr>bn_newScan = None, bn_ref = None, bn_timers = [], bn_fresh = 1, bn_now = now\<rparr>"

definition BANNER_MS :: int where
  "BANNER_MS = 6000"

definition clear_timer :: "nat \<Rightarrow> banner \<Rightarrow> banner" where
  "clear_timer i b = b\<lparr>bn_timers := filter (\<lambda>(j, due). j \<noteq> i) (bn_timers b)\<rparr>"

definition set_timer :: "int \<Rightarrow> banner \<Rightarrow> banner" where
  "set_timer ms b = b\<lparr>bn_timers := bn_timers b @ [(bn_fresh b, bn_now b + ms)], bn_fresh := Suc (bn_fresh b)\<rparr>"

definition show_scan :: "attendance_event \<Rightarrow> banner \<Rightarrow> banner" where
  "show_scan ev b =
     (let b1 = b\<lparr>bn_newScan := Some (ae_user_id ev, ae_scan_time ev)\<rparr>;
          b2 = (case bn_ref b1 of None \<Rightarrow> b1 | Some i \<Rightarrow> clear_timer i b1)
      in (set_timer BANNER_MS b2)\<lparr>bn_ref := Some (bn_fresh b2)\<rparr>)"

definition is_scan :: "attendance_event \<Rightarrow> bool" where
  "is_scan ev \<longleftrightarrow> ae_event_type ev = js ''ATTENDANCE_SCAN''"

text \<open>The callback of a timer that is due.\<close>

definition banner_timeout :: "nat \<Rightarrow> banner \<Rightarrow> banner" where
  "banner_timeout i b = (clear_timer i b)\<lparr>bn_newScan := None\<rparr>"

text \<open>
  What can happen to the banner, with the scans shown so far, the latest first, and when each
  came. A timer runs some time after it is due.
\<close>

inductive banner_reach :: "(int \<times> attendance_event) list \<Rightarrow> banner \<Rightarrow> bool" where
  bn_mount: "banner_reach [] (banner0 now)"
| bn_scan: "banner_reach h b \<Longrightarrow> is_scan ev \<Longrightarrow> banner_reach ((bn_now b, ev) # h) (show_scan ev b)"
| bn_pass: "banner_reach h b \<Longrightarrow> 0 \<le> ms \<Longrightarrow> banner_reach h (b\<lparr>bn_now := bn_now b + ms\<rparr>)"
| bn_fire: "banner_reach h b \<Longrightarrow> (i, due) \<in> set (bn_timers b) \<Longrightarrow> due \<le> bn_now b \<Longrightarrow>
     banner_reach h (banner_timeout i b)"

lemmas banner_defs = show_scan_def clear_timer_def set_timer_def banner_timeout_def banner0_def BANNER_MS_def Let_def

definition banner_inv :: "(int \<times> attendance_event) list \<Rightarrow> banner \<Rightarrow> bool" where
  "banner_inv h b \<longleftrightarrow>
     (\<forall>i. bn_ref b = Some i \<longrightarrow> i < bn_fresh b) \<and>
     (case h of
        [] \<Rightarrow> bn_newScan b = None \<and> bn_timers b = []
      | (at, ev) # _ \<Rightarrow>
          at \<le> bn_now b \<and> is_scan ev \<and> bn_ref b \<noteq> None \<and>
          (bn_newScan b = Some (ae_user_id ev, ae_scan_time ev) \<and> bn_timers b = [(the (bn_ref b), at + BANNER_MS)] \<or>
           bn_newScan b = None \<and> bn_timers b = [] \<and> at + BANNER_MS \<le> bn_now b))"

lemma banner_reach_inv: "banner_reach h b \<Longrightarrow> banner_inv h b"
proof (induction rule: banner_reach.induct)
  case (bn_scan h b ev)
  then show ?case
    by (cases h rule: list.exhaust) (auto simp: banner_inv_def banner_defs split: option.splits)
next
  case (bn_fire h b i due)
  then show ?case by (cases h rule: list.exhaust) (auto simp: banner_inv_def banner_defs)
qed (auto simp: banner_inv_def banner0_def split: list.splits)

text \<open>C24: The banner shows the latest scan only, for its full six seconds: a newer scan cancels the
  timer of the one before, so nothing hides it early; at most one timer runs, exactly while
  the banner is shown, and it is due six seconds after the scan.\<close>

theorem banner_latest_scan:
  assumes "banner_reach h b"
  shows "(bn_newScan b \<noteq> None \<longrightarrow>
            (\<exists>at ev older. h = (at, ev) # older \<and> bn_newScan b = Some (ae_user_id ev, ae_scan_time ev) \<and>
               bn_timers b = [(the (bn_ref b), at + BANNER_MS)])) \<and>
         (h = (at, ev) # older \<longrightarrow> bn_now b < at + BANNER_MS \<longrightarrow>
            bn_newScan b = Some (ae_user_id ev, ae_scan_time ev)) \<and>
         (bn_newScan b = None \<longleftrightarrow> bn_timers b = [])"
  using banner_reach_inv[OF assms] by (cases h) (auto simp: banner_inv_def)

definition sample_scan :: "string \<Rightarrow> attendance_event" where
  "sample_scan u = \<lparr>ae_user_id = js u, ae_device_ip = [], ae_scan_time = js ''2026-02-27T01:00:00Z'',
     ae_punch_type = None, ae_status = None, ae_event_type = js ''ATTENDANCE_SCAN''\<rparr>"

theorem banner_latest_scan_witness:
  "\<exists>b. banner_reach [(3000, sample_scan ''2''), (0, sample_scan ''1'')] b \<and> bn_now b = 7000 \<and>
     bn_newScan b = Some (js ''2'', js ''2026-02-27T01:00:00Z'')"
proof -
  let ?b = "show_scan (sample_scan ''2'') ((show_scan (sample_scan ''1'') (banner0 0))\<lparr>bn_now := 3000\<rparr>)"
  have s: "is_scan (sample_scan u)" for u by (simp add: is_scan_def sample_scan_def)
  have "banner_reach [(0, sample_scan ''1'')] (show_scan (sample_scan ''1'') (banner0 0))"
    using bn_scan[OF bn_mount[of 0] s] by (simp add: banner0_def)
  from bn_pass[OF this, of 3000]
  have "banner_reach [(0, sample_scan ''1'')] ((show_scan (sample_scan ''1'') (banner0 0))\<lparr>bn_now := 3000\<rparr>)"
    by (simp add: banner_defs)
  from bn_pass[OF bn_scan[OF this s[of "''2''"]], of 4000]
  have r: "banner_reach [(3000, sample_scan ''2''), (0, sample_scan ''1'')] (?b\<lparr>bn_now := 7000\<rparr>)"
    by (simp add: banner_defs)
  have "bn_newScan (?b\<lparr>bn_now := 7000\<rparr>) =
      Some (ae_user_id (sample_scan ''2''), ae_scan_time (sample_scan ''2''))"
    by (rule banner_latest_scan[OF r, THEN conjunct2, THEN conjunct1, rule_format, OF refl])
      (simp add: BANNER_MS_def)
  then have "bn_newScan (?b\<lparr>bn_now := 7000\<rparr>) = Some (js ''2'', js ''2026-02-27T01:00:00Z'')"
    by (simp only: sample_scan_def attendance_event.select_convs)
  with r show ?thesis by (intro exI[of _ "?b\<lparr>bn_now := 7000\<rparr>"]) simp
qed

section \<open>Attendance.tsx\<close>

record attendance =
  at_created_at :: jstr
  at_device_id :: "int option"
  at_device_ip :: jstr
  at_device_user_pk :: "int option"
  at_employee_id :: "jstr option"
  at_id :: int
  at_punch_type :: "jstr option"
  at_scan_time :: jstr
  at_status :: jstr
  at_user_id :: jstr

record attribution_reasoning =
  rea_classification :: jstr
  rea_detail :: jstr
  rea_resolver_employee_id :: "jstr option"
  rea_valid_from :: "jstr option"
  rea_valid_to :: "jstr option"

record unattributed_attendance =
  un_created_at :: jstr
  un_device_id :: "int option"
  un_device_ip :: jstr
  un_device_user_pk :: "int option"
  un_employee_id :: "jstr option"
  un_id :: int
  un_punch_type :: "jstr option"
  un_reasoning :: attribution_reasoning
  un_scan_time :: jstr
  un_status :: jstr
  un_user_id :: jstr

text \<open>\<open>an_limit\<close> is a JavaScript number, \<open>None\<close> is NaN.\<close>

record attendance_page =
  an_auth :: auth
  an_locale :: lang
  an_status :: jstr
  an_limit :: "int option"
  an_list :: "attendance page api_state"
  an_stream :: stream_status
  an_banner :: banner
  an_unattributed :: "unattributed_attendance page api_state"

datatype an_event = AnStatus jstr | AnLimit jstr | AnReload | AnRetry

datatype an_effect = ReloadAttendance | Reconnect

type_synonym an_prog = "(attendance_page, call, reply, an_effect) prog"

definition attendance_query :: "attendance_page \<Rightarrow> call" where
  "attendance_query s = api_attendance
     [(''limit'', case an_limit s of None \<Rightarrow> JStr (js ''NaN'') | Some n \<Rightarrow> JNum n),
      (''status'', j_opt JStr (opt_str (an_status s)))]"

text \<open>The effect of a new \<open>lastEvent\<close>; the other event of the hook.\<close>

definition attendance_effect :: "attendance_event option \<Rightarrow> attendance_page \<Rightarrow> an_prog" where
  "attendance_effect lastEvent s =
     (case lastEvent of
        None \<Rightarrow> Ret s
      | Some ev \<Rightarrow>
          if is_scan ev then Eff ReloadAttendance (Ret (s\<lparr>an_banner := show_scan ev (an_banner s)\<rparr>))
          else Ret s)"

definition an_handle :: "an_event \<Rightarrow> attendance_page \<Rightarrow> an_prog" where
  "an_handle e s =
     (case e of
        AnStatus x \<Rightarrow> Ret (s\<lparr>an_status := x\<rparr>)
      | AnLimit x \<Rightarrow> Ret (s\<lparr>an_limit := js_Number x\<rparr>)
      | AnReload \<Rightarrow> Eff ReloadAttendance (Ret s)
      | AnRetry \<Rightarrow> Eff Reconnect (Ret s))"

definition an_status_options :: "dict \<Rightarrow> (jstr \<times> jstr) list" where
  "an_status_options t =
     [([], t ''common.all''), (js ''ON_TIME'', t ''attendance.onTime'' @ js '' (ON_TIME)''),
      (js ''LATE'', t ''attendance.late'' @ js '' (LATE)''),
      (js ''UNKNOWN'', t ''attendance.unknown'' @ js '' (UNKNOWN)'')]"

definition an_limit_options :: "(jstr \<times> jstr) list" where
  "an_limit_options = map (\<lambda>n. (js_num n, js_num n @ js '' rows'')) [25, 50, 200]"

definition scan_banner :: "dict \<Rightarrow> (jstr \<Rightarrow> jstr) \<Rightarrow> banner \<Rightarrow> an_event view" where
  "scan_banner t bangkok b =
     (case bn_newScan b of
        None \<Rightarrow> Box []
      | Some (user, at) \<Rightarrow>
          Toned Green
           [Txt (t ''attendance.liveStreamBadge'' @ js '': Terminal User '' @ user @ js '' @ ''), Txt (bangkok at),
            Btn False (t ''common.refresh'') AnReload])"

definition pk_cell :: "bool \<Rightarrow> int option \<Rightarrow> 'e view" where
  "pk_cell admin pk = when_v admin [Txt (nn (map_option js_num pk) [0x2014])]"

definition attendance_row :: "dict \<Rightarrow> (jstr \<Rightarrow> jstr) \<Rightarrow> lang \<Rightarrow> bool \<Rightarrow> attendance \<Rightarrow> an_event view" where
  "attendance_row t bangkok l admin a =
     Box
      [Lnk (js ''/attendance/'' @ js_num (at_id a)) [Txt (js ''#'' @ js_num (at_id a))],
       Txt (bangkok (at_scan_time a)), Txt (at_user_id a),
       pk_cell admin (at_device_user_pk a),
       Txt (if truthy (at_employee_id a) then js_slice 0 8 (nn (at_employee_id a) []) @ [0x2026]
            else t ''attendance.unmappedUserLabel''),
       StatusBadge l (Some (at_status a))]"

definition attendance_table :: "dict \<Rightarrow> (jstr \<Rightarrow> jstr) \<Rightarrow> attendance_page \<Rightarrow> an_event view" where
  "attendance_table t bangkok s =
     (let d = as_data (an_list s); items = nn (map_option pg_items d) []; admin = isAdmin (an_auth s) in
      Box
       [Txt (t ''attendance.logIdColumn''),
        Txt (t ''attendance.timeColumn'' @ js '' ('' @ t ''attendance.timeColumnSuffix'' @ js '')''),
        Txt (t ''attendance.terminalIdColumn''),
        when_v admin [Txt (t ''attendance.deviceUserPkColumn'')],
        Txt (t ''attendance.personColumn''), Txt (t ''attendance.statusColumn''),
        Box (map (attendance_row t bangkok (an_locale s) admin) items),
        Txt (t ''common.showing'' @ js '' '' @ js_num (int (length items)) @ js '' '' @ t ''common.of'' @ js '' '' @
          js_num (nn (map_option pg_total d) 0) @ js '' '' @ t ''common.results'')])"

definition ReasoningBadge :: "lang \<Rightarrow> jstr \<Rightarrow> 'e view" where
  "ReasoningBadge l c =
     Toned (if c = js ''LEGACY_USER'' then Amber else if c = js ''NO_MAPPING'' then Blue
            else if c = js ''BEFORE_VALID_FROM'' \<or> c = js ''AFTER_VALID_TO'' then Purple
            else if c = js ''INSIDE_INTERVAL'' then Red else Neutral)
       [Txt (enumLabel attendanceReasoningLabels c l)]"

definition unattributed_row :: "(jstr \<Rightarrow> jstr) \<Rightarrow> lang \<Rightarrow> unattributed_attendance \<Rightarrow> 'e view" where
  "unattributed_row bangkok l a =
     Box
      [Lnk (js ''/attendance/'' @ js_num (un_id a)) [Txt (js ''#'' @ js_num (un_id a))],
       Txt (bangkok (un_scan_time a)), Txt (un_user_id a),
       Txt (nn (map_option js_num (un_device_user_pk a)) [0x2014]),
       ReasoningBadge l (rea_classification (un_reasoning a)), Txt (rea_detail (un_reasoning a))]"

definition ReconciliationSection ::
  "dict \<Rightarrow> (jstr \<Rightarrow> jstr) \<Rightarrow> lang \<Rightarrow> unattributed_attendance page api_state \<Rightarrow> 'e view" where
  "ReconciliationSection t bangkok l q =
     (let items = nn (map_option pg_items (as_data q)) [] in
      Box
       [Txt (t ''attendance.reconciliationTitle''), Txt (t ''attendance.reconciliationDesc''),
        (if as_loading q then Loading t
         else if truthy (as_error q) then ErrorBanner t (nn (as_error q) [])
         else if items = [] then Txt (t ''attendance.noUnattributedRows'')
         else Box
           [Txt (t ''attendance.logIdColumn''),
            Txt (t ''attendance.timeColumn'' @ js '' ('' @ t ''attendance.timeColumnSuffix'' @ js '')''),
            Txt (t ''attendance.terminalUserColumn''), Txt (t ''attendance.deviceUserPkColumn''),
            Txt (t ''attendance.temporalClassificationColumn''), Txt (t ''attendance.diagnosticDetailColumn''),
            Box (map (unattributed_row bangkok l) items)])])"

definition Attendance :: "dict \<Rightarrow> (jstr \<Rightarrow> jstr) \<Rightarrow> attendance_page \<Rightarrow> an_event view" where
  "Attendance t bangkok s =
     Box
      [Txt (t ''attendance.title''), Txt (t ''attendance.subtitle''),
       StreamStatusBadge t (an_stream s) (Some AnRetry),
       Select False (an_status s) (an_status_options t) AnStatus,
       Select False (nn (map_option js_num (an_limit s)) (js ''NaN'')) an_limit_options AnLimit,
       Btn False (t ''common.refresh'') AnReload,
       scan_banner t bangkok (an_banner s),
       (if as_loading (an_list s) then Loading t
        else if truthy (as_error (an_list s)) then ErrorBanner t (nn (as_error (an_list s)) [])
        else attendance_table t bangkok s),
       when_v (isAdmin (an_auth s)) [ReconciliationSection t bangkok (an_locale s) (an_unattributed s)]]"

definition AttendanceDetail :: "dict \<Rightarrow> 'e view" where
  "AttendanceDetail t =
     Lnk (js ''/attendance'') [Txt ([0x2190, 32] @ t ''common.back'' @ js '' '' @ t ''attendance.title'')]"

definition an_init :: "attendance_page \<Rightarrow> bool" where
  "an_init s \<longleftrightarrow> an_status s = [] \<and> an_limit s = Some 50 \<and> an_list s = api_idle \<and>
     (\<exists>now. an_banner s = banner0 now) \<and> an_unattributed s = api_idle"

text \<open>The surroundings: the identity, the language, the stream, the loaded lists, and the banner's
  scans and timer.\<close>

definition an_env :: "attendance_page \<Rightarrow> attendance_page \<Rightarrow> bool" where
  "an_env s s' \<longleftrightarrow>
     (\<exists>a l q st b u. s' = s\<lparr>an_auth := a, an_locale := l, an_list := q, an_stream := st, an_banner := b,
        an_unattributed := u\<rparr>)"

interpretation attendance_ui: async_ui an_init "\<lambda>s e. e \<in> offers (Attendance t bangkok s)" an_handle an_env
  for t bangkok .

lemma no_status_event [simp]: "offers (StatusBadge l x) = {}"
  by (auto simp: StatusBadge_def Let_def Badge_def)

lemma offers_ReconciliationSection [simp]: "offers (ReconciliationSection t bangkok l q) = {}"
  by (auto simp: ReconciliationSection_def Let_def Loading_def ErrorBanner_def unattributed_row_def ReasoningBadge_def)

lemma an_offers:
  "AnStatus x \<in> offers (Attendance t bangkok s) \<Longrightarrow> x \<in> fst ` set (an_status_options t)"
  "AnLimit x \<in> offers (Attendance t bangkok s) \<Longrightarrow> x \<in> fst ` set an_limit_options"
  by (auto simp: Attendance_def StreamStatusBadge_def scan_banner_def attendance_table_def attendance_row_def
      pk_cell_def Let_def Loading_def ErrorBanner_def split: if_splits option.splits prod.splits)

text \<open>The page only reads: whatever is pressed, scanned or loaded, no request of a handler is
  sent, the number of rows asked for is one of the three offered, and the status is one of
  the four.\<close>

theorem attendance_read_only:
  assumes "attendance_ui.ui_reach t bangkok c"
  shows "requests_of (log c) = [] \<and> an_limit (st c) \<in> Some ` {25, 50, 200} \<and>
     an_status (st c) \<in> {[], js ''ON_TIME'', js ''LATE'', js ''UNKNOWN''}"
proof -
  let ?I = "\<lambda>s. an_limit s \<in> Some ` {25, 50, 200} \<and> an_status s \<in> {[], js ''ON_TIME'', js ''LATE'', js ''UNKNOWN''}"
  have "conf_ok ?I (\<lambda>s q. False) c"
  proof (rule attendance_ui.ui_invariant[OF _ _ _ assms])
    fix s e
    assume I: "?I s" and en: "e \<in> offers (Attendance t bangkok s)"
    show "safe ?I (\<lambda>s q. False) (an_handle e s)"
    proof (cases e)
      case (AnStatus x)
      with I an_offers(1) en show ?thesis by (force simp: an_handle_def an_status_options_def)
    next
      case (AnLimit x)
      with an_offers(2) en have "x \<in> js_num ` {25, 50, 200}" by (force simp: an_limit_options_def)
      with AnLimit I show ?thesis by (auto simp: an_handle_def)
    qed (use I in \<open>simp_all add: an_handle_def\<close>)
  qed (auto simp: an_init_def an_env_def)
  then show ?thesis by (auto simp: conf_ok_def requests_of_def split: sum.splits)
qed

definition an_demo :: attendance_page where
  "an_demo = \<lparr>an_auth = default_auth, an_locale = En, an_status = [], an_limit = Some 50,
     an_list = api_idle, an_stream = Connecting, an_banner = banner0 0, an_unattributed = api_idle\<rparr>"

theorem attendance_read_only_witness:
  "\<exists>c. attendance_ui.ui_reach js id c \<and> an_limit (st c) = Some 200 \<and> requests_of (log c) = []"
proof -
  have r0: "attendance_ui.ui_reach js id (start an_demo)"
    by (rule attendance_ui.initial) (auto simp: an_init_def an_demo_def)
  have d: "nat_digits 200 = ''200''" by code_simp
  have e0: "AnLimit (js ''200'') \<in> offers (Attendance js id an_demo)"
    using d by (simp add: Attendance_def an_limit_options_def js_num_def)
  have "an_handle (AnLimit (js ''200'')) an_demo = Ret (an_demo\<lparr>an_limit := Some 200\<rparr>)"
    using js_Number_num[of 200] d by (simp add: an_handle_def js_num_def)
  then obtain c where "attendance_ui.ui_reach js id c" "st c = an_demo\<lparr>an_limit := Some 200\<rparr>"
    using attendance_ui.reach_ret[OF r0 _ e0] by auto
  with attendance_read_only[of js id c] show ?thesis by auto
qed

text \<open>Changing the account keys of the loaded scans and the list of unattributed ones.\<close>

definition change_pks :: "(attendance \<Rightarrow> int option) \<Rightarrow> attendance page api_state \<Rightarrow> attendance page api_state" where
  "change_pks f q = q\<lparr>as_data := map_option (\<lambda>p. p\<lparr>pg_items :=
     map (\<lambda>a. a\<lparr>at_device_user_pk := f a\<rparr>) (pg_items p)\<rparr>) (as_data q)\<rparr>"

text \<open>The database keys of scanner accounts and the reconciliation of unattributed scans are for
  administrators: for anybody else the page is the same whatever they are.\<close>

theorem account_keys_admin_only:
  assumes "\<not> isAdmin (an_auth s)"
  shows "Attendance t bangkok (s\<lparr>an_list := change_pks f (an_list s), an_unattributed := u\<rparr>) =
     Attendance t bangkok s"
proof -
  have "attendance_row t bangkok l False (a\<lparr>at_device_user_pk := x\<rparr>) = attendance_row t bangkok l False a"
    for l a x by (simp add: attendance_row_def pk_cell_def when_v_def)
  then show ?thesis using assms
    by (cases "as_data (an_list s)")
      (simp_all add: Attendance_def attendance_table_def change_pks_def Let_def o_def when_v_def)
qed

definition sample_attendance :: attendance where
  "sample_attendance = \<lparr>at_created_at = [], at_device_id = None, at_device_ip = [], at_device_user_pk = Some 9,
     at_employee_id = None, at_id = 1, at_punch_type = None, at_scan_time = [], at_status = js ''LATE'',
     at_user_id = js ''1''\<rparr>"

theorem account_keys_admin_only_witness:
  "let q = api_idle\<lparr>as_loading := False,
       as_data := Some \<lparr>pg_items = [sample_attendance], pg_total = 1, pg_limit = 50, pg_offset = 0\<rparr>\<rparr>;
     s = an_demo\<lparr>an_list := q\<rparr>
   in change_pks (\<lambda>a. None) q \<noteq> q \<and>
     Attendance js id (s\<lparr>an_list := change_pks (\<lambda>a. None) q\<rparr>) = Attendance js id s"
proof -
  let ?q = "api_idle\<lparr>as_loading := False,
       as_data := Some \<lparr>pg_items = [sample_attendance], pg_total = 1, pg_limit = 50, pg_offset = 0\<rparr>\<rparr>"
  have "\<not> isAdmin (an_auth (an_demo\<lparr>an_list := ?q\<rparr>))" by (simp add: an_demo_def default_auth_def)
  from account_keys_admin_only[OF this, where f = "\<lambda>a. None" and u = api_idle and t = js and bangkok = id]
  show ?thesis by (simp add: Let_def change_pks_def sample_attendance_def api_idle_def an_demo_def)
qed

end
