(* ===== verification/Reading_Pages.thy ===== *)
theory Reading_Pages
  imports Widgets Auth_Session
begin

text \<open>
  The pages that only show what the server knows: \<open>frontend/src/pages/Devices.tsx\<close> (the
  scanners and the accounts seen on them) and \<open>Audit.tsx\<close> (the log of events, by type).
  \<open>fmt\<close>, the wording of an instant by the language's locale data, is a parameter.
\<close>

section \<open>Devices.tsx\<close>

record device_user =
  du_account_incarnation :: int
  du_active :: bool
  du_created_at :: jstr
  du_device_display_name :: "jstr option"
  du_device_id :: int
  du_device_uid :: "int option"
  du_device_user_id :: jstr
  du_device_user_pk :: int
  du_first_seen_at :: jstr
  du_inactive_at :: "jstr option"
  du_last_seen_at :: jstr
  du_privilege :: int
  du_roster_last_seen_at :: "jstr option"
  du_updated_at :: jstr

record devices_page =
  dv_auth :: auth
  dv_locale :: lang
  dv_devices :: "device page api_state"
  dv_users :: "device_user page api_state"

definition devices_queries :: "call list" where
  "devices_queries = [api_devices, api_deviceUsers [(''limit'', JNum 100)]]"

definition device_card :: "dict \<Rightarrow> lang \<Rightarrow> device \<Rightarrow> 'e view" where
  "device_card t l d =
     Box
      [Txt (js ''ZK''), Txt (d_device_name d), Txt (js ''ID #'' @ js_num (d_device_id d)),
       StatusBadge l (Some (js (if d_active d then ''LIVE'' else ''INACTIVE''))),
       Txt (t ''devices.deviceIp''), Txt (d_device_ip d @ js '':4370''),
       Txt (t ''devices.serial''), Txt (d_serial_number d),
       Txt (t ''devices.platform''), Txt (d_platform d),
       Txt (t ''devices.firmware''), Txt (nn (d_firmware_version d) [0x2014])]"

definition device_user_row :: "dict \<Rightarrow> (jstr \<Rightarrow> jstr) \<Rightarrow> lang \<Rightarrow> bool \<Rightarrow> device_user \<Rightarrow> 'e view" where
  "device_user_row t fmt l admin u =
     Box
      [when_v admin [Txt (js ''#'' @ js_num (du_device_user_pk u))],
       Txt (du_device_user_id u),
       Txt (nn (map_option js_num (du_device_uid u)) [0x2014]),
       Txt (nn (du_device_display_name u) [0x2014]),
       Txt (js_num (du_privilege u)),
       (if du_active u then StatusBadge l (Some (js ''ACTIVE''))
        else Txt (t ''common.inactive'' @ js '' '' @
          (if truthy (du_inactive_at u)
           then js ''('' @ t ''devices.inactiveSincePrefix'' @ js '' '' @ fmt (nn (du_inactive_at u) []) @ js '')''
           else []))),
       (if du_account_incarnation u > 1
        then Toned Amber [Txt (js ''v'' @ js_num (du_account_incarnation u) @ js '' ('' @
          t ''devices.recycledLabel'' @ js '')'')]
        else Txt (js ''v'' @ js_num (du_account_incarnation u))),
       Txt (if truthy (du_roster_last_seen_at u) then fmt (nn (du_roster_last_seen_at u) []) else [0x2014])]"

definition device_users_table :: "dict \<Rightarrow> (jstr \<Rightarrow> jstr) \<Rightarrow> devices_page \<Rightarrow> 'e view" where
  "device_users_table t fmt s =
     (let q = as_data (dv_users s); admin = isAdmin (dv_auth s) in
      Box
       [Txt (t ''devices.discoveredUsers'' @ js '' ('' @ js_num (nn (map_option pg_total q) 0) @ js '')''),
        Txt (t ''devices.rosterSyncHint''),
        when_v admin [Txt (t ''devices.deviceUserPk'')],
        Box (map (\<lambda>k. Txt (t k)) [''attendance.terminalIdColumn'', ''devices.terminalUidColumn'',
          ''devices.displayNameColumn'', ''devices.privilege'', ''common.status'', ''devices.incarnation'',
          ''devices.lastSeen'']),
        Box (map (device_user_row t fmt (dv_locale s) admin) (nn (map_option pg_items q) []))])"

definition Devices :: "dict \<Rightarrow> (jstr \<Rightarrow> jstr) \<Rightarrow> devices_page \<Rightarrow> 'e view" where
  "Devices t fmt s =
     (let devices = nn (map_option pg_items (as_data (dv_devices s))) [] in
      if as_loading (dv_devices s) \<or> as_loading (dv_users s) then Loading t
      else if truthy (as_error (dv_devices s)) then ErrorBanner t (nn (as_error (dv_devices s)) [])
      else if truthy (as_error (dv_users s)) then ErrorBanner t (nn (as_error (dv_users s)) [])
      else Box
        [Txt (t ''devices.title''), Txt (t ''devices.subtitle''),
         Txt (js_num (int (length devices)) @ js '' '' @ t ''nav.devices''),
         Box (map (device_card t (dv_locale s)) devices),
         device_users_table t fmt s])"

definition change_keys :: "(device_user \<Rightarrow> int) \<Rightarrow> device_user page api_state \<Rightarrow> device_user page api_state" where
  "change_keys f q = q\<lparr>as_data := map_option (\<lambda>p. p\<lparr>pg_items :=
     map (\<lambda>u. u\<lparr>du_device_user_pk := f u\<rparr>) (pg_items p)\<rparr>) (as_data q)\<rparr>"

text \<open>The keys of the accounts are shown to administrators only: for anybody else the page is the
  same whatever they are; nobody can change anything there, and both lists must have been
  loaded before anything of either is shown.\<close>

theorem devices_page_safe:
  shows "(\<not> isAdmin (dv_auth s) \<longrightarrow>
            Devices t fmt (s\<lparr>dv_users := change_keys f (dv_users s)\<rparr>) = (Devices t fmt s :: 'e view)) \<and>
         offers (Devices t fmt s :: 'e view) = {} \<and>
         (as_loading (dv_users s) \<longrightarrow>
            Devices t fmt (s\<lparr>dv_devices := q\<rparr>) = (Loading t :: 'e view))"
proof (intro conjI impI)
  have row: "device_user_row t fmt l False (u\<lparr>du_device_user_pk := x\<rparr>) = (device_user_row t fmt l False u :: 'e view)"
    for l u x by (simp add: device_user_row_def when_v_def)
  assume "\<not> isAdmin (dv_auth s)"
  then show "Devices t fmt (s\<lparr>dv_users := change_keys f (dv_users s)\<rparr>) = (Devices t fmt s :: 'e view)"
    by (cases "as_data (dv_users s)")
      (simp_all add: Devices_def device_users_table_def change_keys_def Let_def o_def row)
next
  have "offers (StatusBadge l x :: 'e view) = {}" for l x by (auto simp: StatusBadge_def Let_def Badge_def)
  then show "offers (Devices t fmt s :: 'e view) = {}"
    by (auto simp: Devices_def device_users_table_def device_user_row_def device_card_def Let_def Loading_def
        ErrorBanner_def)
qed (simp add: Devices_def)

section \<open>Audit.tsx\<close>

record audit_event =
  aud_created_at :: jstr
  aud_device_ip :: "jstr option"
  aud_event_type :: jstr
  aud_id :: int
  aud_message :: "jstr option"

record audit_page =
  aud_eventType :: jstr
  aud_types :: "jstr list api_state"
  aud_events :: "audit_event page api_state"

datatype aud_ui_event = AudType jstr | AudReload

datatype aud_effect = ReloadEvents

type_synonym aud_prog = "(audit_page, call, reply, aud_effect) prog"

definition audit_query :: "audit_page \<Rightarrow> call" where
  "audit_query s = api_auditEvents
     [(''limit'', JNum 200), (''event_type'', j_opt JStr (opt_str (aud_eventType s)))]"

definition aud_handle :: "aud_ui_event \<Rightarrow> audit_page \<Rightarrow> aud_prog" where
  "aud_handle e s =
     (case e of AudType x \<Rightarrow> Ret (s\<lparr>aud_eventType := x\<rparr>) | AudReload \<Rightarrow> Eff ReloadEvents (Ret s))"

text \<open>\<open>e.created_at.replace("T", " ").slice(0, 19)\<close>.\<close>

definition audit_time :: "jstr \<Rightarrow> jstr" where
  "audit_time s = js_slice 0 19 (js_replace s (js ''T'') (js '' ''))"

definition audit_row :: "audit_event \<Rightarrow> 'e view" where
  "audit_row e = Box [Txt (audit_time (aud_created_at e)), Txt (aud_event_type e),
     Txt (nn (aud_device_ip e) [0x2014]), Txt (nn (aud_message e) [0x2014])]"

definition Audit :: "dict \<Rightarrow> audit_page \<Rightarrow> aud_ui_event view" where
  "Audit t s =
     (let q = aud_events s; d = as_data q; items = nn (map_option pg_items d) [] in
      Box
       [Txt (t ''audit.title''), Txt (t ''audit.subtitle''),
        Txt (case d of None \<Rightarrow> t ''common.loading'' | Some p \<Rightarrow> js_num (pg_total p) @ js '' '' @ t ''audit.title''),
        Select False (aud_eventType s)
          (([], t ''audit.eventTypeFilter'') # map (\<lambda>x. (x, x)) (nn (as_data (aud_types s)) [])) AudType,
        Btn False (t ''common.refresh'') AudReload,
        (if as_loading q then Loading t
         else if truthy (as_error q) then ErrorBanner t (nn (as_error q) [])
         else Box
           [Txt (t ''audit.timestampColumn'' @ js '' (UTC)''), Txt (t ''audit.eventTypeColumn''),
            Txt (t ''audit.originIpColumn''), Txt (t ''audit.detailsColumn''),
            Box (map audit_row items),
            Txt (t ''common.showing'' @ js '' '' @ js_num (int (length items)) @ js '' '' @ t ''common.of'' @ js '' '' @
              js_num (nn (map_option pg_total d) 0))])])"

text \<open>The time of an event is shown to the second, whatever follows, fractions or zone, in the
  server's ISO text.\<close>

theorem audit_time_exact:
  assumes "length day = 10" "of_char CHR ''T'' \<notin> set day" "length clock = 8"
  shows "audit_time (day @ js ''T'' @ clock @ rest) = day @ js '' '' @ clock"
proof -
  have "js_index_of (day @ js ''T'' @ clock @ rest) (js ''T'') = Some (length day)"
    using assms(2) by (induction day) (auto simp: js_Cons)
  then have "js_replace (day @ js ''T'' @ clock @ rest) (js ''T'') (js '' '') = day @ js '' '' @ clock @ rest"
    by (simp add: js_replace_def)
  then show ?thesis using assms by (simp add: audit_time_def js_slice_def)
qed

theorem audit_time_exact_witness:
  "audit_time (js ''2026-02-27'' @ js ''T'' @ js ''08:15:00'' @ js ''.123456+00:00'') =
     js ''2026-02-27'' @ js '' '' @ js ''08:15:00''"
  by (rule audit_time_exact) (simp_all add: js_Cons)

end
