(* ===== verification/Api_Contract.thy ===== *)
theory Api_Contract
  imports Client
begin

text \<open>
  What a contract between the client and the server is: the types of
  \<open>frontend/src/api/generated.ts\<close> (the tables themselves are in Api_Schemas and
  Api_Operations), the values that have such a type, the derived types of
  \<open>frontend/src/api/types.ts\<close>, and the operation a request addresses.
\<close>

section \<open>Types\<close>

text \<open>The TypeScript types that occur in the contract; a field of an object is required
  (\<open>k: t\<close>) or optional (\<open>k?: t\<close>). \<open>TMap t\<close> is \<open>{ [key: string]: t }\<close>.\<close>

datatype ty =
    TStr | TNum | TBool | TNull | TUnknown | TNever
  | TArr ty
  | TOr "ty list"
  | TMap ty
  | TObj "field list"
and field = Req string ty | Opt string ty

fun field_name :: "field \<Rightarrow> string" where
  "field_name (Req k t) = k"
| "field_name (Opt k t) = k"

fun is_required :: "field \<Rightarrow> bool" where
  "is_required (Req k t) = True"
| "is_required (Opt k t) = False"

text \<open>The values of a type, as they stand in a request or a response. An object has its required
  fields, a field it has is declared and of the type declared.\<close>

fun conf :: "ty \<Rightarrow> json \<Rightarrow> bool" and conf_field :: "field \<Rightarrow> (string \<times> json) list \<Rightarrow> bool" where
  "conf TStr v \<longleftrightarrow> (case v of JStr _ \<Rightarrow> True | _ \<Rightarrow> False)"
| "conf TNum v \<longleftrightarrow> (case v of JNum _ \<Rightarrow> True | _ \<Rightarrow> False)"
| "conf TBool v \<longleftrightarrow> (case v of JBool _ \<Rightarrow> True | _ \<Rightarrow> False)"
| "conf TNull v \<longleftrightarrow> v = JNull"
| "conf TUnknown v \<longleftrightarrow> True"
| "conf TNever v \<longleftrightarrow> False"
| "conf (TArr t) v \<longleftrightarrow> (case v of JArr vs \<Rightarrow> list_all (conf t) vs | _ \<Rightarrow> False)"
| "conf (TOr ts) v \<longleftrightarrow> list_ex (\<lambda>t. conf t v) ts"
| "conf (TMap t) v \<longleftrightarrow> (case v of JObj fs \<Rightarrow> list_all (\<lambda>e. conf t (snd e)) fs | _ \<Rightarrow> False)"
| "conf (TObj ds) v \<longleftrightarrow>
     (case v of
        JObj fs \<Rightarrow> list_all (\<lambda>d. conf_field d fs) ds \<and> list_all (\<lambda>e. fst e \<in> set (map field_name ds)) fs
      | _ \<Rightarrow> False)"
| "conf_field (Req k t) fs \<longleftrightarrow> (case map_of fs k of None \<Rightarrow> False | Some v \<Rightarrow> conf t v)"
| "conf_field (Opt k t) fs \<longleftrightarrow> (case map_of fs k of None \<Rightarrow> True | Some v \<Rightarrow> conf t v)"

section \<open>Operations\<close>

text \<open>An entry of \<open>operations\<close>: the query (whether it is required, and its fields; \<open>None\<close> for
  \<open>query?: never\<close>), the path parameters, the body (whether it is required, its media type and
  type; \<open>None\<close> for \<open>never\<close>) and, per status, the content of the response (\<open>None\<close> for \<open>never\<close>).
  Headers and cookies are \<open>never\<close> in every operation, and the headers of every response are
  \<open>{ [name: string]: unknown }\<close>.\<close>

record operation =
  op_query :: "(bool \<times> field list) option"
  op_path :: "field list"
  op_body :: "(bool \<times> string \<times> ty) option"
  op_responses :: "(int \<times> (string \<times> ty) option) list"

text \<open>The derived types of \<open>types.ts\<close>: \<open>never\<close> where a pattern does not match.\<close>

definition QueryOf :: "operation \<Rightarrow> ty" where
  "QueryOf op = (case op_query op of None \<Rightarrow> TNever | Some (_, fs) \<Rightarrow> TObj fs)"

definition BodyOf :: "operation \<Rightarrow> ty" where
  "BodyOf op = (case op_body op of
      Some (_, media, t) \<Rightarrow> if media = ''application/json'' then t else TNever
    | None \<Rightarrow> TNever)"

definition JsonResponse :: "operation \<Rightarrow> int \<Rightarrow> ty" where
  "JsonResponse op status = (case map_of (op_responses op) status of
      Some (Some (media, t)) \<Rightarrow> if media = ''application/json'' then t else TNever
    | _ \<Rightarrow> TNever)"

section \<open>The operation a request addresses\<close>

text \<open>A path with its query: the segments between slashes, and the query's keys. A segment of a
  template in braces stands for any segment that is not empty.\<close>

definition path_part :: "jstr \<Rightarrow> jstr" where
  "path_part p = takeWhile (\<lambda>c. c \<noteq> 63) p"

definition query_part :: "jstr \<Rightarrow> jstr" where
  "query_part p = drop 1 (dropWhile (\<lambda>c. c \<noteq> 63) p)"

definition segments :: "jstr \<Rightarrow> jstr list" where
  "segments p = js_split 47 (path_part p)"

definition is_param :: "jstr \<Rightarrow> bool" where
  "is_param s \<longleftrightarrow> js_starts s (js ''{'')"

fun segs_match :: "jstr list \<Rightarrow> jstr list \<Rightarrow> bool" where
  "segs_match [] [] \<longleftrightarrow> True"
| "segs_match (t # ts) (s # ss) \<longleftrightarrow> (if is_param t then s \<noteq> [] else s = t) \<and> segs_match ts ss"
| "segs_match _ _ \<longleftrightarrow> False"

type_synonym path_table = "(string \<times> (string \<times> operation) list) list"
type_synonym route = "string \<times> jstr list \<times> operation"

definition route_table :: "path_table \<Rightarrow> route list" where
  "route_table ps = concat (map (\<lambda>(p, ms). map (\<lambda>(m, op). (m, segments (js p), op)) ms) ps)"

text \<open>The operations whose method and path fit, among the concrete paths (\<open>False\<close>) or among those
  with parameters (\<open>True\<close>). A concrete path is matched before one with parameters.\<close>

definition matching :: "bool \<Rightarrow> route list \<Rightarrow> string \<Rightarrow> jstr list \<Rightarrow> operation list" where
  "matching k rs m ss =
     map (\<lambda>(_, _, op). op)
       (filter (\<lambda>(m', ts, _). m' = m \<and> list_ex is_param ts = k \<and> segs_match ts ss) rs)"

definition routes :: "route list \<Rightarrow> string \<Rightarrow> jstr \<Rightarrow> operation list" where
  "routes rs m p =
     (let c = matching False rs m (segments p) in
      if c \<noteq> [] then c else matching True rs m (segments p))"

text \<open>What an operation accepts: only queries it declares and all it requires, and a body exactly
  when it has one, of its type.\<close>

definition key_bytes :: "string \<Rightarrow> nat list" where
  "key_bytes k = utf8_bytes (js k)"

definition query_accepted :: "operation \<Rightarrow> jstr \<Rightarrow> bool" where
  "query_accepted op p \<longleftrightarrow>
     (let ks = map fst (parse_query (query_part p)); fs = (case op_query op of None \<Rightarrow> [] | Some (_, fs) \<Rightarrow> fs) in
      list_all (\<lambda>k. k \<in> set (map (key_bytes \<circ> field_name) fs)) ks \<and>
      list_all (\<lambda>d. is_required d \<longrightarrow> key_bytes (field_name d) \<in> set ks) fs)"

definition body_accepted :: "operation \<Rightarrow> json option \<Rightarrow> bool" where
  "body_accepted op b \<longleftrightarrow>
     (case (op_body op, b) of
        (None, None) \<Rightarrow> True
      | (None, Some _) \<Rightarrow> False
      | (Some (req, _, _), None) \<Rightarrow> \<not> req
      | (Some (_, media, t), Some v) \<Rightarrow> media = ''application/json'' \<and> conf t v)"

definition accepts :: "operation \<Rightarrow> call \<Rightarrow> bool" where
  "accepts op c \<longleftrightarrow> query_accepted op (call_path c) \<and> body_accepted op (call_body c)"

end
