(* ===== verification/Api_Schemas.thy ===== *)
theory Api_Schemas
  imports Api_Contract
begin

text \<open>
  The data types of the contract, \<open>components["schemas"]\<close> of \<open>frontend/src/api/generated.ts\<close>,
  one definition per schema, fields in the order of the source; a schema stands after those it
  refers to.
\<close>

definition schema_Absence :: ty where
  "schema_Absence =
    TObj [Req ''absence_id'' TNum, Opt ''branch'' (TOr [TStr, TNull]),
          Opt ''cancel_reason'' (TOr [TStr, TNull]), Opt ''cancelled_at'' (TOr [TStr, TNull]),
          Opt ''cancelled_by'' (TOr [TStr, TNull]), Req ''counts_as'' TStr, Req ''days'' TNum,
          Opt ''destination'' (TOr [TStr, TNull]), Req ''employee_id'' TStr, Req ''employee_name'' TStr,
          Req ''end_date'' TStr, Opt ''note'' (TOr [TStr, TNull]),
          Opt ''order_ref'' (TOr [TStr, TNull]), Opt ''rank'' (TOr [TStr, TNull]),
          Req ''recorded_at'' TStr, Req ''recorded_by'' TStr, Req ''start_date'' TStr,
          Req ''status'' TStr, Req ''type_code'' TStr, Req ''type_name_en'' TStr,
          Req ''type_name_th'' TStr]"

definition schema_AbsenceImportRow :: ty where
  "schema_AbsenceImportRow =
    TObj [Opt ''destination'' (TOr [TStr, TNull]), Opt ''employee_id'' (TOr [TStr, TNull]),
          Opt ''end_date'' (TOr [TStr, TNull]), Req ''errors'' (TArr TStr), Req ''line'' TNum,
          Opt ''name'' (TOr [TStr, TNull]), Opt ''note'' (TOr [TStr, TNull]),
          Opt ''order_ref'' (TOr [TStr, TNull]), Opt ''start_date'' (TOr [TStr, TNull]),
          Opt ''type_code'' (TOr [TStr, TNull])]"

definition schema_AbsenceImportResult :: ty where
  "schema_AbsenceImportResult =
    TObj [Req ''created'' TNum, Req ''invalid'' TNum, Req ''rows'' (TArr schema_AbsenceImportRow),
          Req ''valid'' TNum]"

definition schema_AbsencePage :: ty where
  "schema_AbsencePage =
    TObj [Req ''items'' (TArr schema_Absence), Req ''limit'' TNum, Req ''offset'' TNum,
          Req ''total'' TNum]"

definition schema_AbsenceType :: ty where
  "schema_AbsenceType =
    TObj [Req ''code'' TStr, Req ''counts_as'' TStr, Req ''name_en'' TStr, Req ''name_th'' TStr,
          Req ''requires_order_ref'' TBool]"

definition schema_Attendance :: ty where
  "schema_Attendance =
    TObj [Req ''created_at'' TStr, Opt ''device_id'' (TOr [TNum, TNull]), Req ''device_ip'' TStr,
          Opt ''device_user_pk'' (TOr [TNum, TNull]), Opt ''employee_id'' (TOr [TStr, TNull]),
          Req ''id'' TNum, Opt ''punch_type'' (TOr [TStr, TNull]), Req ''scan_time'' TStr,
          Req ''status'' TStr, Req ''user_id'' TStr]"

definition schema_AttendanceDetail :: ty where
  "schema_AttendanceDetail =
    TObj [Req ''created_at'' TStr, Opt ''device_id'' (TOr [TNum, TNull]), Req ''device_ip'' TStr,
          Opt ''device_name'' (TOr [TStr, TNull]), Opt ''device_user_id'' (TOr [TStr, TNull]),
          Opt ''device_user_pk'' (TOr [TNum, TNull]), Opt ''employee_id'' (TOr [TStr, TNull]),
          Opt ''employee_name'' (TOr [TStr, TNull]), Req ''id'' TNum,
          Opt ''punch_type'' (TOr [TStr, TNull]), Req ''scan_time'' TStr, Req ''status'' TStr,
          Req ''user_id'' TStr]"

definition schema_AttendanceRawPayload :: ty where
  "schema_AttendanceRawPayload =
    TObj [Req ''id'' TNum, Req ''raw_payload'' (TMap TUnknown)]"

definition schema_AttributionReasoning :: ty where
  "schema_AttributionReasoning =
    TObj [Req ''classification'' TStr, Req ''detail'' TStr,
          Opt ''resolver_employee_id'' (TOr [TStr, TNull]), Opt ''valid_from'' (TOr [TStr, TNull]),
          Opt ''valid_to'' (TOr [TStr, TNull])]"

definition schema_AuditEvent :: ty where
  "schema_AuditEvent =
    TObj [Req ''created_at'' TStr, Opt ''device_ip'' (TOr [TStr, TNull]), Req ''event_type'' TStr,
          Req ''id'' TNum, Opt ''message'' (TOr [TStr, TNull])]"

definition schema_AutoWindowRequest :: ty where
  "schema_AutoWindowRequest =
    TObj [Req ''action'' TStr]"

definition schema_Body_commit_import_api_v1_humans_import_commit_post :: ty where
  "schema_Body_commit_import_api_v1_humans_import_commit_post =
    TObj [Req ''file'' TStr]"

definition schema_Body_post_absence_import_commit_api_v1_absences_import_commit_post :: ty where
  "schema_Body_post_absence_import_commit_api_v1_absences_import_commit_post =
    TObj [Req ''file'' TStr]"

definition schema_Body_post_absence_import_preview_api_v1_absences_import_preview_post :: ty where
  "schema_Body_post_absence_import_preview_api_v1_absences_import_preview_post =
    TObj [Req ''file'' TStr]"

definition schema_Body_preview_import_api_v1_humans_import_preview_post :: ty where
  "schema_Body_preview_import_api_v1_humans_import_preview_post =
    TObj [Req ''file'' TStr]"

definition schema_BulkScanExemptRequest :: ty where
  "schema_BulkScanExemptRequest =
    TObj [Req ''employee_ids'' (TArr TStr), Req ''scan_exempt'' TBool,
          Opt ''scan_exempt_reason'' (TOr [TStr, TNull])]"

definition schema_BulkScanExemptResponse :: ty where
  "schema_BulkScanExemptResponse =
    TObj [Req ''changed'' TNum]"

definition schema_CancelAbsenceRequest :: ty where
  "schema_CancelAbsenceRequest =
    TObj [Req ''reason'' TStr]"

definition schema_ChangePasswordRequest :: ty where
  "schema_ChangePasswordRequest =
    TObj [Req ''current_password'' TStr, Req ''new_password'' TStr]"

definition schema_ChangePasswordResponse :: ty where
  "schema_ChangePasswordResponse =
    TObj [Req ''changed'' TBool, Req ''other_tokens_revoked'' TNum]"

definition schema_CollectorSummary :: ty where
  "schema_CollectorSummary =
    TObj [Opt ''db_status'' (TOr [TStr, TNull]), Opt ''device_connected'' (TOr [TBool, TNull]),
          Opt ''last_connect_success'' (TOr [TStr, TNull]),
          Opt ''last_event_received'' (TOr [TStr, TNull]), Opt ''loop_alive'' (TOr [TBool, TNull]),
          Opt ''mqtt_status'' (TOr [TStr, TNull]), Opt ''state'' (TOr [TStr, TNull]),
          Opt ''updated_at'' (TOr [TStr, TNull])]"

definition schema_CreateAbsenceRequest :: ty where
  "schema_CreateAbsenceRequest =
    TObj [Opt ''destination'' (TOr [TStr, TNull]), Req ''employee_id'' TStr, Req ''end_date'' TStr,
          Opt ''note'' (TOr [TStr, TNull]), Opt ''order_ref'' (TOr [TStr, TNull]),
          Req ''start_date'' TStr, Req ''type_code'' TStr]"

definition schema_CreateHumanRequest :: ty where
  "schema_CreateHumanRequest =
    TObj [Opt ''branch'' (TOr [TStr, TNull]), Opt ''category'' (TOr [TStr, TNull]),
          Req ''display_name'' TStr, Opt ''english_name'' (TOr [TStr, TNull]),
          Opt ''personnel_id'' (TOr [TStr, TNull]), Opt ''position'' (TOr [TStr, TNull]),
          Opt ''rank'' (TOr [TStr, TNull])]"

definition schema_CreateMappingRequest :: ty where
  "schema_CreateMappingRequest =
    TObj [Req ''enrollment_id'' TNum, Req ''verification_note'' TStr, Req ''verified_by'' TStr]"

definition schema_CreateMappingResponse :: ty where
  "schema_CreateMappingResponse =
    TObj [Req ''already_completed'' TBool, Req ''device_user_pk'' TNum, Req ''employee_id'' TStr,
          Req ''mapping_id'' TNum, Req ''mapping_status'' TStr, Req ''valid_from'' TStr,
          Opt ''valid_to'' (TOr [TStr, TNull]), Req ''verification_method'' TStr,
          Req ''verified_at'' TStr]"

definition schema_CreateOperatorRequest :: ty where
  "schema_CreateOperatorRequest =
    TObj [Req ''display_name'' TStr, Req ''password'' TStr, Req ''role'' TStr, Req ''username'' TStr]"

definition schema_CreateTerminalAccountRequest :: ty where
  "schema_CreateTerminalAccountRequest =
    TObj [Req ''display_name'' TStr, Req ''operator'' TStr]"

definition schema_TerminalNameSyncSummary :: ty where
  "schema_TerminalNameSyncSummary =
    TObj [Req ''attempted'' TNum, Opt ''errors'' (TArr TStr), Req ''failed'' TNum, Req ''renamed'' TNum,
          Req ''skipped_no_english_name'' TNum]"

definition schema_CsvImportCommitResponse :: ty where
  "schema_CsvImportCommitResponse =
    TObj [Req ''created'' TNum, Req ''errors'' TNum,
          Opt ''terminal_name_sync'' (TOr [schema_TerminalNameSyncSummary, TNull]),
          Req ''unchanged'' TNum, Req ''updated'' TNum]"

definition schema_CsvImportMissingPerson :: ty where
  "schema_CsvImportMissingPerson =
    TObj [Opt ''branch'' (TOr [TStr, TNull]), Req ''display_name'' TStr, Req ''employee_id'' TStr,
          Opt ''rank'' (TOr [TStr, TNull])]"

definition schema_CsvImportRowResult :: ty where
  "schema_CsvImportRowResult =
    TObj [Opt ''changed_fields'' (TOr [TArr TStr, TNull]), Req ''classification'' TStr,
          Opt ''data'' (TOr [TMap TUnknown, TNull]), Opt ''employee_id'' (TOr [TStr, TNull]),
          Opt ''reason_key'' (TOr [TStr, TNull]), Opt ''reason_th'' (TOr [TStr, TNull]),
          Req ''row_number'' TNum, Opt ''warning_th'' (TOr [TStr, TNull])]"

definition schema_CsvImportSummary :: ty where
  "schema_CsvImportSummary =
    TObj [Req ''error'' TNum, Req ''new'' TNum, Req ''unchanged'' TNum, Req ''update'' TNum]"

definition schema_CsvImportPreviewResponse :: ty where
  "schema_CsvImportPreviewResponse =
    TObj [Opt ''missing'' (TArr schema_CsvImportMissingPerson),
          Req ''rows'' (TArr schema_CsvImportRowResult), Req ''summary'' schema_CsvImportSummary]"

definition schema_RosterBranch :: ty where
  "schema_RosterBranch =
    TObj [Req ''branch'' TStr, Req ''counts'' (TMap TUnknown)]"

definition schema_RosterPerson :: ty where
  "schema_RosterPerson =
    TObj [Opt ''absence_end'' (TOr [TStr, TNull]), Opt ''absence_name_th'' (TOr [TStr, TNull]),
          Opt ''absence_start'' (TOr [TStr, TNull]), Opt ''branch'' (TOr [TStr, TNull]),
          Opt ''category'' (TOr [TStr, TNull]), Req ''display_name'' TStr, Req ''employee_id'' TStr,
          Opt ''first_scan'' (TOr [TStr, TNull]), Opt ''order_ref'' (TOr [TStr, TNull]),
          Opt ''rank'' (TOr [TStr, TNull]), Req ''scan_exempt'' TBool,
          Req ''scans_outside_window'' TNum, Req ''status'' TStr,
          Opt ''tracked_from'' (TOr [TStr, TNull]), Opt ''type_code'' (TOr [TStr, TNull])]"

definition schema_DailyRoster :: ty where
  "schema_DailyRoster =
    TObj [Req ''by_branch'' (TArr schema_RosterBranch), Req ''date'' TStr,
          Opt ''holiday_name'' (TOr [TStr, TNull]), Req ''is_workday'' TBool, Req ''late_after'' TStr,
          Req ''live'' TBool, Req ''people'' (TArr schema_RosterPerson), Req ''scan_window'' TStr,
          Req ''total'' TNum, Req ''totals'' (TMap TUnknown)]"

definition schema_DashboardSummary :: ty where
  "schema_DashboardSummary =
    TObj [Req ''attendance_today'' TNum, Req ''attendance_total'' TNum,
          Req ''attendance_unattributed'' TNum,
          Opt ''collector'' (TOr [schema_CollectorSummary, TNull]), Req ''device_users_active'' TNum,
          Req ''device_users_total'' TNum, Req ''device_users_unmapped'' TNum,
          Req ''devices_active'' TNum, Req ''devices_total'' TNum,
          Req ''enrollments_active_count'' TNum, Req ''enrollments_by_lifecycle_state'' (TMap TNum),
          Req ''humans_excluded'' TNum, Req ''humans_production_eligible'' TNum,
          Req ''humans_total'' TNum, Req ''mappings_total'' TNum, Req ''mappings_verified_active'' TNum]"

definition schema_DeactivateHumanRequest :: ty where
  "schema_DeactivateHumanRequest =
    TObj [Req ''reason'' TStr]"

definition schema_DepartmentsRequest :: ty where
  "schema_DepartmentsRequest =
    TObj [Opt ''names'' (TArr TStr)]"

definition schema_Device :: ty where
  "schema_Device =
    TObj [Req ''active'' TBool, Req ''created_at'' TStr, Req ''device_id'' TNum, Req ''device_ip'' TStr,
          Req ''device_name'' TStr, Opt ''firmware_version'' (TOr [TStr, TNull]),
          Req ''first_seen_at'' TStr, Req ''last_seen_at'' TStr, Req ''platform'' TStr,
          Req ''serial_number'' TStr, Req ''updated_at'' TStr]"

definition schema_DeviceUser :: ty where
  "schema_DeviceUser =
    TObj [Req ''account_incarnation'' TNum, Req ''active'' TBool, Req ''created_at'' TStr,
          Opt ''device_display_name'' (TOr [TStr, TNull]), Req ''device_id'' TNum,
          Opt ''device_uid'' (TOr [TNum, TNull]), Req ''device_user_id'' TStr,
          Req ''device_user_pk'' TNum, Req ''first_seen_at'' TStr,
          Opt ''inactive_at'' (TOr [TStr, TNull]), Req ''last_seen_at'' TStr, Req ''privilege'' TNum,
          Opt ''roster_last_seen_at'' (TOr [TStr, TNull]), Req ''updated_at'' TStr]"

definition schema_RankMetadata :: ty where
  "schema_RankMetadata =
    TObj [Opt ''acting'' (TOr [TStr, TNull]), Opt ''rank_category'' (TOr [TStr, TNull]),
          Opt ''rank_en'' (TOr [TStr, TNull]), Opt ''rank_en_abbreviation'' (TOr [TStr, TNull]),
          Opt ''rank_th_abbreviation'' (TOr [TStr, TNull]), Opt ''rank_th_full'' (TOr [TStr, TNull]),
          Req ''rank_th_original'' TStr]"

definition schema_Enrollment :: ty where
  "schema_Enrollment =
    TObj [Opt ''confirmed_at'' (TOr [TStr, TNull]), Opt ''confirmed_by'' (TOr [TStr, TNull]),
          Opt ''controlled_scan_time'' (TOr [TStr, TNull]),
          Opt ''controlled_scan_window_until'' (TOr [TStr, TNull]), Req ''created_at'' TStr,
          Req ''device_id'' TNum, Opt ''device_name'' (TOr [TStr, TNull]),
          Opt ''device_uid'' (TOr [TNum, TNull]), Req ''employee_id'' TStr,
          Opt ''employee_name'' (TOr [TStr, TNull]), Opt ''english_name'' (TOr [TStr, TNull]),
          Req ''enrollment_id'' TNum, Opt ''fingerprint_confirmed_at'' (TOr [TStr, TNull]),
          Req ''lifecycle_state'' TStr, Opt ''notes'' (TOr [TStr, TNull]),
          Opt ''rank'' (TOr [TStr, TNull]), Opt ''rank_metadata'' (TOr [schema_RankMetadata, TNull]),
          Req ''reserved_at'' TStr, Req ''reserved_by'' TStr, Req ''reserved_device_user_id'' TStr,
          Req ''status'' TStr, Opt ''terminal_created_at'' (TOr [TStr, TNull]), Req ''updated_at'' TStr]"

definition schema_EnrollmentNextActions :: ty where
  "schema_EnrollmentNextActions =
    TObj [Req ''enrollment_id'' TNum, Req ''next_actions'' (TArr (TMap TStr)), Req ''status'' TStr]"

definition schema_EnrollmentReserveResult :: ty where
  "schema_EnrollmentReserveResult =
    TObj [Req ''device_id'' TNum, Req ''employee_id'' TStr, Req ''enrollment_id'' TNum,
          Req ''reserved_at'' TStr, Req ''reserved_device_user_id'' TStr, Req ''status'' TStr]"

definition schema_EnrollmentTransitionResult :: ty where
  "schema_EnrollmentTransitionResult =
    TObj [Opt ''controlled_scan_time'' (TOr [TStr, TNull]), Req ''enrollment_id'' TNum,
          Opt ''reconciled'' (TOr [TBool, TNull]), Req ''status'' TStr]"

definition schema_EventTypesResponse :: ty where
  "schema_EventTypesResponse =
    TObj [Req ''event_types'' (TArr TStr)]"

definition schema_FingerprintReenrollStatusResponse :: ty where
  "schema_FingerprintReenrollStatusResponse =
    TObj [Req ''device_user_id'' TStr, Req ''state'' TStr]"

definition schema_ValidationError :: ty where
  "schema_ValidationError =
    TObj [Opt ''ctx'' (TMap TNever), Opt ''input'' TUnknown, Req ''loc'' (TArr (TOr [TStr, TNum])),
          Req ''msg'' TStr, Req ''type'' TStr]"

definition schema_HTTPValidationError :: ty where
  "schema_HTTPValidationError =
    TObj [Opt ''detail'' (TArr schema_ValidationError)]"

definition schema_HealthCheck :: ty where
  "schema_HealthCheck =
    TObj [Opt ''collector'' (TOr [schema_CollectorSummary, TNull]), Req ''database'' TStr,
          Opt ''mqtt'' (TOr [TStr, TNull]), Req ''status'' TStr, Req ''timestamp'' TStr]"

definition schema_Healthz :: ty where
  "schema_Healthz =
    TObj [Req ''status'' TStr]"

definition schema_Holiday :: ty where
  "schema_Holiday =
    TObj [Req ''holiday_date'' TStr, Req ''name_th'' TStr]"

definition schema_Human :: ty where
  "schema_Human =
    TObj [Req ''active'' TBool, Opt ''branch'' (TOr [TStr, TNull]),
          Opt ''category'' (TOr [TStr, TNull]), Req ''created_at'' TStr, Req ''display_name'' TStr,
          Req ''employee_id'' TStr, Opt ''english_name'' (TOr [TStr, TNull]),
          Opt ''has_active_terminal_account'' (TOr [TBool, TNull]), Opt ''notes'' (TOr [TStr, TNull]),
          Opt ''personnel_id'' (TOr [TStr, TNull]), Opt ''position'' (TOr [TStr, TNull]),
          Req ''production_scope'' TBool, Opt ''rank'' (TOr [TStr, TNull]),
          Opt ''rank_metadata'' (TOr [schema_RankMetadata, TNull]), Req ''scan_exempt'' TBool,
          Opt ''scan_exempt_reason'' (TOr [TStr, TNull]), Req ''source'' TStr,
          Opt ''terminal_name_sync'' (TOr [schema_TerminalNameSyncSummary, TNull]),
          Req ''updated_at'' TStr]"

definition schema_HumanTerminalAccount :: ty where
  "schema_HumanTerminalAccount =
    TObj [Req ''active'' TBool, Opt ''device_display_name'' (TOr [TStr, TNull]), Req ''device_id'' TNum,
          Req ''device_user_id'' TStr, Opt ''expected_name'' (TOr [TStr, TNull])]"

definition schema_LoginRequest :: ty where
  "schema_LoginRequest =
    TObj [Req ''password'' TStr, Req ''username'' TStr]"

definition schema_LoginResponse :: ty where
  "schema_LoginResponse =
    TObj [Req ''display_name'' TStr, Req ''expires_at'' TStr, Req ''operator_id'' TNum,
          Req ''role'' TStr, Req ''token'' TStr, Req ''token_type'' TStr, Req ''username'' TStr]"

definition schema_LogoutResponse :: ty where
  "schema_LogoutResponse =
    TObj [Req ''revoked'' TBool]"

definition schema_Mapping :: ty where
  "schema_Mapping =
    TObj [Req ''created_at'' TStr, Opt ''device_user_id'' (TOr [TStr, TNull]),
          Req ''device_user_pk'' TNum, Req ''employee_id'' TStr,
          Opt ''employee_name'' (TOr [TStr, TNull]), Req ''is_current'' TBool, Req ''mapping_id'' TNum,
          Req ''mapping_lifecycle_state'' TStr, Req ''mapping_source'' TStr,
          Req ''mapping_status'' TStr, Req ''updated_at'' TStr, Req ''valid_from'' TStr,
          Opt ''valid_to'' (TOr [TStr, TNull]), Opt ''verification_method'' (TOr [TStr, TNull]),
          Opt ''verification_note'' (TOr [TStr, TNull]), Opt ''verified_at'' (TOr [TStr, TNull]),
          Opt ''verified_by'' (TOr [TStr, TNull])]"

definition schema_MappingEligibilityItem :: ty where
  "schema_MappingEligibilityItem =
    TObj [Opt ''confirmed_at'' (TOr [TStr, TNull]), Opt ''confirmed_by'' (TOr [TStr, TNull]),
          Opt ''controlled_attendance_id'' (TOr [TNum, TNull]),
          Opt ''controlled_scan_time'' (TOr [TStr, TNull]), Req ''device_id'' TNum,
          Opt ''device_name'' (TOr [TStr, TNull]), Opt ''device_user_active'' (TOr [TBool, TNull]),
          Opt ''device_user_id'' (TOr [TStr, TNull]), Opt ''device_user_pk'' (TOr [TNum, TNull]),
          Req ''employee_id'' TStr, Opt ''employee_name'' (TOr [TStr, TNull]),
          Req ''enrollment_id'' TNum, Opt ''notes'' (TOr [TStr, TNull]),
          Req ''reserved_device_user_id'' TStr]"

definition schema_MappingEligibility :: ty where
  "schema_MappingEligibility =
    TObj [Req ''count'' TNum, Req ''items'' (TArr schema_MappingEligibilityItem)]"

definition schema_WriteSessionStatus :: ty where
  "schema_WriteSessionStatus =
    TObj [Req ''active'' TBool, Opt ''closed_at'' (TOr [TStr, TNull]),
          Opt ''expires_at'' (TOr [TStr, TNull]), Opt ''opened_at'' (TOr [TStr, TNull]),
          Opt ''opened_by'' (TOr [TNum, TNull]), Opt ''opened_by_name'' (TOr [TStr, TNull]),
          Opt ''reason'' (TOr [TStr, TNull]), Opt ''session_id'' (TOr [TNum, TNull])]"

definition schema_MeResponse :: ty where
  "schema_MeResponse =
    TObj [Req ''display_name'' TStr, Req ''operator_id'' TNum, Req ''role'' TStr, Req ''username'' TStr,
          Req ''work_session_required'' TBool, Req ''write_enabled'' TBool,
          Opt ''write_session'' (TOr [schema_WriteSessionStatus, TNull])]"

definition schema_MonthlyDay :: ty where
  "schema_MonthlyDay =
    TObj [Req ''date'' TStr, Opt ''holiday_name'' (TOr [TStr, TNull]), Req ''is_workday'' TBool]"

definition schema_MonthlyPerson :: ty where
  "schema_MonthlyPerson =
    TObj [Opt ''branch'' (TOr [TStr, TNull]), Req ''counts'' (TMap TUnknown), Req ''days'' (TArr TStr),
          Req ''display_name'' TStr, Req ''employee_id'' TStr, Opt ''rank'' (TOr [TStr, TNull]),
          Req ''scan_exempt'' TBool]"

definition schema_MonthlyReport :: ty where
  "schema_MonthlyReport =
    TObj [Req ''by_branch'' (TArr schema_RosterBranch), Req ''days'' (TArr schema_MonthlyDay),
          Req ''late_after'' TStr, Req ''month'' TStr, Req ''people'' (TArr schema_MonthlyPerson),
          Req ''scan_window'' TStr, Req ''workdays'' TNum]"

definition schema_OpenWriteSessionRequest :: ty where
  "schema_OpenWriteSessionRequest =
    TObj [Req ''reason'' TStr]"

definition schema_OperatorOut :: ty where
  "schema_OperatorOut =
    TObj [Req ''active'' TBool, Req ''created_at'' TStr, Req ''display_name'' TStr,
          Req ''operator_id'' TNum, Req ''role'' TStr, Req ''updated_at'' TStr, Req ''username'' TStr]"

definition schema_Page_Attendance :: ty where
  "schema_Page_Attendance =
    TObj [Req ''items'' (TArr schema_Attendance), Req ''limit'' TNum, Req ''offset'' TNum,
          Req ''total'' TNum]"

definition schema_Page_AuditEvent :: ty where
  "schema_Page_AuditEvent =
    TObj [Req ''items'' (TArr schema_AuditEvent), Req ''limit'' TNum, Req ''offset'' TNum,
          Req ''total'' TNum]"

definition schema_Page_DeviceUser :: ty where
  "schema_Page_DeviceUser =
    TObj [Req ''items'' (TArr schema_DeviceUser), Req ''limit'' TNum, Req ''offset'' TNum,
          Req ''total'' TNum]"

definition schema_Page_Device :: ty where
  "schema_Page_Device =
    TObj [Req ''items'' (TArr schema_Device), Req ''limit'' TNum, Req ''offset'' TNum,
          Req ''total'' TNum]"

definition schema_Page_Enrollment :: ty where
  "schema_Page_Enrollment =
    TObj [Req ''items'' (TArr schema_Enrollment), Req ''limit'' TNum, Req ''offset'' TNum,
          Req ''total'' TNum]"

definition schema_Page_Human :: ty where
  "schema_Page_Human =
    TObj [Req ''items'' (TArr schema_Human), Req ''limit'' TNum, Req ''offset'' TNum,
          Req ''total'' TNum]"

definition schema_Page_Mapping :: ty where
  "schema_Page_Mapping =
    TObj [Req ''items'' (TArr schema_Mapping), Req ''limit'' TNum, Req ''offset'' TNum,
          Req ''total'' TNum]"

definition schema_UnattributedAttendance :: ty where
  "schema_UnattributedAttendance =
    TObj [Req ''created_at'' TStr, Opt ''device_id'' (TOr [TNum, TNull]), Req ''device_ip'' TStr,
          Opt ''device_user_pk'' (TOr [TNum, TNull]), Opt ''employee_id'' (TOr [TStr, TNull]),
          Req ''id'' TNum, Opt ''punch_type'' (TOr [TStr, TNull]),
          Req ''reasoning'' schema_AttributionReasoning, Req ''scan_time'' TStr, Req ''status'' TStr,
          Req ''user_id'' TStr]"

definition schema_Page_UnattributedAttendance :: ty where
  "schema_Page_UnattributedAttendance =
    TObj [Req ''items'' (TArr schema_UnattributedAttendance), Req ''limit'' TNum, Req ''offset'' TNum,
          Req ''total'' TNum]"

definition schema_PersonnelSummary :: ty where
  "schema_PersonnelSummary =
    TObj [Req ''active'' TNum, Req ''inactive'' TNum, Req ''left_with_terminal_account'' TNum,
          Req ''needs_enrollment'' TNum, Req ''scan_exempt'' TNum]"

definition schema_RankReference :: ty where
  "schema_RankReference =
    TObj [Req ''rank_category'' TStr, Req ''rank_en'' TStr, Req ''rank_en_abbreviation'' TStr,
          Req ''rank_th_abbreviation'' TStr, Req ''rank_th_full'' TStr, Req ''source'' TStr]"

definition schema_ReactivateHumanRequest :: ty where
  "schema_ReactivateHumanRequest =
    TObj [Opt ''reason'' (TOr [TStr, TNull])]"

definition schema_ReadinessRow :: ty where
  "schema_ReadinessRow =
    TObj [Req ''away'' TNum, Req ''branch'' TStr, Req ''enrolled'' TNum, Req ''exempt'' TNum,
          Req ''missing'' TNum, Req ''percent'' TNum, Req ''required'' TNum, Req ''total'' TNum]"

definition schema_Readiness :: ty where
  "schema_Readiness =
    TObj [Req ''branches'' (TArr schema_ReadinessRow), Req ''total'' schema_ReadinessRow]"

definition schema_ReconcileScanEvidenceRequest :: ty where
  "schema_ReconcileScanEvidenceRequest =
    TObj [Req ''attendance_id'' TNum, Req ''operator'' TStr]"

definition schema_RemoveAccountRequest :: ty where
  "schema_RemoveAccountRequest =
    TObj [Req ''acknowledge_active_human'' TBool, Req ''device_id'' TNum, Req ''device_user_id'' TStr,
          Req ''operator'' TStr]"

definition schema_RemoveFingerprintRequest :: ty where
  "schema_RemoveFingerprintRequest =
    TObj [Req ''device_id'' TNum, Req ''device_user_id'' TStr, Opt ''finger_id'' (TOr [TNum, TNull]),
          Req ''operator'' TStr]"

definition schema_ReserveRequest :: ty where
  "schema_ReserveRequest =
    TObj [Req ''device_id'' TNum, Req ''employee_id'' TStr, Req ''operator'' TStr,
          Opt ''roster_user_ids'' (TOr [TArr TUnknown, TNull])]"

definition schema_ScanConfirmationRequest :: ty where
  "schema_ScanConfirmationRequest =
    TObj [Req ''operator'' TStr]"

definition schema_ScheduleSettingsOut :: ty where
  "schema_ScheduleSettingsOut =
    TObj [Opt ''active_window'' (TOr [TMap TUnknown, TNull]), Req ''days'' TStr, Req ''enabled'' TBool,
          Req ''end_time'' TStr, Opt ''last_run'' (TOr [TMap TUnknown, TNull]), Req ''start_time'' TStr,
          Req ''timezone'' TStr, Opt ''updated_at'' (TOr [TStr, TNull]),
          Opt ''updated_by'' (TOr [TNum, TNull]), Opt ''updated_by_name'' (TOr [TStr, TNull])]"

definition schema_ScheduleToggleRequest :: ty where
  "schema_ScheduleToggleRequest =
    TObj [Req ''enabled'' TBool]"

definition schema_StartFingerprintReenrollRequest :: ty where
  "schema_StartFingerprintReenrollRequest =
    TObj [Req ''device_user_id'' TStr, Req ''operator'' TStr]"

definition schema_SyncTerminalNameResponse :: ty where
  "schema_SyncTerminalNameResponse =
    TObj [Req ''accounts'' (TArr (TMap TUnknown)), Req ''expected_name'' TStr]"

definition schema_TelegramReportResult :: ty where
  "schema_TelegramReportResult =
    TObj [Opt ''reason'' (TOr [TStr, TNull]), Req ''sent'' TBool, Opt ''text'' (TOr [TStr, TNull])]"

definition schema_TerminalInventoryItem :: ty where
  "schema_TerminalInventoryItem =
    TObj [Req ''device_user_id'' TStr, Opt ''fingerprint_count'' (TOr [TNum, TNull]),
          Opt ''human_active'' (TOr [TBool, TNull]), Opt ''human_name'' (TOr [TStr, TNull]),
          Req ''mapping_state'' TStr, Opt ''name'' (TOr [TStr, TNull]),
          Opt ''privilege'' (TOr [TNum, TNull]), Opt ''uid'' (TOr [TNum, TNull])]"

definition schema_TerminalInventoryResponse :: ty where
  "schema_TerminalInventoryResponse =
    TObj [Req ''device_reachable'' TBool, Req ''items'' (TArr schema_TerminalInventoryItem)]"

definition schema_TerminalMutationResponse :: ty where
  "schema_TerminalMutationResponse =
    TObj [Req ''already_absent'' TBool, Req ''device_user_id'' TStr]"

definition schema_TerminalNameMismatch :: ty where
  "schema_TerminalNameMismatch =
    TObj [Opt ''device_display_name'' (TOr [TStr, TNull]), Req ''device_id'' TNum,
          Req ''device_user_id'' TStr, Req ''display_name'' TStr, Req ''employee_id'' TStr,
          Req ''expected_name'' TStr]"

definition schema_ToggleActiveRequest :: ty where
  "schema_ToggleActiveRequest =
    TObj [Req ''active'' TBool]"

definition schema_ToggleActiveResponse :: ty where
  "schema_ToggleActiveResponse =
    TObj [Req ''active'' TBool, Req ''operator_id'' TNum, Req ''username'' TStr]"

definition schema_TrackingModeRequest :: ty where
  "schema_TrackingModeRequest =
    TObj [Opt ''counting_from'' (TOr [TStr, TNull]), Req ''mode'' TStr]"

definition schema_TrackingState :: ty where
  "schema_TrackingState =
    TObj [Opt ''counting_from'' (TOr [TStr, TNull]), Req ''live'' TBool,
          Opt ''live_since'' (TOr [TStr, TNull]), Req ''mode'' TStr,
          Req ''readiness'' schema_ReadinessRow]"

definition schema_TransitionRequest :: ty where
  "schema_TransitionRequest =
    TObj [Opt ''notes'' (TOr [TStr, TNull]), Req ''operator'' TStr]"

definition schema_UpdateHumanRequest :: ty where
  "schema_UpdateHumanRequest =
    TObj [Opt ''branch'' (TOr [TStr, TNull]), Opt ''category'' (TOr [TStr, TNull]),
          Opt ''display_name'' (TOr [TStr, TNull]), Opt ''english_name'' (TOr [TStr, TNull]),
          Opt ''personnel_id'' (TOr [TStr, TNull]), Opt ''position'' (TOr [TStr, TNull]),
          Opt ''rank'' (TOr [TStr, TNull]), Opt ''scan_exempt'' (TOr [TBool, TNull]),
          Opt ''scan_exempt_reason'' (TOr [TStr, TNull])]"

end
