(* ===== verification/Api_Operations.thy ===== *)
theory Api_Operations
  imports Api_Schemas
begin

text \<open>
  The operations of the contract, \<open>operations\<close> and \<open>paths\<close> of
  \<open>frontend/src/api/generated.ts\<close>: one definition per operation and one per group of paths.
\<close>

section \<open>Operations\<close>

definition get_types_api_v1_absence_types_get :: operation where
  "get_types_api_v1_absence_types_get =
     \<lparr>op_query = None,
      op_path = [],
      op_body = None,
      op_responses = [(200, Some (''application/json'', TArr schema_AbsenceType))]\<rparr>"

definition get_absences_api_v1_absences_get :: operation where
  "get_absences_api_v1_absences_get =
     \<lparr>op_query = Some (False, [Opt ''employee_id'' (TOr [TStr, TNull]), Opt ''on_or_after'' (TOr [TStr, TNull]),
       Opt ''on_or_before'' (TOr [TStr, TNull]), Opt ''type_code'' (TOr [TStr, TNull]),
       Opt ''include_cancelled'' TBool, Opt ''search'' (TOr [TStr, TNull]), Opt ''limit'' TNum,
       Opt ''offset'' TNum]),
      op_path = [],
      op_body = None,
      op_responses = [(200, Some (''application/json'', schema_AbsencePage)),
                      (422, Some (''application/json'', schema_HTTPValidationError))]\<rparr>"

definition post_absence_api_v1_absences_post :: operation where
  "post_absence_api_v1_absences_post =
     \<lparr>op_query = None,
      op_path = [],
      op_body = Some (True, ''application/json'', schema_CreateAbsenceRequest),
      op_responses = [(201, Some (''application/json'', schema_Absence)),
                      (422, Some (''application/json'', schema_HTTPValidationError))]\<rparr>"

definition get_absence_template_api_v1_absences_import_template_get :: operation where
  "get_absence_template_api_v1_absences_import_template_get =
     \<lparr>op_query = None,
      op_path = [],
      op_body = None,
      op_responses = [(200, Some (''application/json'', TUnknown))]\<rparr>"

definition post_absence_import_commit_api_v1_absences_import_commit_post :: operation where
  "post_absence_import_commit_api_v1_absences_import_commit_post =
     \<lparr>op_query = None,
      op_path = [],
      op_body = Some (True, ''multipart/form-data'', schema_Body_post_absence_import_commit_api_v1_absences_import_commit_post),
      op_responses = [(200, Some (''application/json'', schema_AbsenceImportResult)),
                      (422, Some (''application/json'', schema_HTTPValidationError))]\<rparr>"

definition post_absence_import_preview_api_v1_absences_import_preview_post :: operation where
  "post_absence_import_preview_api_v1_absences_import_preview_post =
     \<lparr>op_query = None,
      op_path = [],
      op_body = Some (True, ''multipart/form-data'', schema_Body_post_absence_import_preview_api_v1_absences_import_preview_post),
      op_responses = [(200, Some (''application/json'', schema_AbsenceImportResult)),
                      (422, Some (''application/json'', schema_HTTPValidationError))]\<rparr>"

definition post_cancel_api_v1_absences__absence_id__cancel_post :: operation where
  "post_cancel_api_v1_absences__absence_id__cancel_post =
     \<lparr>op_query = None,
      op_path = [Req ''absence_id'' TNum],
      op_body = Some (True, ''application/json'', schema_CancelAbsenceRequest),
      op_responses = [(200, Some (''application/json'', schema_Absence)),
                      (422, Some (''application/json'', schema_HTTPValidationError))]\<rparr>"

definition get_schedule_settings_api_v1_admin_schedule_settings_get :: operation where
  "get_schedule_settings_api_v1_admin_schedule_settings_get =
     \<lparr>op_query = None,
      op_path = [],
      op_body = None,
      op_responses = [(200, Some (''application/json'', schema_ScheduleSettingsOut))]\<rparr>"

definition update_schedule_settings_api_v1_admin_schedule_settings_post :: operation where
  "update_schedule_settings_api_v1_admin_schedule_settings_post =
     \<lparr>op_query = None,
      op_path = [],
      op_body = Some (True, ''application/json'', schema_ScheduleToggleRequest),
      op_responses = [(200, Some (''application/json'', schema_ScheduleSettingsOut)),
                      (422, Some (''application/json'', schema_HTTPValidationError))]\<rparr>"

definition list_attendance_api_v1_attendance_get :: operation where
  "list_attendance_api_v1_attendance_get =
     \<lparr>op_query = Some (False, [Opt ''date_from'' (TOr [TStr, TNull]), Opt ''date_to'' (TOr [TStr, TNull]),
       Opt ''employee_id'' (TOr [TStr, TNull]), Opt ''device_user_pk'' (TOr [TNum, TNull]),
       Opt ''status'' (TOr [TStr, TNull]), Opt ''limit'' TNum, Opt ''offset'' TNum]),
      op_path = [],
      op_body = None,
      op_responses = [(200, Some (''application/json'', schema_Page_Attendance)),
                      (422, Some (''application/json'', schema_HTTPValidationError))]\<rparr>"

definition get_daily_roster_api_v1_attendance_daily_get :: operation where
  "get_daily_roster_api_v1_attendance_daily_get =
     \<lparr>op_query = Some (False, [Opt ''date'' (TOr [TStr, TNull])]),
      op_path = [],
      op_body = None,
      op_responses = [(200, Some (''application/json'', schema_DailyRoster)),
                      (422, Some (''application/json'', schema_HTTPValidationError))]\<rparr>"

definition get_monthly_report_api_v1_attendance_monthly_get :: operation where
  "get_monthly_report_api_v1_attendance_monthly_get =
     \<lparr>op_query = Some (False, [Opt ''month'' (TOr [TStr, TNull])]),
      op_path = [],
      op_body = None,
      op_responses = [(200, Some (''application/json'', schema_MonthlyReport)),
                      (422, Some (''application/json'', schema_HTTPValidationError))]\<rparr>"

definition get_monthly_report_csv_api_v1_attendance_monthly_csv_get :: operation where
  "get_monthly_report_csv_api_v1_attendance_monthly_csv_get =
     \<lparr>op_query = Some (False, [Opt ''month'' (TOr [TStr, TNull])]),
      op_path = [],
      op_body = None,
      op_responses = [(200, Some (''application/json'', TUnknown)),
                      (422, Some (''application/json'', schema_HTTPValidationError))]\<rparr>"

definition get_readiness_api_v1_attendance_readiness_get :: operation where
  "get_readiness_api_v1_attendance_readiness_get =
     \<lparr>op_query = None,
      op_path = [],
      op_body = None,
      op_responses = [(200, Some (''application/json'', schema_Readiness))]\<rparr>"

definition get_tracking_api_v1_attendance_tracking_get :: operation where
  "get_tracking_api_v1_attendance_tracking_get =
     \<lparr>op_query = None,
      op_path = [],
      op_body = None,
      op_responses = [(200, Some (''application/json'', schema_TrackingState))]\<rparr>"

definition post_tracking_api_v1_attendance_tracking_post :: operation where
  "post_tracking_api_v1_attendance_tracking_post =
     \<lparr>op_query = None,
      op_path = [],
      op_body = Some (True, ''application/json'', schema_TrackingModeRequest),
      op_responses = [(200, Some (''application/json'', schema_TrackingState)),
                      (422, Some (''application/json'', schema_HTTPValidationError))]\<rparr>"

definition unattributed_api_v1_attendance_unattributed_get :: operation where
  "unattributed_api_v1_attendance_unattributed_get =
     \<lparr>op_query = Some (False, [Opt ''limit'' TNum, Opt ''offset'' TNum]),
      op_path = [],
      op_body = None,
      op_responses = [(200, Some (''application/json'', schema_Page_UnattributedAttendance)),
                      (422, Some (''application/json'', schema_HTTPValidationError))]\<rparr>"

definition get_attendance_api_v1_attendance__attendance_id__get :: operation where
  "get_attendance_api_v1_attendance__attendance_id__get =
     \<lparr>op_query = None,
      op_path = [Req ''attendance_id'' TNum],
      op_body = None,
      op_responses = [(200, Some (''application/json'', schema_AttendanceDetail)),
                      (422, Some (''application/json'', schema_HTTPValidationError))]\<rparr>"

definition get_attendance_raw_payload_api_v1_attendance__attendance_id__raw_payload_get :: operation where
  "get_attendance_raw_payload_api_v1_attendance__attendance_id__raw_payload_get =
     \<lparr>op_query = None,
      op_path = [Req ''attendance_id'' TNum],
      op_body = None,
      op_responses = [(200, Some (''application/json'', schema_AttendanceRawPayload)),
                      (422, Some (''application/json'', schema_HTTPValidationError))]\<rparr>"

definition event_types_api_v1_audit_event_types_get :: operation where
  "event_types_api_v1_audit_event_types_get =
     \<lparr>op_query = None,
      op_path = [],
      op_body = None,
      op_responses = [(200, Some (''application/json'', schema_EventTypesResponse))]\<rparr>"

definition list_events_api_v1_audit_events_get :: operation where
  "list_events_api_v1_audit_events_get =
     \<lparr>op_query = Some (False, [Opt ''event_type'' (TOr [TStr, TNull]), Opt ''date_from'' (TOr [TStr, TNull]),
       Opt ''date_to'' (TOr [TStr, TNull]), Opt ''limit'' TNum, Opt ''offset'' TNum]),
      op_path = [],
      op_body = None,
      op_responses = [(200, Some (''application/json'', schema_Page_AuditEvent)),
                      (422, Some (''application/json'', schema_HTTPValidationError))]\<rparr>"

definition change_password_api_v1_auth_change_password_post :: operation where
  "change_password_api_v1_auth_change_password_post =
     \<lparr>op_query = None,
      op_path = [],
      op_body = Some (True, ''application/json'', schema_ChangePasswordRequest),
      op_responses = [(200, Some (''application/json'', schema_ChangePasswordResponse)),
                      (422, Some (''application/json'', schema_HTTPValidationError))]\<rparr>"

definition login_api_v1_auth_login_post :: operation where
  "login_api_v1_auth_login_post =
     \<lparr>op_query = None,
      op_path = [],
      op_body = Some (True, ''application/json'', schema_LoginRequest),
      op_responses = [(200, Some (''application/json'', schema_LoginResponse)),
                      (422, Some (''application/json'', schema_HTTPValidationError))]\<rparr>"

definition logout_api_v1_auth_logout_post :: operation where
  "logout_api_v1_auth_logout_post =
     \<lparr>op_query = None,
      op_path = [],
      op_body = None,
      op_responses = [(200, Some (''application/json'', schema_LogoutResponse))]\<rparr>"

definition me_api_v1_auth_me_get :: operation where
  "me_api_v1_auth_me_get =
     \<lparr>op_query = None,
      op_path = [],
      op_body = None,
      op_responses = [(200, Some (''application/json'', schema_MeResponse))]\<rparr>"

definition dashboard_summary_api_v1_dashboard_summary_get :: operation where
  "dashboard_summary_api_v1_dashboard_summary_get =
     \<lparr>op_query = None,
      op_path = [],
      op_body = None,
      op_responses = [(200, Some (''application/json'', schema_DashboardSummary))]\<rparr>"

definition list_device_users_api_v1_device_users_get :: operation where
  "list_device_users_api_v1_device_users_get =
     \<lparr>op_query = Some (False, [Opt ''device_id'' (TOr [TNum, TNull]), Opt ''active'' (TOr [TBool, TNull]), Opt ''limit'' TNum,
       Opt ''offset'' TNum]),
      op_path = [],
      op_body = None,
      op_responses = [(200, Some (''application/json'', schema_Page_DeviceUser)),
                      (422, Some (''application/json'', schema_HTTPValidationError))]\<rparr>"

definition get_device_user_api_v1_device_users__device_user_pk__get :: operation where
  "get_device_user_api_v1_device_users__device_user_pk__get =
     \<lparr>op_query = None,
      op_path = [Req ''device_user_pk'' TNum],
      op_body = None,
      op_responses = [(200, Some (''application/json'', schema_DeviceUser)),
                      (422, Some (''application/json'', schema_HTTPValidationError))]\<rparr>"

definition list_devices_api_v1_devices_get :: operation where
  "list_devices_api_v1_devices_get =
     \<lparr>op_query = Some (False, [Opt ''limit'' TNum, Opt ''offset'' TNum]),
      op_path = [],
      op_body = None,
      op_responses = [(200, Some (''application/json'', schema_Page_Device)),
                      (422, Some (''application/json'', schema_HTTPValidationError))]\<rparr>"

definition get_device_api_v1_devices__device_id__get :: operation where
  "get_device_api_v1_devices__device_id__get =
     \<lparr>op_query = None,
      op_path = [Req ''device_id'' TNum],
      op_body = None,
      op_responses = [(200, Some (''application/json'', schema_Device)),
                      (422, Some (''application/json'', schema_HTTPValidationError))]\<rparr>"

definition list_enrollments_api_v1_enrollments_get :: operation where
  "list_enrollments_api_v1_enrollments_get =
     \<lparr>op_query = Some (False, [Opt ''status'' (TOr [TStr, TNull]), Opt ''employee_id'' (TOr [TStr, TNull]),
       Opt ''device_id'' (TOr [TNum, TNull]), Opt ''limit'' TNum, Opt ''offset'' TNum]),
      op_path = [],
      op_body = None,
      op_responses = [(200, Some (''application/json'', schema_Page_Enrollment)),
                      (422, Some (''application/json'', schema_HTTPValidationError))]\<rparr>"

definition reserve_api_v1_enrollments_reserve_post :: operation where
  "reserve_api_v1_enrollments_reserve_post =
     \<lparr>op_query = None,
      op_path = [],
      op_body = Some (True, ''application/json'', schema_ReserveRequest),
      op_responses = [(201, Some (''application/json'', schema_EnrollmentReserveResult)),
                      (422, Some (''application/json'', schema_HTTPValidationError))]\<rparr>"

definition get_enrollment_detail_api_v1_enrollments__enrollment_id__get :: operation where
  "get_enrollment_detail_api_v1_enrollments__enrollment_id__get =
     \<lparr>op_query = None,
      op_path = [Req ''enrollment_id'' TNum],
      op_body = None,
      op_responses = [(200, Some (''application/json'', schema_Enrollment)),
                      (422, Some (''application/json'', schema_HTTPValidationError))]\<rparr>"

definition cancel_api_v1_enrollments__enrollment_id__cancel_post :: operation where
  "cancel_api_v1_enrollments__enrollment_id__cancel_post =
     \<lparr>op_query = None,
      op_path = [Req ''enrollment_id'' TNum],
      op_body = Some (True, ''application/json'', schema_TransitionRequest),
      op_responses = [(200, Some (''application/json'', schema_EnrollmentTransitionResult)),
                      (422, Some (''application/json'', schema_HTTPValidationError))]\<rparr>"

definition confirm_scan_api_v1_enrollments__enrollment_id__confirm_controlled_scan_post :: operation where
  "confirm_scan_api_v1_enrollments__enrollment_id__confirm_controlled_scan_post =
     \<lparr>op_query = None,
      op_path = [Req ''enrollment_id'' TNum],
      op_body = Some (True, ''application/json'', schema_ScanConfirmationRequest),
      op_responses = [(200, Some (''application/json'', schema_EnrollmentTransitionResult)),
                      (422, Some (''application/json'', schema_HTTPValidationError))]\<rparr>"

definition confirm_fingerprint_api_v1_enrollments__enrollment_id__confirm_fingerprint_post :: operation where
  "confirm_fingerprint_api_v1_enrollments__enrollment_id__confirm_fingerprint_post =
     \<lparr>op_query = None,
      op_path = [Req ''enrollment_id'' TNum],
      op_body = Some (True, ''application/json'', schema_TransitionRequest),
      op_responses = [(200, Some (''application/json'', schema_EnrollmentTransitionResult)),
                      (422, Some (''application/json'', schema_HTTPValidationError))]\<rparr>"

definition create_terminal_account_api_v1_enrollments__enrollment_id__create_terminal_account_post :: operation where
  "create_terminal_account_api_v1_enrollments__enrollment_id__create_terminal_account_post =
     \<lparr>op_query = None,
      op_path = [Req ''enrollment_id'' TNum],
      op_body = Some (True, ''application/json'', schema_CreateTerminalAccountRequest),
      op_responses = [(200, Some (''application/json'', schema_EnrollmentTransitionResult)),
                      (422, Some (''application/json'', schema_HTTPValidationError))]\<rparr>"

definition mark_ready_api_v1_enrollments__enrollment_id__mark_ready_for_mapping_post :: operation where
  "mark_ready_api_v1_enrollments__enrollment_id__mark_ready_for_mapping_post =
     \<lparr>op_query = None,
      op_path = [Req ''enrollment_id'' TNum],
      op_body = Some (True, ''application/json'', schema_TransitionRequest),
      op_responses = [(200, Some (''application/json'', schema_EnrollmentTransitionResult)),
                      (422, Some (''application/json'', schema_HTTPValidationError))]\<rparr>"

definition get_next_actions_api_v1_enrollments__enrollment_id__next_actions_get :: operation where
  "get_next_actions_api_v1_enrollments__enrollment_id__next_actions_get =
     \<lparr>op_query = None,
      op_path = [Req ''enrollment_id'' TNum],
      op_body = None,
      op_responses = [(200, Some (''application/json'', schema_EnrollmentNextActions)),
                      (422, Some (''application/json'', schema_HTTPValidationError))]\<rparr>"

definition reconcile_scan_evidence_api_v1_enrollments__enrollment_id__reconcile_scan_evidence_post :: operation where
  "reconcile_scan_evidence_api_v1_enrollments__enrollment_id__reconcile_scan_evidence_post =
     \<lparr>op_query = None,
      op_path = [Req ''enrollment_id'' TNum],
      op_body = Some (True, ''application/json'', schema_ReconcileScanEvidenceRequest),
      op_responses = [(200, Some (''application/json'', schema_EnrollmentTransitionResult)),
                      (422, Some (''application/json'', schema_HTTPValidationError))]\<rparr>"

definition start_scan_window_api_v1_enrollments__enrollment_id__start_controlled_scan_post :: operation where
  "start_scan_window_api_v1_enrollments__enrollment_id__start_controlled_scan_post =
     \<lparr>op_query = None,
      op_path = [Req ''enrollment_id'' TNum],
      op_body = Some (True, ''application/json'', schema_TransitionRequest),
      op_responses = [(200, Some (''application/json'', schema_EnrollmentTransitionResult)),
                      (422, Some (''application/json'', schema_HTTPValidationError))]\<rparr>"

definition start_fingerprint_api_v1_enrollments__enrollment_id__start_fingerprint_enrollment_post :: operation where
  "start_fingerprint_api_v1_enrollments__enrollment_id__start_fingerprint_enrollment_post =
     \<lparr>op_query = None,
      op_path = [Req ''enrollment_id'' TNum],
      op_body = Some (True, ''application/json'', schema_TransitionRequest),
      op_responses = [(200, Some (''application/json'', schema_EnrollmentTransitionResult)),
                      (422, Some (''application/json'', schema_HTTPValidationError))]\<rparr>"

definition health_api_v1_health_get :: operation where
  "health_api_v1_health_get =
     \<lparr>op_query = None,
      op_path = [],
      op_body = None,
      op_responses = [(200, Some (''application/json'', schema_HealthCheck))]\<rparr>"

definition get_holidays_api_v1_holidays_get :: operation where
  "get_holidays_api_v1_holidays_get =
     \<lparr>op_query = Some (False, [Opt ''year'' (TOr [TNum, TNull])]),
      op_path = [],
      op_body = None,
      op_responses = [(200, Some (''application/json'', TArr schema_Holiday)),
                      (422, Some (''application/json'', schema_HTTPValidationError))]\<rparr>"

definition post_holiday_api_v1_holidays_post :: operation where
  "post_holiday_api_v1_holidays_post =
     \<lparr>op_query = None,
      op_path = [],
      op_body = Some (True, ''application/json'', schema_Holiday),
      op_responses = [(200, Some (''application/json'', schema_Holiday)),
                      (422, Some (''application/json'', schema_HTTPValidationError))]\<rparr>"

definition remove_holiday_api_v1_holidays__holiday_date__delete :: operation where
  "remove_holiday_api_v1_holidays__holiday_date__delete =
     \<lparr>op_query = None,
      op_path = [Req ''holiday_date'' TStr],
      op_body = None,
      op_responses = [(204, None), (422, Some (''application/json'', schema_HTTPValidationError))]\<rparr>"

definition list_humans_api_v1_humans_get :: operation where
  "list_humans_api_v1_humans_get =
     \<lparr>op_query = Some (False, [Opt ''production_scope'' (TOr [TBool, TNull]), Opt ''active'' (TOr [TBool, TNull]),
       Opt ''search'' (TOr [TStr, TNull]), Opt ''category'' (TOr [TStr, TNull]),
       Opt ''scan_status'' (TOr [TStr, TNull]), Opt ''branch'' (TOr [TStr, TNull]), Opt ''limit'' TNum,
       Opt ''offset'' TNum]),
      op_path = [],
      op_body = None,
      op_responses = [(200, Some (''application/json'', schema_Page_Human)),
                      (422, Some (''application/json'', schema_HTTPValidationError))]\<rparr>"

definition create_human_endpoint_api_v1_humans_post :: operation where
  "create_human_endpoint_api_v1_humans_post =
     \<lparr>op_query = None,
      op_path = [],
      op_body = Some (True, ''application/json'', schema_CreateHumanRequest),
      op_responses = [(201, Some (''application/json'', schema_Human)),
                      (422, Some (''application/json'', schema_HTTPValidationError))]\<rparr>"

definition humans_branches_api_v1_humans_branches_get :: operation where
  "humans_branches_api_v1_humans_branches_get =
     \<lparr>op_query = None,
      op_path = [],
      op_body = None,
      op_responses = [(200, Some (''application/json'', TArr TStr))]\<rparr>"

definition put_humans_branches_api_v1_humans_branches_put :: operation where
  "put_humans_branches_api_v1_humans_branches_put =
     \<lparr>op_query = None,
      op_path = [],
      op_body = Some (True, ''application/json'', schema_DepartmentsRequest),
      op_responses = [(200, Some (''application/json'', TArr TStr)),
                      (422, Some (''application/json'', schema_HTTPValidationError))]\<rparr>"

definition export_humans_api_v1_humans_export_csv_get :: operation where
  "export_humans_api_v1_humans_export_csv_get =
     \<lparr>op_query = Some (False, [Opt ''active'' (TOr [TBool, TNull])]),
      op_path = [],
      op_body = None,
      op_responses = [(200, Some (''application/json'', TUnknown)),
                      (422, Some (''application/json'', schema_HTTPValidationError))]\<rparr>"

definition commit_import_api_v1_humans_import_commit_post :: operation where
  "commit_import_api_v1_humans_import_commit_post =
     \<lparr>op_query = None,
      op_path = [],
      op_body = Some (True, ''multipart/form-data'', schema_Body_commit_import_api_v1_humans_import_commit_post),
      op_responses = [(200, Some (''application/json'', schema_CsvImportCommitResponse)),
                      (422, Some (''application/json'', schema_HTTPValidationError))]\<rparr>"

definition preview_import_api_v1_humans_import_preview_post :: operation where
  "preview_import_api_v1_humans_import_preview_post =
     \<lparr>op_query = None,
      op_path = [],
      op_body = Some (True, ''multipart/form-data'', schema_Body_preview_import_api_v1_humans_import_preview_post),
      op_responses = [(200, Some (''application/json'', schema_CsvImportPreviewResponse)),
                      (422, Some (''application/json'', schema_HTTPValidationError))]\<rparr>"

definition download_import_template_api_v1_humans_import_template_csv_get :: operation where
  "download_import_template_api_v1_humans_import_template_csv_get =
     \<lparr>op_query = None,
      op_path = [],
      op_body = None,
      op_responses = [(200, Some (''application/json'', TUnknown))]\<rparr>"

definition bulk_scan_exempt_api_v1_humans_scan_exempt_post :: operation where
  "bulk_scan_exempt_api_v1_humans_scan_exempt_post =
     \<lparr>op_query = None,
      op_path = [],
      op_body = Some (True, ''application/json'', schema_BulkScanExemptRequest),
      op_responses = [(200, Some (''application/json'', schema_BulkScanExemptResponse)),
                      (422, Some (''application/json'', schema_HTTPValidationError))]\<rparr>"

definition humans_summary_api_v1_humans_summary_get :: operation where
  "humans_summary_api_v1_humans_summary_get =
     \<lparr>op_query = None,
      op_path = [],
      op_body = None,
      op_responses = [(200, Some (''application/json'', schema_PersonnelSummary))]\<rparr>"

definition post_sync_all_terminal_names_api_v1_humans_sync_terminal_names_post :: operation where
  "post_sync_all_terminal_names_api_v1_humans_sync_terminal_names_post =
     \<lparr>op_query = None,
      op_path = [],
      op_body = None,
      op_responses = [(200, Some (''application/json'', schema_TerminalNameSyncSummary))]\<rparr>"

definition get_terminal_name_mismatches_api_v1_humans_terminal_name_mismatches_get :: operation where
  "get_terminal_name_mismatches_api_v1_humans_terminal_name_mismatches_get =
     \<lparr>op_query = None,
      op_path = [],
      op_body = None,
      op_responses = [(200, Some (''application/json'', TArr schema_TerminalNameMismatch))]\<rparr>"

definition get_human_api_v1_humans__employee_id__get :: operation where
  "get_human_api_v1_humans__employee_id__get =
     \<lparr>op_query = None,
      op_path = [Req ''employee_id'' TStr],
      op_body = None,
      op_responses = [(200, Some (''application/json'', schema_Human)),
                      (422, Some (''application/json'', schema_HTTPValidationError))]\<rparr>"

definition update_human_endpoint_api_v1_humans__employee_id__patch :: operation where
  "update_human_endpoint_api_v1_humans__employee_id__patch =
     \<lparr>op_query = None,
      op_path = [Req ''employee_id'' TStr],
      op_body = Some (True, ''application/json'', schema_UpdateHumanRequest),
      op_responses = [(200, Some (''application/json'', schema_Human)),
                      (422, Some (''application/json'', schema_HTTPValidationError))]\<rparr>"

definition deactivate_api_v1_humans__employee_id__deactivate_post :: operation where
  "deactivate_api_v1_humans__employee_id__deactivate_post =
     \<lparr>op_query = None,
      op_path = [Req ''employee_id'' TStr],
      op_body = Some (True, ''application/json'', schema_DeactivateHumanRequest),
      op_responses = [(200, Some (''application/json'', schema_Human)),
                      (422, Some (''application/json'', schema_HTTPValidationError))]\<rparr>"

definition reactivate_api_v1_humans__employee_id__reactivate_post :: operation where
  "reactivate_api_v1_humans__employee_id__reactivate_post =
     \<lparr>op_query = None,
      op_path = [Req ''employee_id'' TStr],
      op_body = Some (True, ''application/json'', schema_ReactivateHumanRequest),
      op_responses = [(200, Some (''application/json'', schema_Human)),
                      (422, Some (''application/json'', schema_HTTPValidationError))]\<rparr>"

definition remove_from_scanner_api_v1_humans__employee_id__remove_from_scanner_post :: operation where
  "remove_from_scanner_api_v1_humans__employee_id__remove_from_scanner_post =
     \<lparr>op_query = None,
      op_path = [Req ''employee_id'' TStr],
      op_body = None,
      op_responses = [(200, Some (''application/json'', TMap TUnknown)),
                      (422, Some (''application/json'', schema_HTTPValidationError))]\<rparr>"

definition sync_terminal_name_api_v1_humans__employee_id__sync_terminal_name_post :: operation where
  "sync_terminal_name_api_v1_humans__employee_id__sync_terminal_name_post =
     \<lparr>op_query = None,
      op_path = [Req ''employee_id'' TStr],
      op_body = None,
      op_responses = [(200, Some (''application/json'', schema_SyncTerminalNameResponse)),
                      (422, Some (''application/json'', schema_HTTPValidationError))]\<rparr>"

definition get_human_terminal_accounts_api_v1_humans__employee_id__terminal_accounts_get :: operation where
  "get_human_terminal_accounts_api_v1_humans__employee_id__terminal_accounts_get =
     \<lparr>op_query = None,
      op_path = [Req ''employee_id'' TStr],
      op_body = None,
      op_responses = [(200, Some (''application/json'', TArr schema_HumanTerminalAccount)),
                      (422, Some (''application/json'', schema_HTTPValidationError))]\<rparr>"

definition list_mappings_api_v1_mappings_get :: operation where
  "list_mappings_api_v1_mappings_get =
     \<lparr>op_query = Some (False, [Opt ''employee_id'' (TOr [TStr, TNull]), Opt ''device_user_pk'' (TOr [TNum, TNull]),
       Opt ''mapping_status'' (TOr [TStr, TNull]), Opt ''limit'' TNum, Opt ''offset'' TNum]),
      op_path = [],
      op_body = None,
      op_responses = [(200, Some (''application/json'', schema_Page_Mapping)),
                      (422, Some (''application/json'', schema_HTTPValidationError))]\<rparr>"

definition create_mapping_api_v1_mappings_post :: operation where
  "create_mapping_api_v1_mappings_post =
     \<lparr>op_query = None,
      op_path = [],
      op_body = Some (True, ''application/json'', schema_CreateMappingRequest),
      op_responses = [(201, Some (''application/json'', schema_CreateMappingResponse)),
                      (422, Some (''application/json'', schema_HTTPValidationError))]\<rparr>"

definition mapping_eligibility_api_v1_mappings_eligibility_get :: operation where
  "mapping_eligibility_api_v1_mappings_eligibility_get =
     \<lparr>op_query = None,
      op_path = [],
      op_body = None,
      op_responses = [(200, Some (''application/json'', schema_MappingEligibility))]\<rparr>"

definition get_mapping_api_v1_mappings__mapping_id__get :: operation where
  "get_mapping_api_v1_mappings__mapping_id__get =
     \<lparr>op_query = None,
      op_path = [Req ''mapping_id'' TNum],
      op_body = None,
      op_responses = [(200, Some (''application/json'', schema_Mapping)),
                      (422, Some (''application/json'', schema_HTTPValidationError))]\<rparr>"

definition list_operators_api_v1_operators_get :: operation where
  "list_operators_api_v1_operators_get =
     \<lparr>op_query = None,
      op_path = [],
      op_body = None,
      op_responses = [(200, Some (''application/json'', TArr schema_OperatorOut))]\<rparr>"

definition create_operator_api_v1_operators_post :: operation where
  "create_operator_api_v1_operators_post =
     \<lparr>op_query = None,
      op_path = [],
      op_body = Some (True, ''application/json'', schema_CreateOperatorRequest),
      op_responses = [(201, Some (''application/json'', schema_OperatorOut)),
                      (422, Some (''application/json'', schema_HTTPValidationError))]\<rparr>"

definition toggle_active_api_v1_operators__operator_id__toggle_active_post :: operation where
  "toggle_active_api_v1_operators__operator_id__toggle_active_post =
     \<lparr>op_query = None,
      op_path = [Req ''operator_id'' TNum],
      op_body = Some (True, ''application/json'', schema_ToggleActiveRequest),
      op_responses = [(200, Some (''application/json'', schema_ToggleActiveResponse)),
                      (422, Some (''application/json'', schema_HTTPValidationError))]\<rparr>"

definition list_ranks_api_v1_reference_ranks_get :: operation where
  "list_ranks_api_v1_reference_ranks_get =
     \<lparr>op_query = None,
      op_path = [],
      op_body = None,
      op_responses = [(200, Some (''application/json'', TArr schema_RankReference))]\<rparr>"

definition preview_telegram_report_api_v1_reports_telegram_preview_get :: operation where
  "preview_telegram_report_api_v1_reports_telegram_preview_get =
     \<lparr>op_query = Some (False, [Opt ''date'' (TOr [TStr, TNull])]),
      op_path = [],
      op_body = None,
      op_responses = [(200, Some (''application/json'', schema_TelegramReportResult)),
                      (422, Some (''application/json'', schema_HTTPValidationError))]\<rparr>"

definition send_telegram_report_api_v1_reports_telegram_send_post :: operation where
  "send_telegram_report_api_v1_reports_telegram_send_post =
     \<lparr>op_query = Some (False, [Opt ''date'' (TOr [TStr, TNull])]),
      op_path = [],
      op_body = None,
      op_responses = [(200, Some (''application/json'', schema_TelegramReportResult)),
                      (422, Some (''application/json'', schema_HTTPValidationError))]\<rparr>"

definition stream_attendance_api_v1_stream_attendance_get :: operation where
  "stream_attendance_api_v1_stream_attendance_get =
     \<lparr>op_query = None,
      op_path = [],
      op_body = None,
      op_responses = [(200, Some (''application/json'', TUnknown))]\<rparr>"

definition remove_account_api_v1_terminal_management_account_remove_post :: operation where
  "remove_account_api_v1_terminal_management_account_remove_post =
     \<lparr>op_query = None,
      op_path = [],
      op_body = Some (True, ''application/json'', schema_RemoveAccountRequest),
      op_responses = [(200, Some (''application/json'', schema_TerminalMutationResponse)),
                      (422, Some (''application/json'', schema_HTTPValidationError))]\<rparr>"

definition start_fingerprint_reenroll_api_v1_terminal_management_fingerprint_reenroll_post :: operation where
  "start_fingerprint_reenroll_api_v1_terminal_management_fingerprint_reenroll_post =
     \<lparr>op_query = None,
      op_path = [],
      op_body = Some (True, ''application/json'', schema_StartFingerprintReenrollRequest),
      op_responses = [(200, Some (''application/json'', TUnknown)),
                      (422, Some (''application/json'', schema_HTTPValidationError))]\<rparr>"

definition fingerprint_reenroll_status_api_v1_terminal_management_fingerprint_reenroll_status_get :: operation where
  "fingerprint_reenroll_status_api_v1_terminal_management_fingerprint_reenroll_status_get =
     \<lparr>op_query = Some (True, [Req ''device_user_id'' TStr]),
      op_path = [],
      op_body = None,
      op_responses = [(200, Some (''application/json'', schema_FingerprintReenrollStatusResponse)),
                      (422, Some (''application/json'', schema_HTTPValidationError))]\<rparr>"

definition remove_fingerprint_api_v1_terminal_management_fingerprint_remove_post :: operation where
  "remove_fingerprint_api_v1_terminal_management_fingerprint_remove_post =
     \<lparr>op_query = None,
      op_path = [],
      op_body = Some (True, ''application/json'', schema_RemoveFingerprintRequest),
      op_responses = [(200, Some (''application/json'', schema_TerminalMutationResponse)),
                      (422, Some (''application/json'', schema_HTTPValidationError))]\<rparr>"

definition get_terminal_inventory_api_v1_terminal_management_inventory_get :: operation where
  "get_terminal_inventory_api_v1_terminal_management_inventory_get =
     \<lparr>op_query = None,
      op_path = [],
      op_body = None,
      op_responses = [(200, Some (''application/json'', schema_TerminalInventoryResponse))]\<rparr>"

definition get_status_api_v1_write_session_get :: operation where
  "get_status_api_v1_write_session_get =
     \<lparr>op_query = None,
      op_path = [],
      op_body = None,
      op_responses = [(200, Some (''application/json'', schema_WriteSessionStatus))]\<rparr>"

definition auto_window_api_v1_write_session_auto_window_post :: operation where
  "auto_window_api_v1_write_session_auto_window_post =
     \<lparr>op_query = Some (False, [Opt ''action'' (TOr [TStr, TNull])]),
      op_path = [],
      op_body = Some (False, ''application/json'', TOr [schema_AutoWindowRequest, TNull]),
      op_responses = [(200, Some (''application/json'', schema_WriteSessionStatus)),
                      (422, Some (''application/json'', schema_HTTPValidationError))]\<rparr>"

definition close_session_api_v1_write_session_close_post :: operation where
  "close_session_api_v1_write_session_close_post =
     \<lparr>op_query = None,
      op_path = [],
      op_body = None,
      op_responses = [(200, Some (''application/json'', schema_WriteSessionStatus))]\<rparr>"

definition open_session_api_v1_write_session_open_post :: operation where
  "open_session_api_v1_write_session_open_post =
     \<lparr>op_query = None,
      op_path = [],
      op_body = Some (True, ''application/json'', schema_OpenWriteSessionRequest),
      op_responses = [(201, Some (''application/json'', schema_WriteSessionStatus)),
                      (422, Some (''application/json'', schema_HTTPValidationError))]\<rparr>"

definition healthz_healthz_get :: operation where
  "healthz_healthz_get =
     \<lparr>op_query = None,
      op_path = [],
      op_body = None,
      op_responses = [(200, Some (''application/json'', schema_Healthz))]\<rparr>"

section \<open>Paths\<close>

definition paths_absence_types :: "(string \<times> (string \<times> operation) list) list" where
  "paths_absence_types =
    [(''/api/v1/absence-types'',
       [(''GET'', get_types_api_v1_absence_types_get)])]"

definition paths_absences :: "(string \<times> (string \<times> operation) list) list" where
  "paths_absences =
    [(''/api/v1/absences'',
       [(''GET'', get_absences_api_v1_absences_get),
        (''POST'', post_absence_api_v1_absences_post)]),
     (''/api/v1/absences/import-template'',
       [(''GET'', get_absence_template_api_v1_absences_import_template_get)]),
     (''/api/v1/absences/import/commit'',
       [(''POST'', post_absence_import_commit_api_v1_absences_import_commit_post)]),
     (''/api/v1/absences/import/preview'',
       [(''POST'', post_absence_import_preview_api_v1_absences_import_preview_post)]),
     (''/api/v1/absences/{absence_id}/cancel'',
       [(''POST'', post_cancel_api_v1_absences__absence_id__cancel_post)])]"

definition paths_admin :: "(string \<times> (string \<times> operation) list) list" where
  "paths_admin =
    [(''/api/v1/admin/schedule-settings'',
       [(''GET'', get_schedule_settings_api_v1_admin_schedule_settings_get),
        (''POST'', update_schedule_settings_api_v1_admin_schedule_settings_post)])]"

definition paths_attendance_1 :: "(string \<times> (string \<times> operation) list) list" where
  "paths_attendance_1 =
    [(''/api/v1/attendance'',
       [(''GET'', list_attendance_api_v1_attendance_get)]),
     (''/api/v1/attendance/daily'',
       [(''GET'', get_daily_roster_api_v1_attendance_daily_get)]),
     (''/api/v1/attendance/monthly'',
       [(''GET'', get_monthly_report_api_v1_attendance_monthly_get)]),
     (''/api/v1/attendance/monthly.csv'',
       [(''GET'', get_monthly_report_csv_api_v1_attendance_monthly_csv_get)]),
     (''/api/v1/attendance/readiness'',
       [(''GET'', get_readiness_api_v1_attendance_readiness_get)]),
     (''/api/v1/attendance/tracking'',
       [(''GET'', get_tracking_api_v1_attendance_tracking_get),
        (''POST'', post_tracking_api_v1_attendance_tracking_post)]),
     (''/api/v1/attendance/unattributed'',
       [(''GET'', unattributed_api_v1_attendance_unattributed_get)]),
     (''/api/v1/attendance/{attendance_id}'',
       [(''GET'', get_attendance_api_v1_attendance__attendance_id__get)])]"

definition paths_attendance_2 :: "(string \<times> (string \<times> operation) list) list" where
  "paths_attendance_2 =
    [(''/api/v1/attendance/{attendance_id}/raw-payload'',
       [(''GET'', get_attendance_raw_payload_api_v1_attendance__attendance_id__raw_payload_get)])]"

definition paths_audit :: "(string \<times> (string \<times> operation) list) list" where
  "paths_audit =
    [(''/api/v1/audit/event-types'',
       [(''GET'', event_types_api_v1_audit_event_types_get)]),
     (''/api/v1/audit/events'',
       [(''GET'', list_events_api_v1_audit_events_get)])]"

definition paths_auth :: "(string \<times> (string \<times> operation) list) list" where
  "paths_auth =
    [(''/api/v1/auth/change-password'',
       [(''POST'', change_password_api_v1_auth_change_password_post)]),
     (''/api/v1/auth/login'',
       [(''POST'', login_api_v1_auth_login_post)]),
     (''/api/v1/auth/logout'',
       [(''POST'', logout_api_v1_auth_logout_post)]),
     (''/api/v1/auth/me'',
       [(''GET'', me_api_v1_auth_me_get)])]"

definition paths_dashboard :: "(string \<times> (string \<times> operation) list) list" where
  "paths_dashboard =
    [(''/api/v1/dashboard/summary'',
       [(''GET'', dashboard_summary_api_v1_dashboard_summary_get)])]"

definition paths_device_users :: "(string \<times> (string \<times> operation) list) list" where
  "paths_device_users =
    [(''/api/v1/device-users'',
       [(''GET'', list_device_users_api_v1_device_users_get)]),
     (''/api/v1/device-users/{device_user_pk}'',
       [(''GET'', get_device_user_api_v1_device_users__device_user_pk__get)])]"

definition paths_devices :: "(string \<times> (string \<times> operation) list) list" where
  "paths_devices =
    [(''/api/v1/devices'',
       [(''GET'', list_devices_api_v1_devices_get)]),
     (''/api/v1/devices/{device_id}'',
       [(''GET'', get_device_api_v1_devices__device_id__get)])]"

definition paths_enrollments_1 :: "(string \<times> (string \<times> operation) list) list" where
  "paths_enrollments_1 =
    [(''/api/v1/enrollments'',
       [(''GET'', list_enrollments_api_v1_enrollments_get)]),
     (''/api/v1/enrollments/reserve'',
       [(''POST'', reserve_api_v1_enrollments_reserve_post)]),
     (''/api/v1/enrollments/{enrollment_id}'',
       [(''GET'', get_enrollment_detail_api_v1_enrollments__enrollment_id__get)]),
     (''/api/v1/enrollments/{enrollment_id}/cancel'',
       [(''POST'', cancel_api_v1_enrollments__enrollment_id__cancel_post)]),
     (''/api/v1/enrollments/{enrollment_id}/confirm-controlled-scan'',
       [(''POST'', confirm_scan_api_v1_enrollments__enrollment_id__confirm_controlled_scan_post)]),
     (''/api/v1/enrollments/{enrollment_id}/confirm-fingerprint'',
       [(''POST'', confirm_fingerprint_api_v1_enrollments__enrollment_id__confirm_fingerprint_post)]),
     (''/api/v1/enrollments/{enrollment_id}/create-terminal-account'',
       [(''POST'', create_terminal_account_api_v1_enrollments__enrollment_id__create_terminal_account_post)]),
     (''/api/v1/enrollments/{enrollment_id}/mark-ready-for-mapping'',
       [(''POST'', mark_ready_api_v1_enrollments__enrollment_id__mark_ready_for_mapping_post)])]"

definition paths_enrollments_2 :: "(string \<times> (string \<times> operation) list) list" where
  "paths_enrollments_2 =
    [(''/api/v1/enrollments/{enrollment_id}/next-actions'',
       [(''GET'', get_next_actions_api_v1_enrollments__enrollment_id__next_actions_get)]),
     (''/api/v1/enrollments/{enrollment_id}/reconcile-scan-evidence'',
       [(''POST'', reconcile_scan_evidence_api_v1_enrollments__enrollment_id__reconcile_scan_evidence_post)]),
     (''/api/v1/enrollments/{enrollment_id}/start-controlled-scan'',
       [(''POST'', start_scan_window_api_v1_enrollments__enrollment_id__start_controlled_scan_post)]),
     (''/api/v1/enrollments/{enrollment_id}/start-fingerprint-enrollment'',
       [(''POST'', start_fingerprint_api_v1_enrollments__enrollment_id__start_fingerprint_enrollment_post)])]"

definition paths_health :: "(string \<times> (string \<times> operation) list) list" where
  "paths_health =
    [(''/api/v1/health'',
       [(''GET'', health_api_v1_health_get)])]"

definition paths_holidays :: "(string \<times> (string \<times> operation) list) list" where
  "paths_holidays =
    [(''/api/v1/holidays'',
       [(''GET'', get_holidays_api_v1_holidays_get),
        (''POST'', post_holiday_api_v1_holidays_post)]),
     (''/api/v1/holidays/{holiday_date}'',
       [(''DELETE'', remove_holiday_api_v1_holidays__holiday_date__delete)])]"

definition paths_humans_1 :: "(string \<times> (string \<times> operation) list) list" where
  "paths_humans_1 =
    [(''/api/v1/humans'',
       [(''GET'', list_humans_api_v1_humans_get),
        (''POST'', create_human_endpoint_api_v1_humans_post)]),
     (''/api/v1/humans/branches'',
       [(''GET'', humans_branches_api_v1_humans_branches_get),
        (''PUT'', put_humans_branches_api_v1_humans_branches_put)]),
     (''/api/v1/humans/export.csv'',
       [(''GET'', export_humans_api_v1_humans_export_csv_get)]),
     (''/api/v1/humans/import/commit'',
       [(''POST'', commit_import_api_v1_humans_import_commit_post)]),
     (''/api/v1/humans/import/preview'',
       [(''POST'', preview_import_api_v1_humans_import_preview_post)]),
     (''/api/v1/humans/import/template.csv'',
       [(''GET'', download_import_template_api_v1_humans_import_template_csv_get)]),
     (''/api/v1/humans/scan-exempt'',
       [(''POST'', bulk_scan_exempt_api_v1_humans_scan_exempt_post)])]"

definition paths_humans_2 :: "(string \<times> (string \<times> operation) list) list" where
  "paths_humans_2 =
    [(''/api/v1/humans/summary'',
       [(''GET'', humans_summary_api_v1_humans_summary_get)]),
     (''/api/v1/humans/sync-terminal-names'',
       [(''POST'', post_sync_all_terminal_names_api_v1_humans_sync_terminal_names_post)]),
     (''/api/v1/humans/terminal-name-mismatches'',
       [(''GET'', get_terminal_name_mismatches_api_v1_humans_terminal_name_mismatches_get)]),
     (''/api/v1/humans/{employee_id}'',
       [(''GET'', get_human_api_v1_humans__employee_id__get),
        (''PATCH'', update_human_endpoint_api_v1_humans__employee_id__patch)]),
     (''/api/v1/humans/{employee_id}/deactivate'',
       [(''POST'', deactivate_api_v1_humans__employee_id__deactivate_post)]),
     (''/api/v1/humans/{employee_id}/reactivate'',
       [(''POST'', reactivate_api_v1_humans__employee_id__reactivate_post)]),
     (''/api/v1/humans/{employee_id}/remove-from-scanner'',
       [(''POST'', remove_from_scanner_api_v1_humans__employee_id__remove_from_scanner_post)])]"

definition paths_humans_3 :: "(string \<times> (string \<times> operation) list) list" where
  "paths_humans_3 =
    [(''/api/v1/humans/{employee_id}/sync-terminal-name'',
       [(''POST'', sync_terminal_name_api_v1_humans__employee_id__sync_terminal_name_post)]),
     (''/api/v1/humans/{employee_id}/terminal-accounts'',
       [(''GET'', get_human_terminal_accounts_api_v1_humans__employee_id__terminal_accounts_get)])]"

definition paths_mappings :: "(string \<times> (string \<times> operation) list) list" where
  "paths_mappings =
    [(''/api/v1/mappings'',
       [(''GET'', list_mappings_api_v1_mappings_get),
        (''POST'', create_mapping_api_v1_mappings_post)]),
     (''/api/v1/mappings/eligibility'',
       [(''GET'', mapping_eligibility_api_v1_mappings_eligibility_get)]),
     (''/api/v1/mappings/{mapping_id}'',
       [(''GET'', get_mapping_api_v1_mappings__mapping_id__get)])]"

definition paths_operators :: "(string \<times> (string \<times> operation) list) list" where
  "paths_operators =
    [(''/api/v1/operators'',
       [(''GET'', list_operators_api_v1_operators_get),
        (''POST'', create_operator_api_v1_operators_post)]),
     (''/api/v1/operators/{operator_id}/toggle-active'',
       [(''POST'', toggle_active_api_v1_operators__operator_id__toggle_active_post)])]"

definition paths_reference :: "(string \<times> (string \<times> operation) list) list" where
  "paths_reference =
    [(''/api/v1/reference/ranks'',
       [(''GET'', list_ranks_api_v1_reference_ranks_get)])]"

definition paths_reports :: "(string \<times> (string \<times> operation) list) list" where
  "paths_reports =
    [(''/api/v1/reports/telegram/preview'',
       [(''GET'', preview_telegram_report_api_v1_reports_telegram_preview_get)]),
     (''/api/v1/reports/telegram/send'',
       [(''POST'', send_telegram_report_api_v1_reports_telegram_send_post)])]"

definition paths_stream :: "(string \<times> (string \<times> operation) list) list" where
  "paths_stream =
    [(''/api/v1/stream/attendance'',
       [(''GET'', stream_attendance_api_v1_stream_attendance_get)])]"

definition paths_terminal_management :: "(string \<times> (string \<times> operation) list) list" where
  "paths_terminal_management =
    [(''/api/v1/terminal-management/account/remove'',
       [(''POST'', remove_account_api_v1_terminal_management_account_remove_post)]),
     (''/api/v1/terminal-management/fingerprint/reenroll'',
       [(''POST'', start_fingerprint_reenroll_api_v1_terminal_management_fingerprint_reenroll_post)]),
     (''/api/v1/terminal-management/fingerprint/reenroll-status'',
       [(''GET'', fingerprint_reenroll_status_api_v1_terminal_management_fingerprint_reenroll_status_get)]),
     (''/api/v1/terminal-management/fingerprint/remove'',
       [(''POST'', remove_fingerprint_api_v1_terminal_management_fingerprint_remove_post)]),
     (''/api/v1/terminal-management/inventory'',
       [(''GET'', get_terminal_inventory_api_v1_terminal_management_inventory_get)])]"

definition paths_write_session :: "(string \<times> (string \<times> operation) list) list" where
  "paths_write_session =
    [(''/api/v1/write-session'',
       [(''GET'', get_status_api_v1_write_session_get)]),
     (''/api/v1/write-session/auto-window'',
       [(''POST'', auto_window_api_v1_write_session_auto_window_post)]),
     (''/api/v1/write-session/close'',
       [(''POST'', close_session_api_v1_write_session_close_post)]),
     (''/api/v1/write-session/open'',
       [(''POST'', open_session_api_v1_write_session_open_post)])]"

definition paths_healthz :: "(string \<times> (string \<times> operation) list) list" where
  "paths_healthz =
    [(''/healthz'',
       [(''GET'', healthz_healthz_get)])]"

definition api_paths :: "(string \<times> (string \<times> operation) list) list" where
  "api_paths =
     paths_absence_types @ paths_absences @ paths_admin @ paths_attendance_1 @ paths_attendance_2 @
      paths_audit @ paths_auth @ paths_dashboard @ paths_device_users @ paths_devices @ paths_enrollments_1 @
      paths_enrollments_2 @ paths_health @ paths_holidays @ paths_humans_1 @ paths_humans_2 @ paths_humans_3 @
      paths_mappings @ paths_operators @ paths_reference @ paths_reports @ paths_stream @
      paths_terminal_management @ paths_write_session @ paths_healthz"

end
