(* ===== verification/Api_Calls.thy ===== *)
theory Api_Calls
  imports Api_Operations
begin

text \<open>
  The client against the contract: what a well-typed call of the \<open>api\<close> object of
  \<open>frontend/src/api/client.ts\<close> is, and that each addresses exactly one operation of the
  contract and sends what that operation accepts.
\<close>

section \<open>Paths evaluated\<close>

fun csplit :: "string \<Rightarrow> string list" where
  "csplit [] = [[]]"
| "csplit (c # s) =
     (if c = CHR ''/'' then [] # csplit s
      else (case csplit s of [] \<Rightarrow> [[c]] | l # ls \<Rightarrow> (c # l) # ls))"

definition onto_head :: "char \<Rightarrow> string list \<Rightarrow> string list" where
  "onto_head c ss = (case ss of [] \<Rightarrow> [[c]] | l # ls \<Rightarrow> (c # l) # ls)"

text \<open>The equations used on literals: conditional ones, since they are much faster than \<open>if\<close>.\<close>

lemma csplit_rules:
  "csplit [] = [[]]"
  "c \<noteq> CHR ''/'' \<Longrightarrow> csplit (c # s) = onto_head c (csplit s)"
  "csplit (CHR ''/'' # s) = [] # csplit s"
  by (simp_all add: onto_head_def)

lemma onto_head_simps [simp]: "onto_head c (l # ls) = (c # l) # ls"
  by (simp add: onto_head_def)

definition before_query :: "string \<Rightarrow> string" where
  "before_query s = takeWhile (\<lambda>c. c \<noteq> CHR ''?'') s"

lemma before_query_rules [simp]:
  "before_query [] = []"
  "c \<noteq> CHR ''?'' \<Longrightarrow> before_query (c # s) = c # before_query s"
  "before_query (CHR ''?'' # s) = []"
  by (simp_all add: before_query_def)

lemma before_query_id: "before_query s = s \<longleftrightarrow> CHR ''?'' \<notin> set s"
  by (auto simp: before_query_def takeWhile_eq_all_conv)

lemma of_char_eq: "of_char c = (of_char d :: u16) \<longleftrightarrow> c = d"
  using js_inj[of "[c]" "[d]"] by (simp add: js_Cons js_def)

lemma of_char_slash: "of_char c = (47 :: u16) \<longleftrightarrow> c = CHR ''/''"
  using of_char_eq[of c "CHR ''/''"] by (simp add: of_char_def)

lemma of_char_question: "of_char c = (63 :: u16) \<longleftrightarrow> c = CHR ''?''"
  using of_char_eq[of c "CHR ''?''"] by (simp add: of_char_def)

lemma of_char_brace: "of_char c = (123 :: u16) \<longleftrightarrow> c = CHR ''{''"
  using of_char_eq[of c "CHR ''{''"] by (simp add: of_char_def)

lemma js_split_js: "js_split 47 (js s) = map js (csplit s)"
  by (induction s) (auto simp: js_Cons js_def of_char_slash split: list.splits)

lemma path_part_js: "path_part (js s) = js (before_query s)"
  by (induction s) (simp_all add: path_part_def js_def of_char_question before_query_def)

lemma is_param_js: "is_param (js s) \<longleftrightarrow> (case s of [] \<Rightarrow> False | c # _ \<Rightarrow> c = CHR ''{'')"
  by (cases s) (simp_all add: is_param_def js_def of_char_brace)

lemma segments_js: "segments (js s) = map js (csplit (before_query s))"
  by (simp add: segments_def path_part_js js_split_js)

text \<open>A text that stays within its segment: an identifier that is not empty and has no character
  that means something in a path.\<close>

definition plain :: "jstr \<Rightarrow> bool" where
  "plain s \<longleftrightarrow> s \<noteq> [] \<and> list_all (\<lambda>c. c \<notin> set (js ''/?#&%'')) s"

lemma plain_not: "plain s \<Longrightarrow> s \<noteq> []" "plain s \<Longrightarrow> 47 \<notin> set s" "plain s \<Longrightarrow> 63 \<notin> set s" "plain s \<Longrightarrow> 38 \<notin> set s"
  unfolding plain_def list_all_iff by (auto simp: js_eval of_char_def)

lemma path_part_id: "63 \<notin> set a \<Longrightarrow> path_part a = a"
  unfolding path_part_def takeWhile_eq_all_conv by auto

lemma question_js: "63 \<in> set (js s) \<longleftrightarrow> CHR ''?'' \<in> set s"
  by (induction s) (auto simp: js_def of_char_question)

lemma js_split_not_Nil [simp]: "js_split d s \<noteq> []"
  by (induction s) (auto split: list.splits)

lemma js_split_slash: "js_split d (a @ d # b) = js_split d a @ js_split d b"
  by (induction a) (auto split: list.splits)

lemma js_slash_app: "js (a @ ''/'') @ e = js a @ 47 # e" "js (''/'' @ b) = 47 # js b"
  by (simp_all add: js_append js_Cons js_def of_char_def)

lemma segments_id:
  assumes "plain e" "CHR ''?'' \<notin> set a"
  shows "segments (js (a @ ''/'') @ e) = map js (csplit a) @ [e]"
    and "CHR ''?'' \<notin> set b \<Longrightarrow>
      segments (js (a @ ''/'') @ e @ js (''/'' @ b)) = map js (csplit a) @ e # map js (csplit b)"
proof -
  note e = plain_not[OF assms(1)] and a = assms(2)[folded question_js]
  show "segments (js (a @ ''/'') @ e) = map js (csplit a) @ [e]"
    using e a by (simp add: js_slash_app segments_def path_part_id js_split_slash js_split_js js_split_one)
  assume "CHR ''?'' \<notin> set b"
  with e a show "segments (js (a @ ''/'') @ e @ js (''/'' @ b)) = map js (csplit a) @ e # map js (csplit b)"
    unfolding js_slash_app
    by (simp add: question_js[symmetric] segments_def path_part_id js_split_slash js_split_js js_split_plain
        js_split_one)
qed

lemma js_num_units: "c \<in> set (js_num i) \<Longrightarrow> is_digit c \<or> c = 45"
  using js_nat_digits[of "nat i"] js_nat_digits[of "nat (- i)"]
  by (auto simp: js_num_def js_Cons of_char_def list_all_iff split: if_splits)

lemma is_digit_not: "is_digit c \<Longrightarrow> c \<notin> set (js ''/?#&%'')"
  by (auto simp: js_eval of_char_def is_digit_def)

lemma plain_js_num [simp]: "plain (js_num i)"
proof -
  have "c \<notin> set (js ''/?#&%'')" if "c \<in> set (js_num i)" for c
    using js_num_units[OF that] is_digit_not by (auto simp: js_eval of_char_def)
  moreover have "js_num i \<noteq> []"
    using js_nat_digits[of "nat i"] by (simp add: js_num_def js_Cons)
  ultimately show ?thesis by (simp add: plain_def list_all_iff)
qed

lemma qs_shape: "qs ps = [] \<or> (\<exists>s. qs ps = 63 # s)"
  by (simp add: qs_def Let_def js_eval of_char_def)

lemma path_part_query: "path_part (a @ 63 # s) = path_part a"
  by (induction a) (simp_all add: path_part_def)

lemma path_part_qs: "path_part (a @ qs ps) = path_part a"
  using qs_shape[of ps] path_part_query by auto

lemma segments_qs: "segments (js a @ qs ps) = segments (js a)"
  by (simp add: segments_def path_part_qs)

lemma segments_query: "segments (js a @ 63 # s) = segments (js a)"
  by (simp add: segments_def path_part_query)

lemma is_param_Nil [simp]: "\<not> is_param []"
  using is_param_js[of "[]"] by simp

lemmas path_group_defs =
  paths_absence_types_def paths_absences_def paths_admin_def paths_attendance_1_def paths_attendance_2_def
  paths_audit_def paths_auth_def paths_dashboard_def paths_device_users_def paths_devices_def
  paths_enrollments_1_def paths_enrollments_2_def paths_health_def paths_holidays_def paths_humans_1_def
  paths_humans_2_def paths_humans_3_def paths_mappings_def paths_operators_def paths_reference_def
  paths_reports_def paths_stream_def paths_terminal_management_def paths_write_session_def paths_healthz_def

declare csplit.simps [simp del]
declare csplit_rules [simp]

section \<open>The operation of a path\<close>

text \<open>The paths of a resource share their first four segments.\<close>

lemma matching_simps [simp]:
  "matching k [] m ss = []"
  "matching k ((m', ts, op) # rs) m ss =
     (if m' = m
      then if segs_match ts ss
           then if list_ex is_param ts = k then op # matching k rs m ss else matching k rs m ss
           else matching k rs m ss
      else matching k rs m ss)"
  "matching k (rs @ rs') m ss = matching k rs m ss @ matching k rs' m ss"
  by (simp_all add: matching_def)

lemma routes_case:
  "routes rs m p =
     (case matching False rs m (segments p) of [] \<Rightarrow> matching True rs m (segments p) | op # ops \<Rightarrow> op # ops)"
  by (simp add: routes_def Let_def split: list.split)

lemma route_table_simps [simp]:
  "route_table [] = []"
  "route_table ((p, ms) # ps) = map (\<lambda>(m, op). (m, segments (js p), op)) ms @ route_table ps"
  "route_table (ps @ ps') = route_table ps @ route_table ps'"
  by (simp_all add: route_table_def)

lemma segs_match_prefix:
  "list_all (\<lambda>t. \<not> is_param t) pre \<Longrightarrow> segs_match (pre @ ts) ss \<Longrightarrow> take (length pre) ss = pre"
proof (induction pre arbitrary: ss)
  case (Cons t pre)
  then show ?case by (cases ss) (auto split: if_splits)
qed simp

lemma segs_match_drop:
  "list_all (\<lambda>t. \<not> is_param t) pre \<Longrightarrow> segs_match (pre @ ts) (pre @ ss) \<longleftrightarrow> segs_match ts ss"
  by (induction pre) auto

definition resource :: "string \<Rightarrow> jstr list" where
  "resource r = [[], js ''api'', js ''v1'', js r]"

definition grouped :: "jstr list \<Rightarrow> path_table \<Rightarrow> bool" where
  "grouped pre ps \<longleftrightarrow> list_all (\<lambda>t. \<not> is_param t) pre \<and>
     list_all (\<lambda>(m, ts, op). ts = pre @ drop (length pre) ts) (route_table ps)"

definition rest_table :: "nat \<Rightarrow> path_table \<Rightarrow> route list" where
  "rest_table n ps = map (\<lambda>(m, ts, op). (m, drop n ts, op)) (route_table ps)"

lemma matching_grouped:
  assumes "grouped pre ps"
  shows "matching k (route_table ps) m ss =
    (if take (length pre) ss = pre then matching k (rest_table (length pre) ps) m (drop (length pre) ss) else [])"
proof -
  let ?n = "length pre"
  have pre: "list_all (\<lambda>t. \<not> is_param t) pre" using assms by (simp add: grouped_def)
  have "matching k rs m ss =
      (if take ?n ss = pre then matching k (map (\<lambda>(m, ts, op). (m, drop ?n ts, op)) rs) m (drop ?n ss) else [])"
    if "list_all (\<lambda>(m, ts, op). ts = pre @ drop ?n ts) rs" for rs
    using that
  proof (induction rs)
    case (Cons r rs)
    obtain m' ts op where r: "r = (m', ts, op)" by (cases r) auto
    with Cons.prems obtain us where ts: "ts = pre @ us" by auto
    have "segs_match ts ss \<longleftrightarrow> take ?n ss = pre \<and> segs_match us (drop ?n ss)"
      using segs_match_prefix[OF pre, of us ss] segs_match_drop[OF pre, of us "drop ?n ss"]
      by (metis append_take_drop_id ts)
    moreover have "list_ex is_param ts = list_ex is_param us"
      using pre by (auto simp: ts list_ex_iff list_all_iff)
    ultimately show ?case using Cons by (simp add: r ts)
  qed simp
  with assms show ?thesis by (simp add: grouped_def rest_table_def)
qed

text \<open>The groups of paths and what they share.\<close>

lemmas route_tables = path_group_defs[THEN arg_cong[where f=route_table], simplified, simplified segments_js, simplified]

lemma grouped_paths:
  "grouped (resource ''absence-types'') paths_absence_types"
  "grouped (resource ''absences'') paths_absences"
  "grouped (resource ''admin'') paths_admin"
  "grouped (resource ''attendance'') paths_attendance_1"
  "grouped (resource ''attendance'') paths_attendance_2"
  "grouped (resource ''audit'') paths_audit"
  "grouped (resource ''auth'') paths_auth"
  "grouped (resource ''dashboard'') paths_dashboard"
  "grouped (resource ''device-users'') paths_device_users"
  "grouped (resource ''devices'') paths_devices"
  "grouped (resource ''enrollments'') paths_enrollments_1"
  "grouped (resource ''enrollments'') paths_enrollments_2"
  "grouped (resource ''health'') paths_health"
  "grouped (resource ''holidays'') paths_holidays"
  "grouped (resource ''humans'') paths_humans_1"
  "grouped (resource ''humans'') paths_humans_2"
  "grouped (resource ''humans'') paths_humans_3"
  "grouped (resource ''mappings'') paths_mappings"
  "grouped (resource ''operators'') paths_operators"
  "grouped (resource ''reference'') paths_reference"
  "grouped (resource ''reports'') paths_reports"
  "grouped (resource ''stream'') paths_stream"
  "grouped (resource ''terminal-management'') paths_terminal_management"
  "grouped (resource ''write-session'') paths_write_session"
  "grouped [[], js ''healthz''] paths_healthz"
  by (simp_all add: grouped_def resource_def is_param_js route_tables)

lemma take_resource: "length (resource r) = 4" "resource r = resource r' \<longleftrightarrow> r = r'"
  by (simp_all add: resource_def)

lemmas matching_groups = grouped_paths[THEN matching_grouped, unfolded take_resource]

lemmas rest_tables = route_tables[THEN arg_cong[where f="map (\<lambda>(m, ts, op). (m, drop 4 ts, op))"],
  folded rest_table_def, simplified]

section \<open>Served calls\<close>

definition api_routes :: "route list" where
  "api_routes = route_table api_paths"

text \<open>A call addresses exactly this operation, and the operation accepts it.\<close>

definition served :: "call \<Rightarrow> operation \<Rightarrow> bool" where
  "served c op \<longleftrightarrow> routes api_routes (call_method c) (call_path c) = [op] \<and> accepts op c"

lemma csplit_not_Nil: "csplit s \<noteq> []"
  by (induction s) (auto simp: csplit.simps split: list.splits)

lemma csplit_slash: "csplit (a @ ''/'') = csplit a @ [[]]"
  by (induction a) (auto simp: csplit.simps csplit_not_Nil split: list.splits)

lemma csplit_last: "last (csplit s) = [] \<Longrightarrow> s = [] \<or> last s = CHR ''/''"
  by (induction s) (auto simp: csplit.simps csplit_not_Nil split: list.splits if_splits)

lemma segments_literal:
  assumes "plain e" "before_query s = s" "last (csplit s) = []"
  shows "segments (js s @ e) = map js (butlast (csplit s)) @ [e]"
    and "before_query b = b \<Longrightarrow>
      segments (js s @ e @ js (CHR ''/'' # b)) = map js (butlast (csplit s)) @ e # map js (csplit b)"
proof -
  note e = plain_not[OF assms(1)]
  consider "s = []" | a where "s = a @ ''/''"
    using csplit_last[OF assms(3)] by (metis append_butlast_last_id)
  note s = this
  show "segments (js s @ e) = map js (butlast (csplit s)) @ [e]"
    using s
  proof cases
    case 1
    then show ?thesis using e by (simp add: js_Nil segments_def path_part_id js_split_one)
  next
    case 2
    then show ?thesis using segments_id(1)[OF assms(1), of a] assms(2) by (simp add: csplit_slash before_query_id)
  qed
  assume "before_query b = b"
  then have b: "CHR ''?'' \<notin> set b" by (rule before_query_id[THEN iffD1])
  show "segments (js s @ e @ js (CHR ''/'' # b)) = map js (butlast (csplit s)) @ e # map js (csplit b)"
    using s
  proof cases
    case 1
    then show ?thesis using e b js_slash_app(2)[of b]
      by (simp add: js_Nil segments_def path_part_id js_split_plain js_split_js question_js)
  next
    case 2
    then have "CHR ''?'' \<notin> set a" using assms(2) by (simp add: before_query_id)
    from segments_id(2)[OF assms(1) this b] show ?thesis by (simp only: 2 csplit_slash butlast_snoc append_Cons append_Nil)
  qed
qed

lemma dropWhile_none: "63 \<notin> set p \<Longrightarrow> dropWhile (\<lambda>c. c \<noteq> (63 :: u16)) p = []"
  by (simp add: dropWhile_eq_Nil_conv) metis

lemma query_accepted_none:
  "63 \<notin> set p \<Longrightarrow> query_accepted op p \<longleftrightarrow>
     list_all (\<lambda>d. \<not> is_required d) (case op_query op of None \<Rightarrow> [] | Some (_, fs) \<Rightarrow> fs)"
  by (simp add: query_accepted_def query_part_def parse_query_def dropWhile_none Let_def list_all_iff)

lemma plain_simps: "plain e \<Longrightarrow> 63 \<notin> set e" "plain e \<Longrightarrow> e \<noteq> []"
  by (auto dest: plain_not)

subsection \<open>Queries\<close>

text \<open>A parameter object of the type a query has; a property that is \<open>undefined\<close> counts as absent.\<close>

definition typed_query :: "operation \<Rightarrow> (string \<times> json) list \<Rightarrow> bool" where
  "typed_query op ps \<longleftrightarrow>
     distinct (map fst ps) \<and> conf (QueryOf op) (JObj (filter (\<lambda>(k, v). v \<noteq> JUndef) ps))"

lemma query_part_app: "63 \<notin> set a \<Longrightarrow> query_part (a @ b) = query_part b"
  unfolding query_part_def by (subst dropWhile_append2) auto

lemma drop_query: "63 \<notin> set a \<Longrightarrow> query_part (a @ qs ps) = drop 1 (qs ps)"
  using qs_shape[of ps] query_part_app[of a "qs ps"] by (auto simp: query_part_def)

lemma query_accepted_qs:
  assumes "typed_query op ps" "63 \<notin> set a"
    and "list_all (\<lambda>d. \<not> is_required d) (case op_query op of None \<Rightarrow> [] | Some (_, fs) \<Rightarrow> fs)"
  shows "query_accepted op (a @ qs ps)"
proof -
  obtain r fs where q: "op_query op = Some (r, fs)"
    using assms(1) by (cases "op_query op") (auto simp: typed_query_def QueryOf_def)
  have "k \<in> set (map field_name fs)" if "(k, v) \<in> set ps" "\<not> jnullish v" for k v
    using that assms(1) q by (fastforce simp: typed_query_def QueryOf_def list_all_iff jnullish_def)
  moreover have "distinct (map fst ps)" using assms(1) by (simp add: typed_query_def)
  ultimately show ?thesis
    using assms(2-) q by (fastforce simp: query_accepted_def drop_query qs_parsed[simplified] Let_def list_all_iff key_bytes_def)
qed

lemma is_digit_js: "is_digit c \<Longrightarrow> c \<in> set (js ''0123456789'')"
proof -
  assume "is_digit c"
  then have "unat c \<in> set [48..<58]" unfolding set_upt by (simp add: is_digit_def word_le_nat_alt)
  moreover have "c = of_nat (unat c)" by simp
  ultimately have "c \<in> of_nat ` set [48..<58]" by blast
  then have "c \<in> {48, 49, 50, 51, 52, 53, 54, 55, 56, 57}" by (simp add: upt_rec)
  then show ?thesis by (simp add: js_eval of_char_def)
qed

lemma of_char_in_js: "of_char c \<in> set (js s) \<longleftrightarrow> c \<in> set s"
  by (auto simp: js_def of_char_eq)

lemma js_num_not: "c \<notin> set ''-0123456789'' \<Longrightarrow> js_num i \<noteq> js (c # s)"
proof
  assume c: "c \<notin> set ''-0123456789''" and "js_num i = js (c # s)"
  then consider "is_digit (of_char c)" | "of_char c = (of_char CHR ''-'' :: u16)"
    using js_num_units[of "of_char c" i] by (auto simp: js_Cons of_char_def)
  then have "c \<in> set ''0123456789'' \<or> c = CHR ''-''"
  proof cases
    case 1
    from is_digit_js[OF this] have "c \<in> set ''0123456789''" by (simp only: of_char_in_js)
    then show ?thesis ..
  qed (simp only: of_char_eq simp_thms)
  moreover have "set ''-0123456789'' = insert CHR ''-'' (set ''0123456789'')" by (simp only: list.set)
  ultimately show False using c by blast
qed

lemma query_accepted_one:
  assumes "op_query op = Some (r, fs)" "fs = [d]" "field_name d = k"
    and "38 \<notin> set v" "63 \<notin> set a" "form_decode (js k) = key_bytes k" "38 \<notin> set (js k)" "61 \<notin> set (js k)"
  shows "query_accepted op (a @ 63 # js k @ 61 # v)"
proof -
  have "query_part (a @ 63 # js k @ 61 # v) = js k @ 61 # v"
    using assms(5) by (simp add: query_part_app) (simp add: query_part_def)
  moreover have "takeWhile (\<lambda>c. c \<noteq> 61) (js k @ 61 # v) = js k"
    using assms(8) by (subst takeWhile_append2) auto
  ultimately have "map fst (parse_query (query_part (a @ 63 # js k @ 61 # v))) = [key_bytes k]"
    using assms(4,6,7) by (simp add: parse_query_def js_split_one parse_pair_def)
  with assms(1-3) show ?thesis by (simp add: query_accepted_def Let_def)
qed

section \<open>Well-typed calls\<close>

text \<open>The identifiers of a person that are also the name of a list under the same path.\<close>

definition reserved_ids :: "string set" where
  "reserved_ids = {''branches'', ''summary'', ''export.csv'', ''terminal-name-mismatches''}"

text \<open>The calls the methods of \<open>api\<close> make when their arguments have the types that
  \<open>client.ts\<close> declares, each with the operation it is meant for. What the types do not say is
  said here: an identifier put in a path has no character that means something there, and a date
  put in a query no ampersand.\<close>

inductive typed_call :: "call \<Rightarrow> operation \<Rightarrow> bool" where
  c_login: "typed_call (api_login u p) login_api_v1_auth_login_post"
| c_logout: "typed_call api_logout logout_api_v1_auth_logout_post"
| c_me: "typed_call api_me me_api_v1_auth_me_get"
| c_changePassword: "typed_call (api_changePassword u p) change_password_api_v1_auth_change_password_post"
| c_healthz: "typed_call api_healthz healthz_healthz_get"
| c_health: "typed_call api_health health_api_v1_health_get"
| c_dashboard: "typed_call api_dashboard dashboard_summary_api_v1_dashboard_summary_get"
| c_humans: "typed_query list_humans_api_v1_humans_get ps \<Longrightarrow>
     typed_call (api_humans ps) list_humans_api_v1_humans_get"
| c_human: "\<lbrakk>plain e; e \<notin> js ` reserved_ids\<rbrakk> \<Longrightarrow>
     typed_call (api_human e) get_human_api_v1_humans__employee_id__get"
| c_createHuman: "conf (BodyOf create_human_endpoint_api_v1_humans_post) (stringify b) \<Longrightarrow>
     typed_call (api_createHuman b) create_human_endpoint_api_v1_humans_post"
| c_updateHuman: "\<lbrakk>plain e; conf (BodyOf update_human_endpoint_api_v1_humans__employee_id__patch) (stringify b)\<rbrakk> \<Longrightarrow>
     typed_call (api_updateHuman e b) update_human_endpoint_api_v1_humans__employee_id__patch"
| c_updateHumanEnglishName: "plain e \<Longrightarrow>
     typed_call (api_updateHumanEnglishName e n) update_human_endpoint_api_v1_humans__employee_id__patch"
| c_humanBranches: "typed_call api_humanBranches humans_branches_api_v1_humans_branches_get"
| c_setDepartments: "typed_call (api_setDepartments ns) put_humans_branches_api_v1_humans_branches_put"
| c_bulkScanExempt: "typed_call (api_bulkScanExempt ns f r) bulk_scan_exempt_api_v1_humans_scan_exempt_post"
| c_humansSummary: "typed_call api_humansSummary humans_summary_api_v1_humans_summary_get"
| c_humanTerminalAccounts: "plain e \<Longrightarrow>
     typed_call (api_humanTerminalAccounts e) get_human_terminal_accounts_api_v1_humans__employee_id__terminal_accounts_get"
| c_setScanExempt: "plain e \<Longrightarrow>
     typed_call (api_setScanExempt e f r) update_human_endpoint_api_v1_humans__employee_id__patch"
| c_removeFromScanner: "plain e \<Longrightarrow>
     typed_call (api_removeFromScanner e) remove_from_scanner_api_v1_humans__employee_id__remove_from_scanner_post"
| c_deactivateHuman: "plain e \<Longrightarrow>
     typed_call (api_deactivateHuman e u) deactivate_api_v1_humans__employee_id__deactivate_post"
| c_reactivateHuman: "plain e \<Longrightarrow>
     typed_call (api_reactivateHuman e r) reactivate_api_v1_humans__employee_id__reactivate_post"
| c_syncTerminalName: "plain e \<Longrightarrow>
     typed_call (api_syncTerminalName e) sync_terminal_name_api_v1_humans__employee_id__sync_terminal_name_post"
| c_terminalNameMismatches: "typed_call api_terminalNameMismatches get_terminal_name_mismatches_api_v1_humans_terminal_name_mismatches_get"
| c_syncAllTerminalNames: "typed_call api_syncAllTerminalNames post_sync_all_terminal_names_api_v1_humans_sync_terminal_names_post"
| c_devices: "typed_call api_devices list_devices_api_v1_devices_get"
| c_device: "typed_call (api_device i) get_device_api_v1_devices__device_id__get"
| c_deviceUsers: "typed_query list_device_users_api_v1_device_users_get ps \<Longrightarrow>
     typed_call (api_deviceUsers ps) list_device_users_api_v1_device_users_get"
| c_deviceUser: "typed_call (api_deviceUser i) get_device_user_api_v1_device_users__device_user_pk__get"
| c_attendance: "typed_query list_attendance_api_v1_attendance_get ps \<Longrightarrow>
     typed_call (api_attendance ps) list_attendance_api_v1_attendance_get"
| c_attendanceDetail: "typed_call (api_attendanceDetail i) get_attendance_api_v1_attendance__attendance_id__get"
| c_mappings: "typed_query list_mappings_api_v1_mappings_get ps \<Longrightarrow>
     typed_call (api_mappings ps) list_mappings_api_v1_mappings_get"
| c_mapping: "typed_call (api_mapping i) get_mapping_api_v1_mappings__mapping_id__get"
| c_mappingEligibility: "typed_call api_mappingEligibility mapping_eligibility_api_v1_mappings_eligibility_get"
| c_createMapping: "conf (BodyOf create_mapping_api_v1_mappings_post) (stringify b) \<Longrightarrow>
     typed_call (api_createMapping b) create_mapping_api_v1_mappings_post"
| c_unattributedAttendance: "typed_query unattributed_api_v1_attendance_unattributed_get ps \<Longrightarrow>
     typed_call (api_unattributedAttendance ps) unattributed_api_v1_attendance_unattributed_get"
| c_dailyRoster: "38 \<notin> set (nn d []) \<Longrightarrow>
     typed_call (api_dailyRoster d) get_daily_roster_api_v1_attendance_daily_get"
| c_monthlyReport: "38 \<notin> set u \<Longrightarrow>
     typed_call (api_monthlyReport u) get_monthly_report_api_v1_attendance_monthly_get"
| c_readiness: "typed_call api_readiness get_readiness_api_v1_attendance_readiness_get"
| c_tracking: "typed_call api_tracking get_tracking_api_v1_attendance_tracking_get"
| c_setTracking: "typed_call (api_setTracking u r) post_tracking_api_v1_attendance_tracking_post"
| c_enrollments: "typed_query list_enrollments_api_v1_enrollments_get ps \<Longrightarrow>
     typed_call (api_enrollments ps) list_enrollments_api_v1_enrollments_get"
| c_enrollment: "typed_call (api_enrollment i) get_enrollment_detail_api_v1_enrollments__enrollment_id__get"
| c_enrollmentNextActions: "typed_call (api_enrollmentNextActions i) get_next_actions_api_v1_enrollments__enrollment_id__next_actions_get"
| c_reserveEnrollment: "conf (BodyOf reserve_api_v1_enrollments_reserve_post) (stringify b) \<Longrightarrow>
     typed_call (api_reserveEnrollment b) reserve_api_v1_enrollments_reserve_post"
| c_createTerminalAccount: "typed_call (api_createTerminalAccount i u p) create_terminal_account_api_v1_enrollments__enrollment_id__create_terminal_account_post"
| c_startFingerprintEnrollment: "typed_call (api_startFingerprintEnrollment i u n) start_fingerprint_api_v1_enrollments__enrollment_id__start_fingerprint_enrollment_post"
| c_confirmFingerprintEnrolled: "typed_call (api_confirmFingerprintEnrolled i u n) confirm_fingerprint_api_v1_enrollments__enrollment_id__confirm_fingerprint_post"
| c_startControlledScan: "typed_call (api_startControlledScan i u n) start_scan_window_api_v1_enrollments__enrollment_id__start_controlled_scan_post"
| c_confirmControlledScan: "typed_call (api_confirmControlledScan i u) confirm_scan_api_v1_enrollments__enrollment_id__confirm_controlled_scan_post"
| c_markReadyForMapping: "typed_call (api_markReadyForMapping i u n) mark_ready_api_v1_enrollments__enrollment_id__mark_ready_for_mapping_post"
| c_cancelEnrollment: "typed_call (api_cancelEnrollment i u p) cancel_api_v1_enrollments__enrollment_id__cancel_post"
| c_ranks: "typed_call api_ranks list_ranks_api_v1_reference_ranks_get"
| c_absenceTypes: "typed_call api_absenceTypes get_types_api_v1_absence_types_get"
| c_absences: "typed_query get_absences_api_v1_absences_get ps \<Longrightarrow>
     typed_call (api_absences ps) get_absences_api_v1_absences_get"
| c_createAbsence: "conf (BodyOf post_absence_api_v1_absences_post) (stringify b) \<Longrightarrow>
     typed_call (api_createAbsence b) post_absence_api_v1_absences_post"
| c_cancelAbsence: "typed_call (api_cancelAbsence i u) post_cancel_api_v1_absences__absence_id__cancel_post"
| c_holidays: "typed_call (api_holidays y) get_holidays_api_v1_holidays_get"
| c_setHoliday: "typed_call (api_setHoliday u p) post_holiday_api_v1_holidays_post"
| c_deleteHoliday: "plain e \<Longrightarrow>
     typed_call (api_deleteHoliday e) remove_holiday_api_v1_holidays__holiday_date__delete"
| c_telegramPreview: "typed_call api_telegramPreview preview_telegram_report_api_v1_reports_telegram_preview_get"
| c_telegramSend: "typed_call api_telegramSend send_telegram_report_api_v1_reports_telegram_send_post"
| c_terminalInventory: "typed_call api_terminalInventory get_terminal_inventory_api_v1_terminal_management_inventory_get"
| c_removeTerminalFingerprint: "typed_call (api_removeTerminalFingerprint i u p k) remove_fingerprint_api_v1_terminal_management_fingerprint_remove_post"
| c_removeTerminalAccount: "typed_call (api_removeTerminalAccount i u p f) remove_account_api_v1_terminal_management_account_remove_post"
| c_startFingerprintReenroll: "typed_call (api_startFingerprintReenroll u p) start_fingerprint_reenroll_api_v1_terminal_management_fingerprint_reenroll_post"
| c_fingerprintReenrollStatus: "api_fingerprintReenrollStatus u = Some c \<Longrightarrow>
     typed_call c fingerprint_reenroll_status_api_v1_terminal_management_fingerprint_reenroll_status_get"
| c_listOperators: "typed_call api_listOperators list_operators_api_v1_operators_get"
| c_createOperator: "conf (BodyOf create_operator_api_v1_operators_post) (stringify b) \<Longrightarrow>
     typed_call (api_createOperator b) create_operator_api_v1_operators_post"
| c_toggleOperatorActive: "typed_call (api_toggleOperatorActive i f) toggle_active_api_v1_operators__operator_id__toggle_active_post"
| c_auditEvents: "typed_query list_events_api_v1_audit_events_get ps \<Longrightarrow>
     typed_call (api_auditEvents ps) list_events_api_v1_audit_events_get"
| c_auditEventTypes: "typed_call api_auditEventTypes event_types_api_v1_audit_event_types_get"
| c_writeSessionStatus: "typed_call api_writeSessionStatus get_status_api_v1_write_session_get"
| c_openWriteSession: "typed_call (api_openWriteSession u) open_session_api_v1_write_session_open_post"
| c_closeWriteSession: "typed_call api_closeWriteSession close_session_api_v1_write_session_close_post"
| c_getScheduleSettings: "typed_call api_getScheduleSettings get_schedule_settings_api_v1_admin_schedule_settings_get"
| c_updateScheduleSettings: "typed_call (api_updateScheduleSettings f) update_schedule_settings_api_v1_admin_schedule_settings_post"

section \<open>Every call is served\<close>

lemmas route_eval = api_routes_def routes_case api_get_def send_json_def send_empty_def
  segments_js segments_qs segments_literal matching_groups resource_def rest_tables is_param_js api_paths_def
  plain_simps js_num_not

lemmas accept_eval = accepts_def api_get_def send_json_def send_empty_def question_js plain_simps query_accepted_none
  query_accepted_qs body_accepted_def BodyOf_def j_null_def j_opt_def list.pred_map o_def list.pred_True

lemma servedI: "routes api_routes (call_method c) (call_path c) = [op] \<Longrightarrow> accepts op c \<Longrightarrow> served c op"
  by (simp add: served_def)

text \<open>Sessions and health.\<close>

lemma served_session:
  "served (api_login u p) login_api_v1_auth_login_post"
  "served api_logout logout_api_v1_auth_logout_post"
  "served api_me me_api_v1_auth_me_get"
  "served (api_changePassword u p) change_password_api_v1_auth_change_password_post"
  "served api_healthz healthz_healthz_get"
  "served api_health health_api_v1_health_get"
  "served api_dashboard dashboard_summary_api_v1_dashboard_summary_get"
  by (rule servedI,
    simp add: route_eval api_login_def api_logout_def api_me_def api_changePassword_def api_healthz_def api_health_def
    api_dashboard_def paths_healthz_def,
    simp add: accept_eval api_login_def api_logout_def api_me_def api_changePassword_def api_healthz_def api_health_def
    api_dashboard_def paths_healthz_def login_api_v1_auth_login_post_def schema_LoginRequest_def
    logout_api_v1_auth_logout_post_def me_api_v1_auth_me_get_def
    change_password_api_v1_auth_change_password_post_def schema_ChangePasswordRequest_def
    healthz_healthz_get_def health_api_v1_health_get_def
    dashboard_summary_api_v1_dashboard_summary_get_def
    split: option.splits)+

text \<open>People.\<close>

lemma served_people:
  "typed_query list_humans_api_v1_humans_get ps \<Longrightarrow> served (api_humans ps) list_humans_api_v1_humans_get"
  "plain e \<Longrightarrow> e \<notin> js ` reserved_ids \<Longrightarrow> served (api_human e) get_human_api_v1_humans__employee_id__get"
  "conf (BodyOf create_human_endpoint_api_v1_humans_post) (stringify b) \<Longrightarrow> served (api_createHuman b) create_human_endpoint_api_v1_humans_post"
  "plain e \<Longrightarrow> conf (BodyOf update_human_endpoint_api_v1_humans__employee_id__patch) (stringify b) \<Longrightarrow> served (api_updateHuman e b) update_human_endpoint_api_v1_humans__employee_id__patch"
  "plain e \<Longrightarrow> served (api_updateHumanEnglishName e n) update_human_endpoint_api_v1_humans__employee_id__patch"
  "served api_humanBranches humans_branches_api_v1_humans_branches_get"
  "served (api_setDepartments ns) put_humans_branches_api_v1_humans_branches_put"
  "served (api_bulkScanExempt ns f r) bulk_scan_exempt_api_v1_humans_scan_exempt_post"
  "served api_humansSummary humans_summary_api_v1_humans_summary_get"
  "plain e \<Longrightarrow> served (api_humanTerminalAccounts e) get_human_terminal_accounts_api_v1_humans__employee_id__terminal_accounts_get"
  by (rule servedI,
    simp add: route_eval api_humans_def api_human_def api_createHuman_def api_updateHuman_def
    api_updateHumanEnglishName_def api_humanBranches_def api_setDepartments_def
    api_bulkScanExempt_def api_humansSummary_def api_humanTerminalAccounts_def reserved_ids_def,
    simp add: accept_eval api_humans_def api_human_def api_createHuman_def api_updateHuman_def
    api_updateHumanEnglishName_def api_humanBranches_def api_setDepartments_def
    api_bulkScanExempt_def api_humansSummary_def api_humanTerminalAccounts_def reserved_ids_def
    list_humans_api_v1_humans_get_def get_human_api_v1_humans__employee_id__get_def
    create_human_endpoint_api_v1_humans_post_def
    update_human_endpoint_api_v1_humans__employee_id__patch_def schema_UpdateHumanRequest_def
    humans_branches_api_v1_humans_branches_get_def
    put_humans_branches_api_v1_humans_branches_put_def schema_DepartmentsRequest_def
    bulk_scan_exempt_api_v1_humans_scan_exempt_post_def schema_BulkScanExemptRequest_def
    humans_summary_api_v1_humans_summary_get_def
    get_human_terminal_accounts_api_v1_humans__employee_id__terminal_accounts_get_def
    split: option.splits)+

text \<open>One person.\<close>

lemma served_person:
  "plain e \<Longrightarrow> served (api_setScanExempt e f r) update_human_endpoint_api_v1_humans__employee_id__patch"
  "plain e \<Longrightarrow> served (api_removeFromScanner e) remove_from_scanner_api_v1_humans__employee_id__remove_from_scanner_post"
  "plain e \<Longrightarrow> served (api_deactivateHuman e u) deactivate_api_v1_humans__employee_id__deactivate_post"
  "plain e \<Longrightarrow> served (api_reactivateHuman e r) reactivate_api_v1_humans__employee_id__reactivate_post"
  "plain e \<Longrightarrow> served (api_syncTerminalName e) sync_terminal_name_api_v1_humans__employee_id__sync_terminal_name_post"
  "served api_terminalNameMismatches get_terminal_name_mismatches_api_v1_humans_terminal_name_mismatches_get"
  "served api_syncAllTerminalNames post_sync_all_terminal_names_api_v1_humans_sync_terminal_names_post"
  by (rule servedI,
    simp add: route_eval api_setScanExempt_def api_removeFromScanner_def api_deactivateHuman_def api_reactivateHuman_def
    api_syncTerminalName_def api_terminalNameMismatches_def api_syncAllTerminalNames_def,
    simp add: accept_eval api_setScanExempt_def api_removeFromScanner_def api_deactivateHuman_def api_reactivateHuman_def
    api_syncTerminalName_def api_terminalNameMismatches_def api_syncAllTerminalNames_def
    update_human_endpoint_api_v1_humans__employee_id__patch_def schema_UpdateHumanRequest_def
    remove_from_scanner_api_v1_humans__employee_id__remove_from_scanner_post_def
    deactivate_api_v1_humans__employee_id__deactivate_post_def schema_DeactivateHumanRequest_def
    reactivate_api_v1_humans__employee_id__reactivate_post_def schema_ReactivateHumanRequest_def
    sync_terminal_name_api_v1_humans__employee_id__sync_terminal_name_post_def
    get_terminal_name_mismatches_api_v1_humans_terminal_name_mismatches_get_def
    post_sync_all_terminal_names_api_v1_humans_sync_terminal_names_post_def
    split: option.splits)+

text \<open>Devices, attendance and mappings.\<close>

lemma served_device:
  "served api_devices list_devices_api_v1_devices_get"
  "served (api_device i) get_device_api_v1_devices__device_id__get"
  "typed_query list_device_users_api_v1_device_users_get ps \<Longrightarrow> served (api_deviceUsers ps) list_device_users_api_v1_device_users_get"
  "served (api_deviceUser i) get_device_user_api_v1_device_users__device_user_pk__get"
  "typed_query list_attendance_api_v1_attendance_get ps \<Longrightarrow> served (api_attendance ps) list_attendance_api_v1_attendance_get"
  "served (api_attendanceDetail i) get_attendance_api_v1_attendance__attendance_id__get"
  "typed_query list_mappings_api_v1_mappings_get ps \<Longrightarrow> served (api_mappings ps) list_mappings_api_v1_mappings_get"
  "served (api_mapping i) get_mapping_api_v1_mappings__mapping_id__get"
  "served api_mappingEligibility mapping_eligibility_api_v1_mappings_eligibility_get"
  "conf (BodyOf create_mapping_api_v1_mappings_post) (stringify b) \<Longrightarrow> served (api_createMapping b) create_mapping_api_v1_mappings_post"
  by (rule servedI,
    simp add: route_eval api_devices_def api_device_def api_deviceUsers_def api_deviceUser_def api_attendance_def
    api_attendanceDetail_def api_mappings_def api_mapping_def api_mappingEligibility_def
    api_createMapping_def,
    simp add: accept_eval api_devices_def api_device_def api_deviceUsers_def api_deviceUser_def api_attendance_def
    api_attendanceDetail_def api_mappings_def api_mapping_def api_mappingEligibility_def
    api_createMapping_def list_devices_api_v1_devices_get_def
    get_device_api_v1_devices__device_id__get_def list_device_users_api_v1_device_users_get_def
    get_device_user_api_v1_device_users__device_user_pk__get_def
    list_attendance_api_v1_attendance_get_def
    get_attendance_api_v1_attendance__attendance_id__get_def list_mappings_api_v1_mappings_get_def
    get_mapping_api_v1_mappings__mapping_id__get_def
    mapping_eligibility_api_v1_mappings_eligibility_get_def create_mapping_api_v1_mappings_post_def
    split: option.splits)+

text \<open>Attendance.\<close>

lemma served_attendance:
  "typed_query unattributed_api_v1_attendance_unattributed_get ps \<Longrightarrow> served (api_unattributedAttendance ps) unattributed_api_v1_attendance_unattributed_get"
  "served api_readiness get_readiness_api_v1_attendance_readiness_get"
  "served api_tracking get_tracking_api_v1_attendance_tracking_get"
  "served (api_setTracking u r) post_tracking_api_v1_attendance_tracking_post"
  by (rule servedI,
    simp add: route_eval api_unattributedAttendance_def api_readiness_def api_tracking_def api_setTracking_def,
    simp add: accept_eval api_unattributedAttendance_def api_readiness_def api_tracking_def api_setTracking_def
    unattributed_api_v1_attendance_unattributed_get_def
    get_readiness_api_v1_attendance_readiness_get_def
    get_tracking_api_v1_attendance_tracking_get_def
    post_tracking_api_v1_attendance_tracking_post_def schema_TrackingModeRequest_def
    split: option.splits)+

text \<open>Enrollments.\<close>

lemma served_enrollment:
  "typed_query list_enrollments_api_v1_enrollments_get ps \<Longrightarrow> served (api_enrollments ps) list_enrollments_api_v1_enrollments_get"
  "served (api_enrollment i) get_enrollment_detail_api_v1_enrollments__enrollment_id__get"
  "served (api_enrollmentNextActions i) get_next_actions_api_v1_enrollments__enrollment_id__next_actions_get"
  "conf (BodyOf reserve_api_v1_enrollments_reserve_post) (stringify b) \<Longrightarrow> served (api_reserveEnrollment b) reserve_api_v1_enrollments_reserve_post"
  "served (api_createTerminalAccount i u p) create_terminal_account_api_v1_enrollments__enrollment_id__create_terminal_account_post"
  "served (api_startFingerprintEnrollment i u n) start_fingerprint_api_v1_enrollments__enrollment_id__start_fingerprint_enrollment_post"
  "served (api_confirmFingerprintEnrolled i u n) confirm_fingerprint_api_v1_enrollments__enrollment_id__confirm_fingerprint_post"
  "served (api_startControlledScan i u n) start_scan_window_api_v1_enrollments__enrollment_id__start_controlled_scan_post"
  "served (api_confirmControlledScan i u) confirm_scan_api_v1_enrollments__enrollment_id__confirm_controlled_scan_post"
  "served (api_markReadyForMapping i u n) mark_ready_api_v1_enrollments__enrollment_id__mark_ready_for_mapping_post"
  "served (api_cancelEnrollment i u p) cancel_api_v1_enrollments__enrollment_id__cancel_post"
  by (rule servedI,
    simp add: route_eval api_enrollments_def api_enrollment_def api_enrollmentNextActions_def api_reserveEnrollment_def
    api_createTerminalAccount_def api_startFingerprintEnrollment_def
    api_confirmFingerprintEnrolled_def api_startControlledScan_def api_confirmControlledScan_def
    api_markReadyForMapping_def api_cancelEnrollment_def enrollmentTransition_def
    js_append[symmetric],
    simp add: accept_eval api_enrollments_def api_enrollment_def api_enrollmentNextActions_def api_reserveEnrollment_def
    api_createTerminalAccount_def api_startFingerprintEnrollment_def
    api_confirmFingerprintEnrolled_def api_startControlledScan_def api_confirmControlledScan_def
    api_markReadyForMapping_def api_cancelEnrollment_def enrollmentTransition_def
    js_append[symmetric] list_enrollments_api_v1_enrollments_get_def
    get_enrollment_detail_api_v1_enrollments__enrollment_id__get_def
    get_next_actions_api_v1_enrollments__enrollment_id__next_actions_get_def
    reserve_api_v1_enrollments_reserve_post_def
    create_terminal_account_api_v1_enrollments__enrollment_id__create_terminal_account_post_def
    schema_CreateTerminalAccountRequest_def
    start_fingerprint_api_v1_enrollments__enrollment_id__start_fingerprint_enrollment_post_def
    schema_TransitionRequest_def
    confirm_fingerprint_api_v1_enrollments__enrollment_id__confirm_fingerprint_post_def
    start_scan_window_api_v1_enrollments__enrollment_id__start_controlled_scan_post_def
    confirm_scan_api_v1_enrollments__enrollment_id__confirm_controlled_scan_post_def
    schema_ScanConfirmationRequest_def
    mark_ready_api_v1_enrollments__enrollment_id__mark_ready_for_mapping_post_def
    cancel_api_v1_enrollments__enrollment_id__cancel_post_def
    split: option.splits)+

text \<open>Reference data, absences, holidays and reports.\<close>

lemma served_absence:
  "served api_ranks list_ranks_api_v1_reference_ranks_get"
  "served api_absenceTypes get_types_api_v1_absence_types_get"
  "typed_query get_absences_api_v1_absences_get ps \<Longrightarrow> served (api_absences ps) get_absences_api_v1_absences_get"
  "conf (BodyOf post_absence_api_v1_absences_post) (stringify b) \<Longrightarrow> served (api_createAbsence b) post_absence_api_v1_absences_post"
  "served (api_cancelAbsence i u) post_cancel_api_v1_absences__absence_id__cancel_post"
  "served (api_setHoliday u p) post_holiday_api_v1_holidays_post"
  "plain e \<Longrightarrow> served (api_deleteHoliday e) remove_holiday_api_v1_holidays__holiday_date__delete"
  "served api_telegramPreview preview_telegram_report_api_v1_reports_telegram_preview_get"
  "served api_telegramSend send_telegram_report_api_v1_reports_telegram_send_post"
  by (rule servedI,
    simp add: route_eval api_ranks_def api_absenceTypes_def api_absences_def api_createAbsence_def api_cancelAbsence_def
    api_setHoliday_def api_deleteHoliday_def api_telegramPreview_def api_telegramSend_def,
    simp add: accept_eval api_ranks_def api_absenceTypes_def api_absences_def api_createAbsence_def api_cancelAbsence_def
    api_setHoliday_def api_deleteHoliday_def api_telegramPreview_def api_telegramSend_def
    list_ranks_api_v1_reference_ranks_get_def get_types_api_v1_absence_types_get_def
    get_absences_api_v1_absences_get_def post_absence_api_v1_absences_post_def
    post_cancel_api_v1_absences__absence_id__cancel_post_def schema_CancelAbsenceRequest_def
    post_holiday_api_v1_holidays_post_def schema_Holiday_def
    remove_holiday_api_v1_holidays__holiday_date__delete_def
    preview_telegram_report_api_v1_reports_telegram_preview_get_def
    send_telegram_report_api_v1_reports_telegram_send_post_def
    split: option.splits)+

text \<open>Terminal management.\<close>

lemma served_terminal:
  "served api_terminalInventory get_terminal_inventory_api_v1_terminal_management_inventory_get"
  "served (api_removeTerminalFingerprint i u p k) remove_fingerprint_api_v1_terminal_management_fingerprint_remove_post"
  "served (api_removeTerminalAccount i u p f) remove_account_api_v1_terminal_management_account_remove_post"
  "served (api_startFingerprintReenroll u p) start_fingerprint_reenroll_api_v1_terminal_management_fingerprint_reenroll_post"
  by (rule servedI,
    simp add: route_eval api_terminalInventory_def api_removeTerminalFingerprint_def api_removeTerminalAccount_def
    api_startFingerprintReenroll_def,
    simp add: accept_eval api_terminalInventory_def api_removeTerminalFingerprint_def api_removeTerminalAccount_def
    api_startFingerprintReenroll_def
    get_terminal_inventory_api_v1_terminal_management_inventory_get_def
    remove_fingerprint_api_v1_terminal_management_fingerprint_remove_post_def
    schema_RemoveFingerprintRequest_def
    remove_account_api_v1_terminal_management_account_remove_post_def
    schema_RemoveAccountRequest_def
    start_fingerprint_reenroll_api_v1_terminal_management_fingerprint_reenroll_post_def
    schema_StartFingerprintReenrollRequest_def
    split: option.splits)+

text \<open>Operators, audit, work session and schedule.\<close>

lemma served_admin:
  "served api_listOperators list_operators_api_v1_operators_get"
  "conf (BodyOf create_operator_api_v1_operators_post) (stringify b) \<Longrightarrow> served (api_createOperator b) create_operator_api_v1_operators_post"
  "served (api_toggleOperatorActive i f) toggle_active_api_v1_operators__operator_id__toggle_active_post"
  "typed_query list_events_api_v1_audit_events_get ps \<Longrightarrow> served (api_auditEvents ps) list_events_api_v1_audit_events_get"
  "served api_auditEventTypes event_types_api_v1_audit_event_types_get"
  "served api_writeSessionStatus get_status_api_v1_write_session_get"
  "served (api_openWriteSession u) open_session_api_v1_write_session_open_post"
  "served api_closeWriteSession close_session_api_v1_write_session_close_post"
  "served api_getScheduleSettings get_schedule_settings_api_v1_admin_schedule_settings_get"
  "served (api_updateScheduleSettings f) update_schedule_settings_api_v1_admin_schedule_settings_post"
  by (rule servedI,
    simp add: route_eval api_listOperators_def api_createOperator_def api_toggleOperatorActive_def api_auditEvents_def
    api_auditEventTypes_def api_writeSessionStatus_def api_openWriteSession_def
    api_closeWriteSession_def api_getScheduleSettings_def api_updateScheduleSettings_def,
    simp add: accept_eval api_listOperators_def api_createOperator_def api_toggleOperatorActive_def api_auditEvents_def
    api_auditEventTypes_def api_writeSessionStatus_def api_openWriteSession_def
    api_closeWriteSession_def api_getScheduleSettings_def api_updateScheduleSettings_def
    list_operators_api_v1_operators_get_def create_operator_api_v1_operators_post_def
    toggle_active_api_v1_operators__operator_id__toggle_active_post_def
    schema_ToggleActiveRequest_def list_events_api_v1_audit_events_get_def
    event_types_api_v1_audit_event_types_get_def get_status_api_v1_write_session_get_def
    open_session_api_v1_write_session_open_post_def schema_OpenWriteSessionRequest_def
    close_session_api_v1_write_session_close_post_def
    get_schedule_settings_api_v1_admin_schedule_settings_get_def
    update_schedule_settings_api_v1_admin_schedule_settings_post_def
    schema_ScheduleToggleRequest_def
    split: option.splits)+

text \<open>The calls that put one value in the query themselves.\<close>

lemma form_decode_id: "list_all (\<lambda>c. c \<noteq> 37 \<and> c \<noteq> 43) s \<Longrightarrow> form_decode s = map unat s"
  by (induction s) (simp_all add: form_decode_plain)

lemma utf8_ascii: "list_all (\<lambda>c. c < 128) s \<Longrightarrow> utf8_bytes s = map unat s"
proof (induction s rule: code_points.induct)
  case (2 c)
  then show ?case by (auto simp: utf8_bytes_def utf8_def nn_def is_high_def is_low_def word_less_nat_alt word_le_nat_alt)
next
  case (3 c d s)
  then have "\<not> is_high c" "\<not> is_low c" "unat c < 128"
    by (auto simp: is_high_def is_low_def word_less_nat_alt word_le_nat_alt)
  with 3 show ?case by (simp add: utf8_bytes_def utf8_def nn_def)
qed (simp add: utf8_bytes_def)

lemma routes_query: "routes rs m (js a @ 63 # s) = routes rs m (js a)"
  unfolding routes_def segments_query ..

lemma served_one_query:
  assumes "routes api_routes m (js a) = [op]" "op_query op = Some (r, [d])" "op_body op = None"
    and "field_name d = k" "38 \<notin> set v" "CHR ''?'' \<notin> set a" "k \<in> {''date'', ''month'', ''year'', ''device_user_id''}"
  shows "served \<lparr>call_path = js a @ js (''?'' @ k @ ''='') @ v, call_method = m, call_body = None\<rparr> op"
proof -
  have k: "form_decode (js k) = key_bytes k" "38 \<notin> set (js k)" "61 \<notin> set (js k)"
    using assms(7) by (auto simp: key_bytes_def form_decode_id utf8_ascii js_eval of_char_def)
  have e: "js (''?'' @ k @ ''='') @ v = 63 # js k @ 61 # v"
    by (simp add: js_append js_Cons js_def of_char_def)
  have "query_accepted op (js a @ 63 # js k @ 61 # v)"
    using query_accepted_one[OF assms(2) refl assms(4,5)] k assms(6) by (simp add: question_js)
  with assms(1,3) show ?thesis
    unfolding served_def accepts_def e by (simp add: routes_query body_accepted_def)
qed

lemma js_app: "js x @ js y @ z = js (x @ y) @ z"
  by (simp add: js_append)

lemma one_query_routes:
  "routes api_routes ''GET'' (js ''/api/v1/attendance/daily'') = [get_daily_roster_api_v1_attendance_daily_get]"
  "routes api_routes ''GET'' (js ''/api/v1/attendance/monthly'') = [get_monthly_report_api_v1_attendance_monthly_get]"
  "routes api_routes ''GET'' (js ''/api/v1/holidays'') = [get_holidays_api_v1_holidays_get]"
  "routes api_routes ''GET'' (js ''/api/v1/terminal-management/fingerprint/reenroll-status'') =
     [fingerprint_reenroll_status_api_v1_terminal_management_fingerprint_reenroll_status_get]"
  by (simp_all add: route_eval)

lemma served_no_query:
  assumes "routes api_routes m (js a) = [op]" "op_query op = Some (False, [Opt k t])" "op_body op = None" "CHR ''?'' \<notin> set a"
  shows "served \<lparr>call_path = js a, call_method = m, call_body = None\<rparr> op"
  using assms by (simp add: served_def accepts_def query_accepted_none question_js body_accepted_def)

lemma served_dailyRoster:
  assumes "38 \<notin> set (nn d [])"
  shows "served (api_dailyRoster d) get_daily_roster_api_v1_attendance_daily_get"
proof (cases "truthy d")
  case True
  then show ?thesis
    using assms served_one_query[OF one_query_routes(1), where k="''date''" and v="the d"]
    by (auto simp: api_dailyRoster_def api_get_def get_daily_roster_api_v1_attendance_daily_get_def truthy_def nn_def
        split: option.splits)
next
  case False
  then show ?thesis
    using served_no_query[OF one_query_routes(1)]
    by (simp add: api_dailyRoster_def api_get_def get_daily_roster_api_v1_attendance_daily_get_def)
qed

lemma served_monthlyReport:
  "38 \<notin> set u \<Longrightarrow> served (api_monthlyReport u) get_monthly_report_api_v1_attendance_monthly_get"
  using served_one_query[OF one_query_routes(2), where k="''month''" and v=u]
  by (simp add: api_monthlyReport_def api_get_def get_monthly_report_api_v1_attendance_monthly_get_def
      js_app)

lemma served_holidays: "served (api_holidays y) get_holidays_api_v1_holidays_get"
proof (cases "y = None \<or> y = Some 0")
  case True
  then show ?thesis
    using served_no_query[OF one_query_routes(3)]
    by (auto simp: api_holidays_def api_get_def get_holidays_api_v1_holidays_get_def)
next
  case False
  then obtain n where y: "y = Some n" "n \<noteq> 0" by auto
  show ?thesis
    using y served_one_query[OF one_query_routes(3), where k="''year''" and v="js_num n"] plain_not(4)[OF plain_js_num]
    by (simp add: api_holidays_def api_get_def get_holidays_api_v1_holidays_get_def)
qed

lemma uri_byte_units: "b < 256 \<Longrightarrow> 38 \<notin> set (uri_byte b)"
proof
  assume b: "b < 256" and "38 \<in> set (uri_byte b)"
  moreover have "hexd n \<noteq> 38" if "n < 16" for n
    using that unat_hexd[OF that] by (auto split: if_splits)
  moreover have "b div 16 < 16" "b mod 16 < 16" using b by auto
  moreover have "(of_nat b :: u16) = 38 \<longleftrightarrow> b = 38"
    using b unat_u16_of_nat[OF b] by auto
  ultimately show False by (auto simp: uri_byte_def pct_def alnum_def split: if_splits)
qed

lemma encoded_no_sep: "encodeURIComponent u = Some s \<Longrightarrow> 38 \<notin> set s"
  using uri_byte_units utf8_bytes_lt by (fastforce simp: encodeURIComponent_def split: if_splits)

lemma served_reenrollStatus:
  assumes "api_fingerprintReenrollStatus u = Some c"
  shows "served c fingerprint_reenroll_status_api_v1_terminal_management_fingerprint_reenroll_status_get"
proof -
  obtain s where s: "encodeURIComponent u = Some s"
    and c: "c = api_get (js ''/api/v1/terminal-management/fingerprint/reenroll-status?device_user_id='' @ s)"
    using assms by (auto simp: api_fingerprintReenrollStatus_def)
  have e: "js ''/api/v1/terminal-management/fingerprint/reenroll-status?device_user_id='' @ s =
      js ''/api/v1/terminal-management/fingerprint/reenroll-status'' @ js (''?'' @ ''device_user_id'' @ ''='') @ s"
    by (simp add: js_app)
  show ?thesis unfolding c e api_get_def
    by (rule served_one_query[OF one_query_routes(4), where d="Req ''device_user_id'' TStr"])
      (use encoded_no_sep[OF s] in \<open>simp_all add:
        fingerprint_reenroll_status_api_v1_terminal_management_fingerprint_reenroll_status_get_def\<close>)
qed

lemmas served_calls = served_session served_people served_person served_device served_attendance
  served_enrollment served_absence served_terminal served_admin served_dailyRoster served_monthlyReport
  served_holidays served_reenrollStatus

lemma typed_call_served: "typed_call c op \<Longrightarrow> served c op"
  by (cases rule: typed_call.cases) (auto intro: served_calls)

text \<open>C10: Whatever method of the API client is called, with arguments of the types it declares, the
  request reaches exactly one operation of the server's contract, the one the method is meant
  for, and that operation accepts it: the path is one the server has, each query parameter is
  declared and none that is required is missing, and the body has the declared type (every
  required field, no unknown field), or there is none when the operation has none.\<close>

theorem calls_keep_contract:
  assumes "typed_call c op"
  shows "routes api_routes (call_method c) (call_path c) = [op] \<and> accepts op c"
  using typed_call_served[OF assms] by (simp only: served_def)

theorem calls_keep_contract_witness:
  "routes api_routes ''POST'' (js ''/api/v1/humans/P-7/deactivate'') =
     [deactivate_api_v1_humans__employee_id__deactivate_post]"
proof -
  have "plain (js ''P-7'')" by (simp add: plain_def js_eval of_char_def)
  from calls_keep_contract[OF typed_call.c_deactivateHuman[OF this, of "js ''moved''"]]
  show ?thesis by (simp add: api_deactivateHuman_def send_json_def js_append[symmetric])
qed

text \<open>The downloads and uploads, which do not go through \<open>request\<close>.\<close>

lemma download_routes:
  "routes api_routes ''GET'' (exportHumansCsv_path a) = [export_humans_api_v1_humans_export_csv_get]"
  "routes api_routes ''GET'' importTemplateCsv_path = [download_import_template_api_v1_humans_import_template_csv_get]"
  "routes api_routes ''GET'' absenceTemplate_path = [get_absence_template_api_v1_absences_import_template_get]"
  "routes api_routes ''GET'' (monthlyReportCsv_path u) = [get_monthly_report_csv_api_v1_attendance_monthly_csv_get]"
proof -
  have e: "js (s @ ''?month='') = js s @ 63 # js ''month=''" "js (CHR ''?'' # x) = 63 # js x" for s x
    by (simp_all add: js_append js_Cons js_def of_char_def)
  show "routes api_routes ''GET'' (exportHumansCsv_path a) = [export_humans_api_v1_humans_export_csv_get]"
    by (cases a) (simp_all add: exportHumansCsv_path_def e routes_query, simp_all add: route_eval)
  show "routes api_routes ''GET'' (monthlyReportCsv_path u) = [get_monthly_report_csv_api_v1_attendance_monthly_csv_get]"
    using e(1)[of "''/api/v1/attendance/monthly.csv''"]
    by (simp add: monthlyReportCsv_path_def routes_query) (simp add: route_eval)
qed (simp_all add: importTemplateCsv_path_def absenceTemplate_path_def route_eval)

lemma upload_routes:
  "routes api_routes ''POST'' previewHumansImport_path = [preview_import_api_v1_humans_import_preview_post]"
  "routes api_routes ''POST'' commitHumansImport_path = [commit_import_api_v1_humans_import_commit_post]"
  "routes api_routes ''POST'' (absenceImport_path b) =
     [if b then post_absence_import_commit_api_v1_absences_import_commit_post
      else post_absence_import_preview_api_v1_absences_import_preview_post]"
  by (simp_all add: previewHumansImport_path_def commitHumansImport_path_def absenceImport_path_def
      js_append[symmetric] route_eval)

lemma upload_field:
  "op \<in> {preview_import_api_v1_humans_import_preview_post, commit_import_api_v1_humans_import_commit_post,
      post_absence_import_commit_api_v1_absences_import_commit_post,
      post_absence_import_preview_api_v1_absences_import_preview_post} \<Longrightarrow>
   op_body op = Some (True, ''multipart/form-data'', TObj [Req ''file'' TStr]) \<and>
   req_payload (upload_send base ss path f) = FormBody ''file'' f"
  by (auto simp: upload_send_def
      preview_import_api_v1_humans_import_preview_post_def commit_import_api_v1_humans_import_commit_post_def
      post_absence_import_commit_api_v1_absences_import_commit_post_def
      post_absence_import_preview_api_v1_absences_import_preview_post_def
      schema_Body_preview_import_api_v1_humans_import_preview_post_def
      schema_Body_commit_import_api_v1_humans_import_commit_post_def
      schema_Body_post_absence_import_commit_api_v1_absences_import_commit_post_def
      schema_Body_post_absence_import_preview_api_v1_absences_import_preview_post_def)

text \<open>Recording an absence answers 201; the type the client gives its reply is the one of status
  200, which is \<open>never\<close>.\<close>

lemma created_absence_type:
  "JsonResponse post_absence_api_v1_absences_post 200 = TNever"
  "JsonResponse post_absence_api_v1_absences_post 201 = schema_Absence"
  by (simp_all add: JsonResponse_def post_absence_api_v1_absences_post_def)

end
