(* ===== verification/Page_Requests.thy ===== *)
theory Page_Requests
  imports Api_Calls Enrollment_Page Mappings Personnel_Form Personnel_Page Absence_Page System_Page
    Roster_Pages Attendance_Pages Reading_Pages
begin

text \<open>
  The requests with a query or a body that the pages put together themselves, against the
  contract: the fetchers given to \<open>useApi\<close>, and the bodies of the forms.
\<close>

section \<open>The fetchers of the lists\<close>

text \<open>The enrollment page's queue and its people and the page of mappings; the people of the absence
  form; the absences of one person; the scans nobody is known for.\<close>

definition enrollments_list :: call where
  "enrollments_list = api_enrollments [(''limit'', JNum 100)]"

definition eligible_list :: call where
  "eligible_list = api_humans [(''production_scope'', JBool True), (''scan_status'', JStr (js ''needs_enrollment'')),
     (''limit'', JNum 200)]"

definition mappings_list :: call where
  "mappings_list = api_mappings [(''limit'', JNum 100)]"

definition absence_people :: call where
  "absence_people = api_humans [(''active'', JBool True), (''production_scope'', JBool True), (''limit'', JNum 200)]"

definition person_absences :: "jstr \<Rightarrow> call" where
  "person_absences employeeId = api_absences [(''employee_id'', JStr employeeId), (''limit'', JNum 50)]"

definition unattributed_list :: call where
  "unattributed_list = api_unattributedAttendance [(''limit'', JNum 200)]"

section \<open>What the pages send\<close>

text \<open>The numbers a select box holds are numbers: \<open>limit\<close> of the attendance page is one of the
  options, and a reservation is sent for a device that was picked.\<close>

inductive page_request :: "call \<Rightarrow> operation \<Rightarrow> bool" where
  p_enrollments: "page_request enrollments_list list_enrollments_api_v1_enrollments_get"
| p_eligible: "page_request eligible_list list_humans_api_v1_humans_get"
| p_mappings: "page_request mappings_list list_mappings_api_v1_mappings_get"
| p_absence_people: "page_request absence_people list_humans_api_v1_humans_get"
| p_person_absences: "page_request (person_absences i) get_absences_api_v1_absences_get"
| p_unattributed: "page_request unattributed_list unattributed_api_v1_attendance_unattributed_get"
| p_humans: "page_request (humans_query s) list_humans_api_v1_humans_get"
| p_absences: "page_request (absences_query s) get_absences_api_v1_absences_get"
| p_audit: "page_request (audit_query s) list_events_api_v1_audit_events_get"
| p_attendance: "an_limit s \<noteq> None \<Longrightarrow> page_request (attendance_query s) list_attendance_api_v1_attendance_get"
| p_device_users: "c \<in> set devices_queries \<Longrightarrow> c \<noteq> api_devices \<Longrightarrow>
    page_request c list_device_users_api_v1_device_users_get"
| p_create: "page_request (api_createHuman (form_fields (j_opt JStr) s)) create_human_endpoint_api_v1_humans_post"
| p_update: "plain i \<Longrightarrow>
    page_request (api_updateHuman i (form_fields (j_null JStr) s)) update_human_endpoint_api_v1_humans__employee_id__patch"
| p_absence: "page_request (api_createAbsence (absence_body s)) post_absence_api_v1_absences_post"
| p_operator: "page_request (api_createOperator (operator_body s)) create_operator_api_v1_operators_post"
| p_reserve: "js_Number d \<noteq> None \<Longrightarrow>
    page_request (reserve_call i d u) reserve_api_v1_enrollments_reserve_post"
| p_mapping: "page_request (createMapping_call i u n) create_mapping_api_v1_mappings_post"

text \<open>An object built field by field: it is enough to look at each field alone.\<close>

fun field_type :: "field \<Rightarrow> ty" where
  "field_type (Req k t) = t"
| "field_type (Opt k t) = t"

lemma map_of_stringify:
  "map_of (map (\<lambda>(k, v). (k, stringify v)) (filter (\<lambda>(k, v). v \<noteq> JUndef) fs)) k = Some x \<Longrightarrow>
   \<exists>v. (k, v) \<in> set fs \<and> v \<noteq> JUndef \<and> x = stringify v"
  by (auto dest!: map_of_SomeD)

lemma conf_object:
  assumes "distinct (map field_name ds)"
    and fields: "list_all (\<lambda>(k, v). v \<noteq> JUndef \<longrightarrow>
      list_ex (\<lambda>d. field_name d = k \<and> conf (field_type d) (stringify v)) ds) fs"
    and required: "list_all (\<lambda>d. is_required d \<longrightarrow> list_ex (\<lambda>(k, v). k = field_name d \<and> v \<noteq> JUndef) fs) ds"
  shows "conf (TObj ds) (stringify (JObj fs))"
proof -
  let ?fs = "map (\<lambda>(k, v). (k, stringify v)) (filter (\<lambda>(k, v). v \<noteq> JUndef) fs)"
  have typed: "conf (field_type d) x" if d: "d \<in> set ds" and x: "map_of ?fs (field_name d) = Some x" for d x
  proof -
    obtain v where v: "(field_name d, v) \<in> set fs" "v \<noteq> JUndef" "x = stringify v"
      using map_of_stringify[OF x] by blast
    then obtain d' where "d' \<in> set ds" "field_name d' = field_name d" "conf (field_type d') x"
      using fields by (fastforce simp: list_all_iff list_ex_iff)
    with d assms(1) show ?thesis by (metis distinct_map inj_onD)
  qed
  have present: "map_of ?fs (field_name d) \<noteq> None" if d: "d \<in> set ds" "is_required d" for d
  proof -
    obtain v where "(field_name d, v) \<in> set fs" "v \<noteq> JUndef"
      using d required unfolding list_all_iff list_ex_iff by fastforce
    then have "(field_name d, stringify v) \<in> set ?fs" by auto
    then show ?thesis by (metis weak_map_of_SomeI option.distinct(1))
  qed
  have "conf_field d ?fs" if d: "d \<in> set ds" for d
    using typed[OF d] present[OF d] by (cases d) (auto split: option.split)
  moreover have "fst e \<in> set (map field_name ds)" if "e \<in> set ?fs" for e
    using that fields by (fastforce simp: list_all_iff list_ex_iff)
  ultimately show ?thesis by (simp add: list_all_iff)
qed

lemma nullable_text [simp]:
  "stringify (j_null JStr x) = j_null JStr x" "stringify (j_opt JStr x) = j_opt JStr x"
  "(case j_null JStr x of JStr y \<Rightarrow> True | _ \<Rightarrow> False) \<or> j_null JStr x = JNull"
  "j_opt JStr x \<noteq> JUndef \<longrightarrow> (case j_opt JStr x of JStr y \<Rightarrow> True | _ \<Rightarrow> False) \<or> j_opt JStr x = JNull"
  "j_opt JBool b \<noteq> JUndef \<longrightarrow> (case j_opt JBool b of JBool y \<Rightarrow> True | _ \<Rightarrow> False) \<or> j_opt JBool b = JNull"
  by (cases x; cases b; simp add: j_null_def j_opt_def)+

lemma conf_body:
  assumes "BodyOf op = TObj ds" "distinct (map field_name ds)"
    and "list_all (\<lambda>(k, v). v \<noteq> JUndef \<longrightarrow>
      list_ex (\<lambda>d. field_name d = k \<and> conf (field_type d) (stringify v)) ds) fs"
    and "list_all (\<lambda>d. is_required d \<longrightarrow> list_ex (\<lambda>(k, v). k = field_name d \<and> v \<noteq> JUndef) fs) ds"
  shows "conf (BodyOf op) (stringify (JObj fs))"
  using conf_object[OF assms(2-4)] by (simp only: assms(1))

lemma form_bodies:
  "conf (BodyOf create_human_endpoint_api_v1_humans_post) (stringify (form_fields (j_opt JStr) s))"
  "conf (BodyOf update_human_endpoint_api_v1_humans__employee_id__patch) (stringify (form_fields (j_null JStr) s))"
  unfolding form_fields_def
  by (rule conf_body, simp add: BodyOf_def create_human_endpoint_api_v1_humans_post_def
      update_human_endpoint_api_v1_humans__employee_id__patch_def schema_CreateHumanRequest_def schema_UpdateHumanRequest_def,
      simp, simp, simp)+

lemma other_bodies:
  "conf (BodyOf post_absence_api_v1_absences_post) (stringify (absence_body a))"
  "conf (BodyOf create_operator_api_v1_operators_post) (stringify (operator_body oa))"
  unfolding absence_body_def operator_body_def
  by (rule conf_body, simp add: BodyOf_def post_absence_api_v1_absences_post_def
      create_operator_api_v1_operators_post_def schema_CreateAbsenceRequest_def schema_CreateOperatorRequest_def,
      simp, simp, simp)+

lemma enrollment_bodies:
  "js_Number d \<noteq> None \<Longrightarrow> typed_call (reserve_call i d u) reserve_api_v1_enrollments_reserve_post"
  "typed_call (createMapping_call k u v) create_mapping_api_v1_mappings_post"
  unfolding reserve_call_def createMapping_call_def
  by (rule c_reserveEnrollment c_createMapping, rule conf_body, simp add: BodyOf_def
      reserve_api_v1_enrollments_reserve_post_def create_mapping_api_v1_mappings_post_def
      schema_ReserveRequest_def schema_CreateMappingRequest_def, simp,
      force simp: json_number_def, force simp: json_number_def)+

lemmas fetcher_defs = enrollments_list_def eligible_list_def mappings_list_def absence_people_def
  person_absences_def unattributed_list_def humans_query_def absences_query_def audit_query_def attendance_query_def
  devices_queries_def

lemma typed_query_object:
  assumes "QueryOf op = TObj ds" "distinct (map field_name ds)" "distinct (map fst ps)"
    and "list_all (\<lambda>(k, v). v \<noteq> JUndef \<longrightarrow> list_ex (\<lambda>d. field_name d = k \<and> conf (field_type d) v) ds) ps"
    and "list_all (\<lambda>d. \<not> is_required d) ds"
  shows "typed_query op ps"
proof -
  let ?ps = "filter (\<lambda>(k, v). v \<noteq> JUndef) ps"
  have "conf_field d ?ps" if d: "d \<in> set ds" for d
  proof -
    have "conf (field_type d) x" if "(field_name d, x) \<in> set ?ps" for x
    proof -
      from that obtain d' where "d' \<in> set ds" "field_name d' = field_name d" "conf (field_type d') x"
        using assms(4) by (fastforce simp: list_all_iff list_ex_iff)
      with d assms(2) show ?thesis by (metis distinct_map inj_onD)
    qed
    then show ?thesis
      using d assms(5) by (cases d) (auto simp: list_all_iff split: option.split dest: map_of_SomeD)
  qed
  moreover have "fst e \<in> set (map field_name ds)" if "e \<in> set ?ps" for e
    using that assms(4) by (fastforce simp: list_all_iff list_ex_iff)
  ultimately show ?thesis using assms(1,3) by (simp add: typed_query_def list_all_iff)
qed

lemma typed_fetchers:
  "typed_query list_humans_api_v1_humans_get [(''limit'', JNum n), (''offset'', JNum m), (''search'', j_opt JStr x),
     (''production_scope'', j_opt JBool p), (''active'', j_opt JBool a), (''scan_status'', j_opt JStr y),
     (''branch'', j_opt JStr z)]"
  "typed_query get_absences_api_v1_absences_get [(''limit'', JNum n), (''offset'', JNum m),
     (''on_or_after'', j_opt JStr x), (''include_cancelled'', JBool b), (''search'', j_opt JStr y)]"
  by (rule typed_query_object, simp add: QueryOf_def list_humans_api_v1_humans_get_def get_absences_api_v1_absences_get_def,
     simp, simp, simp, simp)+

lemma typed_fixed:
  "typed_query list_enrollments_api_v1_enrollments_get [(''limit'', JNum n)]"
  "typed_query list_humans_api_v1_humans_get
     [(''production_scope'', JBool b), (''scan_status'', JStr x), (''limit'', JNum n)]"
  "typed_query list_humans_api_v1_humans_get
     [(''active'', JBool b), (''production_scope'', JBool c), (''limit'', JNum n)]"
  "typed_query list_mappings_api_v1_mappings_get [(''limit'', JNum n)]"
  "typed_query get_absences_api_v1_absences_get [(''employee_id'', JStr x), (''limit'', JNum n)]"
  "typed_query unattributed_api_v1_attendance_unattributed_get [(''limit'', JNum n)]"
  "typed_query list_device_users_api_v1_device_users_get [(''limit'', JNum n)]"
  "typed_query list_attendance_api_v1_attendance_get [(''limit'', JNum n), (''status'', j_opt JStr y)]"
  "typed_query list_events_api_v1_audit_events_get [(''limit'', JNum n), (''event_type'', j_opt JStr y)]"
  by (rule typed_query_object, simp add: QueryOf_def list_enrollments_api_v1_enrollments_get_def
     list_humans_api_v1_humans_get_def list_mappings_api_v1_mappings_get_def get_absences_api_v1_absences_get_def
     unattributed_api_v1_attendance_unattributed_get_def list_device_users_api_v1_device_users_get_def
     list_attendance_api_v1_attendance_get_def list_events_api_v1_audit_events_get_def, simp, simp, simp, simp)+

lemma page_request_typed: "page_request c op \<Longrightarrow> typed_call c op"
  by (cases rule: page_request.cases)
    (auto simp: fetcher_defs
      intro!: typed_call.intros typed_fetchers typed_fixed form_bodies other_bodies enrollment_bodies)

text \<open>C11: Every request the pages put together themselves, the queries of their lists and the bodies
  of their forms, with whatever the user has typed or left empty, is one the server's contract
  accepts: it reaches the one operation the page means, with declared parameters only, and its
  body has every required field, no unknown one, and texts, numbers, flags or null where the
  contract asks for them.\<close>

theorem pages_keep_contract:
  assumes "page_request c op"
  shows "routes api_routes (call_method c) (call_path c) = [op] \<and> accepts op c"
  using typed_call_served[OF page_request_typed[OF assms]] by (simp only: served_def)

theorem pages_keep_contract_witness:
  "accepts create_human_endpoint_api_v1_humans_post
     (api_createHuman (form_fields (j_opt JStr)
       ((open_form admin_auth Create None)\<lparr>pf_displayName := js '' Somchai '', pf_branch := []\<rparr>)))"
  using pages_keep_contract[OF p_create] by simp

end
