(* ===== verification/Dictionary_En.thy ===== *)
theory Dictionary_En
  imports I18n
begin

text \<open>
  The English dictionary, \<open>frontend/src/i18n/en.ts\<close>, section by section in the order of the
  file.
\<close>

type_synonym texts = "(string \<times> jstr) list"

definition en_common :: texts where
  "en_common = [
    (''systemTitle'', js ''Attendance Device Management''),
    (''systemSubtitle'', js ''ADMS Console''),
    (''loading'', js ''Loading data...''),
    (''save'', js ''Save''),
    (''saving'', js ''Saving...''),
    (''cancel'', js ''Cancel''),
    (''close'', js ''Close''),
    (''edit'', js ''Edit''),
    (''delete'', js ''Delete''),
    (''active'', js ''Active''),
    (''inactive'', js ''Inactive''),
    (''refresh'', js ''Refresh''),
    (''search'', js ''Search''),
    (''searchPlaceholder'', js ''Search by name, rank, or personnel ID...''),
    (''clear'', js ''Clear''),
    (''all'', js ''All''),
    (''none'', js ''None''),
    (''status'', js ''Status''),
    (''actions'', js ''Actions''),
    (''details'', js ''Details''),
    (''error'', js ''Error''),
    (''success'', js ''Success''),
    (''warning'', js ''Warning''),
    (''back'', js ''Back''),
    (''next'', js ''Next''),
    (''confirm'', js ''Confirm''),
    (''unauthorized'', js ''Please sign in again''),
    (''forbidden'', js ''Access forbidden''),
    (''page'', js ''Page''),
    (''of'', js ''of''),
    (''items'', js ''items''),
    (''showing'', js ''Showing''),
    (''to'', js ''to''),
    (''results'', js ''results''),
    (''productionEnvironmentLabel'', js ''Production''),
    (''apiErrors.validationError'', js ''Invalid data. Please check and try again.''),
    (''apiErrors.notFound'', js ''The requested item was not found.''),
    (''apiErrors.rateLimited'', js ''Too many requests. Please wait a moment and try again.''),
    (''apiErrors.internalError'', js ''A system error occurred. Please try again.''),
    (''apiErrors.genericErrorPrefix'', js ''An error occurred. Please try again.'')]"

definition en_nav :: texts where
  "en_nav = [
    (''operations'', js ''OPERATIONS''),
    (''dashboard'', js ''Dashboard''),
    (''attendance'', js ''Attendance Monitor''),
    (''enrollment'', js ''Enrollment Workspace''),
    (''identityPeople'', js ''IDENTITY & PEOPLE''),
    (''personnel'', js ''Personnel Master''),
    (''mappings'', js ''Identity Mapping Authority''),
    (''infrastructure'', js ''INFRASTRUCTURE''),
    (''devices'', js ''Terminal Devices''),
    (''system'', js ''System Health & Config''),
    (''administration'', js ''ADMINISTRATION''),
    (''audit'', js ''Security Audit Trail''),
    (''operators'', js ''Operator Accounts''),
    (''myAccount'', js ''My Account''),
    (''changePassword'', js ''Change Password''),
    (''signOut'', js ''Sign Out'')]"

definition en_status :: texts where
  "en_status = [
    (''writesLocked'', [0xd83d, 0xdd12] @ js '' View-only mode (safe)''),
    (''writesActive'', [0x26a0, 0xfe0f] @ js '' Changes enabled (caution)''),
    (''collectorLive'', js ''Collector LIVE''),
    (''collectorOffline'', js ''Collector OFFLINE''),
    (''collectorConnecting'', js ''Collector CONNECTING''),
    (''deviceConnected'', js ''Terminal CONNECTED''),
    (''deviceDisconnected'', js ''Terminal DISCONNECTED''),
    (''dbHealthy'', js ''Database HEALTHY''),
    (''dbDegraded'', js ''Database DEGRADED''),
    (''mqttHealthy'', js ''MQTT HEALTHY''),
    (''mqttUnreachable'', js ''MQTT UNREACHABLE''),
    (''liveStreamActive'', js ''Live Stream ACTIVE'')]"

definition en_roles :: texts where
  "en_roles = [
    (''viewer'', js ''Viewer (VIEWER)''),
    (''enrollmentOperator'', js ''Enrollment Operator (ENROLLMENT)''),
    (''operator'', js ''Operator (OPERATOR)''),
    (''admin'', js ''Administrator (ADMIN)''),
    (''viewerDesc'', js ''Can view data and reports, but cannot make changes.''),
    (''enrollmentOperatorDesc'', js ''Can enroll personnel and fingerprints while a work session is open. Cannot open a work session or manage the system.''),
    (''operatorDesc'', js ''Can open and close work sessions and oversee daily operations. Cannot manage user accounts or critical system settings.''),
    (''adminDesc'', js ''Full authority '' @ [0x2014] @ js '' system, accounts, personnel, terminals, and permissions.''),
    (''loadingAccount'', js ''Loading account permissions...''),
    (''sessionErrorTitle'', js ''Couldn'' @ [0x27] @ js ''t verify your session''),
    (''sessionErrorBody'', js ''We couldn'' @ [0x27] @ js ''t confirm your account permissions. Please sign in again.''),
    (''reloginButton'', js ''Sign in again'')]"

definition en_login :: texts where
  "en_login = [
    (''title'', js ''ADMS Production Console''),
    (''subtitle'', js ''Sign in with your operator credentials''),
    (''environment'', js ''Production Server''),
    (''usernameLabel'', js ''Username''),
    (''usernamePlaceholder'', js ''Enter your username''),
    (''passwordLabel'', js ''Password''),
    (''passwordPlaceholder'', js ''Enter your password''),
    (''signInButton'', js ''Sign In''),
    (''signingIn'', js ''Signing in...''),
    (''failed'', js ''Invalid username or password'')]"

definition en_dashboard :: texts where
  "en_dashboard = [
    (''title'', js ''Operational Overview''),
    (''subtitle'', js ''Realtime telemetry, enrollment queue metrics, and attendance activity''),
    (''systemOperational'', js ''System Fully Operational''),
    (''systemDegraded'', js ''System Operation Degraded''),
    (''kpiPersonnelTotal'', js ''Personnel Master Total''),
    (''kpiPersonnelEligible'', js ''Production Eligible''),
    (''kpiPersonnelExcluded'', js ''Excluded from Scope''),
    (''kpiAttendanceToday'', js ''Attendance Scans Today''),
    (''kpiAttendanceTotal'', js ''Total Historical Logs''),
    (''kpiUnattributed'', js ''Unattributed Scans''),
    (''kpiDevicesActive'', js ''Active Terminals''),
    (''kpiDevicesTotal'', js ''Registered Fleet''),
    (''kpiMappingsActive'', js ''Verified Mappings''),
    (''kpiMappingsTotal'', js ''All Historical Mappings''),
    (''kpiUnmappedUsers'', js ''Unmapped Device Accounts''),
    (''enrollmentStatusTitle'', js ''Enrollment Lifecycle Breakdown''),
    (''enrollmentActiveCountLabel'', js ''Enrollments Needing Action''),
    (''enrollmentActiveCountHint'', js ''genuinely unfinished work only''),
    (''lifecycleInProgress'', js ''In progress''),
    (''lifecycleCompleted'', js ''Completed''),
    (''lifecycleRemoved'', js ''Removed from terminal''),
    (''lifecycleCancelled'', js ''Cancelled''),
    (''mappingsHistoricalHint'', js ''total incl. history'')]"

definition en_leave :: texts where
  "en_leave = [
    (''trialBodyDate'', js ''Real counting and reports start on {date} '' @ [0x2014] @ js '' people not yet enrolled are never counted absent''),
    (''trackDateLabel'', js ''Go-live date''),
    (''trackDateButton'', js ''Set go-live date''),
    (''trackDateActive'', js ''Counting for real from {date} '' @ [0x2014] @ js '' earlier days are trial, not counted and not reported '' @ [0xb7] @ js '' people not yet enrolled are never counted absent''),
    (''trialTitle'', js ''Trial mode '' @ [0x2014] @ js '' absences are not real yet''),
    (''trialBody'', js ''Real counting and the Telegram report start once everyone who must scan is enrolled (now {done}/{req}) '' @ [0x2014] @ js '' excluding scan-exempt, people on duty/secondment, and conscripts''),
    (''trialAbsent'', js ''Absent (trial)''),
    (''readinessAway'', js ''On duty''),
    (''trackTitle'', js ''Go-live: real absences & report''),
    (''trackAuto'', js ''Auto '' @ [0x2014] @ js '' start when enrollment is complete''),
    (''trackOn'', js ''Force on''),
    (''trackOff'', js ''Force off (trial)''),
    (''trackLive'', js ''Live''),
    (''trackTrial'', js ''Trial''),
    (''st_NOT_ENROLLED'', js ''Not enrolled (not counted)''),
    (''readinessTitle'', js ''Fingerprint readiness''),
    (''readinessHint'', js ''People not yet enrolled are not counted present/late/absent '' @ [0x2014] @ js '' counting starts the day after enrollment''),
    (''readinessRequired'', js ''Must scan''),
    (''readinessEnrolled'', js ''Enrolled''),
    (''readinessMissing'', js ''Missing''),
    (''tgTitle'', js ''Telegram absence report''),
    (''tgHint'', js ''Sent automatically Mon'' @ [0x2013] @ js ''Fri 11:05 (after the scan window), absent people only''),
    (''tgPreview'', js ''Preview today'' @ [0x27] @ js ''s message''),
    (''tgSend'', js ''Send test now''),
    (''tgSent'', js ''Sent''),
    (''tgNotConfigured'', js ''Bot not configured '' @ [0x2014] @ js '' set TELEGRAM_BOT_TOKEN and TELEGRAM_CHAT_ID in .env and redeploy''),
    (''tgFailed'', js ''Send failed''),
    (''tgNonWorkday'', js ''Non-working day '' @ [0x2014] @ js '' no report''),
    (''navMonthly'', js ''Monthly report''),
    (''monthlyTitle'', js ''Monthly attendance report''),
    (''monthlySubtitle'', js ''{n} working days '' @ [0xb7] @ js '' scans count {window} '' @ [0xb7] @ js '' after {time} is late''),
    (''exportExcel'', js ''Export Excel (CSV)''),
    (''legend'', js ''Legend''),
    (''deviceLive'', js ''Scanner connected''),
    (''deviceOffline'', js ''Scanner not connected''),
    (''deviceUnknown'', js ''Scanner status unknown''),
    (''deviceLastSeen'', js ''Last connected''),
    (''navLeave'', js ''Leave / duty''),
    (''navDaily'', js ''Daily roster''),
    (''title'', js ''Leave, official duty & secondment''),
    (''subtitle'', js ''Record leave already signed by the commander '' @ [0x2014] @ js '' people on leave are never counted absent''),
    (''formTitle'', js ''New record''),
    (''person'', js ''Person''),
    (''type'', js ''Type''),
    (''startDate'', js ''From''),
    (''endDate'', js ''To''),
    (''orderRef'', js ''Order / document no.''),
    (''orderRefRequired'', js ''An order number is required for this type''),
    (''destination'', js ''Destination / unit''),
    (''note'', js ''Note''),
    (''saveButton'', js ''Save''),
    (''saved'', js ''Saved''),
    (''selectPersonRequired'', js ''Select a person and dates''),
    (''overlap'', js ''This person already has a record covering these dates''),
    (''days'', js ''days''),
    (''listTitle'', js ''Records''),
    (''filterCurrent'', js ''Current & upcoming''),
    (''filterAll'', js ''All''),
    (''showCancelled'', js ''Show cancelled''),
    (''cancelButton'', js ''Cancel''),
    (''cancelTitle'', js ''Cancel this record''),
    (''cancelReason'', js ''Reason''),
    (''cancelReasonPlaceholder'', js ''e.g. wrong dates, leave withdrawn''),
    (''cancelled'', js ''Cancelled''),
    (''noRecords'', js ''No records''),
    (''recordedBy'', js ''Recorded by''),
    (''historyTitle'', js ''Leave & duty history''),
    (''addForPerson'', js ''Record leave / duty''),
    (''holidaysTitle'', js ''Public holidays''),
    (''holidayName'', js ''Holiday name''),
    (''holidayAdd'', js ''Add holiday''),
    (''holidayHint'', js ''Weekends are already non-working days''),
    (''dailyTitle'', js ''Daily roster''),
    (''dailySubtitle'', js ''Scans count {window} '' @ [0xb7] @ js '' after {time} is late''),
    (''holidayBadge'', js ''Holiday''),
    (''totalLabel'', js ''Total''),
    (''byBranch'', js ''By section''),
    (''branch'', js ''Section''),
    (''firstScan'', js ''First scan''),
    (''st_PRESENT'', js ''Present''),
    (''st_LATE'', js ''Late''),
    (''st_LEAVE'', js ''Leave''),
    (''st_DUTY'', js ''Duty / secondment''),
    (''st_EXEMPT'', js ''Exempt''),
    (''st_NOT_YET'', js ''Not yet''),
    (''st_ABSENT'', js ''Absent''),
    (''st_OFF'', js ''Off''),
    (''today'', js ''Today''),
    (''allStatuses'', js ''All statuses'')]"

definition en_workflow :: texts where
  "en_workflow = [
    (''scanWindowExpired'', js ''The test-scan window has expired '' @ [0x2014] @ js '' reopen it and scan again''),
    (''scanWindowReopen'', js ''Reopen test-scan window (5 min)''),
    (''namesSyncedResult'', js ''Updated {renamed} name(s) on the scanner ({failed} failed)''),
    (''namesMismatchTitle'', js ''{n} scanner account(s) with a name that differs from the roster''),
    (''namesSyncAllButton'', js ''Update all on scanner ({n})''),
    (''terminalNameAuto'', js ''Names update on the scanner automatically when rank or English name changes '' @ [0x2014] @ js '' use this if the scanner was offline at the time''),
    (''saveEnglishName'', js ''Save English name''),
    (''saveEnglishNameHint'', js ''No English name on file '' @ [0x2014] @ js '' saving here stores it on the person and the scanner name is built from it (rank + name)''),
    (''terminalNameTitle'', js ''Name on the scanner''),
    (''terminalNameOnDevice'', js ''On device''),
    (''terminalNameExpected'', js ''Should be (rank + English name)''),
    (''terminalNameMismatch'', js ''The scanner name does not match the roster''),
    (''terminalNameSyncButton'', js ''Update name on scanner''),
    (''terminalNameSynced'', js ''Updated on the scanner (fingerprints unchanged)''),
    (''terminalNameNeedsEnglish'', js ''Set the English name first''),
    (''openPolicyTitle'', js ''Editing and fingerprint enrollment: always open''),
    (''openPolicyBody'', js ''No edit window needed '' @ [0x2014] @ js '' roster, leave and fingerprint enrollment can be done any time, still limited by role and audited. Attendance scans count only 06:30'' @ [0x2013] @ js ''11:00 (after 10:00 = late; scans outside are stored but not counted)''),
    (''outsideWindow'', js ''Scanned outside window''),
    (''offboardDeferred'', js ''Closed in roster '' @ [0x2014] @ js '' remove from the scanner once fingerprint work is open (see '' @ [0x27] @ js ''Left, still on scanner'' @ [0x27] @ js '')''),
    (''fingerprintWindowNeeded'', js ''Fingerprint work must be open (Mon'' @ [0x2013] @ js ''Fri 09:00'' @ [0x2013] @ js ''18:00)''),
    (''pwCurrentWrong'', js ''Current password is incorrect''),
    (''pwSame'', js ''New password must differ from the current one''),
    (''pwTooShort'', js ''New password needs at least 12 characters (now {n})''),
    (''pwCurrentMissing'', js ''Enter your current password''),
    (''pwTooLong'', js ''Password is too long (max 256)''),
    (''pwSessionExpired'', js ''Session expired, please sign in again''),
    (''reasonFinance'', js ''Finance''),
    (''reasonCommandOffice'', js ''Commander'' @ [0x27] @ js ''s office''),
    (''reasonOther'', js ''Other (specify)''),
    (''quickRequired'', js ''Must scan''),
    (''quickExemptPrefix'', js ''Exempt:''),
    (''selectedCount'', js ''{n} selected''),
    (''bulkExempt'', js ''Mark scan-exempt''),
    (''bulkRequire'', js ''Require scanning''),
    (''bulkDone'', js ''Updated {n} people''),
    (''clearSelection'', js ''Clear selection''),
    (''allBranches'', js ''Section: all''),
    (''selectPage'', js ''Select page''),
    (''positionCol'', js ''Position''),
    (''wizStep1'', js ''Create scanner account''),
    (''wizStep2'', js ''Enroll at scanner''),
    (''wizStep3'', js ''Test scan''),
    (''wizStep4'', js ''Verify identity''),
    (''wizStepOf'', js ''Step''),
    (''autoScanHint'', js ''Once they scan, the system confirms automatically''),
    (''verifyInlineTitle'', js ''Confirm this fingerprint belongs to this person''),
    (''verifyNoteLabel'', js ''Verification note''),
    (''verifyNotePlaceholder'', js ''e.g. checked ID card''),
    (''verifyButton'', js ''Verify and finish''),
    (''waitingAdminVerify'', js ''Last step: waiting for an administrator to verify identity''),
    (''verifiedDone'', js ''Enrollment complete '' @ [0x2014] @ js '' attendance is now recorded''),
    (''navAttendanceGroup'', js ''Attendance''),
    (''navPersonnelGroup'', js ''Personnel''),
    (''navFingerprintGroup'', js ''Fingerprints''),
    (''navAdminGroup'', js ''Administration''),
    (''writeClosedBanner'', js ''Fingerprint / scanner work: closed''),
    (''writeClosedHint'', js ''Roster, ranks, positions and leave can be edited any time '' @ [0x2014] @ js '' fingerprint and scanner work opens Mon'' @ [0x2013] @ js ''Fri 09:00'' @ [0x2013] @ js ''18:00, or an operator can open it on the System page''),
    (''writeOpenBanner'', js ''Fingerprint / scanner work open until''),
    (''hubTitle'', js ''Personnel tasks''),
    (''importTitle'', js ''Update names / ranks from Excel''),
    (''importDesc'', js ''Export '' @ [0x2192] @ js '' edit in Excel '' @ [0x2192] @ js '' import; changes are shown for review before saving''),
    (''joinTitle'', js ''New arrival''),
    (''joinDesc'', js ''Add the person, then enroll their fingerprint at the scanner''),
    (''leaveTitle'', js ''Leaving the unit''),
    (''leaveDesc'', js ''Open the person and press '' @ [0x27] @ js ''Leave unit'' @ [0x27] @ js '' '' @ [0x2014] @ js '' the name is closed and fingerprints are removed from the scanner''),
    (''exemptTitle'', js ''Scan-exempt''),
    (''exemptDesc'', js ''e.g. commander'' @ [0x27] @ js ''s office, finance '' @ [0x2014] @ js '' no enrollment, never counted absent; set on the person'' @ [0x27] @ js ''s page''),
    (''countActive'', js ''Current personnel''),
    (''countNeedsEnroll'', js ''Not enrolled yet''),
    (''countExempt'', js ''Scan-exempt''),
    (''countLeftWithAccount'', js ''Left, still on scanner''),
    (''filterScanAll'', js ''Fingerprint: all''),
    (''scanEnrolled'', js ''Enrolled''),
    (''scanNeeds'', js ''Not enrolled''),
    (''scanExempt'', js ''Exempt''),
    (''scanLeftWithAccount'', js ''Remove from scanner''),
    (''colScan'', js ''Fingerprint''),
    (''enrollButton'', js ''Enroll fingerprint''),
    (''scanPolicyTitle'', js ''Attendance scanning''),
    (''scanRequired'', js ''Must scan in/out''),
    (''scanExemptLabel'', js ''Exempt from scanning''),
    (''exemptReasonLabel'', js ''Reason / section''),
    (''exemptReasonPlaceholder'', js ''e.g. Commander'' @ [0x27] @ js ''s office, Finance''),
    (''exemptReasonRequired'', js ''Please enter a reason''),
    (''setExemptButton'', js ''Mark scan-exempt''),
    (''clearExemptButton'', js ''Remove exemption''),
    (''savedOk'', js ''Saved''),
    (''offboardButton'', js ''Leave unit''),
    (''offboardTitle'', js ''Confirm leaving the unit''),
    (''offboardBody'', js ''This will (1) close the person in the roster '' @ [0x2014] @ js '' attendance history is kept (2) remove their account and fingerprints from the scanner''),
    (''offboardAccounts'', js ''Scanner accounts to remove''),
    (''offboardNoAccounts'', js ''No scanner accounts''),
    (''offboardReasonPlaceholder'', js ''e.g. transferred to ..., discharged, retired''),
    (''offboardDone'', js ''Done '' @ [0x2014] @ js '' closed in roster and removed from scanner''),
    (''offboardPartial'', js ''Closed in roster, but removal from the scanner failed '' @ [0x2014] @ js '' retry below''),
    (''retryRemoveButton'', js ''Remove from scanner''),
    (''rejoinHint'', js ''If they return, fingerprints must be enrolled again''),
    (''needsWriteWindow'', js ''Editing must be open first'')]"

definition en_personnel :: texts where
  "en_personnel = [
    (''title'', js ''Personnel Master''),
    (''subtitle'', js ''Authoritative Human records imported from Royal Thai Navy roster''),
    (''thaiName'', js ''Thai Full Name''),
    (''englishName'', js ''English Full Name''),
    (''notSet'', [0x2014] @ js '' (Not Set)''),
    (''personnelId'', js ''Personnel / Roster ID''),
    (''rankSourceManagedHint'', js ''from personnel roster file '' @ [0x2014] @ js '' not editable here''),
    (''noTerminalAccountTitle'', js ''No scanner account yet''),
    (''noTerminalAccountBody'', js ''This person'' @ [0x27] @ js ''s old terminal account was removed from the scanner. Their history is preserved.''),
    (''startNewEnrollmentButton'', js ''Enroll on scanner''),
    (''rank'', js ''Rank''),
    (''position'', js ''Position''),
    (''branch'', js ''Branch / Unit''),
    (''category'', js ''Category''),
    (''scope'', js ''Production Scope''),
    (''productionScope'', js ''Production Eligible''),
    (''excludedScope'', js ''Excluded from Scope''),
    (''allScopes'', js ''All Personnel''),
    (''editEnglishName'', js ''Edit English Name''),
    (''englishNamePlaceholder'', js ''e.g. Krittapon Madsen''),
    (''saveEnglishName'', js ''Save English Name''),
    (''cancelEdit'', js ''Cancel''),
    (''updateSuccess'', js ''English name updated successfully''),
    (''updateFailed'', js ''Failed to update English name''),
    (''writesDisabledNotice'', js ''Changes are currently locked. Ask an administrator to open a work session.''),
    (''adminOnlyNotice'', js ''Only Administrator (ADMIN) can edit English names''),
    (''statusLabel'', js ''Status''),
    (''statusActive'', js ''Active''),
    (''statusInactive'', js ''Departed''),
    (''deactivateButton'', js ''Departed / Deactivate''),
    (''reactivateButton'', js ''Return to duty / Reactivate''),
    (''deactivateConfirmTitle'', js ''Confirm this person has departed or is no longer in use?''),
    (''deactivateConfirmBody'', js ''Attendance history will not be deleted. The system will stop linking this person to new scans going forward.''),
    (''deactivateReasonLabel'', js ''Reason''),
    (''deactivateReasonPlaceholder'', js ''e.g. transferred, resigned, retired''),
    (''deactivateReasonRequired'', js ''Please enter a reason''),
    (''deactivateSuccess'', js ''Deactivation recorded successfully.''),
    (''reactivateSuccess'', js ''Reactivated successfully.''),
    (''terminalCleanupPendingNotice'', js ''This person has been deactivated. Terminal/scanner data still exists '' @ [0x2014] @ js '' please remove it from the terminal.''),
    (''filterAll'', js ''All''),
    (''filterActiveOnly'', js ''Active only''),
    (''filterInactiveOnly'', js ''Departed only''),
    (''addPersonnelButton'', js ''Add Personnel''),
    (''addPersonnelTitle'', js ''Add New Personnel''),
    (''editPersonnelButton'', js ''Edit''),
    (''editPersonnelTitle'', js ''Edit Personnel''),
    (''thaiFullNameLabel'', js ''Full Name (Thai)''),
    (''personnelIdLabel'', js ''Personnel ID (optional)''),
    (''displayNameRequired'', js ''Please enter a full name''),
    (''duplicatePersonnelIdBody'', js ''This personnel record already exists. Please check the existing entry before adding a new one.''),
    (''createSuccessTitle'', js ''Personnel added successfully''),
    (''goToEnrollmentButton'', js ''Enroll on Terminal''),
    (''englishNameRequiredForTerminalHint'', js ''Please enter the English name before enrolling on a terminal''),
    (''selectRankPlaceholder'', [0x2014] @ js '' Select rank '' @ [0x2014]),
    (''exportCsvButton'', js ''Export CSV''),
    (''importCsvButton'', js ''Import CSV''),
    (''importCsvTitle'', js ''Import Personnel from CSV''),
    (''downloadTemplateButton'', js ''Download New-Personnel Template''),
    (''confirmImportButton'', js ''Confirm Import''),
    (''csvMalformedBody'', js ''Invalid file. Please check the file format and try again.''),
    (''csvNewLabel'', js ''New''),
    (''csvUpdateLabel'', js ''Update''),
    (''csvUnchangedLabel'', js ''Unchanged''),
    (''csvErrorLabel'', js ''Error''),
    (''importCommittedMessage'', js ''Import complete: {created} added, {updated} updated'')]"

definition en_enrollment :: texts where
  "en_enrollment = [
    (''title'', js ''Guided Enrollment Workspace''),
    (''subtitle'', js ''Step-by-step terminal account setup and fingerprint enrollment''),
    (''startNew'', js ''Start New Enrollment''),
    (''activeQueue'', js ''Active Enrollment Queue''),
    (''noActiveSessions'', js ''No active enrollment sessions''),
    (''step1Title'', js ''Step 1: Reserve Terminal ID''),
    (''step1Desc'', js ''Select Human and target terminal. System reserves the next available terminal user ID.''),
    (''step1Button'', js ''Reserve Terminal ID''),
    (''step2Title'', js ''Step 2: Create Terminal Account''),
    (''step2Desc'', js ''Dispatches serialized account creation command to ZEM560 terminal.''),
    (''step2Button'', js ''Create Terminal Account''),
    (''step3Title'', js ''Step 3: Fingerprint Enrollment''),
    (''step3Desc'', js ''Direct person to ZEM560 keypad. Press Menu -> User Mng -> Enroll FP and place finger 3 times.''),
    (''step3Button'', js ''Confirm Fingerprint Enrolled''),
    (''step4Title'', js ''Step 4: Controlled Scan Verification''),
    (''step4Desc'', js ''Direct person to perform one regular attendance scan. The system detects the scan automatically.''),
    (''step4Button'', js ''Confirm Controlled Scan''),
    (''step5Title'', js ''Step 5: Review''),
    (''step5Desc'', js ''This person'' @ [0x27] @ js ''s information is ready to be confirmed.''),
    (''step5Button'', js ''Send for admin confirmation''),
    (''step5ChecklistTerminalAccount'', js ''Terminal account created''),
    (''step5ChecklistFingerprint'', js ''Fingerprint enrolled''),
    (''step5ChecklistScan'', js ''Test scan confirmed''),
    (''step6Title'', js ''Step 6: Create VERIFIED Mapping''),
    (''step6Desc'', js ''Admin reviews the evidence and confirms this person'' @ [0x27] @ js ''s identity for the terminal account.''),
    (''step6Button'', js ''Create VERIFIED Mapping''),
    (''completedTitle'', js ''Enrollment Completed Successfully''),
    (''completedDesc'', js ''This person'' @ [0x27] @ js ''s identity and terminal account are now linked and verified.''),
    (''cancelledTitle'', js ''Enrollment Session Cancelled''),
    (''historyTitle'', js ''Enrollment History''),
    (''historyEmpty'', js ''No completed or removed enrollments yet.''),
    (''removedFromTerminalLabel'', js ''Removed from terminal''),
    (''removedFromTerminalBody'', js ''This terminal account was later removed from the scanner. History is preserved.''),
    (''historyPreservedNote'', js ''Historical record '' @ [0x2014] @ js '' kept for reference, not editable.''),
    (''selectPerson'', js ''Select Personnel to Enroll''),
    (''selectDevice'', js ''Select Target Terminal Device''),
    (''selectPersonDeviceOperatorRequired'', js ''Please select a person, a terminal device, and enter the operator name.''),
    (''terminalDisplayName'', js ''Terminal Screen Display Name (English letters and numbers only)''),
    (''liveScanDetected'', js ''Controlled attendance scan detected successfully via realtime stream!''),
    (''waitingForScan'', js ''Waiting for scan...''),
    (''cancelSession'', js ''Cancel Enrollment Session''),
    (''cancelReasonPlaceholder'', js ''Cancellation reason (required)''),
    (''cancelReasonRequired'', js ''Enter a cancellation reason.''),
    (''scanTimestampLabel'', js ''Scan Timestamp''),
    (''scanTimestampRequired'', js ''Select a scan timestamp.''),
    (''metadataInspector'', js ''Technical Session Metadata''),
    (''writeSessionLockedTitle'', js ''Changes are currently locked.''),
    (''writeSessionLockedBody'', js ''Ask an administrator to open an enrollment work session.''),
    (''writeSessionExpiredMidWorkflow'', js ''Your work session expired. Your progress is saved '' @ [0x2014] @ js '' ask an administrator to reopen a work session to continue.''),
    (''terminalNameNoEnglishHint'', js ''No English name on file for this person. Ask an administrator to set one in Personnel, or enter one now (English letters and numbers only).''),
    (''terminalNameRankOmittedHint'', js ''The rank prefix was left out because rank + name would be too long for the scanner. The full name is kept safely in Personnel.''),
    (''creatingOrVerifying'', js ''Creating / verifying terminal account...''),
    (''verifyReconcileButton'', js ''Verify / Reconcile''),
    (''terminalConflictTitle'', js ''This terminal ID belongs to someone else''),
    (''terminalConflictBody'', js ''The terminal account already exists but doesn'' @ [0x27] @ js ''t match this enrollment. Nothing was changed or deleted. Ask an administrator to check the terminal before continuing.''),
    (''terminalUnconfirmedTitle'', js ''Could not confirm the terminal account''),
    (''terminalUnconfirmedBody'', js ''The system tried to create the account but couldn'' @ [0x27] @ js ''t confirm it on the terminal yet. It'' @ [0x27] @ js ''s safe to try again.''),
    (''terminalInProgressBody'', js ''A terminal command for this enrollment is still running. Please wait a moment before trying again.''),
    (''terminalUnavailableTitle'', js ''Could not reach the terminal''),
    (''terminalUnavailableBody'', js ''No account was created or changed '' @ [0x2014] @ js '' the system could not read the terminal'' @ [0x27] @ js ''s account list before attempting anything. It'' @ [0x27] @ js ''s safe to try again once the terminal is reachable.''),
    (''terminalReconciledSuccess'', js ''Terminal account verified '' @ [0x2014] @ js '' it already existed on the device and now matches this enrollment.''),
    (''terminalCreatedSuccess'', js ''Terminal account created on device.''),
    (''enrollmentConflictBody'', js ''This enrollment has already changed state. Refresh the latest status before trying again.''),
    (''alreadyCancelledBody'', js ''This enrollment was already cancelled.''),
    (''scanNotFoundYetBody'', js ''No scan detected yet. Please ask the person to scan again.''),
    (''activeEnrollmentExistsBody'', js ''This person already has an enrollment in progress. Please finish the existing enrollment first.''),
    (''cancelSuccessMessage'', js ''Enrollment cancelled.''),
    (''reserveSuccessMessage'', js ''Started successfully.''),
    (''fingerprintWindowActiveMessage'', js ''Ready '' @ [0x2014] @ js '' go to the scanner now.''),
    (''fingerprintConfirmedMessage'', js ''Fingerprint enrollment confirmed.''),
    (''scanWindowStartedMessage'', js ''Waiting for the test scan.''),
    (''scanConfirmedMessage'', js ''Test scan confirmed.''),
    (''readyForMappingSuccessMessage'', js ''Sent for admin confirmation.''),
    (''startScanWindowButton'', js ''Start test scan''),
    (''badgeBrowserAction'', js ''Do this on the computer''),
    (''badgePhysicalAction'', js ''Do this at the scanner''),
    (''badgeAdminAction'', js ''Requires an admin''),
    (''technicalDetailsToggle'', js ''Technical details''),
    (''metaEmployeeIdLabel'', js ''Person ID (system)''),
    (''metaTerminalUidLabel'', js ''Terminal reference ID''),
    (''metaReservedAtLabel'', js ''Reserved at''),
    (''metaAccountCreatedLabel'', js ''Terminal account created at''),
    (''metaFpConfirmedAtLabel'', js ''Fingerprint confirmed at''),
    (''metaScanConfirmedAtLabel'', js ''Test scan confirmed at''),
    (''sessionHeaderPrefix'', js ''Session''),
    (''targetTerminalLabel'', js ''Target terminal''),
    (''reservedIdLabel'', js ''Reserved ID''),
    (''reservedByPrefix'', js ''By''),
    (''stepOfLabel'', js ''Step''),
    (''searchPersonPlaceholder'', js ''Type a name to search...''),
    (''noPersonMatchFound'', js ''No matching person found''),
    (''fixEnglishNameLink'', js ''Fix English name '' @ [0x2192])]"

definition en_attendance :: texts where
  "en_attendance = [
    (''title'', js ''Attendance Monitor''),
    (''subtitle'', js ''Realtime attendance ingestion stream and historical verification log''),
    (''liveStreamBadge'', js ''LIVE STREAM ACTIVE''),
    (''timeColumn'', js ''Scan Time''),
    (''timeColumnSuffix'', js ''Thailand time''),
    (''personColumn'', js ''Person / Identity''),
    (''rankColumn'', js ''Rank''),
    (''terminalIdColumn'', js ''Terminal User ID''),
    (''deviceColumn'', js ''Device Endpoint''),
    (''punchColumn'', js ''Punch Type''),
    (''statusColumn'', js ''Attribution Status''),
    (''onTime'', js ''ON TIME''),
    (''late'', js ''LATE''),
    (''unknown'', js ''UNKNOWN''),
    (''reconciliationTitle'', js ''Unattributed Attendance Diagnostics''),
    (''reconciliationDesc'', js ''Attendance logs without an active temporal mapping resolution''),
    (''logIdColumn'', js ''Log ID''),
    (''deviceUserPkColumn'', js ''Device User PK (system)''),
    (''unmappedUserLabel'', js ''(Identity not confirmed)''),
    (''noUnattributedRows'', js ''No unattributed attendance rows found in this range.''),
    (''terminalUserColumn'', js ''Terminal User''),
    (''temporalClassificationColumn'', js ''Classification''),
    (''diagnosticDetailColumn'', js ''Diagnostic Detail'')]"

definition en_devices :: texts where
  "en_devices = [
    (''title'', js ''Terminal Devices''),
    (''subtitle'', js ''Registered biometric hardware fleet and discovered terminal accounts''),
    (''deviceIp'', js ''Device IP Address''),
    (''serial'', js ''Serial Number''),
    (''platform'', js ''Platform Architecture''),
    (''firmware'', js ''Firmware Version''),
    (''lastSeen'', js ''Last Seen''),
    (''discoveredUsers'', js ''Discovered Device Users Roster''),
    (''discoveredUsersHistoricalHint'', js ''seen historically (incl. removed)''),
    (''currentTerminalAccounts'', js ''Accounts On Scanner Now''),
    (''deviceUserPk'', js ''Device User PK''),
    (''privilege'', js ''Privilege Level''),
    (''incarnation'', js ''Account Incarnation''),
    (''terminalUidColumn'', js ''Terminal Reference ID''),
    (''displayNameColumn'', js ''Terminal Display Name''),
    (''rosterSyncHint'', js ''Synced automatically from the scanner''),
    (''inactiveSincePrefix'', js ''Inactive since''),
    (''recycledLabel'', js ''Recycled'')]"

definition en_mappings :: texts where
  "en_mappings = [
    (''title'', js ''Identity Mapping Authority''),
    (''subtitle'', js ''Verified temporal Human <-> Device User identity bindings''),
    (''verifiedMappings'', js ''Verified Identity Mappings''),
    (''validFrom'', js ''Valid From''),
    (''validTo'', js ''Valid To''),
    (''verifiedBy'', js ''Verified By''),
    (''verifiedAt'', js ''Verified At''),
    (''activeMapping'', js ''Active Interval''),
    (''historicalMapping'', js ''Expired Interval''),
    (''adminAuthorityTitle'', js ''Identity Authority Verification (ADMIN Only)''),
    (''adminAuthorityDesc'', js ''Create canonical VERIFIED temporal mapping with controlled scan evidence''),
    (''createMappingButton'', js ''Create VERIFIED Mapping''),
    (''temporalFooterNote'', js ''Attendance scans are matched to a person only during the period their identity mapping was active.''),
    (''confirmTitle'', js ''Confirm identity mapping?''),
    (''confirmPersonLabel'', js ''Person''),
    (''confirmTerminalLabel'', js ''Terminal''),
    (''confirmScanLabel'', js ''Controlled scan at''),
    (''confirmEffectiveLabel'', js ''Takes effect from''),
    (''confirmWarning'', js ''This links the person'' @ [0x27] @ js ''s identity to this terminal account. Double-check the name and scan time before confirming.''),
    (''evidenceIncompleteBody'', js ''The evidence needed to confirm this person is not complete yet. Please check the previous steps.''),
    (''mappingConflictBody'', js ''This terminal ID has already been confirmed for someone else. Please check before continuing.''),
    (''alreadyMappedBody'', js ''This has already been confirmed.''),
    (''currentSectionTitle'', js ''Currently Active Confirmations''),
    (''currentSectionEmpty'', js ''No one is currently confirmed on a scanner.''),
    (''historySectionTitle'', js ''Confirmation History''),
    (''historySectionEmpty'', js ''No history yet.''),
    (''removedFromTerminalState'', js ''Removed from terminal''),
    (''endedState'', js ''Ended''),
    (''startedLabel'', js ''Started''),
    (''endedLabel'', js ''Ended''),
    (''formerTerminalIdLabel'', js ''Former terminal ID''),
    (''mapIdColumn'', js ''Mapping ID''),
    (''verificationMethodColumn'', js ''Verification Method''),
    (''eligibleEnrollmentLabel'', js ''Ready for identity confirmation''),
    (''selectEligibleSessionPlaceholder'', [0x2014] @ js '' Select a session '' @ [0x2014]),
    (''verificationNoteLabel'', js ''Verification note''),
    (''verificationNotePlaceholder'', js ''Reference evidence & physical check''),
    (''noEligibleEnrollments'', js ''No enrollments are ready for identity confirmation right now.''),
    (''selectAndFillRequired'', js ''Please select a session and fill in the verifier and note.''),
    (''humanFieldLabel'', js ''Person''),
    (''terminalAccountFieldLabel'', js ''Terminal account''),
    (''controlledScanEvidenceLabel'', js ''Controlled scan evidence'')]"

definition en_terminalManagement :: texts where
  "en_terminalManagement = [
    (''title'', js ''Manage Fingerprint Scanner''),
    (''subtitle'', js ''Check accounts, fingerprints, and remove departed people from the terminal''),
    (''nameColumn'', js ''Person''),
    (''terminalIdColumn'', js ''Terminal ID''),
    (''deviceColumn'', js ''Terminal''),
    (''humanStatusColumn'', js ''Person Status''),
    (''accountStatusColumn'', js ''Account Status''),
    (''fingerprintStatusColumn'', js ''Fingerprint Status''),
    (''mappingStatusColumn'', js ''Linked''),
    (''accountPresent'', js ''Ready''),
    (''accountAbsent'', js ''Not found on terminal''),
    (''fingerprintPresent'', js ''Fingerprint on file''),
    (''fingerprintAbsent'', js ''No fingerprint''),
    (''fingerprintUnknown'', js ''Needs check''),
    (''humanActive'', js ''Active''),
    (''humanInactive'', js ''Departed''),
    (''humanUnlinked'', js ''Not linked to a person''),
    (''mappingOpen'', js ''Linked''),
    (''mappingClosed'', js ''Linked (closed)''),
    (''mappingNone'', js ''Not linked''),
    (''deviceUnreachable'', js ''Cannot reach the terminal''),
    (''reenrollButton'', js ''Re-enroll fingerprint''),
    (''removeFingerprintButton'', js ''Remove fingerprint''),
    (''removeAccountButton'', js ''Remove from terminal''),
    (''refreshButton'', js ''Check again''),
    (''removeFingerprintConfirmTitle'', js ''Remove this fingerprint?''),
    (''removeFingerprintConfirmBody'', js ''The account will stay on the terminal, and existing scan history will not be deleted.''),
    (''removeAccountConfirmTitle'', js ''Remove from the terminal?''),
    (''removeAccountConfirmBody'', js ''The person and their scan history will remain in the system, but they will no longer be able to scan using this account.''),
    (''removeAccountActiveWarning'', js ''This person is still active. Removing this account will prevent them from scanning with it.''),
    (''removeAccountAcknowledgeLabel'', js ''I understand, continue''),
    (''reenrollConfirmTitle'', js ''Start fingerprint re-enrollment?''),
    (''reenrollConfirmBody'', js ''Ask the person to go to the terminal and place their finger as prompted.''),
    (''reenrollCannotCancelNotice'', js ''Once started, this cannot be cancelled midway. Please wait for it to finish.''),
    (''reenrollInProgress'', js ''Waiting for the terminal '' @ [0x2014] @ js '' please have the person place their finger...''),
    (''reenrollSuccess'', js ''Fingerprint enrolled successfully.''),
    (''reenrollFailed'', js ''Not successful '' @ [0x2014] @ js '' please try again.''),
    (''fingerprintRemoveSuccess'', js ''Fingerprint removed successfully.''),
    (''accountRemoveSuccess'', js ''Account removed from the terminal successfully.''),
    (''alreadyAbsentNotice'', js ''This is already absent from the terminal.''),
    (''viewerNoAccess'', js ''You do not have permission to perform this action.'')]"

definition en_audit :: texts where
  "en_audit = [
    (''title'', js ''Security Audit Trail''),
    (''subtitle'', js ''Immutable log of authentication, configuration, and enrollment events''),
    (''eventTypeFilter'', js ''Event Type Filter''),
    (''timestampColumn'', js ''Timestamp (UTC)''),
    (''eventTypeColumn'', js ''Event Type''),
    (''operatorColumn'', js ''Operator / Actor''),
    (''detailsColumn'', js ''Payload & Diagnostic Details''),
    (''originIpColumn'', js ''Origin IP'')]"

definition en_system :: texts where
  "en_system = [
    (''title'', js ''System Health & Config''),
    (''subtitle'', js ''Service telemetry, operator account administration, and rank references''),
    (''healthTitle'', js ''Core Service Telemetry''),
    (''apiService'', js ''Web API''),
    (''apiReachable'', js ''Reachable''),
    (''databaseService'', js ''Database''),
    (''mqttService'', js ''Live Event Service''),
    (''mqttHint'', js ''Delivers realtime updates to the browser''),
    (''collectorService'', js ''Fingerprint Terminal Collector''),
    (''lastUpdatedLabel'', js ''Last Updated''),
    (''changePasswordTitle'', js ''Change Your Operator Password''),
    (''currentPassword'', js ''Current Password''),
    (''newPassword'', js ''New Password (min 12 characters)''),
    (''confirmPassword'', js ''Confirm New Password''),
    (''changePasswordButton'', js ''Change Password''),
    (''passwordChangedSuccess'', js ''Your password has been changed successfully.''),
    (''rankReferenceTitle'', js ''Royal Thai Navy (RTN) Military Ranks''),
    (''operatorsTitle'', js ''Operator Account Management''),
    (''operatorsSubtitle'', js ''Create and manage operator roles for ADMS Console (Admin only)''),
    (''createOperatorButton'', js ''Create New Account''),
    (''username'', js ''Username''),
    (''displayName'', js ''Display Name''),
    (''role'', js ''Role''),
    (''initialPassword'', js ''Initial Password''),
    (''createAccount'', js ''Create Operator Account''),
    (''toggleActive'', js ''Toggle Active''),
    (''deactivate'', js ''Deactivate''),
    (''activate'', js ''Activate''),
    (''passwordFormSubtitle'', js ''Changing your password signs out all other active sessions (this session stays authenticated).''),
    (''passwordValidationError'', js ''Enter your current password and a new password of at least 12 characters.''),
    (''operatorValidationError'', js ''Username, Display Name, and Password (at least 12 characters) are required.''),
    (''operatorCreateSuccessPrefix'', js ''Operator account''),
    (''operatorCreateSuccessSuffix'', js ''created successfully.''),
    (''createdColumn'', js ''Created''),
    (''adminOnlyBadge'', js ''ADMIN ONLY''),
    (''currentSessionLabel'', js ''(Current Session)''),
    (''rankTableHint'', js ''Canonical Display Metadata''),
    (''rankThFullColumn'', js ''Thai Full Rank''),
    (''rankThAbbrColumn'', js ''Thai Abbreviation''),
    (''rankEnColumn'', js ''English Rank''),
    (''rankEnAbbrColumn'', js ''English Abbr''),
    (''rankCategoryColumn'', js ''Rank Category''),
    (''schedulerTitle'', js ''Scheduled Business Hours''),
    (''schedulerLastRun'', js ''Last run''),
    (''schedulerNeverRun'', js ''Never run''),
    (''schedulerStaleWarning'', js ''The timer has not reached the API in over 3 days '' @ [0x2014] @ js '' check the adms-auto-session service on the host.''),
    (''schedulerSubtitle'', js ''Automated write window Mon'' @ [0x2013] @ js ''Fri 09:00'' @ [0x2013] @ js ''18:00 Asia/Bangkok (ADMIN toggle)''),
    (''schedulerToggleLabel'', js ''Scheduled Business Hours (Mon'' @ [0x2013] @ js ''Fri 09:00'' @ [0x2013] @ js ''18:00)''),
    (''schedulerToggleHint'', js ''When enabled, the system automatically opens at 09:00 and closes at 18:00 on business days. Outside this window the system stays write-locked unless manually opened.''),
    (''schedulerEnabledBadge'', js ''Auto Schedule: ON''),
    (''schedulerDisabledBadge'', js ''Auto Schedule: OFF''),
    (''schedulerActiveWindowBadge'', js ''Active Window (Auto)''),
    (''schedulerManualBadge'', js ''Manual Mode''),
    (''schedulerLockedBadge'', js ''Write-Locked''),
    (''schedulerAdminOnlyHint'', js ''Only Administrator (ADMIN) can toggle the schedule. Operators will see the status but cannot change it.''),
    (''schedulerLoadError'', js ''Could not load schedule settings''),
    (''schedulerUpdateSuccess'', js ''Schedule updated successfully''),
    (''schedulerUpdateFailed'', js ''Could not update schedule''),
    (''schedulerToggleOn'', js ''Enable auto schedule''),
    (''schedulerToggleOff'', js ''Disable auto schedule'')]"

definition en_stream :: texts where
  "en_stream = [
    (''connected'', js ''Live connection active''),
    (''connecting'', js ''Connecting...''),
    (''disconnected'', js ''Live connection lost '' @ [0x2014] @ js '' you can retry''),
    (''retry'', js ''Reconnect now'')]"

definition en_writeSession :: texts where
  "en_writeSession = [
    (''title'', js ''Production Changes''),
    (''lockedTitle'', js ''Changes are currently locked''),
    (''lockedBody'', js ''To enroll personnel or change mappings, open a temporary work session.''),
    (''activeTitle'', js ''Changes enabled''),
    (''openedByLabel'', js ''Opened by''),
    (''remainingLabel'', js ''Remaining''),
    (''reasonLabel'', js ''Reason''),
    (''reasonPlaceholder'', js ''e.g. Enrollment session '' @ [0x2014] @ js '' Bldg 3''),
    (''openButton'', js ''Open work session''),
    (''closeButton'', js ''Close session now''),
    (''opening'', js ''Opening...''),
    (''closing'', js ''Closing...''),
    (''openFailed'', js ''Could not open a work session''),
    (''alreadyActive'', js ''A work session is already open''),
    (''adminOnlyHint'', js ''Only an Operator or Administrator can open or close a work session.''),
    (''badgeLocked'', [0xd83d, 0xdd12] @ js '' Changes locked''),
    (''badgeActive'', [0xd83d, 0xdfe2] @ js '' Changes enabled'')]"

text \<open>The whole file.\<close>

definition translations_en :: "(string \<times> texts) list" where
  "translations_en = [
    (''common'', en_common),
    (''nav'', en_nav),
    (''status'', en_status),
    (''roles'', en_roles),
    (''login'', en_login),
    (''dashboard'', en_dashboard),
    (''leave'', en_leave),
    (''workflow'', en_workflow),
    (''personnel'', en_personnel),
    (''enrollment'', en_enrollment),
    (''attendance'', en_attendance),
    (''devices'', en_devices),
    (''mappings'', en_mappings),
    (''terminalManagement'', en_terminalManagement),
    (''audit'', en_audit),
    (''system'', en_system),
    (''stream'', en_stream),
    (''writeSession'', en_writeSession)]"

end
