(* ===== verification/Dictionary_Th.thy ===== *)
theory Dictionary_Th
  imports Dictionary_En
begin

text \<open>
  The Thai dictionary, \<open>frontend/src/i18n/th.ts\<close>, section by section in the order of the
  file; Thai is given by its code units.
\<close>

definition th_common :: texts where
  "th_common = [
    (''systemTitle'', [0xe23, 0xe30, 0xe1a, 0xe1a, 0xe08, 0xe31, 0xe14, 0xe01, 0xe32, 0xe23, 0xe40, 0xe04, 0xe23, 0xe37, 0xe48, 0xe2d, 0xe07, 0xe2a, 0xe41, 0xe01, 0xe19, 0xe40, 0xe27, 0xe25, 0xe32]),
    (''systemSubtitle'', js ''ADMS Console''),
    (''loading'', [0xe01, 0xe33, 0xe25, 0xe31, 0xe07, 0xe42, 0xe2b, 0xe25, 0xe14, 0xe02, 0xe49, 0xe2d, 0xe21, 0xe39, 0xe25, 0x2e, 0x2e, 0x2e]),
    (''save'', [0xe1a, 0xe31, 0xe19, 0xe17, 0xe36, 0xe01]),
    (''saving'', [0xe01, 0xe33, 0xe25, 0xe31, 0xe07, 0xe1a, 0xe31, 0xe19, 0xe17, 0xe36, 0xe01, 0x2e, 0x2e, 0x2e]),
    (''cancel'', [0xe22, 0xe01, 0xe40, 0xe25, 0xe34, 0xe01]),
    (''close'', [0xe1b, 0xe34, 0xe14]),
    (''edit'', [0xe41, 0xe01, 0xe49, 0xe44, 0xe02]),
    (''delete'', [0xe25, 0xe1a]),
    (''active'', [0xe40, 0xe1b, 0xe34, 0xe14, 0xe43, 0xe0a, 0xe49, 0xe07, 0xe32, 0xe19]),
    (''inactive'', [0xe1b, 0xe34, 0xe14, 0xe43, 0xe0a, 0xe49, 0xe07, 0xe32, 0xe19]),
    (''refresh'', [0xe23, 0xe35, 0xe40, 0xe1f, 0xe23, 0xe0a]),
    (''search'', [0xe04, 0xe49, 0xe19, 0xe2b, 0xe32]),
    (''searchPlaceholder'', [0xe1e, 0xe34, 0xe21, 0xe1e, 0xe4c, 0xe0a, 0xe37, 0xe48, 0xe2d, 0x2c, 0x20, 0xe22, 0xe28, 0x20, 0xe2b, 0xe23, 0xe37, 0xe2d, 0xe23, 0xe2b, 0xe31, 0xe2a, 0xe1a, 0xe38, 0xe04, 0xe04, 0xe25, 0x2e, 0x2e, 0x2e]),
    (''clear'', [0xe25, 0xe49, 0xe32, 0xe07, 0xe04, 0xe48, 0xe32]),
    (''all'', [0xe17, 0xe31, 0xe49, 0xe07, 0xe2b, 0xe21, 0xe14]),
    (''none'', [0xe44, 0xe21, 0xe48, 0xe21, 0xe35]),
    (''status'', [0xe2a, 0xe16, 0xe32, 0xe19, 0xe30]),
    (''actions'', [0xe01, 0xe32, 0xe23, 0xe14, 0xe33, 0xe40, 0xe19, 0xe34, 0xe19, 0xe01, 0xe32, 0xe23]),
    (''details'', [0xe23, 0xe32, 0xe22, 0xe25, 0xe30, 0xe40, 0xe2d, 0xe35, 0xe22, 0xe14]),
    (''error'', [0xe40, 0xe01, 0xe34, 0xe14, 0xe02, 0xe49, 0xe2d, 0xe1c, 0xe34, 0xe14, 0xe1e, 0xe25, 0xe32, 0xe14]),
    (''success'', [0xe2a, 0xe33, 0xe40, 0xe23, 0xe47, 0xe08]),
    (''warning'', [0xe04, 0xe33, 0xe40, 0xe15, 0xe37, 0xe2d, 0xe19]),
    (''back'', [0xe22, 0xe49, 0xe2d, 0xe19, 0xe01, 0xe25, 0xe31, 0xe1a]),
    (''next'', [0xe16, 0xe31, 0xe14, 0xe44, 0xe1b]),
    (''confirm'', [0xe22, 0xe37, 0xe19, 0xe22, 0xe31, 0xe19]),
    (''unauthorized'', [0xe01, 0xe23, 0xe38, 0xe13, 0xe32, 0xe40, 0xe02, 0xe49, 0xe32, 0xe2a, 0xe39, 0xe48, 0xe23, 0xe30, 0xe1a, 0xe1a, 0xe43, 0xe2b, 0xe21, 0xe48]),
    (''forbidden'', [0xe44, 0xe21, 0xe48, 0xe21, 0xe35, 0xe2a, 0xe34, 0xe17, 0xe18, 0xe34, 0xe4c, 0xe40, 0xe02, 0xe49, 0xe32, 0xe16, 0xe36, 0xe07, 0xe2a, 0xe48, 0xe27, 0xe19, 0xe19, 0xe35, 0xe49]),
    (''page'', [0xe2b, 0xe19, 0xe49, 0xe32]),
    (''of'', [0xe08, 0xe32, 0xe01]),
    (''items'', [0xe23, 0xe32, 0xe22, 0xe01, 0xe32, 0xe23]),
    (''showing'', [0xe41, 0xe2a, 0xe14, 0xe07]),
    (''to'', [0xe16, 0xe36, 0xe07]),
    (''results'', [0xe1c, 0xe25, 0xe25, 0xe31, 0xe1e, 0xe18, 0xe4c]),
    (''productionEnvironmentLabel'', [0xe23, 0xe30, 0xe1a, 0xe1a, 0xe43, 0xe0a, 0xe49, 0xe07, 0xe32, 0xe19, 0xe08, 0xe23, 0xe34, 0xe07]),
    (''apiErrors.validationError'', [0xe02, 0xe49, 0xe2d, 0xe21, 0xe39, 0xe25, 0xe44, 0xe21, 0xe48, 0xe16, 0xe39, 0xe01, 0xe15, 0xe49, 0xe2d, 0xe07, 0x20, 0xe01, 0xe23, 0xe38, 0xe13, 0xe32, 0xe15, 0xe23, 0xe27, 0xe08, 0xe2a, 0xe2d, 0xe1a, 0xe41, 0xe25, 0xe30, 0xe25, 0xe2d, 0xe07, 0xe43, 0xe2b, 0xe21, 0xe48, 0xe2d, 0xe35, 0xe01, 0xe04, 0xe23, 0xe31, 0xe49, 0xe07]),
    (''apiErrors.notFound'', [0xe44, 0xe21, 0xe48, 0xe1e, 0xe1a, 0xe02, 0xe49, 0xe2d, 0xe21, 0xe39, 0xe25, 0xe17, 0xe35, 0xe48, 0xe15, 0xe49, 0xe2d, 0xe07, 0xe01, 0xe32, 0xe23]),
    (''apiErrors.rateLimited'', [0xe21, 0xe35, 0xe01, 0xe32, 0xe23, 0xe23, 0xe49, 0xe2d, 0xe07, 0xe02, 0xe2d, 0xe16, 0xe35, 0xe48, 0xe40, 0xe01, 0xe34, 0xe19, 0xe44, 0xe1b, 0x20, 0xe01, 0xe23, 0xe38, 0xe13, 0xe32, 0xe23, 0xe2d, 0xe2a, 0xe31, 0xe01, 0xe04, 0xe23, 0xe39, 0xe48, 0xe41, 0xe25, 0xe49, 0xe27, 0xe25, 0xe2d, 0xe07, 0xe43, 0xe2b, 0xe21, 0xe48]),
    (''apiErrors.internalError'', [0xe40, 0xe01, 0xe34, 0xe14, 0xe02, 0xe49, 0xe2d, 0xe1c, 0xe34, 0xe14, 0xe1e, 0xe25, 0xe32, 0xe14, 0xe02, 0xe2d, 0xe07, 0xe23, 0xe30, 0xe1a, 0xe1a, 0x20, 0xe01, 0xe23, 0xe38, 0xe13, 0xe32, 0xe25, 0xe2d, 0xe07, 0xe43, 0xe2b, 0xe21, 0xe48, 0xe2d, 0xe35, 0xe01, 0xe04, 0xe23, 0xe31, 0xe49, 0xe07]),
    (''apiErrors.genericErrorPrefix'', [0xe40, 0xe01, 0xe34, 0xe14, 0xe02, 0xe49, 0xe2d, 0xe1c, 0xe34, 0xe14, 0xe1e, 0xe25, 0xe32, 0xe14, 0x20, 0xe01, 0xe23, 0xe38, 0xe13, 0xe32, 0xe25, 0xe2d, 0xe07, 0xe43, 0xe2b, 0xe21, 0xe48, 0xe2d, 0xe35, 0xe01, 0xe04, 0xe23, 0xe31, 0xe49, 0xe07])]"

definition th_nav :: texts where
  "th_nav = [
    (''operations'', [0xe01, 0xe32, 0xe23, 0xe1b, 0xe0f, 0xe34, 0xe1a, 0xe31, 0xe15, 0xe34, 0xe07, 0xe32, 0xe19]),
    (''dashboard'', [0xe20, 0xe32, 0xe1e, 0xe23, 0xe27, 0xe21, 0xe23, 0xe30, 0xe1a, 0xe1a]),
    (''attendance'', [0xe1a, 0xe31, 0xe19, 0xe17, 0xe36, 0xe01, 0xe40, 0xe27, 0xe25, 0xe32, 0xe40, 0xe02, 0xe49, 0xe32, 0x2d, 0xe2d, 0xe2d, 0xe01]),
    (''enrollment'', [0xe25, 0xe07, 0xe17, 0xe30, 0xe40, 0xe1a, 0xe35, 0xe22, 0xe19, 0xe25, 0xe32, 0xe22, 0xe19, 0xe34, 0xe49, 0xe27, 0xe21, 0xe37, 0xe2d]),
    (''identityPeople'', [0xe02, 0xe49, 0xe2d, 0xe21, 0xe39, 0xe25, 0xe1a, 0xe38, 0xe04, 0xe04, 0xe25, 0xe41, 0xe25, 0xe30, 0xe01, 0xe32, 0xe23, 0xe22, 0xe37, 0xe19, 0xe22, 0xe31, 0xe19]),
    (''personnel'', [0xe02, 0xe49, 0xe2d, 0xe21, 0xe39, 0xe25, 0xe01, 0xe33, 0xe25, 0xe31, 0xe07, 0xe1e, 0xe25]),
    (''mappings'', [0xe22, 0xe37, 0xe19, 0xe22, 0xe31, 0xe19, 0xe04, 0xe27, 0xe32, 0xe21, 0xe16, 0xe39, 0xe01, 0xe15, 0xe49, 0xe2d, 0xe07, 0xe15, 0xe31, 0xe27, 0xe1a, 0xe38, 0xe04, 0xe04, 0xe25]),
    (''infrastructure'', [0xe23, 0xe30, 0xe1a, 0xe1a, 0xe41, 0xe25, 0xe30, 0xe2d, 0xe38, 0xe1b, 0xe01, 0xe23, 0xe13, 0xe4c]),
    (''devices'', [0xe40, 0xe04, 0xe23, 0xe37, 0xe48, 0xe2d, 0xe07, 0xe2a, 0xe41, 0xe01, 0xe19, 0xe25, 0xe32, 0xe22, 0xe19, 0xe34, 0xe49, 0xe27, 0xe21, 0xe37, 0xe2d]),
    (''system'', [0xe2a, 0xe16, 0xe32, 0xe19, 0xe30, 0xe41, 0xe25, 0xe30, 0xe15, 0xe31, 0xe49, 0xe07, 0xe04, 0xe48, 0xe32, 0xe23, 0xe30, 0xe1a, 0xe1a]),
    (''administration'', [0xe01, 0xe32, 0xe23, 0xe1a, 0xe23, 0xe34, 0xe2b, 0xe32, 0xe23, 0xe08, 0xe31, 0xe14, 0xe01, 0xe32, 0xe23]),
    (''audit'', [0xe1a, 0xe31, 0xe19, 0xe17, 0xe36, 0xe01, 0xe04, 0xe27, 0xe32, 0xe21, 0xe1b, 0xe25, 0xe2d, 0xe14, 0xe20, 0xe31, 0xe22]),
    (''operators'', [0xe1a, 0xe31, 0xe0d, 0xe0a, 0xe35, 0xe1c, 0xe39, 0xe49, 0xe43, 0xe0a, 0xe49, 0xe07, 0xe32, 0xe19, 0xe23, 0xe30, 0xe1a, 0xe1a]),
    (''myAccount'', [0xe1a, 0xe31, 0xe0d, 0xe0a, 0xe35, 0xe1c, 0xe39, 0xe49, 0xe43, 0xe0a, 0xe49]),
    (''changePassword'', [0xe40, 0xe1b, 0xe25, 0xe35, 0xe48, 0xe22, 0xe19, 0xe23, 0xe2b, 0xe31, 0xe2a, 0xe1c, 0xe48, 0xe32, 0xe19]),
    (''signOut'', [0xe2d, 0xe2d, 0xe01, 0xe08, 0xe32, 0xe01, 0xe23, 0xe30, 0xe1a, 0xe1a])]"

definition th_status :: texts where
  "th_status = [
    (''writesLocked'', [0xd83d, 0xdd12, 0x20, 0xe42, 0xe2b, 0xe21, 0xe14, 0xe14, 0xe39, 0xe02, 0xe49, 0xe2d, 0xe21, 0xe39, 0xe25, 0x20, 0x28, 0xe1b, 0xe25, 0xe2d, 0xe14, 0xe20, 0xe31, 0xe22, 0x29]),
    (''writesActive'', [0x26a0, 0xfe0f, 0x20, 0xe40, 0xe1b, 0xe34, 0xe14, 0xe01, 0xe32, 0xe23, 0xe41, 0xe01, 0xe49, 0xe44, 0xe02, 0xe02, 0xe49, 0xe2d, 0xe21, 0xe39, 0xe25, 0xe2d, 0xe22, 0xe39, 0xe48, 0x20, 0x28, 0xe23, 0xe30, 0xe27, 0xe31, 0xe07, 0x29]),
    (''collectorLive'', [0xe23, 0xe30, 0xe1a, 0xe1a, 0xe23, 0xe31, 0xe1a, 0xe02, 0xe49, 0xe2d, 0xe21, 0xe39, 0xe25, 0xe17, 0xe33, 0xe07, 0xe32, 0xe19, 0xe1b, 0xe01, 0xe15, 0xe34]),
    (''collectorOffline'', [0xe23, 0xe30, 0xe1a, 0xe1a, 0xe23, 0xe31, 0xe1a, 0xe02, 0xe49, 0xe2d, 0xe21, 0xe39, 0xe25, 0xe2b, 0xe22, 0xe38, 0xe14, 0xe17, 0xe33, 0xe07, 0xe32, 0xe19]),
    (''collectorConnecting'', [0xe01, 0xe33, 0xe25, 0xe31, 0xe07, 0xe40, 0xe0a, 0xe37, 0xe48, 0xe2d, 0xe21, 0xe15, 0xe48, 0xe2d, 0xe23, 0xe30, 0xe1a, 0xe1a, 0x2e, 0x2e, 0x2e]),
    (''deviceConnected'', [0xe40, 0xe0a, 0xe37, 0xe48, 0xe2d, 0xe21, 0xe15, 0xe48, 0xe2d, 0xe40, 0xe04, 0xe23, 0xe37, 0xe48, 0xe2d, 0xe07, 0xe2a, 0xe41, 0xe01, 0xe19, 0xe41, 0xe25, 0xe49, 0xe27]),
    (''deviceDisconnected'', [0xe02, 0xe32, 0xe14, 0xe01, 0xe32, 0xe23, 0xe40, 0xe0a, 0xe37, 0xe48, 0xe2d, 0xe21, 0xe15, 0xe48, 0xe2d, 0xe40, 0xe04, 0xe23, 0xe37, 0xe48, 0xe2d, 0xe07, 0xe2a, 0xe41, 0xe01, 0xe19]),
    (''dbHealthy'', [0xe10, 0xe32, 0xe19, 0xe02, 0xe49, 0xe2d, 0xe21, 0xe39, 0xe25, 0xe1b, 0xe01, 0xe15, 0xe34]),
    (''dbDegraded'', [0xe10, 0xe32, 0xe19, 0xe02, 0xe49, 0xe2d, 0xe21, 0xe39, 0xe25, 0xe21, 0xe35, 0xe1b, 0xe31, 0xe0d, 0xe2b, 0xe32]),
    (''mqttHealthy'', [0xe23, 0xe30, 0xe1a, 0xe1a, 0xe02, 0xe49, 0xe2d, 0xe04, 0xe27, 0xe32, 0xe21, 0xe1b, 0xe01, 0xe15, 0xe34]),
    (''mqttUnreachable'', [0xe15, 0xe34, 0xe14, 0xe15, 0xe48, 0xe2d, 0xe23, 0xe30, 0xe1a, 0xe1a, 0xe02, 0xe49, 0xe2d, 0xe04, 0xe27, 0xe32, 0xe21, 0xe44, 0xe21, 0xe48, 0xe44, 0xe14, 0xe49]),
    (''liveStreamActive'', [0xe2a, 0xe31, 0xe0d, 0xe0d, 0xe32, 0xe13, 0xe02, 0xe49, 0xe2d, 0xe21, 0xe39, 0xe25, 0xe2a, 0xe14, 0xe17, 0xe33, 0xe07, 0xe32, 0xe19])]"

definition th_roles :: texts where
  "th_roles = [
    (''viewer'', [0xe1c, 0xe39, 0xe49, 0xe14, 0xe39, 0xe02, 0xe49, 0xe2d, 0xe21, 0xe39, 0xe25, 0x20, 0x28, 0x56, 0x49, 0x45, 0x57, 0x45, 0x52, 0x29]),
    (''enrollmentOperator'', [0xe40, 0xe08, 0xe49, 0xe32, 0xe2b, 0xe19, 0xe49, 0xe32, 0xe17, 0xe35, 0xe48, 0xe25, 0xe07, 0xe17, 0xe30, 0xe40, 0xe1a, 0xe35, 0xe22, 0xe19, 0x20, 0x28, 0x45, 0x4e, 0x52, 0x4f, 0x4c, 0x4c, 0x4d, 0x45, 0x4e, 0x54, 0x29]),
    (''operator'', [0xe40, 0xe08, 0xe49, 0xe32, 0xe2b, 0xe19, 0xe49, 0xe32, 0xe17, 0xe35, 0xe48, 0xe1b, 0xe0f, 0xe34, 0xe1a, 0xe31, 0xe15, 0xe34, 0xe07, 0xe32, 0xe19, 0x20, 0x28, 0x4f, 0x50, 0x45, 0x52, 0x41, 0x54, 0x4f, 0x52, 0x29]),
    (''admin'', [0xe1c, 0xe39, 0xe49, 0xe14, 0xe39, 0xe41, 0xe25, 0xe23, 0xe30, 0xe1a, 0xe1a, 0x20, 0x28, 0x41, 0x44, 0x4d, 0x49, 0x4e, 0x29]),
    (''viewerDesc'', [0xe14, 0xe39, 0xe02, 0xe49, 0xe2d, 0xe21, 0xe39, 0xe25, 0xe41, 0xe25, 0xe30, 0xe23, 0xe32, 0xe22, 0xe07, 0xe32, 0xe19, 0xe44, 0xe14, 0xe49, 0x20, 0xe41, 0xe15, 0xe48, 0xe44, 0xe21, 0xe48, 0xe2a, 0xe32, 0xe21, 0xe32, 0xe23, 0xe16, 0xe41, 0xe01, 0xe49, 0xe44, 0xe02, 0xe02, 0xe49, 0xe2d, 0xe21, 0xe39, 0xe25]),
    (''enrollmentOperatorDesc'', [0xe25, 0xe07, 0xe17, 0xe30, 0xe40, 0xe1a, 0xe35, 0xe22, 0xe19, 0xe1a, 0xe38, 0xe04, 0xe04, 0xe25, 0xe41, 0xe25, 0xe30, 0xe25, 0xe32, 0xe22, 0xe19, 0xe34, 0xe49, 0xe27, 0xe21, 0xe37, 0xe2d, 0xe44, 0xe14, 0xe49, 0xe40, 0xe21, 0xe37, 0xe48, 0xe2d, 0xe21, 0xe35, 0xe01, 0xe32, 0xe23, 0xe40, 0xe1b, 0xe34, 0xe14, 0xe0a, 0xe48, 0xe27, 0xe07, 0xe1b, 0xe0f, 0xe34, 0xe1a, 0xe31, 0xe15, 0xe34, 0xe07, 0xe32, 0xe19, 0x20, 0xe41, 0xe15, 0xe48, 0xe44, 0xe21, 0xe48, 0xe2a, 0xe32, 0xe21, 0xe32, 0xe23, 0xe16, 0xe40, 0xe1b, 0xe34, 0xe14, 0xe0a, 0xe48, 0xe27, 0xe07, 0xe1b, 0xe0f, 0xe34, 0xe1a, 0xe31, 0xe15, 0xe34, 0xe07, 0xe32, 0xe19, 0xe2b, 0xe23, 0xe37, 0xe2d, 0xe08, 0xe31, 0xe14, 0xe01, 0xe32, 0xe23, 0xe23, 0xe30, 0xe1a, 0xe1a]),
    (''operatorDesc'', [0xe40, 0xe1b, 0xe34, 0xe14, 0xe41, 0xe25, 0xe30, 0xe1b, 0xe34, 0xe14, 0xe0a, 0xe48, 0xe27, 0xe07, 0xe1b, 0xe0f, 0xe34, 0xe1a, 0xe31, 0xe15, 0xe34, 0xe07, 0xe32, 0xe19, 0xe44, 0xe14, 0xe49, 0x20, 0xe41, 0xe25, 0xe30, 0xe14, 0xe39, 0xe41, 0xe25, 0xe07, 0xe32, 0xe19, 0xe1b, 0xe23, 0xe30, 0xe08, 0xe33, 0xe27, 0xe31, 0xe19, 0x20, 0xe41, 0xe15, 0xe48, 0xe44, 0xe21, 0xe48, 0xe2a, 0xe32, 0xe21, 0xe32, 0xe23, 0xe16, 0xe08, 0xe31, 0xe14, 0xe01, 0xe32, 0xe23, 0xe1a, 0xe31, 0xe0d, 0xe0a, 0xe35, 0xe1c, 0xe39, 0xe49, 0xe43, 0xe0a, 0xe49, 0xe2b, 0xe23, 0xe37, 0xe2d, 0xe01, 0xe32, 0xe23, 0xe15, 0xe31, 0xe49, 0xe07, 0xe04, 0xe48, 0xe32, 0xe23, 0xe30, 0xe1a, 0xe1a, 0xe2a, 0xe33, 0xe04, 0xe31, 0xe0d]),
    (''adminDesc'', [0xe08, 0xe31, 0xe14, 0xe01, 0xe32, 0xe23, 0xe23, 0xe30, 0xe1a, 0xe1a, 0x20, 0xe1c, 0xe39, 0xe49, 0xe43, 0xe0a, 0xe49, 0xe07, 0xe32, 0xe19, 0x20, 0xe1a, 0xe38, 0xe04, 0xe25, 0xe32, 0xe01, 0xe23, 0x20, 0xe40, 0xe04, 0xe23, 0xe37, 0xe48, 0xe2d, 0xe07, 0xe2a, 0xe41, 0xe01, 0xe19, 0x20, 0xe41, 0xe25, 0xe30, 0xe2a, 0xe34, 0xe17, 0xe18, 0xe34, 0xe4c, 0xe17, 0xe31, 0xe49, 0xe07, 0xe2b, 0xe21, 0xe14]),
    (''loadingAccount'', [0xe01, 0xe33, 0xe25, 0xe31, 0xe07, 0xe42, 0xe2b, 0xe25, 0xe14, 0xe2a, 0xe34, 0xe17, 0xe18, 0xe34, 0xe4c, 0xe1c, 0xe39, 0xe49, 0xe43, 0xe0a, 0xe49, 0xe07, 0xe32, 0xe19, 0x2e, 0x2e, 0x2e]),
    (''sessionErrorTitle'', [0xe15, 0xe23, 0xe27, 0xe08, 0xe2a, 0xe2d, 0xe1a, 0xe2a, 0xe34, 0xe17, 0xe18, 0xe34, 0xe4c, 0xe1c, 0xe39, 0xe49, 0xe43, 0xe0a, 0xe49, 0xe07, 0xe32, 0xe19, 0xe44, 0xe21, 0xe48, 0xe2a, 0xe33, 0xe40, 0xe23, 0xe47, 0xe08]),
    (''sessionErrorBody'', [0xe23, 0xe30, 0xe1a, 0xe1a, 0xe44, 0xe21, 0xe48, 0xe2a, 0xe32, 0xe21, 0xe32, 0xe23, 0xe16, 0xe22, 0xe37, 0xe19, 0xe22, 0xe31, 0xe19, 0xe2a, 0xe34, 0xe17, 0xe18, 0xe34, 0xe4c, 0xe02, 0xe2d, 0xe07, 0xe04, 0xe38, 0xe13, 0xe44, 0xe14, 0xe49, 0x20, 0xe01, 0xe23, 0xe38, 0xe13, 0xe32, 0xe40, 0xe02, 0xe49, 0xe32, 0xe2a, 0xe39, 0xe48, 0xe23, 0xe30, 0xe1a, 0xe1a, 0xe43, 0xe2b, 0xe21, 0xe48, 0xe2d, 0xe35, 0xe01, 0xe04, 0xe23, 0xe31, 0xe49, 0xe07]),
    (''reloginButton'', [0xe40, 0xe02, 0xe49, 0xe32, 0xe2a, 0xe39, 0xe48, 0xe23, 0xe30, 0xe1a, 0xe1a, 0xe43, 0xe2b, 0xe21, 0xe48])]"

definition th_login :: texts where
  "th_login = [
    (''title'', [0xe23, 0xe30, 0xe1a, 0xe1a, 0xe08, 0xe31, 0xe14, 0xe01, 0xe32, 0xe23, 0xe40, 0xe04, 0xe23, 0xe37, 0xe48, 0xe2d, 0xe07, 0xe2a, 0xe41, 0xe01, 0xe19, 0xe40, 0xe27, 0xe25, 0xe32, 0x20, 0x28, 0x41, 0x44, 0x4d, 0x53, 0x29]),
    (''subtitle'', [0xe40, 0xe02, 0xe49, 0xe32, 0xe2a, 0xe39, 0xe48, 0xe23, 0xe30, 0xe1a, 0xe1a, 0xe40, 0xe1e, 0xe37, 0xe48, 0xe2d, 0xe1b, 0xe0f, 0xe34, 0xe1a, 0xe31, 0xe15, 0xe34, 0xe07, 0xe32, 0xe19]),
    (''environment'', [0xe40, 0xe0b, 0xe34, 0xe23, 0xe4c, 0xe1f, 0xe40, 0xe27, 0xe2d, 0xe23, 0xe4c, 0xe1b, 0xe0f, 0xe34, 0xe1a, 0xe31, 0xe15, 0xe34, 0xe01, 0xe32, 0xe23]),
    (''usernameLabel'', [0xe0a, 0xe37, 0xe48, 0xe2d, 0xe1c, 0xe39, 0xe49, 0xe43, 0xe0a, 0xe49, 0xe07, 0xe32, 0xe19]),
    (''usernamePlaceholder'', [0xe01, 0xe23, 0xe2d, 0xe01, 0xe0a, 0xe37, 0xe48, 0xe2d, 0xe1c, 0xe39, 0xe49, 0xe43, 0xe0a, 0xe49, 0xe02, 0xe2d, 0xe07, 0xe04, 0xe38, 0xe13]),
    (''passwordLabel'', [0xe23, 0xe2b, 0xe31, 0xe2a, 0xe1c, 0xe48, 0xe32, 0xe19]),
    (''passwordPlaceholder'', [0xe01, 0xe23, 0xe2d, 0xe01, 0xe23, 0xe2b, 0xe31, 0xe2a, 0xe1c, 0xe48, 0xe32, 0xe19]),
    (''signInButton'', [0xe40, 0xe02, 0xe49, 0xe32, 0xe2a, 0xe39, 0xe48, 0xe23, 0xe30, 0xe1a, 0xe1a]),
    (''signingIn'', [0xe01, 0xe33, 0xe25, 0xe31, 0xe07, 0xe40, 0xe02, 0xe49, 0xe32, 0xe2a, 0xe39, 0xe48, 0xe23, 0xe30, 0xe1a, 0xe1a, 0x2e, 0x2e, 0x2e]),
    (''failed'', [0xe0a, 0xe37, 0xe48, 0xe2d, 0xe1c, 0xe39, 0xe49, 0xe43, 0xe0a, 0xe49, 0xe2b, 0xe23, 0xe37, 0xe2d, 0xe23, 0xe2b, 0xe31, 0xe2a, 0xe1c, 0xe48, 0xe32, 0xe19, 0xe44, 0xe21, 0xe48, 0xe16, 0xe39, 0xe01, 0xe15, 0xe49, 0xe2d, 0xe07])]"

definition th_dashboard :: texts where
  "th_dashboard = [
    (''title'', [0xe20, 0xe32, 0xe1e, 0xe23, 0xe27, 0xe21, 0xe23, 0xe30, 0xe1a, 0xe1a, 0xe41, 0xe25, 0xe30, 0xe01, 0xe32, 0xe23, 0xe1b, 0xe0f, 0xe34, 0xe1a, 0xe31, 0xe15, 0xe34, 0xe07, 0xe32, 0xe19]),
    (''subtitle'', [0xe2a, 0xe16, 0xe32, 0xe19, 0xe30, 0xe01, 0xe32, 0xe23, 0xe17, 0xe33, 0xe07, 0xe32, 0xe19, 0xe2a, 0xe14, 0x20, 0xe2a, 0xe16, 0xe34, 0xe15, 0xe34, 0xe25, 0xe07, 0xe17, 0xe30, 0xe40, 0xe1a, 0xe35, 0xe22, 0xe19, 0x20, 0xe41, 0xe25, 0xe30, 0xe1a, 0xe31, 0xe19, 0xe17, 0xe36, 0xe01, 0xe40, 0xe27, 0xe25, 0xe32]),
    (''systemOperational'', [0xe23, 0xe30, 0xe1a, 0xe1a, 0xe17, 0xe33, 0xe07, 0xe32, 0xe19, 0xe2a, 0xe21, 0xe1a, 0xe39, 0xe23, 0xe13, 0xe4c]),
    (''systemDegraded'', [0xe23, 0xe30, 0xe1a, 0xe1a, 0xe21, 0xe35, 0xe02, 0xe49, 0xe2d, 0xe02, 0xe31, 0xe14, 0xe02, 0xe49, 0xe2d, 0xe07, 0xe1a, 0xe32, 0xe07, 0xe2a, 0xe48, 0xe27, 0xe19]),
    (''kpiPersonnelTotal'', [0xe01, 0xe33, 0xe25, 0xe31, 0xe07, 0xe1e, 0xe25, 0xe17, 0xe31, 0xe49, 0xe07, 0xe2b, 0xe21, 0xe14]),
    (''kpiPersonnelEligible'', [0xe01, 0xe33, 0xe25, 0xe31, 0xe07, 0xe1e, 0xe25, 0xe17, 0xe35, 0xe48, 0xe15, 0xe49, 0xe2d, 0xe07, 0xe2a, 0xe41, 0xe01, 0xe19]),
    (''kpiPersonnelExcluded'', [0xe1b, 0xe0f, 0xe34, 0xe1a, 0xe31, 0xe15, 0xe34, 0xe2b, 0xe19, 0xe49, 0xe32, 0xe17, 0xe35, 0xe48, 0xe1e, 0xe34, 0xe40, 0xe28, 0xe29]),
    (''kpiAttendanceToday'', [0xe2a, 0xe41, 0xe01, 0xe19, 0xe27, 0xe31, 0xe19, 0xe19, 0xe35, 0xe49]),
    (''kpiAttendanceTotal'', [0xe2a, 0xe41, 0xe01, 0xe19, 0xe2a, 0xe30, 0xe2a, 0xe21, 0xe17, 0xe31, 0xe49, 0xe07, 0xe2b, 0xe21, 0xe14]),
    (''kpiUnattributed'', [0xe2a, 0xe41, 0xe01, 0xe19, 0xe17, 0xe35, 0xe48, 0xe22, 0xe31, 0xe07, 0xe44, 0xe21, 0xe48, 0xe08, 0xe31, 0xe1a, 0xe04, 0xe39, 0xe48]),
    (''kpiDevicesActive'', [0xe40, 0xe04, 0xe23, 0xe37, 0xe48, 0xe2d, 0xe07, 0xe2a, 0xe41, 0xe01, 0xe19, 0xe17, 0xe35, 0xe48, 0xe1e, 0xe23, 0xe49, 0xe2d, 0xe21, 0xe43, 0xe0a, 0xe49]),
    (''kpiDevicesTotal'', [0xe40, 0xe04, 0xe23, 0xe37, 0xe48, 0xe2d, 0xe07, 0xe2a, 0xe41, 0xe01, 0xe19, 0xe17, 0xe31, 0xe49, 0xe07, 0xe2b, 0xe21, 0xe14]),
    (''kpiMappingsActive'', [0xe22, 0xe37, 0xe19, 0xe22, 0xe31, 0xe19, 0xe15, 0xe31, 0xe27, 0xe15, 0xe19, 0xe2a, 0xe33, 0xe40, 0xe23, 0xe47, 0xe08]),
    (''kpiMappingsTotal'', [0xe1b, 0xe23, 0xe30, 0xe27, 0xe31, 0xe15, 0xe34, 0xe01, 0xe32, 0xe23, 0xe08, 0xe31, 0xe1a, 0xe04, 0xe39, 0xe48, 0xe17, 0xe31, 0xe49, 0xe07, 0xe2b, 0xe21, 0xe14]),
    (''kpiUnmappedUsers'', [0xe1c, 0xe39, 0xe49, 0xe43, 0xe0a, 0xe49, 0xe1a, 0xe19, 0xe40, 0xe04, 0xe23, 0xe37, 0xe48, 0xe2d, 0xe07, 0xe17, 0xe35, 0xe48, 0xe22, 0xe31, 0xe07, 0xe44, 0xe21, 0xe48, 0xe08, 0xe31, 0xe1a, 0xe04, 0xe39, 0xe48]),
    (''enrollmentStatusTitle'', [0xe20, 0xe32, 0xe1e, 0xe23, 0xe27, 0xe21, 0xe2a, 0xe16, 0xe32, 0xe19, 0xe30, 0xe01, 0xe32, 0xe23, 0xe25, 0xe07, 0xe17, 0xe30, 0xe40, 0xe1a, 0xe35, 0xe22, 0xe19]),
    (''enrollmentActiveCountLabel'', [0xe23, 0xe32, 0xe22, 0xe01, 0xe32, 0xe23, 0xe17, 0xe35, 0xe48, 0xe15, 0xe49, 0xe2d, 0xe07, 0xe14, 0xe33, 0xe40, 0xe19, 0xe34, 0xe19, 0xe01, 0xe32, 0xe23]),
    (''enrollmentActiveCountHint'', [0xe40, 0xe09, 0xe1e, 0xe32, 0xe30, 0xe07, 0xe32, 0xe19, 0xe17, 0xe35, 0xe48, 0xe22, 0xe31, 0xe07, 0xe44, 0xe21, 0xe48, 0xe40, 0xe2a, 0xe23, 0xe47, 0xe08, 0xe08, 0xe23, 0xe34, 0xe07]),
    (''lifecycleInProgress'', [0xe01, 0xe33, 0xe25, 0xe31, 0xe07, 0xe25, 0xe07, 0xe17, 0xe30, 0xe40, 0xe1a, 0xe35, 0xe22, 0xe19]),
    (''lifecycleCompleted'', [0xe40, 0xe2a, 0xe23, 0xe47, 0xe08, 0xe41, 0xe25, 0xe49, 0xe27]),
    (''lifecycleRemoved'', [0xe19, 0xe33, 0xe2d, 0xe2d, 0xe01, 0xe08, 0xe32, 0xe01, 0xe40, 0xe04, 0xe23, 0xe37, 0xe48, 0xe2d, 0xe07, 0xe41, 0xe25, 0xe49, 0xe27]),
    (''lifecycleCancelled'', [0xe22, 0xe01, 0xe40, 0xe25, 0xe34, 0xe01, 0xe41, 0xe25, 0xe49, 0xe27]),
    (''mappingsHistoricalHint'', [0xe23, 0xe27, 0xe21, 0xe1b, 0xe23, 0xe30, 0xe27, 0xe31, 0xe15, 0xe34, 0xe17, 0xe31, 0xe49, 0xe07, 0xe2b, 0xe21, 0xe14])]"

definition th_leave :: texts where
  "th_leave = [
    (''trialBodyDate'', [0xe23, 0xe30, 0xe1a, 0xe1a, 0xe08, 0xe30, 0xe40, 0xe23, 0xe34, 0xe48, 0xe21, 0xe19, 0xe31, 0xe1a, 0xe08, 0xe23, 0xe34, 0xe07, 0xe41, 0xe25, 0xe30, 0xe2a, 0xe48, 0xe07, 0xe23, 0xe32, 0xe22, 0xe07, 0xe32, 0xe19, 0xe15, 0xe31, 0xe49, 0xe07, 0xe41, 0xe15, 0xe48, 0xe27, 0xe31, 0xe19, 0xe17, 0xe35, 0xe48, 0x20, 0x7b, 0x64, 0x61, 0x74, 0x65, 0x7d, 0x20, 0x2014, 0x20, 0xe04, 0xe19, 0xe17, 0xe35, 0xe48, 0xe22, 0xe31, 0xe07, 0xe44, 0xe21, 0xe48, 0xe25, 0xe07, 0xe19, 0xe34, 0xe49, 0xe27, 0xe08, 0xe30, 0xe44, 0xe21, 0xe48, 0xe16, 0xe39, 0xe01, 0xe19, 0xe31, 0xe1a, 0xe02, 0xe32, 0xe14]),
    (''trackDateLabel'', [0xe40, 0xe23, 0xe34, 0xe48, 0xe21, 0xe43, 0xe0a, 0xe49, 0xe07, 0xe32, 0xe19, 0xe08, 0xe23, 0xe34, 0xe07, 0xe27, 0xe31, 0xe19, 0xe17, 0xe35, 0xe48]),
    (''trackDateButton'', [0xe15, 0xe31, 0xe49, 0xe07, 0xe27, 0xe31, 0xe19, 0xe40, 0xe23, 0xe34, 0xe48, 0xe21, 0xe43, 0xe0a, 0xe49, 0xe07, 0xe32, 0xe19, 0xe08, 0xe23, 0xe34, 0xe07]),
    (''trackDateActive'', [0xe19, 0xe31, 0xe1a, 0xe08, 0xe23, 0xe34, 0xe07, 0xe15, 0xe31, 0xe49, 0xe07, 0xe41, 0xe15, 0xe48, 0x20, 0x7b, 0x64, 0x61, 0x74, 0x65, 0x7d, 0x20, 0x2014, 0x20, 0xe01, 0xe48, 0xe2d, 0xe19, 0xe2b, 0xe19, 0xe49, 0xe32, 0xe19, 0xe31, 0xe49, 0xe19, 0xe40, 0xe1b, 0xe47, 0xe19, 0xe0a, 0xe48, 0xe27, 0xe07, 0xe17, 0xe14, 0xe25, 0xe2d, 0xe07, 0x20, 0xe44, 0xe21, 0xe48, 0xe19, 0xe31, 0xe1a, 0x20, 0xe41, 0xe25, 0xe30, 0xe44, 0xe21, 0xe48, 0xe2a, 0xe48, 0xe07, 0xe23, 0xe32, 0xe22, 0xe07, 0xe32, 0xe19, 0x20, 0xb7, 0x20, 0xe04, 0xe19, 0xe17, 0xe35, 0xe48, 0xe22, 0xe31, 0xe07, 0xe44, 0xe21, 0xe48, 0xe25, 0xe07, 0xe19, 0xe34, 0xe49, 0xe27, 0xe08, 0xe30, 0xe44, 0xe21, 0xe48, 0xe16, 0xe39, 0xe01, 0xe19, 0xe31, 0xe1a, 0xe02, 0xe32, 0xe14]),
    (''trialTitle'', [0xe42, 0xe2b, 0xe21, 0xe14, 0xe17, 0xe14, 0xe25, 0xe2d, 0xe07, 0x20, 0x2014, 0x20, 0xe22, 0xe31, 0xe07, 0xe44, 0xe21, 0xe48, 0xe19, 0xe31, 0xe1a, 0xe02, 0xe32, 0xe14, 0xe08, 0xe23, 0xe34, 0xe07]),
    (''trialBody'', [0xe23, 0xe30, 0xe1a, 0xe1a, 0xe08, 0xe30, 0xe40, 0xe23, 0xe34, 0xe48, 0xe21, 0xe19, 0xe31, 0xe1a, 0xe08, 0xe23, 0xe34, 0xe07, 0xe41, 0xe25, 0xe30, 0xe2a, 0xe48, 0xe07, 0xe23, 0xe32, 0xe22, 0xe07, 0xe32, 0xe19, 0x20, 0x54, 0x65, 0x6c, 0x65, 0x67, 0x72, 0x61, 0x6d, 0x20, 0xe40, 0xe21, 0xe37, 0xe48, 0xe2d, 0xe04, 0xe19, 0xe17, 0xe35, 0xe48, 0xe15, 0xe49, 0xe2d, 0xe07, 0xe2a, 0xe41, 0xe01, 0xe19, 0xe25, 0xe07, 0xe25, 0xe32, 0xe22, 0xe19, 0xe34, 0xe49, 0xe27, 0xe21, 0xe37, 0xe2d, 0xe04, 0xe23, 0xe1a, 0x20, 0x28, 0xe15, 0xe2d, 0xe19, 0xe19, 0xe35, 0xe49, 0x20, 0x7b, 0x64, 0x6f, 0x6e, 0x65, 0x7d, 0x2f, 0x7b, 0x72, 0x65, 0x71, 0x7d, 0x20, 0xe04, 0xe19, 0x29, 0x20, 0x2014, 0x20, 0xe44, 0xe21, 0xe48, 0xe23, 0xe27, 0xe21, 0xe1c, 0xe39, 0xe49, 0xe1b, 0xe0f, 0xe34, 0xe1a, 0xe31, 0xe15, 0xe34, 0xe2b, 0xe19, 0xe49, 0xe32, 0xe17, 0xe35, 0xe48, 0xe1e, 0xe34, 0xe40, 0xe28, 0xe29, 0x20, 0xe1c, 0xe39, 0xe49, 0xe44, 0xe1b, 0xe23, 0xe32, 0xe0a, 0xe01, 0xe32, 0xe23, 0x2f, 0xe0a, 0xe48, 0xe27, 0xe22, 0xe23, 0xe32, 0xe0a, 0xe01, 0xe32, 0xe23, 0x20, 0xe41, 0xe25, 0xe30, 0xe1e, 0xe25, 0xe17, 0xe2b, 0xe32, 0xe23]),
    (''trialAbsent'', [0xe02, 0xe32, 0xe14, 0x20, 0x28, 0xe17, 0xe14, 0xe25, 0xe2d, 0xe07, 0x29]),
    (''readinessAway'', [0xe44, 0xe1b, 0xe23, 0xe32, 0xe0a, 0xe01, 0xe32, 0xe23]),
    (''trackTitle'', [0xe40, 0xe23, 0xe34, 0xe48, 0xe21, 0xe19, 0xe31, 0xe1a, 0xe02, 0xe32, 0xe14, 0x20, 0x2f, 0x20, 0xe2a, 0xe48, 0xe07, 0xe23, 0xe32, 0xe22, 0xe07, 0xe32, 0xe19, 0xe08, 0xe23, 0xe34, 0xe07]),
    (''trackAuto'', [0xe2d, 0xe31, 0xe15, 0xe42, 0xe19, 0xe21, 0xe31, 0xe15, 0xe34, 0x20, 0x2014, 0x20, 0xe40, 0xe23, 0xe34, 0xe48, 0xe21, 0xe40, 0xe21, 0xe37, 0xe48, 0xe2d, 0xe25, 0xe07, 0xe19, 0xe34, 0xe49, 0xe27, 0xe04, 0xe23, 0xe1a]),
    (''trackOn'', [0xe40, 0xe1b, 0xe34, 0xe14, 0xe19, 0xe31, 0xe1a, 0xe08, 0xe23, 0xe34, 0xe07, 0xe40, 0xe25, 0xe22]),
    (''trackOff'', [0xe1b, 0xe34, 0xe14, 0x20, 0x28, 0xe17, 0xe14, 0xe25, 0xe2d, 0xe07, 0xe15, 0xe48, 0xe2d, 0x29]),
    (''trackLive'', [0xe01, 0xe33, 0xe25, 0xe31, 0xe07, 0xe19, 0xe31, 0xe1a, 0xe08, 0xe23, 0xe34, 0xe07]),
    (''trackTrial'', [0xe42, 0xe2b, 0xe21, 0xe14, 0xe17, 0xe14, 0xe25, 0xe2d, 0xe07]),
    (''st_NOT_ENROLLED'', [0xe22, 0xe31, 0xe07, 0xe44, 0xe21, 0xe48, 0xe25, 0xe07, 0xe19, 0xe34, 0xe49, 0xe27, 0x20, 0x28, 0xe44, 0xe21, 0xe48, 0xe19, 0xe31, 0xe1a, 0x29]),
    (''readinessTitle'', [0xe04, 0xe27, 0xe32, 0xe21, 0xe1e, 0xe23, 0xe49, 0xe2d, 0xe21, 0xe25, 0xe07, 0xe25, 0xe32, 0xe22, 0xe19, 0xe34, 0xe49, 0xe27, 0xe21, 0xe37, 0xe2d]),
    (''readinessHint'', [0xe04, 0xe19, 0xe17, 0xe35, 0xe48, 0xe22, 0xe31, 0xe07, 0xe44, 0xe21, 0xe48, 0xe25, 0xe07, 0xe19, 0xe34, 0xe49, 0xe27, 0xe08, 0xe30, 0xe44, 0xe21, 0xe48, 0xe16, 0xe39, 0xe01, 0xe19, 0xe31, 0xe1a, 0x20, 0xe21, 0xe32, 0x2f, 0xe2a, 0xe32, 0xe22, 0x2f, 0xe02, 0xe32, 0xe14, 0x20, 0x2014, 0x20, 0xe40, 0xe23, 0xe34, 0xe48, 0xe21, 0xe19, 0xe31, 0xe1a, 0xe27, 0xe31, 0xe19, 0xe16, 0xe31, 0xe14, 0xe08, 0xe32, 0xe01, 0xe27, 0xe31, 0xe19, 0xe17, 0xe35, 0xe48, 0xe25, 0xe07, 0xe19, 0xe34, 0xe49, 0xe27, 0xe40, 0xe2a, 0xe23, 0xe47, 0xe08]),
    (''readinessRequired'', [0xe15, 0xe49, 0xe2d, 0xe07, 0xe2a, 0xe41, 0xe01, 0xe19]),
    (''readinessEnrolled'', [0xe25, 0xe07, 0xe19, 0xe34, 0xe49, 0xe27, 0xe41, 0xe25, 0xe49, 0xe27]),
    (''readinessMissing'', [0xe22, 0xe31, 0xe07, 0xe02, 0xe32, 0xe14]),
    (''tgTitle'', [0xe23, 0xe32, 0xe22, 0xe07, 0xe32, 0xe19, 0xe1c, 0xe39, 0xe49, 0xe02, 0xe32, 0xe14, 0xe40, 0xe02, 0xe49, 0xe32, 0x20, 0x54, 0x65, 0x6c, 0x65, 0x67, 0x72, 0x61, 0x6d]),
    (''tgHint'', [0xe2a, 0xe48, 0xe07, 0xe2d, 0xe31, 0xe15, 0xe42, 0xe19, 0xe21, 0xe31, 0xe15, 0xe34, 0x20, 0xe08, 0x2e, 0x2013, 0xe28, 0x2e, 0x20, 0x31, 0x31, 0x3a, 0x30, 0x35, 0x20, 0x28, 0xe2b, 0xe25, 0xe31, 0xe07, 0xe1b, 0xe34, 0xe14, 0xe0a, 0xe48, 0xe27, 0xe07, 0xe2a, 0xe41, 0xe01, 0xe19, 0x29, 0x20, 0xe40, 0xe09, 0xe1e, 0xe32, 0xe30, 0xe23, 0xe32, 0xe22, 0xe0a, 0xe37, 0xe48, 0xe2d, 0xe1c, 0xe39, 0xe49, 0xe02, 0xe32, 0xe14]),
    (''tgPreview'', [0xe14, 0xe39, 0xe15, 0xe31, 0xe27, 0xe2d, 0xe22, 0xe48, 0xe32, 0xe07, 0xe02, 0xe49, 0xe2d, 0xe04, 0xe27, 0xe32, 0xe21, 0xe27, 0xe31, 0xe19, 0xe19, 0xe35, 0xe49]),
    (''tgSend'', [0xe2a, 0xe48, 0xe07, 0xe17, 0xe14, 0xe2a, 0xe2d, 0xe1a, 0xe15, 0xe2d, 0xe19, 0xe19, 0xe35, 0xe49]),
    (''tgSent'', [0xe2a, 0xe48, 0xe07, 0xe41, 0xe25, 0xe49, 0xe27]),
    (''tgNotConfigured'', [0xe22, 0xe31, 0xe07, 0xe44, 0xe21, 0xe48, 0xe44, 0xe14, 0xe49, 0xe15, 0xe31, 0xe49, 0xe07, 0xe04, 0xe48, 0xe32] @ js '' bot '' @ [0x2014] @ js '' '' @ [0xe43, 0xe2a, 0xe48] @ js '' TELEGRAM_BOT_TOKEN '' @ [0xe41, 0xe25, 0xe30] @ js '' TELEGRAM_CHAT_ID '' @ [0xe43, 0xe19, 0xe44, 0xe1f, 0xe25, 0xe4c] @ js '' .env '' @ [0xe41, 0xe25, 0xe49, 0xe27] @ js '' deploy '' @ [0xe43, 0xe2b, 0xe21, 0xe48]),
    (''tgFailed'', [0xe2a, 0xe48, 0xe07, 0xe44, 0xe21, 0xe48, 0xe2a, 0xe33, 0xe40, 0xe23, 0xe47, 0xe08]),
    (''tgNonWorkday'', [0xe27, 0xe31, 0xe19, 0xe2b, 0xe22, 0xe38, 0xe14, 0x20, 0x2014, 0x20, 0xe44, 0xe21, 0xe48, 0xe21, 0xe35, 0xe23, 0xe32, 0xe22, 0xe07, 0xe32, 0xe19]),
    (''navMonthly'', [0xe23, 0xe32, 0xe22, 0xe07, 0xe32, 0xe19, 0xe1b, 0xe23, 0xe30, 0xe08, 0xe33, 0xe40, 0xe14, 0xe37, 0xe2d, 0xe19]),
    (''monthlyTitle'', [0xe23, 0xe32, 0xe22, 0xe07, 0xe32, 0xe19, 0xe01, 0xe32, 0xe23, 0xe21, 0xe32, 0xe1b, 0xe0f, 0xe34, 0xe1a, 0xe31, 0xe15, 0xe34, 0xe07, 0xe32, 0xe19, 0xe1b, 0xe23, 0xe30, 0xe08, 0xe33, 0xe40, 0xe14, 0xe37, 0xe2d, 0xe19]),
    (''monthlySubtitle'', [0xe27, 0xe31, 0xe19, 0xe17, 0xe33, 0xe07, 0xe32, 0xe19, 0x20, 0x7b, 0x6e, 0x7d, 0x20, 0xe27, 0xe31, 0xe19, 0x20, 0xb7, 0x20, 0xe19, 0xe31, 0xe1a, 0xe2a, 0xe41, 0xe01, 0xe19, 0xe0a, 0xe48, 0xe27, 0xe07, 0x20, 0x7b, 0x77, 0x69, 0x6e, 0x64, 0x6f, 0x77, 0x7d, 0x20, 0xb7, 0x20, 0xe2b, 0xe25, 0xe31, 0xe07, 0x20, 0x7b, 0x74, 0x69, 0x6d, 0x65, 0x7d, 0x20, 0xe19, 0xe31, 0xe1a, 0xe40, 0xe1b, 0xe47, 0xe19, 0xe21, 0xe32, 0xe2a, 0xe32, 0xe22]),
    (''exportExcel'', [0xe2a, 0xe48, 0xe07, 0xe2d, 0xe2d, 0xe01] @ js '' Excel (CSV)''),
    (''legend'', [0xe23, 0xe2b, 0xe31, 0xe2a]),
    (''deviceLive'', [0xe40, 0xe04, 0xe23, 0xe37, 0xe48, 0xe2d, 0xe07, 0xe2a, 0xe41, 0xe01, 0xe19, 0xe40, 0xe0a, 0xe37, 0xe48, 0xe2d, 0xe21, 0xe15, 0xe48, 0xe2d, 0xe2d, 0xe22, 0xe39, 0xe48]),
    (''deviceOffline'', [0xe40, 0xe04, 0xe23, 0xe37, 0xe48, 0xe2d, 0xe07, 0xe2a, 0xe41, 0xe01, 0xe19, 0xe44, 0xe21, 0xe48, 0xe44, 0xe14, 0xe49, 0xe40, 0xe0a, 0xe37, 0xe48, 0xe2d, 0xe21, 0xe15, 0xe48, 0xe2d]),
    (''deviceUnknown'', [0xe44, 0xe21, 0xe48, 0xe17, 0xe23, 0xe32, 0xe1a, 0xe2a, 0xe16, 0xe32, 0xe19, 0xe30, 0xe40, 0xe04, 0xe23, 0xe37, 0xe48, 0xe2d, 0xe07, 0xe2a, 0xe41, 0xe01, 0xe19]),
    (''deviceLastSeen'', [0xe40, 0xe0a, 0xe37, 0xe48, 0xe2d, 0xe21, 0xe15, 0xe48, 0xe2d, 0xe25, 0xe48, 0xe32, 0xe2a, 0xe38, 0xe14]),
    (''navLeave'', [0xe25, 0xe32, 0x20, 0x2f, 0x20, 0xe23, 0xe32, 0xe0a, 0xe01, 0xe32, 0xe23]),
    (''navDaily'', [0xe22, 0xe2d, 0xe14, 0xe01, 0xe33, 0xe25, 0xe31, 0xe07, 0xe1e, 0xe25, 0xe1b, 0xe23, 0xe30, 0xe08, 0xe33, 0xe27, 0xe31, 0xe19]),
    (''title'', [0xe1a, 0xe31, 0xe19, 0xe17, 0xe36, 0xe01, 0xe01, 0xe32, 0xe23, 0xe25, 0xe32, 0x20, 0x2f, 0x20, 0xe44, 0xe1b, 0xe23, 0xe32, 0xe0a, 0xe01, 0xe32, 0xe23, 0x20, 0x2f, 0x20, 0xe0a, 0xe48, 0xe27, 0xe22, 0xe23, 0xe32, 0xe0a, 0xe01, 0xe32, 0xe23]),
    (''subtitle'', [0xe1a, 0xe31, 0xe19, 0xe17, 0xe36, 0xe01, 0xe15, 0xe32, 0xe21, 0xe40, 0xe2d, 0xe01, 0xe2a, 0xe32, 0xe23, 0xe17, 0xe35, 0xe48, 0x20, 0xe1c, 0xe1a, 0x2e, 0xe1e, 0xe31, 0xe19, 0x20, 0xe25, 0xe07, 0xe19, 0xe32, 0xe21, 0xe41, 0xe25, 0xe49, 0xe27, 0x20, 0x2014, 0x20, 0xe1c, 0xe39, 0xe49, 0xe17, 0xe35, 0xe48, 0xe25, 0xe32, 0xe08, 0xe30, 0xe44, 0xe21, 0xe48, 0xe16, 0xe39, 0xe01, 0xe19, 0xe31, 0xe1a, 0xe27, 0xe48, 0xe32, 0xe02, 0xe32, 0xe14]),
    (''formTitle'', [0xe1a, 0xe31, 0xe19, 0xe17, 0xe36, 0xe01, 0xe23, 0xe32, 0xe22, 0xe01, 0xe32, 0xe23, 0xe43, 0xe2b, 0xe21, 0xe48]),
    (''person'', [0xe01, 0xe33, 0xe25, 0xe31, 0xe07, 0xe1e, 0xe25]),
    (''type'', [0xe1b, 0xe23, 0xe30, 0xe40, 0xe20, 0xe17]),
    (''startDate'', [0xe15, 0xe31, 0xe49, 0xe07, 0xe41, 0xe15, 0xe48, 0xe27, 0xe31, 0xe19, 0xe17, 0xe35, 0xe48]),
    (''endDate'', [0xe16, 0xe36, 0xe07, 0xe27, 0xe31, 0xe19, 0xe17, 0xe35, 0xe48]),
    (''orderRef'', [0xe40, 0xe25, 0xe02, 0xe17, 0xe35, 0xe48, 0xe04, 0xe33, 0xe2a, 0xe31, 0xe48, 0xe07, 0x20, 0x2f, 0x20, 0xe2b, 0xe19, 0xe31, 0xe07, 0xe2a, 0xe37, 0xe2d]),
    (''orderRefRequired'', [0xe1b, 0xe23, 0xe30, 0xe40, 0xe20, 0xe17, 0xe19, 0xe35, 0xe49, 0xe15, 0xe49, 0xe2d, 0xe07, 0xe23, 0xe30, 0xe1a, 0xe38, 0xe40, 0xe25, 0xe02, 0xe17, 0xe35, 0xe48, 0xe04, 0xe33, 0xe2a, 0xe31, 0xe48, 0xe07]),
    (''destination'', [0xe44, 0xe1b, 0xe17, 0xe35, 0xe48, 0x20, 0x2f, 0x20, 0xe2b, 0xe19, 0xe48, 0xe27, 0xe22, 0xe1b, 0xe25, 0xe32, 0xe22, 0xe17, 0xe32, 0xe07]),
    (''note'', [0xe2b, 0xe21, 0xe32, 0xe22, 0xe40, 0xe2b, 0xe15, 0xe38]),
    (''saveButton'', [0xe1a, 0xe31, 0xe19, 0xe17, 0xe36, 0xe01]),
    (''saved'', [0xe1a, 0xe31, 0xe19, 0xe17, 0xe36, 0xe01, 0xe40, 0xe23, 0xe35, 0xe22, 0xe1a, 0xe23, 0xe49, 0xe2d, 0xe22]),
    (''selectPersonRequired'', [0xe01, 0xe23, 0xe38, 0xe13, 0xe32, 0xe40, 0xe25, 0xe37, 0xe2d, 0xe01, 0xe01, 0xe33, 0xe25, 0xe31, 0xe07, 0xe1e, 0xe25, 0xe41, 0xe25, 0xe30, 0xe27, 0xe31, 0xe19, 0xe17, 0xe35, 0xe48]),
    (''overlap'', [0xe04, 0xe19, 0xe19, 0xe35, 0xe49, 0xe21, 0xe35, 0xe23, 0xe32, 0xe22, 0xe01, 0xe32, 0xe23, 0xe25, 0xe32, 0x2f, 0xe23, 0xe32, 0xe0a, 0xe01, 0xe32, 0xe23, 0xe43, 0xe19, 0xe0a, 0xe48, 0xe27, 0xe07, 0xe27, 0xe31, 0xe19, 0xe17, 0xe35, 0xe48, 0xe19, 0xe35, 0xe49, 0xe2d, 0xe22, 0xe39, 0xe48, 0xe41, 0xe25, 0xe49, 0xe27]),
    (''days'', [0xe27, 0xe31, 0xe19]),
    (''listTitle'', [0xe23, 0xe32, 0xe22, 0xe01, 0xe32, 0xe23]),
    (''filterCurrent'', [0xe1b, 0xe31, 0xe08, 0xe08, 0xe38, 0xe1a, 0xe31, 0xe19, 0xe41, 0xe25, 0xe30, 0xe17, 0xe35, 0xe48, 0xe08, 0xe30, 0xe16, 0xe36, 0xe07]),
    (''filterAll'', [0xe17, 0xe31, 0xe49, 0xe07, 0xe2b, 0xe21, 0xe14]),
    (''showCancelled'', [0xe41, 0xe2a, 0xe14, 0xe07, 0xe17, 0xe35, 0xe48, 0xe22, 0xe01, 0xe40, 0xe25, 0xe34, 0xe01, 0xe41, 0xe25, 0xe49, 0xe27]),
    (''cancelButton'', [0xe22, 0xe01, 0xe40, 0xe25, 0xe34, 0xe01]),
    (''cancelTitle'', [0xe22, 0xe01, 0xe40, 0xe25, 0xe34, 0xe01, 0xe23, 0xe32, 0xe22, 0xe01, 0xe32, 0xe23, 0xe19, 0xe35, 0xe49]),
    (''cancelReason'', [0xe40, 0xe2b, 0xe15, 0xe38, 0xe1c, 0xe25, 0xe17, 0xe35, 0xe48, 0xe22, 0xe01, 0xe40, 0xe25, 0xe34, 0xe01]),
    (''cancelReasonPlaceholder'', [0xe40, 0xe0a, 0xe48, 0xe19, 0x20, 0xe1a, 0xe31, 0xe19, 0xe17, 0xe36, 0xe01, 0xe1c, 0xe34, 0xe14, 0xe27, 0xe31, 0xe19, 0xe17, 0xe35, 0xe48, 0x2c, 0x20, 0xe22, 0xe01, 0xe40, 0xe25, 0xe34, 0xe01, 0xe01, 0xe32, 0xe23, 0xe25, 0xe32]),
    (''cancelled'', [0xe22, 0xe01, 0xe40, 0xe25, 0xe34, 0xe01, 0xe41, 0xe25, 0xe49, 0xe27]),
    (''noRecords'', [0xe44, 0xe21, 0xe48, 0xe21, 0xe35, 0xe23, 0xe32, 0xe22, 0xe01, 0xe32, 0xe23]),
    (''recordedBy'', [0xe1a, 0xe31, 0xe19, 0xe17, 0xe36, 0xe01, 0xe42, 0xe14, 0xe22]),
    (''historyTitle'', [0xe1b, 0xe23, 0xe30, 0xe27, 0xe31, 0xe15, 0xe34, 0xe01, 0xe32, 0xe23, 0xe25, 0xe32, 0x20, 0x2f, 0x20, 0xe23, 0xe32, 0xe0a, 0xe01, 0xe32, 0xe23]),
    (''addForPerson'', [0xe1a, 0xe31, 0xe19, 0xe17, 0xe36, 0xe01, 0xe25, 0xe32, 0x20, 0x2f, 0x20, 0xe23, 0xe32, 0xe0a, 0xe01, 0xe32, 0xe23]),
    (''holidaysTitle'', [0xe27, 0xe31, 0xe19, 0xe2b, 0xe22, 0xe38, 0xe14, 0xe23, 0xe32, 0xe0a, 0xe01, 0xe32, 0xe23]),
    (''holidayName'', [0xe0a, 0xe37, 0xe48, 0xe2d, 0xe27, 0xe31, 0xe19, 0xe2b, 0xe22, 0xe38, 0xe14]),
    (''holidayAdd'', [0xe40, 0xe1e, 0xe34, 0xe48, 0xe21, 0xe27, 0xe31, 0xe19, 0xe2b, 0xe22, 0xe38, 0xe14]),
    (''holidayHint'', [0xe27, 0xe31, 0xe19, 0xe40, 0xe2a, 0xe32, 0xe23, 0xe4c, 0x2d, 0xe2d, 0xe32, 0xe17, 0xe34, 0xe15, 0xe22, 0xe4c, 0xe44, 0xe21, 0xe48, 0xe15, 0xe49, 0xe2d, 0xe07, 0xe40, 0xe1e, 0xe34, 0xe48, 0xe21, 0x20, 0xe23, 0xe30, 0xe1a, 0xe1a, 0xe19, 0xe31, 0xe1a, 0xe40, 0xe1b, 0xe47, 0xe19, 0xe27, 0xe31, 0xe19, 0xe2b, 0xe22, 0xe38, 0xe14, 0xe2d, 0xe22, 0xe39, 0xe48, 0xe41, 0xe25, 0xe49, 0xe27]),
    (''dailyTitle'', [0xe22, 0xe2d, 0xe14, 0xe01, 0xe33, 0xe25, 0xe31, 0xe07, 0xe1e, 0xe25, 0xe1b, 0xe23, 0xe30, 0xe08, 0xe33, 0xe27, 0xe31, 0xe19]),
    (''dailySubtitle'', [0xe19, 0xe31, 0xe1a, 0xe2a, 0xe41, 0xe01, 0xe19, 0xe0a, 0xe48, 0xe27, 0xe07, 0x20, 0x7b, 0x77, 0x69, 0x6e, 0x64, 0x6f, 0x77, 0x7d, 0x20, 0xb7, 0x20, 0xe2b, 0xe25, 0xe31, 0xe07, 0x20, 0x7b, 0x74, 0x69, 0x6d, 0x65, 0x7d, 0x20, 0xe19, 0xe31, 0xe1a, 0xe40, 0xe1b, 0xe47, 0xe19, 0xe21, 0xe32, 0xe2a, 0xe32, 0xe22]),
    (''holidayBadge'', [0xe27, 0xe31, 0xe19, 0xe2b, 0xe22, 0xe38, 0xe14]),
    (''totalLabel'', [0xe22, 0xe2d, 0xe14, 0xe17, 0xe31, 0xe49, 0xe07, 0xe2b, 0xe21, 0xe14]),
    (''byBranch'', [0xe41, 0xe22, 0xe01, 0xe15, 0xe32, 0xe21, 0xe41, 0xe1c, 0xe19, 0xe01]),
    (''branch'', [0xe41, 0xe1c, 0xe19, 0xe01]),
    (''firstScan'', [0xe2a, 0xe41, 0xe01, 0xe19, 0xe41, 0xe23, 0xe01]),
    (''st_PRESENT'', [0xe21, 0xe32]),
    (''st_LATE'', [0xe21, 0xe32, 0xe2a, 0xe32, 0xe22]),
    (''st_LEAVE'', [0xe25, 0xe32]),
    (''st_DUTY'', [0xe23, 0xe32, 0xe0a, 0xe01, 0xe32, 0xe23, 0x20, 0x2f, 0x20, 0xe0a, 0xe48, 0xe27, 0xe22, 0xe23, 0xe32, 0xe0a, 0xe01, 0xe32, 0xe23]),
    (''st_EXEMPT'', [0xe1b, 0xe0f, 0xe34, 0xe1a, 0xe31, 0xe15, 0xe34, 0xe2b, 0xe19, 0xe49, 0xe32, 0xe17, 0xe35, 0xe48]),
    (''st_NOT_YET'', [0xe22, 0xe31, 0xe07, 0xe44, 0xe21, 0xe48, 0xe2a, 0xe41, 0xe01, 0xe19]),
    (''st_ABSENT'', [0xe02, 0xe32, 0xe14]),
    (''st_OFF'', [0xe27, 0xe31, 0xe19, 0xe2b, 0xe22, 0xe38, 0xe14]),
    (''today'', [0xe27, 0xe31, 0xe19, 0xe19, 0xe35, 0xe49]),
    (''allStatuses'', [0xe17, 0xe38, 0xe01, 0xe2a, 0xe16, 0xe32, 0xe19, 0xe30])]"

definition th_workflow :: texts where
  "th_workflow = [
    (''scanWindowExpired'', [0xe2b, 0xe21, 0xe14, 0xe40, 0xe27, 0xe25, 0xe32, 0xe23, 0xe2d, 0xe2a, 0xe41, 0xe01, 0xe19, 0xe41, 0xe25, 0xe49, 0xe27, 0x20, 0x2014, 0x20, 0xe01, 0xe14, 0xe40, 0xe1b, 0xe34, 0xe14, 0xe23, 0xe2d, 0xe2a, 0xe41, 0xe01, 0xe19, 0xe43, 0xe2b, 0xe21, 0xe48, 0x20, 0xe41, 0xe25, 0xe49, 0xe27, 0xe43, 0xe2b, 0xe49, 0xe2a, 0xe41, 0xe01, 0xe19, 0xe2d, 0xe35, 0xe01, 0xe04, 0xe23, 0xe31, 0xe49, 0xe07]),
    (''scanWindowReopen'', [0xe40, 0xe1b, 0xe34, 0xe14, 0xe23, 0xe2d, 0xe2a, 0xe41, 0xe01, 0xe19, 0xe43, 0xe2b, 0xe21, 0xe48, 0x20, 0x28, 0x35, 0x20, 0xe19, 0xe32, 0xe17, 0xe35, 0x29]),
    (''namesSyncedResult'', [0xe2d, 0xe31, 0xe1b, 0xe40, 0xe14, 0xe15, 0xe0a, 0xe37, 0xe48, 0xe2d, 0xe1a, 0xe19, 0xe40, 0xe04, 0xe23, 0xe37, 0xe48, 0xe2d, 0xe07, 0xe2a, 0xe41, 0xe01, 0xe19, 0x20, 0x7b, 0x72, 0x65, 0x6e, 0x61, 0x6d, 0x65, 0x64, 0x7d, 0x20, 0xe04, 0xe19, 0x20, 0x28, 0xe44, 0xe21, 0xe48, 0xe2a, 0xe33, 0xe40, 0xe23, 0xe47, 0xe08, 0x20, 0x7b, 0x66, 0x61, 0x69, 0x6c, 0x65, 0x64, 0x7d, 0x29]),
    (''namesMismatchTitle'', [0xe0a, 0xe37, 0xe48, 0xe2d, 0xe1a, 0xe19, 0xe40, 0xe04, 0xe23, 0xe37, 0xe48, 0xe2d, 0xe07, 0xe2a, 0xe41, 0xe01, 0xe19, 0xe44, 0xe21, 0xe48, 0xe15, 0xe23, 0xe07, 0xe01, 0xe31, 0xe1a, 0xe02, 0xe49, 0xe2d, 0xe21, 0xe39, 0xe25, 0xe1a, 0xe38, 0xe04, 0xe04, 0xe25, 0x20, 0x7b, 0x6e, 0x7d, 0x20, 0xe1a, 0xe31, 0xe0d, 0xe0a, 0xe35]),
    (''namesSyncAllButton'', [0xe2d, 0xe31, 0xe1b, 0xe40, 0xe14, 0xe15, 0xe0a, 0xe37, 0xe48, 0xe2d, 0xe1a, 0xe19, 0xe40, 0xe04, 0xe23, 0xe37, 0xe48, 0xe2d, 0xe07, 0xe17, 0xe31, 0xe49, 0xe07, 0xe2b, 0xe21, 0xe14, 0x20, 0x28, 0x7b, 0x6e, 0x7d, 0x29]),
    (''terminalNameAuto'', [0xe23, 0xe30, 0xe1a, 0xe1a, 0xe2d, 0xe31, 0xe1b, 0xe40, 0xe14, 0xe15, 0xe0a, 0xe37, 0xe48, 0xe2d, 0xe1a, 0xe19, 0xe40, 0xe04, 0xe23, 0xe37, 0xe48, 0xe2d, 0xe07, 0xe43, 0xe2b, 0xe49, 0xe2d, 0xe31, 0xe15, 0xe42, 0xe19, 0xe21, 0xe31, 0xe15, 0xe34, 0xe40, 0xe21, 0xe37, 0xe48, 0xe2d, 0xe41, 0xe01, 0xe49, 0xe22, 0xe28, 0xe2b, 0xe23, 0xe37, 0xe2d, 0xe0a, 0xe37, 0xe48, 0xe2d, 0xe2d, 0xe31, 0xe07, 0xe01, 0xe24, 0xe29, 0x20, 0x2014, 0x20, 0xe1b, 0xe38, 0xe48, 0xe21, 0xe19, 0xe35, 0xe49, 0xe43, 0xe0a, 0xe49, 0xe40, 0xe21, 0xe37, 0xe48, 0xe2d, 0xe40, 0xe04, 0xe23, 0xe37, 0xe48, 0xe2d, 0xe07, 0xe44, 0xe21, 0xe48, 0xe44, 0xe14, 0xe49, 0xe15, 0xe48, 0xe2d, 0xe2d, 0xe22, 0xe39, 0xe48, 0xe15, 0xe2d, 0xe19, 0xe41, 0xe01, 0xe49]),
    (''saveEnglishName'', [0xe1a, 0xe31, 0xe19, 0xe17, 0xe36, 0xe01, 0xe0a, 0xe37, 0xe48, 0xe2d, 0xe2d, 0xe31, 0xe07, 0xe01, 0xe24, 0xe29]),
    (''saveEnglishNameHint'', [0xe1a, 0xe38, 0xe04, 0xe04, 0xe25, 0xe19, 0xe35, 0xe49, 0xe22, 0xe31, 0xe07, 0xe44, 0xe21, 0xe48, 0xe21, 0xe35, 0xe0a, 0xe37, 0xe48, 0xe2d, 0xe20, 0xe32, 0xe29, 0xe32, 0xe2d, 0xe31, 0xe07, 0xe01, 0xe24, 0xe29, 0x20, 0x2014, 0x20, 0xe1a, 0xe31, 0xe19, 0xe17, 0xe36, 0xe01, 0xe17, 0xe35, 0xe48, 0xe19, 0xe35, 0xe48, 0xe08, 0xe30, 0xe40, 0xe01, 0xe47, 0xe1a, 0xe40, 0xe02, 0xe49, 0xe32, 0xe02, 0xe49, 0xe2d, 0xe21, 0xe39, 0xe25, 0xe1a, 0xe38, 0xe04, 0xe04, 0xe25, 0x20, 0xe41, 0xe25, 0xe49, 0xe27, 0xe23, 0xe30, 0xe1a, 0xe1a, 0xe2a, 0xe23, 0xe49, 0xe32, 0xe07, 0xe0a, 0xe37, 0xe48, 0xe2d, 0xe1a, 0xe19, 0xe40, 0xe04, 0xe23, 0xe37, 0xe48, 0xe2d, 0xe07, 0xe43, 0xe2b, 0xe49, 0x20, 0x28, 0xe22, 0xe28, 0x20, 0x2b, 0x20, 0xe0a, 0xe37, 0xe48, 0xe2d, 0x29]),
    (''terminalNameTitle'', [0xe0a, 0xe37, 0xe48, 0xe2d, 0xe1a, 0xe19, 0xe40, 0xe04, 0xe23, 0xe37, 0xe48, 0xe2d, 0xe07, 0xe2a, 0xe41, 0xe01, 0xe19]),
    (''terminalNameOnDevice'', [0xe1a, 0xe19, 0xe40, 0xe04, 0xe23, 0xe37, 0xe48, 0xe2d, 0xe07]),
    (''terminalNameExpected'', [0xe04, 0xe27, 0xe23, 0xe40, 0xe1b, 0xe47, 0xe19, 0x20, 0x28, 0xe22, 0xe28, 0x20, 0x2b, 0x20, 0xe0a, 0xe37, 0xe48, 0xe2d, 0xe2d, 0xe31, 0xe07, 0xe01, 0xe24, 0xe29, 0x29]),
    (''terminalNameMismatch'', [0xe0a, 0xe37, 0xe48, 0xe2d, 0xe1a, 0xe19, 0xe40, 0xe04, 0xe23, 0xe37, 0xe48, 0xe2d, 0xe07, 0xe44, 0xe21, 0xe48, 0xe15, 0xe23, 0xe07, 0xe01, 0xe31, 0xe1a, 0xe02, 0xe49, 0xe2d, 0xe21, 0xe39, 0xe25, 0xe1a, 0xe38, 0xe04, 0xe04, 0xe25]),
    (''terminalNameSyncButton'', [0xe2d, 0xe31, 0xe1b, 0xe40, 0xe14, 0xe15, 0xe0a, 0xe37, 0xe48, 0xe2d, 0xe1a, 0xe19, 0xe40, 0xe04, 0xe23, 0xe37, 0xe48, 0xe2d, 0xe07, 0xe2a, 0xe41, 0xe01, 0xe19]),
    (''terminalNameSynced'', [0xe2d, 0xe31, 0xe1b, 0xe40, 0xe14, 0xe15, 0xe0a, 0xe37, 0xe48, 0xe2d, 0xe1a, 0xe19, 0xe40, 0xe04, 0xe23, 0xe37, 0xe48, 0xe2d, 0xe07, 0xe41, 0xe25, 0xe49, 0xe27, 0x20, 0x28, 0xe25, 0xe32, 0xe22, 0xe19, 0xe34, 0xe49, 0xe27, 0xe21, 0xe37, 0xe2d, 0xe44, 0xe21, 0xe48, 0xe40, 0xe1b, 0xe25, 0xe35, 0xe48, 0xe22, 0xe19, 0x29]),
    (''terminalNameNeedsEnglish'', [0xe15, 0xe49, 0xe2d, 0xe07, 0xe43, 0xe2a, 0xe48, 0xe0a, 0xe37, 0xe48, 0xe2d, 0xe20, 0xe32, 0xe29, 0xe32, 0xe2d, 0xe31, 0xe07, 0xe01, 0xe24, 0xe29, 0xe01, 0xe48, 0xe2d, 0xe19]),
    (''openPolicyTitle'', [0xe01, 0xe32, 0xe23, 0xe41, 0xe01, 0xe49, 0xe44, 0xe02, 0xe02, 0xe49, 0xe2d, 0xe21, 0xe39, 0xe25, 0xe41, 0xe25, 0xe30, 0xe25, 0xe07, 0xe25, 0xe32, 0xe22, 0xe19, 0xe34, 0xe49, 0xe27, 0xe21, 0xe37, 0xe2d, 0x3a, 0x20, 0xe40, 0xe1b, 0xe34, 0xe14, 0xe15, 0xe25, 0xe2d, 0xe14, 0xe40, 0xe27, 0xe25, 0xe32]),
    (''openPolicyBody'', [0xe44, 0xe21, 0xe48, 0xe15, 0xe49, 0xe2d, 0xe07, 0xe40, 0xe1b, 0xe34, 0xe14, 0xe0a, 0xe48, 0xe27, 0xe07, 0xe41, 0xe01, 0xe49, 0xe44, 0xe02, 0xe02, 0xe49, 0xe2d, 0xe21, 0xe39, 0xe25, 0xe41, 0xe25, 0xe49, 0xe27, 0x20, 0x2014, 0x20, 0xe41, 0xe01, 0xe49, 0xe44, 0xe02, 0xe23, 0xe32, 0xe22, 0xe0a, 0xe37, 0xe48, 0xe2d, 0x20, 0xe1a, 0xe31, 0xe19, 0xe17, 0xe36, 0xe01, 0xe01, 0xe32, 0xe23, 0xe25, 0xe32, 0x20, 0xe41, 0xe25, 0xe30, 0xe25, 0xe07, 0xe25, 0xe32, 0xe22, 0xe19, 0xe34, 0xe49, 0xe27, 0xe21, 0xe37, 0xe2d, 0xe44, 0xe14, 0xe49, 0xe15, 0xe25, 0xe2d, 0xe14, 0x20, 0xe2a, 0xe34, 0xe17, 0xe18, 0xe34, 0xe4c, 0xe22, 0xe31, 0xe07, 0xe40, 0xe1b, 0xe47, 0xe19, 0xe44, 0xe1b, 0xe15, 0xe32, 0xe21, 0x20, 0x72, 0x6f, 0x6c, 0x65, 0x20, 0xe41, 0xe25, 0xe30, 0xe17, 0xe38, 0xe01, 0xe01, 0xe32, 0xe23, 0xe41, 0xe01, 0xe49, 0xe44, 0xe02, 0xe16, 0xe39, 0xe01, 0xe1a, 0xe31, 0xe19, 0xe17, 0xe36, 0xe01, 0xe43, 0xe19, 0x20, 0x61, 0x75, 0x64, 0x69, 0x74, 0x20, 0xe2a, 0xe48, 0xe27, 0xe19, 0xe01, 0xe32, 0xe23, 0xe2a, 0xe41, 0xe01, 0xe19, 0xe40, 0xe02, 0xe49, 0xe32, 0xe07, 0xe32, 0xe19, 0xe19, 0xe31, 0xe1a, 0xe40, 0xe09, 0xe1e, 0xe32, 0xe30, 0xe0a, 0xe48, 0xe27, 0xe07, 0x20, 0x30, 0x36, 0x3a, 0x33, 0x30, 0x2013, 0x31, 0x31, 0x3a, 0x30, 0x30, 0x20, 0x28, 0xe2a, 0xe41, 0xe01, 0xe19, 0xe2b, 0xe25, 0xe31, 0xe07, 0x20, 0x31, 0x30, 0x3a, 0x30, 0x30, 0x20, 0x3d, 0x20, 0xe21, 0xe32, 0xe2a, 0xe32, 0xe22, 0x3b, 0x20, 0xe2a, 0xe41, 0xe01, 0xe19, 0xe19, 0xe2d, 0xe01, 0xe0a, 0xe48, 0xe27, 0xe07, 0xe08, 0xe30, 0xe16, 0xe39, 0xe01, 0xe40, 0xe01, 0xe47, 0xe1a, 0xe44, 0xe27, 0xe49, 0xe41, 0xe15, 0xe48, 0xe44, 0xe21, 0xe48, 0xe19, 0xe31, 0xe1a, 0x29]),
    (''outsideWindow'', [0xe2a, 0xe41, 0xe01, 0xe19, 0xe19, 0xe2d, 0xe01, 0xe40, 0xe27, 0xe25, 0xe32]),
    (''offboardDeferred'', [0xe1b, 0xe34, 0xe14, 0xe0a, 0xe37, 0xe48, 0xe2d, 0xe41, 0xe25, 0xe49, 0xe27, 0x20, 0x2014, 0x20, 0xe25, 0xe1a, 0xe25, 0xe32, 0xe22, 0xe19, 0xe34, 0xe49, 0xe27, 0xe21, 0xe37, 0xe2d, 0xe2d, 0xe2d, 0xe01, 0xe08, 0xe32, 0xe01, 0xe40, 0xe04, 0xe23, 0xe37, 0xe48, 0xe2d, 0xe07, 0xe44, 0xe14, 0xe49, 0xe40, 0xe21, 0xe37, 0xe48, 0xe2d, 0xe40, 0xe1b, 0xe34, 0xe14, 0xe07, 0xe32, 0xe19, 0xe25, 0xe32, 0xe22, 0xe19, 0xe34, 0xe49, 0xe27, 0xe21, 0xe37, 0xe2d, 0x20, 0x28, 0xe14, 0xe39, 0xe43, 0xe19, 0xe15, 0xe31, 0xe27, 0xe01, 0xe23, 0xe2d, 0xe07, 0x20, 0x27, 0xe22, 0xe49, 0xe32, 0xe22, 0xe2d, 0xe2d, 0xe01, 0xe41, 0xe25, 0xe49, 0xe27, 0x20, 0xe41, 0xe15, 0xe48, 0xe22, 0xe31, 0xe07, 0xe21, 0xe35, 0xe19, 0xe34, 0xe49, 0xe27, 0xe43, 0xe19, 0xe40, 0xe04, 0xe23, 0xe37, 0xe48, 0xe2d, 0xe07, 0x27, 0x29]),
    (''fingerprintWindowNeeded'', [0xe15, 0xe49, 0xe2d, 0xe07, 0xe40, 0xe1b, 0xe34, 0xe14, 0xe07, 0xe32, 0xe19, 0xe25, 0xe32, 0xe22, 0xe19, 0xe34, 0xe49, 0xe27, 0xe21, 0xe37, 0xe2d, 0xe01, 0xe48, 0xe2d, 0xe19, 0x20, 0x28, 0xe08, 0x2e, 0x2013, 0xe28, 0x2e, 0x20, 0x30, 0x39, 0x3a, 0x30, 0x30, 0x2013, 0x31, 0x38, 0x3a, 0x30, 0x30, 0x29]),
    (''pwCurrentWrong'', [0xe23, 0xe2b, 0xe31, 0xe2a, 0xe1c, 0xe48, 0xe32, 0xe19, 0xe1b, 0xe31, 0xe08, 0xe08, 0xe38, 0xe1a, 0xe31, 0xe19, 0xe44, 0xe21, 0xe48, 0xe16, 0xe39, 0xe01, 0xe15, 0xe49, 0xe2d, 0xe07]),
    (''pwSame'', [0xe23, 0xe2b, 0xe31, 0xe2a, 0xe1c, 0xe48, 0xe32, 0xe19, 0xe43, 0xe2b, 0xe21, 0xe48, 0xe15, 0xe49, 0xe2d, 0xe07, 0xe44, 0xe21, 0xe48, 0xe0b, 0xe49, 0xe33, 0xe01, 0xe31, 0xe1a, 0xe23, 0xe2b, 0xe31, 0xe2a, 0xe1c, 0xe48, 0xe32, 0xe19, 0xe1b, 0xe31, 0xe08, 0xe08, 0xe38, 0xe1a, 0xe31, 0xe19]),
    (''pwTooShort'', [0xe23, 0xe2b, 0xe31, 0xe2a, 0xe1c, 0xe48, 0xe32, 0xe19, 0xe43, 0xe2b, 0xe21, 0xe48, 0xe15, 0xe49, 0xe2d, 0xe07, 0xe21, 0xe35, 0xe2d, 0xe22, 0xe48, 0xe32, 0xe07, 0xe19, 0xe49, 0xe2d, 0xe22, 0x20, 0x31, 0x32, 0x20, 0xe15, 0xe31, 0xe27, 0xe2d, 0xe31, 0xe01, 0xe29, 0xe23, 0x20, 0x28, 0xe15, 0xe2d, 0xe19, 0xe19, 0xe35, 0xe49, 0x20, 0x7b, 0x6e, 0x7d, 0x20, 0xe15, 0xe31, 0xe27, 0x29]),
    (''pwCurrentMissing'', [0xe01, 0xe23, 0xe38, 0xe13, 0xe32, 0xe01, 0xe23, 0xe2d, 0xe01, 0xe23, 0xe2b, 0xe31, 0xe2a, 0xe1c, 0xe48, 0xe32, 0xe19, 0xe1b, 0xe31, 0xe08, 0xe08, 0xe38, 0xe1a, 0xe31, 0xe19]),
    (''pwTooLong'', [0xe23, 0xe2b, 0xe31, 0xe2a, 0xe1c, 0xe48, 0xe32, 0xe19, 0xe22, 0xe32, 0xe27, 0xe40, 0xe01, 0xe34, 0xe19, 0xe44, 0xe1b, 0x20, 0x28, 0xe44, 0xe21, 0xe48, 0xe40, 0xe01, 0xe34, 0xe19, 0x20, 0x32, 0x35, 0x36, 0x20, 0xe15, 0xe31, 0xe27, 0xe2d, 0xe31, 0xe01, 0xe29, 0xe23, 0x29]),
    (''pwSessionExpired'', [0xe40, 0xe0b, 0xe2a, 0xe0a, 0xe31, 0xe19, 0xe2b, 0xe21, 0xe14, 0xe2d, 0xe32, 0xe22, 0xe38, 0x20, 0xe01, 0xe23, 0xe38, 0xe13, 0xe32, 0xe40, 0xe02, 0xe49, 0xe32, 0xe2a, 0xe39, 0xe48, 0xe23, 0xe30, 0xe1a, 0xe1a, 0xe43, 0xe2b, 0xe21, 0xe48]),
    (''reasonFinance'', [0xe01, 0xe32, 0xe23, 0xe40, 0xe07, 0xe34, 0xe19]),
    (''reasonCommandOffice'', [0xe2a, 0xe33, 0xe19, 0xe31, 0xe01, 0xe07, 0xe32, 0xe19, 0xe1c, 0xe39, 0xe49, 0xe1a, 0xe31, 0xe07, 0xe04, 0xe31, 0xe1a, 0xe1a, 0xe31, 0xe0d, 0xe0a, 0xe32]),
    (''reasonOther'', [0xe2d, 0xe37, 0xe48, 0xe19, 0xe46, 0x20, 0x28, 0xe23, 0xe30, 0xe1a, 0xe38, 0x29]),
    (''quickRequired'', [0xe2a, 0xe41, 0xe01, 0xe19, 0xe19, 0xe34, 0xe49, 0xe27]),
    (''quickExemptPrefix'', []),
    (''selectedCount'', [0xe40, 0xe25, 0xe37, 0xe2d, 0xe01, 0xe41, 0xe25, 0xe49, 0xe27, 0x20, 0x7b, 0x6e, 0x7d, 0x20, 0xe04, 0xe19]),
    (''bulkExempt'', [0xe15, 0xe31, 0xe49, 0xe07, 0xe40, 0xe1b, 0xe47, 0xe19, 0xe22, 0xe01, 0xe40, 0xe27, 0xe49, 0xe19, 0xe2a, 0xe41, 0xe01, 0xe19]),
    (''bulkRequire'', [0xe22, 0xe01, 0xe40, 0xe25, 0xe34, 0xe01, 0xe22, 0xe01, 0xe40, 0xe27, 0xe49, 0xe19, 0x20, 0x28, 0xe15, 0xe49, 0xe2d, 0xe07, 0xe2a, 0xe41, 0xe01, 0xe19, 0x29]),
    (''bulkDone'', [0xe2d, 0xe31, 0xe1b, 0xe40, 0xe14, 0xe15, 0xe41, 0xe25, 0xe49, 0xe27, 0x20, 0x7b, 0x6e, 0x7d, 0x20, 0xe04, 0xe19]),
    (''clearSelection'', [0xe25, 0xe49, 0xe32, 0xe07, 0xe17, 0xe35, 0xe48, 0xe40, 0xe25, 0xe37, 0xe2d, 0xe01]),
    (''allBranches'', [0xe41, 0xe1c, 0xe19, 0xe01, 0x3a, 0x20, 0xe17, 0xe31, 0xe49, 0xe07, 0xe2b, 0xe21, 0xe14]),
    (''selectPage'', [0xe40, 0xe25, 0xe37, 0xe2d, 0xe01, 0xe17, 0xe31, 0xe49, 0xe07, 0xe2b, 0xe19, 0xe49, 0xe32]),
    (''positionCol'', [0xe15, 0xe33, 0xe41, 0xe2b, 0xe19, 0xe48, 0xe07]),
    (''wizStep1'', [0xe2a, 0xe23, 0xe49, 0xe32, 0xe07, 0xe1a, 0xe31, 0xe0d, 0xe0a, 0xe35, 0xe43, 0xe19, 0xe40, 0xe04, 0xe23, 0xe37, 0xe48, 0xe2d, 0xe07]),
    (''wizStep2'', [0xe25, 0xe07, 0xe19, 0xe34, 0xe49, 0xe27, 0xe17, 0xe35, 0xe48, 0xe40, 0xe04, 0xe23, 0xe37, 0xe48, 0xe2d, 0xe07]),
    (''wizStep3'', [0xe17, 0xe14, 0xe2a, 0xe2d, 0xe1a, 0xe2a, 0xe41, 0xe01, 0xe19]),
    (''wizStep4'', [0xe22, 0xe37, 0xe19, 0xe22, 0xe31, 0xe19, 0xe15, 0xe31, 0xe27, 0xe1a, 0xe38, 0xe04, 0xe04, 0xe25]),
    (''wizStepOf'', [0xe02, 0xe31, 0xe49, 0xe19, 0xe17, 0xe35, 0xe48]),
    (''autoScanHint'', [0xe40, 0xe21, 0xe37, 0xe48, 0xe2d, 0xe2a, 0xe41, 0xe01, 0xe19, 0xe41, 0xe25, 0xe49, 0xe27, 0x20, 0xe23, 0xe30, 0xe1a, 0xe1a, 0xe08, 0xe30, 0xe22, 0xe37, 0xe19, 0xe22, 0xe31, 0xe19, 0xe43, 0xe2b, 0xe49, 0xe2d, 0xe31, 0xe15, 0xe42, 0xe19, 0xe21, 0xe31, 0xe15, 0xe34, 0x20, 0xe44, 0xe21, 0xe48, 0xe15, 0xe49, 0xe2d, 0xe07, 0xe01, 0xe14, 0xe1b, 0xe38, 0xe48, 0xe21]),
    (''verifyInlineTitle'', [0xe22, 0xe37, 0xe19, 0xe22, 0xe31, 0xe19, 0xe27, 0xe48, 0xe32, 0xe25, 0xe32, 0xe22, 0xe19, 0xe34, 0xe49, 0xe27, 0xe21, 0xe37, 0xe2d, 0xe19, 0xe35, 0xe49, 0xe40, 0xe1b, 0xe47, 0xe19, 0xe02, 0xe2d, 0xe07, 0xe1a, 0xe38, 0xe04, 0xe04, 0xe25, 0xe19, 0xe35, 0xe49, 0xe08, 0xe23, 0xe34, 0xe07]),
    (''verifyNoteLabel'', [0xe2b, 0xe21, 0xe32, 0xe22, 0xe40, 0xe2b, 0xe15, 0xe38, 0xe01, 0xe32, 0xe23, 0xe22, 0xe37, 0xe19, 0xe22, 0xe31, 0xe19]),
    (''verifyNotePlaceholder'', [0xe40, 0xe0a, 0xe48, 0xe19, 0x20, 0xe15, 0xe23, 0xe27, 0xe08, 0xe1a, 0xe31, 0xe15, 0xe23, 0xe1b, 0xe23, 0xe30, 0xe08, 0xe33, 0xe15, 0xe31, 0xe27, 0xe41, 0xe25, 0xe49, 0xe27]),
    (''verifyButton'', [0xe22, 0xe37, 0xe19, 0xe22, 0xe31, 0xe19, 0xe41, 0xe25, 0xe30, 0xe40, 0xe2a, 0xe23, 0xe47, 0xe08, 0xe2a, 0xe34, 0xe49, 0xe19]),
    (''waitingAdminVerify'', [0xe02, 0xe31, 0xe49, 0xe19, 0xe2a, 0xe38, 0xe14, 0xe17, 0xe49, 0xe32, 0xe22, 0x3a, 0x20, 0xe23, 0xe2d, 0xe1c, 0xe39, 0xe49, 0xe14, 0xe39, 0xe41, 0xe25, 0xe23, 0xe30, 0xe1a, 0xe1a, 0xe22, 0xe37, 0xe19, 0xe22, 0xe31, 0xe19, 0xe15, 0xe31, 0xe27, 0xe1a, 0xe38, 0xe04, 0xe04, 0xe25]),
    (''verifiedDone'', [0xe25, 0xe07, 0xe17, 0xe30, 0xe40, 0xe1a, 0xe35, 0xe22, 0xe19, 0xe40, 0xe2a, 0xe23, 0xe47, 0xe08, 0xe2a, 0xe21, 0xe1a, 0xe39, 0xe23, 0xe13, 0xe4c, 0x20, 0x2014, 0x20, 0xe40, 0xe23, 0xe34, 0xe48, 0xe21, 0xe1a, 0xe31, 0xe19, 0xe17, 0xe36, 0xe01, 0xe40, 0xe27, 0xe25, 0xe32, 0xe40, 0xe02, 0xe49, 0xe32, 0xe07, 0xe32, 0xe19, 0xe44, 0xe14, 0xe49, 0xe41, 0xe25, 0xe49, 0xe27]),
    (''navAttendanceGroup'', [0xe40, 0xe27, 0xe25, 0xe32, 0xe40, 0xe02, 0xe49, 0xe32, 0x2d, 0xe2d, 0xe2d, 0xe01, 0xe07, 0xe32, 0xe19]),
    (''navPersonnelGroup'', [0xe1a, 0xe31, 0xe0d, 0xe0a, 0xe35, 0xe1e, 0xe25]),
    (''navFingerprintGroup'', [0xe25, 0xe32, 0xe22, 0xe19, 0xe34, 0xe49, 0xe27, 0xe21, 0xe37, 0xe2d]),
    (''navAdminGroup'', [0xe1c, 0xe39, 0xe49, 0xe14, 0xe39, 0xe41, 0xe25, 0xe23, 0xe30, 0xe1a, 0xe1a]),
    (''writeClosedBanner'', [0xe07, 0xe32, 0xe19, 0xe25, 0xe32, 0xe22, 0xe19, 0xe34, 0xe49, 0xe27, 0xe21, 0xe37, 0xe2d, 0x20, 0x2f, 0x20, 0xe40, 0xe04, 0xe23, 0xe37, 0xe48, 0xe2d, 0xe07, 0xe2a, 0xe41, 0xe01, 0xe19, 0x3a, 0x20, 0xe1b, 0xe34, 0xe14, 0xe2d, 0xe22, 0xe39, 0xe48]),
    (''writeClosedHint'', [0xe41, 0xe01, 0xe49, 0xe44, 0xe02, 0xe23, 0xe32, 0xe22, 0xe0a, 0xe37, 0xe48, 0xe2d, 0x20, 0xe22, 0xe28, 0x20, 0xe15, 0xe33, 0xe41, 0xe2b, 0xe19, 0xe48, 0xe07, 0x20, 0xe41, 0xe25, 0xe30, 0xe1a, 0xe31, 0xe19, 0xe17, 0xe36, 0xe01, 0xe01, 0xe32, 0xe23, 0xe25, 0xe32, 0xe44, 0xe14, 0xe49, 0xe15, 0xe25, 0xe2d, 0xe14, 0xe40, 0xe27, 0xe25, 0xe32, 0x20, 0x2014, 0x20, 0xe2a, 0xe48, 0xe27, 0xe19, 0xe01, 0xe32, 0xe23, 0xe25, 0xe07, 0xe19, 0xe34, 0xe49, 0xe27, 0xe41, 0xe25, 0xe30, 0xe08, 0xe31, 0xe14, 0xe01, 0xe32, 0xe23, 0xe40, 0xe04, 0xe23, 0xe37, 0xe48, 0xe2d, 0xe07, 0xe2a, 0xe41, 0xe01, 0xe19, 0xe40, 0xe1b, 0xe34, 0xe14, 0xe2d, 0xe31, 0xe15, 0xe42, 0xe19, 0xe21, 0xe31, 0xe15, 0xe34, 0x20, 0xe08, 0x2e, 0x2013, 0xe28, 0x2e, 0x20, 0x30, 0x39, 0x3a, 0x30, 0x30, 0x2013, 0x31, 0x38, 0x3a, 0x30, 0x30, 0x20, 0xe2b, 0xe23, 0xe37, 0xe2d, 0xe43, 0xe2b, 0xe49, 0xe1c, 0xe39, 0xe49, 0xe14, 0xe39, 0xe41, 0xe25, 0xe40, 0xe1b, 0xe34, 0xe14, 0xe17, 0xe35, 0xe48, 0xe2b, 0xe19, 0xe49, 0xe32, 0x20, 0x27, 0xe2a, 0xe16, 0xe32, 0xe19, 0xe30, 0xe41, 0xe25, 0xe30, 0xe15, 0xe31, 0xe49, 0xe07, 0xe04, 0xe48, 0xe32, 0xe23, 0xe30, 0xe1a, 0xe1a, 0x27]),
    (''writeOpenBanner'', [0xe07, 0xe32, 0xe19, 0xe25, 0xe32, 0xe22, 0xe19, 0xe34, 0xe49, 0xe27, 0xe21, 0xe37, 0xe2d, 0x20, 0x2f, 0x20, 0xe40, 0xe04, 0xe23, 0xe37, 0xe48, 0xe2d, 0xe07, 0xe2a, 0xe41, 0xe01, 0xe19, 0x3a, 0x20, 0xe40, 0xe1b, 0xe34, 0xe14, 0xe16, 0xe36, 0xe07]),
    (''hubTitle'', [0xe07, 0xe32, 0xe19, 0xe1a, 0xe31, 0xe0d, 0xe0a, 0xe35, 0xe1e, 0xe25]),
    (''importTitle'', [0xe2d, 0xe31, 0xe1b, 0xe40, 0xe14, 0xe15, 0xe23, 0xe32, 0xe22, 0xe0a, 0xe37, 0xe48, 0xe2d, 0x20, 0x2f, 0x20, 0xe22, 0xe28, 0x20, 0xe08, 0xe32, 0xe01, 0x20, 0x45, 0x78, 0x63, 0x65, 0x6c]),
    (''importDesc'', [0xe2a, 0xe48, 0xe07, 0xe2d, 0xe2d, 0xe01, 0xe44, 0xe1f, 0xe25, 0xe4c, 0x20, 0x2192, 0x20, 0xe41, 0xe01, 0xe49, 0xe43, 0xe19, 0x20, 0x45, 0x78, 0x63, 0x65, 0x6c, 0x20, 0x2192, 0x20, 0xe19, 0xe33, 0xe40, 0xe02, 0xe49, 0xe32, 0x20, 0xe23, 0xe30, 0xe1a, 0xe1a, 0xe08, 0xe30, 0xe41, 0xe2a, 0xe14, 0xe07, 0xe23, 0xe32, 0xe22, 0xe01, 0xe32, 0xe23, 0xe17, 0xe35, 0xe48, 0xe40, 0xe1b, 0xe25, 0xe35, 0xe48, 0xe22, 0xe19, 0xe43, 0xe2b, 0xe49, 0xe15, 0xe23, 0xe27, 0xe08, 0xe01, 0xe48, 0xe2d, 0xe19, 0xe1a, 0xe31, 0xe19, 0xe17, 0xe36, 0xe01]),
    (''joinTitle'', [0xe23, 0xe31, 0xe1a, 0xe40, 0xe02, 0xe49, 0xe32, 0xe43, 0xe2b, 0xe21, 0xe48]),
    (''joinDesc'', [0xe40, 0xe1e, 0xe34, 0xe48, 0xe21, 0xe0a, 0xe37, 0xe48, 0xe2d, 0xe40, 0xe02, 0xe49, 0xe32, 0xe1a, 0xe31, 0xe0d, 0xe0a, 0xe35, 0xe1e, 0xe25, 0x20, 0xe41, 0xe25, 0xe49, 0xe27, 0xe25, 0xe07, 0xe17, 0xe30, 0xe40, 0xe1a, 0xe35, 0xe22, 0xe19, 0xe25, 0xe32, 0xe22, 0xe19, 0xe34, 0xe49, 0xe27, 0xe21, 0xe37, 0xe2d, 0xe17, 0xe35, 0xe48, 0xe40, 0xe04, 0xe23, 0xe37, 0xe48, 0xe2d, 0xe07, 0xe2a, 0xe41, 0xe01, 0xe19]),
    (''leaveTitle'', [0xe22, 0xe49, 0xe32, 0xe22, 0xe2d, 0xe2d, 0xe01, 0x20, 0x2f, 0x20, 0xe1e, 0xe49, 0xe19, 0xe2b, 0xe19, 0xe48, 0xe27, 0xe22]),
    (''leaveDesc'', [0xe40, 0xe25, 0xe37, 0xe2d, 0xe01, 0xe0a, 0xe37, 0xe48, 0xe2d, 0x20, 0xe41, 0xe25, 0xe49, 0xe27, 0xe01, 0xe14, 0x20, 0x27, 0xe22, 0xe49, 0xe32, 0xe22, 0xe2d, 0xe2d, 0xe01, 0x27, 0x20, 0xe43, 0xe19, 0xe2b, 0xe19, 0xe49, 0xe32, 0xe02, 0xe49, 0xe2d, 0xe21, 0xe39, 0xe25, 0x20, 0xe23, 0xe30, 0xe1a, 0xe1a, 0xe08, 0xe30, 0xe1b, 0xe34, 0xe14, 0xe0a, 0xe37, 0xe48, 0xe2d, 0xe41, 0xe25, 0xe30, 0xe25, 0xe1a, 0xe25, 0xe32, 0xe22, 0xe19, 0xe34, 0xe49, 0xe27, 0xe21, 0xe37, 0xe2d, 0xe2d, 0xe2d, 0xe01, 0xe08, 0xe32, 0xe01, 0xe40, 0xe04, 0xe23, 0xe37, 0xe48, 0xe2d, 0xe07, 0xe43, 0xe2b, 0xe49]),
    (''exemptTitle'', [0xe1b, 0xe0f, 0xe34, 0xe1a, 0xe31, 0xe15, 0xe34, 0xe2b, 0xe19, 0xe49, 0xe32, 0xe17, 0xe35, 0xe48, 0xe1e, 0xe34, 0xe40, 0xe28, 0xe29]),
    (''exemptDesc'', [0xe40, 0xe0a, 0xe48, 0xe19, 0x20, 0xe2a, 0xe33, 0xe19, 0xe31, 0xe01, 0xe07, 0xe32, 0xe19, 0x20, 0xe1c, 0xe1a, 0x2e, 0x2c, 0x20, 0xe01, 0xe32, 0xe23, 0xe40, 0xe07, 0xe34, 0xe19, 0x20, 0x2014, 0x20, 0xe44, 0xe21, 0xe48, 0xe15, 0xe49, 0xe2d, 0xe07, 0xe25, 0xe07, 0xe19, 0xe34, 0xe49, 0xe27, 0x20, 0xe44, 0xe21, 0xe48, 0xe19, 0xe31, 0xe1a, 0xe02, 0xe32, 0xe14, 0xe07, 0xe32, 0xe19, 0x20, 0xe15, 0xe31, 0xe49, 0xe07, 0xe44, 0xe14, 0xe49, 0xe43, 0xe19, 0xe2b, 0xe19, 0xe49, 0xe32, 0xe02, 0xe49, 0xe2d, 0xe21, 0xe39, 0xe25, 0xe23, 0xe32, 0xe22, 0xe04, 0xe19]),
    (''countActive'', [0xe01, 0xe33, 0xe25, 0xe31, 0xe07, 0xe1e, 0xe25, 0xe1b, 0xe31, 0xe08, 0xe08, 0xe38, 0xe1a, 0xe31, 0xe19]),
    (''countNeedsEnroll'', [0xe22, 0xe31, 0xe07, 0xe44, 0xe21, 0xe48, 0xe25, 0xe07, 0xe25, 0xe32, 0xe22, 0xe19, 0xe34, 0xe49, 0xe27, 0xe21, 0xe37, 0xe2d]),
    (''countExempt'', [0xe1b, 0xe0f, 0xe34, 0xe1a, 0xe31, 0xe15, 0xe34, 0xe2b, 0xe19, 0xe49, 0xe32, 0xe17, 0xe35, 0xe48, 0xe1e, 0xe34, 0xe40, 0xe28, 0xe29]),
    (''countLeftWithAccount'', [0xe22, 0xe49, 0xe32, 0xe22, 0xe2d, 0xe2d, 0xe01, 0xe41, 0xe25, 0xe49, 0xe27, 0x20, 0xe41, 0xe15, 0xe48, 0xe22, 0xe31, 0xe07, 0xe21, 0xe35, 0xe19, 0xe34, 0xe49, 0xe27, 0xe43, 0xe19, 0xe40, 0xe04, 0xe23, 0xe37, 0xe48, 0xe2d, 0xe07]),
    (''filterScanAll'', [0xe25, 0xe32, 0xe22, 0xe19, 0xe34, 0xe49, 0xe27, 0xe21, 0xe37, 0xe2d, 0x3a, 0x20, 0xe17, 0xe31, 0xe49, 0xe07, 0xe2b, 0xe21, 0xe14]),
    (''scanEnrolled'', [0xe25, 0xe07, 0xe19, 0xe34, 0xe49, 0xe27, 0xe41, 0xe25, 0xe49, 0xe27]),
    (''scanNeeds'', [0xe22, 0xe31, 0xe07, 0xe44, 0xe21, 0xe48, 0xe25, 0xe07, 0xe19, 0xe34, 0xe49, 0xe27]),
    (''scanExempt'', [0xe1b, 0xe0f, 0xe34, 0xe1a, 0xe31, 0xe15, 0xe34, 0xe2b, 0xe19, 0xe49, 0xe32, 0xe17, 0xe35, 0xe48, 0xe1e, 0xe34, 0xe40, 0xe28, 0xe29]),
    (''scanLeftWithAccount'', [0xe23, 0xe2d, 0xe25, 0xe1a, 0xe19, 0xe34, 0xe49, 0xe27, 0xe2d, 0xe2d, 0xe01, 0xe08, 0xe32, 0xe01, 0xe40, 0xe04, 0xe23, 0xe37, 0xe48, 0xe2d, 0xe07]),
    (''colScan'', [0xe25, 0xe32, 0xe22, 0xe19, 0xe34, 0xe49, 0xe27, 0xe21, 0xe37, 0xe2d]),
    (''enrollButton'', [0xe25, 0xe07, 0xe17, 0xe30, 0xe40, 0xe1a, 0xe35, 0xe22, 0xe19, 0xe25, 0xe32, 0xe22, 0xe19, 0xe34, 0xe49, 0xe27, 0xe21, 0xe37, 0xe2d]),
    (''scanPolicyTitle'', [0xe01, 0xe32, 0xe23, 0xe2a, 0xe41, 0xe01, 0xe19, 0xe19, 0xe34, 0xe49, 0xe27, 0xe40, 0xe02, 0xe49, 0xe32, 0x2d, 0xe2d, 0xe2d, 0xe01, 0xe07, 0xe32, 0xe19]),
    (''scanRequired'', [0xe15, 0xe49, 0xe2d, 0xe07, 0xe2a, 0xe41, 0xe01, 0xe19, 0xe19, 0xe34, 0xe49, 0xe27, 0xe40, 0xe02, 0xe49, 0xe32, 0x2d, 0xe2d, 0xe2d, 0xe01, 0xe07, 0xe32, 0xe19]),
    (''scanExemptLabel'', [0xe22, 0xe01, 0xe40, 0xe27, 0xe49, 0xe19, 0x20, 0xe44, 0xe21, 0xe48, 0xe15, 0xe49, 0xe2d, 0xe07, 0xe2a, 0xe41, 0xe01, 0xe19, 0xe19, 0xe34, 0xe49, 0xe27]),
    (''exemptReasonLabel'', [0xe40, 0xe2b, 0xe15, 0xe38, 0xe1c, 0xe25, 0x20, 0x2f, 0x20, 0xe2a, 0xe31, 0xe07, 0xe01, 0xe31, 0xe14]),
    (''exemptReasonPlaceholder'', [0xe40, 0xe0a, 0xe48, 0xe19, 0x20, 0xe2a, 0xe33, 0xe19, 0xe31, 0xe01, 0xe07, 0xe32, 0xe19, 0x20, 0xe1c, 0xe1a, 0x2e, 0x2c, 0x20, 0xe01, 0xe32, 0xe23, 0xe40, 0xe07, 0xe34, 0xe19]),
    (''exemptReasonRequired'', [0xe01, 0xe23, 0xe38, 0xe13, 0xe32, 0xe23, 0xe30, 0xe1a, 0xe38, 0xe40, 0xe2b, 0xe15, 0xe38, 0xe1c, 0xe25]),
    (''setExemptButton'', [0xe15, 0xe31, 0xe49, 0xe07, 0xe40, 0xe1b, 0xe47, 0xe19, 0xe22, 0xe01, 0xe40, 0xe27, 0xe49, 0xe19, 0xe2a, 0xe41, 0xe01, 0xe19]),
    (''clearExemptButton'', [0xe22, 0xe01, 0xe40, 0xe25, 0xe34, 0xe01, 0xe01, 0xe32, 0xe23, 0xe22, 0xe01, 0xe40, 0xe27, 0xe49, 0xe19, 0x20, 0x28, 0xe15, 0xe49, 0xe2d, 0xe07, 0xe2a, 0xe41, 0xe01, 0xe19, 0x29]),
    (''savedOk'', [0xe1a, 0xe31, 0xe19, 0xe17, 0xe36, 0xe01, 0xe41, 0xe25, 0xe49, 0xe27]),
    (''offboardButton'', [0xe22, 0xe49, 0xe32, 0xe22, 0xe2d, 0xe2d, 0xe01, 0x20, 0x2f, 0x20, 0xe1e, 0xe49, 0xe19, 0xe2b, 0xe19, 0xe48, 0xe27, 0xe22]),
    (''offboardTitle'', [0xe22, 0xe37, 0xe19, 0xe22, 0xe31, 0xe19, 0xe01, 0xe32, 0xe23, 0xe22, 0xe49, 0xe32, 0xe22, 0xe2d, 0xe2d, 0xe01]),
    (''offboardBody'', [0xe23, 0xe30, 0xe1a, 0xe1a, 0xe08, 0xe30, 0x20, 0x28, 0x31, 0x29, 0x20, 0xe1b, 0xe34, 0xe14, 0xe0a, 0xe37, 0xe48, 0xe2d, 0xe2d, 0xe2d, 0xe01, 0xe08, 0xe32, 0xe01, 0xe1a, 0xe31, 0xe0d, 0xe0a, 0xe35, 0xe1e, 0xe25, 0x20, 0x2014, 0x20, 0xe1b, 0xe23, 0xe30, 0xe27, 0xe31, 0xe15, 0xe34, 0xe01, 0xe32, 0xe23, 0xe40, 0xe02, 0xe49, 0xe32, 0xe07, 0xe32, 0xe19, 0xe40, 0xe14, 0xe34, 0xe21, 0xe22, 0xe31, 0xe07, 0xe40, 0xe01, 0xe47, 0xe1a, 0xe44, 0xe27, 0xe49, 0x20, 0x28, 0x32, 0x29, 0x20, 0xe25, 0xe1a, 0xe1a, 0xe31, 0xe0d, 0xe0a, 0xe35, 0xe41, 0xe25, 0xe30, 0xe25, 0xe32, 0xe22, 0xe19, 0xe34, 0xe49, 0xe27, 0xe21, 0xe37, 0xe2d, 0xe2d, 0xe2d, 0xe01, 0xe08, 0xe32, 0xe01, 0xe40, 0xe04, 0xe23, 0xe37, 0xe48, 0xe2d, 0xe07, 0xe2a, 0xe41, 0xe01, 0xe19]),
    (''offboardAccounts'', [0xe1a, 0xe31, 0xe0d, 0xe0a, 0xe35, 0xe43, 0xe19, 0xe40, 0xe04, 0xe23, 0xe37, 0xe48, 0xe2d, 0xe07, 0xe2a, 0xe41, 0xe01, 0xe19, 0xe17, 0xe35, 0xe48, 0xe08, 0xe30, 0xe16, 0xe39, 0xe01, 0xe25, 0xe1a]),
    (''offboardNoAccounts'', [0xe44, 0xe21, 0xe48, 0xe21, 0xe35, 0xe1a, 0xe31, 0xe0d, 0xe0a, 0xe35, 0xe43, 0xe19, 0xe40, 0xe04, 0xe23, 0xe37, 0xe48, 0xe2d, 0xe07, 0xe2a, 0xe41, 0xe01, 0xe19]),
    (''offboardReasonPlaceholder'', [0xe40, 0xe0a, 0xe48, 0xe19, 0x20, 0xe22, 0xe49, 0xe32, 0xe22, 0xe44, 0xe1b, 0x20, 0x2e, 0x2e, 0x2e, 0x2c, 0x20, 0xe1b, 0xe25, 0xe14, 0xe1b, 0xe23, 0xe30, 0xe08, 0xe33, 0xe01, 0xe32, 0xe23, 0x2c, 0x20, 0xe40, 0xe01, 0xe29, 0xe35, 0xe22, 0xe13]),
    (''offboardDone'', [0xe22, 0xe49, 0xe32, 0xe22, 0xe2d, 0xe2d, 0xe01, 0xe40, 0xe23, 0xe35, 0xe22, 0xe1a, 0xe23, 0xe49, 0xe2d, 0xe22, 0x20, 0x2014, 0x20, 0xe1b, 0xe34, 0xe14, 0xe0a, 0xe37, 0xe48, 0xe2d, 0xe41, 0xe25, 0xe30, 0xe25, 0xe1a, 0xe25, 0xe32, 0xe22, 0xe19, 0xe34, 0xe49, 0xe27, 0xe21, 0xe37, 0xe2d, 0xe2d, 0xe2d, 0xe01, 0xe08, 0xe32, 0xe01, 0xe40, 0xe04, 0xe23, 0xe37, 0xe48, 0xe2d, 0xe07, 0xe41, 0xe25, 0xe49, 0xe27]),
    (''offboardPartial'', [0xe1b, 0xe34, 0xe14, 0xe0a, 0xe37, 0xe48, 0xe2d, 0xe41, 0xe25, 0xe49, 0xe27, 0x20, 0xe41, 0xe15, 0xe48, 0xe25, 0xe1a, 0xe2d, 0xe2d, 0xe01, 0xe08, 0xe32, 0xe01, 0xe40, 0xe04, 0xe23, 0xe37, 0xe48, 0xe2d, 0xe07, 0xe44, 0xe21, 0xe48, 0xe2a, 0xe33, 0xe40, 0xe23, 0xe47, 0xe08, 0x20, 0x28, 0xe40, 0xe04, 0xe23, 0xe37, 0xe48, 0xe2d, 0xe07, 0xe2d, 0xe32, 0xe08, 0xe44, 0xe21, 0xe48, 0xe15, 0xe2d, 0xe1a, 0xe2a, 0xe19, 0xe2d, 0xe07, 0x29, 0x20, 0x2014, 0x20, 0xe01, 0xe14, 0xe1b, 0xe38, 0xe48, 0xe21, 0xe14, 0xe49, 0xe32, 0xe19, 0xe25, 0xe48, 0xe32, 0xe07, 0xe40, 0xe1e, 0xe37, 0xe48, 0xe2d, 0xe25, 0xe2d, 0xe07, 0xe43, 0xe2b, 0xe21, 0xe48]),
    (''retryRemoveButton'', [0xe25, 0xe1a, 0xe19, 0xe34, 0xe49, 0xe27, 0xe17, 0xe35, 0xe48, 0xe04, 0xe49, 0xe32, 0xe07, 0xe43, 0xe19, 0xe40, 0xe04, 0xe23, 0xe37, 0xe48, 0xe2d, 0xe07]),
    (''rejoinHint'', [0xe16, 0xe49, 0xe32, 0xe01, 0xe25, 0xe31, 0xe1a, 0xe40, 0xe02, 0xe49, 0xe32, 0xe2b, 0xe19, 0xe48, 0xe27, 0xe22, 0x20, 0xe15, 0xe49, 0xe2d, 0xe07, 0xe25, 0xe07, 0xe17, 0xe30, 0xe40, 0xe1a, 0xe35, 0xe22, 0xe19, 0xe25, 0xe32, 0xe22, 0xe19, 0xe34, 0xe49, 0xe27, 0xe21, 0xe37, 0xe2d, 0xe43, 0xe2b, 0xe21, 0xe48]),
    (''needsWriteWindow'', [0xe15, 0xe49, 0xe2d, 0xe07, 0xe40, 0xe1b, 0xe34, 0xe14, 0xe01, 0xe32, 0xe23, 0xe41, 0xe01, 0xe49, 0xe44, 0xe02, 0xe02, 0xe49, 0xe2d, 0xe21, 0xe39, 0xe25, 0xe01, 0xe48, 0xe2d, 0xe19])]"

definition th_personnel :: texts where
  "th_personnel = [
    (''title'', [0xe02, 0xe49, 0xe2d, 0xe21, 0xe39, 0xe25, 0xe01, 0xe33, 0xe25, 0xe31, 0xe07, 0xe1e, 0xe25, 0xe41, 0xe25, 0xe30, 0xe1a, 0xe38, 0xe04, 0xe04, 0xe25]),
    (''subtitle'', [0xe17, 0xe30, 0xe40, 0xe1a, 0xe35, 0xe22, 0xe19, 0xe23, 0xe32, 0xe22, 0xe0a, 0xe37, 0xe48, 0xe2d, 0xe01, 0xe33, 0xe25, 0xe31, 0xe07, 0xe1e, 0xe25, 0xe41, 0xe25, 0xe30, 0xe2a, 0xe16, 0xe32, 0xe19, 0xe30, 0xe01, 0xe32, 0xe23, 0xe2a, 0xe41, 0xe01, 0xe19, 0xe19, 0xe34, 0xe49, 0xe27]),
    (''thaiName'', [0xe0a, 0xe37, 0xe48, 0xe2d, 0x2d, 0xe19, 0xe32, 0xe21, 0xe2a, 0xe01, 0xe38, 0xe25, 0x20, 0x28, 0xe20, 0xe32, 0xe29, 0xe32, 0xe44, 0xe17, 0xe22, 0x29]),
    (''englishName'', [0xe0a, 0xe37, 0xe48, 0xe2d, 0x2d, 0xe19, 0xe32, 0xe21, 0xe2a, 0xe01, 0xe38, 0xe25, 0x20, 0x28, 0xe20, 0xe32, 0xe29, 0xe32, 0xe2d, 0xe31, 0xe07, 0xe01, 0xe24, 0xe29, 0x29]),
    (''notSet'', [0x2014, 0x20, 0x28, 0xe22, 0xe31, 0xe07, 0xe44, 0xe21, 0xe48, 0xe44, 0xe14, 0xe49, 0xe23, 0xe30, 0xe1a, 0xe38, 0x29]),
    (''personnelId'', [0xe23, 0xe2b, 0xe31, 0xe2a, 0xe1a, 0xe38, 0xe04, 0xe04, 0xe25, 0x20, 0x2f, 0x20, 0xe40, 0xe04, 0xe23, 0xe37, 0xe48, 0xe2d, 0xe07, 0xe2b, 0xe21, 0xe32, 0xe22]),
    (''rankSourceManagedHint'', [0xe19, 0xe33, 0xe40, 0xe02, 0xe49, 0xe32, 0xe08, 0xe32, 0xe01, 0xe44, 0xe1f, 0xe25, 0xe4c, 0xe1a, 0xe31, 0xe0d, 0xe0a, 0xe35, 0xe01, 0xe33, 0xe25, 0xe31, 0xe07, 0xe1e, 0xe25, 0x20, 0xe41, 0xe01, 0xe49, 0xe44, 0xe02, 0xe17, 0xe35, 0xe48, 0xe19, 0xe35, 0xe48, 0xe44, 0xe21, 0xe48, 0xe44, 0xe14, 0xe49]),
    (''noTerminalAccountTitle'', [0xe22, 0xe31, 0xe07, 0xe44, 0xe21, 0xe48, 0xe21, 0xe35, 0xe1a, 0xe31, 0xe0d, 0xe0a, 0xe35, 0xe1a, 0xe19, 0xe40, 0xe04, 0xe23, 0xe37, 0xe48, 0xe2d, 0xe07, 0xe2a, 0xe41, 0xe01, 0xe19]),
    (''noTerminalAccountBody'', [0xe1a, 0xe31, 0xe0d, 0xe0a, 0xe35, 0xe40, 0xe14, 0xe34, 0xe21, 0xe16, 0xe39, 0xe01, 0xe19, 0xe33, 0xe2d, 0xe2d, 0xe01, 0xe08, 0xe32, 0xe01, 0xe40, 0xe04, 0xe23, 0xe37, 0xe48, 0xe2d, 0xe07, 0xe2a, 0xe41, 0xe01, 0xe19, 0xe41, 0xe25, 0xe49, 0xe27, 0x20, 0xe1b, 0xe23, 0xe30, 0xe27, 0xe31, 0xe15, 0xe34, 0xe40, 0xe14, 0xe34, 0xe21, 0xe22, 0xe31, 0xe07, 0xe16, 0xe39, 0xe01, 0xe40, 0xe01, 0xe47, 0xe1a, 0xe44, 0xe27, 0xe49]),
    (''startNewEnrollmentButton'', [0xe25, 0xe07, 0xe17, 0xe30, 0xe40, 0xe1a, 0xe35, 0xe22, 0xe19, 0xe43, 0xe2b, 0xe21, 0xe48]),
    (''rank'', [0xe22, 0xe28]),
    (''position'', [0xe15, 0xe33, 0xe41, 0xe2b, 0xe19, 0xe48, 0xe07]),
    (''branch'', [0xe40, 0xe2b, 0xe25, 0xe48, 0xe32, 0x20, 0x2f, 0x20, 0xe2a, 0xe31, 0xe07, 0xe01, 0xe31, 0xe14]),
    (''category'', [0xe1b, 0xe23, 0xe30, 0xe40, 0xe20, 0xe17, 0xe01, 0xe33, 0xe25, 0xe31, 0xe07, 0xe1e, 0xe25]),
    (''scope'', [0xe01, 0xe25, 0xe38, 0xe48, 0xe21, 0xe40, 0xe1b, 0xe49, 0xe32, 0xe2b, 0xe21, 0xe32, 0xe22]),
    (''productionScope'', [0xe15, 0xe49, 0xe2d, 0xe07, 0xe2a, 0xe41, 0xe01, 0xe19, 0xe40, 0xe27, 0xe25, 0xe32] @ js '' (Production)''),
    (''excludedScope'', [0xe1b, 0xe0f, 0xe34, 0xe1a, 0xe31, 0xe15, 0xe34, 0xe2b, 0xe19, 0xe49, 0xe32, 0xe17, 0xe35, 0xe48, 0xe1e, 0xe34, 0xe40, 0xe28, 0xe29]),
    (''allScopes'', [0xe17, 0xe38, 0xe01, 0xe01, 0xe25, 0xe38, 0xe48, 0xe21]),
    (''editEnglishName'', [0xe41, 0xe01, 0xe49, 0xe44, 0xe02, 0xe0a, 0xe37, 0xe48, 0xe2d, 0xe20, 0xe32, 0xe29, 0xe32, 0xe2d, 0xe31, 0xe07, 0xe01, 0xe24, 0xe29]),
    (''englishNamePlaceholder'', [0xe40, 0xe0a, 0xe48, 0xe19] @ js '' Krittapon Madsen''),
    (''saveEnglishName'', [0xe1a, 0xe31, 0xe19, 0xe17, 0xe36, 0xe01, 0xe0a, 0xe37, 0xe48, 0xe2d, 0xe2d, 0xe31, 0xe07, 0xe01, 0xe24, 0xe29]),
    (''cancelEdit'', [0xe22, 0xe01, 0xe40, 0xe25, 0xe34, 0xe01]),
    (''updateSuccess'', [0xe2d, 0xe31, 0xe1b, 0xe40, 0xe14, 0xe15, 0xe0a, 0xe37, 0xe48, 0xe2d, 0xe20, 0xe32, 0xe29, 0xe32, 0xe2d, 0xe31, 0xe07, 0xe01, 0xe24, 0xe29, 0xe40, 0xe23, 0xe35, 0xe22, 0xe1a, 0xe23, 0xe49, 0xe2d, 0xe22, 0xe41, 0xe25, 0xe49, 0xe27]),
    (''updateFailed'', [0xe44, 0xe21, 0xe48, 0xe2a, 0xe32, 0xe21, 0xe32, 0xe23, 0xe16, 0xe1a, 0xe31, 0xe19, 0xe17, 0xe36, 0xe01, 0xe0a, 0xe37, 0xe48, 0xe2d, 0xe44, 0xe14, 0xe49]),
    (''writesDisabledNotice'', [0xe23, 0xe30, 0xe1a, 0xe1a, 0xe2d, 0xe22, 0xe39, 0xe48, 0xe43, 0xe19, 0xe42, 0xe2b, 0xe21, 0xe14, 0xe14, 0xe39, 0xe02, 0xe49, 0xe2d, 0xe21, 0xe39, 0xe25, 0x20, 0x28, 0xe44, 0xe21, 0xe48, 0xe2a, 0xe32, 0xe21, 0xe32, 0xe23, 0xe16, 0xe41, 0xe01, 0xe49, 0xe44, 0xe02, 0xe44, 0xe14, 0xe49, 0x29]),
    (''adminOnlyNotice'', [0xe40, 0xe09, 0xe1e, 0xe32, 0xe30, 0xe1c, 0xe39, 0xe49, 0xe14, 0xe39, 0xe41, 0xe25, 0xe23, 0xe30, 0xe1a, 0xe1a, 0x20, 0x28, 0x41, 0x44, 0x4d, 0x49, 0x4e, 0x29, 0x20, 0xe17, 0xe35, 0xe48, 0xe41, 0xe01, 0xe49, 0xe44, 0xe02, 0xe44, 0xe14, 0xe49]),
    (''statusLabel'', [0xe2a, 0xe16, 0xe32, 0xe19, 0xe30]),
    (''statusActive'', [0xe43, 0xe0a, 0xe49, 0xe07, 0xe32, 0xe19, 0xe2d, 0xe22, 0xe39, 0xe48]),
    (''statusInactive'', [0xe22, 0xe49, 0xe32, 0xe22, 0xe2d, 0xe2d, 0xe01, 0xe41, 0xe25, 0xe49, 0xe27]),
    (''deactivateButton'', [0xe22, 0xe49, 0xe32, 0xe22, 0xe2d, 0xe2d, 0xe01, 0x20, 0x2f, 0x20, 0xe40, 0xe25, 0xe34, 0xe01, 0xe43, 0xe0a, 0xe49, 0xe07, 0xe32, 0xe19]),
    (''reactivateButton'', [0xe01, 0xe25, 0xe31, 0xe1a, 0xe40, 0xe02, 0xe49, 0xe32, 0xe17, 0xe33, 0xe07, 0xe32, 0xe19, 0x20, 0x2f, 0x20, 0xe40, 0xe1b, 0xe34, 0xe14, 0xe43, 0xe0a, 0xe49, 0xe07, 0xe32, 0xe19, 0xe2d, 0xe35, 0xe01, 0xe04, 0xe23, 0xe31, 0xe49, 0xe07]),
    (''deactivateConfirmTitle'', [0xe22, 0xe37, 0xe19, 0xe22, 0xe31, 0xe19, 0xe27, 0xe48, 0xe32, 0xe1a, 0xe38, 0xe04, 0xe04, 0xe25, 0xe19, 0xe35, 0xe49, 0xe22, 0xe49, 0xe32, 0xe22, 0xe2d, 0xe2d, 0xe01, 0xe2b, 0xe23, 0xe37, 0xe2d, 0xe40, 0xe25, 0xe34, 0xe01, 0xe43, 0xe0a, 0xe49, 0xe07, 0xe32, 0xe19, 0xe41, 0xe25, 0xe49, 0xe27, 0xe2b, 0xe23, 0xe37, 0xe2d, 0xe44, 0xe21, 0xe48, 0x3f]),
    (''deactivateConfirmBody'', [0xe1b, 0xe23, 0xe30, 0xe27, 0xe31, 0xe15, 0xe34, 0xe01, 0xe32, 0xe23, 0xe25, 0xe07, 0xe40, 0xe27, 0xe25, 0xe32, 0xe08, 0xe30, 0xe44, 0xe21, 0xe48, 0xe16, 0xe39, 0xe01, 0xe25, 0xe1a, 0x20, 0xe23, 0xe30, 0xe1a, 0xe1a, 0xe08, 0xe30, 0xe2b, 0xe22, 0xe38, 0xe14, 0xe01, 0xe32, 0xe23, 0xe40, 0xe0a, 0xe37, 0xe48, 0xe2d, 0xe21, 0xe42, 0xe22, 0xe07, 0xe01, 0xe31, 0xe1a, 0xe40, 0xe04, 0xe23, 0xe37, 0xe48, 0xe2d, 0xe07, 0xe2a, 0xe41, 0xe01, 0xe19, 0xe2a, 0xe33, 0xe2b, 0xe23, 0xe31, 0xe1a, 0xe23, 0xe32, 0xe22, 0xe01, 0xe32, 0xe23, 0xe43, 0xe2b, 0xe21, 0xe48]),
    (''deactivateReasonLabel'', [0xe40, 0xe2b, 0xe15, 0xe38, 0xe1c, 0xe25]),
    (''deactivateReasonPlaceholder'', [0xe40, 0xe0a, 0xe48, 0xe19, 0x20, 0xe22, 0xe49, 0xe32, 0xe22, 0xe2b, 0xe19, 0xe48, 0xe27, 0xe22, 0x2c, 0x20, 0xe25, 0xe32, 0xe2d, 0xe2d, 0xe01, 0x2c, 0x20, 0xe40, 0xe01, 0xe29, 0xe35, 0xe22, 0xe13]),
    (''deactivateReasonRequired'', [0xe01, 0xe23, 0xe38, 0xe13, 0xe32, 0xe23, 0xe30, 0xe1a, 0xe38, 0xe40, 0xe2b, 0xe15, 0xe38, 0xe1c, 0xe25]),
    (''deactivateSuccess'', [0xe1a, 0xe31, 0xe19, 0xe17, 0xe36, 0xe01, 0xe01, 0xe32, 0xe23, 0xe22, 0xe49, 0xe32, 0xe22, 0xe2d, 0xe2d, 0xe01, 0xe40, 0xe23, 0xe35, 0xe22, 0xe1a, 0xe23, 0xe49, 0xe2d, 0xe22, 0xe41, 0xe25, 0xe49, 0xe27]),
    (''reactivateSuccess'', [0xe40, 0xe1b, 0xe34, 0xe14, 0xe43, 0xe0a, 0xe49, 0xe07, 0xe32, 0xe19, 0xe2d, 0xe35, 0xe01, 0xe04, 0xe23, 0xe31, 0xe49, 0xe07, 0xe40, 0xe23, 0xe35, 0xe22, 0xe1a, 0xe23, 0xe49, 0xe2d, 0xe22, 0xe41, 0xe25, 0xe49, 0xe27]),
    (''terminalCleanupPendingNotice'', [0xe1a, 0xe38, 0xe04, 0xe04, 0xe25, 0xe16, 0xe39, 0xe01, 0xe1b, 0xe34, 0xe14, 0xe01, 0xe32, 0xe23, 0xe43, 0xe0a, 0xe49, 0xe07, 0xe32, 0xe19, 0xe41, 0xe25, 0xe49, 0xe27, 0x20, 0xe22, 0xe31, 0xe07, 0xe21, 0xe35, 0xe02, 0xe49, 0xe2d, 0xe21, 0xe39, 0xe25, 0xe2d, 0xe22, 0xe39, 0xe48, 0xe1a, 0xe19, 0xe40, 0xe04, 0xe23, 0xe37, 0xe48, 0xe2d, 0xe07, 0xe2a, 0xe41, 0xe01, 0xe19, 0x20, 0xe01, 0xe23, 0xe38, 0xe13, 0xe32, 0xe14, 0xe33, 0xe40, 0xe19, 0xe34, 0xe19, 0xe01, 0xe32, 0xe23, 0xe25, 0xe1a, 0xe2d, 0xe2d, 0xe01, 0xe08, 0xe32, 0xe01, 0xe40, 0xe04, 0xe23, 0xe37, 0xe48, 0xe2d, 0xe07]),
    (''filterAll'', [0xe17, 0xe31, 0xe49, 0xe07, 0xe2b, 0xe21, 0xe14]),
    (''filterActiveOnly'', [0xe43, 0xe0a, 0xe49, 0xe07, 0xe32, 0xe19, 0xe2d, 0xe22, 0xe39, 0xe48]),
    (''filterInactiveOnly'', [0xe22, 0xe49, 0xe32, 0xe22, 0xe2d, 0xe2d, 0xe01, 0xe41, 0xe25, 0xe49, 0xe27]),
    (''addPersonnelButton'', [0xe40, 0xe1e, 0xe34, 0xe48, 0xe21, 0xe01, 0xe33, 0xe25, 0xe31, 0xe07, 0xe1e, 0xe25]),
    (''addPersonnelTitle'', [0xe40, 0xe1e, 0xe34, 0xe48, 0xe21, 0xe01, 0xe33, 0xe25, 0xe31, 0xe07, 0xe1e, 0xe25, 0xe43, 0xe2b, 0xe21, 0xe48]),
    (''editPersonnelButton'', [0xe41, 0xe01, 0xe49, 0xe44, 0xe02, 0xe02, 0xe49, 0xe2d, 0xe21, 0xe39, 0xe25]),
    (''editPersonnelTitle'', [0xe41, 0xe01, 0xe49, 0xe44, 0xe02, 0xe02, 0xe49, 0xe2d, 0xe21, 0xe39, 0xe25, 0xe01, 0xe33, 0xe25, 0xe31, 0xe07, 0xe1e, 0xe25]),
    (''thaiFullNameLabel'', [0xe0a, 0xe37, 0xe48, 0xe2d, 0x2d, 0xe19, 0xe32, 0xe21, 0xe2a, 0xe01, 0xe38, 0xe25, 0x20, 0x28, 0xe20, 0xe32, 0xe29, 0xe32, 0xe44, 0xe17, 0xe22, 0x29]),
    (''personnelIdLabel'', [0xe2b, 0xe21, 0xe32, 0xe22, 0xe40, 0xe25, 0xe02, 0xe1b, 0xe23, 0xe30, 0xe08, 0xe33, 0xe15, 0xe31, 0xe27, 0x20, 0x28, 0xe16, 0xe49, 0xe32, 0xe21, 0xe35, 0x29]),
    (''displayNameRequired'', [0xe01, 0xe23, 0xe38, 0xe13, 0xe32, 0xe01, 0xe23, 0xe2d, 0xe01, 0xe0a, 0xe37, 0xe48, 0xe2d, 0x2d, 0xe19, 0xe32, 0xe21, 0xe2a, 0xe01, 0xe38, 0xe25]),
    (''duplicatePersonnelIdBody'', [0xe1e, 0xe1a, 0xe02, 0xe49, 0xe2d, 0xe21, 0xe39, 0xe25, 0xe01, 0xe33, 0xe25, 0xe31, 0xe07, 0xe1e, 0xe25, 0xe19, 0xe35, 0xe49, 0xe2d, 0xe22, 0xe39, 0xe48, 0xe43, 0xe19, 0xe23, 0xe30, 0xe1a, 0xe1a, 0xe41, 0xe25, 0xe49, 0xe27, 0x20, 0xe01, 0xe23, 0xe38, 0xe13, 0xe32, 0xe15, 0xe23, 0xe27, 0xe08, 0xe2a, 0xe2d, 0xe1a, 0xe23, 0xe32, 0xe22, 0xe01, 0xe32, 0xe23, 0xe40, 0xe14, 0xe34, 0xe21, 0xe01, 0xe48, 0xe2d, 0xe19, 0xe40, 0xe1e, 0xe34, 0xe48, 0xe21, 0xe43, 0xe2b, 0xe21, 0xe48]),
    (''createSuccessTitle'', [0xe40, 0xe1e, 0xe34, 0xe48, 0xe21, 0xe01, 0xe33, 0xe25, 0xe31, 0xe07, 0xe1e, 0xe25, 0xe40, 0xe23, 0xe35, 0xe22, 0xe1a, 0xe23, 0xe49, 0xe2d, 0xe22, 0xe41, 0xe25, 0xe49, 0xe27]),
    (''goToEnrollmentButton'', [0xe25, 0xe07, 0xe17, 0xe30, 0xe40, 0xe1a, 0xe35, 0xe22, 0xe19, 0xe40, 0xe04, 0xe23, 0xe37, 0xe48, 0xe2d, 0xe07, 0xe2a, 0xe41, 0xe01, 0xe19]),
    (''englishNameRequiredForTerminalHint'', [0xe01, 0xe23, 0xe38, 0xe13, 0xe32, 0xe01, 0xe23, 0xe2d, 0xe01, 0xe0a, 0xe37, 0xe48, 0xe2d, 0xe20, 0xe32, 0xe29, 0xe32, 0xe2d, 0xe31, 0xe07, 0xe01, 0xe24, 0xe29, 0xe01, 0xe48, 0xe2d, 0xe19, 0xe25, 0xe07, 0xe17, 0xe30, 0xe40, 0xe1a, 0xe35, 0xe22, 0xe19, 0xe40, 0xe04, 0xe23, 0xe37, 0xe48, 0xe2d, 0xe07, 0xe2a, 0xe41, 0xe01, 0xe19]),
    (''selectRankPlaceholder'', [0x2014, 0x20, 0xe40, 0xe25, 0xe37, 0xe2d, 0xe01, 0xe22, 0xe28, 0x20, 0x2014]),
    (''exportCsvButton'', [0xe2a, 0xe48, 0xe07, 0xe2d, 0xe2d, 0xe01, 0x20, 0x43, 0x53, 0x56]),
    (''importCsvButton'', [0xe19, 0xe33, 0xe40, 0xe02, 0xe49, 0xe32, 0x20, 0x43, 0x53, 0x56]),
    (''importCsvTitle'', [0xe19, 0xe33, 0xe40, 0xe02, 0xe49, 0xe32, 0xe02, 0xe49, 0xe2d, 0xe21, 0xe39, 0xe25, 0xe01, 0xe33, 0xe25, 0xe31, 0xe07, 0xe1e, 0xe25, 0xe08, 0xe32, 0xe01, 0x20, 0x43, 0x53, 0x56]),
    (''downloadTemplateButton'', [0xe14, 0xe32, 0xe27, 0xe19, 0xe4c, 0xe42, 0xe2b, 0xe25, 0xe14, 0xe44, 0xe1f, 0xe25, 0xe4c, 0xe15, 0xe31, 0xe27, 0xe2d, 0xe22, 0xe48, 0xe32, 0xe07, 0xe2a, 0xe33, 0xe2b, 0xe23, 0xe31, 0xe1a, 0xe40, 0xe1e, 0xe34, 0xe48, 0xe21, 0xe01, 0xe33, 0xe25, 0xe31, 0xe07, 0xe1e, 0xe25]),
    (''confirmImportButton'', [0xe22, 0xe37, 0xe19, 0xe22, 0xe31, 0xe19, 0xe01, 0xe32, 0xe23, 0xe19, 0xe33, 0xe40, 0xe02, 0xe49, 0xe32]),
    (''csvMalformedBody'', [0xe44, 0xe1f, 0xe25, 0xe4c, 0xe44, 0xe21, 0xe48, 0xe16, 0xe39, 0xe01, 0xe15, 0xe49, 0xe2d, 0xe07, 0x20, 0xe01, 0xe23, 0xe38, 0xe13, 0xe32, 0xe15, 0xe23, 0xe27, 0xe08, 0xe2a, 0xe2d, 0xe1a, 0xe23, 0xe39, 0xe1b, 0xe41, 0xe1a, 0xe1a, 0xe44, 0xe1f, 0xe25, 0xe4c, 0xe41, 0xe25, 0xe30, 0xe25, 0xe2d, 0xe07, 0xe43, 0xe2b, 0xe21, 0xe48, 0xe2d, 0xe35, 0xe01, 0xe04, 0xe23, 0xe31, 0xe49, 0xe07]),
    (''csvNewLabel'', [0xe40, 0xe1e, 0xe34, 0xe48, 0xe21, 0xe43, 0xe2b, 0xe21, 0xe48]),
    (''csvUpdateLabel'', [0xe41, 0xe01, 0xe49, 0xe44, 0xe02]),
    (''csvUnchangedLabel'', [0xe02, 0xe49, 0xe2d, 0xe21, 0xe39, 0xe25, 0xe16, 0xe39, 0xe01, 0xe15, 0xe49, 0xe2d, 0xe07, 0xe2d, 0xe22, 0xe39, 0xe48, 0xe41, 0xe25, 0xe49, 0xe27]),
    (''csvErrorLabel'', [0xe21, 0xe35, 0xe1b, 0xe31, 0xe0d, 0xe2b, 0xe32]),
    (''importCommittedMessage'', [0xe19, 0xe33, 0xe40, 0xe02, 0xe49, 0xe32, 0xe2a, 0xe33, 0xe40, 0xe23, 0xe47, 0xe08, 0x3a, 0x20, 0xe40, 0xe1e, 0xe34, 0xe48, 0xe21, 0xe43, 0xe2b, 0xe21, 0xe48, 0x20, 0x7b, 0x63, 0x72, 0x65, 0x61, 0x74, 0x65, 0x64, 0x7d, 0x20, 0xe04, 0xe19, 0x20, 0xe41, 0xe01, 0xe49, 0xe44, 0xe02, 0x20, 0x7b, 0x75, 0x70, 0x64, 0x61, 0x74, 0x65, 0x64, 0x7d, 0x20, 0xe04, 0xe19])]"

definition th_enrollment :: texts where
  "th_enrollment = [
    (''title'', [0xe25, 0xe07, 0xe17, 0xe30, 0xe40, 0xe1a, 0xe35, 0xe22, 0xe19, 0xe25, 0xe32, 0xe22, 0xe19, 0xe34, 0xe49, 0xe27, 0xe21, 0xe37, 0xe2d]),
    (''subtitle'', [0xe02, 0xe31, 0xe49, 0xe19, 0xe15, 0xe2d, 0xe19, 0xe01, 0xe32, 0xe23, 0xe25, 0xe07, 0xe17, 0xe30, 0xe40, 0xe1a, 0xe35, 0xe22, 0xe19, 0xe25, 0xe32, 0xe22, 0xe19, 0xe34, 0xe49, 0xe27, 0xe21, 0xe37, 0xe2d, 0xe41, 0xe25, 0xe30, 0xe15, 0xe23, 0xe27, 0xe08, 0xe2a, 0xe2d, 0xe1a, 0xe04, 0xe27, 0xe32, 0xe21, 0xe16, 0xe39, 0xe01, 0xe15, 0xe49, 0xe2d, 0xe07]),
    (''startNew'', [0xe40, 0xe23, 0xe34, 0xe48, 0xe21, 0xe25, 0xe07, 0xe17, 0xe30, 0xe40, 0xe1a, 0xe35, 0xe22, 0xe19, 0xe43, 0xe2b, 0xe21, 0xe48]),
    (''activeQueue'', [0xe04, 0xe34, 0xe27, 0xe17, 0xe35, 0xe48, 0xe01, 0xe33, 0xe25, 0xe31, 0xe07, 0xe14, 0xe33, 0xe40, 0xe19, 0xe34, 0xe19, 0xe01, 0xe32, 0xe23]),
    (''noActiveSessions'', [0xe44, 0xe21, 0xe48, 0xe21, 0xe35, 0xe23, 0xe32, 0xe22, 0xe01, 0xe32, 0xe23, 0xe17, 0xe35, 0xe48, 0xe01, 0xe33, 0xe25, 0xe31, 0xe07, 0xe25, 0xe07, 0xe17, 0xe30, 0xe40, 0xe1a, 0xe35, 0xe22, 0xe19]),
    (''step1Title'', [0xe02, 0xe31, 0xe49, 0xe19, 0xe15, 0xe2d, 0xe19, 0xe17, 0xe35, 0xe48, 0x20, 0x31, 0x3a, 0x20, 0xe40, 0xe25, 0xe37, 0xe2d, 0xe01, 0xe1a, 0xe38, 0xe04, 0xe04, 0xe25]),
    (''step1Desc'', [0xe40, 0xe25, 0xe37, 0xe2d, 0xe01, 0xe25, 0xe07, 0xe17, 0xe30, 0xe40, 0xe1a, 0xe35, 0xe22, 0xe19, 0xe43, 0xe2b, 0xe49, 0xe01, 0xe33, 0xe25, 0xe31, 0xe07, 0xe1e, 0xe25, 0x20, 0xe41, 0xe25, 0xe30, 0xe23, 0xe30, 0xe1a, 0xe1a, 0xe08, 0xe30, 0xe08, 0xe2d, 0xe07, 0xe23, 0xe2b, 0xe31, 0xe2a, 0x20, 0x49, 0x44, 0x20, 0xe1a, 0xe19, 0xe40, 0xe04, 0xe23, 0xe37, 0xe48, 0xe2d, 0xe07, 0xe2a, 0xe41, 0xe01, 0xe19, 0xe43, 0xe2b, 0xe49, 0xe2d, 0xe31, 0xe15, 0xe42, 0xe19, 0xe21, 0xe31, 0xe15, 0xe34]),
    (''step1Button'', [0xe40, 0xe23, 0xe34, 0xe48, 0xe21, 0xe25, 0xe07, 0xe17, 0xe30, 0xe40, 0xe1a, 0xe35, 0xe22, 0xe19]),
    (''step2Title'', [0xe02, 0xe31, 0xe49, 0xe19, 0xe15, 0xe2d, 0xe19, 0xe17, 0xe35, 0xe48, 0x20, 0x32, 0x3a, 0x20, 0xe2a, 0xe23, 0xe49, 0xe32, 0xe07, 0xe1c, 0xe39, 0xe49, 0xe43, 0xe0a, 0xe49, 0xe1a, 0xe19, 0xe40, 0xe04, 0xe23, 0xe37, 0xe48, 0xe2d, 0xe07, 0xe2a, 0xe41, 0xe01, 0xe19]),
    (''step2Desc'', [0xe2a, 0xe48, 0xe07, 0xe04, 0xe33, 0xe2a, 0xe31, 0xe48, 0xe07, 0xe2a, 0xe23, 0xe49, 0xe32, 0xe07, 0xe1a, 0xe31, 0xe0d, 0xe0a, 0xe35, 0xe1c, 0xe39, 0xe49, 0xe43, 0xe0a, 0xe49, 0xe44, 0xe1b, 0xe22, 0xe31, 0xe07, 0xe40, 0xe04, 0xe23, 0xe37, 0xe48, 0xe2d, 0xe07, 0xe2a, 0xe41, 0xe01, 0xe19, 0x20, 0x5a, 0x45, 0x4d, 0x35, 0x36, 0x30, 0x20, 0xe17, 0xe31, 0xe19, 0xe17, 0xe35]),
    (''step2Button'', [0xe2a, 0xe23, 0xe49, 0xe32, 0xe07, 0xe1c, 0xe39, 0xe49, 0xe43, 0xe0a, 0xe49, 0xe1a, 0xe19, 0xe40, 0xe04, 0xe23, 0xe37, 0xe48, 0xe2d, 0xe07]),
    (''step3Title'', [0xe02, 0xe31, 0xe49, 0xe19, 0xe15, 0xe2d, 0xe19, 0xe17, 0xe35, 0xe48, 0x20, 0x33, 0x3a, 0x20, 0xe25, 0xe07, 0xe17, 0xe30, 0xe40, 0xe1a, 0xe35, 0xe22, 0xe19, 0xe25, 0xe32, 0xe22, 0xe19, 0xe34, 0xe49, 0xe27, 0xe21, 0xe37, 0xe2d, 0xe17, 0xe35, 0xe48, 0xe40, 0xe04, 0xe23, 0xe37, 0xe48, 0xe2d, 0xe07]),
    (''step3Desc'', [0x31, 0x2e, 0x20, 0xe44, 0xe1b, 0xe17, 0xe35, 0xe48, 0xe40, 0xe04, 0xe23, 0xe37, 0xe48, 0xe2d, 0xe07, 0xe2a, 0xe41, 0xe01, 0xe19, 0xa, 0x32, 0x2e, 0x20, 0xe40, 0xe25, 0xe37, 0xe2d, 0xe01, 0xe23, 0xe2b, 0xe31, 0xe2a, 0xe17, 0xe35, 0xe48, 0xe41, 0xe2a, 0xe14, 0xe07, 0xe14, 0xe49, 0xe32, 0xe19, 0xe1a, 0xe19, 0xa, 0x33, 0x2e, 0x20, 0xe27, 0xe32, 0xe07, 0xe19, 0xe34, 0xe49, 0xe27, 0xe15, 0xe32, 0xe21, 0xe17, 0xe35, 0xe48, 0xe40, 0xe04, 0xe23, 0xe37, 0xe48, 0xe2d, 0xe07, 0xe41, 0xe08, 0xe49, 0xe07, 0xa, 0x34, 0x2e, 0x20, 0xe40, 0xe21, 0xe37, 0xe48, 0xe2d, 0xe40, 0xe2a, 0xe23, 0xe47, 0xe08, 0xe41, 0xe25, 0xe49, 0xe27, 0x20, 0xe01, 0xe25, 0xe31, 0xe1a, 0xe21, 0xe32, 0xe01, 0xe14, 0xe1b, 0xe38, 0xe48, 0xe21, 0xe14, 0xe49, 0xe32, 0xe19, 0xe25, 0xe48, 0xe32, 0xe07]),
    (''step3Button'', [0xe25, 0xe07, 0xe25, 0xe32, 0xe22, 0xe19, 0xe34, 0xe49, 0xe27, 0xe21, 0xe37, 0xe2d, 0xe40, 0xe2a, 0xe23, 0xe47, 0xe08, 0xe41, 0xe25, 0xe49, 0xe27]),
    (''step4Title'', [0xe02, 0xe31, 0xe49, 0xe19, 0xe15, 0xe2d, 0xe19, 0xe17, 0xe35, 0xe48, 0x20, 0x34, 0x3a, 0x20, 0xe17, 0xe14, 0xe2a, 0xe2d, 0xe1a, 0xe2a, 0xe41, 0xe01, 0xe19, 0xe19, 0xe34, 0xe49, 0xe27, 0xe08, 0xe23, 0xe34, 0xe07]),
    (''step4Desc'', [0xe43, 0xe2b, 0xe49, 0xe01, 0xe33, 0xe25, 0xe31, 0xe07, 0xe1e, 0xe25, 0xe17, 0xe14, 0xe2a, 0xe2d, 0xe1a, 0xe2a, 0xe41, 0xe01, 0xe19, 0xe19, 0xe34, 0xe49, 0xe27, 0x20, 0x31, 0x20, 0xe04, 0xe23, 0xe31, 0xe49, 0xe07, 0x20, 0xe23, 0xe30, 0xe1a, 0xe1a, 0xe08, 0xe30, 0xe15, 0xe23, 0xe27, 0xe08, 0xe08, 0xe31, 0xe1a, 0xe1c, 0xe25, 0xe2a, 0xe41, 0xe01, 0xe19, 0xe2a, 0xe14, 0xe2d, 0xe31, 0xe15, 0xe42, 0xe19, 0xe21, 0xe31, 0xe15, 0xe34]),
    (''step4Button'', [0xe22, 0xe37, 0xe19, 0xe22, 0xe31, 0xe19, 0xe1c, 0xe25, 0xe01, 0xe32, 0xe23, 0xe2a, 0xe41, 0xe01, 0xe19, 0xe17, 0xe14, 0xe2a, 0xe2d, 0xe1a]),
    (''step5Title'', [0xe02, 0xe31, 0xe49, 0xe19, 0xe15, 0xe2d, 0xe19, 0xe17, 0xe35, 0xe48, 0x20, 0x35, 0x3a, 0x20, 0xe15, 0xe23, 0xe27, 0xe08, 0xe2a, 0xe2d, 0xe1a, 0xe02, 0xe49, 0xe2d, 0xe21, 0xe39, 0xe25]),
    (''step5Desc'', [0xe02, 0xe49, 0xe2d, 0xe21, 0xe39, 0xe25, 0xe1e, 0xe23, 0xe49, 0xe2d, 0xe21, 0xe2a, 0xe33, 0xe2b, 0xe23, 0xe31, 0xe1a, 0xe01, 0xe32, 0xe23, 0xe22, 0xe37, 0xe19, 0xe22, 0xe31, 0xe19, 0xe15, 0xe31, 0xe27, 0xe1a, 0xe38, 0xe04, 0xe04, 0xe25]),
    (''step5Button'', [0xe2a, 0xe48, 0xe07, 0xe43, 0xe2b, 0xe49, 0xe1c, 0xe39, 0xe49, 0xe14, 0xe39, 0xe41, 0xe25, 0xe22, 0xe37, 0xe19, 0xe22, 0xe31, 0xe19]),
    (''step5ChecklistTerminalAccount'', [0xe2a, 0xe23, 0xe49, 0xe32, 0xe07, 0xe1c, 0xe39, 0xe49, 0xe43, 0xe0a, 0xe49, 0xe1a, 0xe19, 0xe40, 0xe04, 0xe23, 0xe37, 0xe48, 0xe2d, 0xe07, 0xe41, 0xe25, 0xe49, 0xe27]),
    (''step5ChecklistFingerprint'', [0xe25, 0xe07, 0xe17, 0xe30, 0xe40, 0xe1a, 0xe35, 0xe22, 0xe19, 0xe25, 0xe32, 0xe22, 0xe19, 0xe34, 0xe49, 0xe27, 0xe21, 0xe37, 0xe2d, 0xe41, 0xe25, 0xe49, 0xe27]),
    (''step5ChecklistScan'', [0xe17, 0xe14, 0xe2a, 0xe2d, 0xe1a, 0xe2a, 0xe41, 0xe01, 0xe19, 0xe19, 0xe34, 0xe49, 0xe27, 0xe41, 0xe25, 0xe49, 0xe27]),
    (''step6Title'', [0xe02, 0xe31, 0xe49, 0xe19, 0xe15, 0xe2d, 0xe19, 0xe17, 0xe35, 0xe48, 0x20, 0x36, 0x3a, 0x20, 0xe22, 0xe37, 0xe19, 0xe22, 0xe31, 0xe19, 0xe15, 0xe31, 0xe27, 0xe1a, 0xe38, 0xe04, 0xe04, 0xe25, 0x20, 0x28, 0xe1c, 0xe39, 0xe49, 0xe14, 0xe39, 0xe41, 0xe25, 0xe23, 0xe30, 0xe1a, 0xe1a, 0x29]),
    (''step6Desc'', [0xe1c, 0xe39, 0xe49, 0xe14, 0xe39, 0xe41, 0xe25, 0xe23, 0xe30, 0xe1a, 0xe1a, 0xe15, 0xe23, 0xe27, 0xe08, 0xe2a, 0xe2d, 0xe1a, 0xe2b, 0xe25, 0xe31, 0xe01, 0xe10, 0xe32, 0xe19, 0xe41, 0xe25, 0xe30, 0xe25, 0xe07, 0xe19, 0xe32, 0xe21, 0xe22, 0xe37, 0xe19, 0xe22, 0xe31, 0xe19, 0xe15, 0xe31, 0xe27, 0xe15, 0xe19]),
    (''step6Button'', [0xe22, 0xe37, 0xe19, 0xe22, 0xe31, 0xe19, 0xe01, 0xe32, 0xe23, 0xe40, 0xe0a, 0xe37, 0xe48, 0xe2d, 0xe21, 0xe1a, 0xe38, 0xe04, 0xe04, 0xe25, 0xe01, 0xe31, 0xe1a, 0xe40, 0xe04, 0xe23, 0xe37, 0xe48, 0xe2d, 0xe07]),
    (''completedTitle'', [0xe25, 0xe07, 0xe17, 0xe30, 0xe40, 0xe1a, 0xe35, 0xe22, 0xe19, 0xe2a, 0xe33, 0xe40, 0xe23, 0xe47, 0xe08, 0xe2a, 0xe21, 0xe1a, 0xe39, 0xe23, 0xe13, 0xe4c]),
    (''completedDesc'', [0xe01, 0xe33, 0xe25, 0xe31, 0xe07, 0xe1e, 0xe25, 0xe19, 0xe35, 0xe49, 0xe2a, 0xe32, 0xe21, 0xe32, 0xe23, 0xe16, 0xe2a, 0xe41, 0xe01, 0xe19, 0xe40, 0xe27, 0xe25, 0xe32, 0xe40, 0xe02, 0xe49, 0xe32, 0x2d, 0xe2d, 0xe2d, 0xe01, 0xe07, 0xe32, 0xe19, 0xe44, 0xe14, 0xe49, 0xe15, 0xe32, 0xe21, 0xe1b, 0xe01, 0xe15, 0xe34, 0xe41, 0xe25, 0xe49, 0xe27]),
    (''cancelledTitle'', [0xe23, 0xe32, 0xe22, 0xe01, 0xe32, 0xe23, 0xe16, 0xe39, 0xe01, 0xe22, 0xe01, 0xe40, 0xe25, 0xe34, 0xe01]),
    (''historyTitle'', [0xe1b, 0xe23, 0xe30, 0xe27, 0xe31, 0xe15, 0xe34, 0xe01, 0xe32, 0xe23, 0xe25, 0xe07, 0xe17, 0xe30, 0xe40, 0xe1a, 0xe35, 0xe22, 0xe19]),
    (''historyEmpty'', [0xe22, 0xe31, 0xe07, 0xe44, 0xe21, 0xe48, 0xe21, 0xe35, 0xe23, 0xe32, 0xe22, 0xe01, 0xe32, 0xe23, 0xe17, 0xe35, 0xe48, 0xe40, 0xe2a, 0xe23, 0xe47, 0xe08, 0xe2a, 0xe34, 0xe49, 0xe19, 0xe2b, 0xe23, 0xe37, 0xe2d, 0xe16, 0xe39, 0xe01, 0xe19, 0xe33, 0xe2d, 0xe2d, 0xe01]),
    (''removedFromTerminalLabel'', [0xe19, 0xe33, 0xe2d, 0xe2d, 0xe01, 0xe08, 0xe32, 0xe01, 0xe40, 0xe04, 0xe23, 0xe37, 0xe48, 0xe2d, 0xe07, 0xe41, 0xe25, 0xe49, 0xe27]),
    (''removedFromTerminalBody'', [0xe1a, 0xe31, 0xe0d, 0xe0a, 0xe35, 0xe40, 0xe14, 0xe34, 0xe21, 0xe16, 0xe39, 0xe01, 0xe19, 0xe33, 0xe2d, 0xe2d, 0xe01, 0xe08, 0xe32, 0xe01, 0xe40, 0xe04, 0xe23, 0xe37, 0xe48, 0xe2d, 0xe07, 0xe2a, 0xe41, 0xe01, 0xe19, 0xe41, 0xe25, 0xe49, 0xe27, 0x20, 0xe1b, 0xe23, 0xe30, 0xe27, 0xe31, 0xe15, 0xe34, 0xe40, 0xe14, 0xe34, 0xe21, 0xe22, 0xe31, 0xe07, 0xe16, 0xe39, 0xe01, 0xe40, 0xe01, 0xe47, 0xe1a, 0xe44, 0xe27, 0xe49]),
    (''historyPreservedNote'', [0xe1b, 0xe23, 0xe30, 0xe27, 0xe31, 0xe15, 0xe34, 0xe40, 0xe01, 0xe48, 0xe32, 0x20, 0x2014, 0x20, 0xe40, 0xe01, 0xe47, 0xe1a, 0xe44, 0xe27, 0xe49, 0xe40, 0xe1e, 0xe37, 0xe48, 0xe2d, 0xe2d, 0xe49, 0xe32, 0xe07, 0xe2d, 0xe34, 0xe07, 0x20, 0xe41, 0xe01, 0xe49, 0xe44, 0xe02, 0xe44, 0xe21, 0xe48, 0xe44, 0xe14, 0xe49]),
    (''selectPerson'', [0xe40, 0xe25, 0xe37, 0xe2d, 0xe01, 0xe01, 0xe33, 0xe25, 0xe31, 0xe07, 0xe1e, 0xe25, 0xe17, 0xe35, 0xe48, 0xe15, 0xe49, 0xe2d, 0xe07, 0xe01, 0xe32, 0xe23, 0xe25, 0xe07, 0xe17, 0xe30, 0xe40, 0xe1a, 0xe35, 0xe22, 0xe19]),
    (''selectDevice'', [0xe40, 0xe25, 0xe37, 0xe2d, 0xe01, 0xe40, 0xe04, 0xe23, 0xe37, 0xe48, 0xe2d, 0xe07, 0xe2a, 0xe41, 0xe01, 0xe19, 0xe25, 0xe32, 0xe22, 0xe19, 0xe34, 0xe49, 0xe27, 0xe21, 0xe37, 0xe2d]),
    (''selectPersonDeviceOperatorRequired'', [0xe01, 0xe23, 0xe38, 0xe13, 0xe32, 0xe40, 0xe25, 0xe37, 0xe2d, 0xe01, 0xe1a, 0xe38, 0xe04, 0xe04, 0xe25, 0x20, 0xe40, 0xe04, 0xe23, 0xe37, 0xe48, 0xe2d, 0xe07, 0xe2a, 0xe41, 0xe01, 0xe19, 0x20, 0xe41, 0xe25, 0xe30, 0xe01, 0xe23, 0xe2d, 0xe01, 0xe0a, 0xe37, 0xe48, 0xe2d, 0xe1c, 0xe39, 0xe49, 0xe14, 0xe33, 0xe40, 0xe19, 0xe34, 0xe19, 0xe01, 0xe32, 0xe23]),
    (''terminalDisplayName'', [0xe0a, 0xe37, 0xe48, 0xe2d, 0xe17, 0xe35, 0xe48, 0xe08, 0xe30, 0xe41, 0xe2a, 0xe14, 0xe07, 0xe1a, 0xe19, 0xe2b, 0xe19, 0xe49, 0xe32, 0xe08, 0xe2d, 0xe40, 0xe04, 0xe23, 0xe37, 0xe48, 0xe2d, 0xe07, 0xe2a, 0xe41, 0xe01, 0xe19, 0x20, 0x28, 0xe20, 0xe32, 0xe29, 0xe32, 0xe2d, 0xe31, 0xe07, 0xe01, 0xe24, 0xe29, 0x29]),
    (''liveScanDetected'', [0xe15, 0xe23, 0xe27, 0xe08, 0xe1e, 0xe1a, 0xe25, 0xe32, 0xe22, 0xe19, 0xe34, 0xe49, 0xe27, 0xe21, 0xe37, 0xe2d, 0xe2a, 0xe41, 0xe01, 0xe19, 0xe17, 0xe14, 0xe2a, 0xe2d, 0xe1a, 0xe2a, 0xe33, 0xe40, 0xe23, 0xe47, 0xe08, 0x21]),
    (''waitingForScan'', [0xe23, 0xe2d, 0xe01, 0xe32, 0xe23, 0xe2a, 0xe41, 0xe01, 0xe19, 0x2e, 0x2e, 0x2e]),
    (''cancelSession'', [0xe22, 0xe01, 0xe40, 0xe25, 0xe34, 0xe01, 0xe01, 0xe32, 0xe23, 0xe25, 0xe07, 0xe17, 0xe30, 0xe40, 0xe1a, 0xe35, 0xe22, 0xe19, 0xe19, 0xe35, 0xe49]),
    (''cancelReasonPlaceholder'', [0xe40, 0xe2b, 0xe15, 0xe38, 0xe1c, 0xe25, 0xe17, 0xe35, 0xe48, 0xe22, 0xe01, 0xe40, 0xe25, 0xe34, 0xe01, 0x20, 0x28, 0xe08, 0xe33, 0xe40, 0xe1b, 0xe47, 0xe19, 0xe15, 0xe49, 0xe2d, 0xe07, 0xe23, 0xe30, 0xe1a, 0xe38, 0x29]),
    (''cancelReasonRequired'', [0xe01, 0xe23, 0xe38, 0xe13, 0xe32, 0xe23, 0xe30, 0xe1a, 0xe38, 0xe40, 0xe2b, 0xe15, 0xe38, 0xe1c, 0xe25, 0xe17, 0xe35, 0xe48, 0xe22, 0xe01, 0xe40, 0xe25, 0xe34, 0xe01]),
    (''scanTimestampLabel'', [0xe40, 0xe27, 0xe25, 0xe32, 0xe17, 0xe35, 0xe48, 0xe2a, 0xe41, 0xe01, 0xe19]),
    (''scanTimestampRequired'', [0xe01, 0xe23, 0xe38, 0xe13, 0xe32, 0xe40, 0xe25, 0xe37, 0xe2d, 0xe01, 0xe40, 0xe27, 0xe25, 0xe32, 0xe17, 0xe35, 0xe48, 0xe2a, 0xe41, 0xe01, 0xe19]),
    (''metadataInspector'', [0xe02, 0xe49, 0xe2d, 0xe21, 0xe39, 0xe25, 0xe17, 0xe32, 0xe07, 0xe40, 0xe17, 0xe04, 0xe19, 0xe34, 0xe04, 0xe02, 0xe2d, 0xe07, 0xe40, 0xe0b, 0xe2a, 0xe0a, 0xe31, 0xe19]),
    (''writeSessionLockedTitle'', [0xe23, 0xe30, 0xe1a, 0xe1a, 0xe22, 0xe31, 0xe07, 0xe44, 0xe21, 0xe48, 0xe40, 0xe1b, 0xe34, 0xe14, 0xe43, 0xe2b, 0xe49, 0xe1a, 0xe31, 0xe19, 0xe17, 0xe36, 0xe01, 0xe02, 0xe49, 0xe2d, 0xe21, 0xe39, 0xe25]),
    (''writeSessionLockedBody'', [0xe01, 0xe23, 0xe38, 0xe13, 0xe32, 0xe43, 0xe2b, 0xe49, 0xe1c, 0xe39, 0xe49, 0xe14, 0xe39, 0xe41, 0xe25, 0xe23, 0xe30, 0xe1a, 0xe1a, 0xe40, 0xe1b, 0xe34, 0xe14, 0xe0a, 0xe48, 0xe27, 0xe07, 0xe40, 0xe27, 0xe25, 0xe32, 0xe17, 0xe33, 0xe07, 0xe32, 0xe19, 0xe01, 0xe48, 0xe2d, 0xe19, 0xe40, 0xe23, 0xe34, 0xe48, 0xe21, 0xe25, 0xe07, 0xe17, 0xe30, 0xe40, 0xe1a, 0xe35, 0xe22, 0xe19]),
    (''writeSessionExpiredMidWorkflow'', [0xe0a, 0xe48, 0xe27, 0xe07, 0xe40, 0xe27, 0xe25, 0xe32, 0xe17, 0xe33, 0xe07, 0xe32, 0xe19, 0xe2b, 0xe21, 0xe14, 0xe2d, 0xe32, 0xe22, 0xe38, 0xe41, 0xe25, 0xe49, 0xe27, 0x20, 0xe02, 0xe49, 0xe2d, 0xe21, 0xe39, 0xe25, 0xe17, 0xe35, 0xe48, 0xe17, 0xe33, 0xe44, 0xe27, 0xe49, 0xe22, 0xe31, 0xe07, 0xe16, 0xe39, 0xe01, 0xe1a, 0xe31, 0xe19, 0xe17, 0xe36, 0xe01, 0xe2d, 0xe22, 0xe39, 0xe48, 0x20, 0x2014, 0x20, 0xe01, 0xe23, 0xe38, 0xe13, 0xe32, 0xe43, 0xe2b, 0xe49, 0xe1c, 0xe39, 0xe49, 0xe14, 0xe39, 0xe41, 0xe25, 0xe23, 0xe30, 0xe1a, 0xe1a, 0xe40, 0xe1b, 0xe34, 0xe14, 0xe0a, 0xe48, 0xe27, 0xe07, 0xe40, 0xe27, 0xe25, 0xe32, 0xe17, 0xe33, 0xe07, 0xe32, 0xe19, 0xe43, 0xe2b, 0xe21, 0xe48, 0xe40, 0xe1e, 0xe37, 0xe48, 0xe2d, 0xe14, 0xe33, 0xe40, 0xe19, 0xe34, 0xe19, 0xe01, 0xe32, 0xe23, 0xe15, 0xe48, 0xe2d]),
    (''terminalNameNoEnglishHint'', [0xe1a, 0xe38, 0xe04, 0xe04, 0xe25, 0xe19, 0xe35, 0xe49, 0xe22, 0xe31, 0xe07, 0xe44, 0xe21, 0xe48, 0xe21, 0xe35, 0xe0a, 0xe37, 0xe48, 0xe2d, 0xe20, 0xe32, 0xe29, 0xe32, 0xe2d, 0xe31, 0xe07, 0xe01, 0xe24, 0xe29, 0xe43, 0xe19, 0xe23, 0xe30, 0xe1a, 0xe1a, 0x20, 0xe01, 0xe23, 0xe38, 0xe13, 0xe32, 0xe43, 0xe2b, 0xe49, 0xe1c, 0xe39, 0xe49, 0xe14, 0xe39, 0xe41, 0xe25, 0xe23, 0xe30, 0xe1a, 0xe1a, 0xe15, 0xe31, 0xe49, 0xe07, 0xe04, 0xe48, 0xe32, 0xe43, 0xe19, 0xe2b, 0xe19, 0xe49, 0xe32, 0xe02, 0xe49, 0xe2d, 0xe21, 0xe39, 0xe25, 0xe01, 0xe33, 0xe25, 0xe31, 0xe07, 0xe1e, 0xe25, 0x20, 0xe2b, 0xe23, 0xe37, 0xe2d, 0xe01, 0xe23, 0xe2d, 0xe01, 0xe0a, 0xe37, 0xe48, 0xe2d, 0xe15, 0xe2d, 0xe19, 0xe19, 0xe35, 0xe49, 0x20, 0x28, 0xe43, 0xe0a, 0xe49, 0xe15, 0xe31, 0xe27, 0xe2d, 0xe31, 0xe01, 0xe29, 0xe23, 0xe41, 0xe25, 0xe30, 0xe15, 0xe31, 0xe27, 0xe40, 0xe25, 0xe02, 0xe20, 0xe32, 0xe29, 0xe32, 0xe2d, 0xe31, 0xe07, 0xe01, 0xe24, 0xe29, 0xe40, 0xe17, 0xe48, 0xe32, 0xe19, 0xe31, 0xe49, 0xe19, 0x29]),
    (''terminalNameRankOmittedHint'', [0xe23, 0xe30, 0xe1a, 0xe1a, 0xe44, 0xe21, 0xe48, 0xe44, 0xe14, 0xe49, 0xe43, 0xe2a, 0xe48, 0xe22, 0xe28, 0xe19, 0xe33, 0xe2b, 0xe19, 0xe49, 0xe32, 0xe40, 0xe1e, 0xe23, 0xe32, 0xe30, 0xe22, 0xe28, 0x2b, 0xe0a, 0xe37, 0xe48, 0xe2d, 0xe22, 0xe32, 0xe27, 0xe40, 0xe01, 0xe34, 0xe19, 0xe44, 0xe1b, 0xe2a, 0xe33, 0xe2b, 0xe23, 0xe31, 0xe1a, 0xe40, 0xe04, 0xe23, 0xe37, 0xe48, 0xe2d, 0xe07, 0xe2a, 0xe41, 0xe01, 0xe19, 0x20, 0xe0a, 0xe37, 0xe48, 0xe2d, 0xe40, 0xe15, 0xe47, 0xe21, 0xe22, 0xe31, 0xe07, 0xe04, 0xe07, 0xe2d, 0xe22, 0xe39, 0xe48, 0xe43, 0xe19, 0xe02, 0xe49, 0xe2d, 0xe21, 0xe39, 0xe25, 0xe01, 0xe33, 0xe25, 0xe31, 0xe07, 0xe1e, 0xe25, 0xe15, 0xe32, 0xe21, 0xe1b, 0xe01, 0xe15, 0xe34]),
    (''creatingOrVerifying'', [0xe01, 0xe33, 0xe25, 0xe31, 0xe07, 0xe2a, 0xe23, 0xe49, 0xe32, 0xe07, 0x20, 0x2f, 0x20, 0xe15, 0xe23, 0xe27, 0xe08, 0xe2a, 0xe2d, 0xe1a, 0xe1a, 0xe31, 0xe0d, 0xe0a, 0xe35, 0xe1a, 0xe19, 0xe40, 0xe04, 0xe23, 0xe37, 0xe48, 0xe2d, 0xe07, 0x2e, 0x2e, 0x2e]),
    (''verifyReconcileButton'', [0xe15, 0xe23, 0xe27, 0xe08, 0xe2a, 0xe2d, 0xe1a, 0x20, 0x2f, 0x20, 0xe22, 0xe37, 0xe19, 0xe22, 0xe31, 0xe19, 0xe43, 0xe2b, 0xe21, 0xe48]),
    (''terminalConflictTitle'', [0xe23, 0xe2b, 0xe31, 0xe2a, 0xe19, 0xe35, 0xe49, 0xe1a, 0xe19, 0xe40, 0xe04, 0xe23, 0xe37, 0xe48, 0xe2d, 0xe07, 0xe40, 0xe1b, 0xe47, 0xe19, 0xe02, 0xe2d, 0xe07, 0xe1a, 0xe38, 0xe04, 0xe04, 0xe25, 0xe2d, 0xe37, 0xe48, 0xe19]),
    (''terminalConflictBody'', [0xe1a, 0xe31, 0xe0d, 0xe0a, 0xe35, 0xe1a, 0xe19, 0xe40, 0xe04, 0xe23, 0xe37, 0xe48, 0xe2d, 0xe07, 0xe21, 0xe35, 0xe2d, 0xe22, 0xe39, 0xe48, 0xe41, 0xe25, 0xe49, 0xe27, 0xe41, 0xe15, 0xe48, 0xe44, 0xe21, 0xe48, 0xe15, 0xe23, 0xe07, 0xe01, 0xe31, 0xe1a, 0xe23, 0xe32, 0xe22, 0xe01, 0xe32, 0xe23, 0xe25, 0xe07, 0xe17, 0xe30, 0xe40, 0xe1a, 0xe35, 0xe22, 0xe19, 0xe19, 0xe35, 0xe49, 0x20, 0xe23, 0xe30, 0xe1a, 0xe1a, 0xe44, 0xe21, 0xe48, 0xe44, 0xe14, 0xe49, 0xe41, 0xe01, 0xe49, 0xe44, 0xe02, 0xe2b, 0xe23, 0xe37, 0xe2d, 0xe25, 0xe1a, 0xe02, 0xe49, 0xe2d, 0xe21, 0xe39, 0xe25, 0xe43, 0xe14, 0xe46, 0x20, 0xe01, 0xe23, 0xe38, 0xe13, 0xe32, 0xe43, 0xe2b, 0xe49, 0xe1c, 0xe39, 0xe49, 0xe14, 0xe39, 0xe41, 0xe25, 0xe23, 0xe30, 0xe1a, 0xe1a, 0xe15, 0xe23, 0xe27, 0xe08, 0xe2a, 0xe2d, 0xe1a, 0xe40, 0xe04, 0xe23, 0xe37, 0xe48, 0xe2d, 0xe07, 0xe01, 0xe48, 0xe2d, 0xe19, 0xe14, 0xe33, 0xe40, 0xe19, 0xe34, 0xe19, 0xe01, 0xe32, 0xe23, 0xe15, 0xe48, 0xe2d]),
    (''terminalUnconfirmedTitle'', [0xe44, 0xe21, 0xe48, 0xe2a, 0xe32, 0xe21, 0xe32, 0xe23, 0xe16, 0xe22, 0xe37, 0xe19, 0xe22, 0xe31, 0xe19, 0xe1a, 0xe31, 0xe0d, 0xe0a, 0xe35, 0xe1a, 0xe19, 0xe40, 0xe04, 0xe23, 0xe37, 0xe48, 0xe2d, 0xe07, 0xe44, 0xe14, 0xe49]),
    (''terminalUnconfirmedBody'', [0xe23, 0xe30, 0xe1a, 0xe1a, 0xe1e, 0xe22, 0xe32, 0xe22, 0xe32, 0xe21, 0xe2a, 0xe23, 0xe49, 0xe32, 0xe07, 0xe1a, 0xe31, 0xe0d, 0xe0a, 0xe35, 0xe41, 0xe25, 0xe49, 0xe27, 0xe41, 0xe15, 0xe48, 0xe22, 0xe31, 0xe07, 0xe44, 0xe21, 0xe48, 0xe2a, 0xe32, 0xe21, 0xe32, 0xe23, 0xe16, 0xe22, 0xe37, 0xe19, 0xe22, 0xe31, 0xe19, 0xe44, 0xe14, 0xe49, 0xe08, 0xe32, 0xe01, 0xe40, 0xe04, 0xe23, 0xe37, 0xe48, 0xe2d, 0xe07, 0xe2a, 0xe41, 0xe01, 0xe19, 0x20, 0xe2a, 0xe32, 0xe21, 0xe32, 0xe23, 0xe16, 0xe25, 0xe2d, 0xe07, 0xe43, 0xe2b, 0xe21, 0xe48, 0xe44, 0xe14, 0xe49, 0xe2d, 0xe22, 0xe48, 0xe32, 0xe07, 0xe1b, 0xe25, 0xe2d, 0xe14, 0xe20, 0xe31, 0xe22]),
    (''terminalInProgressBody'', [0xe04, 0xe33, 0xe2a, 0xe31, 0xe48, 0xe07, 0xe02, 0xe2d, 0xe07, 0xe23, 0xe32, 0xe22, 0xe01, 0xe32, 0xe23, 0xe19, 0xe35, 0xe49, 0xe01, 0xe33, 0xe25, 0xe31, 0xe07, 0xe17, 0xe33, 0xe07, 0xe32, 0xe19, 0xe2d, 0xe22, 0xe39, 0xe48, 0x20, 0xe01, 0xe23, 0xe38, 0xe13, 0xe32, 0xe23, 0xe2d, 0xe2a, 0xe31, 0xe01, 0xe04, 0xe23, 0xe39, 0xe48, 0xe01, 0xe48, 0xe2d, 0xe19, 0xe25, 0xe2d, 0xe07, 0xe43, 0xe2b, 0xe21, 0xe48]),
    (''terminalUnavailableTitle'', [0xe44, 0xe21, 0xe48, 0xe2a, 0xe32, 0xe21, 0xe32, 0xe23, 0xe16, 0xe40, 0xe0a, 0xe37, 0xe48, 0xe2d, 0xe21, 0xe15, 0xe48, 0xe2d, 0xe40, 0xe04, 0xe23, 0xe37, 0xe48, 0xe2d, 0xe07, 0xe2a, 0xe41, 0xe01, 0xe19, 0xe44, 0xe14, 0xe49]),
    (''terminalUnavailableBody'', [0xe22, 0xe31, 0xe07, 0xe44, 0xe21, 0xe48, 0xe21, 0xe35, 0xe01, 0xe32, 0xe23, 0xe2a, 0xe23, 0xe49, 0xe32, 0xe07, 0xe2b, 0xe23, 0xe37, 0xe2d, 0xe41, 0xe01, 0xe49, 0xe44, 0xe02, 0xe1a, 0xe31, 0xe0d, 0xe0a, 0xe35, 0xe43, 0xe14, 0xe46, 0x20, 0x2014, 0x20, 0xe23, 0xe30, 0xe1a, 0xe1a, 0xe44, 0xe21, 0xe48, 0xe2a, 0xe32, 0xe21, 0xe32, 0xe23, 0xe16, 0xe2d, 0xe48, 0xe32, 0xe19, 0xe23, 0xe32, 0xe22, 0xe0a, 0xe37, 0xe48, 0xe2d, 0xe1a, 0xe31, 0xe0d, 0xe0a, 0xe35, 0xe1a, 0xe19, 0xe40, 0xe04, 0xe23, 0xe37, 0xe48, 0xe2d, 0xe07, 0xe44, 0xe14, 0xe49, 0xe01, 0xe48, 0xe2d, 0xe19, 0xe40, 0xe23, 0xe34, 0xe48, 0xe21, 0xe14, 0xe33, 0xe40, 0xe19, 0xe34, 0xe19, 0xe01, 0xe32, 0xe23, 0x20, 0xe2a, 0xe32, 0xe21, 0xe32, 0xe23, 0xe16, 0xe25, 0xe2d, 0xe07, 0xe43, 0xe2b, 0xe21, 0xe48, 0xe44, 0xe14, 0xe49, 0xe2d, 0xe22, 0xe48, 0xe32, 0xe07, 0xe1b, 0xe25, 0xe2d, 0xe14, 0xe20, 0xe31, 0xe22, 0xe40, 0xe21, 0xe37, 0xe48, 0xe2d, 0xe40, 0xe0a, 0xe37, 0xe48, 0xe2d, 0xe21, 0xe15, 0xe48, 0xe2d, 0xe40, 0xe04, 0xe23, 0xe37, 0xe48, 0xe2d, 0xe07, 0xe44, 0xe14, 0xe49, 0xe41, 0xe25, 0xe49, 0xe27]),
    (''terminalReconciledSuccess'', [0xe22, 0xe37, 0xe19, 0xe22, 0xe31, 0xe19, 0xe1a, 0xe31, 0xe0d, 0xe0a, 0xe35, 0xe1a, 0xe19, 0xe40, 0xe04, 0xe23, 0xe37, 0xe48, 0xe2d, 0xe07, 0xe41, 0xe25, 0xe49, 0xe27, 0x20, 0x2014, 0x20, 0xe1a, 0xe31, 0xe0d, 0xe0a, 0xe35, 0xe21, 0xe35, 0xe2d, 0xe22, 0xe39, 0xe48, 0xe41, 0xe25, 0xe49, 0xe27, 0xe1a, 0xe19, 0xe40, 0xe04, 0xe23, 0xe37, 0xe48, 0xe2d, 0xe07, 0xe41, 0xe25, 0xe30, 0xe15, 0xe23, 0xe07, 0xe01, 0xe31, 0xe1a, 0xe23, 0xe32, 0xe22, 0xe01, 0xe32, 0xe23, 0xe25, 0xe07, 0xe17, 0xe30, 0xe40, 0xe1a, 0xe35, 0xe22, 0xe19, 0xe19, 0xe35, 0xe49]),
    (''terminalCreatedSuccess'', [0xe2a, 0xe23, 0xe49, 0xe32, 0xe07, 0xe1a, 0xe31, 0xe0d, 0xe0a, 0xe35, 0xe1a, 0xe19, 0xe40, 0xe04, 0xe23, 0xe37, 0xe48, 0xe2d, 0xe07, 0xe40, 0xe23, 0xe35, 0xe22, 0xe1a, 0xe23, 0xe49, 0xe2d, 0xe22, 0xe41, 0xe25, 0xe49, 0xe27]),
    (''enrollmentConflictBody'', [0xe23, 0xe32, 0xe22, 0xe01, 0xe32, 0xe23, 0xe25, 0xe07, 0xe17, 0xe30, 0xe40, 0xe1a, 0xe35, 0xe22, 0xe19, 0xe21, 0xe35, 0xe01, 0xe32, 0xe23, 0xe40, 0xe1b, 0xe25, 0xe35, 0xe48, 0xe22, 0xe19, 0xe2a, 0xe16, 0xe32, 0xe19, 0xe30, 0xe41, 0xe25, 0xe49, 0xe27, 0x20, 0xe01, 0xe23, 0xe38, 0xe13, 0xe32, 0xe42, 0xe2b, 0xe25, 0xe14, 0xe02, 0xe49, 0xe2d, 0xe21, 0xe39, 0xe25, 0xe25, 0xe48, 0xe32, 0xe2a, 0xe38, 0xe14, 0xe41, 0xe25, 0xe49, 0xe27, 0xe25, 0xe2d, 0xe07, 0xe2d, 0xe35, 0xe01, 0xe04, 0xe23, 0xe31, 0xe49, 0xe07]),
    (''alreadyCancelledBody'', [0xe23, 0xe32, 0xe22, 0xe01, 0xe32, 0xe23, 0xe19, 0xe35, 0xe49, 0xe16, 0xe39, 0xe01, 0xe22, 0xe01, 0xe40, 0xe25, 0xe34, 0xe01, 0xe41, 0xe25, 0xe49, 0xe27]),
    (''scanNotFoundYetBody'', [0xe22, 0xe31, 0xe07, 0xe44, 0xe21, 0xe48, 0xe1e, 0xe1a, 0xe01, 0xe32, 0xe23, 0xe2a, 0xe41, 0xe01, 0xe19, 0x20, 0xe01, 0xe23, 0xe38, 0xe13, 0xe32, 0xe43, 0xe2b, 0xe49, 0xe1a, 0xe38, 0xe04, 0xe04, 0xe25, 0xe25, 0xe2d, 0xe07, 0xe2a, 0xe41, 0xe01, 0xe19, 0xe2d, 0xe35, 0xe01, 0xe04, 0xe23, 0xe31, 0xe49, 0xe07]),
    (''activeEnrollmentExistsBody'', [0xe1a, 0xe38, 0xe04, 0xe04, 0xe25, 0xe19, 0xe35, 0xe49, 0xe21, 0xe35, 0xe23, 0xe32, 0xe22, 0xe01, 0xe32, 0xe23, 0xe25, 0xe07, 0xe17, 0xe30, 0xe40, 0xe1a, 0xe35, 0xe22, 0xe19, 0xe17, 0xe35, 0xe48, 0xe01, 0xe33, 0xe25, 0xe31, 0xe07, 0xe14, 0xe33, 0xe40, 0xe19, 0xe34, 0xe19, 0xe01, 0xe32, 0xe23, 0xe2d, 0xe22, 0xe39, 0xe48, 0xe41, 0xe25, 0xe49, 0xe27, 0x20, 0xe01, 0xe23, 0xe38, 0xe13, 0xe32, 0xe14, 0xe33, 0xe40, 0xe19, 0xe34, 0xe19, 0xe01, 0xe32, 0xe23, 0xe23, 0xe32, 0xe22, 0xe01, 0xe32, 0xe23, 0xe40, 0xe14, 0xe34, 0xe21, 0xe43, 0xe2b, 0xe49, 0xe40, 0xe2a, 0xe23, 0xe47, 0xe08, 0xe01, 0xe48, 0xe2d, 0xe19]),
    (''cancelSuccessMessage'', [0xe22, 0xe01, 0xe40, 0xe25, 0xe34, 0xe01, 0xe23, 0xe32, 0xe22, 0xe01, 0xe32, 0xe23, 0xe25, 0xe07, 0xe17, 0xe30, 0xe40, 0xe1a, 0xe35, 0xe22, 0xe19, 0xe40, 0xe23, 0xe35, 0xe22, 0xe1a, 0xe23, 0xe49, 0xe2d, 0xe22, 0xe41, 0xe25, 0xe49, 0xe27]),
    (''reserveSuccessMessage'', [0xe40, 0xe23, 0xe34, 0xe48, 0xe21, 0xe25, 0xe07, 0xe17, 0xe30, 0xe40, 0xe1a, 0xe35, 0xe22, 0xe19, 0xe40, 0xe23, 0xe35, 0xe22, 0xe1a, 0xe23, 0xe49, 0xe2d, 0xe22, 0xe41, 0xe25, 0xe49, 0xe27]),
    (''fingerprintWindowActiveMessage'', [0xe1e, 0xe23, 0xe49, 0xe2d, 0xe21, 0xe41, 0xe25, 0xe49, 0xe27, 0x20, 0x2014, 0x20, 0xe44, 0xe1b, 0xe17, 0xe35, 0xe48, 0xe40, 0xe04, 0xe23, 0xe37, 0xe48, 0xe2d, 0xe07, 0xe2a, 0xe41, 0xe01, 0xe19, 0xe44, 0xe14, 0xe49, 0xe40, 0xe25, 0xe22]),
    (''fingerprintConfirmedMessage'', [0xe22, 0xe37, 0xe19, 0xe22, 0xe31, 0xe19, 0xe01, 0xe32, 0xe23, 0xe25, 0xe07, 0xe25, 0xe32, 0xe22, 0xe19, 0xe34, 0xe49, 0xe27, 0xe21, 0xe37, 0xe2d, 0xe41, 0xe25, 0xe49, 0xe27]),
    (''scanWindowStartedMessage'', [0xe01, 0xe33, 0xe25, 0xe31, 0xe07, 0xe23, 0xe2d, 0xe01, 0xe32, 0xe23, 0xe2a, 0xe41, 0xe01, 0xe19, 0xe17, 0xe14, 0xe2a, 0xe2d, 0xe1a]),
    (''scanConfirmedMessage'', [0xe22, 0xe37, 0xe19, 0xe22, 0xe31, 0xe19, 0xe1c, 0xe25, 0xe01, 0xe32, 0xe23, 0xe17, 0xe14, 0xe2a, 0xe2d, 0xe1a, 0xe2a, 0xe41, 0xe01, 0xe19, 0xe41, 0xe25, 0xe49, 0xe27]),
    (''readyForMappingSuccessMessage'', [0xe2a, 0xe48, 0xe07, 0xe43, 0xe2b, 0xe49, 0xe1c, 0xe39, 0xe49, 0xe14, 0xe39, 0xe41, 0xe25, 0xe22, 0xe37, 0xe19, 0xe22, 0xe31, 0xe19, 0xe41, 0xe25, 0xe49, 0xe27]),
    (''startScanWindowButton'', [0xe40, 0xe23, 0xe34, 0xe48, 0xe21, 0xe17, 0xe14, 0xe2a, 0xe2d, 0xe1a, 0xe2a, 0xe41, 0xe01, 0xe19]),
    (''badgeBrowserAction'', [0xe17, 0xe33, 0xe17, 0xe35, 0xe48, 0xe04, 0xe2d, 0xe21, 0xe1e, 0xe34, 0xe27, 0xe40, 0xe15, 0xe2d, 0xe23, 0xe4c]),
    (''badgePhysicalAction'', [0xe17, 0xe33, 0xe17, 0xe35, 0xe48, 0xe40, 0xe04, 0xe23, 0xe37, 0xe48, 0xe2d, 0xe07, 0xe2a, 0xe41, 0xe01, 0xe19]),
    (''badgeAdminAction'', [0xe15, 0xe49, 0xe2d, 0xe07, 0xe43, 0xe2b, 0xe49, 0xe1c, 0xe39, 0xe49, 0xe14, 0xe39, 0xe41, 0xe25, 0xe23, 0xe30, 0xe1a, 0xe1a, 0xe17, 0xe33]),
    (''technicalDetailsToggle'', [0xe23, 0xe32, 0xe22, 0xe25, 0xe30, 0xe40, 0xe2d, 0xe35, 0xe22, 0xe14, 0xe17, 0xe32, 0xe07, 0xe40, 0xe17, 0xe04, 0xe19, 0xe34, 0xe04]),
    (''metaEmployeeIdLabel'', [0xe23, 0xe2b, 0xe31, 0xe2a, 0xe1a, 0xe38, 0xe04, 0xe04, 0xe25, 0x20, 0x28, 0xe23, 0xe30, 0xe1a, 0xe1a, 0x29]),
    (''metaTerminalUidLabel'', [0xe23, 0xe2b, 0xe31, 0xe2a, 0xe2d, 0xe49, 0xe32, 0xe07, 0xe2d, 0xe34, 0xe07, 0xe1a, 0xe19, 0xe40, 0xe04, 0xe23, 0xe37, 0xe48, 0xe2d, 0xe07]),
    (''metaReservedAtLabel'', [0xe40, 0xe27, 0xe25, 0xe32, 0xe17, 0xe35, 0xe48, 0xe08, 0xe2d, 0xe07, 0xe23, 0xe2b, 0xe31, 0xe2a]),
    (''metaAccountCreatedLabel'', [0xe40, 0xe27, 0xe25, 0xe32, 0xe17, 0xe35, 0xe48, 0xe2a, 0xe23, 0xe49, 0xe32, 0xe07, 0xe1a, 0xe31, 0xe0d, 0xe0a, 0xe35, 0xe1a, 0xe19, 0xe40, 0xe04, 0xe23, 0xe37, 0xe48, 0xe2d, 0xe07]),
    (''metaFpConfirmedAtLabel'', [0xe40, 0xe27, 0xe25, 0xe32, 0xe17, 0xe35, 0xe48, 0xe22, 0xe37, 0xe19, 0xe22, 0xe31, 0xe19, 0xe25, 0xe32, 0xe22, 0xe19, 0xe34, 0xe49, 0xe27, 0xe21, 0xe37, 0xe2d]),
    (''metaScanConfirmedAtLabel'', [0xe40, 0xe27, 0xe25, 0xe32, 0xe17, 0xe35, 0xe48, 0xe22, 0xe37, 0xe19, 0xe22, 0xe31, 0xe19, 0xe01, 0xe32, 0xe23, 0xe17, 0xe14, 0xe2a, 0xe2d, 0xe1a, 0xe2a, 0xe41, 0xe01, 0xe19]),
    (''sessionHeaderPrefix'', [0xe23, 0xe32, 0xe22, 0xe01, 0xe32, 0xe23, 0xe17, 0xe35, 0xe48]),
    (''targetTerminalLabel'', [0xe40, 0xe04, 0xe23, 0xe37, 0xe48, 0xe2d, 0xe07, 0xe2a, 0xe41, 0xe01, 0xe19, 0xe40, 0xe1b, 0xe49, 0xe32, 0xe2b, 0xe21, 0xe32, 0xe22]),
    (''reservedIdLabel'', [0xe23, 0xe2b, 0xe31, 0xe2a, 0xe17, 0xe35, 0xe48, 0xe08, 0xe2d, 0xe07, 0xe44, 0xe27, 0xe49]),
    (''reservedByPrefix'', [0xe42, 0xe14, 0xe22]),
    (''stepOfLabel'', [0xe02, 0xe31, 0xe49, 0xe19, 0xe15, 0xe2d, 0xe19, 0xe17, 0xe35, 0xe48]),
    (''searchPersonPlaceholder'', [0xe1e, 0xe34, 0xe21, 0xe1e, 0xe4c, 0xe0a, 0xe37, 0xe48, 0xe2d, 0xe40, 0xe1e, 0xe37, 0xe48, 0xe2d, 0xe04, 0xe49, 0xe19, 0xe2b, 0xe32, 0x2e, 0x2e, 0x2e]),
    (''noPersonMatchFound'', [0xe44, 0xe21, 0xe48, 0xe1e, 0xe1a, 0xe0a, 0xe37, 0xe48, 0xe2d, 0xe17, 0xe35, 0xe48, 0xe04, 0xe49, 0xe19, 0xe2b, 0xe32]),
    (''fixEnglishNameLink'', [0xe44, 0xe1b, 0xe41, 0xe01, 0xe49, 0xe44, 0xe02, 0xe0a, 0xe37, 0xe48, 0xe2d, 0xe20, 0xe32, 0xe29, 0xe32, 0xe2d, 0xe31, 0xe07, 0xe01, 0xe24, 0xe29, 0x20, 0x2192])]"

definition th_attendance :: texts where
  "th_attendance = [
    (''title'', [0xe1a, 0xe31, 0xe19, 0xe17, 0xe36, 0xe01, 0xe40, 0xe27, 0xe25, 0xe32, 0xe40, 0xe02, 0xe49, 0xe32, 0x2d, 0xe2d, 0xe2d, 0xe01, 0x20, 0x28, 0xe2a, 0xe14, 0x29]),
    (''subtitle'', [0xe23, 0xe32, 0xe22, 0xe07, 0xe32, 0xe19, 0xe01, 0xe32, 0xe23, 0xe2a, 0xe41, 0xe01, 0xe19, 0xe19, 0xe34, 0xe49, 0xe27, 0xe41, 0xe1a, 0xe1a, 0xe40, 0xe23, 0xe35, 0xe22, 0xe25, 0xe44, 0xe17, 0xe21, 0xe4c]),
    (''liveStreamBadge'', [0xe16, 0xe48, 0xe32, 0xe22, 0xe17, 0xe2d, 0xe14, 0xe2a, 0xe14, 0xe2a, 0xe31, 0xe0d, 0xe0d, 0xe32, 0xe13]),
    (''timeColumn'', [0xe40, 0xe27, 0xe25, 0xe32, 0xe17, 0xe35, 0xe48, 0xe2a, 0xe41, 0xe01, 0xe19]),
    (''timeColumnSuffix'', [0xe40, 0xe27, 0xe25, 0xe32, 0xe1b, 0xe23, 0xe30, 0xe40, 0xe17, 0xe28, 0xe44, 0xe17, 0xe22]),
    (''personColumn'', [0xe01, 0xe33, 0xe25, 0xe31, 0xe07, 0xe1e, 0xe25, 0x20, 0x2f, 0x20, 0xe1a, 0xe38, 0xe04, 0xe04, 0xe25]),
    (''rankColumn'', [0xe22, 0xe28]),
    (''terminalIdColumn'', [0xe23, 0xe2b, 0xe31, 0xe2a, 0xe40, 0xe04, 0xe23, 0xe37, 0xe48, 0xe2d, 0xe07]),
    (''deviceColumn'', [0xe40, 0xe04, 0xe23, 0xe37, 0xe48, 0xe2d, 0xe07, 0xe2a, 0xe41, 0xe01, 0xe19]),
    (''punchColumn'', [0xe1b, 0xe23, 0xe30, 0xe40, 0xe20, 0xe17, 0xe01, 0xe32, 0xe23, 0xe01, 0xe14]),
    (''statusColumn'', [0xe1c, 0xe25, 0xe01, 0xe32, 0xe23, 0xe15, 0xe23, 0xe27, 0xe08, 0xe2a, 0xe2d, 0xe1a]),
    (''onTime'', [0xe15, 0xe23, 0xe07, 0xe40, 0xe27, 0xe25, 0xe32]),
    (''late'', [0xe2a, 0xe32, 0xe22]),
    (''unknown'', [0xe44, 0xe21, 0xe48, 0xe17, 0xe23, 0xe32, 0xe1a, 0xe2a, 0xe16, 0xe32, 0xe19, 0xe30]),
    (''reconciliationTitle'', [0xe01, 0xe32, 0xe23, 0xe15, 0xe23, 0xe27, 0xe08, 0xe2a, 0xe2d, 0xe1a, 0xe23, 0xe32, 0xe22, 0xe01, 0xe32, 0xe23, 0xe17, 0xe35, 0xe48, 0xe22, 0xe31, 0xe07, 0xe44, 0xe21, 0xe48, 0xe08, 0xe31, 0xe1a, 0xe04, 0xe39, 0xe48]),
    (''reconciliationDesc'', [0xe23, 0xe32, 0xe22, 0xe01, 0xe32, 0xe23, 0xe2a, 0xe41, 0xe01, 0xe19, 0xe17, 0xe35, 0xe48, 0xe22, 0xe31, 0xe07, 0xe44, 0xe21, 0xe48, 0xe21, 0xe35, 0xe01, 0xe32, 0xe23, 0xe22, 0xe37, 0xe19, 0xe22, 0xe31, 0xe19, 0xe15, 0xe31, 0xe27, 0xe1a, 0xe38, 0xe04, 0xe04, 0xe25]),
    (''logIdColumn'', [0xe23, 0xe2b, 0xe31, 0xe2a, 0xe23, 0xe32, 0xe22, 0xe01, 0xe32, 0xe23]),
    (''deviceUserPkColumn'', [0xe23, 0xe2b, 0xe31, 0xe2a, 0xe25, 0xe33, 0xe14, 0xe31, 0xe1a, 0x20, 0x28, 0xe23, 0xe30, 0xe1a, 0xe1a, 0x29]),
    (''unmappedUserLabel'', [0x28, 0xe22, 0xe31, 0xe07, 0xe44, 0xe21, 0xe48, 0xe22, 0xe37, 0xe19, 0xe22, 0xe31, 0xe19, 0xe15, 0xe31, 0xe27, 0xe1a, 0xe38, 0xe04, 0xe04, 0xe25, 0x29]),
    (''noUnattributedRows'', [0xe44, 0xe21, 0xe48, 0xe1e, 0xe1a, 0xe23, 0xe32, 0xe22, 0xe01, 0xe32, 0xe23, 0xe17, 0xe35, 0xe48, 0xe22, 0xe31, 0xe07, 0xe44, 0xe21, 0xe48, 0xe22, 0xe37, 0xe19, 0xe22, 0xe31, 0xe19, 0xe15, 0xe31, 0xe27, 0xe1a, 0xe38, 0xe04, 0xe04, 0xe25, 0xe43, 0xe19, 0xe0a, 0xe48, 0xe27, 0xe07, 0xe19, 0xe35, 0xe49]),
    (''terminalUserColumn'', [0xe23, 0xe2b, 0xe31, 0xe2a, 0xe40, 0xe04, 0xe23, 0xe37, 0xe48, 0xe2d, 0xe07]),
    (''temporalClassificationColumn'', [0xe2a, 0xe32, 0xe40, 0xe2b, 0xe15, 0xe38]),
    (''diagnosticDetailColumn'', [0xe23, 0xe32, 0xe22, 0xe25, 0xe30, 0xe40, 0xe2d, 0xe35, 0xe22, 0xe14, 0xe01, 0xe32, 0xe23, 0xe15, 0xe23, 0xe27, 0xe08, 0xe2a, 0xe2d, 0xe1a])]"

definition th_devices :: texts where
  "th_devices = [
    (''title'', [0xe40, 0xe04, 0xe23, 0xe37, 0xe48, 0xe2d, 0xe07, 0xe2a, 0xe41, 0xe01, 0xe19, 0xe25, 0xe32, 0xe22, 0xe19, 0xe34, 0xe49, 0xe27, 0xe21, 0xe37, 0xe2d]),
    (''subtitle'', [0xe2a, 0xe16, 0xe32, 0xe19, 0xe30, 0xe2e, 0xe32, 0xe23, 0xe4c, 0xe14, 0xe41, 0xe27, 0xe23, 0xe4c, 0xe41, 0xe25, 0xe30, 0xe01, 0xe32, 0xe23, 0xe40, 0xe0a, 0xe37, 0xe48, 0xe2d, 0xe21, 0xe15, 0xe48, 0xe2d, 0xe40, 0xe04, 0xe23, 0xe37, 0xe48, 0xe2d, 0xe07, 0xe2a, 0xe41, 0xe01, 0xe19]),
    (''deviceIp'', [0xe2b, 0xe21, 0xe32, 0xe22, 0xe40, 0xe25, 0xe02, 0x20, 0x49, 0x50, 0x20, 0xe40, 0xe04, 0xe23, 0xe37, 0xe48, 0xe2d, 0xe07]),
    (''serial'', [0xe2b, 0xe21, 0xe32, 0xe22, 0xe40, 0xe25, 0xe02, 0xe40, 0xe04, 0xe23, 0xe37, 0xe48, 0xe2d, 0xe07, 0x20, 0x28, 0x53, 0x65, 0x72, 0x69, 0x61, 0x6c, 0x29]),
    (''platform'', [0xe41, 0xe1e, 0xe25, 0xe15, 0xe1f, 0xe2d, 0xe23, 0xe4c, 0xe21]),
    (''firmware'', [0xe40, 0xe1f, 0xe34, 0xe23, 0xe4c, 0xe21, 0xe41, 0xe27, 0xe23, 0xe4c]),
    (''lastSeen'', [0xe15, 0xe34, 0xe14, 0xe15, 0xe48, 0xe2d, 0xe25, 0xe48, 0xe32, 0xe2a, 0xe38, 0xe14]),
    (''discoveredUsers'', [0xe23, 0xe32, 0xe22, 0xe0a, 0xe37, 0xe48, 0xe2d, 0xe1c, 0xe39, 0xe49, 0xe43, 0xe0a, 0xe49, 0xe17, 0xe35, 0xe48, 0xe15, 0xe23, 0xe27, 0xe08, 0xe1e, 0xe1a, 0xe1a, 0xe19, 0xe40, 0xe04, 0xe23, 0xe37, 0xe48, 0xe2d, 0xe07, 0xe2a, 0xe41, 0xe01, 0xe19]),
    (''discoveredUsersHistoricalHint'', [0xe40, 0xe04, 0xe22, 0xe1e, 0xe1a, 0xe17, 0xe31, 0xe49, 0xe07, 0xe2b, 0xe21, 0xe14, 0x20, 0x28, 0xe23, 0xe27, 0xe21, 0xe17, 0xe35, 0xe48, 0xe19, 0xe33, 0xe2d, 0xe2d, 0xe01, 0xe41, 0xe25, 0xe49, 0xe27, 0x29]),
    (''currentTerminalAccounts'', [0xe1a, 0xe31, 0xe0d, 0xe0a, 0xe35, 0xe17, 0xe35, 0xe48, 0xe2d, 0xe22, 0xe39, 0xe48, 0xe1a, 0xe19, 0xe40, 0xe04, 0xe23, 0xe37, 0xe48, 0xe2d, 0xe07, 0xe2a, 0xe41, 0xe01, 0xe19, 0xe02, 0xe13, 0xe30, 0xe19, 0xe35, 0xe49]),
    (''deviceUserPk'', [0xe23, 0xe2b, 0xe31, 0xe2a, 0xe25, 0xe33, 0xe14, 0xe31, 0xe1a]),
    (''privilege'', [0xe2a, 0xe34, 0xe17, 0xe18, 0xe34, 0xe4c, 0xe01, 0xe32, 0xe23, 0xe43, 0xe0a, 0xe49, 0xe07, 0xe32, 0xe19]),
    (''incarnation'', [0xe23, 0xe2d, 0xe1a, 0xe01, 0xe32, 0xe23, 0xe43, 0xe0a, 0xe49, 0xe07, 0xe32, 0xe19, 0xe1a, 0xe31, 0xe0d, 0xe0a, 0xe35]),
    (''terminalUidColumn'', [0xe23, 0xe2b, 0xe31, 0xe2a, 0xe2d, 0xe49, 0xe32, 0xe07, 0xe2d, 0xe34, 0xe07, 0xe1a, 0xe19, 0xe40, 0xe04, 0xe23, 0xe37, 0xe48, 0xe2d, 0xe07]),
    (''displayNameColumn'', [0xe0a, 0xe37, 0xe48, 0xe2d, 0xe17, 0xe35, 0xe48, 0xe41, 0xe2a, 0xe14, 0xe07, 0xe1a, 0xe19, 0xe40, 0xe04, 0xe23, 0xe37, 0xe48, 0xe2d, 0xe07]),
    (''rosterSyncHint'', [0xe0b, 0xe34, 0xe07, 0xe04, 0xe4c, 0xe02, 0xe49, 0xe2d, 0xe21, 0xe39, 0xe25, 0xe08, 0xe32, 0xe01, 0xe40, 0xe04, 0xe23, 0xe37, 0xe48, 0xe2d, 0xe07, 0xe2a, 0xe41, 0xe01, 0xe19, 0xe42, 0xe14, 0xe22, 0xe2d, 0xe31, 0xe15, 0xe42, 0xe19, 0xe21, 0xe31, 0xe15, 0xe34]),
    (''inactiveSincePrefix'', [0xe1b, 0xe34, 0xe14, 0xe43, 0xe0a, 0xe49, 0xe07, 0xe32, 0xe19, 0xe15, 0xe31, 0xe49, 0xe07, 0xe41, 0xe15, 0xe48]),
    (''recycledLabel'', [0xe19, 0xe33, 0xe23, 0xe2b, 0xe31, 0xe2a, 0xe01, 0xe25, 0xe31, 0xe1a, 0xe21, 0xe32, 0xe43, 0xe0a, 0xe49, 0xe43, 0xe2b, 0xe21, 0xe48])]"

definition th_mappings :: texts where
  "th_mappings = [
    (''title'', [0xe22, 0xe37, 0xe19, 0xe22, 0xe31, 0xe19, 0xe04, 0xe27, 0xe32, 0xe21, 0xe16, 0xe39, 0xe01, 0xe15, 0xe49, 0xe2d, 0xe07, 0xe15, 0xe31, 0xe27, 0xe1a, 0xe38, 0xe04, 0xe04, 0xe25]),
    (''subtitle'', [0xe01, 0xe32, 0xe23, 0xe08, 0xe31, 0xe1a, 0xe04, 0xe39, 0xe48, 0xe15, 0xe31, 0xe27, 0xe15, 0xe19, 0xe17, 0xe35, 0xe48, 0xe1c, 0xe48, 0xe32, 0xe19, 0xe01, 0xe32, 0xe23, 0xe15, 0xe23, 0xe27, 0xe08, 0xe2a, 0xe2d, 0xe1a, 0xe42, 0xe14, 0xe22, 0xe1c, 0xe39, 0xe49, 0xe14, 0xe39, 0xe41, 0xe25, 0xe23, 0xe30, 0xe1a, 0xe1a]),
    (''verifiedMappings'', [0xe23, 0xe32, 0xe22, 0xe01, 0xe32, 0xe23, 0xe17, 0xe35, 0xe48, 0xe22, 0xe37, 0xe19, 0xe22, 0xe31, 0xe19, 0xe04, 0xe27, 0xe32, 0xe21, 0xe16, 0xe39, 0xe01, 0xe15, 0xe49, 0xe2d, 0xe07, 0xe41, 0xe25, 0xe49, 0xe27]),
    (''validFrom'', [0xe21, 0xe35, 0xe1c, 0xe25, 0xe15, 0xe31, 0xe49, 0xe07, 0xe41, 0xe15, 0xe48]),
    (''validTo'', [0xe2a, 0xe34, 0xe49, 0xe19, 0xe2a, 0xe38, 0xe14, 0xe40, 0xe21, 0xe37, 0xe48, 0xe2d]),
    (''verifiedBy'', [0xe1c, 0xe39, 0xe49, 0xe22, 0xe37, 0xe19, 0xe22, 0xe31, 0xe19]),
    (''verifiedAt'', [0xe40, 0xe27, 0xe25, 0xe32, 0xe17, 0xe35, 0xe48, 0xe22, 0xe37, 0xe19, 0xe22, 0xe31, 0xe19]),
    (''activeMapping'', [0xe01, 0xe33, 0xe25, 0xe31, 0xe07, 0xe43, 0xe0a, 0xe49, 0xe07, 0xe32, 0xe19]),
    (''historicalMapping'', [0xe2b, 0xe21, 0xe14, 0xe2d, 0xe32, 0xe22, 0xe38, 0xe41, 0xe25, 0xe49, 0xe27]),
    (''adminAuthorityTitle'', [0xe2d, 0xe33, 0xe19, 0xe32, 0xe08, 0xe01, 0xe32, 0xe23, 0xe22, 0xe37, 0xe19, 0xe22, 0xe31, 0xe19, 0xe15, 0xe31, 0xe27, 0xe1a, 0xe38, 0xe04, 0xe04, 0xe25, 0x20, 0x28, 0xe40, 0xe09, 0xe1e, 0xe32, 0xe30, 0xe1c, 0xe39, 0xe49, 0xe14, 0xe39, 0xe41, 0xe25, 0xe23, 0xe30, 0xe1a, 0xe1a, 0x29]),
    (''adminAuthorityDesc'', [0xe01, 0xe32, 0xe23, 0xe08, 0xe31, 0xe1a, 0xe04, 0xe39, 0xe48, 0xe08, 0xe30, 0xe40, 0xe01, 0xe34, 0xe14, 0xe02, 0xe36, 0xe49, 0xe19, 0xe40, 0xe09, 0xe1e, 0xe32, 0xe30, 0xe40, 0xe21, 0xe37, 0xe48, 0xe2d, 0xe21, 0xe35, 0xe2b, 0xe25, 0xe31, 0xe01, 0xe10, 0xe32, 0xe19, 0xe01, 0xe32, 0xe23, 0xe17, 0xe14, 0xe2a, 0xe2d, 0xe1a, 0xe2a, 0xe41, 0xe01, 0xe19, 0xe19, 0xe34, 0xe49, 0xe27, 0xe04, 0xe23, 0xe1a, 0xe16, 0xe49, 0xe27, 0xe19]),
    (''createMappingButton'', [0xe22, 0xe37, 0xe19, 0xe22, 0xe31, 0xe19, 0xe01, 0xe32, 0xe23, 0xe08, 0xe31, 0xe1a, 0xe04, 0xe39, 0xe48, 0xe15, 0xe31, 0xe27, 0xe1a, 0xe38, 0xe04, 0xe04, 0xe25]),
    (''temporalFooterNote'', [0xe23, 0xe30, 0xe1a, 0xe1a, 0xe08, 0xe30, 0xe08, 0xe31, 0xe1a, 0xe04, 0xe39, 0xe48, 0xe23, 0xe32, 0xe22, 0xe01, 0xe32, 0xe23, 0xe2a, 0xe41, 0xe01, 0xe19, 0xe01, 0xe31, 0xe1a, 0xe1a, 0xe38, 0xe04, 0xe04, 0xe25, 0xe40, 0xe09, 0xe1e, 0xe32, 0xe30, 0xe0a, 0xe48, 0xe27, 0xe07, 0xe40, 0xe27, 0xe25, 0xe32, 0xe17, 0xe35, 0xe48, 0xe01, 0xe32, 0xe23, 0xe22, 0xe37, 0xe19, 0xe22, 0xe31, 0xe19, 0xe15, 0xe31, 0xe27, 0xe1a, 0xe38, 0xe04, 0xe04, 0xe25, 0xe19, 0xe31, 0xe49, 0xe19, 0xe21, 0xe35, 0xe1c, 0xe25, 0xe2d, 0xe22, 0xe39, 0xe48, 0xe40, 0xe17, 0xe48, 0xe32, 0xe19, 0xe31, 0xe49, 0xe19]),
    (''confirmTitle'', [0xe22, 0xe37, 0xe19, 0xe22, 0xe31, 0xe19, 0xe01, 0xe32, 0xe23, 0xe40, 0xe0a, 0xe37, 0xe48, 0xe2d, 0xe21, 0xe15, 0xe31, 0xe27, 0xe1a, 0xe38, 0xe04, 0xe04, 0xe25, 0xe19, 0xe35, 0xe49, 0xe2b, 0xe23, 0xe37, 0xe2d, 0xe44, 0xe21, 0xe48, 0x3f]),
    (''confirmPersonLabel'', [0xe1a, 0xe38, 0xe04, 0xe04, 0xe25]),
    (''confirmTerminalLabel'', [0xe40, 0xe04, 0xe23, 0xe37, 0xe48, 0xe2d, 0xe07, 0xe2a, 0xe41, 0xe01, 0xe19]),
    (''confirmScanLabel'', [0xe40, 0xe27, 0xe25, 0xe32, 0xe17, 0xe35, 0xe48, 0xe17, 0xe14, 0xe2a, 0xe2d, 0xe1a, 0xe2a, 0xe41, 0xe01, 0xe19]),
    (''confirmEffectiveLabel'', [0xe21, 0xe35, 0xe1c, 0xe25, 0xe15, 0xe31, 0xe49, 0xe07, 0xe41, 0xe15, 0xe48]),
    (''confirmWarning'', [0xe01, 0xe32, 0xe23, 0xe14, 0xe33, 0xe40, 0xe19, 0xe34, 0xe19, 0xe01, 0xe32, 0xe23, 0xe19, 0xe35, 0xe49, 0xe08, 0xe30, 0xe40, 0xe0a, 0xe37, 0xe48, 0xe2d, 0xe21, 0xe15, 0xe31, 0xe27, 0xe15, 0xe19, 0xe02, 0xe2d, 0xe07, 0xe1a, 0xe38, 0xe04, 0xe04, 0xe25, 0xe19, 0xe35, 0xe49, 0xe01, 0xe31, 0xe1a, 0xe1a, 0xe31, 0xe0d, 0xe0a, 0xe35, 0xe40, 0xe04, 0xe23, 0xe37, 0xe48, 0xe2d, 0xe07, 0xe2a, 0xe41, 0xe01, 0xe19, 0xe19, 0xe35, 0xe49, 0x20, 0xe01, 0xe23, 0xe38, 0xe13, 0xe32, 0xe15, 0xe23, 0xe27, 0xe08, 0xe2a, 0xe2d, 0xe1a, 0xe0a, 0xe37, 0xe48, 0xe2d, 0xe41, 0xe25, 0xe30, 0xe40, 0xe27, 0xe25, 0xe32, 0xe17, 0xe35, 0xe48, 0xe2a, 0xe41, 0xe01, 0xe19, 0xe43, 0xe2b, 0xe49, 0xe16, 0xe39, 0xe01, 0xe15, 0xe49, 0xe2d, 0xe07, 0xe01, 0xe48, 0xe2d, 0xe19, 0xe22, 0xe37, 0xe19, 0xe22, 0xe31, 0xe19]),
    (''evidenceIncompleteBody'', [0xe02, 0xe49, 0xe2d, 0xe21, 0xe39, 0xe25, 0xe2a, 0xe33, 0xe2b, 0xe23, 0xe31, 0xe1a, 0xe22, 0xe37, 0xe19, 0xe22, 0xe31, 0xe19, 0xe22, 0xe31, 0xe07, 0xe44, 0xe21, 0xe48, 0xe04, 0xe23, 0xe1a, 0x20, 0xe01, 0xe23, 0xe38, 0xe13, 0xe32, 0xe15, 0xe23, 0xe27, 0xe08, 0xe2a, 0xe2d, 0xe1a, 0xe02, 0xe31, 0xe49, 0xe19, 0xe15, 0xe2d, 0xe19, 0xe01, 0xe48, 0xe2d, 0xe19, 0xe2b, 0xe19, 0xe49, 0xe32]),
    (''mappingConflictBody'', [0xe21, 0xe35, 0xe01, 0xe32, 0xe23, 0xe22, 0xe37, 0xe19, 0xe22, 0xe31, 0xe19, 0xe23, 0xe2b, 0xe31, 0xe2a, 0xe40, 0xe04, 0xe23, 0xe37, 0xe48, 0xe2d, 0xe07, 0xe19, 0xe35, 0xe49, 0xe01, 0xe31, 0xe1a, 0xe1a, 0xe38, 0xe04, 0xe04, 0xe25, 0xe2d, 0xe37, 0xe48, 0xe19, 0xe41, 0xe25, 0xe49, 0xe27, 0x20, 0xe01, 0xe23, 0xe38, 0xe13, 0xe32, 0xe15, 0xe23, 0xe27, 0xe08, 0xe2a, 0xe2d, 0xe1a, 0xe01, 0xe48, 0xe2d, 0xe19, 0xe14, 0xe33, 0xe40, 0xe19, 0xe34, 0xe19, 0xe01, 0xe32, 0xe23]),
    (''alreadyMappedBody'', [0xe23, 0xe32, 0xe22, 0xe01, 0xe32, 0xe23, 0xe19, 0xe35, 0xe49, 0xe44, 0xe14, 0xe49, 0xe23, 0xe31, 0xe1a, 0xe01, 0xe32, 0xe23, 0xe22, 0xe37, 0xe19, 0xe22, 0xe31, 0xe19, 0xe41, 0xe25, 0xe49, 0xe27]),
    (''currentSectionTitle'', [0xe1c, 0xe39, 0xe49, 0xe43, 0xe0a, 0xe49, 0xe17, 0xe35, 0xe48, 0xe22, 0xe37, 0xe19, 0xe22, 0xe31, 0xe19, 0xe41, 0xe25, 0xe30, 0xe01, 0xe33, 0xe25, 0xe31, 0xe07, 0xe43, 0xe0a, 0xe49, 0xe07, 0xe32, 0xe19, 0xe2d, 0xe22, 0xe39, 0xe48]),
    (''currentSectionEmpty'', [0xe22, 0xe31, 0xe07, 0xe44, 0xe21, 0xe48, 0xe21, 0xe35, 0xe1c, 0xe39, 0xe49, 0xe43, 0xe0a, 0xe49, 0xe17, 0xe35, 0xe48, 0xe01, 0xe33, 0xe25, 0xe31, 0xe07, 0xe43, 0xe0a, 0xe49, 0xe07, 0xe32, 0xe19, 0xe40, 0xe04, 0xe23, 0xe37, 0xe48, 0xe2d, 0xe07, 0xe2a, 0xe41, 0xe01, 0xe19]),
    (''historySectionTitle'', [0xe1b, 0xe23, 0xe30, 0xe27, 0xe31, 0xe15, 0xe34, 0xe01, 0xe32, 0xe23, 0xe22, 0xe37, 0xe19, 0xe22, 0xe31, 0xe19]),
    (''historySectionEmpty'', [0xe22, 0xe31, 0xe07, 0xe44, 0xe21, 0xe48, 0xe21, 0xe35, 0xe1b, 0xe23, 0xe30, 0xe27, 0xe31, 0xe15, 0xe34]),
    (''removedFromTerminalState'', [0xe19, 0xe33, 0xe2d, 0xe2d, 0xe01, 0xe08, 0xe32, 0xe01, 0xe40, 0xe04, 0xe23, 0xe37, 0xe48, 0xe2d, 0xe07, 0xe41, 0xe25, 0xe49, 0xe27]),
    (''endedState'', [0xe2a, 0xe34, 0xe49, 0xe19, 0xe2a, 0xe38, 0xe14, 0xe01, 0xe32, 0xe23, 0xe43, 0xe0a, 0xe49, 0xe07, 0xe32, 0xe19, 0xe41, 0xe25, 0xe49, 0xe27]),
    (''startedLabel'', [0xe40, 0xe23, 0xe34, 0xe48, 0xe21, 0xe43, 0xe0a, 0xe49, 0xe07, 0xe32, 0xe19]),
    (''endedLabel'', [0xe2a, 0xe34, 0xe49, 0xe19, 0xe2a, 0xe38, 0xe14, 0xe01, 0xe32, 0xe23, 0xe43, 0xe0a, 0xe49, 0xe07, 0xe32, 0xe19]),
    (''formerTerminalIdLabel'', [0xe23, 0xe2b, 0xe31, 0xe2a, 0xe40, 0xe04, 0xe23, 0xe37, 0xe48, 0xe2d, 0xe07, 0xe40, 0xe14, 0xe34, 0xe21]),
    (''mapIdColumn'', [0xe23, 0xe2b, 0xe31, 0xe2a, 0xe23, 0xe32, 0xe22, 0xe01, 0xe32, 0xe23]),
    (''verificationMethodColumn'', [0xe27, 0xe34, 0xe18, 0xe35, 0xe22, 0xe37, 0xe19, 0xe22, 0xe31, 0xe19]),
    (''eligibleEnrollmentLabel'', [0xe23, 0xe32, 0xe22, 0xe01, 0xe32, 0xe23, 0xe17, 0xe35, 0xe48, 0xe1e, 0xe23, 0xe49, 0xe2d, 0xe21, 0xe22, 0xe37, 0xe19, 0xe22, 0xe31, 0xe19, 0xe15, 0xe31, 0xe27, 0xe1a, 0xe38, 0xe04, 0xe04, 0xe25]),
    (''selectEligibleSessionPlaceholder'', [0x2014, 0x20, 0xe40, 0xe25, 0xe37, 0xe2d, 0xe01, 0xe23, 0xe32, 0xe22, 0xe01, 0xe32, 0xe23, 0x20, 0x2014]),
    (''verificationNoteLabel'', [0xe1a, 0xe31, 0xe19, 0xe17, 0xe36, 0xe01, 0xe01, 0xe32, 0xe23, 0xe22, 0xe37, 0xe19, 0xe22, 0xe31, 0xe19]),
    (''verificationNotePlaceholder'', [0xe23, 0xe30, 0xe1a, 0xe38, 0xe2b, 0xe25, 0xe31, 0xe01, 0xe10, 0xe32, 0xe19, 0xe2d, 0xe49, 0xe32, 0xe07, 0xe2d, 0xe34, 0xe07, 0xe41, 0xe25, 0xe30, 0xe01, 0xe32, 0xe23, 0xe15, 0xe23, 0xe27, 0xe08, 0xe2a, 0xe2d, 0xe1a, 0xe08, 0xe23, 0xe34, 0xe07]),
    (''noEligibleEnrollments'', [0xe22, 0xe31, 0xe07, 0xe44, 0xe21, 0xe48, 0xe21, 0xe35, 0xe23, 0xe32, 0xe22, 0xe01, 0xe32, 0xe23, 0xe17, 0xe35, 0xe48, 0xe1e, 0xe23, 0xe49, 0xe2d, 0xe21, 0xe22, 0xe37, 0xe19, 0xe22, 0xe31, 0xe19, 0xe15, 0xe31, 0xe27, 0xe1a, 0xe38, 0xe04, 0xe04, 0xe25, 0xe43, 0xe19, 0xe02, 0xe13, 0xe30, 0xe19, 0xe35, 0xe49]),
    (''selectAndFillRequired'', [0xe01, 0xe23, 0xe38, 0xe13, 0xe32, 0xe40, 0xe25, 0xe37, 0xe2d, 0xe01, 0xe23, 0xe32, 0xe22, 0xe01, 0xe32, 0xe23, 0x20, 0xe41, 0xe25, 0xe30, 0xe01, 0xe23, 0xe2d, 0xe01, 0xe1c, 0xe39, 0xe49, 0xe22, 0xe37, 0xe19, 0xe22, 0xe31, 0xe19, 0xe01, 0xe31, 0xe1a, 0xe1a, 0xe31, 0xe19, 0xe17, 0xe36, 0xe01, 0xe43, 0xe2b, 0xe49, 0xe04, 0xe23, 0xe1a]),
    (''humanFieldLabel'', [0xe1a, 0xe38, 0xe04, 0xe04, 0xe25]),
    (''terminalAccountFieldLabel'', [0xe1a, 0xe31, 0xe0d, 0xe0a, 0xe35, 0xe1a, 0xe19, 0xe40, 0xe04, 0xe23, 0xe37, 0xe48, 0xe2d, 0xe07, 0xe2a, 0xe41, 0xe01, 0xe19]),
    (''controlledScanEvidenceLabel'', [0xe2b, 0xe25, 0xe31, 0xe01, 0xe10, 0xe32, 0xe19, 0xe01, 0xe32, 0xe23, 0xe17, 0xe14, 0xe2a, 0xe2d, 0xe1a, 0xe2a, 0xe41, 0xe01, 0xe19])]"

definition th_terminalManagement :: texts where
  "th_terminalManagement = [
    (''title'', [0xe08, 0xe31, 0xe14, 0xe01, 0xe32, 0xe23, 0xe40, 0xe04, 0xe23, 0xe37, 0xe48, 0xe2d, 0xe07, 0xe2a, 0xe41, 0xe01, 0xe19, 0xe25, 0xe32, 0xe22, 0xe19, 0xe34, 0xe49, 0xe27, 0xe21, 0xe37, 0xe2d]),
    (''subtitle'', [0xe15, 0xe23, 0xe27, 0xe08, 0xe2a, 0xe2d, 0xe1a, 0xe1c, 0xe39, 0xe49, 0xe43, 0xe0a, 0xe49, 0xe07, 0xe32, 0xe19, 0x20, 0xe25, 0xe32, 0xe22, 0xe19, 0xe34, 0xe49, 0xe27, 0xe21, 0xe37, 0xe2d, 0x20, 0xe41, 0xe25, 0xe30, 0xe19, 0xe33, 0xe1c, 0xe39, 0xe49, 0xe17, 0xe35, 0xe48, 0xe22, 0xe49, 0xe32, 0xe22, 0xe2d, 0xe2d, 0xe01, 0xe41, 0xe25, 0xe49, 0xe27, 0xe2d, 0xe2d, 0xe01, 0xe08, 0xe32, 0xe01, 0xe40, 0xe04, 0xe23, 0xe37, 0xe48, 0xe2d, 0xe07]),
    (''nameColumn'', [0xe0a, 0xe37, 0xe48, 0xe2d, 0xe1a, 0xe38, 0xe04, 0xe04, 0xe25]),
    (''terminalIdColumn'', [0xe23, 0xe2b, 0xe31, 0xe2a, 0xe40, 0xe04, 0xe23, 0xe37, 0xe48, 0xe2d, 0xe07]),
    (''deviceColumn'', [0xe40, 0xe04, 0xe23, 0xe37, 0xe48, 0xe2d, 0xe07]),
    (''humanStatusColumn'', [0xe2a, 0xe16, 0xe32, 0xe19, 0xe30, 0xe1a, 0xe38, 0xe04, 0xe04, 0xe25]),
    (''accountStatusColumn'', [0xe2a, 0xe16, 0xe32, 0xe19, 0xe30, 0xe1a, 0xe31, 0xe0d, 0xe0a, 0xe35, 0xe1a, 0xe19, 0xe40, 0xe04, 0xe23, 0xe37, 0xe48, 0xe2d, 0xe07]),
    (''fingerprintStatusColumn'', [0xe2a, 0xe16, 0xe32, 0xe19, 0xe30, 0xe25, 0xe32, 0xe22, 0xe19, 0xe34, 0xe49, 0xe27, 0xe21, 0xe37, 0xe2d]),
    (''mappingStatusColumn'', [0xe01, 0xe32, 0xe23, 0xe40, 0xe0a, 0xe37, 0xe48, 0xe2d, 0xe21, 0xe42, 0xe22, 0xe07]),
    (''accountPresent'', [0xe1e, 0xe23, 0xe49, 0xe2d, 0xe21, 0xe43, 0xe0a, 0xe49, 0xe07, 0xe32, 0xe19]),
    (''accountAbsent'', [0xe44, 0xe21, 0xe48, 0xe1e, 0xe1a, 0xe1a, 0xe31, 0xe0d, 0xe0a, 0xe35, 0xe43, 0xe19, 0xe40, 0xe04, 0xe23, 0xe37, 0xe48, 0xe2d, 0xe07]),
    (''fingerprintPresent'', [0xe21, 0xe35, 0xe25, 0xe32, 0xe22, 0xe19, 0xe34, 0xe49, 0xe27, 0xe21, 0xe37, 0xe2d]),
    (''fingerprintAbsent'', [0xe44, 0xe21, 0xe48, 0xe21, 0xe35, 0xe25, 0xe32, 0xe22, 0xe19, 0xe34, 0xe49, 0xe27, 0xe21, 0xe37, 0xe2d]),
    (''fingerprintUnknown'', [0xe15, 0xe49, 0xe2d, 0xe07, 0xe15, 0xe23, 0xe27, 0xe08, 0xe2a, 0xe2d, 0xe1a]),
    (''humanActive'', [0xe43, 0xe0a, 0xe49, 0xe07, 0xe32, 0xe19, 0xe2d, 0xe22, 0xe39, 0xe48]),
    (''humanInactive'', [0xe22, 0xe49, 0xe32, 0xe22, 0xe2d, 0xe2d, 0xe01, 0xe41, 0xe25, 0xe49, 0xe27]),
    (''humanUnlinked'', [0xe22, 0xe31, 0xe07, 0xe44, 0xe21, 0xe48, 0xe40, 0xe0a, 0xe37, 0xe48, 0xe2d, 0xe21, 0xe42, 0xe22, 0xe07, 0xe01, 0xe31, 0xe1a, 0xe1a, 0xe38, 0xe04, 0xe04, 0xe25]),
    (''mappingOpen'', [0xe40, 0xe0a, 0xe37, 0xe48, 0xe2d, 0xe21, 0xe42, 0xe22, 0xe07, 0xe2d, 0xe22, 0xe39, 0xe48]),
    (''mappingClosed'', [0xe40, 0xe0a, 0xe37, 0xe48, 0xe2d, 0xe21, 0xe42, 0xe22, 0xe07, 0xe41, 0xe25, 0xe49, 0xe27, 0x20, 0x28, 0xe1b, 0xe34, 0xe14, 0xe41, 0xe25, 0xe49, 0xe27, 0x29]),
    (''mappingNone'', [0xe22, 0xe31, 0xe07, 0xe44, 0xe21, 0xe48, 0xe40, 0xe0a, 0xe37, 0xe48, 0xe2d, 0xe21, 0xe42, 0xe22, 0xe07]),
    (''deviceUnreachable'', [0xe15, 0xe34, 0xe14, 0xe15, 0xe48, 0xe2d, 0xe40, 0xe04, 0xe23, 0xe37, 0xe48, 0xe2d, 0xe07, 0xe44, 0xe21, 0xe48, 0xe44, 0xe14, 0xe49]),
    (''reenrollButton'', [0xe25, 0xe07, 0xe25, 0xe32, 0xe22, 0xe19, 0xe34, 0xe49, 0xe27, 0xe43, 0xe2b, 0xe21, 0xe48]),
    (''removeFingerprintButton'', [0xe25, 0xe1a, 0xe25, 0xe32, 0xe22, 0xe19, 0xe34, 0xe49, 0xe27, 0xe21, 0xe37, 0xe2d]),
    (''removeAccountButton'', [0xe19, 0xe33, 0xe1c, 0xe39, 0xe49, 0xe43, 0xe0a, 0xe49, 0xe2d, 0xe2d, 0xe01, 0xe08, 0xe32, 0xe01, 0xe40, 0xe04, 0xe23, 0xe37, 0xe48, 0xe2d, 0xe07]),
    (''refreshButton'', [0xe15, 0xe23, 0xe27, 0xe08, 0xe2a, 0xe2d, 0xe1a, 0xe2d, 0xe35, 0xe01, 0xe04, 0xe23, 0xe31, 0xe49, 0xe07]),
    (''removeFingerprintConfirmTitle'', [0xe25, 0xe1a, 0xe25, 0xe32, 0xe22, 0xe19, 0xe34, 0xe49, 0xe27, 0xe21, 0xe37, 0xe2d, 0xe2b, 0xe23, 0xe37, 0xe2d, 0xe44, 0xe21, 0xe48, 0x3f]),
    (''removeFingerprintConfirmBody'', [0xe1a, 0xe31, 0xe0d, 0xe0a, 0xe35, 0xe1c, 0xe39, 0xe49, 0xe43, 0xe0a, 0xe49, 0xe08, 0xe30, 0xe22, 0xe31, 0xe07, 0xe2d, 0xe22, 0xe39, 0xe48, 0xe43, 0xe19, 0xe40, 0xe04, 0xe23, 0xe37, 0xe48, 0xe2d, 0xe07, 0x20, 0xe41, 0xe25, 0xe30, 0xe1b, 0xe23, 0xe30, 0xe27, 0xe31, 0xe15, 0xe34, 0xe01, 0xe32, 0xe23, 0xe2a, 0xe41, 0xe01, 0xe19, 0xe40, 0xe14, 0xe34, 0xe21, 0xe08, 0xe30, 0xe44, 0xe21, 0xe48, 0xe16, 0xe39, 0xe01, 0xe25, 0xe1a]),
    (''removeAccountConfirmTitle'', [0xe19, 0xe33, 0xe2d, 0xe2d, 0xe01, 0xe08, 0xe32, 0xe01, 0xe40, 0xe04, 0xe23, 0xe37, 0xe48, 0xe2d, 0xe07, 0xe2a, 0xe41, 0xe01, 0xe19, 0xe2b, 0xe23, 0xe37, 0xe2d, 0xe44, 0xe21, 0xe48, 0x3f]),
    (''removeAccountConfirmBody'', [0xe1a, 0xe38, 0xe04, 0xe04, 0xe25, 0xe41, 0xe25, 0xe30, 0xe1b, 0xe23, 0xe30, 0xe27, 0xe31, 0xe15, 0xe34, 0xe01, 0xe32, 0xe23, 0xe2a, 0xe41, 0xe01, 0xe19, 0xe40, 0xe14, 0xe34, 0xe21, 0xe08, 0xe30, 0xe22, 0xe31, 0xe07, 0xe2d, 0xe22, 0xe39, 0xe48, 0xe43, 0xe19, 0xe23, 0xe30, 0xe1a, 0xe1a, 0x20, 0xe41, 0xe15, 0xe48, 0xe08, 0xe30, 0xe44, 0xe21, 0xe48, 0xe2a, 0xe32, 0xe21, 0xe32, 0xe23, 0xe16, 0xe43, 0xe0a, 0xe49, 0xe1a, 0xe31, 0xe0d, 0xe0a, 0xe35, 0xe19, 0xe35, 0xe49, 0xe2a, 0xe41, 0xe01, 0xe19, 0xe17, 0xe35, 0xe48, 0xe40, 0xe04, 0xe23, 0xe37, 0xe48, 0xe2d, 0xe07, 0xe44, 0xe14, 0xe49, 0xe2d, 0xe35, 0xe01]),
    (''removeAccountActiveWarning'', [0xe1a, 0xe38, 0xe04, 0xe04, 0xe25, 0xe19, 0xe35, 0xe49, 0xe22, 0xe31, 0xe07, 0xe43, 0xe0a, 0xe49, 0xe07, 0xe32, 0xe19, 0xe2d, 0xe22, 0xe39, 0xe48, 0x20, 0xe2b, 0xe32, 0xe01, 0xe25, 0xe1a, 0xe1c, 0xe39, 0xe49, 0xe43, 0xe0a, 0xe49, 0xe2d, 0xe2d, 0xe01, 0xe08, 0xe32, 0xe01, 0xe40, 0xe04, 0xe23, 0xe37, 0xe48, 0xe2d, 0xe07, 0x20, 0xe1a, 0xe38, 0xe04, 0xe04, 0xe25, 0xe19, 0xe35, 0xe49, 0xe08, 0xe30, 0xe44, 0xe21, 0xe48, 0xe2a, 0xe32, 0xe21, 0xe32, 0xe23, 0xe16, 0xe2a, 0xe41, 0xe01, 0xe19, 0xe14, 0xe49, 0xe27, 0xe22, 0xe1a, 0xe31, 0xe0d, 0xe0a, 0xe35, 0xe19, 0xe35, 0xe49, 0xe44, 0xe14, 0xe49]),
    (''removeAccountAcknowledgeLabel'', [0xe40, 0xe02, 0xe49, 0xe32, 0xe43, 0xe08, 0xe41, 0xe25, 0xe49, 0xe27, 0x20, 0xe14, 0xe33, 0xe40, 0xe19, 0xe34, 0xe19, 0xe01, 0xe32, 0xe23, 0xe15, 0xe48, 0xe2d]),
    (''reenrollConfirmTitle'', [0xe40, 0xe23, 0xe34, 0xe48, 0xe21, 0xe25, 0xe07, 0xe25, 0xe32, 0xe22, 0xe19, 0xe34, 0xe49, 0xe27, 0xe21, 0xe37, 0xe2d, 0xe43, 0xe2b, 0xe21, 0xe48, 0xe2b, 0xe23, 0xe37, 0xe2d, 0xe44, 0xe21, 0xe48, 0x3f]),
    (''reenrollConfirmBody'', [0xe43, 0xe2b, 0xe49, 0xe1a, 0xe38, 0xe04, 0xe04, 0xe25, 0xe44, 0xe1b, 0xe17, 0xe35, 0xe48, 0xe40, 0xe04, 0xe23, 0xe37, 0xe48, 0xe2d, 0xe07, 0xe2a, 0xe41, 0xe01, 0xe19, 0xe40, 0xe1e, 0xe37, 0xe48, 0xe2d, 0xe27, 0xe32, 0xe07, 0xe19, 0xe34, 0xe49, 0xe27, 0xe15, 0xe32, 0xe21, 0xe17, 0xe35, 0xe48, 0xe40, 0xe04, 0xe23, 0xe37, 0xe48, 0xe2d, 0xe07, 0xe41, 0xe08, 0xe49, 0xe07]),
    (''reenrollCannotCancelNotice'', [0xe40, 0xe21, 0xe37, 0xe48, 0xe2d, 0xe40, 0xe23, 0xe34, 0xe48, 0xe21, 0xe41, 0xe25, 0xe49, 0xe27, 0xe44, 0xe21, 0xe48, 0xe2a, 0xe32, 0xe21, 0xe32, 0xe23, 0xe16, 0xe22, 0xe01, 0xe40, 0xe25, 0xe34, 0xe01, 0xe01, 0xe25, 0xe32, 0xe07, 0xe04, 0xe31, 0xe19, 0xe44, 0xe14, 0xe49, 0x20, 0xe01, 0xe23, 0xe38, 0xe13, 0xe32, 0xe23, 0xe2d, 0xe08, 0xe19, 0xe40, 0xe2a, 0xe23, 0xe47, 0xe08, 0xe2a, 0xe34, 0xe49, 0xe19]),
    (''reenrollInProgress'', [0xe01, 0xe33, 0xe25, 0xe31, 0xe07, 0xe23, 0xe2d, 0xe40, 0xe04, 0xe23, 0xe37, 0xe48, 0xe2d, 0xe07, 0x20, 0xe01, 0xe23, 0xe38, 0xe13, 0xe32, 0xe43, 0xe2b, 0xe49, 0xe1a, 0xe38, 0xe04, 0xe04, 0xe25, 0xe27, 0xe32, 0xe07, 0xe19, 0xe34, 0xe49, 0xe27, 0xe17, 0xe35, 0xe48, 0xe40, 0xe04, 0xe23, 0xe37, 0xe48, 0xe2d, 0xe07, 0xe2a, 0xe41, 0xe01, 0xe19, 0x2e, 0x2e, 0x2e]),
    (''reenrollSuccess'', [0xe25, 0xe07, 0xe25, 0xe32, 0xe22, 0xe19, 0xe34, 0xe49, 0xe27, 0xe21, 0xe37, 0xe2d, 0xe2a, 0xe33, 0xe40, 0xe23, 0xe47, 0xe08]),
    (''reenrollFailed'', [0xe44, 0xe21, 0xe48, 0xe2a, 0xe33, 0xe40, 0xe23, 0xe47, 0xe08, 0x20, 0xe01, 0xe23, 0xe38, 0xe13, 0xe32, 0xe25, 0xe2d, 0xe07, 0xe43, 0xe2b, 0xe21, 0xe48]),
    (''fingerprintRemoveSuccess'', [0xe25, 0xe1a, 0xe25, 0xe32, 0xe22, 0xe19, 0xe34, 0xe49, 0xe27, 0xe21, 0xe37, 0xe2d, 0xe40, 0xe23, 0xe35, 0xe22, 0xe1a, 0xe23, 0xe49, 0xe2d, 0xe22, 0xe41, 0xe25, 0xe49, 0xe27]),
    (''accountRemoveSuccess'', [0xe19, 0xe33, 0xe1c, 0xe39, 0xe49, 0xe43, 0xe0a, 0xe49, 0xe2d, 0xe2d, 0xe01, 0xe08, 0xe32, 0xe01, 0xe40, 0xe04, 0xe23, 0xe37, 0xe48, 0xe2d, 0xe07, 0xe40, 0xe23, 0xe35, 0xe22, 0xe1a, 0xe23, 0xe49, 0xe2d, 0xe22, 0xe41, 0xe25, 0xe49, 0xe27]),
    (''alreadyAbsentNotice'', [0xe23, 0xe32, 0xe22, 0xe01, 0xe32, 0xe23, 0xe19, 0xe35, 0xe49, 0xe44, 0xe21, 0xe48, 0xe21, 0xe35, 0xe2d, 0xe22, 0xe39, 0xe48, 0xe43, 0xe19, 0xe40, 0xe04, 0xe23, 0xe37, 0xe48, 0xe2d, 0xe07, 0xe41, 0xe25, 0xe49, 0xe27]),
    (''viewerNoAccess'', [0xe04, 0xe38, 0xe13, 0xe44, 0xe21, 0xe48, 0xe21, 0xe35, 0xe2a, 0xe34, 0xe17, 0xe18, 0xe34, 0xe4c, 0xe14, 0xe33, 0xe40, 0xe19, 0xe34, 0xe19, 0xe01, 0xe32, 0xe23, 0xe19, 0xe35, 0xe49])]"

definition th_audit :: texts where
  "th_audit = [
    (''title'', [0xe1a, 0xe31, 0xe19, 0xe17, 0xe36, 0xe01, 0xe04, 0xe27, 0xe32, 0xe21, 0xe1b, 0xe25, 0xe2d, 0xe14, 0xe20, 0xe31, 0xe22]),
    (''subtitle'', [0xe1b, 0xe23, 0xe30, 0xe27, 0xe31, 0xe15, 0xe34, 0xe01, 0xe32, 0xe23, 0xe1b, 0xe0f, 0xe34, 0xe1a, 0xe31, 0xe15, 0xe34, 0xe07, 0xe32, 0xe19, 0xe41, 0xe25, 0xe30, 0xe01, 0xe32, 0xe23, 0xe40, 0xe1b, 0xe25, 0xe35, 0xe48, 0xe22, 0xe19, 0xe41, 0xe1b, 0xe25, 0xe07, 0xe43, 0xe19, 0xe23, 0xe30, 0xe1a, 0xe1a]),
    (''eventTypeFilter'', [0xe1b, 0xe23, 0xe30, 0xe40, 0xe20, 0xe17, 0xe40, 0xe2b, 0xe15, 0xe38, 0xe01, 0xe32, 0xe23, 0xe13, 0xe4c]),
    (''timestampColumn'', [0xe40, 0xe27, 0xe25, 0xe32] @ js '' (UTC)''),
    (''eventTypeColumn'', [0xe40, 0xe2b, 0xe15, 0xe38, 0xe01, 0xe32, 0xe23, 0xe13, 0xe4c]),
    (''operatorColumn'', [0xe1c, 0xe39, 0xe49, 0xe14, 0xe33, 0xe40, 0xe19, 0xe34, 0xe19, 0xe01, 0xe32, 0xe23]),
    (''detailsColumn'', [0xe23, 0xe32, 0xe22, 0xe25, 0xe30, 0xe40, 0xe2d, 0xe35, 0xe22, 0xe14]),
    (''originIpColumn'', [0x49, 0x50, 0x20, 0xe15, 0xe49, 0xe19, 0xe17, 0xe32, 0xe07])]"

definition th_system :: texts where
  "th_system = [
    (''title'', [0xe2a, 0xe16, 0xe32, 0xe19, 0xe30, 0xe41, 0xe25, 0xe30, 0xe15, 0xe31, 0xe49, 0xe07, 0xe04, 0xe48, 0xe32, 0xe23, 0xe30, 0xe1a, 0xe1a]),
    (''subtitle'', [0xe02, 0xe49, 0xe2d, 0xe21, 0xe39, 0xe25, 0xe2a, 0xe38, 0xe02, 0xe20, 0xe32, 0xe1e, 0xe23, 0xe30, 0xe1a, 0xe1a, 0x2c, 0x20, 0xe1a, 0xe31, 0xe0d, 0xe0a, 0xe35, 0xe1c, 0xe39, 0xe49, 0xe43, 0xe0a, 0xe49, 0x20, 0xe41, 0xe25, 0xe30, 0xe15, 0xe32, 0xe23, 0xe32, 0xe07, 0xe22, 0xe28]),
    (''healthTitle'', [0xe2a, 0xe16, 0xe32, 0xe19, 0xe30, 0xe01, 0xe32, 0xe23, 0xe17, 0xe33, 0xe07, 0xe32, 0xe19, 0xe02, 0xe2d, 0xe07, 0xe1a, 0xe23, 0xe34, 0xe01, 0xe32, 0xe23, 0xe22, 0xe48, 0xe2d, 0xe22]),
    (''apiService'', [0xe40, 0xe27, 0xe47, 0xe1a, 0xe40, 0xe0b, 0xe2d, 0xe23, 0xe4c, 0xe27, 0xe34, 0xe2a, 0x20, 0x28, 0x57, 0x65, 0x62, 0x20, 0x41, 0x50, 0x49, 0x29]),
    (''apiReachable'', [0xe40, 0xe0a, 0xe37, 0xe48, 0xe2d, 0xe21, 0xe15, 0xe48, 0xe2d, 0xe44, 0xe14, 0xe49]),
    (''databaseService'', [0xe10, 0xe32, 0xe19, 0xe02, 0xe49, 0xe2d, 0xe21, 0xe39, 0xe25]),
    (''mqttService'', [0xe23, 0xe30, 0xe1a, 0xe1a, 0xe41, 0xe08, 0xe49, 0xe07, 0xe40, 0xe15, 0xe37, 0xe2d, 0xe19, 0xe41, 0xe1a, 0xe1a, 0xe2a, 0xe14]),
    (''mqttHint'', [0xe2a, 0xe48, 0xe07, 0xe02, 0xe49, 0xe2d, 0xe21, 0xe39, 0xe25, 0xe2d, 0xe31, 0xe1b, 0xe40, 0xe14, 0xe15, 0xe41, 0xe1a, 0xe1a, 0xe2a, 0xe14, 0xe44, 0xe1b, 0xe22, 0xe31, 0xe07, 0xe40, 0xe1a, 0xe23, 0xe32, 0xe27, 0xe4c, 0xe40, 0xe0b, 0xe2d, 0xe23, 0xe4c]),
    (''collectorService'', [0xe23, 0xe30, 0xe1a, 0xe1a, 0xe40, 0xe0a, 0xe37, 0xe48, 0xe2d, 0xe21, 0xe15, 0xe48, 0xe2d, 0xe40, 0xe04, 0xe23, 0xe37, 0xe48, 0xe2d, 0xe07, 0xe2a, 0xe41, 0xe01, 0xe19, 0xe25, 0xe32, 0xe22, 0xe19, 0xe34, 0xe49, 0xe27, 0xe21, 0xe37, 0xe2d]),
    (''lastUpdatedLabel'', [0xe2d, 0xe31, 0xe1b, 0xe40, 0xe14, 0xe15, 0xe25, 0xe48, 0xe32, 0xe2a, 0xe38, 0xe14]),
    (''changePasswordTitle'', [0xe40, 0xe1b, 0xe25, 0xe35, 0xe48, 0xe22, 0xe19, 0xe23, 0xe2b, 0xe31, 0xe2a, 0xe1c, 0xe48, 0xe32, 0xe19, 0xe02, 0xe2d, 0xe07, 0xe04, 0xe38, 0xe13]),
    (''currentPassword'', [0xe23, 0xe2b, 0xe31, 0xe2a, 0xe1c, 0xe48, 0xe32, 0xe19, 0xe1b, 0xe31, 0xe08, 0xe08, 0xe38, 0xe1a, 0xe31, 0xe19]),
    (''newPassword'', [0xe23, 0xe2b, 0xe31, 0xe2a, 0xe1c, 0xe48, 0xe32, 0xe19, 0xe43, 0xe2b, 0xe21, 0xe48, 0x20, 0x28, 0xe2d, 0xe22, 0xe48, 0xe32, 0xe07, 0xe19, 0xe49, 0xe2d, 0xe22, 0x20, 0x31, 0x32, 0x20, 0xe15, 0xe31, 0xe27, 0xe2d, 0xe31, 0xe01, 0xe29, 0xe23, 0x29]),
    (''confirmPassword'', [0xe22, 0xe37, 0xe19, 0xe22, 0xe31, 0xe19, 0xe23, 0xe2b, 0xe31, 0xe2a, 0xe1c, 0xe48, 0xe32, 0xe19, 0xe43, 0xe2b, 0xe21, 0xe48]),
    (''changePasswordButton'', [0xe1a, 0xe31, 0xe19, 0xe17, 0xe36, 0xe01, 0xe23, 0xe2b, 0xe31, 0xe2a, 0xe1c, 0xe48, 0xe32, 0xe19, 0xe43, 0xe2b, 0xe21, 0xe48]),
    (''passwordChangedSuccess'', [0xe40, 0xe1b, 0xe25, 0xe35, 0xe48, 0xe22, 0xe19, 0xe23, 0xe2b, 0xe31, 0xe2a, 0xe1c, 0xe48, 0xe32, 0xe19, 0xe2a, 0xe33, 0xe40, 0xe23, 0xe47, 0xe08, 0xe40, 0xe23, 0xe35, 0xe22, 0xe1a, 0xe23, 0xe49, 0xe2d, 0xe22, 0xe41, 0xe25, 0xe49, 0xe27]),
    (''rankReferenceTitle'', [0xe15, 0xe32, 0xe23, 0xe32, 0xe07, 0xe2d, 0xe49, 0xe32, 0xe07, 0xe2d, 0xe34, 0xe07, 0xe22, 0xe28, 0xe17, 0xe2b, 0xe32, 0xe23, 0xe40, 0xe23, 0xe37, 0xe2d, 0x20, 0x28, 0x52, 0x54, 0x4e, 0x20, 0x52, 0x61, 0x6e, 0x6b, 0x73, 0x29]),
    (''operatorsTitle'', [0xe01, 0xe32, 0xe23, 0xe08, 0xe31, 0xe14, 0xe01, 0xe32, 0xe23, 0xe1a, 0xe31, 0xe0d, 0xe0a, 0xe35, 0xe1c, 0xe39, 0xe49, 0xe43, 0xe0a, 0xe49, 0xe07, 0xe32, 0xe19, 0xe23, 0xe30, 0xe1a, 0xe1a]),
    (''operatorsSubtitle'', [0xe2a, 0xe23, 0xe49, 0xe32, 0xe07, 0xe41, 0xe25, 0xe30, 0xe08, 0xe31, 0xe14, 0xe01, 0xe32, 0xe23, 0xe2a, 0xe34, 0xe17, 0xe18, 0xe34, 0xe4c, 0xe02, 0xe2d, 0xe07, 0xe1c, 0xe39, 0xe49, 0xe43, 0xe0a, 0xe49, 0xe07, 0xe32, 0xe19, 0x20, 0x41, 0x44, 0x4d, 0x53, 0x20, 0x43, 0x6f, 0x6e, 0x73, 0x6f, 0x6c, 0x65, 0x20, 0x28, 0xe40, 0xe09, 0xe1e, 0xe32, 0xe30, 0xe1c, 0xe39, 0xe49, 0xe14, 0xe39, 0xe41, 0xe25, 0xe23, 0xe30, 0xe1a, 0xe1a, 0x29]),
    (''createOperatorButton'', [0xe2a, 0xe23, 0xe49, 0xe32, 0xe07, 0xe1a, 0xe31, 0xe0d, 0xe0a, 0xe35, 0xe1c, 0xe39, 0xe49, 0xe43, 0xe0a, 0xe49, 0xe43, 0xe2b, 0xe21, 0xe48]),
    (''username'', [0xe0a, 0xe37, 0xe48, 0xe2d, 0xe1c, 0xe39, 0xe49, 0xe43, 0xe0a, 0xe49] @ js '' (Username)''),
    (''displayName'', [0xe0a, 0xe37, 0xe48, 0xe2d, 0xe17, 0xe35, 0xe48, 0xe41, 0xe2a, 0xe14, 0xe07] @ js '' (Display Name)''),
    (''role'', [0xe2a, 0xe34, 0xe17, 0xe18, 0xe34, 0xe4c, 0xe01, 0xe32, 0xe23, 0xe43, 0xe0a, 0xe49, 0xe07, 0xe32, 0xe19, 0x20, 0x28, 0x52, 0x6f, 0x6c, 0x65, 0x29]),
    (''initialPassword'', [0xe23, 0xe2b, 0xe31, 0xe2a, 0xe1c, 0xe48, 0xe32, 0xe19, 0xe40, 0xe23, 0xe34, 0xe48, 0xe21, 0xe15, 0xe49, 0xe19]),
    (''createAccount'', [0xe2a, 0xe23, 0xe49, 0xe32, 0xe07, 0xe1a, 0xe31, 0xe0d, 0xe0a, 0xe35, 0xe1c, 0xe39, 0xe49, 0xe43, 0xe0a, 0xe49]),
    (''toggleActive'', [0xe40, 0xe1b, 0xe25, 0xe35, 0xe48, 0xe22, 0xe19, 0xe2a, 0xe16, 0xe32, 0xe19, 0xe30]),
    (''deactivate'', [0xe1b, 0xe34, 0xe14, 0xe43, 0xe0a, 0xe49, 0xe07, 0xe32, 0xe19]),
    (''activate'', [0xe40, 0xe1b, 0xe34, 0xe14, 0xe43, 0xe0a, 0xe49, 0xe07, 0xe32, 0xe19]),
    (''passwordFormSubtitle'', [0xe01, 0xe32, 0xe23, 0xe40, 0xe1b, 0xe25, 0xe35, 0xe48, 0xe22, 0xe19, 0xe23, 0xe2b, 0xe31, 0xe2a, 0xe1c, 0xe48, 0xe32, 0xe19, 0xe08, 0xe30, 0xe2d, 0xe2d, 0xe01, 0xe08, 0xe32, 0xe01, 0xe23, 0xe30, 0xe1a, 0xe1a, 0xe43, 0xe19, 0xe2d, 0xe38, 0xe1b, 0xe01, 0xe23, 0xe13, 0xe4c, 0xe2d, 0xe37, 0xe48, 0xe19, 0xe17, 0xe31, 0xe49, 0xe07, 0xe2b, 0xe21, 0xe14, 0x20, 0x28, 0xe40, 0xe0b, 0xe2a, 0xe0a, 0xe31, 0xe19, 0xe19, 0xe35, 0xe49, 0xe22, 0xe31, 0xe07, 0xe04, 0xe07, 0xe43, 0xe0a, 0xe49, 0xe07, 0xe32, 0xe19, 0xe44, 0xe14, 0xe49, 0xe15, 0xe32, 0xe21, 0xe1b, 0xe01, 0xe15, 0xe34, 0x29]),
    (''passwordValidationError'', [0xe01, 0xe23, 0xe38, 0xe13, 0xe32, 0xe01, 0xe23, 0xe2d, 0xe01, 0xe23, 0xe2b, 0xe31, 0xe2a, 0xe1c, 0xe48, 0xe32, 0xe19, 0xe1b, 0xe31, 0xe08, 0xe08, 0xe38, 0xe1a, 0xe31, 0xe19, 0x20, 0xe41, 0xe25, 0xe30, 0xe23, 0xe2b, 0xe31, 0xe2a, 0xe1c, 0xe48, 0xe32, 0xe19, 0xe43, 0xe2b, 0xe21, 0xe48, 0xe2d, 0xe22, 0xe48, 0xe32, 0xe07, 0xe19, 0xe49, 0xe2d, 0xe22, 0x20, 0x31, 0x32, 0x20, 0xe15, 0xe31, 0xe27, 0xe2d, 0xe31, 0xe01, 0xe29, 0xe23]),
    (''operatorValidationError'', [0xe01, 0xe23, 0xe38, 0xe13, 0xe32, 0xe01, 0xe23, 0xe2d, 0xe01, 0xe0a, 0xe37, 0xe48, 0xe2d, 0xe1c, 0xe39, 0xe49, 0xe43, 0xe0a, 0xe49, 0x20, 0xe0a, 0xe37, 0xe48, 0xe2d, 0xe17, 0xe35, 0xe48, 0xe41, 0xe2a, 0xe14, 0xe07, 0x20, 0xe41, 0xe25, 0xe30, 0xe23, 0xe2b, 0xe31, 0xe2a, 0xe1c, 0xe48, 0xe32, 0xe19, 0x20, 0x28, 0xe2d, 0xe22, 0xe48, 0xe32, 0xe07, 0xe19, 0xe49, 0xe2d, 0xe22, 0x20, 0x31, 0x32, 0x20, 0xe15, 0xe31, 0xe27, 0xe2d, 0xe31, 0xe01, 0xe29, 0xe23, 0x29, 0x20, 0xe43, 0xe2b, 0xe49, 0xe04, 0xe23, 0xe1a]),
    (''operatorCreateSuccessPrefix'', [0xe2a, 0xe23, 0xe49, 0xe32, 0xe07, 0xe1a, 0xe31, 0xe0d, 0xe0a, 0xe35]),
    (''operatorCreateSuccessSuffix'', [0xe40, 0xe23, 0xe35, 0xe22, 0xe1a, 0xe23, 0xe49, 0xe2d, 0xe22, 0xe41, 0xe25, 0xe49, 0xe27]),
    (''createdColumn'', [0xe2a, 0xe23, 0xe49, 0xe32, 0xe07, 0xe40, 0xe21, 0xe37, 0xe48, 0xe2d]),
    (''adminOnlyBadge'', [0xe40, 0xe09, 0xe1e, 0xe32, 0xe30, 0xe1c, 0xe39, 0xe49, 0xe14, 0xe39, 0xe41, 0xe25, 0xe23, 0xe30, 0xe1a, 0xe1a]),
    (''currentSessionLabel'', [0x28, 0xe40, 0xe0b, 0xe2a, 0xe0a, 0xe31, 0xe19, 0xe19, 0xe35, 0xe49, 0x29]),
    (''rankTableHint'', [0xe02, 0xe49, 0xe2d, 0xe21, 0xe39, 0xe25, 0xe2d, 0xe49, 0xe32, 0xe07, 0xe2d, 0xe34, 0xe07, 0xe01, 0xe25, 0xe32, 0xe07, 0xe02, 0xe2d, 0xe07, 0xe23, 0xe30, 0xe1a, 0xe1a]),
    (''rankThFullColumn'', [0xe22, 0xe28, 0xe40, 0xe15, 0xe47, 0xe21, 0x20, 0x28, 0xe44, 0xe17, 0xe22, 0x29]),
    (''rankThAbbrColumn'', [0xe04, 0xe33, 0xe22, 0xe48, 0xe2d, 0x20, 0x28, 0xe44, 0xe17, 0xe22, 0x29]),
    (''rankEnColumn'', [0xe22, 0xe28, 0x20, 0x28, 0xe2d, 0xe31, 0xe07, 0xe01, 0xe24, 0xe29, 0x29]),
    (''rankEnAbbrColumn'', [0xe04, 0xe33, 0xe22, 0xe48, 0xe2d, 0x20, 0x28, 0xe2d, 0xe31, 0xe07, 0xe01, 0xe24, 0xe29, 0x29]),
    (''rankCategoryColumn'', [0xe2b, 0xe21, 0xe27, 0xe14, 0xe22, 0xe28]),
    (''schedulerTitle'', [0xe0a, 0xe48, 0xe27, 0xe07, 0xe40, 0xe27, 0xe25, 0xe32, 0xe17, 0xe33, 0xe07, 0xe32, 0xe19, 0xe2d, 0xe31, 0xe15, 0xe42, 0xe19, 0xe21, 0xe31, 0xe15, 0xe34]),
    (''schedulerLastRun'', [0xe23, 0xe31, 0xe19, 0xe25, 0xe48, 0xe32, 0xe2a, 0xe38, 0xe14]),
    (''schedulerNeverRun'', [0xe22, 0xe31, 0xe07, 0xe44, 0xe21, 0xe48, 0xe40, 0xe04, 0xe22, 0xe23, 0xe31, 0xe19]),
    (''schedulerStaleWarning'', [0xe15, 0xe31, 0xe27, 0xe15, 0xe31, 0xe49, 0xe07, 0xe40, 0xe27, 0xe25, 0xe32, 0xe44, 0xe21, 0xe48, 0xe44, 0xe14, 0xe49, 0xe15, 0xe34, 0xe14, 0xe15, 0xe48, 0xe2d, 0x20, 0x41, 0x50, 0x49, 0x20, 0xe21, 0xe32, 0xe40, 0xe01, 0xe34, 0xe19, 0x20, 0x33, 0x20, 0xe27, 0xe31, 0xe19, 0x20, 0x2014, 0x20, 0xe15, 0xe23, 0xe27, 0xe08, 0xe2a, 0xe2d, 0xe1a, 0x20, 0x73, 0x65, 0x72, 0x76, 0x69, 0x63, 0x65, 0x20, 0x61, 0x64, 0x6d, 0x73, 0x2d, 0x61, 0x75, 0x74, 0x6f, 0x2d, 0x73, 0x65, 0x73, 0x73, 0x69, 0x6f, 0x6e, 0x20, 0xe1a, 0xe19, 0xe40, 0xe04, 0xe23, 0xe37, 0xe48, 0xe2d, 0xe07, 0xe40, 0xe0b, 0xe34, 0xe23, 0xe4c, 0xe1f, 0xe40, 0xe27, 0xe2d, 0xe23, 0xe4c]),
    (''schedulerSubtitle'', [0xe40, 0xe1b, 0xe34, 0xe14, 0xe0a, 0xe48, 0xe27, 0xe07, 0xe40, 0xe27, 0xe25, 0xe32, 0xe17, 0xe33, 0xe07, 0xe32, 0xe19, 0xe2d, 0xe31, 0xe15, 0xe42, 0xe19, 0xe21, 0xe31, 0xe15, 0xe34, 0x20, 0xe08, 0xe31, 0xe19, 0xe17, 0xe23, 0xe4c, 0x2013, 0xe28, 0xe38, 0xe01, 0xe23, 0xe4c, 0x20, 0x30, 0x39, 0x3a, 0x30, 0x30, 0x2013, 0x31, 0x38, 0x3a, 0x30, 0x30, 0x20, 0x41, 0x73, 0x69, 0x61, 0x2f, 0x42, 0x61, 0x6e, 0x67, 0x6b, 0x6f, 0x6b, 0x20, 0x28, 0xe40, 0xe09, 0xe1e, 0xe32, 0xe30, 0xe1c, 0xe39, 0xe49, 0xe14, 0xe39, 0xe41, 0xe25, 0xe23, 0xe30, 0xe1a, 0xe1a, 0x29]),
    (''schedulerToggleLabel'', [0xe0a, 0xe48, 0xe27, 0xe07, 0xe40, 0xe27, 0xe25, 0xe32, 0xe17, 0xe33, 0xe07, 0xe32, 0xe19, 0xe2d, 0xe31, 0xe15, 0xe42, 0xe19, 0xe21, 0xe31, 0xe15, 0xe34, 0x20, 0x28, 0xe08, 0xe31, 0xe19, 0xe17, 0xe23, 0xe4c, 0x2013, 0xe28, 0xe38, 0xe01, 0xe23, 0xe4c, 0x20, 0x30, 0x39, 0x3a, 0x30, 0x30, 0x2013, 0x31, 0x38, 0x3a, 0x30, 0x30, 0x29]),
    (''schedulerToggleHint'', [0xe40, 0xe21, 0xe37, 0xe48, 0xe2d, 0xe40, 0xe1b, 0xe34, 0xe14, 0xe43, 0xe0a, 0xe49, 0xe07, 0xe32, 0xe19, 0x20, 0xe23, 0xe30, 0xe1a, 0xe1a, 0xe08, 0xe30, 0xe40, 0xe1b, 0xe34, 0xe14, 0xe0a, 0xe48, 0xe27, 0xe07, 0xe40, 0xe27, 0xe25, 0xe32, 0xe17, 0xe33, 0xe07, 0xe32, 0xe19, 0xe2d, 0xe31, 0xe15, 0xe42, 0xe19, 0xe21, 0xe31, 0xe15, 0xe34, 0xe40, 0xe27, 0xe25, 0xe32, 0x20, 0x30, 0x39, 0x3a, 0x30, 0x30, 0x20, 0xe41, 0xe25, 0xe30, 0xe1b, 0xe34, 0xe14, 0x20, 0x31, 0x38, 0x3a, 0x30, 0x30, 0x20, 0xe43, 0xe19, 0xe27, 0xe31, 0xe19, 0xe17, 0xe33, 0xe01, 0xe32, 0xe23, 0x20, 0xe19, 0xe2d, 0xe01, 0xe0a, 0xe48, 0xe27, 0xe07, 0xe40, 0xe27, 0xe25, 0xe32, 0xe19, 0xe35, 0xe49, 0xe23, 0xe30, 0xe1a, 0xe1a, 0xe08, 0xe30, 0xe25, 0xe47, 0xe2d, 0xe01, 0xe01, 0xe32, 0xe23, 0xe41, 0xe01, 0xe49, 0xe44, 0xe02, 0xe08, 0xe19, 0xe01, 0xe27, 0xe48, 0xe32, 0xe08, 0xe30, 0xe40, 0xe1b, 0xe34, 0xe14, 0xe14, 0xe49, 0xe27, 0xe22, 0xe15, 0xe19, 0xe40, 0xe2d, 0xe07]),
    (''schedulerEnabledBadge'', [0xe15, 0xe31, 0xe49, 0xe07, 0xe40, 0xe27, 0xe25, 0xe32, 0xe2d, 0xe31, 0xe15, 0xe42, 0xe19, 0xe21, 0xe31, 0xe15, 0xe34, 0x3a, 0x20, 0xe40, 0xe1b, 0xe34, 0xe14]),
    (''schedulerDisabledBadge'', [0xe15, 0xe31, 0xe49, 0xe07, 0xe40, 0xe27, 0xe25, 0xe32, 0xe2d, 0xe31, 0xe15, 0xe42, 0xe19, 0xe21, 0xe31, 0xe15, 0xe34, 0x3a, 0x20, 0xe1b, 0xe34, 0xe14]),
    (''schedulerActiveWindowBadge'', [0xe0a, 0xe48, 0xe27, 0xe07, 0xe40, 0xe27, 0xe25, 0xe32, 0xe2d, 0xe31, 0xe15, 0xe42, 0xe19, 0xe21, 0xe31, 0xe15, 0xe34, 0xe01, 0xe33, 0xe25, 0xe31, 0xe07, 0xe17, 0xe33, 0xe07, 0xe32, 0xe19]),
    (''schedulerManualBadge'', [0xe42, 0xe2b, 0xe21, 0xe14, 0xe01, 0xe33, 0xe2b, 0xe19, 0xe14, 0xe40, 0xe2d, 0xe07]),
    (''schedulerLockedBadge'', [0xe25, 0xe47, 0xe2d, 0xe01, 0xe01, 0xe32, 0xe23, 0xe41, 0xe01, 0xe49, 0xe44, 0xe02]),
    (''schedulerAdminOnlyHint'', [0xe40, 0xe09, 0xe1e, 0xe32, 0xe30, 0xe1c, 0xe39, 0xe49, 0xe14, 0xe39, 0xe41, 0xe25, 0xe23, 0xe30, 0xe1a, 0xe1a, 0x20, 0x28, 0x41, 0x44, 0x4d, 0x49, 0x4e, 0x29, 0x20, 0xe40, 0xe17, 0xe48, 0xe32, 0xe19, 0xe31, 0xe49, 0xe19, 0xe17, 0xe35, 0xe48, 0xe40, 0xe1b, 0xe34, 0xe14, 0x2f, 0xe1b, 0xe34, 0xe14, 0xe01, 0xe32, 0xe23, 0xe15, 0xe31, 0xe49, 0xe07, 0xe40, 0xe27, 0xe25, 0xe32, 0xe2d, 0xe31, 0xe15, 0xe42, 0xe19, 0xe21, 0xe31, 0xe15, 0xe34, 0xe44, 0xe14, 0xe49]),
    (''schedulerLoadError'', [0xe42, 0xe2b, 0xe25, 0xe14, 0xe01, 0xe32, 0xe23, 0xe15, 0xe31, 0xe49, 0xe07, 0xe40, 0xe27, 0xe25, 0xe32, 0xe44, 0xe21, 0xe48, 0xe2a, 0xe33, 0xe40, 0xe23, 0xe47, 0xe08]),
    (''schedulerUpdateSuccess'', [0xe2d, 0xe31, 0xe1b, 0xe40, 0xe14, 0xe15, 0xe01, 0xe32, 0xe23, 0xe15, 0xe31, 0xe49, 0xe07, 0xe40, 0xe27, 0xe25, 0xe32, 0xe2a, 0xe33, 0xe40, 0xe23, 0xe47, 0xe08]),
    (''schedulerUpdateFailed'', [0xe44, 0xe21, 0xe48, 0xe2a, 0xe32, 0xe21, 0xe32, 0xe23, 0xe16, 0xe2d, 0xe31, 0xe1b, 0xe40, 0xe14, 0xe15, 0xe01, 0xe32, 0xe23, 0xe15, 0xe31, 0xe49, 0xe07, 0xe40, 0xe27, 0xe25, 0xe32, 0xe44, 0xe14, 0xe49]),
    (''schedulerToggleOn'', [0xe40, 0xe1b, 0xe34, 0xe14, 0xe15, 0xe31, 0xe49, 0xe07, 0xe40, 0xe27, 0xe25, 0xe32, 0xe2d, 0xe31, 0xe15, 0xe42, 0xe19, 0xe21, 0xe31, 0xe15, 0xe34]),
    (''schedulerToggleOff'', [0xe1b, 0xe34, 0xe14, 0xe15, 0xe31, 0xe49, 0xe07, 0xe40, 0xe27, 0xe25, 0xe32, 0xe2d, 0xe31, 0xe15, 0xe42, 0xe19, 0xe21, 0xe31, 0xe15, 0xe34])]"

definition th_stream :: texts where
  "th_stream = [
    (''connected'', [0xe40, 0xe0a, 0xe37, 0xe48, 0xe2d, 0xe21, 0xe15, 0xe48, 0xe2d, 0xe02, 0xe49, 0xe2d, 0xe21, 0xe39, 0xe25, 0xe2a, 0xe14, 0xe41, 0xe25, 0xe49, 0xe27]),
    (''connecting'', [0xe01, 0xe33, 0xe25, 0xe31, 0xe07, 0xe40, 0xe0a, 0xe37, 0xe48, 0xe2d, 0xe21, 0xe15, 0xe48, 0xe2d, 0x2e, 0x2e, 0x2e]),
    (''disconnected'', [0xe01, 0xe32, 0xe23, 0xe40, 0xe0a, 0xe37, 0xe48, 0xe2d, 0xe21, 0xe15, 0xe48, 0xe2d, 0xe02, 0xe49, 0xe2d, 0xe21, 0xe39, 0xe25, 0xe2a, 0xe14, 0xe02, 0xe32, 0xe14, 0xe2b, 0xe32, 0xe22, 0x20, 0x2014, 0x20, 0xe2a, 0xe32, 0xe21, 0xe32, 0xe23, 0xe16, 0xe25, 0xe2d, 0xe07, 0xe43, 0xe2b, 0xe21, 0xe48, 0xe44, 0xe14, 0xe49]),
    (''retry'', [0xe40, 0xe0a, 0xe37, 0xe48, 0xe2d, 0xe21, 0xe15, 0xe48, 0xe2d, 0xe43, 0xe2b, 0xe21, 0xe48])]"

definition th_writeSession :: texts where
  "th_writeSession = [
    (''title'', [0xe0a, 0xe48, 0xe27, 0xe07, 0xe40, 0xe27, 0xe25, 0xe32, 0xe41, 0xe01, 0xe49, 0xe44, 0xe02, 0xe02, 0xe49, 0xe2d, 0xe21, 0xe39, 0xe25]),
    (''lockedTitle'', [0xe23, 0xe30, 0xe1a, 0xe1a, 0xe22, 0xe31, 0xe07, 0xe44, 0xe21, 0xe48, 0xe40, 0xe1b, 0xe34, 0xe14, 0xe43, 0xe2b, 0xe49, 0xe1a, 0xe31, 0xe19, 0xe17, 0xe36, 0xe01, 0xe02, 0xe49, 0xe2d, 0xe21, 0xe39, 0xe25]),
    (''lockedBody'', [0xe2b, 0xe32, 0xe01, 0xe15, 0xe49, 0xe2d, 0xe07, 0xe01, 0xe32, 0xe23, 0xe25, 0xe07, 0xe17, 0xe30, 0xe40, 0xe1a, 0xe35, 0xe22, 0xe19, 0xe01, 0xe33, 0xe25, 0xe31, 0xe07, 0xe1e, 0xe25, 0xe2b, 0xe23, 0xe37, 0xe2d, 0xe41, 0xe01, 0xe49, 0xe44, 0xe02, 0xe01, 0xe32, 0xe23, 0xe08, 0xe31, 0xe1a, 0xe04, 0xe39, 0xe48, 0x20, 0xe01, 0xe23, 0xe38, 0xe13, 0xe32, 0xe40, 0xe1b, 0xe34, 0xe14, 0xe0a, 0xe48, 0xe27, 0xe07, 0xe40, 0xe27, 0xe25, 0xe32, 0xe17, 0xe33, 0xe07, 0xe32, 0xe19, 0xe01, 0xe48, 0xe2d, 0xe19]),
    (''activeTitle'', [0xe40, 0xe1b, 0xe34, 0xe14, 0xe43, 0xe2b, 0xe49, 0xe41, 0xe01, 0xe49, 0xe44, 0xe02, 0xe02, 0xe49, 0xe2d, 0xe21, 0xe39, 0xe25, 0xe2d, 0xe22, 0xe39, 0xe48]),
    (''openedByLabel'', [0xe40, 0xe1b, 0xe34, 0xe14, 0xe42, 0xe14, 0xe22]),
    (''remainingLabel'', [0xe40, 0xe27, 0xe25, 0xe32, 0xe17, 0xe35, 0xe48, 0xe40, 0xe2b, 0xe25, 0xe37, 0xe2d]),
    (''reasonLabel'', [0xe40, 0xe2b, 0xe15, 0xe38, 0xe1c, 0xe25]),
    (''reasonPlaceholder'', [0xe40, 0xe0a, 0xe48, 0xe19, 0x20, 0xe25, 0xe07, 0xe17, 0xe30, 0xe40, 0xe1a, 0xe35, 0xe22, 0xe19, 0xe01, 0xe33, 0xe25, 0xe31, 0xe07, 0xe1e, 0xe25, 0x20, 0x2014, 0x20, 0xe2d, 0xe32, 0xe04, 0xe32, 0xe23, 0x20, 0x33]),
    (''openButton'', [0xe40, 0xe1b, 0xe34, 0xe14, 0xe0a, 0xe48, 0xe27, 0xe07, 0xe40, 0xe27, 0xe25, 0xe32, 0xe17, 0xe33, 0xe07, 0xe32, 0xe19]),
    (''closeButton'', [0xe1b, 0xe34, 0xe14, 0xe0a, 0xe48, 0xe27, 0xe07, 0xe40, 0xe27, 0xe25, 0xe32, 0xe17, 0xe33, 0xe07, 0xe32, 0xe19, 0xe15, 0xe2d, 0xe19, 0xe19, 0xe35, 0xe49]),
    (''opening'', [0xe01, 0xe33, 0xe25, 0xe31, 0xe07, 0xe40, 0xe1b, 0xe34, 0xe14, 0x2e, 0x2e, 0x2e]),
    (''closing'', [0xe01, 0xe33, 0xe25, 0xe31, 0xe07, 0xe1b, 0xe34, 0xe14, 0x2e, 0x2e, 0x2e]),
    (''openFailed'', [0xe44, 0xe21, 0xe48, 0xe2a, 0xe32, 0xe21, 0xe32, 0xe23, 0xe16, 0xe40, 0xe1b, 0xe34, 0xe14, 0xe0a, 0xe48, 0xe27, 0xe07, 0xe40, 0xe27, 0xe25, 0xe32, 0xe17, 0xe33, 0xe07, 0xe32, 0xe19, 0xe44, 0xe14, 0xe49]),
    (''alreadyActive'', [0xe21, 0xe35, 0xe0a, 0xe48, 0xe27, 0xe07, 0xe40, 0xe27, 0xe25, 0xe32, 0xe17, 0xe33, 0xe07, 0xe32, 0xe19, 0xe40, 0xe1b, 0xe34, 0xe14, 0xe2d, 0xe22, 0xe39, 0xe48, 0xe41, 0xe25, 0xe49, 0xe27]),
    (''adminOnlyHint'', [0xe40, 0xe09, 0xe1e, 0xe32, 0xe30, 0xe40, 0xe08, 0xe49, 0xe32, 0xe2b, 0xe19, 0xe49, 0xe32, 0xe17, 0xe35, 0xe48, 0xe1b, 0xe0f, 0xe34, 0xe1a, 0xe31, 0xe15, 0xe34, 0xe07, 0xe32, 0xe19, 0xe2b, 0xe23, 0xe37, 0xe2d, 0xe1c, 0xe39, 0xe49, 0xe14, 0xe39, 0xe41, 0xe25, 0xe23, 0xe30, 0xe1a, 0xe1a, 0xe40, 0xe17, 0xe48, 0xe32, 0xe19, 0xe31, 0xe49, 0xe19, 0xe17, 0xe35, 0xe48, 0xe40, 0xe1b, 0xe34, 0xe14, 0xe2b, 0xe23, 0xe37, 0xe2d, 0xe1b, 0xe34, 0xe14, 0xe0a, 0xe48, 0xe27, 0xe07, 0xe1b, 0xe0f, 0xe34, 0xe1a, 0xe31, 0xe15, 0xe34, 0xe07, 0xe32, 0xe19, 0xe44, 0xe14, 0xe49]),
    (''badgeLocked'', [0xd83d, 0xdd12, 0x20, 0xe22, 0xe31, 0xe07, 0xe44, 0xe21, 0xe48, 0xe40, 0xe1b, 0xe34, 0xe14, 0xe43, 0xe2b, 0xe49, 0xe41, 0xe01, 0xe49, 0xe44, 0xe02]),
    (''badgeActive'', [0xd83d, 0xdfe2, 0x20, 0xe40, 0xe1b, 0xe34, 0xe14, 0xe43, 0xe2b, 0xe49, 0xe41, 0xe01, 0xe49, 0xe44, 0xe02, 0xe2d, 0xe22, 0xe39, 0xe48])]"

text \<open>The whole file.\<close>

definition translations_th :: "(string \<times> texts) list" where
  "translations_th = [
    (''common'', th_common),
    (''nav'', th_nav),
    (''status'', th_status),
    (''roles'', th_roles),
    (''login'', th_login),
    (''dashboard'', th_dashboard),
    (''leave'', th_leave),
    (''workflow'', th_workflow),
    (''personnel'', th_personnel),
    (''enrollment'', th_enrollment),
    (''attendance'', th_attendance),
    (''devices'', th_devices),
    (''mappings'', th_mappings),
    (''terminalManagement'', th_terminalManagement),
    (''audit'', th_audit),
    (''system'', th_system),
    (''stream'', th_stream),
    (''writeSession'', th_writeSession)]"

end
