(* ===== verification/Dictionary_Keys.thy ===== *)
theory Dictionary_Keys
  imports Dictionary_Th
begin

text \<open>
  The type of a dictionary, \<open>Translations\<close> of \<open>frontend/src/i18n/types.ts\<close>: the keys of each section, every one
  a text.
\<close>

definition keys_common :: "string list" where
  "keys_common = [
    ''systemTitle'', ''systemSubtitle'', ''loading'', ''save'', ''saving'', ''cancel'', ''close'',
    ''edit'', ''delete'', ''active'', ''inactive'', ''refresh'', ''search'', ''searchPlaceholder'',
    ''clear'', ''all'', ''none'', ''status'', ''actions'', ''details'', ''error'', ''success'',
    ''warning'', ''back'', ''next'', ''confirm'', ''unauthorized'', ''forbidden'', ''page'', ''of'',
    ''items'', ''showing'', ''to'', ''results'', ''productionEnvironmentLabel'',
    ''apiErrors.validationError'', ''apiErrors.notFound'', ''apiErrors.rateLimited'',
    ''apiErrors.internalError'', ''apiErrors.genericErrorPrefix'']"

definition keys_nav :: "string list" where
  "keys_nav = [
    ''operations'', ''dashboard'', ''attendance'', ''enrollment'', ''identityPeople'', ''personnel'',
    ''mappings'', ''infrastructure'', ''devices'', ''system'', ''administration'', ''audit'',
    ''operators'', ''myAccount'', ''changePassword'', ''signOut'']"

definition keys_status :: "string list" where
  "keys_status = [
    ''writesLocked'', ''writesActive'', ''collectorLive'', ''collectorOffline'',
    ''collectorConnecting'', ''deviceConnected'', ''deviceDisconnected'', ''dbHealthy'',
    ''dbDegraded'', ''mqttHealthy'', ''mqttUnreachable'', ''liveStreamActive'']"

definition keys_roles :: "string list" where
  "keys_roles = [
    ''viewer'', ''enrollmentOperator'', ''operator'', ''admin'', ''viewerDesc'',
    ''enrollmentOperatorDesc'', ''operatorDesc'', ''adminDesc'', ''loadingAccount'',
    ''sessionErrorTitle'', ''sessionErrorBody'', ''reloginButton'']"

definition keys_login :: "string list" where
  "keys_login = [
    ''title'', ''subtitle'', ''environment'', ''usernameLabel'', ''usernamePlaceholder'',
    ''passwordLabel'', ''passwordPlaceholder'', ''signInButton'', ''signingIn'', ''failed'']"

definition keys_dashboard :: "string list" where
  "keys_dashboard = [
    ''title'', ''subtitle'', ''systemOperational'', ''systemDegraded'', ''kpiPersonnelTotal'',
    ''kpiPersonnelEligible'', ''kpiPersonnelExcluded'', ''kpiAttendanceToday'', ''kpiAttendanceTotal'',
    ''kpiUnattributed'', ''kpiDevicesActive'', ''kpiDevicesTotal'', ''kpiMappingsActive'',
    ''kpiMappingsTotal'', ''kpiUnmappedUsers'', ''enrollmentStatusTitle'',
    ''enrollmentActiveCountLabel'', ''enrollmentActiveCountHint'', ''lifecycleInProgress'',
    ''lifecycleCompleted'', ''lifecycleRemoved'', ''lifecycleCancelled'', ''mappingsHistoricalHint'']"

definition keys_leave :: "string list" where
  "keys_leave = [
    ''trialBodyDate'', ''trackDateLabel'', ''trackDateButton'', ''trackDateActive'', ''trialTitle'',
    ''trialBody'', ''trialAbsent'', ''readinessAway'', ''trackTitle'', ''trackAuto'', ''trackOn'',
    ''trackOff'', ''trackLive'', ''trackTrial'', ''st_NOT_ENROLLED'', ''readinessTitle'',
    ''readinessHint'', ''readinessRequired'', ''readinessEnrolled'', ''readinessMissing'', ''tgTitle'',
    ''tgHint'', ''tgPreview'', ''tgSend'', ''tgSent'', ''tgNotConfigured'', ''tgFailed'',
    ''tgNonWorkday'', ''navMonthly'', ''monthlyTitle'', ''monthlySubtitle'', ''exportExcel'',
    ''legend'', ''deviceLive'', ''deviceOffline'', ''deviceUnknown'', ''deviceLastSeen'', ''navLeave'',
    ''navDaily'', ''title'', ''subtitle'', ''formTitle'', ''person'', ''type'', ''startDate'',
    ''endDate'', ''orderRef'', ''orderRefRequired'', ''destination'', ''note'', ''saveButton'',
    ''saved'', ''selectPersonRequired'', ''overlap'', ''days'', ''listTitle'', ''filterCurrent'',
    ''filterAll'', ''showCancelled'', ''cancelButton'', ''cancelTitle'', ''cancelReason'',
    ''cancelReasonPlaceholder'', ''cancelled'', ''noRecords'', ''recordedBy'', ''historyTitle'',
    ''addForPerson'', ''holidaysTitle'', ''holidayName'', ''holidayAdd'', ''holidayHint'',
    ''dailyTitle'', ''dailySubtitle'', ''holidayBadge'', ''totalLabel'', ''byBranch'', ''branch'',
    ''firstScan'', ''st_PRESENT'', ''st_LATE'', ''st_LEAVE'', ''st_DUTY'', ''st_EXEMPT'',
    ''st_NOT_YET'', ''st_ABSENT'', ''st_OFF'', ''today'', ''allStatuses'']"

definition keys_workflow :: "string list" where
  "keys_workflow = [
    ''scanWindowExpired'', ''scanWindowReopen'', ''namesSyncedResult'', ''namesMismatchTitle'',
    ''namesSyncAllButton'', ''terminalNameAuto'', ''saveEnglishName'', ''saveEnglishNameHint'',
    ''terminalNameTitle'', ''terminalNameOnDevice'', ''terminalNameExpected'',
    ''terminalNameMismatch'', ''terminalNameSyncButton'', ''terminalNameSynced'',
    ''terminalNameNeedsEnglish'', ''openPolicyTitle'', ''openPolicyBody'', ''outsideWindow'',
    ''offboardDeferred'', ''fingerprintWindowNeeded'', ''pwCurrentWrong'', ''pwSame'', ''pwTooShort'',
    ''pwCurrentMissing'', ''pwTooLong'', ''pwSessionExpired'', ''reasonFinance'',
    ''reasonCommandOffice'', ''reasonOther'', ''quickRequired'', ''quickExemptPrefix'',
    ''selectedCount'', ''bulkExempt'', ''bulkRequire'', ''bulkDone'', ''clearSelection'',
    ''allBranches'', ''selectPage'', ''positionCol'', ''wizStep1'', ''wizStep2'', ''wizStep3'',
    ''wizStep4'', ''wizStepOf'', ''autoScanHint'', ''verifyInlineTitle'', ''verifyNoteLabel'',
    ''verifyNotePlaceholder'', ''verifyButton'', ''waitingAdminVerify'', ''verifiedDone'',
    ''navAttendanceGroup'', ''navPersonnelGroup'', ''navFingerprintGroup'', ''navAdminGroup'',
    ''writeClosedBanner'', ''writeClosedHint'', ''writeOpenBanner'', ''hubTitle'', ''importTitle'',
    ''importDesc'', ''joinTitle'', ''joinDesc'', ''leaveTitle'', ''leaveDesc'', ''exemptTitle'',
    ''exemptDesc'', ''countActive'', ''countNeedsEnroll'', ''countExempt'', ''countLeftWithAccount'',
    ''filterScanAll'', ''scanEnrolled'', ''scanNeeds'', ''scanExempt'', ''scanLeftWithAccount'',
    ''colScan'', ''enrollButton'', ''scanPolicyTitle'', ''scanRequired'', ''scanExemptLabel'',
    ''exemptReasonLabel'', ''exemptReasonPlaceholder'', ''exemptReasonRequired'', ''setExemptButton'',
    ''clearExemptButton'', ''savedOk'', ''offboardButton'', ''offboardTitle'', ''offboardBody'',
    ''offboardAccounts'', ''offboardNoAccounts'', ''offboardReasonPlaceholder'', ''offboardDone'',
    ''offboardPartial'', ''retryRemoveButton'', ''rejoinHint'', ''needsWriteWindow'']"

definition keys_personnel :: "string list" where
  "keys_personnel = [
    ''title'', ''subtitle'', ''thaiName'', ''englishName'', ''notSet'', ''personnelId'', ''rank'',
    ''rankSourceManagedHint'', ''noTerminalAccountTitle'', ''noTerminalAccountBody'',
    ''startNewEnrollmentButton'', ''position'', ''branch'', ''category'', ''scope'',
    ''productionScope'', ''excludedScope'', ''allScopes'', ''editEnglishName'',
    ''englishNamePlaceholder'', ''saveEnglishName'', ''cancelEdit'', ''updateSuccess'',
    ''updateFailed'', ''writesDisabledNotice'', ''adminOnlyNotice'', ''statusLabel'', ''statusActive'',
    ''statusInactive'', ''deactivateButton'', ''reactivateButton'', ''deactivateConfirmTitle'',
    ''deactivateConfirmBody'', ''deactivateReasonLabel'', ''deactivateReasonPlaceholder'',
    ''deactivateReasonRequired'', ''deactivateSuccess'', ''reactivateSuccess'',
    ''terminalCleanupPendingNotice'', ''filterAll'', ''filterActiveOnly'', ''filterInactiveOnly'',
    ''addPersonnelButton'', ''addPersonnelTitle'', ''editPersonnelButton'', ''editPersonnelTitle'',
    ''thaiFullNameLabel'', ''personnelIdLabel'', ''displayNameRequired'', ''duplicatePersonnelIdBody'',
    ''createSuccessTitle'', ''goToEnrollmentButton'', ''englishNameRequiredForTerminalHint'',
    ''selectRankPlaceholder'', ''exportCsvButton'', ''importCsvButton'', ''importCsvTitle'',
    ''downloadTemplateButton'', ''confirmImportButton'', ''csvMalformedBody'', ''csvNewLabel'',
    ''csvUpdateLabel'', ''csvUnchangedLabel'', ''csvErrorLabel'', ''importCommittedMessage'']"

definition keys_enrollment :: "string list" where
  "keys_enrollment = [
    ''title'', ''subtitle'', ''startNew'', ''activeQueue'', ''noActiveSessions'', ''step1Title'',
    ''step1Desc'', ''step1Button'', ''step2Title'', ''step2Desc'', ''step2Button'', ''step3Title'',
    ''step3Desc'', ''step3Button'', ''step4Title'', ''step4Desc'', ''step4Button'', ''step5Title'',
    ''step5Desc'', ''step5Button'', ''step5ChecklistTerminalAccount'', ''step5ChecklistFingerprint'',
    ''step5ChecklistScan'', ''step6Title'', ''step6Desc'', ''step6Button'', ''completedTitle'',
    ''completedDesc'', ''cancelledTitle'', ''historyTitle'', ''historyEmpty'',
    ''removedFromTerminalLabel'', ''removedFromTerminalBody'', ''historyPreservedNote'',
    ''selectPerson'', ''selectDevice'', ''selectPersonDeviceOperatorRequired'',
    ''terminalDisplayName'', ''liveScanDetected'', ''waitingForScan'', ''cancelSession'',
    ''cancelReasonPlaceholder'', ''cancelReasonRequired'', ''scanTimestampLabel'',
    ''scanTimestampRequired'', ''metadataInspector'', ''writeSessionLockedTitle'',
    ''writeSessionLockedBody'', ''writeSessionExpiredMidWorkflow'', ''terminalNameNoEnglishHint'',
    ''terminalNameRankOmittedHint'', ''creatingOrVerifying'', ''verifyReconcileButton'',
    ''terminalConflictTitle'', ''terminalConflictBody'', ''terminalUnconfirmedTitle'',
    ''terminalUnconfirmedBody'', ''terminalInProgressBody'', ''terminalUnavailableTitle'',
    ''terminalUnavailableBody'', ''terminalReconciledSuccess'', ''terminalCreatedSuccess'',
    ''enrollmentConflictBody'', ''alreadyCancelledBody'', ''scanNotFoundYetBody'',
    ''activeEnrollmentExistsBody'', ''cancelSuccessMessage'', ''reserveSuccessMessage'',
    ''fingerprintWindowActiveMessage'', ''fingerprintConfirmedMessage'', ''scanWindowStartedMessage'',
    ''scanConfirmedMessage'', ''readyForMappingSuccessMessage'', ''startScanWindowButton'',
    ''badgeBrowserAction'', ''badgePhysicalAction'', ''badgeAdminAction'', ''technicalDetailsToggle'',
    ''metaEmployeeIdLabel'', ''metaTerminalUidLabel'', ''metaReservedAtLabel'',
    ''metaAccountCreatedLabel'', ''metaFpConfirmedAtLabel'', ''metaScanConfirmedAtLabel'',
    ''sessionHeaderPrefix'', ''targetTerminalLabel'', ''reservedIdLabel'', ''reservedByPrefix'',
    ''stepOfLabel'', ''searchPersonPlaceholder'', ''noPersonMatchFound'', ''fixEnglishNameLink'']"

definition keys_attendance :: "string list" where
  "keys_attendance = [
    ''title'', ''subtitle'', ''liveStreamBadge'', ''timeColumn'', ''timeColumnSuffix'',
    ''personColumn'', ''rankColumn'', ''terminalIdColumn'', ''deviceColumn'', ''punchColumn'',
    ''statusColumn'', ''onTime'', ''late'', ''unknown'', ''reconciliationTitle'',
    ''reconciliationDesc'', ''logIdColumn'', ''deviceUserPkColumn'', ''unmappedUserLabel'',
    ''noUnattributedRows'', ''terminalUserColumn'', ''temporalClassificationColumn'',
    ''diagnosticDetailColumn'']"

definition keys_devices :: "string list" where
  "keys_devices = [
    ''title'', ''subtitle'', ''deviceIp'', ''serial'', ''platform'', ''firmware'', ''lastSeen'',
    ''discoveredUsers'', ''discoveredUsersHistoricalHint'', ''currentTerminalAccounts'',
    ''deviceUserPk'', ''privilege'', ''incarnation'', ''terminalUidColumn'', ''displayNameColumn'',
    ''rosterSyncHint'', ''inactiveSincePrefix'', ''recycledLabel'']"

definition keys_mappings :: "string list" where
  "keys_mappings = [
    ''title'', ''subtitle'', ''verifiedMappings'', ''validFrom'', ''validTo'', ''verifiedBy'',
    ''verifiedAt'', ''activeMapping'', ''historicalMapping'', ''adminAuthorityTitle'',
    ''adminAuthorityDesc'', ''createMappingButton'', ''temporalFooterNote'', ''confirmTitle'',
    ''confirmPersonLabel'', ''confirmTerminalLabel'', ''confirmScanLabel'', ''confirmEffectiveLabel'',
    ''confirmWarning'', ''evidenceIncompleteBody'', ''mappingConflictBody'', ''alreadyMappedBody'',
    ''currentSectionTitle'', ''currentSectionEmpty'', ''historySectionTitle'', ''historySectionEmpty'',
    ''removedFromTerminalState'', ''endedState'', ''startedLabel'', ''endedLabel'',
    ''formerTerminalIdLabel'', ''mapIdColumn'', ''verificationMethodColumn'',
    ''eligibleEnrollmentLabel'', ''selectEligibleSessionPlaceholder'', ''verificationNoteLabel'',
    ''verificationNotePlaceholder'', ''noEligibleEnrollments'', ''selectAndFillRequired'',
    ''humanFieldLabel'', ''terminalAccountFieldLabel'', ''controlledScanEvidenceLabel'']"

definition keys_terminalManagement :: "string list" where
  "keys_terminalManagement = [
    ''title'', ''subtitle'', ''nameColumn'', ''terminalIdColumn'', ''deviceColumn'',
    ''humanStatusColumn'', ''accountStatusColumn'', ''fingerprintStatusColumn'',
    ''mappingStatusColumn'', ''accountPresent'', ''accountAbsent'', ''fingerprintPresent'',
    ''fingerprintAbsent'', ''fingerprintUnknown'', ''humanActive'', ''humanInactive'',
    ''humanUnlinked'', ''mappingOpen'', ''mappingClosed'', ''mappingNone'', ''deviceUnreachable'',
    ''reenrollButton'', ''removeFingerprintButton'', ''removeAccountButton'', ''refreshButton'',
    ''removeFingerprintConfirmTitle'', ''removeFingerprintConfirmBody'', ''removeAccountConfirmTitle'',
    ''removeAccountConfirmBody'', ''removeAccountActiveWarning'', ''removeAccountAcknowledgeLabel'',
    ''reenrollConfirmTitle'', ''reenrollConfirmBody'', ''reenrollCannotCancelNotice'',
    ''reenrollInProgress'', ''reenrollSuccess'', ''reenrollFailed'', ''fingerprintRemoveSuccess'',
    ''accountRemoveSuccess'', ''alreadyAbsentNotice'', ''viewerNoAccess'']"

definition keys_audit :: "string list" where
  "keys_audit = [
    ''title'', ''subtitle'', ''eventTypeFilter'', ''timestampColumn'', ''eventTypeColumn'',
    ''operatorColumn'', ''detailsColumn'', ''originIpColumn'']"

definition keys_system :: "string list" where
  "keys_system = [
    ''title'', ''subtitle'', ''healthTitle'', ''apiService'', ''apiReachable'', ''databaseService'',
    ''mqttService'', ''mqttHint'', ''collectorService'', ''lastUpdatedLabel'', ''changePasswordTitle'',
    ''currentPassword'', ''newPassword'', ''confirmPassword'', ''changePasswordButton'',
    ''passwordChangedSuccess'', ''rankReferenceTitle'', ''operatorsTitle'', ''operatorsSubtitle'',
    ''createOperatorButton'', ''username'', ''displayName'', ''role'', ''initialPassword'',
    ''createAccount'', ''toggleActive'', ''deactivate'', ''activate'', ''passwordFormSubtitle'',
    ''passwordValidationError'', ''operatorValidationError'', ''operatorCreateSuccessPrefix'',
    ''operatorCreateSuccessSuffix'', ''createdColumn'', ''adminOnlyBadge'', ''currentSessionLabel'',
    ''rankTableHint'', ''rankThFullColumn'', ''rankThAbbrColumn'', ''rankEnColumn'',
    ''rankEnAbbrColumn'', ''rankCategoryColumn'', ''schedulerTitle'', ''schedulerLastRun'',
    ''schedulerNeverRun'', ''schedulerStaleWarning'', ''schedulerSubtitle'', ''schedulerToggleLabel'',
    ''schedulerToggleHint'', ''schedulerEnabledBadge'', ''schedulerDisabledBadge'',
    ''schedulerActiveWindowBadge'', ''schedulerManualBadge'', ''schedulerLockedBadge'',
    ''schedulerAdminOnlyHint'', ''schedulerLoadError'', ''schedulerUpdateSuccess'',
    ''schedulerUpdateFailed'', ''schedulerToggleOn'', ''schedulerToggleOff'']"

definition keys_stream :: "string list" where
  "keys_stream = [
    ''connected'', ''connecting'', ''disconnected'', ''retry'']"

definition keys_writeSession :: "string list" where
  "keys_writeSession = [
    ''title'', ''lockedTitle'', ''lockedBody'', ''activeTitle'', ''openedByLabel'', ''remainingLabel'',
    ''reasonLabel'', ''reasonPlaceholder'', ''openButton'', ''closeButton'', ''opening'', ''closing'',
    ''openFailed'', ''alreadyActive'', ''adminOnlyHint'', ''badgeLocked'', ''badgeActive'']"

definition Translations :: "(string \<times> string list) list" where
  "Translations = [
    (''common'', keys_common),
    (''nav'', keys_nav),
    (''status'', keys_status),
    (''roles'', keys_roles),
    (''login'', keys_login),
    (''dashboard'', keys_dashboard),
    (''leave'', keys_leave),
    (''workflow'', keys_workflow),
    (''personnel'', keys_personnel),
    (''enrollment'', keys_enrollment),
    (''attendance'', keys_attendance),
    (''devices'', keys_devices),
    (''mappings'', keys_mappings),
    (''terminalManagement'', keys_terminalManagement),
    (''audit'', keys_audit),
    (''system'', keys_system),
    (''stream'', keys_stream),
    (''writeSession'', keys_writeSession)]"

end
