(* ===== verification/Dictionaries.thy ===== *)
theory Dictionaries
  imports Dictionary_Keys
begin

text \<open>
  What the two dictionaries of \<open>frontend/src/i18n\<close> promise: the keys of the type, the
  placeholders the pages fill in, and texts for every error.
\<close>

section \<open>Looking up a text\<close>

text \<open>\<open>t.section.key\<close>; an absent key is \<open>undefined\<close>, which renders as nothing.\<close>

definition dictionary :: "(string \<times> texts) list \<Rightarrow> dict" where
  "dictionary d k =
     (case map_of d (takeWhile (\<lambda>c. c \<noteq> CHR ''.'') k) of
        None \<Rightarrow> []
      | Some es \<Rightarrow> nn (map_of es (drop 1 (dropWhile (\<lambda>c. c \<noteq> CHR ''.'') k))) [])"

definition t_of :: "lang \<Rightarrow> dict" where
  "t_of = translationsMap (dictionary translations_th) (dictionary translations_en)"

section \<open>Keys\<close>

definition section_keys :: "(string \<times> texts) list \<Rightarrow> (string \<times> string list) list" where
  "section_keys d = map (\<lambda>(s, es). (s, map fst es)) d"

definition same_keys :: "(string \<times> string list) list \<Rightarrow> (string \<times> string list) list \<Rightarrow> bool" where
  "same_keys = list_all2 (\<lambda>(s, ks) (s', ks'). s = s' \<and> length ks = length ks' \<and> set ks = set ks')"

lemmas en_sections = translations_en_def
  en_common_def en_nav_def en_status_def en_roles_def en_login_def en_dashboard_def en_leave_def
  en_workflow_def en_personnel_def en_enrollment_def en_attendance_def en_devices_def en_mappings_def
  en_terminalManagement_def en_audit_def en_system_def en_stream_def en_writeSession_def

lemmas th_sections = translations_th_def
  th_common_def th_nav_def th_status_def th_roles_def th_login_def th_dashboard_def th_leave_def
  th_workflow_def th_personnel_def th_enrollment_def th_attendance_def th_devices_def th_mappings_def
  th_terminalManagement_def th_audit_def th_system_def th_stream_def th_writeSession_def

lemmas key_sections = Translations_def
  keys_common_def keys_nav_def keys_status_def keys_roles_def keys_login_def keys_dashboard_def keys_leave_def
  keys_workflow_def keys_personnel_def keys_enrollment_def keys_attendance_def keys_devices_def keys_mappings_def
  keys_terminalManagement_def keys_audit_def keys_system_def keys_stream_def keys_writeSession_def

text \<open>The sections list their keys in the same order, but for one section of the type.\<close>

lemma keys_th_en:
  "map fst th_common = map fst en_common"
  "map fst th_nav = map fst en_nav"
  "map fst th_status = map fst en_status"
  "map fst th_roles = map fst en_roles"
  "map fst th_login = map fst en_login"
  "map fst th_dashboard = map fst en_dashboard"
  "map fst th_leave = map fst en_leave"
  "map fst th_workflow = map fst en_workflow"
  "map fst th_personnel = map fst en_personnel"
  "map fst th_enrollment = map fst en_enrollment"
  "map fst th_attendance = map fst en_attendance"
  "map fst th_devices = map fst en_devices"
  "map fst th_mappings = map fst en_mappings"
  "map fst th_terminalManagement = map fst en_terminalManagement"
  "map fst th_audit = map fst en_audit"
  "map fst th_system = map fst en_system"
  "map fst th_stream = map fst en_stream"
  "map fst th_writeSession = map fst en_writeSession"
  by (simp_all only: en_sections th_sections list.map fst_conv)

lemma keys_en:
  "map fst en_common = keys_common"
  "map fst en_nav = keys_nav"
  "map fst en_status = keys_status"
  "map fst en_roles = keys_roles"
  "map fst en_login = keys_login"
  "map fst en_dashboard = keys_dashboard"
  "map fst en_leave = keys_leave"
  "map fst en_workflow = keys_workflow"
  "map fst en_enrollment = keys_enrollment"
  "map fst en_attendance = keys_attendance"
  "map fst en_devices = keys_devices"
  "map fst en_mappings = keys_mappings"
  "map fst en_terminalManagement = keys_terminalManagement"
  "map fst en_audit = keys_audit"
  "map fst en_system = keys_system"
  "map fst en_stream = keys_stream"
  "map fst en_writeSession = keys_writeSession"
  by (simp_all only: en_sections key_sections list.map fst_conv)

lemma personnel_keys: "set (map fst en_personnel) = set keys_personnel" "length (map fst en_personnel) = length keys_personnel"
  unfolding keys_personnel_def en_personnel_def by auto

lemma keys_declared:
  "same_keys (section_keys translations_en) Translations"
  "same_keys (section_keys translations_th) Translations"
  using personnel_keys
  by (simp_all add: same_keys_def section_keys_def translations_en_def translations_th_def Translations_def
      keys_th_en keys_en del: set_map length_map list.set_map)

section \<open>Placeholders\<close>

text \<open>What the pages fill in: the key of the text and the placeholder given to \<open>replace\<close>.\<close>

definition filled :: "(string \<times> string \<times> string) list" where
  "filled = [(''leave'', ''dailySubtitle'', ''{window}''), (''leave'', ''dailySubtitle'', ''{time}''),
     (''leave'', ''trialBodyDate'', ''{date}''), (''leave'', ''trialBody'', ''{done}''),
     (''leave'', ''trialBody'', ''{req}''), (''leave'', ''trackDateActive'', ''{date}''),
     (''leave'', ''monthlySubtitle'', ''{n}''), (''leave'', ''monthlySubtitle'', ''{window}''),
     (''leave'', ''monthlySubtitle'', ''{time}''), (''workflow'', ''pwTooShort'', ''{n}''),
     (''workflow'', ''bulkDone'', ''{n}''), (''workflow'', ''selectedCount'', ''{n}''),
     (''workflow'', ''namesSyncedResult'', ''{renamed}''), (''workflow'', ''namesSyncedResult'', ''{failed}''),
     (''workflow'', ''namesMismatchTitle'', ''{n}''), (''workflow'', ''namesSyncAllButton'', ''{n}''),
     (''personnel'', ''importCommittedMessage'', ''{created}''),
     (''personnel'', ''importCommittedMessage'', ''{updated}'')]"

text \<open>Lookups in a literal table and searches in a literal text, a step at a time.\<close>

lemma lookup_hit: "map_of ((k, v) # es) k = Some v"
  by simp

lemma lookup_miss: "k' \<noteq> k \<Longrightarrow> map_of es k = r \<Longrightarrow> map_of ((k', v) # es) k = r"
  by simp

lemma lookup_text:
  assumes "CHR ''.'' \<notin> set s" "map_of d s = Some es" "map_of es k = Some v"
  shows "dictionary d (s @ ''.'' @ k) = v"
proof -
  have "takeWhile (\<lambda>c. c \<noteq> CHR ''.'') (s @ ''.'' @ k) = s" "dropWhile (\<lambda>c. c \<noteq> CHR ''.'') (s @ ''.'' @ k) = ''.'' @ k"
    using assms(1) by (subst takeWhile_append2 dropWhile_append2; auto)+
  with assms(2,3) show ?thesis by (simp add: dictionary_def nn_def)
qed

lemma placeholders_en:
  "list_all (\<lambda>(s, k, p). js_includes (dictionary translations_en (s @ ''.'' @ k)) (js p)) filled"
  unfolding filled_def list.pred_inject split_conv
  by (intro conjI list.pred_inject(1); (subst lookup_text, simp, simp add: translations_en_def,
      unfold en_leave_def en_workflow_def en_personnel_def,
      (rule lookup_hit | (rule lookup_miss, simp))+, simp add: js_includes_def js_eval of_char_def))

lemma placeholders_th:
  "list_all (\<lambda>(s, k, p). js_includes (dictionary translations_th (s @ ''.'' @ k)) (js p)) filled"
  unfolding filled_def list.pred_inject split_conv
  by (intro conjI list.pred_inject(1); (subst lookup_text, simp, simp add: translations_th_def,
      unfold th_leave_def th_workflow_def th_personnel_def,
      (rule lookup_hit | (rule lookup_miss, simp))+, simp add: js_includes_def js_eval of_char_def))

section \<open>Texts\<close>

definition empty_keys :: "(string \<times> texts) list \<Rightarrow> string list" where
  "empty_keys d = concat (map (\<lambda>(s, es). map (\<lambda>(k, v). s @ ''.'' @ k) (filter (\<lambda>(k, v). v = []) es)) d)"

lemma texts_en: "list_all (\<lambda>(s, es). list_all (\<lambda>(k, v). v \<noteq> []) es) translations_en"
  unfolding en_sections list.pred_inject split_conv by simp

text \<open>In Thai the prefix before the reason of an exemption is empty on purpose.\<close>

lemma texts_th:
  "list_all (\<lambda>(s, es). list_all (\<lambda>(k, v). v \<noteq> [] \<or> k = ''quickExemptPrefix'') es) translations_th"
  unfolding th_sections list.pred_inject split_conv by simp

lemma empty_texts:
  "empty_keys translations_en = []" "set (empty_keys translations_th) \<subseteq> {s @ ''.quickExemptPrefix'' |s. True}"
  using texts_en texts_th by (auto simp: empty_keys_def list_all_iff split_def filter_empty_conv)

text \<open>C12: Both dictionaries are complete: each has the sections of the type \<open>Translations\<close> in its
  order, each section exactly the keys the type declares, no text is empty (but one Thai prefix,
  on purpose), and every placeholder the pages fill in with a number, a date or a time stands
  in the text of both languages, so that no value is lost in either.\<close>

theorem dictionaries_complete:
  "same_keys (section_keys translations_en) Translations \<and> same_keys (section_keys translations_th) Translations \<and>
   empty_keys translations_en = [] \<and> set (empty_keys translations_th) \<subseteq> {s @ ''.quickExemptPrefix'' |s. True} \<and>
   list_all (\<lambda>(s, k, p). js_includes (t_of En (s @ ''.'' @ k)) (js p) \<and> js_includes (t_of Th (s @ ''.'' @ k)) (js p)) filled"
  using keys_declared empty_texts placeholders_en placeholders_th
  by (simp add: t_of_def translationsMap_def list_all_iff split_def)

lemma error_copy_entries:
  "error_copy_keys = map (\<lambda>(s, k). s @ ''.'' @ k)
     [(''enrollment'', ''writeSessionLockedBody''), (''enrollment'', ''writeSessionExpiredMidWorkflow''),
      (''common'', ''apiErrors.validationError''), (''common'', ''apiErrors.notFound''),
      (''common'', ''apiErrors.rateLimited''), (''common'', ''unauthorized''), (''common'', ''forbidden''),
      (''common'', ''apiErrors.internalError''), (''common'', ''apiErrors.genericErrorPrefix'')]"
  by (simp add: error_copy_keys_def)

text \<open>The codes an operator can meet, the entry of the dictionary each is shown with, and what that
  entry says in English.\<close>

definition error_table :: "(string \<times> string \<times> jstr) list" where
  "error_table =
    [(''WRITE_DISABLED'', ''enrollment.writeSessionLockedBody'',
        js ''Ask an administrator to open an enrollment work session.''),
     (''WRITE_SESSION_REQUIRED'', ''enrollment.writeSessionLockedBody'',
        js ''Ask an administrator to open an enrollment work session.''),
     (''WRITE_SESSION_EXPIRED'', ''enrollment.writeSessionExpiredMidWorkflow'',
        js ''Your work session expired. Your progress is saved '' @ [0x2014] @ js '' ask an administrator to reopen a work session to continue.''),
     (''VALIDATION_ERROR'', ''common.apiErrors.validationError'',
        js ''Invalid data. Please check and try again.''),
     (''NOT_FOUND'', ''common.apiErrors.notFound'',
        js ''The requested item was not found.''),
     (''RATE_LIMITED'', ''common.apiErrors.rateLimited'',
        js ''Too many requests. Please wait a moment and try again.''),
     (''UNAUTHORIZED'', ''common.unauthorized'',
        js ''Please sign in again''),
     (''FORBIDDEN'', ''common.forbidden'',
        js ''Access forbidden''),
     (''INTERNAL_ERROR'', ''common.apiErrors.internalError'',
        js ''A system error occurred. Please try again.'')]"

definition copy_key :: "jstr \<Rightarrow> string" where
  "copy_key c = nn (map_of (map (\<lambda>(code, k, en). (js code, k)) error_table) c)
     ''common.apiErrors.genericErrorPrefix''"

lemma error_lengths_en: "map (\<lambda>k. length (dictionary translations_en k)) error_copy_keys =
    [56, 110, 41, 33, 54, 20, 16, 42, 36]"
  unfolding error_copy_entries list.map split_conv list.inject
  by (intro conjI refl; (subst lookup_text, simp, simp add: translations_en_def,
      unfold en_common_def en_enrollment_def, (rule lookup_hit | (rule lookup_miss, simp))+, simp))

lemma error_lengths_th: "map (\<lambda>k. length (dictionary translations_th k)) error_copy_keys =
    [54, 115, 47, 21, 46, 20, 25, 42, 35]"
  unfolding error_copy_entries list.map split_conv list.inject
  by (intro conjI refl; (subst lookup_text, simp, simp add: translations_th_def,
      unfold th_common_def th_enrollment_def, (rule lookup_hit | (rule lookup_miss, simp))+, simp))

lemma error_lengths:
  "ns \<in> {[56, 110, 41, 33, 54, 20, 16, 42, 36], [54, 115, 47, 21, 46, 20, 25, 42, 35]} \<Longrightarrow>
   distinct ns \<and> 0 \<notin> set ns" for ns :: "nat list"
  by auto

lemma error_texts: "distinct (map (t_of l) error_copy_keys)" "[] \<notin> set (map (t_of l) error_copy_keys)"
proof -
  have "map length (map (t_of l) error_copy_keys) = map (\<lambda>k. length (t_of l k)) error_copy_keys"
    by (simp add: comp_def)
  also have "\<dots> \<in> {[56, 110, 41, 33, 54, 20, 16, 42, 36], [54, 115, 47, 21, 46, 20, 25, 42, 35]}"
    using error_lengths_en error_lengths_th
    by (cases l) (simp_all only: t_of_def translationsMap_def lang.case insert_iff simp_thms)
  finally have "map length (map (t_of l) error_copy_keys) \<in>
    {[56, 110, 41, 33, 54, 20, 16, 42, 36], [54, 115, 47, 21, 46, 20, 25, 42, 35]}" .
  from error_lengths[OF this] have d: "distinct (map length (map (t_of l) error_copy_keys))"
    "0 \<notin> set (map length (map (t_of l) error_copy_keys))" by (rule conjunct1, rule conjunct2)
  from d(1) show "distinct (map (t_of l) error_copy_keys)" by (simp only: distinct_map)
  from d(2) show "[] \<notin> set (map (t_of l) error_copy_keys)"
    by (metis (no_types) image_eqI list.set_map list.size(3))
qed

lemma error_table_en: "list_all (\<lambda>(c, k, en). dictionary translations_en k = en) error_table"
proof -
  have t: "map (\<lambda>(c, k, en). (k, en)) error_table = map (\<lambda>(s, k, en). (s @ ''.'' @ k, en))
    [(''enrollment'', ''writeSessionLockedBody'', js ''Ask an administrator to open an enrollment work session.''),
     (''enrollment'', ''writeSessionLockedBody'', js ''Ask an administrator to open an enrollment work session.''),
     (''enrollment'', ''writeSessionExpiredMidWorkflow'', js ''Your work session expired. Your progress is saved '' @ [0x2014] @ js '' ask an administrator to reopen a work session to continue.''),
     (''common'', ''apiErrors.validationError'', js ''Invalid data. Please check and try again.''),
     (''common'', ''apiErrors.notFound'', js ''The requested item was not found.''),
     (''common'', ''apiErrors.rateLimited'', js ''Too many requests. Please wait a moment and try again.''),
     (''common'', ''unauthorized'', js ''Please sign in again''),
     (''common'', ''forbidden'', js ''Access forbidden''),
     (''common'', ''apiErrors.internalError'', js ''A system error occurred. Please try again.'')]"
    by (simp add: error_table_def)
  have "list_all (\<lambda>(k, en). dictionary translations_en k = en) (map (\<lambda>(c, k, en). (k, en)) error_table)"
    unfolding t list.map list.pred_inject split_conv
    by (intro conjI list.pred_inject(1); (rule lookup_text, simp, simp add: translations_en_def,
      unfold en_common_def en_enrollment_def, (rule lookup_hit | (rule lookup_miss, simp))+))
  then show ?thesis by (simp add: list.pred_map comp_def split_def)
qed

text \<open>C13: The copy of an error names its kind and nothing else, in either language: an error of the
  server is shown with the entry that the table gives its code, and with the generic entry if the
  table does not have the code, whatever its status and its message are; any other error with
  the entry for a fault of the system; in English these entries say what the table says; and in
  both languages the nine entries are not empty and all different, so that two kinds of failure
  are never shown alike. (This is of \<open>friendlyApiError\<close>; some places show a message without it.)\<close>

theorem errors_never_silent:
  "friendlyApiError (ApiClientError status c m) (t_of l) = t_of l (copy_key c) \<and>
   friendlyApiError UnauthorizedError (t_of l) = t_of l ''common.apiErrors.internalError'' \<and>
   friendlyApiError (OtherError m) (t_of l) = t_of l ''common.apiErrors.internalError'' \<and>
   list_all (\<lambda>(code, k, text). t_of En k = text) error_table \<and>
   distinct (map (t_of l) error_copy_keys) \<and> [] \<notin> set (map (t_of l) error_copy_keys)"
proof -
  have "friendlyApiError (ApiClientError status c m) (t_of l) = t_of l (copy_key c)"
    by (simp add: friendlyApiError_def copy_key_def error_table_def)
  then show ?thesis using error_texts error_table_en
    by (simp add: friendlyApiError_def t_of_def translationsMap_def)
qed

end
