(* ===== verification/Spec2Isabelle.thy ===== *)
theory Spec2Isabelle
  imports Prelude Async_UI Json View Schema Client I18n Terminal_Name Auth_Session Hooks Widgets
    Sessions Shell Enrollment_Panes Enrollment_Inspector Enrollment_Page Terminal_Management Mappings
    Personnel_Lifecycle Personnel_Form Csv_Import Personnel_Parts Personnel_Page Dates Absences Holidays
    Absence_Page System_Settings System_Page Roster_Pages Dashboard_Page Attendance_Pages Reading_Pages
    Api_Contract Api_Schemas Api_Operations Api_Calls Page_Requests Dictionary_En Dictionary_Th Dictionary_Keys Dictionaries
begin

text \<open>
  The browser frontend of the attendance server, \<open>frontend/src\<close>: a React program in
  TypeScript by which operators keep the roster, enroll fingerprints on the scanners, record
  absences and read attendance. It has no state of its own that lasts but a token and the
  language; everything else is asked of the server, and most of what can go wrong lies in the
  order in which clicks, replies, timers and stream events arrive. That order is what the
  model keeps.

  \<^bold>\<open>Parts and how they interact.\<close> Every request goes through \<open>api/client.ts\<close>, which attaches
  the token, reads the reply and clears the token on a 401. \<open>auth.tsx\<close> polls the identity and
  derives the permissions that every page reads. \<open>hooks/useApi.ts\<close> runs the pages' queries,
  \<open>hooks/useAttendanceStream.ts\<close> the stream of scans. \<open>App.tsx\<close> guards the routes,
  \<open>components/Layout.tsx\<close> is the frame. A page renders its state and its queries, offers
  events, and its handlers send requests and reload queries.

  \<^bold>\<open>How the code is modelled.\<close> A component's \<open>useState\<close> variables, props and queries are a
  record; what the user can do is a datatype of events; a handler is a program of \<open>Async_UI\<close>
  (\<open>Ret\<close>, \<open>Eff\<close>, \<open>Call\<close>), one \<open>Call\<close> per \<open>await\<close>, whose continuation gets the outcome
  and the state at that later time, while the values captured by the closure stay those of the
  start; what is rendered is a tree of \<open>View\<close>, which determines the events offered. The locale
  \<open>async_ui\<close> gives a component's reachable configurations (clicks, replies in any order, changes
  of the surroundings), the rule for invariants and the one for what depends on the requests sent
  before (\<open>ui_history\<close>); \<open>single_flight\<close> adds the contract of a busy flag and proves that no two
  requests are in flight and that the component ends idle.
  Every component interprets one of them on its own definitions. Errors are values of
  \<open>js_error + json\<close>, strings are lists of 16 bit units, numbers are integers.

  \<^bold>\<open>Theories.\<close>
  \<^item> \<open>Prelude\<close>, \<open>Json\<close>, \<open>Dates\<close>: JavaScript strings, optional values, sets, JSON and form
    encoding; the proleptic Gregorian calendar of \<open>Date\<close> with its texts.
  \<^item> \<open>Async_UI\<close>, \<open>View\<close>: the interfaces above.
  \<^item> \<open>Client\<close> (\<open>api/client.ts\<close>), \<open>Schema\<close> (\<open>api/types.ts\<close> and the schemas of
    \<open>api/generated.ts\<close> used by several pages, as records; a schema used by one page stands in its
    theory).
  \<^item> \<open>Api_Contract\<close>, \<open>Api_Schemas\<close>, \<open>Api_Operations\<close>: the whole contract of \<open>api/generated.ts\<close>, the
    values of a type, the derived types of \<open>api/types.ts\<close> and the operation a request addresses;
    \<open>Api_Calls\<close>, \<open>Page_Requests\<close>: the client's calls and the pages' requests against it.
  \<^item> \<open>Dictionary_En\<close>, \<open>Dictionary_Th\<close>, \<open>Dictionary_Keys\<close> (\<open>i18n/en.ts\<close>, \<open>th.ts\<close>, \<open>types.ts\<close>) and
    \<open>Dictionaries\<close>, what the two languages promise.
  \<^item> \<open>I18n\<close> (\<open>i18n/index.tsx\<close>, \<open>apiErrors.ts\<close>, \<open>enumLabels.ts\<close>), \<open>Terminal_Name\<close>
    (\<open>lib/terminalName.ts\<close>), \<open>Auth_Session\<close> (\<open>auth.tsx\<close>, \<open>App.tsx\<close>), \<open>Hooks\<close>
    (\<open>hooks\<close>), \<open>Widgets\<close> (\<open>components/Status.tsx\<close>, \<open>ConfirmModal.tsx\<close>, \<open>RankSelect.tsx\<close>,
    \<open>PersonCombobox.tsx\<close>).
  \<^item> \<open>Sessions\<close> (\<open>WriteSessionControl.tsx\<close>, \<open>SchedulerControl.tsx\<close>), \<open>Shell\<close>
    (\<open>pages/Login.tsx\<close>, \<open>components/Layout.tsx\<close>).
  \<^item> \<open>Enrollment_Panes\<close>, \<open>Enrollment_Inspector\<close>, \<open>Enrollment_Page\<close> (\<open>pages/Enrollments.tsx\<close>),
    \<open>Terminal_Management\<close>, \<open>Mappings\<close> (the pages of those names).
  \<^item> \<open>Personnel_Lifecycle\<close> (\<open>components/PersonnelLifecycle.tsx\<close>), \<open>Personnel_Form\<close>
    (\<open>PersonnelFormModal.tsx\<close>), \<open>Csv_Import\<close> (\<open>CsvImportModal.tsx\<close>), \<open>Personnel_Parts\<close>,
    \<open>Personnel_Page\<close> (\<open>pages/Personnel.tsx\<close>).
  \<^item> \<open>Absences\<close>, \<open>Holidays\<close>, \<open>Absence_Page\<close> (\<open>pages/Absences.tsx\<close>), \<open>System_Settings\<close>,
    \<open>System_Page\<close> (\<open>pages/System.tsx\<close>), \<open>Roster_Pages\<close> (\<open>DailyRoster.tsx\<close>,
    \<open>MonthlyReport.tsx\<close>), \<open>Dashboard_Page\<close>, \<open>Attendance_Pages\<close>, \<open>Reading_Pages\<close>
    (\<open>Devices.tsx\<close>, \<open>Audit.tsx\<close>).
  \<^item> this theory: the properties that span components.

  \<^bold>\<open>What the lemmas show.\<close> For every page, that its requests are only those a permitted user
  asked for, with what was on the screen, and where the code means it one at a time; for
  handlers of several requests, the exact sequence for every outcome (\<open>run_action_chain\<close>,
  \<open>offboard_sequence\<close>, \<open>csv_commit_exact\<close>, \<open>fill_fixed_exact\<close>, \<open>import_preview_first\<close>); for
  the hooks, that only the latest run of a query changes what is shown, that a stream may be cut
  anywhere and that it stays single; the outcome of every request; every request of the client,
  and every query and body the pages build, against the contract of the server
  (\<open>calls_keep_contract\<close>, \<open>pages_keep_contract\<close>); round trips of the query string and of the
  personnel form; the selection of people as a refinement of a set; the controls of the
  enrollment workflow, exactly; the calendar and the recent weekdays against the calendar's
  arithmetic; the permissions; the two dictionaries and the error copy in both. Other theorems
  exhibit reachable states in which the code does what its authors do not want, such as
  \<open>scan_confirms_other_enrollment\<close>, \<open>retry_doubles_stream\<close> or \<open>holiday_enter_twice\<close>.

  \<^bold>\<open>What is assumed of the server.\<close> A reply may be anything, with three exceptions, each a
  hypothesis of the property that uses it: the list of departments has no duplicates
  (\<open>departments_exact\<close>), a person's status on a day is one of its classification
  (\<open>server_status\<close>), and a rank is read in agreement with the rank list (\<open>reads_ranks\<close>).

  \<^bold>\<open>Termination.\<close> There is no fuel. The loop over the stream's buffer has the measure of its
  length, the loop of the recent weekdays that of the days still wanted and the distance to a
  weekday, the search for a year that of the distance, the chain of actions that of the rank of
  the action; the other loops are structural. What runs forever in the browser (polling, reading
  a stream, reconnecting) is a step of a transition system.

  \<^bold>\<open>Parameters.\<close> \<open>t\<close> is the dictionary in use, from key to text (\<open>t_of\<close> of theory
  Dictionaries for the two there are); \<open>parse\<close> is \<open>JSON.parse\<close> of an
  event; \<open>time\<close>, \<open>shown\<close>, \<open>thai_date\<close>, \<open>thai_time\<close>, \<open>bangkok\<close>, \<open>fmt\<close> and the like stand
  for the conversions of the language's locale data, and \<open>today\<close> for the clock. Nothing is
  assumed of them. A page takes the views of the components it embeds as arguments.

  \<^bold>\<open>Not modelled.\<close> Styling, focus and scrolling; the mounting in \<open>main.tsx\<close>; floating point,
  which occurs only in the widths of bars; the server, the collector and the database, which are
  written in Python and SQL and are the environment here, with nothing assumed of a reply beyond the above. The contract is
  used for what is sent; that the server keeps it in its replies is nowhere assumed.
\<close>

section \<open>The name a person gets on the scanner\<close>

text \<open>The server's reading of a rank agrees with its rank list: a rank of the list is read with the
  English abbreviation the list has for it, and no rank without one.\<close>

definition reads_ranks :: "(jstr \<Rightarrow> rank_metadata option) \<Rightarrow> rank_reference list \<Rightarrow> bool" where
  "reads_ranks meta ranks \<longleftrightarrow> rank_prefix (meta []) = [] \<and>
     (\<forall>r \<in> set ranks. Option.bind (meta (rr_rank_th_abbreviation r)) rm_rank_en_abbreviation =
        Some (rr_rank_en_abbreviation r))"

lemma rank_read:
  assumes "reads_ranks meta ranks" and "as_data (pf_ranks s) = Some ranks"
    and "pf_rank s = [] \<longrightarrow> [] \<notin> rr_rank_th_abbreviation ` set ranks"
    and "pf_rank s \<in> insert [] (rr_rank_th_abbreviation ` set ranks)"
  shows "rank_prefix (meta (pf_rank s)) = rank_prefix (map_option metadata_of (rankMeta s))"
proof (cases "rankMeta s")
  case None
  with assms(2-4) have "pf_rank s = []" by (auto simp: rankMeta_def find_None_iff)
  with None assms(1) show ?thesis by (simp add: reads_ranks_def) (simp add: rank_prefix_def)
next
  case (Some r)
  with assms(2) have "r \<in> set ranks" "rr_rank_th_abbreviation r = pf_rank s"
    by (auto simp: rankMeta_def find_Some_iff)
  with assms(1) Some show ?thesis by (auto simp: reads_ranks_def rank_prefix_def metadata_of_def)
qed

text \<open>C35: The name the personnel form announces is the one the enrollment workflow proposes. Let the
  server keep the English name and the rank of the body the form sends, and read the rank back
  in agreement with its rank list, and let the rank be one of the list or none. Then, once the
  list is loaded in the form, the inspector of the person's enrollment opens with exactly the
  announced name in its field, and says that the rank was left out exactly when the form said
  so. While the list is not loaded the form announces the English name alone, so that the name
  proposed later may have the rank before it.\<close>

theorem form_preview_is_enrollment_name:
  assumes body: "body = form_fields (j_opt JStr) s"
    and stored: "e_english_name e = jstring (jprop body ''english_name'')"
      "e_rank_metadata e = meta (nn (jstring (jprop body ''rank'')) [])"
    and server: "reads_ranks meta ranks" "[] \<notin> rr_rank_th_abbreviation ` set ranks"
    and rank: "pf_rank s \<in> insert [] (rr_rank_th_abbreviation ` set ranks)"
  shows "(as_data (pf_ranks s) = Some ranks \<longrightarrow>
            namePreview e = form_namePreview s \<and>
            in_displayName (mount_inspector e) = np_value (form_namePreview s) \<and>
            in_displayName (sync_name e (mount_inspector e)) = np_value (form_namePreview s)) \<and>
         (as_data (pf_ranks s) = None \<longrightarrow>
            form_namePreview s = \<lparr>np_value = js_trim (pf_englishName s), np_rankOmittedForLength = False\<rparr>)"
proof (intro conjI impI)
  have english: "e_english_name e = opt_str (js_trim (pf_englishName s))"
    using stored(1) by (simp add: body form_fields_def opt_str_def j_opt_def)
  have "nn (jstring (jprop body ''rank'')) [] = pf_rank s"
    by (simp add: body form_fields_def opt_str_def j_opt_def)
  then have meta: "e_rank_metadata e = meta (pf_rank s)" using stored(2) by simp
  {
    assume "as_data (pf_ranks s) = Some ranks"
    with rank_read[OF server(1)] server(2) rank
    have "rank_prefix (e_rank_metadata e) = rank_prefix (map_option metadata_of (rankMeta s))" by (simp add: meta)
    with english show "namePreview e = form_namePreview s"
      by (cases "js_trim (pf_englishName s) = []")
        (simp_all add: namePreview_def form_namePreview_def preview_cases Let_def opt_str_def)
    then show "in_displayName (mount_inspector e) = np_value (form_namePreview s)"
      "in_displayName (sync_name e (mount_inspector e)) = np_value (form_namePreview s)"
      by (simp_all add: mount_inspector_def sync_name_def)
  next
    assume "as_data (pf_ranks s) = None"
    then show "form_namePreview s = \<lparr>np_value = js_trim (pf_englishName s), np_rankOmittedForLength = False\<rparr>"
      by (simp add: form_namePreview_def preview_cases Let_def rankMeta_def rank_prefix_def)
  }
qed

definition lieutenant :: rank_reference where
  "lieutenant = \<lparr>rr_rank_category = [], rr_rank_en = js ''Lieutenant'', rr_rank_en_abbreviation = js ''LT'',
     rr_rank_th_abbreviation = [0xe23], rr_rank_th_full = [0xe23], rr_source = []\<rparr>"

definition filled_form :: person_form where
  "filled_form = (open_form admin_auth Create None)
     \<lparr>pf_ranks := api_idle\<lparr>as_data := Some [lieutenant]\<rparr>, pf_rank := [0xe23], pf_englishName := js '' Somchai ''\<rparr>"

lemma filled_form:
  "js_trim (pf_englishName filled_form) = js ''Somchai''" "rankMeta filled_form = Some lieutenant"
  "rank_prefix (Some (metadata_of lieutenant)) = js ''LT''"
  by (simp add: filled_form_def, code_simp)
    (simp_all add: filled_form_def rankMeta_def lieutenant_def rank_prefix_def metadata_of_def js_trim_id
      js_eval of_char_def is_ws_def ws_units_def)

theorem form_preview_is_enrollment_name_witness:
  "\<exists>e. e_english_name e = Some (js ''Somchai'') \<and> in_displayName (mount_inspector e) = js ''LT Somchai''"
proof -
  let ?meta = "\<lambda>x. if x = [0xe23] then Some (metadata_of lieutenant) else None"
  let ?body = "form_fields (j_opt JStr) filled_form"
  let ?e = "sample_enrollment\<lparr>e_english_name := Some (js ''Somchai''), e_rank_metadata := Some (metadata_of lieutenant)\<rparr>"
  have loaded: "as_data (pf_ranks filled_form) = Some [lieutenant]" "pf_rank filled_form = [0xe23]"
    by (simp_all add: filled_form_def)
  have "e_english_name ?e = jstring (jprop ?body ''english_name'')"
    "e_rank_metadata ?e = ?meta (nn (jstring (jprop ?body ''rank'')) [])"
    by (simp_all add: form_fields_def filled_form loaded j_opt_def opt_str_def)
  moreover have "reads_ranks ?meta [lieutenant]" "[] \<notin> rr_rank_th_abbreviation ` set [lieutenant]"
    "pf_rank filled_form \<in> insert [] (rr_rank_th_abbreviation ` set [lieutenant])"
    by (simp_all add: reads_ranks_def rank_prefix_def metadata_of_def lieutenant_def loaded)
  ultimately have "in_displayName (mount_inspector ?e) = np_value (form_namePreview filled_form)"
    using form_preview_is_enrollment_name[OF refl, of ?e filled_form ?meta "[lieutenant]"] loaded(1) by blast
  also have "\<dots> = js ''LT Somchai''"
    by (simp add: form_namePreview_def preview_cases Let_def filled_form js_eval)
  finally show ?thesis by (intro exI[of _ ?e]) simp
qed

section \<open>A scan on its way to the screen\<close>

text \<open>C23: From the wire to the banner: when a connection that has read whole events receives a piece
  of the stream that ends with the event of a scan, on one data line each, whatever else the
  piece holds before, the event becomes the hook's last one, and the attendance page then asks
  for its list again and shows the scan's user.\<close>

theorem scan_reaches_banner:
  assumes conn: "i < length (sm_conns s)" "cn_phase (sm_conns s ! i) = Reading []"
    and wire: "\<forall>q \<in> set payloads. 10 \<notin> set q" "10 \<notin> set p"
    and ev: "parse p = Some ev" "is_scan ev"
  shows "let s' = chunk parse i (concat (map frame payloads) @ frame p) s;
             page' = state_of (attendance_effect (sm_last s') page) in
         sm_last s' = Some ev \<and> cn_phase (sm_conns s' ! i) = Reading [] \<and>
         trace_of (attendance_effect (sm_last s') page) [] = [Inr ReloadAttendance] \<and>
         t ''attendance.liveStreamBadge'' @ js '': Terminal User '' @ ae_user_id ev @ js '' @ '' \<in>
           set (texts (Attendance t bangkok page'))"
proof -
  have "feed parse (concat (map frame payloads) @ frame p) ([], sm_last s) = ([], Some ev)"
    using feed_frames[OF wire, of parse ev] ev(1) by simp
  then have "sm_last (chunk parse i (concat (map frame payloads) @ frame p) s) = Some ev"
    "cn_phase (sm_conns (chunk parse i (concat (map frame payloads) @ frame p) s) ! i) = Reading []"
    using conn by (simp_all add: chunk_def upd_conn_def)
  moreover have "bn_newScan (show_scan ev b) = Some (ae_user_id ev, ae_scan_time ev)" for b
    by (simp add: banner_defs split: option.split)
  ultimately show ?thesis using ev(2)
    by (simp add: Let_def attendance_effect_def Attendance_def scan_banner_def)
qed

theorem scan_reaches_banner_witness:
  "\<exists>s :: attendance_event stream. js ''attendance.liveStreamBadge: Terminal User 2 @ '' \<in>
     set (texts (Attendance js id (state_of (attendance_effect (sm_last s) an_demo))))"
proof -
  let ?p = "\<lambda>x. if x = js ''{}'' then Some (sample_scan ''2'') else None"
  let ?s = "response 0 True (mount_stream (Some (js ''t'')) :: attendance_event stream)"
  have conn: "0 < length (sm_conns ?s)" "cn_phase (sm_conns ?s ! 0) = Reading []"
    by (simp_all add: conn_defs mount_stream_def)
  have wire: "\<forall>q \<in> set [js ''x'']. 10 \<notin> set q" "10 \<notin> set (js ''{}'')"
    by (simp_all add: js_eval of_char_def)
  have ev: "?p (js ''{}'') = Some (sample_scan ''2'')" "is_scan (sample_scan ''2'')"
    by (simp_all add: is_scan_def sample_scan_def)
  have eq: "js ''attendance.liveStreamBadge'' @ js '': Terminal User '' @ ae_user_id (sample_scan ''2'') @
      js '' @ '' = js ''attendance.liveStreamBadge: Terminal User 2 @ ''"
    by (simp add: sample_scan_def js_append[symmetric])
  note r = scan_reaches_banner[where parse = "?p" and t = js and bangkok = id and page = an_demo,
      OF conn wire ev, unfolded Let_def, THEN conjunct2, THEN conjunct2, THEN conjunct2]
  let ?c = "chunk ?p 0 (concat (map frame [js ''x'']) @ frame (js ''{}'')) ?s"
  show ?thesis by (rule exI[of _ ?c]) (rule r[unfolded eq])
qed

end
